(* ===== verification/Prelude.thy ===== *)
theory Prelude
  imports Main "HOL-Library.Word"
begin

text \<open>
  Shared vocabulary of the development: the C integer types at their width, the outcome of
  a C function that may stop (an assertion, an exception of the MicroPython runtime, a
  memory access outside its block), sequencing of calls, byte blocks, and the generic
  lemmas about words, lists and sequences that the assembler theories rely on.
\<close>

unbundle bit_operations_syntax

section \<open>Named collections\<close>

named_theorems asm_consts \<open>the numeric values of the C macros\<close>
named_theorems asm_encodes \<open>definitions of the instruction encoding macros\<close>
named_theorems asm_ops \<open>definitions of the emitting operations\<close>
named_theorems two_pass_rules \<open>operations that behave alike in both assembler passes\<close>

section \<open>C integers\<close>

type_synonym u8 = "8 word"
type_synonym u16 = "16 word"
type_synonym u32 = "32 word"
type_synonym u64 = "64 word"

text \<open>
  A C \<open>int\<close> or \<open>mp_int_t\<close> is held in the same word type as its unsigned partner; signed
  comparisons are written with \<open>sint\<close>, the signed (arithmetic) right shift with
  \<open>signed_drop_bit\<close>.
\<close>

definition word_minus_one :: "'w::len word" where
  "word_minus_one = - 1"

lemma unat_word_minus_one: "unat (word_minus_one :: 'w::len word) = 2 ^ LENGTH('w) - 1"
  by (simp add: word_minus_one_def mask_eq_exp_minus_1 unsigned_minus_1_eq_mask)

section \<open>Outcomes and sequencing\<close>

text \<open>
  \<open>AssertionFailed\<close> is a failed \<open>assert\<close>; \<open>NotImplementedError\<close> and \<open>RuntimeError\<close> are
  the exceptions the assemblers raise; \<open>MemoryError\<close> is what the allocator raises;
  \<open>UndefinedBehaviour\<close> is a read or write outside the accessed C object.
\<close>

datatype asm_error =
    AssertionFailed
  | NotImplementedError
  | RuntimeError
  | MemoryError
  | UndefinedBehaviour

text \<open>Errors that are exceptions of the runtime, as opposed to failed assertions.\<close>

fun raised :: "asm_error \<Rightarrow> bool" where
  "raised NotImplementedError = True"
| "raised RuntimeError = True"
| "raised _ = False"

text \<open>An operation on an assembler state either stops with an error or updates the state.\<close>

type_synonym 's asm = "'s \<Rightarrow> asm_error + 's"

definition skip :: "'s asm" where
  "skip s = Inr s"

text \<open>A C statement sequence: stop at the first error.\<close>

fun asm_seq :: "'s asm list \<Rightarrow> 's asm" where
  "asm_seq [] s = Inr s"
| "asm_seq (f # fs) s = (case f s of Inl e \<Rightarrow> Inl e | Inr s' \<Rightarrow> asm_seq fs s')"

text \<open>\<open>if (cond) { stmts }\<close> with no else branch, and \<open>assert(cond)\<close>.\<close>

definition asm_when :: "bool \<Rightarrow> 's asm \<Rightarrow> 's asm" where
  "asm_when b f s = (if b then f s else Inr s)"

definition asm_assert :: "bool \<Rightarrow> 's asm" where
  "asm_assert b s = (if b then Inr s else Inl AssertionFailed)"

text \<open>A call whose result is thrown away.\<close>

definition ignore_result :: "('s \<Rightarrow> asm_error + ('r \<times> 's)) \<Rightarrow> 's asm" where
  "ignore_result f s = (case f s of Inl e \<Rightarrow> Inl e | Inr (r, t) \<Rightarrow> Inr t)"

lemma skip_apply [simp]: "skip s = Inr s"
  by (simp add: skip_def)

lemma asm_when_simps [simp]:
  "asm_when True f = f"
  "asm_when False f = skip"
  by (auto simp: asm_when_def fun_eq_iff)

lemma asm_assert_simps [simp]:
  "asm_assert True = skip"
  "asm_assert False s = Inl AssertionFailed"
  by (auto simp: asm_assert_def fun_eq_iff)

lemma asm_assert_Inr_iff: "asm_assert b s = Inr t \<longleftrightarrow> b \<and> t = s"
  by (auto simp: asm_assert_def)

lemma asm_seq_append:
  "asm_seq (fs @ gs) s = (case asm_seq fs s of Inl e \<Rightarrow> Inl e | Inr s' \<Rightarrow> asm_seq gs s')"
  by (induction fs arbitrary: s) (auto split: sum.splits)

lemma asm_seq_singleton [simp]: "asm_seq [f] = f"
  by (auto simp: fun_eq_iff split: sum.splits)

lemma asm_seq_Cons_Inr_iff:
  "asm_seq (f # fs) s = Inr t \<longleftrightarrow> (\<exists>u. f s = Inr u \<and> asm_seq fs u = Inr t)"
  by (auto split: sum.splits)

section \<open>Byte blocks\<close>

text \<open>Little-endian bytes of a word, as the shifting loops of the sources produce them.\<close>

fun le_bytes :: "nat \<Rightarrow> 'a::len word \<Rightarrow> u8 list" where
  "le_bytes 0 w = []"
| "le_bytes (Suc n) w = ucast w # le_bytes n (drop_bit 8 w)"

lemma length_le_bytes [simp]: "length (le_bytes n w) = n"
  by (induction n arbitrary: w) auto

lemma le_bytes_1: "le_bytes 1 w = [ucast w]"
  by simp

lemma nth_le_bytes: "i < n \<Longrightarrow> le_bytes n w ! i = ucast (drop_bit (8 * i) w)"
proof (induction n arbitrary: i w)
  case 0
  then show ?case by simp
next
  case (Suc n)
  then show ?case by (cases i) (auto simp: add.commute)
qed

text \<open>Reading a little-endian word back.\<close>

fun le_word :: "u8 list \<Rightarrow> 'a::len word" where
  "le_word [] = 0"
| "le_word (b # bs) = ucast b OR push_bit 8 (le_word bs)"

lemma le_word_le_bytes: "le_word (le_bytes n w) = take_bit (8 * n) (w :: 'a::len word)"
proof (induction n arbitrary: w)
  case 0
  then show ?case by simp
next
  case (Suc n)
  show ?case
    by (rule bit_word_eqI)
      (auto simp: Suc.IH bit_simps not_less dest: bit_imp_le_length)
qed

text \<open>Overwriting part of a block.\<close>

definition store_at :: "nat \<Rightarrow> 'a list \<Rightarrow> 'a list \<Rightarrow> 'a list" where
  "store_at off bs mem = take off mem @ bs @ drop (off + length bs) mem"

lemma length_store_at [simp]:
  "off + length bs \<le> length mem \<Longrightarrow> length (store_at off bs mem) = length mem"
  by (simp add: store_at_def)

lemma store_at_Nil [simp]: "store_at off [] mem = mem"
  by (simp add: store_at_def)

lemma store_at_read:
  assumes "off + length bs \<le> length mem"
  shows "take (length bs) (drop off (store_at off bs mem)) = bs"
  using assms by (simp add: store_at_def)

lemma nth_store_at_other:
  assumes "off + length bs \<le> length mem" "i < off \<or> off + length bs \<le> i" "i < length mem"
  shows "store_at off bs mem ! i = mem ! i"
  using assms by (auto simp: store_at_def nth_append)

lemma store_at_append:
  assumes "off + length as + length bs \<le> length mem"
  shows "store_at (off + length as) bs (store_at off as mem) = store_at off (as @ bs) mem"
  using assms by (simp add: store_at_def ac_simps)

section \<open>Words\<close>

text \<open>Equality of words bit by bit, over an explicit list of positions that \<open>simp\<close> unfolds.\<close>

lemma upt_32: "[0..<32] =
     [0, 1, 2, 3, 4, 5, 6, 7, 8, 9, 10, 11, 12, 13, 14, 15, 16, 17, 18, 19, 20, 21, 22,
      23, 24, 25, 26, 27, 28, 29, 30, 31]"
  by (simp add: upt_rec)

lemma word32_eq_iff_bits:
  "(v :: u32) = w \<longleftrightarrow> list_all (\<lambda>n. bit v n = bit w n)
     [0, 1, 2, 3, 4, 5, 6, 7, 8, 9, 10, 11, 12, 13, 14, 15, 16, 17, 18, 19, 20, 21, 22,
      23, 24, 25, 26, 27, 28, 29, 30, 31]"
  unfolding upt_32 [symmetric] by (auto simp: bit_eq_iff list_all_iff dest: bit_imp_le_length)

lemma upt_16: "[0..<16] =
     [0, 1, 2, 3, 4, 5, 6, 7, 8, 9, 10, 11, 12, 13, 14, 15]"
  by (simp add: upt_rec)

lemma word16_eq_iff_bits:
  "(v :: u16) = w \<longleftrightarrow> list_all (\<lambda>n. bit v n = bit w n)
     [0, 1, 2, 3, 4, 5, 6, 7, 8, 9, 10, 11, 12, 13, 14, 15]"
  unfolding upt_16 [symmetric] by (auto simp: bit_eq_iff list_all_iff dest: bit_imp_le_length)

lemma upt_8: "[0..<8] =
     [0, 1, 2, 3, 4, 5, 6, 7]"
  by (simp add: upt_rec)

lemma word8_eq_iff_bits:
  "(v :: u8) = w \<longleftrightarrow> list_all (\<lambda>n. bit v n = bit w n)
     [0, 1, 2, 3, 4, 5, 6, 7]"
  unfolding upt_8 [symmetric] by (auto simp: bit_eq_iff list_all_iff dest: bit_imp_le_length)

lemma bit_times_2_iff:
  "bit (a * 2 :: 'w::len word) n \<longleftrightarrow> 0 < n \<and> n < LENGTH('w) \<and> bit a (n - 1)"
  using bit_double_iff [of a n] by (auto simp: mult.commute)

text \<open>The rules that finish a comparison of two words bit by bit.\<close>

lemmas word_bits_simps = bit_simps bit_times_2_iff numeral_2_eq_2 [symmetric]

lemma unat_add_of_nat:
  assumes "unat (a :: 'w::len word) + n < 2 ^ LENGTH('w)"
  shows "unat (a + word_of_nat n) = unat a + n"
  using assms by (simp add: unat_word_ariths unat_of_nat take_bit_eq_mod mod_simps)

text \<open>The sign of a difference of two offsets that both lie in the lower half of the range.\<close>

lemma sint_sub_small:
  fixes a b :: "'w::len word"
  assumes "unat a < 2 ^ (LENGTH('w) - 1)" "unat b < 2 ^ (LENGTH('w) - 1)"
  shows "sint (a - b) = int (unat a) - int (unat b)"
proof -
  have ab: "int (unat a) < 2 ^ (LENGTH('w) - 1)" "int (unat b) < 2 ^ (LENGTH('w) - 1)"
    using assms by (metis of_nat_less_numeral_power_cancel_iff)+
  have s: "sint a = int (unat a)" "sint b = int (unat b)"
    using ab signed_take_bit_int_eq_self [of "LENGTH('w) - 1" "uint a"]
      signed_take_bit_int_eq_self [of "LENGTH('w) - 1" "uint b"]
    by (simp_all add: sint_uint order_trans [of _ 0])
  have "sint (a - b) = signed_take_bit (LENGTH('w) - 1) (sint a - sint b)"
    by (simp add: sint_word_ariths)
  also have "\<dots> = int (unat a) - int (unat b)"
    using ab unfolding s by (intro signed_take_bit_int_eq_self; linarith)
  finally show ?thesis .
qed

text \<open>Rounding up to a multiple.\<close>

lemma round_up_bounds:
  fixes a :: nat
  assumes "0 < a"
  shows "x \<le> (x + a - 1) div a * a" "(x + a - 1) div a * a \<le> x + a - 1"
    "(x + a - 1) div a * a < x + a"
proof -
  have "(x + a - 1) div a * a + (x + a - 1) mod a = x + a - 1"
    by simp
  moreover have "(x + a - 1) mod a < a" using assms by simp
  ultimately show "x \<le> (x + a - 1) div a * a" "(x + a - 1) div a * a \<le> x + a - 1"
    "(x + a - 1) div a * a < x + a"
    using assms by linarith+
qed

text \<open>The upper bits of a word whose signed value fits in fewer bits all equal the sign.\<close>

lemma bit_int_small:
  fixes i :: int
  assumes "- (2 ^ n) \<le> i" "i < 2 ^ n" "n \<le> k"
  shows "bit i k \<longleftrightarrow> i < 0"
proof -
  have p: "(2 :: int) ^ n \<le> 2 ^ k" using assms(3) by (rule power_increasing) simp
  have "i div 2 ^ k = (if i < 0 then - 1 else 0)"
  proof (cases "i < 0")
    case True
    then have "i = 2 ^ k * - 1 + (i + 2 ^ k)" "0 \<le> i + 2 ^ k" "i + 2 ^ k < 2 ^ k"
      using p assms(1) by linarith+
    then have "i div 2 ^ k = - 1" by (rule int_div_pos_eq)
    with True show ?thesis by simp
  next
    case False
    then have "i div 2 ^ k = 0" using p assms(2) by (intro div_pos_pos_trivial) linarith+
    with False show ?thesis by simp
  qed
  then show ?thesis by (simp add: bit_iff_odd)
qed

lemma bit_signed_small:
  assumes "- (2 ^ n) \<le> sint w" "sint w < 2 ^ n" "n \<le> k" "k < LENGTH('w)"
  shows "bit (w :: 'w::len word) k \<longleftrightarrow> sint w < 0"
  using bit_int_small [OF assms(1-3)] assms(4) by (simp add: bit_sint_iff not_le)

lemma takeWhile_nth_False: "n < length (takeWhile P xs) \<Longrightarrow> P (xs ! n)"
  by (metis nth_mem set_takeWhileD takeWhile_nth)

lemma take_bit_word_iff: "take_bit k (n :: u32) = n \<longleftrightarrow> unat n < 2 ^ k"
  by (simp add: word_eq_iff_unsigned [where ?'a = nat] unsigned_take_bit_eq take_bit_nat_eq_self_iff)

text \<open>Small words fit their fields.\<close>

lemma small_fields: "r < 8 \<Longrightarrow> take_bit 3 r = (r :: u32)" "r < 16 \<Longrightarrow> take_bit 4 r = (r :: u32)"
  "r < 32 \<Longrightarrow> take_bit 5 r = (r :: u32)" "r < 128 \<Longrightarrow> take_bit 7 r = (r :: u32)"
  by (simp_all add: take_bit_word_iff word_less_nat_alt)

lemma and_3_dvd: "x AND 3 = 0 \<longleftrightarrow> 4 dvd (x :: u32)"
  using take_bit_eq_mask [of 2 x] take_bit_eq_0_iff [of 2 x] by (simp add: mask_eq_exp_minus_1)

lemma four_dvd_8: "4 dvd (8 :: u32)"
  by (rule dvdI [of _ _ 2]) simp

end
