(* ===== verification/Asm_Base.thy ===== *)
theory Asm_Base
  imports Prelude
begin

text \<open>
  The state every native assembler shares and its operations:
  \<open>src/bank/uPython-ASM/asmbase.h\<close> and \<open>asmbase.c\<close>. The C struct \<open>mp_asm_base_t\<close> is the
  first member of each assembler's own struct, so here it is a record that the assemblers
  extend; \<open>'w\<close> is the width of \<open>size_t\<close> on the target.

  A pointer into the code buffer is the offset it points at, \<open>NULL\<close> is \<open>None\<close>, and the
  buffer itself is the byte list \<open>code_base\<close> (\<open>None\<close> before it is allocated). The two
  allocators the file calls but does not define, \<open>m_new\<close> and \<open>MP_PLAT_ALLOC_EXEC\<close>, are
  parameters of the operations that call them.
\<close>

section \<open>State\<close>

definition MP_ASM_PASS_COMPUTE :: int where
  [asm_consts]: "MP_ASM_PASS_COMPUTE = 1"

definition MP_ASM_PASS_EMIT :: int where
  [asm_consts]: "MP_ASM_PASS_EMIT = 2"

record (overloaded) 'w mp_asm_base_t =
  pass :: u8
  suppress :: bool
  code_offset :: "('w::len) word"
  code_size :: "('w::len) word"
  code_base :: "u8 list option"
  max_num_labels :: "('w::len) word"
  label_offsets :: "('w::len) word list"

text \<open>\<open>as->pass == MP_ASM_PASS_EMIT\<close>\<close>

definition in_emit_pass :: "('w::len, 'z) mp_asm_base_t_scheme \<Rightarrow> bool" where
  "in_emit_pass as \<longleftrightarrow> uint (pass as) = MP_ASM_PASS_EMIT"

lemma in_emit_pass_updates [simp]:
  "in_emit_pass (as\<lparr>suppress := b\<rparr>) = in_emit_pass as"
  "in_emit_pass (as\<lparr>code_offset := x\<rparr>) = in_emit_pass as"
  "in_emit_pass (as\<lparr>code_size := y\<rparr>) = in_emit_pass as"
  "in_emit_pass (as\<lparr>code_base := mem\<rparr>) = in_emit_pass as"
  "in_emit_pass (as\<lparr>max_num_labels := n\<rparr>) = in_emit_pass as"
  "in_emit_pass (as\<lparr>label_offsets := L\<rparr>) = in_emit_pass as"
  by (simp_all add: in_emit_pass_def)

section \<open>Operations\<close>

text \<open>\<open>m_new\<close> either yields a block of the wanted length, with whatever it holds, or raises.\<close>

definition mp_asm_base_init ::
    "('w::len word \<Rightarrow> 'w word list option) \<Rightarrow> 'w word \<Rightarrow> ('w, 'z) mp_asm_base_t_scheme asm" where
  "mp_asm_base_init m_new n as =
     (case m_new n of
        None \<Rightarrow> Inl MemoryError
      | Some block \<Rightarrow> Inr (as\<lparr>max_num_labels := n, label_offsets := block\<rparr>))"

text \<open>The calls \<open>mp_asm_base_deinit\<close> makes to give memory back, in order.\<close>

datatype 'size free_call =
    Free_exec "u8 list option" 'size
  | Free_labels "'size list" 'size

definition mp_asm_base_deinit ::
    "bool \<Rightarrow> ('w::len, 'z) mp_asm_base_t_scheme \<Rightarrow> 'w word free_call list" where
  "mp_asm_base_deinit free_code as =
     (if free_code then [Free_exec (code_base as) (code_size as)] else []) @
     [Free_labels (label_offsets as) (max_num_labels as)]"

text \<open>
  \<open>MP_PLAT_ALLOC_EXEC(min_size, &base, &size)\<close> is the argument \<open>alloc\<close>: it gives the block
  (or \<open>None\<close>) and the size it stored.
\<close>

definition mp_asm_base_start_pass ::
    "('w::len word \<Rightarrow> u8 list option \<times> 'w word) \<Rightarrow> int \<Rightarrow> ('w, 'z) mp_asm_base_t_scheme asm" where
  "mp_asm_base_start_pass alloc p as =
     (case (if p < MP_ASM_PASS_EMIT
            then Inr (as\<lparr>label_offsets := replicate (unat (max_num_labels as)) (- 1)\<rparr>)
            else let (base, size) = alloc (code_offset as)
                 in if size = 0 \<or> base \<noteq> None
                    then Inr (as\<lparr>code_base := base, code_size := size\<rparr>)
                    else Inl AssertionFailed) of
        Inl e \<Rightarrow> Inl e
      | Inr as' \<Rightarrow> Inr (as'\<lparr>pass := word_of_int p, suppress := False, code_offset := 0\<rparr>))"

text \<open>
  All bytes go through this function. Outside the emit pass it only counts; it returns
  \<open>None\<close> (NULL) when the caller must not store.
\<close>

definition mp_asm_base_get_cur_to_write_bytes ::
    "'w::len word \<Rightarrow> ('w, 'z) mp_asm_base_t_scheme \<Rightarrow>
       asm_error + ('w word option \<times> ('w, 'z) mp_asm_base_t_scheme)" where
  "mp_asm_base_get_cur_to_write_bytes n as =
     (if suppress as then Inr (None, as)
      else if in_emit_pass as then
        if code_offset as + n \<le> code_size as
        then Inr (Some (code_offset as), as\<lparr>code_offset := code_offset as + n\<rparr>)
        else Inl AssertionFailed
      else Inr (None, as\<lparr>code_offset := code_offset as + n\<rparr>))"

text \<open>Storing through a pointer into the code buffer: \<open>c[0] = ...; c[1] = ...;\<close>\<close>

definition mp_store_bytes ::
    "'w::len word \<Rightarrow> u8 list \<Rightarrow> ('w, 'z) mp_asm_base_t_scheme asm" where
  "mp_store_bytes c bs as =
     (case code_base as of
        None \<Rightarrow> if bs = [] then Inr as else Inl UndefinedBehaviour
      | Some mem \<Rightarrow>
          if unat c + length bs \<le> length mem
          then Inr (as\<lparr>code_base := Some (store_at (unat c) bs mem)\<rparr>)
          else Inl UndefinedBehaviour)"

text \<open>
  The idiom of every writer in the assemblers: get the cursor for the bytes at hand and
  store them when it is not NULL.
\<close>

definition emit_bytes :: "u8 list \<Rightarrow> ('w::len, 'z) mp_asm_base_t_scheme asm" where
  "emit_bytes bs as =
     (case mp_asm_base_get_cur_to_write_bytes (word_of_nat (length bs)) as of
        Inl e \<Rightarrow> Inl e
      | Inr (None, as') \<Rightarrow> Inr as'
      | Inr (Some c, as') \<Rightarrow> mp_store_bytes c bs as')"

text \<open>\<open>as->label_offsets[label]\<close>\<close>

definition label_offset :: "'w::len word \<Rightarrow> ('w, 'z) mp_asm_base_t_scheme \<Rightarrow> asm_error + 'w word" where
  "label_offset l as =
     (if unat l < length (label_offsets as) then Inr (label_offsets as ! unat l)
      else Inl UndefinedBehaviour)"

definition mp_asm_base_label_assign :: "'w::len word \<Rightarrow> ('w, 'z) mp_asm_base_t_scheme asm" where
  "mp_asm_base_label_assign l as =
     (if \<not> l < max_num_labels as then Inl AssertionFailed
      else let as' = as\<lparr>suppress := False\<rparr>
      in case label_offset l as' of
           Inl e \<Rightarrow> Inl e
         | Inr off \<Rightarrow>
             if uint (pass as') < MP_ASM_PASS_EMIT then
               if off = - 1
               then Inr (as'\<lparr>label_offsets := (label_offsets as')[unat l := code_offset as']\<rparr>)
               else Inl AssertionFailed
             else if off = code_offset as' then Inr as' else Inl AssertionFailed)"

definition mp_asm_base_align :: "u32 \<Rightarrow> ('w::len, 'z) mp_asm_base_t_scheme asm" where
  "mp_asm_base_align align as =
     Inr (as\<lparr>code_offset := (code_offset as + ucast align - 1) AND NOT (ucast (align - 1))\<rparr>)"

definition mp_asm_base_data :: "u32 \<Rightarrow> 'w::len word \<Rightarrow> ('w, 'z) mp_asm_base_t_scheme asm" where
  "mp_asm_base_data bytesize val as = emit_bytes (le_bytes (unat bytesize) val) as"

definition mp_asm_base_suppress_code :: "('w::len, 'z) mp_asm_base_t_scheme asm" where
  "mp_asm_base_suppress_code as = Inr (as\<lparr>suppress := True\<rparr>)"

definition mp_asm_base_get_code_pos :: "('w::len, 'z) mp_asm_base_t_scheme \<Rightarrow> 'w word" where
  "mp_asm_base_get_code_pos as = code_offset as"

definition mp_asm_base_get_code_size :: "('w::len, 'z) mp_asm_base_t_scheme \<Rightarrow> 'w word" where
  "mp_asm_base_get_code_size as = code_size as"

text \<open>
  \<open>MP_PLAT_COMMIT_EXEC\<close>, when the port defines it, is the argument \<open>commit\<close>; a port that
  does not returns the buffer itself.
\<close>

definition mp_asm_base_get_code ::
    "(u8 list option \<Rightarrow> 'w::len word \<Rightarrow> u8 list option) option \<Rightarrow>
       ('w, 'z) mp_asm_base_t_scheme \<Rightarrow> u8 list option" where
  "mp_asm_base_get_code commit as =
     (case commit of Some f \<Rightarrow> f (code_base as) (code_size as) | None \<Rightarrow> code_base as)"

section \<open>Well-formed states\<close>

text \<open>
  The label table has the announced length, and in the emit pass the buffer holds at least
  \<open>code_size\<close> bytes.
\<close>

definition asm_base_wf :: "('w::len, 'z) mp_asm_base_t_scheme \<Rightarrow> bool" where
  "asm_base_wf as \<longleftrightarrow>
     length (label_offsets as) = unat (max_num_labels as) \<and>
     (in_emit_pass as \<longrightarrow>
        unat (code_size as) \<le> length (case code_base as of None \<Rightarrow> [] | Some mem \<Rightarrow> mem))"

text \<open>How the writer behaves, pass by pass.\<close>

lemma emit_bytes_suppressed [simp]: "suppress as \<Longrightarrow> emit_bytes bs as = Inr as"
  by (simp add: emit_bytes_def mp_asm_base_get_cur_to_write_bytes_def)

lemma emit_bytes_count:
  "\<not> suppress as \<Longrightarrow> \<not> in_emit_pass as \<Longrightarrow>
     emit_bytes bs as = Inr (as\<lparr>code_offset := code_offset as + word_of_nat (length bs)\<rparr>)"
  by (simp add: emit_bytes_def mp_asm_base_get_cur_to_write_bytes_def)

lemma emit_bytes_store:
  fixes as :: "('w::len, 'z) mp_asm_base_t_scheme"
  assumes "\<not> suppress as" "in_emit_pass as" "code_base as = Some mem"
    and "unat (code_size as) \<le> length mem"
    and "unat (code_offset as) + length bs \<le> unat (code_size as)"
  shows "emit_bytes bs as =
     Inr (as\<lparr>code_offset := code_offset as + word_of_nat (length bs),
             code_base := Some (store_at (unat (code_offset as)) bs mem)\<rparr>)"
proof -
  have "unat (code_offset as) + length bs < 2 ^ LENGTH('w)"
    using assms(5) unsigned_less [of "code_size as"] by (rule order_le_less_trans)
  then have "unat (code_offset as + word_of_nat (length bs)) = unat (code_offset as) + length bs"
    by (rule unat_add_of_nat)
  then have "code_offset as + word_of_nat (length bs) \<le> code_size as"
    using assms(5) by (simp add: word_le_nat_alt)
  then show ?thesis
    using assms
    by (simp add: emit_bytes_def mp_asm_base_get_cur_to_write_bytes_def mp_store_bytes_def)
qed

lemma emit_bytes_keeps:
  assumes "emit_bytes bs as = Inr as'"
  shows "pass as' = pass as" "suppress as' = suppress as" "code_size as' = code_size as"
    "max_num_labels as' = max_num_labels as" "label_offsets as' = label_offsets as"
    "mp_asm_base_t.more as' = mp_asm_base_t.more as"
  using assms
  by (auto simp: emit_bytes_def mp_asm_base_get_cur_to_write_bytes_def mp_store_bytes_def
      split: if_splits option.splits)

section \<open>Several writes in a row\<close>

text \<open>A piece of straight-line code, instruction by instruction.\<close>

definition emit_code :: "u8 list list \<Rightarrow> ('w::len, 'z) mp_asm_base_t_scheme asm" where
  "emit_code js = asm_seq (map emit_bytes js)"

lemma emit_bytes_as_code: "emit_bytes bs = emit_code [bs]"
  by (simp add: emit_code_def)

lemma asm_seq_emit_codes: "asm_seq (map emit_code jss) = emit_code (concat jss)"
proof
  show "asm_seq (map emit_code jss) s = emit_code (concat jss) s"
    for s :: "('w::len, 'z) mp_asm_base_t_scheme"
    by (induction jss arbitrary: s) (auto simp: emit_code_def asm_seq_append split: sum.splits)
qed

lemma asm_seq_emit_code2: "asm_seq [emit_code as, emit_code bs] = emit_code (as @ bs)"
  using asm_seq_emit_codes [of "[as, bs]"] by simp

lemma asm_seq_emit_code3:
  "asm_seq [emit_code as, emit_code bs, emit_code cs] = emit_code (as @ bs @ cs)"
  using asm_seq_emit_codes [of "[as, bs, cs]"] by simp

lemma asm_seq_emit_code4:
  "asm_seq [emit_code as, emit_code bs, emit_code cs, emit_code ds] = emit_code (as @ bs @ cs @ ds)"
  using asm_seq_emit_codes [of "[as, bs, cs, ds]"] by simp

lemma if_emit_code: "(if b then emit_code as else emit_code bs) = emit_code (if b then as else bs)"
  by simp

lemma skip_as_code: "skip = emit_code []"
  by (simp add: emit_code_def fun_eq_iff)

text \<open>Rewriting operations that do not depend on the state into the code they write.\<close>

lemmas asm_seq_code =
  emit_bytes_as_code asm_seq_emit_code2 asm_seq_emit_code3 asm_seq_emit_code4
  asm_seq_singleton if_emit_code skip_as_code

text \<open>In the emit pass, with room, the bytes of all instructions end up one after the other.\<close>

lemma emit_code_store:
  fixes as :: "('w::len, 'z) mp_asm_base_t_scheme"
  assumes "\<not> suppress as" "in_emit_pass as" "code_base as = Some mem"
    and "unat (code_size as) \<le> length mem"
    and "unat (code_offset as) + length (concat js) \<le> unat (code_size as)"
  shows "emit_code js as =
     Inr (as\<lparr>code_offset := code_offset as + word_of_nat (length (concat js)),
             code_base := Some (store_at (unat (code_offset as)) (concat js) mem)\<rparr>)"
  using assms
proof (induction js arbitrary: as mem)
  case Nil
  then show ?case by (simp add: emit_code_def)
next
  case (Cons j js)
  let ?as = "as\<lparr>code_offset := code_offset as + word_of_nat (length j),
    code_base := Some (store_at (unat (code_offset as)) j mem)\<rparr>"
  have j: "emit_bytes j as = Inr ?as"
    using Cons.prems by (intro emit_bytes_store) auto
  have off: "unat (code_offset as + word_of_nat (length j)) = unat (code_offset as) + length j"
  proof (rule unat_add_of_nat)
    have "unat (code_offset as) + length j \<le> unat (code_size as)" using Cons.prems(5) by simp
    then show "unat (code_offset as) + length j < 2 ^ LENGTH('w)"
      using unsigned_less [of "code_size as"] by (rule order_le_less_trans)
  qed
  have "emit_code js ?as = Inr (?as\<lparr>code_offset := code_offset ?as + word_of_nat (length (concat js)),
      code_base := Some (store_at (unat (code_offset ?as)) (concat js) (store_at (unat (code_offset as)) j mem))\<rparr>)"
    using Cons.prems off by (intro Cons.IH) auto
  moreover have "emit_code (j # js) as = emit_code js ?as"
    by (simp add: emit_code_def j)
  ultimately show ?case
    using Cons.prems off store_at_append [of "unat (code_offset as)" j "concat js" mem]
    by (simp add: add.assoc)
qed

section \<open>Operations that keep what an assembler adds to the state\<close>

text \<open>They change fields of the base record only, and raise no exception.\<close>

definition keeps_added :: "('w::len, 'z) mp_asm_base_t_scheme asm \<Rightarrow> bool" where
  "keeps_added f \<longleftrightarrow>
     (\<forall>s. case f s of Inr t \<Rightarrow> mp_asm_base_t.more t = mp_asm_base_t.more s | Inl e \<Rightarrow> \<not> raised e)"

lemma keeps_addedD:
  assumes "keeps_added f"
  shows "f s = Inr t \<Longrightarrow> mp_asm_base_t.more t = mp_asm_base_t.more s" "f s = Inl e \<Longrightarrow> \<not> raised e"
  using assms [unfolded keeps_added_def, rule_format, of s] by auto

lemma keeps_addedI:
  assumes "\<And>s t. f s = Inr t \<Longrightarrow> mp_asm_base_t.more t = mp_asm_base_t.more s"
    and "\<And>s e. f s = Inl e \<Longrightarrow> \<not> raised e"
  shows "keeps_added f"
  using assms by (auto simp: keeps_added_def split: sum.split)

lemma emit_bytes_errors: "emit_bytes bs s = Inl e \<Longrightarrow> e = AssertionFailed \<or> e = UndefinedBehaviour"
  by (auto simp: emit_bytes_def mp_asm_base_get_cur_to_write_bytes_def mp_store_bytes_def
      split: if_splits option.splits)

lemma keeps_added_emit_bytes: "keeps_added (emit_bytes bs)"
  by (rule keeps_addedI) (auto simp: emit_bytes_keeps dest: emit_bytes_errors)

lemma keeps_added_skip: "keeps_added skip"
  by (simp add: keeps_added_def)

lemma keeps_added_assert: "keeps_added (asm_assert b)"
  by (simp add: keeps_added_def asm_assert_def)

lemma keeps_added_Cons: "keeps_added f \<Longrightarrow> keeps_added (asm_seq fs) \<Longrightarrow> keeps_added (asm_seq (f # fs))"
  by (rule keeps_addedI) (auto simp: keeps_addedD(1) dest: keeps_addedD(2) split: sum.splits)

lemma keeps_added_seq: "\<forall>f \<in> set fs. keeps_added f \<Longrightarrow> keeps_added (asm_seq fs)"
proof (induction fs)
  case Nil
  show ?case by (simp add: keeps_added_def)
next
  case (Cons f fs)
  then show ?case by (intro keeps_added_Cons) auto
qed

lemma keeps_added_emit_code: "keeps_added (emit_code js)"
  unfolding emit_code_def by (rule keeps_added_seq) (auto intro: keeps_added_emit_bytes)

lemma keeps_added_cond: "keeps_added f \<Longrightarrow> keeps_added g \<Longrightarrow> keeps_added (if b then f else g)"
  by simp

lemmas keeps_added_rules =
  keeps_added_emit_bytes keeps_added_skip keeps_added_assert keeps_added_seq
  keeps_added_emit_code keeps_added_cond

lemma base_keeps_added:
  "keeps_added (mp_asm_base_label_assign l)"
  "keeps_added (mp_asm_base_align align)"
  "keeps_added (mp_asm_base_data bytesize val)"
  "keeps_added mp_asm_base_suppress_code"
  by (rule keeps_addedI; auto simp: mp_asm_base_label_assign_def mp_asm_base_align_def
      mp_asm_base_data_def mp_asm_base_suppress_code_def emit_bytes_keeps Let_def label_offset_def
      split: if_splits sum.splits dest: emit_bytes_errors)+

section \<open>The helpers of \<open>py/misc.h\<close>\<close>

text \<open>
  The assemblers use a few macros and functions of the runtime that are not part of these
  sources. They are fields of an environment the assemblers take; \<open>mp_env_ok\<close> is what their
  documentation promises.
\<close>

record mp_env =
  MP_ENDIANNESS_LITTLE :: bool
  mp_popcount :: "u32 \<Rightarrow> u32"
  mp_clz :: "u32 \<Rightarrow> u32"
  mp_ctz :: "u32 \<Rightarrow> u32"
  MP_FIT_SIGNED :: "nat \<Rightarrow> u32 \<Rightarrow> bool"
  MP_FIT_UNSIGNED :: "nat \<Rightarrow> u32 \<Rightarrow> bool"

definition fits_signed :: "nat \<Rightarrow> u32 \<Rightarrow> bool" where
  "fits_signed n v \<longleftrightarrow> - (2 ^ (n - 1)) \<le> sint v \<and> sint v < 2 ^ (n - 1)"

definition fits_unsigned :: "nat \<Rightarrow> u32 \<Rightarrow> bool" where
  "fits_unsigned n v \<longleftrightarrow> uint v < 2 ^ n"

definition count_leading_zeros :: "u32 \<Rightarrow> nat" where
  "count_leading_zeros x = length (takeWhile (\<lambda>i. \<not> bit x i) (rev [0..<32]))"

definition count_trailing_zeros :: "u32 \<Rightarrow> nat" where
  "count_trailing_zeros x = length (takeWhile (\<lambda>i. \<not> bit x i) [0..<32])"

definition count_ones :: "u32 \<Rightarrow> nat" where
  "count_ones x = length (filter (bit x) [0..<32])"

text \<open>The set bits of a word are between its trailing and its leading zeros.\<close>

lemma count_zeros_bound:
  assumes "bit (x :: u32) n"
  shows "count_trailing_zeros x \<le> n" "n + count_leading_zeros x < 32"
proof -
  have n: "n < 32" using bit_imp_le_length [OF assms] by simp
  show "count_trailing_zeros x \<le> n"
  proof (rule ccontr)
    assume "\<not> count_trailing_zeros x \<le> n"
    then have "\<not> bit x ([0..<32] ! n)"
      unfolding count_trailing_zeros_def by (intro takeWhile_nth_False [where P = "\<lambda>i. \<not> bit x i"]) simp
    with n assms show False by (simp del: upt_rec_numeral)
  qed
  show "n + count_leading_zeros x < 32"
  proof (rule ccontr)
    assume "\<not> n + count_leading_zeros x < 32"
    then have "31 - n < count_leading_zeros x" using n by linarith
    then have "\<not> bit x (rev [0..<32] ! (31 - n))"
      unfolding count_leading_zeros_def by (intro takeWhile_nth_False [where P = "\<lambda>i. \<not> bit x i"]) simp
    with n assms show False by (simp add: rev_nth del: upt_rec_numeral)
  qed
qed

lemma count_zeros_nonzero:
  assumes "(x :: u32) \<noteq> 0"
  shows "count_leading_zeros x + count_trailing_zeros x < 32"
proof -
  obtain n where "bit x n" using assms by (metis bit_eq_iff bit_0_eq bot_apply bot_bool_def)
  then show ?thesis using count_zeros_bound [of x n] by linarith
qed

text \<open>\<open>mp_clz\<close> and \<open>mp_ctz\<close> promise nothing for 0.\<close>

definition mp_env_ok :: "'z mp_env_scheme \<Rightarrow> bool" where
  "mp_env_ok env \<longleftrightarrow>
     (\<forall>x. mp_popcount env x = word_of_nat (count_ones x)) \<and>
     (\<forall>x. x \<noteq> 0 \<longrightarrow> mp_clz env x = word_of_nat (count_leading_zeros x)) \<and>
     (\<forall>x. x \<noteq> 0 \<longrightarrow> mp_ctz env x = word_of_nat (count_trailing_zeros x)) \<and>
     (\<forall>n v. 0 < n \<and> n < 32 \<longrightarrow> MP_FIT_SIGNED env n v = fits_signed n v) \<and>
     (\<forall>n v. n < 32 \<longrightarrow> MP_FIT_UNSIGNED env n v = fits_unsigned n v)"

end
