(* ===== verification/Two_Pass.thy ===== *)
theory Two_Pass
  imports Asm_Base
begin

text \<open>
  Why assembling in two passes works. The compute pass only counts bytes and records where
  the labels fall; the emit pass repeats the same operations, stores bytes into a buffer of
  the counted size and asserts that every label falls where it did before. This holds only
  when each operation takes the same number of bytes in both passes although a forward
  label is still unknown in the first. \<open>two_pass_ok\<close> is that contract for one operation,
  with rules for the shapes the assemblers are built from; the locale
  \<open>two_pass_assembler\<close> lifts it to whole programs.
\<close>

section \<open>States of the two passes side by side\<close>

abbreviation compute_state :: "('w::len, 'z) mp_asm_base_t_scheme \<Rightarrow> bool" where
  "compute_state c \<equiv>
     uint (pass c) < MP_ASM_PASS_EMIT \<and> length (label_offsets c) = unat (max_num_labels c)"

lemma compute_state_not_emit [simp]: "uint (pass c) < MP_ASM_PASS_EMIT \<Longrightarrow> \<not> in_emit_pass c"
  by (simp add: in_emit_pass_def)

lemma emit_not_compute [simp]: "in_emit_pass e \<Longrightarrow> \<not> uint (pass e) < MP_ASM_PASS_EMIT"
  by (simp add: in_emit_pass_def)

text \<open>What one or more operations of the compute pass may do to the base state.\<close>

definition grows :: "nat \<Rightarrow> ('w::len, 'z) mp_asm_base_t_scheme \<Rightarrow>
    ('w, 'z) mp_asm_base_t_scheme \<Rightarrow> bool" where
  "grows n c c' \<longleftrightarrow>
     pass c' = pass c \<and> max_num_labels c' = max_num_labels c \<and>
     length (label_offsets c') = length (label_offsets c) \<and>
     unat (code_offset c) \<le> unat (code_offset c') \<and>
     unat (code_offset c') \<le> unat (code_offset c) + n \<and>
     (\<forall>l < length (label_offsets c).
        (label_offsets c ! l \<noteq> - 1 \<longrightarrow> label_offsets c' ! l = label_offsets c ! l) \<and>
        (label_offsets c ! l = - 1 \<longrightarrow> label_offsets c' ! l = - 1 \<or>
           code_offset c \<le> label_offsets c' ! l \<and> label_offsets c' ! l \<le> code_offset c'))"

text \<open>
  The final label table \<open>L\<close> agrees with the labels known in \<open>c\<close>, and puts every label that
  is still unknown at or after the current offset.
\<close>

definition labels_ahead :: "'w::len word list \<Rightarrow> ('w, 'z) mp_asm_base_t_scheme \<Rightarrow> bool" where
  "labels_ahead L c \<longleftrightarrow> length L = length (label_offsets c) \<and>
     (\<forall>l < length L.
        (label_offsets c ! l \<noteq> - 1 \<longrightarrow> L ! l = label_offsets c ! l) \<and>
        (label_offsets c ! l = - 1 \<longrightarrow> L ! l = - 1 \<or> code_offset c \<le> L ! l))"

text \<open>
  The compute-pass state \<open>c\<close> and the emit-pass state \<open>e\<close> at the same point of the program;
  \<open>R\<close> relates the parts the assemblers add to the base record, and all known labels lie
  within \<open>lim\<close>. Such an \<open>R\<close> reads nothing of the base record itself.
\<close>

definition added_rel ::
    "(('w::len, 'z) mp_asm_base_t_scheme \<Rightarrow> ('w, 'z) mp_asm_base_t_scheme \<Rightarrow> bool) \<Rightarrow> bool" where
  "added_rel R \<longleftrightarrow>
     (\<forall>c e c' e'. mp_asm_base_t.more c' = mp_asm_base_t.more c \<longrightarrow>
        mp_asm_base_t.more e' = mp_asm_base_t.more e \<longrightarrow> R c e \<longrightarrow> R c' e')"

definition passes_agree ::
    "(('w::len, 'z) mp_asm_base_t_scheme \<Rightarrow> ('w, 'z) mp_asm_base_t_scheme \<Rightarrow> bool) \<Rightarrow> nat \<Rightarrow>
       'w word list \<Rightarrow> ('w, 'z) mp_asm_base_t_scheme \<Rightarrow> ('w, 'z) mp_asm_base_t_scheme \<Rightarrow> bool" where
  "passes_agree R lim L c e \<longleftrightarrow>
     compute_state c \<and> in_emit_pass e \<and>
     code_offset e = code_offset c \<and> suppress e = suppress c \<and>
     max_num_labels e = max_num_labels c \<and> label_offsets e = L \<and>
     length L = length (label_offsets c) \<and>
     (\<forall>x \<in> set L. x = - 1 \<or> unat x \<le> lim) \<and>
     R c e \<and>
     (\<exists>mem. code_base e = Some mem \<and> unat (code_size e) \<le> length mem)"

text \<open>
  The contract of one operation that starts with states related by \<open>R\<close> and ends with
  states related by \<open>R'\<close>: in the compute pass it adds at most \<open>n\<close> bytes, and where the
  compute pass succeeds the emit pass does the same, or raises an exception; it never
  fails an assertion.
\<close>

definition two_pass_ok ::
    "(('w::len, 'z) mp_asm_base_t_scheme \<Rightarrow> ('w, 'z) mp_asm_base_t_scheme \<Rightarrow> bool) \<Rightarrow>
     (('w, 'z) mp_asm_base_t_scheme \<Rightarrow> ('w, 'z) mp_asm_base_t_scheme \<Rightarrow> bool) \<Rightarrow> nat \<Rightarrow> nat \<Rightarrow>
     ('w, 'z) mp_asm_base_t_scheme asm \<Rightarrow> bool" where
  "two_pass_ok R R' lim n f \<longleftrightarrow>
     (\<forall>c c'. compute_state c \<longrightarrow> unat (code_offset c) + n \<le> lim \<longrightarrow> f c = Inr c' \<longrightarrow>
        grows n c c' \<and>
        (\<forall>L e. passes_agree R lim L c e \<longrightarrow> labels_ahead L c' \<longrightarrow>
           unat (code_offset c') \<le> unat (code_size e) \<longrightarrow>
           (case f e of Inr e' \<Rightarrow> passes_agree R' lim L c' e' \<and> code_size e' = code_size e
                      | Inl err \<Rightarrow> raised err)))"

lemma grows_refl [simp]: "grows n c c"
  by (simp add: grows_def)

lemma growsD:
  assumes "grows n c c'"
  shows "pass c' = pass c" "max_num_labels c' = max_num_labels c"
    "length (label_offsets c') = length (label_offsets c)"
    "code_offset c \<le> code_offset c'" "unat (code_offset c') \<le> unat (code_offset c) + n"
    "l < length (label_offsets c) \<Longrightarrow> label_offsets c ! l \<noteq> - 1 \<Longrightarrow>
       label_offsets c' ! l = label_offsets c ! l"
    "l < length (label_offsets c) \<Longrightarrow> label_offsets c ! l = - 1 \<Longrightarrow>
       label_offsets c' ! l = - 1 \<or>
       code_offset c \<le> label_offsets c' ! l \<and> label_offsets c' ! l \<le> code_offset c'"
  using assms by (simp_all add: grows_def word_le_nat_alt)

lemma growsI:
  assumes "pass c' = pass c" "max_num_labels c' = max_num_labels c"
    "length (label_offsets c') = length (label_offsets c)"
    "code_offset c \<le> code_offset c'" "unat (code_offset c') \<le> unat (code_offset c) + n"
    "\<And>l. l < length (label_offsets c) \<Longrightarrow> label_offsets c ! l \<noteq> - 1 \<Longrightarrow>
       label_offsets c' ! l = label_offsets c ! l"
    "\<And>l. l < length (label_offsets c) \<Longrightarrow> label_offsets c ! l = - 1 \<Longrightarrow>
       label_offsets c' ! l = - 1 \<or>
       code_offset c \<le> label_offsets c' ! l \<and> label_offsets c' ! l \<le> code_offset c'"
  shows "grows n c c'"
  using assms by (simp add: grows_def word_le_nat_alt)

lemma grows_trans:
  assumes ab: "grows n a b" and bc: "grows m b c"
  shows "grows (n + m) a c"
proof (rule growsI)
  show "code_offset a \<le> code_offset c"
    using growsD(4) [OF ab] growsD(4) [OF bc] by (rule order_trans)
  show "unat (code_offset c) \<le> unat (code_offset a) + (n + m)"
    using growsD(5) [OF ab] growsD(5) [OF bc] by linarith
  fix l assume l: "l < length (label_offsets a)"
  then have lb: "l < length (label_offsets b)"
    by (simp add: growsD(3) [OF ab])
  show "label_offsets c ! l = label_offsets a ! l" if "label_offsets a ! l \<noteq> - 1"
    using growsD(6) [OF ab l that] growsD(6) [OF bc lb] that by simp
  show "label_offsets c ! l = - 1 \<or> code_offset a \<le> label_offsets c ! l \<and> label_offsets c ! l \<le> code_offset c"
    if "label_offsets a ! l = - 1"
  proof (cases "label_offsets b ! l = - 1")
    case True
    then show ?thesis
      using growsD(7) [OF bc lb] growsD(4) [OF ab] order_trans by blast
  next
    case False
    then have "label_offsets c ! l = label_offsets b ! l" by (rule growsD(6) [OF bc lb])
    then show ?thesis
      using growsD(7) [OF ab l that] False growsD(4) [OF bc] order_trans by auto
  qed
qed (use ab bc in \<open>simp_all add: growsD(1-3)\<close>)

lemma grows_mono: "grows n c c' \<Longrightarrow> n \<le> m \<Longrightarrow> grows m c c'"
  by (auto simp: grows_def)

lemma grows_compute_state: "grows n c c' \<Longrightarrow> compute_state c \<Longrightarrow> compute_state c'"
  by (simp add: grows_def)

lemma labels_aheadD:
  assumes "labels_ahead L c"
  shows "length L = length (label_offsets c)"
    "l < length L \<Longrightarrow> label_offsets c ! l \<noteq> - 1 \<Longrightarrow> L ! l = label_offsets c ! l"
    "l < length L \<Longrightarrow> label_offsets c ! l = - 1 \<Longrightarrow> L ! l = - 1 \<or> code_offset c \<le> L ! l"
  using assms by (simp_all add: labels_ahead_def)

lemma labels_ahead_back:
  assumes L: "labels_ahead L c'" and g: "grows n c c'"
  shows "labels_ahead L c"
  unfolding labels_ahead_def
proof (intro conjI allI impI)
  show len: "length L = length (label_offsets c)"
    using labels_aheadD(1) [OF L] growsD(3) [OF g] by simp
  fix l assume l: "l < length L"
  then have lc: "l < length (label_offsets c)" by (simp add: len)
  show "L ! l = label_offsets c ! l" if "label_offsets c ! l \<noteq> - 1"
    using labels_aheadD(2) [OF L l] growsD(6) [OF g lc that] that by simp
  show "L ! l = - 1 \<or> code_offset c \<le> L ! l" if "label_offsets c ! l = - 1"
  proof (cases "label_offsets c' ! l = - 1")
    case True
    then show ?thesis
      using labels_aheadD(3) [OF L l] growsD(4) [OF g] order_trans by blast
  next
    case False
    then show ?thesis
      using labels_aheadD(2) [OF L l False] growsD(7) [OF g lc that] by simp
  qed
qed

section \<open>Rules\<close>

lemma two_pass_okI:
  assumes "\<And>c c'. compute_state c \<Longrightarrow> unat (code_offset c) + n \<le> lim \<Longrightarrow> f c = Inr c' \<Longrightarrow>
      grows n c c'"
    and "\<And>c c' L e. compute_state c \<Longrightarrow> unat (code_offset c) + n \<le> lim \<Longrightarrow> f c = Inr c' \<Longrightarrow>
      grows n c c' \<Longrightarrow> passes_agree R lim L c e \<Longrightarrow> labels_ahead L c' \<Longrightarrow>
      unat (code_offset c') \<le> unat (code_size e) \<Longrightarrow>
      (case f e of Inr e' \<Rightarrow> passes_agree R' lim L c' e' \<and> code_size e' = code_size e
                 | Inl err \<Rightarrow> raised err)"
  shows "two_pass_ok R R' lim n f"
  using assms unfolding two_pass_ok_def by blast

lemma two_pass_okD_grows:
  "two_pass_ok R R' lim n f \<Longrightarrow> compute_state c \<Longrightarrow> unat (code_offset c) + n \<le> lim \<Longrightarrow>
     f c = Inr c' \<Longrightarrow> grows n c c'"
  unfolding two_pass_ok_def by blast

lemma two_pass_okD_sim:
  "two_pass_ok R R' lim n f \<Longrightarrow> compute_state c \<Longrightarrow> unat (code_offset c) + n \<le> lim \<Longrightarrow>
     f c = Inr c' \<Longrightarrow> passes_agree R lim L c e \<Longrightarrow> labels_ahead L c' \<Longrightarrow>
     unat (code_offset c') \<le> unat (code_size e) \<Longrightarrow>
     (case f e of Inr e' \<Rightarrow> passes_agree R' lim L c' e' \<and> code_size e' = code_size e
                | Inl err \<Rightarrow> raised err)"
  unfolding two_pass_ok_def by blast

lemma two_pass_weaken:
  assumes "two_pass_ok R R' lim n f" "n \<le> m"
  shows "two_pass_ok R R' lim m f"
proof (rule two_pass_okI)
  fix c c' assume "compute_state c" "unat (code_offset c) + m \<le> lim" "f c = Inr c'"
  then show "grows m c c'"
    using two_pass_okD_grows [OF assms(1)] assms(2) by (meson add_le_cancel_left grows_mono order_trans)
next
  fix c c' L e
  assume "compute_state c" "unat (code_offset c) + m \<le> lim" "f c = Inr c'"
    "passes_agree R lim L c e" "labels_ahead L c'" "unat (code_offset c') \<le> unat (code_size e)"
  then show "case f e of Inr e' \<Rightarrow> passes_agree R' lim L c' e' \<and> code_size e' = code_size e
                | Inl err \<Rightarrow> raised err"
    using two_pass_okD_sim [OF assms(1)] assms(2) by (meson add_le_cancel_left order_trans)
qed

lemma two_pass_skip: "two_pass_ok R R lim n skip"
  by (rule two_pass_okI) auto

lemma two_pass_Nil: "two_pass_ok R R lim n (asm_seq [])"
  by (rule two_pass_okI) auto

lemma two_pass_Cons:
  assumes f: "two_pass_ok R R' lim n f" and fs: "two_pass_ok R' R'' lim m (asm_seq fs)"
  shows "two_pass_ok R R'' lim (n + m) (asm_seq (f # fs))"
proof (rule two_pass_okI)
  fix c c' assume c: "compute_state c" "unat (code_offset c) + (n + m) \<le> lim"
    and "asm_seq (f # fs) c = Inr c'"
  then obtain d where d: "f c = Inr d" "asm_seq fs d = Inr c'"
    by (auto split: sum.splits)
  then have g: "grows n c d"
    using c by (intro two_pass_okD_grows [OF f]) auto
  then have dm: "unat (code_offset d) + m \<le> lim"
    using c by (auto simp: grows_def)
  have "grows m d c'"
    using d dm c g by (intro two_pass_okD_grows [OF fs]) (auto dest: grows_compute_state)
  with g show "grows (n + m) c c'" by (rule grows_trans)
  fix L e
  assume agree: "passes_agree R lim L c e" and ahead: "labels_ahead L c'"
    and room: "unat (code_offset c') \<le> unat (code_size e)"
  have ahead_d: "labels_ahead L d"
    using ahead \<open>grows m d c'\<close> by (rule labels_ahead_back)
  have room_d: "unat (code_offset d) \<le> unat (code_size e)"
    using room \<open>grows m d c'\<close> by (auto simp: grows_def)
  have step: "case f e of Inr e' \<Rightarrow> passes_agree R' lim L d e' \<and> code_size e' = code_size e
      | Inl err \<Rightarrow> raised err"
    using c by (intro two_pass_okD_sim [OF f _ _ d(1) agree ahead_d room_d]) auto
  show "case asm_seq (f # fs) e of
      Inr e' \<Rightarrow> passes_agree R'' lim L c' e' \<and> code_size e' = code_size e
    | Inl err \<Rightarrow> raised err"
  proof (cases "f e")
    case (Inl err)
    with step show ?thesis by simp
  next
    case (Inr e1)
    with step have agree1: "passes_agree R' lim L d e1" and size1: "code_size e1 = code_size e"
      by auto
    have "case asm_seq fs e1 of Inr e' \<Rightarrow> passes_agree R'' lim L c' e' \<and> code_size e' = code_size e1
      | Inl err \<Rightarrow> raised err"
      using dm room size1 c g
      by (intro two_pass_okD_sim [OF fs _ _ d(2) agree1 ahead]) (auto dest: grows_compute_state)
    with Inr size1 show ?thesis by (simp split: sum.splits)
  qed
qed


lemma two_pass_seq:
  assumes "list_all2 (two_pass_ok R R lim) ns fs"
  shows "two_pass_ok R R lim (sum_list ns) (asm_seq fs)"
  using assms
proof (induction rule: list_all2_induct)
  case Nil
  show ?case by (simp only: sum_list.Nil two_pass_Nil)
next
  case (Cons n ns f fs)
  then show ?case by (simp only: sum_list.Cons two_pass_Cons)
qed

lemma two_pass_if:
  assumes "b \<Longrightarrow> two_pass_ok R R' lim n f" "\<not> b \<Longrightarrow> two_pass_ok R R' lim n g"
  shows "two_pass_ok R R' lim n (\<lambda>s. if b then f s else g s)"
  using assms by (cases b) simp_all

lemma two_pass_when:
  assumes "b \<Longrightarrow> two_pass_ok R R lim n f"
  shows "two_pass_ok R R lim n (asm_when b f)"
  using assms by (cases b) (auto intro: two_pass_skip)

lemma two_pass_assert: "two_pass_ok R R lim n (asm_assert b)"
  by (rule two_pass_okI) (auto simp: asm_assert_Inr_iff)

text \<open>An operation that first reads what both passes agree on in the added fields.\<close>

lemma two_pass_read:
  fixes R :: "('w::len, 'z) mp_asm_base_t_scheme \<Rightarrow> ('w, 'z) mp_asm_base_t_scheme \<Rightarrow> bool"
  assumes "\<And>c e. R c e \<Longrightarrow> v e = v c"
    and "\<And>x. two_pass_ok R R' lim n (F x)"
  shows "two_pass_ok R R' lim n (\<lambda>s. F (v s) s)"
proof (rule two_pass_okI)
  fix c c'
  assume c: "compute_state c" "unat (code_offset c) + n \<le> lim" "F (v c) c = Inr c'"
  then show "grows n c c'" by (rule two_pass_okD_grows [OF assms(2)])
  fix L e
  assume e: "passes_agree R lim L c e" "labels_ahead L c'"
    "unat (code_offset c') \<le> unat (code_size e)"
  then have "v e = v c" by (intro assms(1)) (simp add: passes_agree_def)
  then show "case F (v e) e of Inr e' \<Rightarrow> passes_agree R' lim L c' e' \<and> code_size e' = code_size e
      | Inl err \<Rightarrow> raised err"
    using two_pass_okD_sim [OF assms(2) c e] by simp
qed

lemma two_pass_readI:
  assumes "\<And>s. f s = F (v s) s" "\<And>c e. R c e \<Longrightarrow> v e = v c"
    "\<And>x. two_pass_ok R R' lim n (F x)"
  shows "two_pass_ok R R' lim n f"
proof -
  have "f = (\<lambda>s. F (v s) s)" by (rule ext) (rule assms(1))
  then show ?thesis using two_pass_read [where v = v and F = F, OF assms(2,3)] by simp
qed

text \<open>An operation that only updates the added fields.\<close>

definition keeps_base :: "(('w::len, 'z) mp_asm_base_t_scheme \<Rightarrow> ('w, 'z) mp_asm_base_t_scheme) \<Rightarrow> bool" where
  "keeps_base u \<longleftrightarrow> (\<forall>s. pass (u s) = pass s \<and> suppress (u s) = suppress s \<and>
     code_offset (u s) = code_offset s \<and> code_size (u s) = code_size s \<and>
     code_base (u s) = code_base s \<and> max_num_labels (u s) = max_num_labels s \<and>
     label_offsets (u s) = label_offsets s)"

lemma two_pass_update:
  assumes "keeps_base u" "\<And>c e. R c e \<Longrightarrow> R' (u c) (u e)"
  shows "two_pass_ok R R' lim n (\<lambda>s. Inr (u s))"
  using assms
  by (intro two_pass_okI) (auto simp: passes_agree_def grows_def keeps_base_def in_emit_pass_def)

lemma two_pass_update_then:
  assumes "\<And>s. f s = g (u s)" "keeps_base u" "\<And>c e. R c e \<Longrightarrow> R' (u c) (u e)"
    "two_pass_ok R' R'' lim n g"
  shows "two_pass_ok R R'' lim n f"
proof -
  have "f = asm_seq [\<lambda>s. Inr (u s), g]" by (rule ext) (simp add: assms(1) split: sum.split)
  moreover have "two_pass_ok R R' lim 0 (\<lambda>s. Inr (u s))"
    by (rule two_pass_update [OF assms(2)]) (rule assms(3))
  ultimately show ?thesis
    using two_pass_Cons [of R R' lim 0 _ R'' n "[g]"] assms(4) by (simp del: asm_seq.simps)
qed

text \<open>Writing bytes: the number of bytes is what counts, the bytes may differ.\<close>

lemma emit_grows:
  fixes c :: "('w::len, 'z) mp_asm_base_t_scheme"
  assumes "emit_bytes bs c = Inr c'" "compute_state c"
    and "unat (code_offset c) + length bs < 2 ^ LENGTH('w)"
  shows "grows (length bs) c c'"
proof (cases "suppress c")
  case True
  with assms show ?thesis by simp
next
  case False
  with assms have "c' = c\<lparr>code_offset := code_offset c + word_of_nat (length bs)\<rparr>"
    by (simp add: emit_bytes_count)
  then show ?thesis
    using assms(3) by (simp add: grows_def unat_add_of_nat)
qed

lemma emit_agree:
  fixes c :: "('w::len, 'z) mp_asm_base_t_scheme"
  assumes "passes_agree R lim L c e" "emit_bytes bs c = Inr c'" "length bs' = length bs"
    and "added_rel R"
    and "unat (code_offset c) + length bs < 2 ^ LENGTH('w)"
    and "unat (code_offset c') \<le> unat (code_size e)"
  shows "\<exists>e'. emit_bytes bs' e = Inr e' \<and> passes_agree R lim L c' e' \<and> code_size e' = code_size e"
proof (cases "suppress c")
  case True
  with assms have "c' = c" "suppress e" by (auto simp: passes_agree_def)
  with assms(1) show ?thesis by simp
next
  case False
  from assms(1) obtain mem where e: "\<not> suppress e" "in_emit_pass e" "code_base e = Some mem"
    "unat (code_size e) \<le> length mem" "code_offset e = code_offset c" "compute_state c"
    using False by (auto simp: passes_agree_def)
  with False assms(2) have c': "c' = c\<lparr>code_offset := code_offset c + word_of_nat (length bs)\<rparr>"
    by (simp add: emit_bytes_count)
  then have "unat (code_offset c') = unat (code_offset c) + length bs"
    using assms(5) by (simp add: unat_add_of_nat)
  with assms(6) have room: "unat (code_offset e) + length bs' \<le> unat (code_size e)"
    using assms(3) e(5) by simp
  have fits: "unat (code_offset c) + length bs' \<le> length mem"
    using room e(4,5) by simp
  have "R c' e'" if "mp_asm_base_t.more e' = mp_asm_base_t.more e" for e'
    using assms(1,4) that c' unfolding added_rel_def passes_agree_def by fastforce
  then show ?thesis
    using emit_bytes_store [OF e(1-4) room] assms(1,3) e fits
    by (auto simp: c' passes_agree_def)
qed

lemma two_pass_emit:
  assumes "length bs \<le> n" "lim < 2 ^ LENGTH('w)" "added_rel R"
  shows "two_pass_ok R R lim n (emit_bytes bs :: ('w::len, 'z) mp_asm_base_t_scheme asm)"
proof (rule two_pass_okI)
  fix c c' :: "('w::len, 'z) mp_asm_base_t_scheme"
  assume c: "compute_state c" "unat (code_offset c) + n \<le> lim" "emit_bytes bs c = Inr c'"
  then have small: "unat (code_offset c) + length bs < 2 ^ LENGTH('w)"
    using assms by linarith
  show "grows n c c'"
    using emit_grows [OF c(3,1) small] assms(1) by (rule grows_mono)
  fix L e
  assume "passes_agree R lim L c e" "unat (code_offset c') \<le> unat (code_size e)"
  then show "case emit_bytes bs e of
      Inr e' \<Rightarrow> passes_agree R lim L c' e' \<and> code_size e' = code_size e | Inl err \<Rightarrow> raised err"
    using emit_agree [OF _ c(3) refl assms(3) small] by fastforce
qed

section \<open>The operations of the base assembler\<close>

lemma added_relD:
  assumes "added_rel R" "R c e" "mp_asm_base_t.more c' = mp_asm_base_t.more c"
    "mp_asm_base_t.more e' = mp_asm_base_t.more e"
  shows "R c' e'"
  using assms unfolding added_rel_def by blast

lemma two_pass_data:
  assumes "unat bytesize \<le> n" "lim < 2 ^ LENGTH('w)" "added_rel R"
  shows "two_pass_ok R R lim n
    (mp_asm_base_data bytesize val :: ('w::len, 'z) mp_asm_base_t_scheme asm)"
  unfolding mp_asm_base_data_def by (rule two_pass_emit) (use assms in auto)

lemma two_pass_suppress_code:
  assumes "added_rel R"
  shows "two_pass_ok R R lim n mp_asm_base_suppress_code"
proof (rule two_pass_okI)
  fix c c' L e
  assume c: "mp_asm_base_suppress_code c = Inr c'" "passes_agree R lim L c e"
  then have "c' = c\<lparr>suppress := True\<rparr>" "R c e"
    by (auto simp: mp_asm_base_suppress_code_def passes_agree_def)
  moreover from this have "R c' (e\<lparr>suppress := True\<rparr>)"
    by (auto intro: added_relD [OF assms])
  ultimately show "case mp_asm_base_suppress_code e of
      Inr e' \<Rightarrow> passes_agree R lim L c' e' \<and> code_size e' = code_size e | Inl err \<Rightarrow> raised err"
    using c by (auto simp: mp_asm_base_suppress_code_def passes_agree_def)
qed (auto simp: mp_asm_base_suppress_code_def grows_def)

text \<open>Rounding up to a multiple of a power of two.\<close>

lemma unat_align:
  fixes x :: "'w::len word"
  assumes "unat x + 2 ^ k \<le> 2 ^ LENGTH('w)"
  shows "unat ((x + 2 ^ k - 1) AND NOT (2 ^ k - 1)) = (unat x + 2 ^ k - 1) div 2 ^ k * 2 ^ k"
proof -
  have pos: "(0::nat) < 2 ^ k" by simp
  then have "unat x + (2 ^ k - 1) < 2 ^ LENGTH('w)"
    using assms by linarith
  then have "unat (x + word_of_nat (2 ^ k - 1)) = unat x + (2 ^ k - 1)"
    by (rule unat_add_of_nat)
  also have "x + word_of_nat (2 ^ k - 1) = x + 2 ^ k - 1"
    by (simp add: of_nat_diff)
  also have "unat x + (2 ^ k - 1) = unat x + 2 ^ k - 1"
    using pos by linarith
  finally have "unat (x + 2 ^ k - 1) = unat x + 2 ^ k - 1" .
  moreover have "y AND NOT (2 ^ k - 1) = push_bit k (drop_bit k y)" for y :: "'w word"
    by (rule bit_word_eqI) (auto simp: bit_simps mask_eq_exp_minus_1 [symmetric])
  moreover have "unat (push_bit k (drop_bit k y)) = unat y div 2 ^ k * 2 ^ k" for y :: "'w word"
  proof -
    have "unat y div 2 ^ k * 2 ^ k < 2 ^ LENGTH('w)"
      using unsigned_less [of y] by (meson div_mult2_eq div_times_less_eq_dividend order_le_less_trans)
    then have "take_bit LENGTH('w) (push_bit k (drop_bit k (unat y))) = unat y div 2 ^ k * 2 ^ k"
      unfolding push_bit_eq_mult drop_bit_eq_div by (rule take_bit_nat_eq_self)
    then show ?thesis
      by (simp only: unsigned_push_bit_eq unat_drop_bit_eq)
  qed
  ultimately show ?thesis by simp
qed

lemma mp_asm_base_align_rounds:
  fixes s :: "('w::len, 'z) mp_asm_base_t_scheme"
  assumes "k < 32" "unat (code_offset s) + 2 ^ k \<le> 2 ^ LENGTH('w)"
  shows "\<exists>o'. mp_asm_base_align (2 ^ k) s = Inr (s\<lparr>code_offset := o'\<rparr>) \<and>
    unat o' = (unat (code_offset s) + 2 ^ k - 1) div 2 ^ k * 2 ^ k"
proof -
  have "ucast (2 ^ k :: u32) = (2 ^ k :: 'w word)" "ucast (2 ^ k - 1 :: u32) = (2 ^ k - 1 :: 'w word)"
    using assms(1) unfolding mask_eq_exp_minus_1 [symmetric]
    by (auto intro!: bit_word_eqI simp: bit_simps)
  then show ?thesis using unat_align [OF assms(2)] by (auto simp: mp_asm_base_align_def)
qed

lemma two_pass_align:
  assumes "2 ^ k \<le> n + 1" "k < 32" "lim < 2 ^ LENGTH('w)" "added_rel R"
  shows "two_pass_ok R R lim n
    (mp_asm_base_align (2 ^ k) :: ('w::len, 'z) mp_asm_base_t_scheme asm)"
proof (rule two_pass_okI)
  fix c c' :: "('w::len, 'z) mp_asm_base_t_scheme"
  assume c: "compute_state c" "unat (code_offset c) + n \<le> lim" "mp_asm_base_align (2 ^ k) c = Inr c'"
  have align: "\<exists>o'. mp_asm_base_align (2 ^ k) c = Inr (c\<lparr>code_offset := o'\<rparr>) \<and>
      unat o' = (unat (code_offset c) + 2 ^ k - 1) div 2 ^ k * 2 ^ k"
    using c(2) assms(1,3) by (intro mp_asm_base_align_rounds [OF assms(2)]) linarith
  then obtain o' where c': "c' = c\<lparr>code_offset := o'\<rparr>"
    and o': "unat o' = (unat (code_offset c) + 2 ^ k - 1) div 2 ^ k * 2 ^ k"
    using c(3) by auto
  then have "unat (code_offset c) \<le> unat o'" "unat o' \<le> unat (code_offset c) + n"
    using round_up_bounds [of "2 ^ k" "unat (code_offset c)"] assms(1) by auto
  then show "grows n c c'"
    by (simp add: c' grows_def)
  fix L e
  assume e: "passes_agree R lim L c e"
  then have "unat (code_offset e) + 2 ^ k \<le> 2 ^ LENGTH('w)"
    using c(2) assms(1,3) by (simp add: passes_agree_def)
  from mp_asm_base_align_rounds [OF assms(2) this] o'
  have run: "mp_asm_base_align (2 ^ k) e = Inr (e\<lparr>code_offset := o'\<rparr>)"
    using e by (auto simp: passes_agree_def word_unat_eq_iff)
  have "R c' (e\<lparr>code_offset := o'\<rparr>)"
    using e by (auto simp: c' passes_agree_def intro: added_relD [OF assms(4)])
  then show "case mp_asm_base_align (2 ^ k) e of
      Inr e' \<Rightarrow> passes_agree R lim L c' e' \<and> code_size e' = code_size e | Inl err \<Rightarrow> raised err"
    using e by (simp add: run passes_agree_def c')
qed

lemma two_pass_label_assign:
  assumes "lim < 2 ^ LENGTH('w) - 1" "added_rel R"
  shows "two_pass_ok R R lim n
    (mp_asm_base_label_assign l :: ('w::len, 'z) mp_asm_base_t_scheme asm)"
proof (rule two_pass_okI)
  fix c c' :: "('w::len, 'z) mp_asm_base_t_scheme"
  assume c: "compute_state c" "unat (code_offset c) + n \<le> lim" "mp_asm_base_label_assign l c = Inr c'"
  then have l: "l < max_num_labels c" "unat l < length (label_offsets c)"
    "label_offsets c ! unat l = - 1"
    and c': "c' = c\<lparr>suppress := False, label_offsets := (label_offsets c)[unat l := code_offset c]\<rparr>"
    by (auto simp: mp_asm_base_label_assign_def label_offset_def word_less_nat_alt Let_def
        split: if_splits sum.splits)
  show "grows n c c'"
    using l by (auto simp: c' grows_def nth_list_update)
  fix L e
  assume e: "passes_agree R lim L c e" and ahead: "labels_ahead L c'"
  have "code_offset c \<noteq> - 1"
    using c(2) assms(1) unat_word_minus_one [where 'w = 'w] by (auto simp: word_minus_one_def)
  then have "L ! unat l = code_offset c"
    using labels_aheadD(2) [OF ahead, of "unat l"] labels_aheadD(1) [OF ahead] l by (simp add: c')
  moreover have "R c' (e\<lparr>suppress := False\<rparr>)"
    using e by (auto simp: c' passes_agree_def intro: added_relD [OF assms(2)])
  ultimately show "case mp_asm_base_label_assign l e of
      Inr e' \<Rightarrow> passes_agree R lim L c' e' \<and> code_size e' = code_size e | Inl err \<Rightarrow> raised err"
    using e l by (auto simp: mp_asm_base_label_assign_def passes_agree_def label_offset_def c' Let_def)
qed

section \<open>Jumps\<close>

text \<open>
  The helper \<open>get_label_dest\<close> that most assemblers have: the label number is checked by an
  assertion before the table is read.
\<close>

definition checked_label_offset ::
    "'w::len word \<Rightarrow> ('w, 'z) mp_asm_base_t_scheme \<Rightarrow> asm_error + 'w word" where
  "checked_label_offset l as =
     (if l < max_num_labels as then label_offset l as else Inl AssertionFailed)"

lemma checked_label_offset_Inr: "checked_label_offset l as = Inr d \<Longrightarrow> label_offset l as = Inr d"
  by (auto simp: checked_label_offset_def split: if_splits)

text \<open>
  The shape of every jump: look the label up, raise an exception in the emit pass when it is
  out of reach, and else write instructions \<open>J d o\<close> that depend on where the label and the
  jump itself are.
\<close>

definition label_jump ::
    "(('w::len, 'z) mp_asm_base_t_scheme \<Rightarrow> asm_error + 'w word) \<Rightarrow> ('w word \<Rightarrow> 'w word \<Rightarrow> bool) \<Rightarrow>
       ('w word \<Rightarrow> 'w word \<Rightarrow> u8 list list) \<Rightarrow> ('w, 'z) mp_asm_base_t_scheme asm" where
  "label_jump dest bad J as =
     (case dest as of
        Inl e \<Rightarrow> Inl e
      | Inr d \<Rightarrow>
          if in_emit_pass as \<and> bad d (code_offset as) then Inl RuntimeError
          else emit_code (J d (code_offset as)) as)"

abbreviation total_length :: "'a list list \<Rightarrow> nat" where
  "total_length xss \<equiv> sum_list (map length xss)"

lemma emits_keep:
  "asm_seq (map emit_bytes js) s = Inr s' \<Longrightarrow>
     pass s' = pass s \<and> suppress s' = suppress s \<and> code_size s' = code_size s \<and>
     max_num_labels s' = max_num_labels s \<and> label_offsets s' = label_offsets s \<and>
     mp_asm_base_t.more s' = mp_asm_base_t.more s"
proof (induction js arbitrary: s)
  case (Cons j js)
  then obtain t where t: "emit_bytes j s = Inr t" "asm_seq (map emit_bytes js) t = Inr s'"
    by (auto split: sum.splits)
  then show ?case using Cons.IH [OF t(2)] emit_bytes_keeps [OF t(1)] by simp
qed simp

lemma emits_count:
  fixes c :: "('w::len, 'z) mp_asm_base_t_scheme"
  assumes "asm_seq (map emit_bytes js) c = Inr c'" "compute_state c"
    and "unat (code_offset c) + total_length js < 2 ^ LENGTH('w)"
  shows "unat (code_offset c') = unat (code_offset c) + (if suppress c then 0 else total_length js)"
  using assms
proof (induction js arbitrary: c)
  case (Cons j js)
  then obtain t where t: "emit_bytes j c = Inr t" "asm_seq (map emit_bytes js) t = Inr c'"
    by (auto split: sum.splits)
  have t_off: "unat (code_offset t) = unat (code_offset c) + (if suppress c then 0 else length j)"
    using t(1) Cons.prems by (cases "suppress c") (auto simp: emit_bytes_count unat_add_of_nat)
  then show ?case
    using Cons.IH [OF t(2)] Cons.prems emit_bytes_keeps [OF t(1)] by (auto split: if_splits)
qed simp

lemma emits_grow:
  fixes c :: "('w::len, 'z) mp_asm_base_t_scheme"
  assumes "asm_seq (map emit_bytes js) c = Inr c'" "compute_state c"
    and "unat (code_offset c) + total_length js < 2 ^ LENGTH('w)"
  shows "grows (total_length js) c c'"
  using emits_count [OF assms] emits_keep [OF assms(1)] by (auto simp: grows_def)

lemma emits_agree:
  fixes c :: "('w::len, 'z) mp_asm_base_t_scheme"
  assumes "passes_agree R lim L c e" "asm_seq (map emit_bytes js) c = Inr c'"
    and "map length js' = map length js" "added_rel R"
    and "unat (code_offset c) + total_length js < 2 ^ LENGTH('w)"
    and "unat (code_offset c') \<le> unat (code_size e)"
  shows "\<exists>e'. asm_seq (map emit_bytes js') e = Inr e' \<and> passes_agree R lim L c' e' \<and>
     code_size e' = code_size e"
  using assms
proof (induction js arbitrary: c e js')
  case (Cons j js)
  then obtain j' ks where js': "js' = j' # ks" "length j' = length j" "map length ks = map length js"
    by auto
  from Cons.prems obtain t where t: "emit_bytes j c = Inr t" "asm_seq (map emit_bytes js) t = Inr c'"
    by (auto split: sum.splits)
  have comp: "compute_state c" using Cons.prems(1) by (simp add: passes_agree_def)
  have t_grow: "grows (length j) c t"
    using Cons.prems(5) by (intro emit_grows [OF t(1) comp]) auto
  have comp_t: "compute_state t"
    by (rule grows_compute_state [OF t_grow comp])
  have t_bound: "unat (code_offset t) + total_length js < 2 ^ LENGTH('w)"
    using growsD(5) [OF t_grow] Cons.prems(5) by simp
  have "unat (code_offset t) \<le> unat (code_size e)"
    using growsD(4) [OF emits_grow [OF t(2) comp_t t_bound]] Cons.prems(6)
    by (simp add: word_le_nat_alt)
  then obtain u where u: "emit_bytes j' e = Inr u" "passes_agree R lim L t u"
    "code_size u = code_size e"
    using emit_agree [OF Cons.prems(1) t(1) js'(2) Cons.prems(4)] Cons.prems(5) by auto
  then show ?case
    using Cons.IH [OF u(2) t(2) js'(3) Cons.prems(4) t_bound] Cons.prems(6) js'(1) by simp
qed auto

text \<open>
  The destination a jump sees in the emit pass: the same as in the compute pass, or, for a
  label the compute pass did not know yet, an offset behind the instructions of the jump.
\<close>

lemma dest_in_emit:
  fixes c :: "('w::len, 'z) mp_asm_base_t_scheme"
  assumes dest: "dest = label_offset l \<or> dest = checked_label_offset l"
    and agree: "passes_agree R lim L c e" and ahead: "labels_ahead L c'"
    and same: "label_offsets c' = label_offsets c" and d: "dest c = Inr d"
  shows "\<exists>d'. dest e = Inr d' \<and>
     (d' = d \<or> d = - 1 \<and> code_offset c' \<le> d' \<and> unat d' \<le> lim)"
proof -
  have l: "unat l < length (label_offsets c)" "d = label_offsets c ! unat l"
    using dest d checked_label_offset_Inr [of l c d] by (auto simp: label_offset_def split: if_splits)
  have len: "length L = length (label_offsets c)" "label_offsets e = L"
    using agree by (auto simp: passes_agree_def)
  have "dest e = Inr (L ! unat l)"
    using dest d l len agree
    by (auto simp: passes_agree_def checked_label_offset_def label_offset_def split: if_splits)
  moreover have "L ! unat l = - 1 \<or> unat (L ! unat l) \<le> lim"
    using agree l(1) len(1) unfolding passes_agree_def by (metis nth_mem)
  ultimately show ?thesis
    using labels_aheadD(2,3) [OF ahead, of "unat l"] l len(1)
    by (cases "label_offsets c ! unat l = - 1") (auto simp: same)
qed

lemma two_pass_jump:
  assumes dest: "dest = label_offset l \<or> dest = checked_label_offset l"
    and R: "added_rel R" and lim: "lim < 2 ^ LENGTH('w)"
    and len: "\<And>d o'. total_length (J d o') \<le> n"
    and fwd: "\<And>d o'. unat o' + total_length (J (- 1) o') \<le> unat d \<Longrightarrow> unat d \<le> lim \<Longrightarrow>
       map length (J d o') = map length (J (- 1) o')"
  shows "two_pass_ok R R lim n (label_jump dest bad J :: ('w::len, 'z) mp_asm_base_t_scheme asm)"
proof (rule two_pass_okI)
  fix c c' :: "('w::len, 'z) mp_asm_base_t_scheme"
  assume c: "compute_state c" "unat (code_offset c) + n \<le> lim" "label_jump dest bad J c = Inr c'"
  then obtain d where d: "dest c = Inr d" and run: "asm_seq (map emit_bytes (J d (code_offset c))) c = Inr c'"
    by (auto simp: label_jump_def emit_code_def split: sum.splits)
  have small: "unat (code_offset c) + total_length (J d (code_offset c)) < 2 ^ LENGTH('w)"
    using c(2) lim len [of d "code_offset c"] by linarith
  show "grows n c c'"
    using emits_grow [OF run c(1) small] len by (rule grows_mono)
  fix L e
  assume agree: "passes_agree R lim L c e" and ahead: "labels_ahead L c'"
    and room: "unat (code_offset c') \<le> unat (code_size e)"
  obtain d' where d': "dest e = Inr d'"
    "d' = d \<or> d = - 1 \<and> code_offset c' \<le> d' \<and> unat d' \<le> lim"
    using dest_in_emit [OF dest agree ahead _ d] emits_keep [OF run] by auto
  have off: "code_offset e = code_offset c" "suppress e = suppress c"
    using agree by (auto simp: passes_agree_def)
  have "\<exists>e'. asm_seq (map emit_bytes (J d' (code_offset c))) e = Inr e' \<and>
      passes_agree R lim L c' e' \<and> code_size e' = code_size e"
  proof (cases "suppress c")
    case True
    have "asm_seq (map emit_bytes js) s = Inr s" if "suppress s"
      for js and s :: "('w::len, 'z) mp_asm_base_t_scheme"
      using that by (induction js) auto
    with True run have "c' = c" by simp
    with True show ?thesis
      using off agree \<open>\<And>s js. suppress s \<Longrightarrow> asm_seq (map emit_bytes js) s = Inr s\<close> by simp
  next
    case False
    then have "map length (J d' (code_offset c)) = map length (J d (code_offset c))"
      using d'(2) fwd [of "code_offset c" d'] emits_count [OF run c(1) small]
      by (auto simp: word_le_nat_alt)
    then show ?thesis by (rule emits_agree [OF agree run _ R small room])
  qed
  then show "case label_jump dest bad J e of
      Inr e' \<Rightarrow> passes_agree R lim L c' e' \<and> code_size e' = code_size e | Inl err \<Rightarrow> raised err"
    using d'(1) off by (auto simp: label_jump_def emit_code_def)
qed

text \<open>Straight-line code, and steps that are given with their exact cost.\<close>

lemma two_pass_emit_code:
  assumes "total_length js \<le> n" "lim < 2 ^ LENGTH('w)" "added_rel R"
  shows "two_pass_ok R R lim n (emit_code js :: ('w::len, 'z) mp_asm_base_t_scheme asm)"
proof -
  have "two_pass_ok R R lim (sum_list (map length js))
      (asm_seq (map emit_bytes js) :: ('w::len, 'z) mp_asm_base_t_scheme asm)"
    using assms by (intro two_pass_seq) (auto simp: list_all2_conv_all_nth two_pass_emit)
  then show ?thesis
    unfolding emit_code_def using assms(1) by (rule two_pass_weaken)
qed

lemma two_pass_step:
  assumes "two_pass_ok R R' lim k f" "two_pass_ok R' R'' lim (n - k) (asm_seq fs)" "k \<le> n"
  shows "two_pass_ok R R'' lim n (asm_seq (f # fs))"
  using two_pass_Cons [OF assms(1,2)] assms(3) by simp

lemma two_pass_two:
  assumes "two_pass_ok R R' lim k f" "two_pass_ok R' R'' lim m g" "k + m \<le> n"
  shows "two_pass_ok R R'' lim n (asm_seq [f, g])"
  using assms by (intro two_pass_step [OF assms(1)]) (auto intro: two_pass_weaken)

lemma two_pass_cond:
  assumes "b \<Longrightarrow> two_pass_ok R R' lim n f" "\<not> b \<Longrightarrow> two_pass_ok R R' lim n g"
  shows "two_pass_ok R R' lim n (if b then f else g)"
  using assms by simp

lemma two_pass_fail: "two_pass_ok R R' lim n (asm_assert False)"
  by (rule two_pass_okI) auto

lemma two_pass_error: "two_pass_ok R R lim n (\<lambda>s. Inl e)"
  by (rule two_pass_okI) auto

section \<open>Whole programs\<close>

text \<open>One pass over a program, from the call that starts it.\<close>

definition run_pass ::
    "('w::len word \<Rightarrow> u8 list option \<times> 'w word) \<Rightarrow> ('op \<Rightarrow> ('w, 'z) mp_asm_base_t_scheme asm) \<Rightarrow>
       'op list \<Rightarrow> int \<Rightarrow> ('w, 'z) mp_asm_base_t_scheme asm" where
  "run_pass alloc exec prog p as =
     (case mp_asm_base_start_pass alloc p as of Inl e \<Rightarrow> Inl e | Inr as' \<Rightarrow> asm_seq (map exec prog) as')"

text \<open>
  What the executable-memory allocator promises for a request of \<open>n\<close> bytes: a block that
  has at least the announced size, which is at least \<open>n\<close>.
\<close>

definition alloc_gives :: "('w::len word \<Rightarrow> u8 list option \<times> 'w word) \<Rightarrow> 'w word \<Rightarrow> bool" where
  "alloc_gives alloc n \<longleftrightarrow>
     (case alloc n of (None, _) \<Rightarrow> False
      | (Some mem, sz) \<Rightarrow> n \<le> sz \<and> unat sz \<le> length mem)"

text \<open>An allocator that gives exactly what is asked for.\<close>

definition exact_alloc :: "'w::len word \<Rightarrow> u8 list option \<times> 'w word" where
  "exact_alloc n = (Some (replicate (unat n) 0), n)"

lemma alloc_gives_exact [simp]: "alloc_gives exact_alloc n"
  by (simp add: alloc_gives_def exact_alloc_def)

text \<open>
  The interface of one instruction set to the two passes: \<open>exec\<close> runs an operation of its
  assembler, \<open>cost\<close> bounds the bytes it takes. An assembler's own state at the start of the
  passes is related by \<open>R0\<close>; the entry operation brings it to the relation \<open>R\<close> that all other
  operations keep. \<open>allowed\<close> are the operations with operands in the range the assembler
  accepts.
\<close>

locale two_pass_assembler =
  fixes exec :: "'op \<Rightarrow> ('w::len, 'z) mp_asm_base_t_scheme asm"
    and cost :: "'op \<Rightarrow> nat"
    and is_entry :: "'op \<Rightarrow> bool"
    and allowed :: "'op \<Rightarrow> bool"
    and R0 R :: "('w, 'z) mp_asm_base_t_scheme \<Rightarrow> ('w, 'z) mp_asm_base_t_scheme \<Rightarrow> bool"
    and lim :: nat
  assumes lim_half: "lim < 2 ^ LENGTH('w) - 1"
    and added_R0: "added_rel R0"
    and entry_ok: "is_entry op \<Longrightarrow> allowed op \<Longrightarrow> two_pass_ok R0 R lim (cost op) (exec op)"
    and op_ok: "\<not> is_entry op \<Longrightarrow> allowed op \<Longrightarrow> two_pass_ok R R lim (cost op) (exec op)"
begin

lemma body_ok:
  "\<forall>op \<in> set ops. \<not> is_entry op \<and> allowed op \<Longrightarrow>
     two_pass_ok R R lim (sum_list (map cost ops)) (asm_seq (map exec ops))"
  by (rule two_pass_seq) (auto simp: list_all2_conv_all_nth op_ok)

lemma program_ok:
  assumes "is_entry op" "allowed op" "\<forall>op \<in> set ops. \<not> is_entry op \<and> allowed op"
  shows "two_pass_ok R0 R lim (sum_list (map cost (op # ops))) (asm_seq (map exec (op # ops)))"
  using two_pass_Cons [OF entry_ok [OF assms(1,2)] body_ok [OF assms(3)]]
  by (simp del: asm_seq.simps)

text \<open>
  A program whose compute pass succeeds is assembled by the emit pass into the size and
  with the labels of the compute pass, unless an exception is raised; no assertion fails
  and nothing is stored outside the buffer.
\<close>

lemma emit_follows_compute:
  assumes prog: "is_entry op" "allowed op" "\<forall>op \<in> set ops. \<not> is_entry op \<and> allowed op"
    and compute: "run_pass alloc exec (op # ops) MP_ASM_PASS_COMPUTE s = Inr c'"
    and rel: "R0 s c'" and fits: "sum_list (map cost (op # ops)) \<le> lim"
    and room: "alloc_gives alloc (code_offset c')"
  shows "case run_pass alloc exec (op # ops) MP_ASM_PASS_EMIT c' of
      Inr e' \<Rightarrow> code_offset e' = code_offset c' \<and> label_offsets e' = label_offsets c' \<and>
        code_offset e' \<le> code_size e'
    | Inl err \<Rightarrow> raised err"
proof -
  let ?n = "sum_list (map cost (op # ops))"
  let ?c = "s\<lparr>label_offsets := replicate (unat (max_num_labels s)) (- 1),
      pass := 1, suppress := False, code_offset := 0\<rparr>"
  note ok = program_ok [OF prog]
  have c: "compute_state ?c" "unat (code_offset ?c) + ?n \<le> lim"
    using fits by (auto simp: asm_consts)
  have run_c: "asm_seq (map exec (op # ops)) ?c = Inr c'"
    using compute by (simp del: asm_seq.simps add: run_pass_def mp_asm_base_start_pass_def asm_consts)
  have g: "grows ?n ?c c'" by (rule two_pass_okD_grows [OF ok c run_c])
  obtain mem sz where mem: "alloc (code_offset c') = (Some mem, sz)" "code_offset c' \<le> sz"
    "unat sz \<le> length mem"
    using room by (auto simp: alloc_gives_def split: prod.splits option.splits)
  let ?e = "c'\<lparr>code_base := Some mem, code_size := sz, pass := 2, suppress := False, code_offset := 0\<rparr>"
  have len: "length (label_offsets c') = unat (max_num_labels c')"
    using growsD(2,3) [OF g] by simp
  have labels: "x = - 1 \<or> unat x \<le> lim" if "x \<in> set (label_offsets c')" for x
  proof -
    from that obtain l where l: "l < length (label_offsets c')" "x = label_offsets c' ! l"
      by (auto simp: in_set_conv_nth)
    then show ?thesis
      using growsD(3,5) [OF g] growsD(7) [OF g, of l] fits by (auto simp: word_le_nat_alt)
  qed
  have "R0 ?c ?e" by (rule added_relD [OF added_R0 rel]) auto
  then have agree: "passes_agree R0 lim (label_offsets c') ?c ?e"
    using labels mem growsD(2,3) [OF g] by (auto simp: passes_agree_def in_emit_pass_def asm_consts)
  have "labels_ahead (label_offsets c') c'" by (auto simp: labels_ahead_def)
  then have "case asm_seq (map exec (op # ops)) ?e of
      Inr e' \<Rightarrow> passes_agree R lim (label_offsets c') c' e' \<and> code_size e' = code_size ?e
    | Inl err \<Rightarrow> raised err"
    using mem(2) by (intro two_pass_okD_sim [OF ok c run_c agree]) (auto simp: word_le_nat_alt)
  moreover have "run_pass alloc exec (op # ops) MP_ASM_PASS_EMIT c' = asm_seq (map exec (op # ops)) ?e"
    using mem by (simp del: asm_seq.simps add: run_pass_def mp_asm_base_start_pass_def asm_consts)
  ultimately show ?thesis
    using mem(2) by (auto simp: passes_agree_def split: sum.splits)
qed

end

end
