(* ===== verification/Asm_Base_Props.thy ===== *)
theory Asm_Base_Props
  imports Two_Pass
begin

text \<open>
  What the base assembler guarantees by itself: where its writes go, that its operations
  never leave the code buffer or the label table, what alignment does, and how a label is
  resolved by the two passes.
\<close>

section \<open>Memory safety\<close>

text \<open>An operation of the base assembler on a well-formed state.\<close>

definition base_safe :: "('w::len, 'z) mp_asm_base_t_scheme asm \<Rightarrow> ('w, 'z) mp_asm_base_t_scheme \<Rightarrow> bool" where
  "base_safe f as \<longleftrightarrow>
     (case f as of Inr as' \<Rightarrow> asm_base_wf as' | Inl e \<Rightarrow> e \<noteq> UndefinedBehaviour)"

lemma emit_bytes_safe:
  fixes as :: "('w::len, 'z) mp_asm_base_t_scheme"
  assumes "asm_base_wf as" "unat (code_offset as) + length bs < 2 ^ LENGTH('w)"
  shows "base_safe (emit_bytes bs) as"
proof (cases "suppress as \<or> \<not> in_emit_pass as")
  case True
  with assms(1) show ?thesis
    by (cases "suppress as") (auto simp: base_safe_def emit_bytes_count asm_base_wf_def)
next
  case False
  let ?mem = "case code_base as of None \<Rightarrow> [] | Some mem \<Rightarrow> mem"
  have mem: "unat (code_size as) \<le> length ?mem"
    using assms(1) False by (simp add: asm_base_wf_def)
  have off: "unat (code_offset as + word_of_nat (length bs)) = unat (code_offset as) + length bs"
    by (rule unat_add_of_nat [OF assms(2)])
  show ?thesis
  proof (cases "code_offset as + word_of_nat (length bs) \<le> code_size as")
    case True
    then have "unat (code_offset as) + length bs \<le> length ?mem"
      using mem off by (simp add: word_le_nat_alt)
    then show ?thesis
      using False True assms(1)
      by (auto simp: base_safe_def emit_bytes_def mp_asm_base_get_cur_to_write_bytes_def
          mp_store_bytes_def asm_base_wf_def split: option.splits)
  qed (use False in \<open>auto simp: base_safe_def emit_bytes_def mp_asm_base_get_cur_to_write_bytes_def\<close>)
qed

lemma base_small_safe:
  assumes "asm_base_wf as"
  shows "base_safe (mp_asm_base_label_assign l) as" "base_safe (mp_asm_base_align align) as"
    "base_safe mp_asm_base_suppress_code as"
  using assms
  by (auto simp: base_safe_def asm_base_wf_def mp_asm_base_label_assign_def label_offset_def mp_asm_base_align_def
      mp_asm_base_suppress_code_def word_less_nat_alt Let_def split: sum.splits)

lemma base_data_safe:
  fixes as :: "('w::len, 'z) mp_asm_base_t_scheme"
  assumes "asm_base_wf as" "unat (code_offset as) + unat bytesize < 2 ^ LENGTH('w)"
  shows "base_safe (mp_asm_base_data bytesize val) as"
  unfolding mp_asm_base_data_def by (rule emit_bytes_safe) (use assms in auto)

lemma base_start_safe:
  assumes "asm_base_wf as" "p = MP_ASM_PASS_COMPUTE \<or> p = MP_ASM_PASS_EMIT"
    and "unat (snd (alloc (code_offset as))) \<le>
      length (case fst (alloc (code_offset as)) of None \<Rightarrow> [] | Some mem \<Rightarrow> mem)"
  shows "base_safe (mp_asm_base_start_pass alloc p) as"
  using assms
  by (auto simp: base_safe_def asm_base_wf_def mp_asm_base_start_pass_def asm_consts in_emit_pass_def Let_def
      split: prod.splits option.splits)

text \<open>
  C2: On a well-formed state no operation of the base assembler reads or writes outside the
  code buffer or the label table, and each leaves a well-formed state: labels, alignment,
  data (while the offset does not wrap around), suppression, and the start of a pass with an
  allocator whose block has at least the size it reports.
\<close>

theorem base_operations_safe:
  fixes as :: "('w::len, 'z) mp_asm_base_t_scheme"
  assumes "asm_base_wf as" "unat (code_offset as) + unat bytesize < 2 ^ LENGTH('w)"
    and "\<And>n. unat (snd (alloc n)) \<le> length (case fst (alloc n) of None \<Rightarrow> [] | Some mem \<Rightarrow> mem)"
  shows "base_safe (mp_asm_base_label_assign l) as \<and> base_safe (mp_asm_base_align align) as \<and>
    base_safe (mp_asm_base_data bytesize val) as \<and> base_safe mp_asm_base_suppress_code as \<and>
    base_safe (mp_asm_base_start_pass alloc MP_ASM_PASS_COMPUTE) as \<and>
    base_safe (mp_asm_base_start_pass alloc MP_ASM_PASS_EMIT) as"
  using base_small_safe [OF assms(1)] base_start_safe [OF assms(1) _ assms(3)] base_data_safe [OF assms(1,2)]
  by (simp add: asm_consts)

definition base_demo_state :: "32 mp_asm_base_t" where
  "base_demo_state = \<lparr>pass = 2, suppress = False, code_offset = 4, code_size = 16,
     code_base = Some (replicate 16 0), max_num_labels = 2, label_offsets = [- 1, 8]\<rparr>"

theorem base_operations_safe_witness:
  "asm_base_wf base_demo_state \<and> base_safe (mp_asm_base_data 4 0xDEADBEEF) base_demo_state"
  using base_operations_safe [where as = base_demo_state and bytesize = 4 and
    alloc = "\<lambda>n. (None, 0)" and val = "0xDEADBEEF"]
  by (simp add: base_demo_state_def asm_base_wf_def)

section \<open>Data\<close>

text \<open>
  C3: In the emit pass, with room left, \<open>mp_asm_base_data\<close> succeeds, advances the offset by
  the size of the item, and reading the item back in little-endian order gives the value
  (its low bytes); every other byte of the buffer is unchanged.
\<close>

theorem mp_asm_base_data_stores:
  fixes as :: "('w::len, 'z) mp_asm_base_t_scheme"
  assumes "\<not> suppress as" "in_emit_pass as" "code_base as = Some mem"
    and "unat (code_size as) \<le> length mem"
    and "unat (code_offset as) + unat bytesize \<le> unat (code_size as)"
  shows "\<exists>as' mem'. mp_asm_base_data bytesize val as = Inr as' \<and> code_base as' = Some mem' \<and>
    unat (code_offset as') = unat (code_offset as) + unat bytesize \<and> length mem' = length mem \<and>
    le_word (take (unat bytesize) (drop (unat (code_offset as)) mem')) =
      take_bit (8 * unat bytesize) val \<and>
    (\<forall>i < length mem. i < unat (code_offset as) \<or> unat (code_offset as) + unat bytesize \<le> i \<longrightarrow>
       mem' ! i = mem ! i)"
proof -
  let ?bs = "le_bytes (unat bytesize) val"
  have fits: "unat (code_offset as) + length ?bs \<le> length mem" using assms by simp
  have "unat (code_offset as) + unat bytesize < 2 ^ LENGTH('w)"
    using assms(5) unsigned_less [of "code_size as"] by (rule order_le_less_trans)
  then have "unat (code_offset as + word_of_nat (unat bytesize)) = unat (code_offset as) + unat bytesize"
    by (rule unat_add_of_nat)
  moreover have "mp_asm_base_data bytesize val as =
     Inr (as\<lparr>code_offset := code_offset as + word_of_nat (length ?bs),
             code_base := Some (store_at (unat (code_offset as)) ?bs mem)\<rparr>)"
    unfolding mp_asm_base_data_def by (rule emit_bytes_store) (use assms in auto)
  ultimately show ?thesis
    using fits store_at_read [OF fits] nth_store_at_other [OF fits]
    by (auto simp: le_word_le_bytes)
qed

theorem mp_asm_base_data_stores_witness:
  "\<exists>as' mem'. mp_asm_base_data 4 0xDEADBEEF base_demo_state = Inr as' \<and> code_base as' = Some mem' \<and>
    le_word (take 4 (drop 4 mem')) = (0xDEADBEEF :: u32)"
  using mp_asm_base_data_stores [where as = base_demo_state and mem = "replicate 16 0" and
    bytesize = 4 and val = "0xDEADBEEF"]
  by (auto simp: base_demo_state_def in_emit_pass_def asm_consts)

section \<open>Alignment\<close>

text \<open>
  C4: \<open>mp_asm_base_align\<close> with a power of two moves the offset to the next multiple: the result
  is a multiple of the alignment, not before the old offset, and less than one alignment
  unit after it.
\<close>

theorem mp_asm_base_align_next_multiple:
  fixes as :: "('w::len, 'z) mp_asm_base_t_scheme"
  assumes "k < 32" "unat (code_offset as) + 2 ^ k \<le> 2 ^ LENGTH('w)"
  shows "\<exists>as'. mp_asm_base_align (2 ^ k) as = Inr as' \<and> 2 ^ k dvd unat (code_offset as') \<and>
    unat (code_offset as) \<le> unat (code_offset as') \<and>
    unat (code_offset as') < unat (code_offset as) + 2 ^ k"
  using mp_asm_base_align_rounds [OF assms] round_up_bounds [of "2 ^ k" "unat (code_offset as)"] by auto

theorem mp_asm_base_align_next_multiple_witness:
  "\<exists>as'. mp_asm_base_align (2 ^ 3) base_demo_state = Inr as' \<and> 2 ^ 3 dvd unat (code_offset as')"
  using mp_asm_base_align_next_multiple [of 3 base_demo_state] by (auto simp: base_demo_state_def)

section \<open>Labels\<close>

text \<open>
  C5: A label is assigned once per compute pass: after a successful assignment it reads back
  as the current offset, the other labels are as before, code is no longer suppressed, and
  assigning it again fails the assertion (for an offset other than the marker value -1).
\<close>

theorem mp_asm_base_label_assign_once:
  fixes as :: "('w::len, 'z) mp_asm_base_t_scheme"
  assumes "mp_asm_base_label_assign l as = Inr as'"
    and "uint (pass as) < MP_ASM_PASS_EMIT" "code_offset as \<noteq> - 1"
  shows "label_offset l as' = Inr (code_offset as) \<and> \<not> suppress as' \<and>
    (\<forall>l'. l' \<noteq> l \<longrightarrow> label_offset l' as' = label_offset l' as) \<and>
    mp_asm_base_label_assign l as' = Inl AssertionFailed"
  using assms
  by (auto simp: mp_asm_base_label_assign_def label_offset_def Let_def nth_list_update
      word_unat_eq_iff split: if_splits sum.splits)

theorem mp_asm_base_label_assign_once_witness:
  "\<exists>as'. mp_asm_base_label_assign 0 (base_demo_state\<lparr>pass := 1\<rparr>) = Inr as' \<and>
     label_offset 0 as' = Inr 4 \<and> mp_asm_base_label_assign 0 as' = Inl AssertionFailed"
proof -
  have "mp_asm_base_label_assign 0 (base_demo_state\<lparr>pass := 1\<rparr>) =
      Inr (base_demo_state\<lparr>pass := 1, label_offsets := [4, 8]\<rparr>)"
    by (simp add: mp_asm_base_label_assign_def base_demo_state_def label_offset_def asm_consts)
  from mp_asm_base_label_assign_once [OF this] this show ?thesis
    by (simp add: base_demo_state_def asm_consts)
qed

end
