(* ===== verification/Asm_Base_Machine.thy ===== *)
theory Asm_Base_Machine
  imports Asm_Base_Props
begin

text \<open>
  The base assembler as a state machine: the calls the assemblers and the emitter make on it
  are events, a step performs one event that succeeds. Two views of its runs: an invariant of
  every state a fresh assembler can reach, and a refinement of a simple output device that
  appends bytes.
\<close>

section \<open>Invariants of transition systems\<close>

locale transition_invariant =
  fixes start :: "'s \<Rightarrow> bool" and step :: "'s \<Rightarrow> 's \<Rightarrow> bool" and inv :: "'s \<Rightarrow> bool"
  assumes start_inv: "start s \<Longrightarrow> inv s"
    and step_inv: "inv s \<Longrightarrow> step s t \<Longrightarrow> inv t"
begin

lemma reachable_inv: "start s \<Longrightarrow> rtranclp step s t \<Longrightarrow> inv t"
proof -
  assume "rtranclp step s t" "start s"
  then show "inv t" by (induction rule: rtranclp_induct) (auto intro: start_inv step_inv)
qed

end

section \<open>Simulations\<close>

inductive event_run :: "('e \<Rightarrow> 's \<Rightarrow> 's \<Rightarrow> bool) \<Rightarrow> 'e list \<Rightarrow> 's \<Rightarrow> 's \<Rightarrow> bool" for step where
  run_Nil: "event_run step [] s s"
| run_Cons: "step e s t \<Longrightarrow> event_run step es t u \<Longrightarrow> event_run step (e # es) s u"

locale forward_simulation =
  fixes cstep :: "'e \<Rightarrow> 'c \<Rightarrow> 'c \<Rightarrow> bool" and astep :: "'e \<Rightarrow> 'a \<Rightarrow> 'a \<Rightarrow> bool"
    and view :: "'c \<Rightarrow> 'a" and inv :: "'c \<Rightarrow> bool"
  assumes keeps_inv: "inv s \<Longrightarrow> cstep e s t \<Longrightarrow> inv t"
    and simulates: "inv s \<Longrightarrow> cstep e s t \<Longrightarrow> astep e (view s) (view t)"
begin

lemma runs: "event_run cstep es s t \<Longrightarrow> inv s \<Longrightarrow> event_run astep es (view s) (view t) \<and> inv t"
  by (induction rule: event_run.induct) (auto intro: event_run.intros keeps_inv simulates)

end

section \<open>Events\<close>

datatype 'v base_event =
    Start_pass int
  | Label_assign 'v
  | Align u32
  | Data u32 'v
  | Suppress

fun base_exec :: "('w::len word \<Rightarrow> u8 list option \<times> 'w word) \<Rightarrow> 'w word base_event \<Rightarrow>
    ('w, 'z) mp_asm_base_t_scheme asm" where
  "base_exec alloc (Start_pass p) = mp_asm_base_start_pass alloc p"
| "base_exec alloc (Label_assign l) = mp_asm_base_label_assign l"
| "base_exec alloc (Align align) = mp_asm_base_align align"
| "base_exec alloc (Data bytesize val) = mp_asm_base_data bytesize val"
| "base_exec alloc Suppress = mp_asm_base_suppress_code"

text \<open>
  What the callers keep to: the two passes of the header, alignments that are powers of two,
  and offsets that do not wrap around. The allocator reports no more bytes than it gives.
\<close>

fun base_fits :: "('w::len word \<Rightarrow> u8 list option \<times> 'w word) \<Rightarrow> 'w word base_event \<Rightarrow>
    ('w, 'z) mp_asm_base_t_scheme \<Rightarrow> bool" where
  "base_fits alloc (Start_pass p) s \<longleftrightarrow>
     (p = MP_ASM_PASS_COMPUTE \<or> p = MP_ASM_PASS_EMIT) \<and>
     unat (snd (alloc (code_offset s))) \<le>
       length (case fst (alloc (code_offset s)) of None \<Rightarrow> [] | Some mem \<Rightarrow> mem)"
| "base_fits alloc (Label_assign l) s \<longleftrightarrow> True"
| "base_fits alloc (Align align) s \<longleftrightarrow>
     list_ex (\<lambda>k. align = 2 ^ k \<and> unat (code_offset s) + 2 ^ k \<le> 2 ^ LENGTH('w)) [0..<32]"
| "base_fits alloc (Data bytesize val) s \<longleftrightarrow> unat (code_offset s) + unat bytesize < 2 ^ LENGTH('w)"
| "base_fits alloc Suppress s \<longleftrightarrow> True"

inductive base_step :: "('w::len word \<Rightarrow> u8 list option \<times> 'w word) \<Rightarrow>
    ('w, 'z) mp_asm_base_t_scheme \<Rightarrow> ('w, 'z) mp_asm_base_t_scheme \<Rightarrow> bool" for alloc where
  base_stepI: "base_fits alloc ev s \<Longrightarrow> base_exec alloc ev s = Inr t \<Longrightarrow> base_step alloc s t"

inductive_cases base_stepE: "base_step alloc s t"

text \<open>A fresh assembler: the zeroed structure after \<open>mp_asm_base_init\<close>.\<close>

definition base_fresh :: "('w::len word \<Rightarrow> 'w word list option) \<Rightarrow> 'w word \<Rightarrow>
    ('w, 'z) mp_asm_base_t_scheme \<Rightarrow> bool" where
  "base_fresh m_new n s \<longleftrightarrow>
     (\<exists>s0 block. pass s0 = 0 \<and> m_new n = Some block \<and> length block = unat n \<and> mp_asm_base_init m_new n s0 = Inr s)"

section \<open>The invariant\<close>

text \<open>The state is well-formed, and in the compute pass no label lies ahead of the code.\<close>

definition base_inv :: "('w::len, 'z) mp_asm_base_t_scheme \<Rightarrow> bool" where
  "base_inv s \<longleftrightarrow> asm_base_wf s \<and>
     (uint (pass s) = MP_ASM_PASS_COMPUTE \<longrightarrow> (\<forall>x \<in> set (label_offsets s). x = - 1 \<or> x \<le> code_offset s))"

lemma base_fresh_inv: "base_fresh m_new n s \<Longrightarrow> base_inv s"
  by (auto simp: base_fresh_def mp_asm_base_init_def base_inv_def asm_base_wf_def in_emit_pass_def asm_consts)

lemma base_safe_Inr: "base_safe f s \<Longrightarrow> f s = Inr t \<Longrightarrow> asm_base_wf t"
  by (simp add: base_safe_def)

text \<open>Each event keeps the state well-formed and stays inside the buffer and the table.\<close>

lemma align_grows:
  fixes s :: "('w::len, 'z) mp_asm_base_t_scheme"
  assumes "base_fits alloc (Align align) s" "mp_asm_base_align align s = Inr t"
  shows "code_offset s \<le> code_offset t" "t = s\<lparr>code_offset := code_offset t\<rparr>"
proof -
  obtain k where k: "k < 32" "align = 2 ^ k" "unat (code_offset s) + 2 ^ k \<le> 2 ^ LENGTH('w)"
    using assms(1) by (auto simp: list_ex_iff)
  then obtain o' where "t = s\<lparr>code_offset := o'\<rparr>" "unat o' = (unat (code_offset s) + 2 ^ k - 1) div 2 ^ k * 2 ^ k"
    using mp_asm_base_align_rounds [OF k(1,3)] assms(2) by auto
  then show "code_offset s \<le> code_offset t" "t = s\<lparr>code_offset := code_offset t\<rparr>"
    using round_up_bounds [of "2 ^ k" "unat (code_offset s)"] by (auto simp: word_le_nat_alt)
qed

lemma base_exec_safe: "asm_base_wf s \<Longrightarrow> base_fits alloc ev s \<Longrightarrow> base_safe (base_exec alloc ev) s"
  by (cases ev) (auto simp: base_small_safe base_data_safe base_start_safe)

lemma base_step_labels:
  assumes inv: "base_inv s" and fits: "base_fits alloc ev s" and run: "base_exec alloc ev s = Inr t"
    and pass: "uint (pass t) = MP_ASM_PASS_COMPUTE" and x: "x \<in> set (label_offsets t)"
  shows "x = - 1 \<or> x \<le> code_offset t"
proof (cases ev)
  case (Start_pass p)
  then show ?thesis
    using run fits pass x by (auto simp: mp_asm_base_start_pass_def asm_consts split: if_splits prod.splits)
next
  case (Label_assign l)
  then have "code_offset t = code_offset s" "pass t = pass s"
    "x \<in> set (label_offsets s) \<or> x = code_offset s"
    using run x set_update_subset_insert [of "label_offsets s" "unat l" "code_offset s"]
    by (auto simp: mp_asm_base_label_assign_def Let_def split: if_splits sum.splits)
  then show ?thesis using inv pass by (auto simp: base_inv_def)
next
  case (Align align)
  then have "code_offset s \<le> code_offset t" "pass t = pass s" "label_offsets t = label_offsets s"
    using align_grows [of alloc align s t] fits run by (auto simp: mp_asm_base_align_def)
  then show ?thesis using inv pass x by (auto simp: base_inv_def intro: order_trans)
next
  case (Data bytesize val)
  let ?bs = "le_bytes (unat bytesize) val"
  have e: "emit_bytes ?bs s = Inr t" using run Data by (simp add: mp_asm_base_data_def)
  have "unat (code_offset s + word_of_nat (length ?bs)) = unat (code_offset s) + length ?bs"
    using fits Data by (intro unat_add_of_nat) simp
  moreover have "\<not> in_emit_pass s" using pass emit_bytes_keeps(1) [OF e] by (simp add: in_emit_pass_def asm_consts)
  ultimately have "code_offset s \<le> code_offset t"
    using e by (cases "suppress s") (auto simp: emit_bytes_count word_le_nat_alt)
  then show ?thesis using inv pass x emit_bytes_keeps [OF e] by (auto simp: base_inv_def intro: order_trans)
next
  case Suppress
  then show ?thesis using inv run pass x by (auto simp: base_inv_def mp_asm_base_suppress_code_def)
qed

interpretation base_machine: transition_invariant "base_fresh m_new n" "base_step alloc" base_inv for m_new n alloc
proof
  show "base_inv s" if "base_fresh m_new n s" for s :: "('a, 'b) mp_asm_base_t_scheme"
    using that by (rule base_fresh_inv)
  show "base_inv t" if inv: "base_inv s" and step: "base_step alloc s t" for s t :: "('a, 'b) mp_asm_base_t_scheme"
  proof -
    obtain ev where ev: "base_fits alloc ev s" "base_exec alloc ev s = Inr t" using step by (rule base_stepE)
    then have "asm_base_wf t"
      using inv base_safe_Inr [OF base_exec_safe] by (auto simp: base_inv_def)
    then show ?thesis using base_step_labels [OF inv ev] by (simp add: base_inv_def)
  qed
qed

text \<open>
  C6: In every state a fresh assembler reaches by the operations of the base assembler, the label
  table has its announced length, the code buffer holds at least the announced number of bytes
  in the emit pass, and every label of a compute pass is unassigned or not ahead of the code; and
  no further operation accesses memory outside the buffer or the table.
\<close>

theorem base_reachable_inv:
  assumes "base_fresh m_new n s" "rtranclp (base_step alloc) s t"
  shows "base_inv t \<and> (base_fits alloc ev t \<longrightarrow> base_exec alloc ev t \<noteq> Inl UndefinedBehaviour)"
proof -
  have "base_inv t" using assms by (rule base_machine.reachable_inv)
  then show ?thesis using base_exec_safe [of t alloc ev] by (auto simp: base_inv_def base_safe_def)
qed

definition base_fresh_state :: "32 mp_asm_base_t" where
  "base_fresh_state = \<lparr>pass = 0, suppress = False, code_offset = 0, code_size = 0,
     code_base = None, max_num_labels = 2, label_offsets = [0, 0]\<rparr>"

theorem base_reachable_inv_witness:
  "\<exists>t. rtranclp (base_step exact_alloc) base_fresh_state t \<and> code_offset t = 4 \<and> base_inv t"
proof -
  have two: "replicate 2 x = [x, x]" for x :: u32 by (simp add: numeral_2_eq_2)
  have fresh: "base_fresh (\<lambda>n. Some (replicate (unat n) 0)) 2 base_fresh_state"
    unfolding base_fresh_def
    by (intro exI [of _ base_fresh_state] exI [of _ "[0, 0]"])
      (simp add: base_fresh_state_def mp_asm_base_init_def two)
  let ?t1 = "base_fresh_state\<lparr>pass := 1, label_offsets := [- 1, - 1]\<rparr>"
  let ?t2 = "?t1\<lparr>code_offset := 4\<rparr>"
  have "base_step exact_alloc base_fresh_state ?t1"
    by (rule base_stepI [of _ "Start_pass MP_ASM_PASS_COMPUTE"])
      (simp_all add: base_fresh_state_def mp_asm_base_start_pass_def asm_consts exact_alloc_def two)
  moreover have "base_step exact_alloc ?t1 ?t2"
    by (rule base_stepI [of _ "Data 4 7"])
      (simp_all add: base_fresh_state_def mp_asm_base_data_def emit_bytes_count in_emit_pass_def asm_consts)
  ultimately have run: "rtranclp (base_step exact_alloc) base_fresh_state ?t2" by auto
  then show ?thesis using base_reachable_inv [OF fresh run] by auto
qed

section \<open>The emit pass writes a stream of bytes\<close>

text \<open>
  The specification: a device with the bytes written so far, which ignores data while it is
  muted. Labels unmute it and must be where the label table \<open>L\<close> has them; an alignment adds
  fewer bytes than its unit, whatever they are, to reach a multiple of it.
\<close>

record device =
  stream :: "u8 list"
  muted :: bool

inductive device_step :: "'w::len word list \<Rightarrow> 'w word base_event \<Rightarrow> device \<Rightarrow> device \<Rightarrow> bool" for L where
  device_data: "\<not> muted d \<Longrightarrow>
    device_step L (Data bytesize val) d (d\<lparr>stream := stream d @ le_bytes (unat bytesize) val\<rparr>)"
| device_muted: "muted d \<Longrightarrow> device_step L (Data bytesize val) d d"
| device_label: "unat l < length L \<Longrightarrow> length (stream d) = unat (L ! unat l) \<Longrightarrow>
    device_step L (Label_assign l) d (d\<lparr>muted := False\<rparr>)"
| device_align: "length pad < 2 ^ k \<Longrightarrow> 2 ^ k dvd length (stream d @ pad) \<Longrightarrow>
    device_step L (Align (2 ^ k)) d (d\<lparr>stream := stream d @ pad\<rparr>)"
| device_suppress: "device_step L Suppress d (d\<lparr>muted := True\<rparr>)"

definition device_of :: "('w::len, 'z) mp_asm_base_t_scheme \<Rightarrow> device" where
  "device_of s = \<lparr>stream = take (unat (code_offset s)) (case code_base s of None \<Rightarrow> [] | Some mem \<Rightarrow> mem),
     muted = suppress s\<rparr>"

text \<open>The assembler inside the emit pass, up to the end of the announced size.\<close>

definition emit_step :: "('w::len word \<Rightarrow> u8 list option \<times> 'w word) \<Rightarrow> 'w word base_event \<Rightarrow>
    ('w, 'z) mp_asm_base_t_scheme \<Rightarrow> ('w, 'z) mp_asm_base_t_scheme \<Rightarrow> bool" where
  "emit_step alloc ev s t \<longleftrightarrow> (\<forall>p. ev \<noteq> Start_pass p) \<and> base_fits alloc ev s \<and> base_exec alloc ev s = Inr t \<and>
     code_offset t \<le> code_size t"

definition emit_inv :: "'w::len word list \<Rightarrow> ('w, 'z) mp_asm_base_t_scheme \<Rightarrow> bool" where
  "emit_inv L s \<longleftrightarrow> in_emit_pass s \<and> asm_base_wf s \<and> label_offsets s = L \<and> code_offset s \<le> code_size s"

lemma emit_inv_buffer:
  assumes "emit_inv L s"
  shows "unat (code_offset s) \<le> length (case code_base s of None \<Rightarrow> [] | Some mem \<Rightarrow> mem)"
  using assms by (auto simp: emit_inv_def asm_base_wf_def word_le_nat_alt)

lemma emit_data_appends:
  fixes s :: "('w::len, 'z) mp_asm_base_t_scheme"
  assumes inv: "emit_inv L s" and fits: "unat (code_offset s) + length bs < 2 ^ LENGTH('w)"
    and run: "emit_bytes bs s = Inr t"
  shows "device_of t = (if suppress s then device_of s else (device_of s)\<lparr>stream := stream (device_of s) @ bs\<rparr>)"
proof (cases "suppress s \<or> bs = []")
  case True
  then show ?thesis
    using run by (cases "code_base s") (auto simp: device_of_def emit_bytes_def mp_asm_base_get_cur_to_write_bytes_def
        mp_store_bytes_def store_at_def split: if_splits)
next
  case False
  then obtain mem where mem: "code_base s = Some mem" "unat (code_offset s) + length bs \<le> length mem"
    "t = s\<lparr>code_offset := code_offset s + word_of_nat (length bs),
       code_base := Some (store_at (unat (code_offset s)) bs mem)\<rparr>"
    using run inv by (auto simp: emit_inv_def emit_bytes_def mp_asm_base_get_cur_to_write_bytes_def mp_store_bytes_def
        split: if_splits option.splits)
  then show ?thesis
    using False unat_add_of_nat [OF fits] by (simp add: device_of_def store_at_def)
qed

lemma emit_step_fields:
  assumes "emit_step alloc ev s t" "in_emit_pass s"
  shows "in_emit_pass t" "label_offsets t = label_offsets s"
  using assms emit_bytes_keeps
  by (cases ev; fastforce simp: emit_step_def mp_asm_base_label_assign_def mp_asm_base_align_def mp_asm_base_data_def
      mp_asm_base_suppress_code_def in_emit_pass_def Let_def split: if_splits sum.splits)+

lemma emit_step_inv:
  assumes "emit_inv L s" "emit_step alloc ev s t"
  shows "emit_inv L t"
  using assms emit_step_fields [OF assms(2)] base_safe_Inr [OF base_exec_safe]
  by (fastforce simp: emit_inv_def emit_step_def)

lemma align_pads:
  fixes s :: "('w::len, 'z) mp_asm_base_t_scheme"
  assumes "emit_inv L s" "emit_step alloc (Align align) s t"
  shows "device_step L (Align align) (device_of s) (device_of t)"
proof -
  let ?mem = "case code_base s of None \<Rightarrow> [] | Some mem \<Rightarrow> mem"
  obtain k where k: "k < 32" "align = 2 ^ k" "unat (code_offset s) + 2 ^ k \<le> 2 ^ LENGTH('w)"
    using assms(2) by (auto simp: emit_step_def list_ex_iff)
  have t: "unat (code_offset t) = (unat (code_offset s) + 2 ^ k - 1) div 2 ^ k * 2 ^ k"
    using assms(2) mp_asm_base_align_rounds [OF k(1,3)] by (auto simp: emit_step_def k(2))
  have bounds: "unat (code_offset s) \<le> unat (code_offset t)" "unat (code_offset t) < unat (code_offset s) + 2 ^ k"
    unfolding t using round_up_bounds [of "2 ^ k" "unat (code_offset s)"] by simp_all
  have "code_base t = code_base s" "suppress t = suppress s"
    using assms(2) by (auto simp: emit_step_def mp_asm_base_align_def)
  moreover have len: "unat (code_offset t) \<le> length ?mem"
    using emit_inv_buffer [OF emit_step_inv [OF assms]] calculation by simp
  define pad where "pad = drop (unat (code_offset s)) (take (unat (code_offset t)) ?mem)"
  have "take (unat (code_offset t)) ?mem = take (unat (code_offset s)) ?mem @ pad"
    unfolding pad_def
    using bounds(1) append_take_drop_id [of "unat (code_offset s)" "take (unat (code_offset t)) ?mem"]
    by (simp add: min_absorb1)
  ultimately have dev: "device_of t = (device_of s)\<lparr>stream := stream (device_of s) @ pad\<rparr>"
    by (simp add: device_of_def)
  have "length pad < 2 ^ k" "2 ^ k dvd length (stream (device_of s) @ pad)"
    using bounds len t by (simp_all add: pad_def device_of_def)
  then show ?thesis unfolding dev k(2) by (rule device_align)
qed

lemma emit_step_simulates:
  fixes s :: "('w::len, 'z) mp_asm_base_t_scheme"
  assumes "emit_inv L s" "emit_step alloc ev s t"
  shows "device_step L ev (device_of s) (device_of t)"
proof (cases ev)
  case (Label_assign l)
  then have l: "unat l < length L" "L ! unat l = code_offset s" and t: "t = s\<lparr>suppress := False\<rparr>"
    using assms by (auto simp: emit_step_def emit_inv_def mp_asm_base_label_assign_def label_offset_def Let_def
        in_emit_pass_def split: if_splits)
  have "length (stream (device_of s)) = unat (L ! unat l)"
    using emit_inv_buffer [OF assms(1)] l(2) by (simp add: device_of_def)
  then have "device_step L (Label_assign l) (device_of s) ((device_of s)\<lparr>muted := False\<rparr>)"
    using l(1) by (intro device_label)
  moreover have "device_of t = (device_of s)\<lparr>muted := False\<rparr>" by (simp add: t device_of_def)
  ultimately show ?thesis using Label_assign by simp
next
  case (Data bytesize val)
  then have e: "emit_bytes (le_bytes (unat bytesize) val) s = Inr t"
    and fits: "unat (code_offset s) + length (le_bytes (unat bytesize) val) < 2 ^ LENGTH('w)"
    using assms(2) by (simp_all add: emit_step_def mp_asm_base_data_def)
  have "muted (device_of s) = suppress s" by (simp add: device_of_def)
  then show ?thesis
    unfolding Data emit_data_appends [OF assms(1) fits e] by (cases "suppress s") (simp_all add: device_data device_muted)
next
  case Suppress
  then have "device_of t = (device_of s)\<lparr>muted := True\<rparr>"
    using assms(2) by (auto simp: emit_step_def mp_asm_base_suppress_code_def device_of_def)
  then show ?thesis using Suppress device_suppress by simp
next
  case (Align align)
  then show ?thesis using align_pads assms by blast
qed (use assms in \<open>simp add: emit_step_def\<close>)

interpretation emit_device: forward_simulation "emit_step alloc" "device_step L" device_of "emit_inv L" for alloc L
  by unfold_locales (rule emit_step_inv, assumption+, rule emit_step_simulates)

text \<open>
  C7: In the emit pass the base assembler refines a device that appends bytes: every run of
  its operations that stays within the announced size is a run of the device on the bytes
  written so far, so that data items follow each other in order with nothing overwritten,
  suppressed items leave no bytes, and each label is met where the label table has it.
\<close>

theorem emit_refines_device:
  assumes "event_run (emit_step alloc) evs s t" "in_emit_pass s" "asm_base_wf s" "code_offset s \<le> code_size s"
  shows "event_run (device_step (label_offsets s)) evs (device_of s) (device_of t)"
  using emit_device.runs [OF assms(1), of "label_offsets s"] assms(2-4) by (simp add: emit_inv_def)

theorem emit_refines_device_witness:
  "\<exists>t. event_run (emit_step exact_alloc) [Data 2 0x1234, Label_assign 1] (base_demo_state\<lparr>label_offsets := [0, 6]\<rparr>) t \<and>
     event_run (device_step [0, 6 :: u32]) [Data 2 0x1234, Label_assign 1]
       \<lparr>stream = [0, 0, 0, 0], muted = False\<rparr> \<lparr>stream = [0, 0, 0, 0, 0x34, 0x12], muted = False\<rparr>"
proof -
  let ?s = "base_demo_state\<lparr>label_offsets := [0, 6 :: u32]\<rparr>"
  let ?t = "?s\<lparr>code_offset := 6, code_base := Some ([0, 0, 0, 0, 0x34, 0x12] @ replicate 10 0)\<rparr>"
  have "base_exec exact_alloc (Data 2 0x1234) ?s = Inr ?t" "base_exec exact_alloc (Label_assign 1) ?t = Inr ?t"
    by code_simp+
  then have "emit_step exact_alloc (Data 2 0x1234) ?s ?t" "emit_step exact_alloc (Label_assign 1) ?t ?t"
    by (simp_all add: emit_step_def base_demo_state_def)
  then have run: "event_run (emit_step exact_alloc) [Data 2 0x1234, Label_assign 1] ?s ?t"
    by (blast intro: event_run.intros)
  have dev: "device_of ?s = \<lparr>stream = [0, 0, 0, 0], muted = False\<rparr>"
    "device_of ?t = \<lparr>stream = [0, 0, 0, 0, 0x34, 0x12], muted = False\<rparr>"
    by code_simp+
  show ?thesis
    using emit_refines_device [OF run] run unfolding dev
    by (auto simp: base_demo_state_def in_emit_pass_def asm_consts asm_base_wf_def)
qed

end
