(* ===== verification/Asm_RV32_Opcodes.thy ===== *)
theory Asm_RV32_Opcodes
  imports Two_Pass
begin

text \<open>
  The RISC-V part of the assembler that sits below the code generator:
  \<open>src/bank/uPython-ASM/asmrv32.h\<close> (register numbers, the assembler's struct, the
  instruction encodings and one function per opcode) and the two writers
  \<open>asm_rv32_emit_word_opcode\<close> and \<open>asm_rv32_emit_halfword_opcode\<close> of \<open>asmrv32.c\<close>.

  \<open>mp_uint_t\<close>, \<open>mp_int_t\<close>, \<open>size_t\<close> and \<open>ptrdiff_t\<close> have 32 bits on this target.
\<close>

section \<open>Registers\<close>

definition ASM_RV32_REG_ZERO :: u32 where [asm_consts]: "ASM_RV32_REG_ZERO = 0"
definition ASM_RV32_REG_RA :: u32 where [asm_consts]: "ASM_RV32_REG_RA = 1"
definition ASM_RV32_REG_SP :: u32 where [asm_consts]: "ASM_RV32_REG_SP = 2"
definition ASM_RV32_REG_T1 :: u32 where [asm_consts]: "ASM_RV32_REG_T1 = 6"
definition ASM_RV32_REG_T2 :: u32 where [asm_consts]: "ASM_RV32_REG_T2 = 7"
definition ASM_RV32_REG_X8 :: u32 where [asm_consts]: "ASM_RV32_REG_X8 = 8"
definition ASM_RV32_REG_S0 :: u32 where [asm_consts]: "ASM_RV32_REG_S0 = 8"
definition ASM_RV32_REG_S1 :: u32 where [asm_consts]: "ASM_RV32_REG_S1 = 9"
definition ASM_RV32_REG_A0 :: u32 where [asm_consts]: "ASM_RV32_REG_A0 = 10"
definition ASM_RV32_REG_X15 :: u32 where [asm_consts]: "ASM_RV32_REG_X15 = 15"
definition ASM_RV32_REG_S2 :: u32 where [asm_consts]: "ASM_RV32_REG_S2 = 18"
definition ASM_RV32_REG_S3 :: u32 where [asm_consts]: "ASM_RV32_REG_S3 = 19"
definition ASM_RV32_REG_S4 :: u32 where [asm_consts]: "ASM_RV32_REG_S4 = 20"
definition ASM_RV32_REG_T3 :: u32 where [asm_consts]: "ASM_RV32_REG_T3 = 28"

definition RV32_AVAILABLE_REGISTERS_COUNT :: nat where
  [asm_consts]: "RV32_AVAILABLE_REGISTERS_COUNT = 32"

definition RV32_MAP_IN_C_REGISTER_WINDOW :: "u32 \<Rightarrow> u32" where
  "RV32_MAP_IN_C_REGISTER_WINDOW register_number = register_number - ASM_RV32_REG_X8"

definition RV32_IS_IN_C_REGISTER_WINDOW :: "u32 \<Rightarrow> bool" where
  "RV32_IS_IN_C_REGISTER_WINDOW register_number \<longleftrightarrow>
     register_number \<ge> ASM_RV32_REG_X8 \<and> register_number \<le> ASM_RV32_REG_X15"

text \<open>The generic register names (the C macros have no prefix).\<close>

definition RV32_REG_TEMP0 :: u32 where [asm_consts]: "RV32_REG_TEMP0 = ASM_RV32_REG_T1"
definition RV32_REG_TEMP1 :: u32 where [asm_consts]: "RV32_REG_TEMP1 = ASM_RV32_REG_T2"
definition RV32_REG_TEMP2 :: u32 where [asm_consts]: "RV32_REG_TEMP2 = ASM_RV32_REG_T3"
definition RV32_REG_FUN_TABLE :: u32 where [asm_consts]: "RV32_REG_FUN_TABLE = ASM_RV32_REG_S1"
definition RV32_REG_LOCAL_1 :: u32 where [asm_consts]: "RV32_REG_LOCAL_1 = ASM_RV32_REG_S3"
definition RV32_REG_LOCAL_2 :: u32 where [asm_consts]: "RV32_REG_LOCAL_2 = ASM_RV32_REG_S2"
definition RV32_REG_LOCAL_3 :: u32 where [asm_consts]: "RV32_REG_LOCAL_3 = ASM_RV32_REG_S4"
definition RV32_ASM_WORD_SIZE :: u32 where [asm_consts]: "RV32_ASM_WORD_SIZE = 4"
definition RV32_ASM_HALFWORD_SIZE :: u32 where [asm_consts]: "RV32_ASM_HALFWORD_SIZE = 2"

section \<open>State and configuration\<close>

record asm_rv32_t = "32 mp_asm_base_t" +
  saved_registers_mask :: u32
  locals_count :: u32
  stack_size :: u32
  locals_stack_offset :: u32

text \<open>
  What the build and the rest of the runtime provide: the configuration macros of the port,
  the extensions the dynamic compiler allows (\<open>None\<close> when there are no backend options),
  on top of the helpers of \<open>py/misc.h\<close> in \<^typ>\<open>mp_env\<close>.
\<close>

record rv32_env = mp_env +
  MICROPY_EMIT_RV32_ZBA :: bool
  MICROPY_EMIT_RV32_ZCMP :: bool
  backend_options :: "u8 option"

definition RV32_EXT_ZBA :: u8 where [asm_consts]: "RV32_EXT_ZBA = 1"
definition RV32_EXT_ZCMP :: u8 where [asm_consts]: "RV32_EXT_ZCMP = 2"

definition MICROPY_RV32_EXTENSIONS :: "rv32_env \<Rightarrow> u8" where
  "MICROPY_RV32_EXTENSIONS env =
     (if MICROPY_EMIT_RV32_ZBA env then RV32_EXT_ZBA else 0) OR
     (if MICROPY_EMIT_RV32_ZCMP env then RV32_EXT_ZCMP else 0)"

definition asm_rv32_allowed_extensions :: "rv32_env \<Rightarrow> u8" where
  "asm_rv32_allowed_extensions env =
     (let extensions = MICROPY_RV32_EXTENSIONS env
      in case backend_options env of
           None \<Rightarrow> extensions
         | Some allowed_extensions \<Rightarrow> extensions OR allowed_extensions)"

section \<open>Instruction encodings\<close>

definition RV32_ENCODE_TYPE_B :: "u32 \<Rightarrow> u32 \<Rightarrow> u32 \<Rightarrow> u32 \<Rightarrow> u32 \<Rightarrow> u32" where
  [asm_encodes]: "RV32_ENCODE_TYPE_B op ft3 rs1 rs2 imm =
     (op AND 0x7F) OR push_bit 12 (ft3 AND 0x07) OR drop_bit 4 (imm AND 0x800) OR
     push_bit 7 (imm AND 0x1E) OR push_bit 15 (rs1 AND 0x1F) OR push_bit 20 (rs2 AND 0x1F) OR
     push_bit 20 (imm AND 0x7E0) OR push_bit 19 (imm AND 0x1000)"

definition RV32_ENCODE_TYPE_CSRI :: "u32 \<Rightarrow> u32 \<Rightarrow> u32 \<Rightarrow> u32 \<Rightarrow> u32 \<Rightarrow> u32" where
  [asm_encodes]: "RV32_ENCODE_TYPE_CSRI op ft3 rd csr imm =
     (op AND 0x7F) OR push_bit 7 (rd AND 0x1F) OR push_bit 12 (ft3 AND 0x07) OR
     push_bit 20 (csr AND 0xFFF) OR push_bit 15 (imm AND 0x1F)"

definition RV32_ENCODE_TYPE_I :: "u32 \<Rightarrow> u32 \<Rightarrow> u32 \<Rightarrow> u32 \<Rightarrow> u32 \<Rightarrow> u32" where
  [asm_encodes]: "RV32_ENCODE_TYPE_I op ft3 rd rs imm =
     (op AND 0x7F) OR push_bit 7 (rd AND 0x1F) OR push_bit 12 (ft3 AND 0x07) OR
     push_bit 15 (rs AND 0x1F) OR push_bit 20 (imm AND 0xFFF)"

definition RV32_ENCODE_TYPE_J :: "u32 \<Rightarrow> u32 \<Rightarrow> u32 \<Rightarrow> u32" where
  [asm_encodes]: "RV32_ENCODE_TYPE_J op rd imm =
     (op AND 0x7F) OR push_bit 7 (rd AND 0x1F) OR (imm AND 0xFF000) OR
     push_bit 9 (imm AND 0x800) OR push_bit 20 (imm AND 0x7FE) OR push_bit 11 (imm AND 0x100000)"

definition RV32_ENCODE_TYPE_R :: "u32 \<Rightarrow> u32 \<Rightarrow> u32 \<Rightarrow> u32 \<Rightarrow> u32 \<Rightarrow> u32 \<Rightarrow> u32" where
  [asm_encodes]: "RV32_ENCODE_TYPE_R op ft3 ft7 rd rs1 rs2 =
     (op AND 0x7F) OR push_bit 7 (rd AND 0x1F) OR push_bit 12 (ft3 AND 0x07) OR
     push_bit 15 (rs1 AND 0x1F) OR push_bit 20 (rs2 AND 0x1F) OR push_bit 25 (ft7 AND 0x7F)"

definition RV32_ENCODE_TYPE_S :: "u32 \<Rightarrow> u32 \<Rightarrow> u32 \<Rightarrow> u32 \<Rightarrow> u32 \<Rightarrow> u32" where
  [asm_encodes]: "RV32_ENCODE_TYPE_S op ft3 rs1 rs2 imm =
     (op AND 0x7F) OR push_bit 7 (imm AND 0x1F) OR push_bit 12 (ft3 AND 0x07) OR
     push_bit 15 (rs1 AND 0x1F) OR push_bit 20 (rs2 AND 0x1F) OR push_bit 20 (imm AND 0xFE0)"

definition RV32_ENCODE_TYPE_CA :: "u32 \<Rightarrow> u32 \<Rightarrow> u32 \<Rightarrow> u32 \<Rightarrow> u32 \<Rightarrow> u32" where
  [asm_encodes]: "RV32_ENCODE_TYPE_CA op ft6 ft2 rd rs =
     (op AND 0x03) OR push_bit 10 (ft6 AND 0x3F) OR push_bit 5 (ft2 AND 0x03) OR
     push_bit 7 (rd AND 0x03) OR push_bit 2 (rs AND 0x03)"

definition RV32_ENCODE_TYPE_U :: "u32 \<Rightarrow> u32 \<Rightarrow> u32 \<Rightarrow> u32" where
  [asm_encodes]: "RV32_ENCODE_TYPE_U op rd imm =
     (op AND 0x7F) OR push_bit 7 (rd AND 0x1F) OR (imm AND 0xFFFFF000)"

definition RV32_ENCODE_TYPE_CB :: "u32 \<Rightarrow> u32 \<Rightarrow> u32 \<Rightarrow> u32 \<Rightarrow> u32" where
  [asm_encodes]: "RV32_ENCODE_TYPE_CB op ft3 rs imm =
     (op AND 0x03) OR push_bit 13 (ft3 AND 0x07) OR push_bit 7 (rs AND 0x07) OR
     push_bit 5 (imm AND 0xE0) OR push_bit 2 (imm AND 0x1F)"

definition RV32_ENCODE_TYPE_CI :: "u32 \<Rightarrow> u32 \<Rightarrow> u32 \<Rightarrow> u32 \<Rightarrow> u32" where
  [asm_encodes]: "RV32_ENCODE_TYPE_CI op ft3 rd imm =
     (op AND 0x03) OR push_bit 13 (ft3 AND 0x07) OR push_bit 7 (rd AND 0x1F) OR
     push_bit 7 (imm AND 0x20) OR push_bit 2 (imm AND 0x1F)"

definition RV32_ENCODE_TYPE_CIW :: "u32 \<Rightarrow> u32 \<Rightarrow> u32 \<Rightarrow> u32 \<Rightarrow> u32" where
  [asm_encodes]: "RV32_ENCODE_TYPE_CIW op ft3 rd imm =
     (op AND 0x03) OR push_bit 13 (ft3 AND 0x07) OR push_bit 2 (rd AND 0x07) OR
     push_bit 1 (imm AND 0x3C0) OR push_bit 7 (imm AND 0x30) OR
     push_bit 2 (imm AND 0x08) OR push_bit 4 (imm AND 0x04)"

definition RV32_ENCODE_TYPE_CJ :: "u32 \<Rightarrow> u32 \<Rightarrow> u32 \<Rightarrow> u32" where
  [asm_encodes]: "RV32_ENCODE_TYPE_CJ op ft3 imm =
     (op AND 0x03) OR push_bit 13 (ft3 AND 0x07) OR push_bit 2 (imm AND 0x0E) OR
     push_bit 1 (imm AND 0x300) OR push_bit 1 (imm AND 0x800) OR drop_bit 2 (imm AND 0x400) OR
     drop_bit 1 (imm AND 0x80) OR push_bit 1 (imm AND 0x40) OR drop_bit 3 (imm AND 0x20) OR
     push_bit 7 (imm AND 0x10)"

definition RV32_ENCODE_TYPE_CL :: "u32 \<Rightarrow> u32 \<Rightarrow> u32 \<Rightarrow> u32 \<Rightarrow> u32 \<Rightarrow> u32" where
  [asm_encodes]: "RV32_ENCODE_TYPE_CL op ft3 rd rs imm =
     (op AND 0x03) OR push_bit 13 (ft3 AND 0x07) OR push_bit 2 (rd AND 0x07) OR
     push_bit 7 (rs AND 0x07) OR drop_bit 1 (imm AND 0x40) OR push_bit 7 (imm AND 0x38) OR
     push_bit 4 (imm AND 0x04)"

definition RV32_ENCODE_TYPE_CMPP :: "u32 \<Rightarrow> u32 \<Rightarrow> u32 \<Rightarrow> u32 \<Rightarrow> u32 \<Rightarrow> u32" where
  [asm_encodes]: "RV32_ENCODE_TYPE_CMPP op ft6 ft2 rlist imm =
     (op AND 0x03) OR push_bit 10 (ft6 AND 0x3F) OR push_bit 8 (ft2 AND 0x03) OR
     push_bit 4 (rlist AND 0x0F) OR push_bit 2 (imm AND 0x03)"

definition RV32_ENCODE_TYPE_CR :: "u32 \<Rightarrow> u32 \<Rightarrow> u32 \<Rightarrow> u32 \<Rightarrow> u32" where
  [asm_encodes]: "RV32_ENCODE_TYPE_CR op ft4 rs1 rs2 =
     (op AND 0x03) OR push_bit 2 (rs2 AND 0x1F) OR push_bit 7 (rs1 AND 0x1F) OR
     push_bit 12 (ft4 AND 0x0F)"

definition RV32_ENCODE_TYPE_CS :: "u32 \<Rightarrow> u32 \<Rightarrow> u32 \<Rightarrow> u32 \<Rightarrow> u32 \<Rightarrow> u32" where
  [asm_encodes]: "RV32_ENCODE_TYPE_CS op ft3 rd rs imm =
     (op AND 0x03) OR push_bit 13 (ft3 AND 0x07) OR push_bit 2 (rd AND 0x07) OR
     push_bit 7 (rs AND 0x07) OR drop_bit 1 (imm AND 0x40) OR push_bit 7 (imm AND 0x38) OR
     push_bit 4 (imm AND 0x04)"

definition RV32_ENCODE_TYPE_CSS :: "u32 \<Rightarrow> u32 \<Rightarrow> u32 \<Rightarrow> u32 \<Rightarrow> u32" where
  [asm_encodes]: "RV32_ENCODE_TYPE_CSS op ft3 rs imm =
     (op AND 0x03) OR push_bit 13 (ft3 AND 0x07) OR push_bit 2 (rs AND 0x1F) OR
     push_bit 7 (imm AND 0x3F)"

section \<open>Writing opcodes\<close>

definition rv32_word_bytes :: "rv32_env \<Rightarrow> u32 \<Rightarrow> u8 list" where
  "rv32_word_bytes env w =
     (if MP_ENDIANNESS_LITTLE env
      then [ucast (w AND 0xFF), ucast (drop_bit 8 w AND 0xFF), ucast (drop_bit 16 w AND 0xFF),
            ucast (drop_bit 24 w AND 0xFF)]
      else [ucast (drop_bit 24 w AND 0xFF), ucast (drop_bit 16 w AND 0xFF),
            ucast (drop_bit 8 w AND 0xFF), ucast (w AND 0xFF)])"

definition asm_rv32_emit_word_opcode :: "rv32_env \<Rightarrow> u32 \<Rightarrow> asm_rv32_t asm" where
  "asm_rv32_emit_word_opcode env w = emit_bytes (rv32_word_bytes env w)"

definition rv32_halfword_bytes :: "rv32_env \<Rightarrow> u32 \<Rightarrow> u8 list" where
  "rv32_halfword_bytes env w =
     (if MP_ENDIANNESS_LITTLE env
      then [ucast (w AND 0xFF), ucast (drop_bit 8 w AND 0xFF)]
      else [ucast (drop_bit 8 w AND 0xFF), ucast (w AND 0xFF)])"

definition asm_rv32_emit_halfword_opcode :: "rv32_env \<Rightarrow> u32 \<Rightarrow> asm_rv32_t asm" where
  "asm_rv32_emit_halfword_opcode env w = emit_bytes (rv32_halfword_bytes env w)"

lemma length_rv32_bytes [simp]:
  "length (rv32_word_bytes env w) = 4" "length (rv32_halfword_bytes env w) = 2"
  by (simp_all add: rv32_word_bytes_def rv32_halfword_bytes_def)

section \<open>One function per opcode\<close>

definition asm_rv32_opcode_add :: "rv32_env \<Rightarrow> u32 \<Rightarrow> u32 \<Rightarrow>
       u32 \<Rightarrow> asm_rv32_t asm" where
  [asm_ops]: "asm_rv32_opcode_add env rd rs1 rs2 =
     asm_rv32_emit_word_opcode env (RV32_ENCODE_TYPE_R 0x33 0x00 0x00 rd rs1 rs2)"

definition asm_rv32_opcode_addi :: "rv32_env \<Rightarrow> u32 \<Rightarrow> u32 \<Rightarrow>
       u32 \<Rightarrow> asm_rv32_t asm" where
  [asm_ops]: "asm_rv32_opcode_addi env rd rs immediate =
     asm_rv32_emit_word_opcode env (RV32_ENCODE_TYPE_I 0x13 0x00 rd rs immediate)"

definition asm_rv32_opcode_and :: "rv32_env \<Rightarrow> u32 \<Rightarrow> u32 \<Rightarrow>
       u32 \<Rightarrow> asm_rv32_t asm" where
  [asm_ops]: "asm_rv32_opcode_and env rd rs1 rs2 =
     asm_rv32_emit_word_opcode env (RV32_ENCODE_TYPE_R 0x33 0x07 0x00 rd rs1 rs2)"

definition asm_rv32_opcode_andi :: "rv32_env \<Rightarrow> u32 \<Rightarrow> u32 \<Rightarrow>
       u32 \<Rightarrow> asm_rv32_t asm" where
  [asm_ops]: "asm_rv32_opcode_andi env rd rs immediate =
     asm_rv32_emit_word_opcode env (RV32_ENCODE_TYPE_I 0x13 0x07 rd rs immediate)"

definition asm_rv32_opcode_auipc :: "rv32_env \<Rightarrow> u32 \<Rightarrow> u32 \<Rightarrow>
       asm_rv32_t asm" where
  [asm_ops]: "asm_rv32_opcode_auipc env rd offset =
     asm_rv32_emit_word_opcode env (RV32_ENCODE_TYPE_U 0x17 rd offset)"

definition asm_rv32_opcode_beq :: "rv32_env \<Rightarrow> u32 \<Rightarrow> u32 \<Rightarrow>
       u32 \<Rightarrow> asm_rv32_t asm" where
  [asm_ops]: "asm_rv32_opcode_beq env rs1 rs2 offset =
     asm_rv32_emit_word_opcode env (RV32_ENCODE_TYPE_B 0x63 0x00 rs1 rs2 offset)"

definition asm_rv32_opcode_bge :: "rv32_env \<Rightarrow> u32 \<Rightarrow> u32 \<Rightarrow>
       u32 \<Rightarrow> asm_rv32_t asm" where
  [asm_ops]: "asm_rv32_opcode_bge env rs1 rs2 offset =
     asm_rv32_emit_word_opcode env (RV32_ENCODE_TYPE_B 0x63 0x05 rs1 rs2 offset)"

definition asm_rv32_opcode_bgeu :: "rv32_env \<Rightarrow> u32 \<Rightarrow> u32 \<Rightarrow>
       u32 \<Rightarrow> asm_rv32_t asm" where
  [asm_ops]: "asm_rv32_opcode_bgeu env rs1 rs2 offset =
     asm_rv32_emit_word_opcode env (RV32_ENCODE_TYPE_B 0x63 0x07 rs1 rs2 offset)"

definition asm_rv32_opcode_blt :: "rv32_env \<Rightarrow> u32 \<Rightarrow> u32 \<Rightarrow>
       u32 \<Rightarrow> asm_rv32_t asm" where
  [asm_ops]: "asm_rv32_opcode_blt env rs1 rs2 offset =
     asm_rv32_emit_word_opcode env (RV32_ENCODE_TYPE_B 0x63 0x04 rs1 rs2 offset)"

definition asm_rv32_opcode_bltu :: "rv32_env \<Rightarrow> u32 \<Rightarrow> u32 \<Rightarrow>
       u32 \<Rightarrow> asm_rv32_t asm" where
  [asm_ops]: "asm_rv32_opcode_bltu env rs1 rs2 offset =
     asm_rv32_emit_word_opcode env (RV32_ENCODE_TYPE_B 0x63 0x06 rs1 rs2 offset)"

definition asm_rv32_opcode_bne :: "rv32_env \<Rightarrow> u32 \<Rightarrow> u32 \<Rightarrow>
       u32 \<Rightarrow> asm_rv32_t asm" where
  [asm_ops]: "asm_rv32_opcode_bne env rs1 rs2 offset =
     asm_rv32_emit_word_opcode env (RV32_ENCODE_TYPE_B 0x63 0x01 rs1 rs2 offset)"

definition asm_rv32_opcode_cadd :: "rv32_env \<Rightarrow> u32 \<Rightarrow> u32 \<Rightarrow>
       asm_rv32_t asm" where
  [asm_ops]: "asm_rv32_opcode_cadd env rd rs =
     asm_rv32_emit_halfword_opcode env (RV32_ENCODE_TYPE_CR 0x02 0x09 rd rs)"

definition asm_rv32_opcode_caddi :: "rv32_env \<Rightarrow> u32 \<Rightarrow> u32 \<Rightarrow>
       asm_rv32_t asm" where
  [asm_ops]: "asm_rv32_opcode_caddi env rd immediate =
     asm_rv32_emit_halfword_opcode env (RV32_ENCODE_TYPE_CI 0x01 0x00 rd immediate)"

definition asm_rv32_opcode_caddi4spn :: "rv32_env \<Rightarrow> u32 \<Rightarrow> u32
       \<Rightarrow> asm_rv32_t asm" where
  [asm_ops]: "asm_rv32_opcode_caddi4spn env rd immediate =
     asm_rv32_emit_halfword_opcode env (RV32_ENCODE_TYPE_CIW 0x00 0x00 rd immediate)"

definition asm_rv32_opcode_cand :: "rv32_env \<Rightarrow> u32 \<Rightarrow> u32 \<Rightarrow>
       asm_rv32_t asm" where
  [asm_ops]: "asm_rv32_opcode_cand env rd rs =
     asm_rv32_emit_halfword_opcode env (RV32_ENCODE_TYPE_CA 0x01 0x23 0x03 rd rs)"

definition asm_rv32_opcode_candi :: "rv32_env \<Rightarrow> u32 \<Rightarrow> u32 \<Rightarrow>
       asm_rv32_t asm" where
  [asm_ops]: "asm_rv32_opcode_candi env rd immediate =
     asm_rv32_emit_halfword_opcode env (RV32_ENCODE_TYPE_CB 0x01 0x04 rd ((push_bit 2
       (immediate AND 0x20)) OR (immediate AND 0x1F) OR 0x40))"

definition asm_rv32_opcode_cbeqz :: "rv32_env \<Rightarrow> u32 \<Rightarrow> u32 \<Rightarrow>
       asm_rv32_t asm" where
  [asm_ops]: "asm_rv32_opcode_cbeqz env rs offset =
     asm_rv32_emit_halfword_opcode env (RV32_ENCODE_TYPE_CB 0x01 0x06 rs ((drop_bit 1 (offset
       AND 0x100)) OR (drop_bit 3 (offset AND 0xC0)) OR (drop_bit 5 (offset AND 0x20))
       OR (push_bit 2 (offset AND 0x18)) OR (offset AND 0x06)))"

definition asm_rv32_opcode_cbnez :: "rv32_env \<Rightarrow> u32 \<Rightarrow> u32 \<Rightarrow>
       asm_rv32_t asm" where
  [asm_ops]: "asm_rv32_opcode_cbnez env rs offset =
     asm_rv32_emit_halfword_opcode env (RV32_ENCODE_TYPE_CB 0x01 0x07 rs ((drop_bit 1 (offset
       AND 0x100)) OR (drop_bit 3 (offset AND 0xC0)) OR (drop_bit 5 (offset AND 0x20))
       OR (push_bit 2 (offset AND 0x18)) OR (offset AND 0x06)))"

definition asm_rv32_opcode_cebreak :: "rv32_env \<Rightarrow> asm_rv32_t asm" where
  [asm_ops]: "asm_rv32_opcode_cebreak env =
     asm_rv32_emit_halfword_opcode env 0x9002"

definition asm_rv32_opcode_cj :: "rv32_env \<Rightarrow> u32 \<Rightarrow> asm_rv32_t asm" where
  [asm_ops]: "asm_rv32_opcode_cj env offset =
     asm_rv32_emit_halfword_opcode env (RV32_ENCODE_TYPE_CJ 0x01 0x05 offset)"

definition asm_rv32_opcode_cjal :: "rv32_env \<Rightarrow> u32 \<Rightarrow> asm_rv32_t asm" where
  [asm_ops]: "asm_rv32_opcode_cjal env offset =
     asm_rv32_emit_halfword_opcode env (RV32_ENCODE_TYPE_CJ 0x01 0x01 offset)"

definition asm_rv32_opcode_cjalr :: "rv32_env \<Rightarrow> u32 \<Rightarrow> asm_rv32_t asm"
       where
  [asm_ops]: "asm_rv32_opcode_cjalr env rs =
     asm_rv32_emit_halfword_opcode env (RV32_ENCODE_TYPE_CR 0x02 0x09 rs 0)"

definition asm_rv32_opcode_cjr :: "rv32_env \<Rightarrow> u32 \<Rightarrow> asm_rv32_t asm" where
  [asm_ops]: "asm_rv32_opcode_cjr env rs =
     asm_rv32_emit_halfword_opcode env (RV32_ENCODE_TYPE_CR 0x02 0x08 rs 0)"

definition asm_rv32_opcode_cli :: "rv32_env \<Rightarrow> u32 \<Rightarrow> u32 \<Rightarrow>
       asm_rv32_t asm" where
  [asm_ops]: "asm_rv32_opcode_cli env rd immediate =
     asm_rv32_emit_halfword_opcode env (RV32_ENCODE_TYPE_CI 0x01 0x02 rd immediate)"

definition asm_rv32_opcode_clui :: "rv32_env \<Rightarrow> u32 \<Rightarrow> u32 \<Rightarrow>
       asm_rv32_t asm" where
  [asm_ops]: "asm_rv32_opcode_clui env rd immediate =
     asm_rv32_emit_halfword_opcode env (RV32_ENCODE_TYPE_CI 0x01 0x03 rd (signed_drop_bit 12
       immediate))"

definition asm_rv32_opcode_clw :: "rv32_env \<Rightarrow> u32 \<Rightarrow> u32 \<Rightarrow>
       u32 \<Rightarrow> asm_rv32_t asm" where
  [asm_ops]: "asm_rv32_opcode_clw env rd rs offset =
     asm_rv32_emit_halfword_opcode env (RV32_ENCODE_TYPE_CL 0x00 0x02 rd rs offset)"

definition asm_rv32_opcode_clwsp :: "rv32_env \<Rightarrow> u32 \<Rightarrow> u32 \<Rightarrow>
       asm_rv32_t asm" where
  [asm_ops]: "asm_rv32_opcode_clwsp env rd offset =
     asm_rv32_emit_halfword_opcode env (RV32_ENCODE_TYPE_CI 0x02 0x02 rd ((drop_bit 6 (offset
       AND 0xC0)) OR (offset AND 0x3C)))"

definition asm_rv32_opcode_cmv :: "rv32_env \<Rightarrow> u32 \<Rightarrow> u32 \<Rightarrow>
       asm_rv32_t asm" where
  [asm_ops]: "asm_rv32_opcode_cmv env rd rs =
     asm_rv32_emit_halfword_opcode env (RV32_ENCODE_TYPE_CR 0x02 0x08 rd rs)"

definition asm_rv32_opcode_cnop :: "rv32_env \<Rightarrow> asm_rv32_t asm" where
  [asm_ops]: "asm_rv32_opcode_cnop env =
     asm_rv32_emit_halfword_opcode env 0x0001"

definition asm_rv32_opcode_cor :: "rv32_env \<Rightarrow> u32 \<Rightarrow> u32 \<Rightarrow>
       asm_rv32_t asm" where
  [asm_ops]: "asm_rv32_opcode_cor env rd rs =
     asm_rv32_emit_halfword_opcode env (RV32_ENCODE_TYPE_CA 0x01 0x23 0x02 rd rs)"

definition asm_rv32_opcode_cslli :: "rv32_env \<Rightarrow> u32 \<Rightarrow> u32 \<Rightarrow>
       asm_rv32_t asm" where
  [asm_ops]: "asm_rv32_opcode_cslli env rd immediate =
     asm_rv32_emit_halfword_opcode env (RV32_ENCODE_TYPE_CI 0x02 0x00 rd immediate)"

definition asm_rv32_opcode_csrai :: "rv32_env \<Rightarrow> u32 \<Rightarrow> u32 \<Rightarrow>
       asm_rv32_t asm" where
  [asm_ops]: "asm_rv32_opcode_csrai env rd immediate =
     asm_rv32_emit_halfword_opcode env (RV32_ENCODE_TYPE_CB 0x01 0x04 rd ((push_bit 2
       (immediate AND 0x20)) OR (immediate AND 0x1F) OR 0x20))"

definition asm_rv32_opcode_csrli :: "rv32_env \<Rightarrow> u32 \<Rightarrow> u32 \<Rightarrow>
       asm_rv32_t asm" where
  [asm_ops]: "asm_rv32_opcode_csrli env rd immediate =
     asm_rv32_emit_halfword_opcode env (RV32_ENCODE_TYPE_CB 0x01 0x04 rd ((push_bit 2
       (immediate AND 0x20)) OR (immediate AND 0x1F)))"

definition asm_rv32_opcode_csub :: "rv32_env \<Rightarrow> u32 \<Rightarrow> u32 \<Rightarrow>
       asm_rv32_t asm" where
  [asm_ops]: "asm_rv32_opcode_csub env rd rs =
     asm_rv32_emit_halfword_opcode env (RV32_ENCODE_TYPE_CA 0x01 0x23 0x00 rd rs)"

definition asm_rv32_opcode_csw :: "rv32_env \<Rightarrow> u32 \<Rightarrow> u32 \<Rightarrow>
       u32 \<Rightarrow> asm_rv32_t asm" where
  [asm_ops]: "asm_rv32_opcode_csw env rs1 rs2 offset =
     asm_rv32_emit_halfword_opcode env (RV32_ENCODE_TYPE_CL 0x00 0x06 rs1 rs2 offset)"

definition asm_rv32_opcode_cswsp :: "rv32_env \<Rightarrow> u32 \<Rightarrow> u32 \<Rightarrow>
       asm_rv32_t asm" where
  [asm_ops]: "asm_rv32_opcode_cswsp env rs offset =
     asm_rv32_emit_halfword_opcode env (RV32_ENCODE_TYPE_CSS 0x02 0x06 rs ((drop_bit 6 (offset
       AND 0xC0)) OR (offset AND 0x3C)))"

definition asm_rv32_opcode_cxor :: "rv32_env \<Rightarrow> u32 \<Rightarrow> u32 \<Rightarrow>
       asm_rv32_t asm" where
  [asm_ops]: "asm_rv32_opcode_cxor env rd rs =
     asm_rv32_emit_halfword_opcode env (RV32_ENCODE_TYPE_CA 0x01 0x23 0x01 rd rs)"

definition asm_rv32_opcode_cmpopret :: "rv32_env \<Rightarrow> u32 \<Rightarrow> u32
       \<Rightarrow> asm_rv32_t asm" where
  [asm_ops]: "asm_rv32_opcode_cmpopret env reg_list immediate =
     asm_rv32_emit_halfword_opcode env (RV32_ENCODE_TYPE_CMPP 0x02 0x2F 0x02 reg_list immediate)"

definition asm_rv32_opcode_cmpush :: "rv32_env \<Rightarrow> u32 \<Rightarrow> u32
       \<Rightarrow> asm_rv32_t asm" where
  [asm_ops]: "asm_rv32_opcode_cmpush env reg_list immediate =
     asm_rv32_emit_halfword_opcode env (RV32_ENCODE_TYPE_CMPP 0x02 0x2E 0x00 reg_list immediate)"

definition asm_rv32_opcode_csrrc :: "rv32_env \<Rightarrow> u32 \<Rightarrow> u32 \<Rightarrow>
       u32 \<Rightarrow> asm_rv32_t asm" where
  [asm_ops]: "asm_rv32_opcode_csrrc env rd rs immediate =
     asm_rv32_emit_word_opcode env (RV32_ENCODE_TYPE_I 0x73 0x03 rd rs immediate)"

definition asm_rv32_opcode_csrrs :: "rv32_env \<Rightarrow> u32 \<Rightarrow> u32 \<Rightarrow>
       u32 \<Rightarrow> asm_rv32_t asm" where
  [asm_ops]: "asm_rv32_opcode_csrrs env rd rs immediate =
     asm_rv32_emit_word_opcode env (RV32_ENCODE_TYPE_I 0x73 0x02 rd rs immediate)"

definition asm_rv32_opcode_csrrw :: "rv32_env \<Rightarrow> u32 \<Rightarrow> u32 \<Rightarrow>
       u32 \<Rightarrow> asm_rv32_t asm" where
  [asm_ops]: "asm_rv32_opcode_csrrw env rd rs immediate =
     asm_rv32_emit_word_opcode env (RV32_ENCODE_TYPE_I 0x73 0x01 rd rs immediate)"

definition asm_rv32_opcode_csrrci :: "rv32_env \<Rightarrow> u32 \<Rightarrow> u32
       \<Rightarrow> u32 \<Rightarrow> asm_rv32_t asm" where
  [asm_ops]: "asm_rv32_opcode_csrrci env rd csr immediate =
     asm_rv32_emit_word_opcode env (RV32_ENCODE_TYPE_CSRI 0x73 0x07 rd csr immediate)"

definition asm_rv32_opcode_csrrsi :: "rv32_env \<Rightarrow> u32 \<Rightarrow> u32
       \<Rightarrow> u32 \<Rightarrow> asm_rv32_t asm" where
  [asm_ops]: "asm_rv32_opcode_csrrsi env rd csr immediate =
     asm_rv32_emit_word_opcode env (RV32_ENCODE_TYPE_CSRI 0x73 0x06 rd csr immediate)"

definition asm_rv32_opcode_csrrwi :: "rv32_env \<Rightarrow> u32 \<Rightarrow> u32
       \<Rightarrow> u32 \<Rightarrow> asm_rv32_t asm" where
  [asm_ops]: "asm_rv32_opcode_csrrwi env rd csr immediate =
     asm_rv32_emit_word_opcode env (RV32_ENCODE_TYPE_CSRI 0x73 0x05 rd csr immediate)"

definition asm_rv32_opcode_div :: "rv32_env \<Rightarrow> u32 \<Rightarrow> u32 \<Rightarrow>
       u32 \<Rightarrow> asm_rv32_t asm" where
  [asm_ops]: "asm_rv32_opcode_div env rd rs1 rs2 =
     asm_rv32_emit_word_opcode env (RV32_ENCODE_TYPE_R 0x33 0x04 0x01 rd rs1 rs2)"

definition asm_rv32_opcode_divu :: "rv32_env \<Rightarrow> u32 \<Rightarrow> u32 \<Rightarrow>
       u32 \<Rightarrow> asm_rv32_t asm" where
  [asm_ops]: "asm_rv32_opcode_divu env rd rs1 rs2 =
     asm_rv32_emit_word_opcode env (RV32_ENCODE_TYPE_R 0x33 0x05 0x01 rd rs1 rs2)"

definition asm_rv32_opcode_ebreak :: "rv32_env \<Rightarrow> asm_rv32_t asm" where
  [asm_ops]: "asm_rv32_opcode_ebreak env =
     asm_rv32_emit_word_opcode env 0x100073"

definition asm_rv32_opcode_ecall :: "rv32_env \<Rightarrow> asm_rv32_t asm" where
  [asm_ops]: "asm_rv32_opcode_ecall env =
     asm_rv32_emit_word_opcode env 0x73"

definition asm_rv32_opcode_jal :: "rv32_env \<Rightarrow> u32 \<Rightarrow> u32 \<Rightarrow>
       asm_rv32_t asm" where
  [asm_ops]: "asm_rv32_opcode_jal env rd offset =
     asm_rv32_emit_word_opcode env (RV32_ENCODE_TYPE_J 0x6F rd offset)"

definition asm_rv32_opcode_jalr :: "rv32_env \<Rightarrow> u32 \<Rightarrow> u32 \<Rightarrow>
       u32 \<Rightarrow> asm_rv32_t asm" where
  [asm_ops]: "asm_rv32_opcode_jalr env rd rs offset =
     asm_rv32_emit_word_opcode env (RV32_ENCODE_TYPE_I 0x67 0x00 rd rs offset)"

definition asm_rv32_opcode_lb :: "rv32_env \<Rightarrow> u32 \<Rightarrow> u32 \<Rightarrow>
       u32 \<Rightarrow> asm_rv32_t asm" where
  [asm_ops]: "asm_rv32_opcode_lb env rd rs offset =
     asm_rv32_emit_word_opcode env (RV32_ENCODE_TYPE_I 0x03 0x00 rd rs offset)"

definition asm_rv32_opcode_lbu :: "rv32_env \<Rightarrow> u32 \<Rightarrow> u32 \<Rightarrow>
       u32 \<Rightarrow> asm_rv32_t asm" where
  [asm_ops]: "asm_rv32_opcode_lbu env rd rs offset =
     asm_rv32_emit_word_opcode env (RV32_ENCODE_TYPE_I 0x03 0x04 rd rs offset)"

definition asm_rv32_opcode_lh :: "rv32_env \<Rightarrow> u32 \<Rightarrow> u32 \<Rightarrow>
       u32 \<Rightarrow> asm_rv32_t asm" where
  [asm_ops]: "asm_rv32_opcode_lh env rd rs offset =
     asm_rv32_emit_word_opcode env (RV32_ENCODE_TYPE_I 0x03 0x01 rd rs offset)"

definition asm_rv32_opcode_lhu :: "rv32_env \<Rightarrow> u32 \<Rightarrow> u32 \<Rightarrow>
       u32 \<Rightarrow> asm_rv32_t asm" where
  [asm_ops]: "asm_rv32_opcode_lhu env rd rs offset =
     asm_rv32_emit_word_opcode env (RV32_ENCODE_TYPE_I 0x03 0x05 rd rs offset)"

definition asm_rv32_opcode_lui :: "rv32_env \<Rightarrow> u32 \<Rightarrow> u32 \<Rightarrow>
       asm_rv32_t asm" where
  [asm_ops]: "asm_rv32_opcode_lui env rd immediate =
     asm_rv32_emit_word_opcode env (RV32_ENCODE_TYPE_U 0x37 rd immediate)"

definition asm_rv32_opcode_lw :: "rv32_env \<Rightarrow> u32 \<Rightarrow> u32 \<Rightarrow>
       u32 \<Rightarrow> asm_rv32_t asm" where
  [asm_ops]: "asm_rv32_opcode_lw env rd rs offset =
     asm_rv32_emit_word_opcode env (RV32_ENCODE_TYPE_I 0x03 0x02 rd rs offset)"

definition asm_rv32_opcode_mul :: "rv32_env \<Rightarrow> u32 \<Rightarrow> u32 \<Rightarrow>
       u32 \<Rightarrow> asm_rv32_t asm" where
  [asm_ops]: "asm_rv32_opcode_mul env rd rs1 rs2 =
     asm_rv32_emit_word_opcode env (RV32_ENCODE_TYPE_R 0x33 0x00 0x01 rd rs1 rs2)"

definition asm_rv32_opcode_mulh :: "rv32_env \<Rightarrow> u32 \<Rightarrow> u32 \<Rightarrow>
       u32 \<Rightarrow> asm_rv32_t asm" where
  [asm_ops]: "asm_rv32_opcode_mulh env rd rs1 rs2 =
     asm_rv32_emit_word_opcode env (RV32_ENCODE_TYPE_R 0x33 0x01 0x01 rd rs1 rs2)"

definition asm_rv32_opcode_mulhsu :: "rv32_env \<Rightarrow> u32 \<Rightarrow> u32
       \<Rightarrow> u32 \<Rightarrow> asm_rv32_t asm" where
  [asm_ops]: "asm_rv32_opcode_mulhsu env rd rs1 rs2 =
     asm_rv32_emit_word_opcode env (RV32_ENCODE_TYPE_R 0x33 0x02 0x01 rd rs1 rs2)"

definition asm_rv32_opcode_mulhu :: "rv32_env \<Rightarrow> u32 \<Rightarrow> u32 \<Rightarrow>
       u32 \<Rightarrow> asm_rv32_t asm" where
  [asm_ops]: "asm_rv32_opcode_mulhu env rd rs1 rs2 =
     asm_rv32_emit_word_opcode env (RV32_ENCODE_TYPE_R 0x33 0x03 0x01 rd rs1 rs2)"

definition asm_rv32_opcode_or :: "rv32_env \<Rightarrow> u32 \<Rightarrow> u32 \<Rightarrow>
       u32 \<Rightarrow> asm_rv32_t asm" where
  [asm_ops]: "asm_rv32_opcode_or env rd rs1 rs2 =
     asm_rv32_emit_word_opcode env (RV32_ENCODE_TYPE_R 0x33 0x06 0x00 rd rs1 rs2)"

definition asm_rv32_opcode_ori :: "rv32_env \<Rightarrow> u32 \<Rightarrow> u32 \<Rightarrow>
       u32 \<Rightarrow> asm_rv32_t asm" where
  [asm_ops]: "asm_rv32_opcode_ori env rd rs immediate =
     asm_rv32_emit_word_opcode env (RV32_ENCODE_TYPE_I 0x13 0x06 rd rs immediate)"

definition asm_rv32_opcode_rem :: "rv32_env \<Rightarrow> u32 \<Rightarrow> u32 \<Rightarrow>
       u32 \<Rightarrow> asm_rv32_t asm" where
  [asm_ops]: "asm_rv32_opcode_rem env rd rs1 rs2 =
     asm_rv32_emit_word_opcode env (RV32_ENCODE_TYPE_R 0x33 0x06 0x01 rd rs1 rs2)"

definition asm_rv32_opcode_remu :: "rv32_env \<Rightarrow> u32 \<Rightarrow> u32 \<Rightarrow>
       u32 \<Rightarrow> asm_rv32_t asm" where
  [asm_ops]: "asm_rv32_opcode_remu env rd rs1 rs2 =
     asm_rv32_emit_word_opcode env (RV32_ENCODE_TYPE_R 0x33 0x07 0x01 rd rs1 rs2)"

definition asm_rv32_opcode_sh1add :: "rv32_env \<Rightarrow> u32 \<Rightarrow> u32
       \<Rightarrow> u32 \<Rightarrow> asm_rv32_t asm" where
  [asm_ops]: "asm_rv32_opcode_sh1add env rd rs1 rs2 =
     asm_rv32_emit_word_opcode env (RV32_ENCODE_TYPE_R 0x33 0x02 0x10 rd rs1 rs2)"

definition asm_rv32_opcode_sh2add :: "rv32_env \<Rightarrow> u32 \<Rightarrow> u32
       \<Rightarrow> u32 \<Rightarrow> asm_rv32_t asm" where
  [asm_ops]: "asm_rv32_opcode_sh2add env rd rs1 rs2 =
     asm_rv32_emit_word_opcode env (RV32_ENCODE_TYPE_R 0x33 0x04 0x10 rd rs1 rs2)"

definition asm_rv32_opcode_sh3add :: "rv32_env \<Rightarrow> u32 \<Rightarrow> u32
       \<Rightarrow> u32 \<Rightarrow> asm_rv32_t asm" where
  [asm_ops]: "asm_rv32_opcode_sh3add env rd rs1 rs2 =
     asm_rv32_emit_word_opcode env (RV32_ENCODE_TYPE_R 0x33 0x06 0x10 rd rs1 rs2)"

definition asm_rv32_opcode_sll :: "rv32_env \<Rightarrow> u32 \<Rightarrow> u32 \<Rightarrow>
       u32 \<Rightarrow> asm_rv32_t asm" where
  [asm_ops]: "asm_rv32_opcode_sll env rd rs1 rs2 =
     asm_rv32_emit_word_opcode env (RV32_ENCODE_TYPE_R 0x33 0x01 0x00 rd rs1 rs2)"

definition asm_rv32_opcode_slli :: "rv32_env \<Rightarrow> u32 \<Rightarrow> u32 \<Rightarrow>
       u32 \<Rightarrow> asm_rv32_t asm" where
  [asm_ops]: "asm_rv32_opcode_slli env rd rs immediate =
     asm_rv32_emit_word_opcode env (RV32_ENCODE_TYPE_I 0x13 0x01 rd rs (immediate AND 0x1F))"

definition asm_rv32_opcode_slt :: "rv32_env \<Rightarrow> u32 \<Rightarrow> u32 \<Rightarrow>
       u32 \<Rightarrow> asm_rv32_t asm" where
  [asm_ops]: "asm_rv32_opcode_slt env rd rs1 rs2 =
     asm_rv32_emit_word_opcode env (RV32_ENCODE_TYPE_R 0x33 0x02 0x00 rd rs1 rs2)"

definition asm_rv32_opcode_slti :: "rv32_env \<Rightarrow> u32 \<Rightarrow> u32 \<Rightarrow>
       u32 \<Rightarrow> asm_rv32_t asm" where
  [asm_ops]: "asm_rv32_opcode_slti env rd rs immediate =
     asm_rv32_emit_word_opcode env (RV32_ENCODE_TYPE_I 0x13 0x02 rd rs immediate)"

definition asm_rv32_opcode_sltiu :: "rv32_env \<Rightarrow> u32 \<Rightarrow> u32 \<Rightarrow>
       u32 \<Rightarrow> asm_rv32_t asm" where
  [asm_ops]: "asm_rv32_opcode_sltiu env rd rs immediate =
     asm_rv32_emit_word_opcode env (RV32_ENCODE_TYPE_I 0x13 0x03 rd rs immediate)"

definition asm_rv32_opcode_sltu :: "rv32_env \<Rightarrow> u32 \<Rightarrow> u32 \<Rightarrow>
       u32 \<Rightarrow> asm_rv32_t asm" where
  [asm_ops]: "asm_rv32_opcode_sltu env rd rs1 rs2 =
     asm_rv32_emit_word_opcode env (RV32_ENCODE_TYPE_R 0x33 0x03 0x00 rd rs1 rs2)"

definition asm_rv32_opcode_sra :: "rv32_env \<Rightarrow> u32 \<Rightarrow> u32 \<Rightarrow>
       u32 \<Rightarrow> asm_rv32_t asm" where
  [asm_ops]: "asm_rv32_opcode_sra env rd rs1 rs2 =
     asm_rv32_emit_word_opcode env (RV32_ENCODE_TYPE_R 0x33 0x05 0x20 rd rs1 rs2)"

definition asm_rv32_opcode_srai :: "rv32_env \<Rightarrow> u32 \<Rightarrow> u32 \<Rightarrow>
       u32 \<Rightarrow> asm_rv32_t asm" where
  [asm_ops]: "asm_rv32_opcode_srai env rd rs immediate =
     asm_rv32_emit_word_opcode env (RV32_ENCODE_TYPE_I 0x13 0x05 rd rs ((immediate AND 0x1F) OR
       0x400))"

definition asm_rv32_opcode_srl :: "rv32_env \<Rightarrow> u32 \<Rightarrow> u32 \<Rightarrow>
       u32 \<Rightarrow> asm_rv32_t asm" where
  [asm_ops]: "asm_rv32_opcode_srl env rd rs1 rs2 =
     asm_rv32_emit_word_opcode env (RV32_ENCODE_TYPE_R 0x33 0x05 0x00 rd rs1 rs2)"

definition asm_rv32_opcode_srli :: "rv32_env \<Rightarrow> u32 \<Rightarrow> u32 \<Rightarrow>
       u32 \<Rightarrow> asm_rv32_t asm" where
  [asm_ops]: "asm_rv32_opcode_srli env rd rs immediate =
     asm_rv32_emit_word_opcode env (RV32_ENCODE_TYPE_I 0x13 0x05 rd rs (immediate AND 0x1F))"

definition asm_rv32_opcode_sub :: "rv32_env \<Rightarrow> u32 \<Rightarrow> u32 \<Rightarrow>
       u32 \<Rightarrow> asm_rv32_t asm" where
  [asm_ops]: "asm_rv32_opcode_sub env rd rs1 rs2 =
     asm_rv32_emit_word_opcode env (RV32_ENCODE_TYPE_R 0x33 0x00 0x20 rd rs1 rs2)"

definition asm_rv32_opcode_sb :: "rv32_env \<Rightarrow> u32 \<Rightarrow> u32 \<Rightarrow>
       u32 \<Rightarrow> asm_rv32_t asm" where
  [asm_ops]: "asm_rv32_opcode_sb env rs2 rs1 offset =
     asm_rv32_emit_word_opcode env (RV32_ENCODE_TYPE_S 0x23 0x00 rs1 rs2 offset)"

definition asm_rv32_opcode_sh :: "rv32_env \<Rightarrow> u32 \<Rightarrow> u32 \<Rightarrow>
       u32 \<Rightarrow> asm_rv32_t asm" where
  [asm_ops]: "asm_rv32_opcode_sh env rs2 rs1 offset =
     asm_rv32_emit_word_opcode env (RV32_ENCODE_TYPE_S 0x23 0x01 rs1 rs2 offset)"

definition asm_rv32_opcode_sw :: "rv32_env \<Rightarrow> u32 \<Rightarrow> u32 \<Rightarrow>
       u32 \<Rightarrow> asm_rv32_t asm" where
  [asm_ops]: "asm_rv32_opcode_sw env rs2 rs1 offset =
     asm_rv32_emit_word_opcode env (RV32_ENCODE_TYPE_S 0x23 0x02 rs1 rs2 offset)"

definition asm_rv32_opcode_xor :: "rv32_env \<Rightarrow> u32 \<Rightarrow> u32 \<Rightarrow>
       u32 \<Rightarrow> asm_rv32_t asm" where
  [asm_ops]: "asm_rv32_opcode_xor env rd rs1 rs2 =
     asm_rv32_emit_word_opcode env (RV32_ENCODE_TYPE_R 0x33 0x04 0x00 rd rs1 rs2)"

definition asm_rv32_opcode_xori :: "rv32_env \<Rightarrow> u32 \<Rightarrow> u32 \<Rightarrow>
       u32 \<Rightarrow> asm_rv32_t asm" where
  [asm_ops]: "asm_rv32_opcode_xori env rd rs immediate =
     asm_rv32_emit_word_opcode env (RV32_ENCODE_TYPE_I 0x13 0x04 rd rs immediate)"

end
