(* ===== verification/Asm_RV32.thy ===== *)
theory Asm_RV32
  imports Asm_RV32_Opcodes
begin

text \<open>
  The RISC-V code generator, \<open>src/bank/uPython-ASM/asmrv32.c\<close>: loading immediates, the
  function prologue and epilogue in their plain and Zcmp forms, calls, jumps, locals, loads
  and stores, comparisons.
\<close>

section \<open>Operations\<close>

definition RV32_INTERNAL_TEMPORARY :: u32 where
  [asm_consts]: "RV32_INTERNAL_TEMPORARY = ASM_RV32_REG_S0"

definition FIT_UNSIGNED :: "u32 \<Rightarrow> nat \<Rightarrow> bool" where
  "FIT_UNSIGNED v bits \<longleftrightarrow> v AND NOT (push_bit bits 1 - 1) = 0"

definition FIT_SIGNED :: "u32 \<Rightarrow> nat \<Rightarrow> bool" where
  "FIT_SIGNED v bits \<longleftrightarrow>
     v AND NOT (push_bit (bits - 1) 1 - 1) = 0 \<or>
     v AND NOT (push_bit (bits - 1) 1 - 1) = NOT (push_bit (bits - 1) 1 - 1)"

definition asm_rv32_allow_zba_opcodes :: "rv32_env \<Rightarrow> bool" where
  "asm_rv32_allow_zba_opcodes env \<longleftrightarrow> asm_rv32_allowed_extensions env AND RV32_EXT_ZBA \<noteq> 0"

definition asm_rv32_allow_zcmp_opcodes :: "rv32_env \<Rightarrow> bool" where
  "asm_rv32_allow_zcmp_opcodes env \<longleftrightarrow> asm_rv32_allowed_extensions env AND RV32_EXT_ZCMP \<noteq> 0"

subsection \<open>Immediates\<close>

text \<open>The two output parameters are the components of the result: (upper, lower).\<close>

definition split_immediate :: "u32 \<Rightarrow> u32 \<times> u32" where
  "split_immediate immediate =
     (let upper = immediate AND 0xFFFFF000;
          lower = immediate AND 0x00000FFF
      in if lower AND 0x800 \<noteq> 0 then (upper + 0x1000, lower) else (upper, lower))"

definition load_upper_immediate :: "rv32_env \<Rightarrow> u32 \<Rightarrow> u32 \<Rightarrow> asm_rv32_t asm" where
  "load_upper_immediate env rd immediate =
     (if FIT_SIGNED immediate 17 \<and> drop_bit 12 immediate \<noteq> 0
      then asm_rv32_opcode_clui env rd immediate
      else asm_rv32_opcode_lui env rd immediate)"

definition load_lower_immediate :: "rv32_env \<Rightarrow> u32 \<Rightarrow> u32 \<Rightarrow> asm_rv32_t asm" where
  "load_lower_immediate env rd immediate =
     (if immediate = 0 then skip
      else if FIT_SIGNED immediate 6 then asm_rv32_opcode_caddi env rd immediate
      else asm_rv32_opcode_addi env rd rd immediate)"

definition load_full_immediate :: "rv32_env \<Rightarrow> u32 \<Rightarrow> u32 \<Rightarrow> asm_rv32_t asm" where
  "load_full_immediate env rd immediate =
     (let (upper, lower) = split_immediate immediate
      in asm_seq [load_upper_immediate env rd upper, load_lower_immediate env rd lower])"

definition asm_rv32_emit_optimised_load_immediate :: "rv32_env \<Rightarrow> u32 \<Rightarrow> u32 \<Rightarrow> asm_rv32_t asm" where
  "asm_rv32_emit_optimised_load_immediate env rd immediate =
     (if FIT_SIGNED immediate 6 then asm_rv32_opcode_cli env rd immediate
      else if FIT_SIGNED immediate 12
      then asm_rv32_opcode_addi env rd ASM_RV32_REG_ZERO immediate
      else load_full_immediate env rd immediate)"

subsection \<open>Prologue and epilogue\<close>

text \<open>The two loops over the registers; the list holds the indices still to visit.\<close>

fun emit_registers_store_loop :: "rv32_env \<Rightarrow> u32 \<Rightarrow> u32 \<Rightarrow> nat list \<Rightarrow> asm_rv32_t asm" where
  "emit_registers_store_loop env registers_mask offset [] = skip"
| "emit_registers_store_loop env registers_mask offset (r # rs) =
     (if registers_mask AND push_bit r 1 \<noteq> 0
      then asm_seq [asm_assert (FIT_UNSIGNED (drop_bit 2 offset) 6),
                    asm_rv32_opcode_cswsp env (word_of_nat r) offset,
                    emit_registers_store_loop env registers_mask (offset + 4) rs]
      else emit_registers_store_loop env registers_mask offset rs)"

definition emit_registers_store :: "rv32_env \<Rightarrow> u32 \<Rightarrow> asm_rv32_t asm" where
  "emit_registers_store env registers_mask =
     emit_registers_store_loop env registers_mask 0 [0..<RV32_AVAILABLE_REGISTERS_COUNT]"

fun emit_registers_load_loop :: "rv32_env \<Rightarrow> u32 \<Rightarrow> u32 \<Rightarrow> nat list \<Rightarrow> asm_rv32_t asm" where
  "emit_registers_load_loop env registers_mask offset [] = skip"
| "emit_registers_load_loop env registers_mask offset (r # rs) =
     (if registers_mask AND push_bit r 1 \<noteq> 0
      then asm_seq [asm_assert (FIT_UNSIGNED (drop_bit 2 offset) 6),
                    asm_rv32_opcode_clwsp env (word_of_nat r) offset,
                    emit_registers_load_loop env registers_mask (offset + 4) rs]
      else emit_registers_load_loop env registers_mask offset rs)"

definition emit_registers_load :: "rv32_env \<Rightarrow> u32 \<Rightarrow> asm_rv32_t asm" where
  "emit_registers_load env registers_mask =
     emit_registers_load_loop env registers_mask 0 [0..<RV32_AVAILABLE_REGISTERS_COUNT]"

definition adjust_stack :: "rv32_env \<Rightarrow> u32 \<Rightarrow> asm_rv32_t asm" where
  "adjust_stack env sz =
     (if sz = 0 then skip
      else if FIT_SIGNED sz 6 then asm_rv32_opcode_caddi env ASM_RV32_REG_SP sz
      else if FIT_SIGNED sz 12
      then asm_rv32_opcode_addi env ASM_RV32_REG_SP ASM_RV32_REG_SP sz
      else asm_seq [load_full_immediate env RV32_REG_TEMP0 sz,
                    asm_rv32_opcode_cadd env ASM_RV32_REG_SP RV32_REG_TEMP0])"

definition emit_function_prologue :: "rv32_env \<Rightarrow> u32 \<Rightarrow> asm_rv32_t asm" where
  "emit_function_prologue env registers s =
     (let registers_count = mp_popcount env registers;
          s1 = s\<lparr>stack_size := (registers_count + locals_count s) * 4\<rparr>;
          old_saved_registers_mask = saved_registers_mask s1
      in asm_seq
          [adjust_stack env (- stack_size s1),
           emit_registers_store env registers,
           (\<lambda>s. Inr (s\<lparr>locals_stack_offset := registers_count * 4\<rparr>)),
           (\<lambda>s. Inr (s\<lparr>saved_registers_mask := old_saved_registers_mask\<rparr>))] s1)"

definition emit_function_epilogue :: "rv32_env \<Rightarrow> u32 \<Rightarrow> asm_rv32_t asm" where
  "emit_function_epilogue env registers s =
     (let old_saved_registers_mask = saved_registers_mask s
      in asm_seq
          [emit_registers_load env registers,
           (\<lambda>s. adjust_stack env (stack_size s) s),
           (\<lambda>s. Inr (s\<lparr>saved_registers_mask := old_saved_registers_mask\<rparr>))] s)"

text \<open>The assertion inside makes this one fallible.\<close>

definition compute_zcmp_sequence_length :: "rv32_env \<Rightarrow> u32 \<Rightarrow> asm_error + u32" where
  "compute_zcmp_sequence_length env registers =
     (if registers \<noteq> 0 \<and> registers AND NOT 0x0FFC0302 = 0
      then let len = 32 - mp_clz env (drop_bit 1 (registers AND 0x00000002) OR
                       drop_bit 7 (registers AND 0x00000300) OR
                       drop_bit 15 (registers AND 0x0FFC0000))
           in Inr (if len = 12 then 13 else len)
      else Inl AssertionFailed)"

definition EMIT_ASSERT :: "bool \<Rightarrow> asm_rv32_t asm" where
  "EMIT_ASSERT condition state =
     asm_assert (if \<not> in_emit_pass state then True else condition) state"

definition MP_INT_MAX :: u32 where
  [asm_consts]: "MP_INT_MAX = 0x7FFFFFFF"

definition emit_compressed_function_prologue :: "rv32_env \<Rightarrow> u32 \<Rightarrow> asm_rv32_t asm" where
  "emit_compressed_function_prologue env registers_mask s =
     (case compute_zcmp_sequence_length env registers_mask of
        Inl e \<Rightarrow> Inl e
      | Inr sequence_length \<Rightarrow>
          let allocated_stack = (sequence_length + 3) AND (- 4);
              tail_slack = allocated_stack - sequence_length;
              all_locals = (if locals_count s < tail_slack then 0 else locals_count s - tail_slack);
              adjustment_chunks = min 3 (all_locals div 4);
              locals_left = all_locals - adjustment_chunks * 4;
              stack_size' = locals_left * 4
          in asm_seq
              [EMIT_ASSERT (allocated_stack \<ge> sequence_length),
               EMIT_ASSERT (adjustment_chunks * 4 \<le> all_locals),
               EMIT_ASSERT (locals_left \<le> MP_INT_MAX div 4),
               asm_rv32_opcode_cmpush env (min (3 + sequence_length) 15) adjustment_chunks,
               adjust_stack env (- stack_size'),
               (\<lambda>s. Inr (s\<lparr>stack_size := stack_size' OR adjustment_chunks\<rparr>))] s)"

definition emit_compressed_function_epilogue :: "rv32_env \<Rightarrow> u32 \<Rightarrow> asm_rv32_t asm" where
  "emit_compressed_function_epilogue env registers_mask s =
     (case compute_zcmp_sequence_length env registers_mask of
        Inl e \<Rightarrow> Inl e
      | Inr sequence_length \<Rightarrow>
          asm_seq
            [adjust_stack env (stack_size s AND NOT 0x03),
             (\<lambda>t. asm_rv32_opcode_cmpopret env (min (3 + sequence_length) 15)
                    (stack_size t AND 0x03) t)] s)"

definition asm_rv32_entry :: "rv32_env \<Rightarrow> u32 \<Rightarrow> asm_rv32_t asm" where
  "asm_rv32_entry env locals s =
     (let s1 = s\<lparr>locals_count := locals,
                saved_registers_mask := saved_registers_mask s OR
                  (push_bit (unat RV32_REG_FUN_TABLE) 1 OR push_bit (unat RV32_REG_LOCAL_1) 1 OR
                   push_bit (unat RV32_REG_LOCAL_2) 1 OR push_bit (unat RV32_REG_LOCAL_3) 1)\<rparr>
      in if asm_rv32_allow_zcmp_opcodes env
         then emit_compressed_function_prologue env (saved_registers_mask s1) s1
         else emit_function_prologue env (saved_registers_mask s1) s1)"

definition asm_rv32_exit :: "rv32_env \<Rightarrow> asm_rv32_t asm" where
  "asm_rv32_exit env s =
     (if asm_rv32_allow_zcmp_opcodes env
      then emit_compressed_function_epilogue env (saved_registers_mask s) s
      else asm_seq [emit_function_epilogue env (saved_registers_mask s),
                    asm_rv32_opcode_cjr env ASM_RV32_REG_RA] s)"

definition asm_rv32_end_pass :: "asm_rv32_t asm" where
  "asm_rv32_end_pass s = Inr s"

subsection \<open>Calls and jumps\<close>

definition asm_rv32_emit_call_ind :: "rv32_env \<Rightarrow> u32 \<Rightarrow> asm_rv32_t asm" where
  "asm_rv32_emit_call_ind env index s =
     (let offset = index * RV32_ASM_WORD_SIZE;
          s1 = s\<lparr>saved_registers_mask := saved_registers_mask s OR push_bit (unat ASM_RV32_REG_RA) 1\<rparr>
      in if RV32_IS_IN_C_REGISTER_WINDOW RV32_REG_FUN_TABLE \<and>
            RV32_IS_IN_C_REGISTER_WINDOW RV32_INTERNAL_TEMPORARY \<and> FIT_UNSIGNED offset 6
         then asm_seq
           [asm_rv32_opcode_clw env (RV32_MAP_IN_C_REGISTER_WINDOW RV32_INTERNAL_TEMPORARY)
              (RV32_MAP_IN_C_REGISTER_WINDOW RV32_REG_FUN_TABLE) offset,
            asm_rv32_opcode_cjalr env RV32_INTERNAL_TEMPORARY]
           (s1\<lparr>saved_registers_mask :=
                 saved_registers_mask s1 OR push_bit (unat RV32_INTERNAL_TEMPORARY) 1\<rparr>)
         else if FIT_UNSIGNED offset 11
         then asm_seq
           [asm_rv32_opcode_lw env RV32_REG_TEMP2 RV32_REG_FUN_TABLE offset,
            asm_rv32_opcode_cjalr env RV32_REG_TEMP2] s1
         else let (upper, lower) = split_immediate offset
           in asm_seq
             [load_upper_immediate env RV32_REG_TEMP2 upper,
              asm_rv32_opcode_cadd env RV32_REG_TEMP2 RV32_REG_FUN_TABLE,
              asm_rv32_opcode_lw env RV32_REG_TEMP2 RV32_REG_TEMP2 lower,
              asm_rv32_opcode_cjalr env RV32_REG_TEMP2] s1)"

text \<open>The result is the pair (displacement, the label is known and lies behind).\<close>

definition calculate_displacement_for_label :: "u32 \<Rightarrow> asm_rv32_t \<Rightarrow> asm_error + (u32 \<times> bool)" where
  "calculate_displacement_for_label label s =
     (case label_offset label s of
        Inl e \<Rightarrow> Inl e
      | Inr off \<Rightarrow>
          let displacement = off - code_offset s
          in Inr (displacement, off \<noteq> - 1 \<and> sint displacement < 0))"

definition asm_rv32_emit_jump_if_reg_eq :: "rv32_env \<Rightarrow> u32 \<Rightarrow> u32 \<Rightarrow> u32 \<Rightarrow> asm_rv32_t asm" where
  "asm_rv32_emit_jump_if_reg_eq env rs1 rs2 label s =
     (case calculate_displacement_for_label label s of
        Inl e \<Rightarrow> Inl e
      | Inr (displacement, can_emit_short_jump) \<Rightarrow>
          if can_emit_short_jump \<and> FIT_SIGNED displacement 13
          then asm_rv32_opcode_beq env rs1 rs2 displacement s
          else let (upper, lower) = split_immediate (displacement - RV32_ASM_WORD_SIZE)
          in asm_seq
              [asm_rv32_opcode_bne env rs1 rs2 12,
               asm_rv32_opcode_auipc env RV32_REG_TEMP2 upper,
               asm_rv32_opcode_jalr env ASM_RV32_REG_ZERO RV32_REG_TEMP2 lower] s)"

definition asm_rv32_emit_jump_if_reg_nonzero :: "rv32_env \<Rightarrow> u32 \<Rightarrow> u32 \<Rightarrow> asm_rv32_t asm" where
  "asm_rv32_emit_jump_if_reg_nonzero env rs label s =
     (case calculate_displacement_for_label label s of
        Inl e \<Rightarrow> Inl e
      | Inr (displacement, can_emit_short_jump) \<Rightarrow>
          if can_emit_short_jump \<and> FIT_SIGNED displacement 8 \<and> RV32_IS_IN_C_REGISTER_WINDOW rs
          then asm_rv32_opcode_cbnez env (RV32_MAP_IN_C_REGISTER_WINDOW rs) displacement s
          else if can_emit_short_jump \<and> FIT_SIGNED displacement 13
          then asm_rv32_opcode_bne env rs ASM_RV32_REG_ZERO displacement s
          else if can_emit_short_jump \<and> RV32_IS_IN_C_REGISTER_WINDOW rs
          then let (upper, lower) = split_immediate (displacement - RV32_ASM_HALFWORD_SIZE)
            in asm_seq
              [asm_rv32_opcode_cbeqz env (RV32_MAP_IN_C_REGISTER_WINDOW rs) 10,
               asm_rv32_opcode_auipc env RV32_REG_TEMP2 upper,
               asm_rv32_opcode_jalr env ASM_RV32_REG_ZERO RV32_REG_TEMP2 lower] s
          else let (upper, lower) = split_immediate (displacement - RV32_ASM_WORD_SIZE)
            in asm_seq
              [asm_rv32_opcode_beq env rs ASM_RV32_REG_ZERO 12,
               asm_rv32_opcode_auipc env RV32_REG_TEMP2 upper,
               asm_rv32_opcode_jalr env ASM_RV32_REG_ZERO RV32_REG_TEMP2 lower] s)"

definition asm_rv32_emit_jump :: "rv32_env \<Rightarrow> u32 \<Rightarrow> asm_rv32_t asm" where
  "asm_rv32_emit_jump env label s =
     (case calculate_displacement_for_label label s of
        Inl e \<Rightarrow> Inl e
      | Inr (displacement, can_emit_short_jump) \<Rightarrow>
          if can_emit_short_jump \<and> FIT_SIGNED displacement 12
          then asm_rv32_opcode_cj env displacement s
          else let (upper, lower) = split_immediate displacement
          in asm_seq
              [asm_rv32_opcode_auipc env RV32_REG_TEMP2 upper,
               asm_rv32_opcode_jalr env ASM_RV32_REG_ZERO RV32_REG_TEMP2 lower] s)"

definition asm_rv32_emit_mov_reg_pcrel :: "rv32_env \<Rightarrow> u32 \<Rightarrow> u32 \<Rightarrow> asm_rv32_t asm" where
  "asm_rv32_emit_mov_reg_pcrel env rd label s =
     (case label_offset label s of
        Inl e \<Rightarrow> Inl e
      | Inr off \<Rightarrow>
          let (upper, lower) = split_immediate (off - code_offset s)
          in asm_seq [asm_rv32_opcode_auipc env rd upper, asm_rv32_opcode_addi env rd rd lower] s)"

subsection \<open>Locals\<close>

definition asm_rv32_emit_mov_local_reg :: "rv32_env \<Rightarrow> u32 \<Rightarrow> u32 \<Rightarrow> asm_rv32_t asm" where
  "asm_rv32_emit_mov_local_reg env local rs s =
     (let offset = locals_stack_offset s + local * RV32_ASM_WORD_SIZE
      in if FIT_UNSIGNED (drop_bit 2 offset) 6 then asm_rv32_opcode_cswsp env rs offset s
      else if FIT_UNSIGNED offset 11 then asm_rv32_opcode_sw env rs ASM_RV32_REG_SP offset s
      else let (upper, lower) = split_immediate offset
        in asm_seq
          [load_upper_immediate env RV32_REG_TEMP2 upper,
           asm_rv32_opcode_cadd env RV32_REG_TEMP2 ASM_RV32_REG_SP,
           asm_rv32_opcode_sw env rs RV32_REG_TEMP2 lower] s)"

definition asm_rv32_emit_mov_reg_local :: "rv32_env \<Rightarrow> u32 \<Rightarrow> u32 \<Rightarrow> asm_rv32_t asm" where
  "asm_rv32_emit_mov_reg_local env rd local s =
     (let offset = locals_stack_offset s + local * RV32_ASM_WORD_SIZE
      in if FIT_UNSIGNED (drop_bit 2 offset) 6 then asm_rv32_opcode_clwsp env rd offset s
      else if FIT_UNSIGNED offset 11 then asm_rv32_opcode_lw env rd ASM_RV32_REG_SP offset s
      else let (upper, lower) = split_immediate offset
        in asm_seq
          [load_upper_immediate env rd upper,
           asm_rv32_opcode_cadd env rd ASM_RV32_REG_SP,
           asm_rv32_opcode_lw env rd rd lower] s)"

definition asm_rv32_emit_mov_reg_local_addr :: "rv32_env \<Rightarrow> u32 \<Rightarrow> u32 \<Rightarrow> asm_rv32_t asm" where
  "asm_rv32_emit_mov_reg_local_addr env rd local s =
     (let offset = locals_stack_offset s + local * RV32_ASM_WORD_SIZE
      in if FIT_UNSIGNED offset 10 \<and> offset \<noteq> 0 \<and> RV32_IS_IN_C_REGISTER_WINDOW rd
      then asm_rv32_opcode_caddi4spn env (RV32_MAP_IN_C_REGISTER_WINDOW rd) offset s
      else if FIT_UNSIGNED offset 11 then asm_rv32_opcode_addi env rd ASM_RV32_REG_SP offset s
      else asm_seq
        [load_full_immediate env rd offset, asm_rv32_opcode_cadd env rd ASM_RV32_REG_SP] s)"

subsection \<open>Loads and stores\<close>

definition RV32_LOAD_OPCODE_TABLE :: "u32 list" where
  "RV32_LOAD_OPCODE_TABLE = [0x04, 0x05, 0x02]"

definition asm_rv32_emit_load_reg_reg_offset ::
    "rv32_env \<Rightarrow> u32 \<Rightarrow> u32 \<Rightarrow> u32 \<Rightarrow> u32 \<Rightarrow> asm_rv32_t asm" where
  "asm_rv32_emit_load_reg_reg_offset env rd rs offset operation_size =
     (if \<not> operation_size \<le> 2 then asm_assert False
      else let scaled_offset = push_bit (unat operation_size) offset;
               ft3 = RV32_LOAD_OPCODE_TABLE ! unat operation_size
      in if sint scaled_offset \<ge> 0 \<and> operation_size = 2 \<and> RV32_IS_IN_C_REGISTER_WINDOW rd \<and>
            RV32_IS_IN_C_REGISTER_WINDOW rs \<and> MP_FIT_UNSIGNED env 6 scaled_offset
      then asm_rv32_opcode_clw env (RV32_MAP_IN_C_REGISTER_WINDOW rd)
             (RV32_MAP_IN_C_REGISTER_WINDOW rs) scaled_offset
      else if MP_FIT_SIGNED env 12 scaled_offset
      then asm_rv32_emit_word_opcode env (RV32_ENCODE_TYPE_I 0x03 ft3 rd rs scaled_offset)
      else let (upper, lower) = split_immediate scaled_offset
        in asm_seq
          [load_upper_immediate env rd upper,
           asm_rv32_opcode_cadd env rd rs,
           asm_rv32_emit_word_opcode env (RV32_ENCODE_TYPE_I 0x03 ft3 rd rd lower)])"

definition asm_rv32_emit_store_reg_reg_offset ::
    "rv32_env \<Rightarrow> u32 \<Rightarrow> u32 \<Rightarrow> u32 \<Rightarrow> u32 \<Rightarrow> asm_rv32_t asm" where
  "asm_rv32_emit_store_reg_reg_offset env rd rs offset operation_size =
     (if \<not> operation_size \<le> 2 then asm_assert False
      else let scaled_offset = push_bit (unat operation_size) offset
      in if sint scaled_offset \<ge> 0 \<and> operation_size = 2 \<and> RV32_IS_IN_C_REGISTER_WINDOW rd \<and>
            RV32_IS_IN_C_REGISTER_WINDOW rs \<and> MP_FIT_UNSIGNED env 6 scaled_offset
      then asm_rv32_opcode_csw env (RV32_MAP_IN_C_REGISTER_WINDOW rd)
             (RV32_MAP_IN_C_REGISTER_WINDOW rs) scaled_offset
      else if MP_FIT_SIGNED env 12 scaled_offset
      then asm_rv32_emit_word_opcode env (RV32_ENCODE_TYPE_S 0x23 operation_size rs rd scaled_offset)
      else let (upper, lower) = split_immediate scaled_offset
        in asm_seq
          [load_upper_immediate env RV32_REG_TEMP2 upper,
           asm_rv32_opcode_cadd env RV32_REG_TEMP2 rs,
           asm_rv32_emit_word_opcode env
             (RV32_ENCODE_TYPE_S 0x23 operation_size RV32_REG_TEMP2 rd lower)])"

definition asm_rv32_emit_optimised_xor :: "rv32_env \<Rightarrow> u32 \<Rightarrow> u32 \<Rightarrow> asm_rv32_t asm" where
  "asm_rv32_emit_optimised_xor env rd rs =
     (if rs = rd then asm_rv32_opcode_cli env rd 0 else asm_rv32_opcode_xor env rd rd rs)"

definition asm_rv32_fix_up_scaled_reg_reg_reg ::
    "rv32_env \<Rightarrow> u32 \<Rightarrow> u32 \<Rightarrow> u32 \<Rightarrow> asm_rv32_t asm" where
  "asm_rv32_fix_up_scaled_reg_reg_reg env rs1 rs2 operation_size =
     (if \<not> operation_size \<le> 2 then asm_assert False
      else if operation_size > 0 \<and> asm_rv32_allow_zba_opcodes env
      then asm_rv32_emit_word_opcode env
        (RV32_ENCODE_TYPE_R 0x33 (push_bit (unat operation_size) 1) 0x10 RV32_REG_TEMP2 rs2 rs1)
      else if operation_size > 0
      then asm_seq [asm_rv32_opcode_slli env RV32_REG_TEMP2 rs2 operation_size,
                    asm_rv32_opcode_cadd env RV32_REG_TEMP2 rs1]
      else asm_rv32_opcode_add env RV32_REG_TEMP2 rs1 rs2)"

definition asm_rv32_emit_load_reg_reg_reg ::
    "rv32_env \<Rightarrow> u32 \<Rightarrow> u32 \<Rightarrow> u32 \<Rightarrow> u32 \<Rightarrow> asm_rv32_t asm" where
  "asm_rv32_emit_load_reg_reg_reg env rd rs1 rs2 operation_size =
     asm_seq [asm_rv32_fix_up_scaled_reg_reg_reg env rs1 rs2 operation_size,
              asm_rv32_emit_load_reg_reg_offset env rd RV32_REG_TEMP2 0 operation_size]"

definition asm_rv32_emit_store_reg_reg_reg ::
    "rv32_env \<Rightarrow> u32 \<Rightarrow> u32 \<Rightarrow> u32 \<Rightarrow> u32 \<Rightarrow> asm_rv32_t asm" where
  "asm_rv32_emit_store_reg_reg_reg env rd rs1 rs2 operation_size =
     asm_seq [asm_rv32_fix_up_scaled_reg_reg_reg env rs1 rs2 operation_size,
              asm_rv32_emit_store_reg_reg_offset env rd RV32_REG_TEMP2 0 operation_size]"

subsection \<open>Comparisons\<close>

definition asm_rv32_meta_comparison_eq :: "rv32_env \<Rightarrow> u32 \<Rightarrow> u32 \<Rightarrow> u32 \<Rightarrow> asm_rv32_t asm" where
  "asm_rv32_meta_comparison_eq env rs1 rs2 rd =
     asm_seq [asm_rv32_opcode_sub env rd rs1 rs2, asm_rv32_opcode_sltiu env rd rd 1]"

definition asm_rv32_meta_comparison_ne :: "rv32_env \<Rightarrow> u32 \<Rightarrow> u32 \<Rightarrow> u32 \<Rightarrow> asm_rv32_t asm" where
  "asm_rv32_meta_comparison_ne env rs1 rs2 rd =
     asm_seq [asm_rv32_opcode_sub env rd rs1 rs2,
              asm_rv32_opcode_sltu env rd ASM_RV32_REG_ZERO rd]"

definition asm_rv32_meta_comparison_lt ::
    "rv32_env \<Rightarrow> u32 \<Rightarrow> u32 \<Rightarrow> u32 \<Rightarrow> bool \<Rightarrow> asm_rv32_t asm" where
  "asm_rv32_meta_comparison_lt env rs1 rs2 rd unsigned_comparison =
     asm_rv32_emit_word_opcode env
       (RV32_ENCODE_TYPE_R 0x33 (0x02 OR (if unsigned_comparison then 1 else 0)) 0x00 rd rs1 rs2)"

definition asm_rv32_meta_comparison_le ::
    "rv32_env \<Rightarrow> u32 \<Rightarrow> u32 \<Rightarrow> u32 \<Rightarrow> bool \<Rightarrow> asm_rv32_t asm" where
  "asm_rv32_meta_comparison_le env rs1 rs2 rd unsigned_comparison =
     asm_seq [asm_rv32_meta_comparison_lt env rs2 rs1 rd unsigned_comparison,
              asm_rv32_opcode_xori env rd rd 1]"

end
