(* ===== verification/Asm_API.thy ===== *)
theory Asm_API
  imports Two_Pass
begin

text \<open>
  The operations the native emitter works with. Each assembler header defines the same
  family of macros under \<open>GENERIC_ASM_API\<close>; a program for an assembler is a list of such
  macro calls and of calls to the base assembler (labels, alignment, data). The macros all
  six headers define form \<open>asm_op\<close>; those of the four register-machine targets form
  \<open>asm_risc_op\<close>. Operands have the target's \<open>mp_uint_t\<close>.
\<close>

datatype 'v asm_op =
    Base_label_assign 'v
  | Base_align u32
  | Base_data u32 'v
  | Base_suppress_code
  | ASM_ENTRY 'v
  | ASM_EXIT
  | ASM_END_PASS
  | ASM_JUMP 'v
  | ASM_JUMP_IF_REG_ZERO 'v 'v bool
  | ASM_JUMP_IF_REG_NONZERO 'v 'v bool
  | ASM_JUMP_IF_REG_EQ 'v 'v 'v
  | ASM_JUMP_REG 'v
  | ASM_CALL_IND 'v
  | ASM_MOV_LOCAL_REG 'v 'v
  | ASM_MOV_REG_IMM 'v 'v
  | ASM_MOV_REG_LOCAL 'v 'v
  | ASM_MOV_REG_LOCAL_ADDR 'v 'v
  | ASM_MOV_REG_REG 'v 'v
  | ASM_MOV_REG_PCREL 'v 'v
  | ASM_NEG_REG 'v
  | ASM_CLR_REG 'v
  | ASM_OR_REG_REG 'v 'v
  | ASM_XOR_REG_REG 'v 'v
  | ASM_AND_REG_REG 'v 'v
  | ASM_ADD_REG_REG 'v 'v
  | ASM_SUB_REG_REG 'v 'v
  | ASM_MUL_REG_REG 'v 'v
  | ASM_LOAD_REG_REG_OFFSET 'v 'v 'v
  | ASM_LOAD8_REG_REG 'v 'v
  | ASM_LOAD16_REG_REG 'v 'v
  | ASM_LOAD32_REG_REG 'v 'v
  | ASM_LOAD8_REG_REG_OFFSET 'v 'v 'v
  | ASM_LOAD16_REG_REG_OFFSET 'v 'v 'v
  | ASM_LOAD32_REG_REG_OFFSET 'v 'v 'v
  | ASM_STORE_REG_REG_OFFSET 'v 'v 'v
  | ASM_STORE8_REG_REG 'v 'v
  | ASM_STORE16_REG_REG 'v 'v
  | ASM_STORE32_REG_REG 'v 'v
  | ASM_STORE8_REG_REG_OFFSET 'v 'v 'v
  | ASM_STORE16_REG_REG_OFFSET 'v 'v 'v
  | ASM_STORE32_REG_REG_OFFSET 'v 'v 'v

datatype 'v asm_risc_op =
    ASM_LSL_REG_REG 'v 'v
  | ASM_LSR_REG_REG 'v 'v
  | ASM_ASR_REG_REG 'v 'v
  | ASM_LOAD8_REG_REG_REG 'v 'v 'v
  | ASM_LOAD16_REG_REG_REG 'v 'v 'v
  | ASM_LOAD32_REG_REG_REG 'v 'v 'v
  | ASM_STORE8_REG_REG_REG 'v 'v 'v
  | ASM_STORE16_REG_REG_REG 'v 'v 'v
  | ASM_STORE32_REG_REG_REG 'v 'v 'v

fun is_ASM_ENTRY :: "'v asm_op \<Rightarrow> bool" where
  "is_ASM_ENTRY (ASM_ENTRY _) = True"
| "is_ASM_ENTRY _ = False"

text \<open>Alignments are powers of two.\<close>

fun base_allowed :: "'v asm_op \<Rightarrow> bool" where
  "base_allowed (Base_align align) = list_ex (\<lambda>k. align = 2 ^ k) [0..<32]"
| "base_allowed _ = True"

text \<open>Bytes the calls to the base assembler may add.\<close>

fun base_cost :: "nat \<Rightarrow> 'v asm_op \<Rightarrow> nat" where
  "base_cost n (Base_align align) = unat align"
| "base_cost n (Base_data bytesize _) = unat bytesize"
| "base_cost n _ = n"

lemma two_pass_base_align:
  assumes "base_allowed (Base_align align)" "unat align \<le> n" "lim < 2 ^ LENGTH('w)" "added_rel R"
  shows "two_pass_ok R R lim n
    (mp_asm_base_align align :: ('w::len, 'z) mp_asm_base_t_scheme asm)"
proof -
  obtain k where k: "k < 32" "align = 2 ^ k"
    using assms(1) by (auto simp: list_ex_iff)
  moreover have "unat (word_of_nat (2 ^ k) :: u32) = 2 ^ k"
    using power_strict_increasing [OF k(1), of "2 :: nat"] by (simp only: unat_of_nat) simp
  ultimately have "unat align = 2 ^ k" by simp
  with k assms show ?thesis by (auto intro: two_pass_align)
qed

end
