(* ===== verification/Plain_Ops.thy ===== *)
theory Plain_Ops
  imports Asm_API
begin

text \<open>
  Operations that write code and do nothing else: they leave the fields an assembler adds to
  the base record alone, raise no exception, and keep the two-pass contract. Most operations
  of an assembler are of this kind, with asserted operand ranges; the rules here derive that
  from how an operation is put together. The locale at the end is the two-pass interface for
  an assembler all of whose operations are like that, apart from its entry.
\<close>

section \<open>Fields the assemblers add\<close>

text \<open>After the entry, both passes have the same values in the fields the assembler adds.\<close>

definition same_added :: "('w::len, 'z) mp_asm_base_t_scheme \<Rightarrow> ('w, 'z) mp_asm_base_t_scheme \<Rightarrow> bool" where
  "same_added c e \<longleftrightarrow> mp_asm_base_t.more c = mp_asm_base_t.more e"

lemma added_rel_same_added [simp, intro]: "added_rel same_added"
  by (simp add: added_rel_def same_added_def)

lemma keeps_added_label_jump:
  assumes "dest = label_offset l \<or> dest = checked_label_offset l"
  shows "keeps_added (label_jump dest (\<lambda>_ _. False) J)"
proof (rule keeps_addedI)
  show "\<not> raised e" if "label_jump dest (\<lambda>_ _. False) J s = Inl e" for s e
    using that assms keeps_addedD(2) [OF keeps_added_emit_code]
    by (auto simp: label_jump_def label_offset_def checked_label_offset_def split: sum.splits if_splits)
qed (auto simp: label_jump_def keeps_addedD(1) [OF keeps_added_emit_code] split: sum.splits)

lemma keeps_added_read:
  assumes "\<And>s. f s = F (v s) s" "\<And>x. keeps_added (F x)"
  shows "keeps_added f"
  using keeps_addedD [OF assms(2)] by (intro keeps_addedI) (auto simp: assms(1))

lemma keeps_added_if:
  "keeps_added f \<Longrightarrow> keeps_added g \<Longrightarrow> keeps_added (\<lambda>s. if b then f s else g s)"
  by (cases b) simp_all

lemma start_pass_keeps:
  "mp_asm_base_start_pass alloc p s = Inr t \<Longrightarrow> mp_asm_base_t.more t = mp_asm_base_t.more s"
  by (auto simp: mp_asm_base_start_pass_def Let_def split: if_splits sum.splits prod.splits)

section \<open>Plain operations\<close>

definition plain :: "nat \<Rightarrow> nat \<Rightarrow> ('w::len, 'z) mp_asm_base_t_scheme asm \<Rightarrow> bool" where
  "plain lim n f \<longleftrightarrow> keeps_added f \<and> (\<forall>R. added_rel R \<longrightarrow> two_pass_ok R R lim n f)"

lemma plainD:
  assumes "plain lim n f"
  shows "keeps_added f" "added_rel R \<Longrightarrow> two_pass_ok R R lim n f" "f s = Inl e \<Longrightarrow> \<not> raised e"
  using assms keeps_addedD(2) [of f s e] by (auto simp: plain_def)

lemma plain_weaken: "plain lim n f \<Longrightarrow> n \<le> m \<Longrightarrow> plain lim m f"
  by (auto simp: plain_def intro: two_pass_weaken)

lemma plain_skip: "plain lim n skip"
  by (simp add: plain_def keeps_added_skip two_pass_skip)

lemma plain_Nil: "plain lim n (asm_seq [])"
  using keeps_added_seq [of "[]"] two_pass_Nil by (auto simp: plain_def simp del: asm_seq.simps)

lemma plain_assert: "plain lim 0 (asm_assert b)"
  by (simp add: plain_def keeps_added_assert two_pass_assert)

lemma plain_emit:
  assumes "lim < 2 ^ LENGTH('w)"
  shows "plain lim (length bs) (emit_bytes bs :: ('w::len, 'z) mp_asm_base_t_scheme asm)"
  using assms by (simp add: plain_def keeps_added_emit_bytes two_pass_emit)

lemma plain_emit_code:
  assumes "lim < 2 ^ LENGTH('w)" "total_length js \<le> n"
  shows "plain lim n (emit_code js :: ('w::len, 'z) mp_asm_base_t_scheme asm)"
  using assms by (simp add: plain_def keeps_added_emit_code two_pass_emit_code)

lemma plain_step:
  assumes "plain lim k f" "plain lim (n - k) (asm_seq fs)" "k \<le> n"
  shows "plain lim n (asm_seq (f # fs))"
  using assms by (auto simp: plain_def simp del: asm_seq.simps intro: keeps_added_Cons two_pass_step)

lemma plain_cond:
  assumes "b \<Longrightarrow> plain lim n f" "\<not> b \<Longrightarrow> plain lim n g"
  shows "plain lim n (if b then f else g)"
  using assms by simp

lemma plain_when: "(b \<Longrightarrow> plain lim n f) \<Longrightarrow> plain lim n (asm_when b f)"
  by (cases b) (simp_all add: plain_skip)

lemma plain_error: "\<not> raised e \<Longrightarrow> plain lim n (\<lambda>s. Inl e)"
  by (simp add: plain_def keeps_added_def two_pass_error)

lemma plain_fail: "plain lim n (asm_assert False)"
  by (rule plain_weaken [OF plain_assert]) simp

lemma plain_jump:
  assumes "dest = label_offset l \<or> dest = checked_label_offset l" "lim < 2 ^ LENGTH('w)"
    and "\<And>d o'. total_length (J d o') \<le> n"
    and "\<And>d o'. unat o' + total_length (J (- 1) o') \<le> unat d \<Longrightarrow> unat d \<le> lim \<Longrightarrow>
       map length (J d o') = map length (J (- 1) o')"
  shows "plain lim n (label_jump dest (\<lambda>_ _. False) J :: ('w::len, 'z) mp_asm_base_t_scheme asm)"
  unfolding plain_def
proof (intro conjI allI impI)
  show "keeps_added (label_jump dest (\<lambda>_ _. False) J :: ('w, 'z) mp_asm_base_t_scheme asm)"
    by (rule keeps_added_label_jump [OF assms(1)])
  show "two_pass_ok R R lim n (label_jump dest (\<lambda>_ _. False) J :: ('w, 'z) mp_asm_base_t_scheme asm)"
    if "added_rel R" for R
    by (rule two_pass_jump [where l = l]) (use assms that in auto)
qed

text \<open>
  Jumps whose size is settled by the direction: below half the range of offsets, a label that
  becomes known after the jump lies ahead of it.
\<close>

lemma plain_jump_ahead:
  fixes J :: "'w::len word \<Rightarrow> 'w word \<Rightarrow> u8 list list"
  assumes "lim < 2 ^ (LENGTH('w) - 1)"
    and "\<And>d o'. total_length (J d o') \<le> n" "\<And>o'. 0 < total_length (J (- 1) o')"
    and "\<And>d o'. 0 < sint (d - o') \<Longrightarrow> map length (J d o') = map length (J (- 1) o')"
  shows "plain lim n (label_jump (checked_label_offset l) (\<lambda>_ _. False) J :: ('w, 'z) mp_asm_base_t_scheme asm)"
proof (rule plain_jump [where l = l])
  fix d o' :: "'w word"
  assume "unat o' + total_length (J (- 1) o') \<le> unat d" "unat d \<le> lim"
  then have "unat o' < unat d" "unat d < 2 ^ (LENGTH('w) - 1)" using assms(1) assms(3) [of o'] by linarith+
  moreover from this have "sint (d - o') = int (unat d) - int (unat o')" by (intro sint_sub_small) linarith+
  ultimately have "0 < sint (d - o')" by linarith
  then show "map length (J d o') = map length (J (- 1) o')" by (rule assms(4))
next
  have "(2 :: nat) ^ (LENGTH('w) - 1) \<le> 2 ^ LENGTH('w)" by (rule power_increasing) simp_all
  then show "lim < 2 ^ LENGTH('w)" using assms(1) by linarith
qed (use assms(2) in simp_all)

text \<open>Rules that add up the cost of an operation from its parts; used under \<open>plain_weaken\<close>.\<close>

lemma plain_Cons: "plain lim k f \<Longrightarrow> plain lim m (asm_seq fs) \<Longrightarrow> plain lim (k + m) (asm_seq (f # fs))"
  by (rule plain_step [where k = k]) simp_all

lemma plain_Nil_0: "plain lim 0 (asm_seq [])"
  by (rule plain_Nil)

lemma plain_cond_max: "plain lim k f \<Longrightarrow> plain lim m g \<Longrightarrow> plain lim (max k m) (if b then f else g)"
  by (auto intro: plain_weaken)

lemma plain_skip_0: "plain lim 0 skip"
  by (rule plain_skip)

lemma plain_fail_0: "plain lim 0 (asm_assert False)"
  by (rule plain_fail)

lemmas plain_sum = plain_Nil_0 plain_Cons plain_cond_max plain_assert plain_when plain_skip_0
lemmas plain_seq_rules = plain_step plain_Nil plain_assert plain_when

text \<open>Both passes are at the same offset, so an operation may look at it.\<close>

lemma two_pass_offset:
  assumes "\<And>x. two_pass_ok R R' lim n (F x)"
  shows "two_pass_ok R R' lim n (\<lambda>s. F (code_offset s) s)"
proof (rule two_pass_okI)
  fix c c'
  assume c: "compute_state c" "unat (code_offset c) + n \<le> lim" "F (code_offset c) c = Inr c'"
  then show "grows n c c'" by (rule two_pass_okD_grows [OF assms])
  fix L e
  assume e: "passes_agree R lim L c e" "labels_ahead L c'" "unat (code_offset c') \<le> unat (code_size e)"
  then have "code_offset e = code_offset c" by (simp add: passes_agree_def)
  then show "case F (code_offset e) e of Inr e' \<Rightarrow> passes_agree R' lim L c' e' \<and> code_size e' = code_size e
      | Inl err \<Rightarrow> raised err"
    using two_pass_okD_sim [OF assms c e] by simp
qed

lemma plain_offset:
  assumes "\<And>s. f s = F (code_offset s) s" "\<And>x. plain lim n (F x)"
  shows "plain lim n f"
proof -
  have "f = (\<lambda>s. F (code_offset s) s)" by (rule ext) (rule assms(1))
  moreover have "keeps_added (\<lambda>s. F (code_offset s) s)"
    by (rule keeps_added_read [where v = code_offset], rule refl, rule plainD(1) [OF assms(2)])
  ultimately show ?thesis
    using two_pass_offset [where F = F] plainD(2) [OF assms(2)] by (simp add: plain_def)
qed

lemma plain_base:
  fixes lim :: nat
  assumes "lim < 2 ^ LENGTH('w) - 1"
  shows "plain lim n (mp_asm_base_label_assign l :: ('w::len, 'z) mp_asm_base_t_scheme asm)"
    "plain lim (unat bytesize) (mp_asm_base_data bytesize val :: ('w, 'z) mp_asm_base_t_scheme asm)"
    "plain lim n (mp_asm_base_suppress_code :: ('w, 'z) mp_asm_base_t_scheme asm)"
    "base_allowed (Base_align align) \<Longrightarrow>
       plain lim (unat align) (mp_asm_base_align align :: ('w, 'z) mp_asm_base_t_scheme asm)"
  using assms
  by (simp_all add: plain_def base_keeps_added two_pass_label_assign two_pass_data
      two_pass_suppress_code two_pass_base_align del: base_allowed.simps)

text \<open>
  An operation that behaves like a plain one on the states of the two passes: on every state
  of the compute pass, and on a state of the emit pass with a sound buffer where the plain
  one succeeds.
\<close>

lemma two_pass_cong:
  assumes ok: "two_pass_ok R R' lim n g"
    and comp: "\<And>c. compute_state c \<Longrightarrow> f c = g c"
    and emit: "\<And>e e' mem. in_emit_pass e \<Longrightarrow> code_base e = Some mem \<Longrightarrow> unat (code_size e) \<le> length mem \<Longrightarrow>
      unat (code_offset e) + n \<le> lim \<Longrightarrow> (\<And>x. x \<in> set (label_offsets e) \<Longrightarrow> x = - 1 \<or> unat x \<le> lim) \<Longrightarrow>
      g e = Inr e' \<Longrightarrow> f e = Inr e'"
    and quiet: "\<And>s err. g s = Inl err \<Longrightarrow> \<not> raised err"
  shows "two_pass_ok R R' lim n f"
proof (rule two_pass_okI)
  fix c c' assume c: "compute_state c" "unat (code_offset c) + n \<le> lim" "f c = Inr c'"
  then have g: "g c = Inr c'" using comp by simp
  then show "grows n c c'" using two_pass_okD_grows [OF ok c(1,2)] by simp
  fix L e
  assume e: "passes_agree R lim L c e" "labels_ahead L c'" "unat (code_offset c') \<le> unat (code_size e)"
  have "case g e of Inr e' \<Rightarrow> passes_agree R' lim L c' e' \<and> code_size e' = code_size e | Inl err \<Rightarrow> raised err"
    by (rule two_pass_okD_sim [OF ok c(1,2) g e])
  then obtain e' where e': "g e = Inr e'" "passes_agree R' lim L c' e'" "code_size e' = code_size e"
    using quiet by (auto split: sum.splits)
  obtain mem where "in_emit_pass e" "code_base e = Some mem" "unat (code_size e) \<le> length mem"
    "code_offset e = code_offset c" "\<forall>x \<in> set (label_offsets e). x = - 1 \<or> unat x \<le> lim"
    using e(1) by (auto simp: passes_agree_def)
  then have "f e = Inr e'" using emit e'(1) c(2) by simp
  with e' show "case f e of Inr e' \<Rightarrow> passes_agree R' lim L c' e' \<and> code_size e' = code_size e
      | Inl err \<Rightarrow> raised err"
    by simp
qed

section \<open>More two-pass rules\<close>

text \<open>
  Bytes that depend on the state, with a length that does not; and the cursor used without a
  store, its result kept in an added field.
\<close>

lemma two_pass_emit_varying:
  assumes "\<And>s. length (B s) = n" "lim < 2 ^ LENGTH('w)" "added_rel R"
  shows "two_pass_ok R R lim n (\<lambda>s. emit_bytes (B s) s :: asm_error + ('w::len, 'z) mp_asm_base_t_scheme)"
proof (rule two_pass_okI)
  fix c c' :: "('w::len, 'z) mp_asm_base_t_scheme"
  assume c: "compute_state c" "unat (code_offset c) + n \<le> lim" "emit_bytes (B c) c = Inr c'"
  then have small: "unat (code_offset c) + length (B c) < 2 ^ LENGTH('w)"
    using assms by simp
  show "grows n c c'"
    using emit_grows [OF c(3,1) small] assms(1) by (simp add: grows_mono)
  fix L e
  assume "passes_agree R lim L c e" "unat (code_offset c') \<le> unat (code_size e)"
  then show "case emit_bytes (B e) e of
      Inr e' \<Rightarrow> passes_agree R lim L c' e' \<and> code_size e' = code_size e | Inl err \<Rightarrow> raised err"
    using emit_agree [of R lim L c e "B c" c' "B e"] c(3) assms(1,3) small by fastforce
qed

lemma two_pass_cursor:
  fixes U :: "'w::len word option \<Rightarrow> ('w, 'z) mp_asm_base_t_scheme \<Rightarrow> ('w, 'z) mp_asm_base_t_scheme"
  assumes "unat n \<le> k" "lim < 2 ^ LENGTH('w)" "added_rel R"
    and U: "\<And>p. keeps_base (U p)" "\<And>p q c e. R c e \<Longrightarrow> R (U p c) (U q e)"
  shows "two_pass_ok R R lim k
    (\<lambda>s. case mp_asm_base_get_cur_to_write_bytes n s of Inl e \<Rightarrow> Inl e | Inr (p, t) \<Rightarrow> Inr (U p t))"
    (is "two_pass_ok R R lim k ?f")
proof (rule two_pass_okI)
  fix c c' :: "('w::len, 'z) mp_asm_base_t_scheme"
  assume c: "compute_state c" "unat (code_offset c) + k \<le> lim" "?f c = Inr c'"
  then obtain p t where t: "mp_asm_base_get_cur_to_write_bytes n c = Inr (p, t)" "c' = U p t"
    by (auto split: sum.splits)
  have run: "emit_bytes (replicate (unat n) 0) c = Inr t"
    using t(1) c(1) by (auto simp: emit_bytes_def mp_asm_base_get_cur_to_write_bytes_def split: if_splits)
  have small: "unat (code_offset c) + length (replicate (unat n) (0 :: u8)) < 2 ^ LENGTH('w)"
    using c(2) assms(1,2) by simp
  have "grows (unat n) c t" using emit_grows [OF run c(1) small] by simp
  then show "grows k c c'"
    using grows_mono [OF _ assms(1), of c t] U(1) [of p] by (simp add: t(2) grows_def keeps_base_def)
  fix L e
  assume e: "passes_agree R lim L c e" "labels_ahead L c'" "unat (code_offset c') \<le> unat (code_size e)"
  obtain e1 where e1: "emit_bytes (replicate (unat n) 0) e = Inr e1" "passes_agree R lim L t e1"
    "code_size e1 = code_size e"
    using emit_agree [OF e(1) run refl assms(3) small] e(3) U(1) [of p] by (auto simp: t(2) keeps_base_def)
  obtain q u where u: "mp_asm_base_get_cur_to_write_bytes n e = Inr (q, u)"
    using e1(1) by (auto simp: emit_bytes_def split: sum.splits)
  have same: "code_offset u = code_offset e1" "suppress u = suppress e1" "pass u = pass e1" "code_size u = code_size e"
    "max_num_labels u = max_num_labels e1" "label_offsets u = label_offsets e1" "code_base u = code_base e"
    "mp_asm_base_t.more u = mp_asm_base_t.more e1"
    using u e1(1,3) by (auto simp: emit_bytes_def mp_asm_base_get_cur_to_write_bytes_def mp_store_bytes_def
        split: if_splits option.splits)
  have "R t u" using e1(2) same(8) added_relD [OF assms(3), of t e1 t u] by (simp add: passes_agree_def)
  then have "passes_agree R lim L c' (U q u)"
    using e1(2) e(1) same U(1) [of p] U(1) [of q] U(2)
    by (auto simp: passes_agree_def t(2) keeps_base_def in_emit_pass_def)
  moreover have "code_size (U q u) = code_size e" using U(1) [of q] same(4) by (simp add: keeps_base_def)
  ultimately show "case ?f e of Inr e' \<Rightarrow> passes_agree R lim L c' e' \<and> code_size e' = code_size e | Inl err \<Rightarrow> raised err"
    by (simp add: u)
qed

text \<open>A check in the emit pass that raises an exception.\<close>

lemma two_pass_guard:
  assumes "two_pass_ok R R' lim n f" "\<And>s. P s \<Longrightarrow> in_emit_pass s"
  shows "two_pass_ok R R' lim n (\<lambda>s. if P s then Inl RuntimeError else f s)"
proof (rule two_pass_okI)
  fix c c'
  assume c: "compute_state c" "unat (code_offset c) + n \<le> lim" "(if P c then Inl RuntimeError else f c) = Inr c'"
  then have f: "f c = Inr c'" by (simp split: if_splits)
  show "grows n c c'" by (rule two_pass_okD_grows [OF assms(1) c(1,2) f])
  fix L e
  assume "passes_agree R lim L c e" "labels_ahead L c'" "unat (code_offset c') \<le> unat (code_size e)"
  then show "case if P e then Inl RuntimeError else f e of
      Inr e' \<Rightarrow> passes_agree R' lim L c' e' \<and> code_size e' = code_size e | Inl err \<Rightarrow> raised err"
    using two_pass_okD_sim [OF assms(1) c(1,2) f] by simp
qed

section \<open>More about written code\<close>

lemma plain_never:
  assumes "\<And>s. \<exists>e. f s = Inl e \<and> \<not> raised e"
  shows "plain lim n f"
proof -
  have never: "f s \<noteq> Inr t" for s t using assms [of s] by auto
  have "keeps_added f"
    using assms by (intro keeps_addedI) (auto simp: never, metis sum.inject(1))
  moreover have "two_pass_ok R R lim n f" for R by (rule two_pass_okI) (simp_all add: never)
  ultimately show ?thesis by (simp add: plain_def)
qed

lemma asm_when_code: "asm_when b (emit_code js) = emit_code (if b then js else [])"
  by (cases b) (simp_all add: skip_as_code)

lemma asm_seq_emit_code5:
  "asm_seq [emit_code as, emit_code bs, emit_code cs, emit_code ds, emit_code es] = emit_code (as @ bs @ cs @ ds @ es)"
  using asm_seq_emit_codes [of "[as, bs, cs, ds, es]"] by simp

lemma asm_seq_emit_code_Cons:
  "asm_seq (emit_code as # emit_code bs # fs) = asm_seq (emit_code (as @ bs) # fs)"
  by (simp add: fun_eq_iff emit_code_def asm_seq_append split: sum.split)

lemma asm_seq_skip_Cons: "asm_seq (skip # fs) = asm_seq fs"
  by (simp add: fun_eq_iff)

lemmas emit_code_seq = asm_seq_emit_code_Cons asm_seq_skip_Cons asm_seq_singleton asm_when_code

lemma checked_label_offset_simps [simp]:
  "checked_label_offset l (s\<lparr>code_offset := x\<rparr>) = checked_label_offset l s"
  by (simp add: checked_label_offset_def label_offset_def)

lemma emit_code_suppressed: "suppress s \<Longrightarrow> emit_code js s = Inr s"
  by (induction js) (simp_all add: emit_code_def)

lemma emit_code_counts:
  "\<not> suppress s \<Longrightarrow> \<not> in_emit_pass s \<Longrightarrow>
     emit_code js s = Inr (s\<lparr>code_offset := code_offset s + word_of_nat (total_length js)\<rparr>)"
  by (induction js arbitrary: s) (simp_all add: emit_code_def emit_bytes_count add.assoc)

lemma emit_bytes_offset:
  "emit_bytes bs s = Inr t \<Longrightarrow> \<not> suppress s \<Longrightarrow> code_offset t = code_offset s + word_of_nat (length bs)"
  by (auto simp: emit_bytes_def mp_asm_base_get_cur_to_write_bytes_def mp_store_bytes_def
      split: if_splits option.splits)

lemma emit_code_offset:
  "emit_code js s = Inr t \<Longrightarrow> \<not> suppress s \<Longrightarrow> code_offset t = code_offset s + word_of_nat (total_length js)"
proof (induction js arbitrary: s)
  case (Cons j js)
  then obtain u where u: "emit_bytes j s = Inr u" "emit_code js u = Inr t"
    by (auto simp: emit_code_def split: sum.splits)
  then show ?case
    using Cons.IH [OF u(2)] Cons.prems(2) emit_bytes_offset [OF u(1)] emit_bytes_keeps [OF u(1)] by simp
qed (simp add: emit_code_def)

section \<open>Reserving bytes and filling them in later\<close>

lemma emit_code_room:
  fixes s :: "('w::len, 'z) mp_asm_base_t_scheme"
  assumes "emit_code js s = Inr t" "\<not> suppress s" "in_emit_pass s"
    and "unat (code_offset s) + total_length js < 2 ^ LENGTH('w)" "js \<noteq> []"
  shows "unat (code_offset s) + total_length js \<le> unat (code_size s)"
  using assms
proof (induction js arbitrary: s)
  case (Cons j js)
  obtain u where u: "emit_bytes j s = Inr u" "emit_code js u = Inr t"
    using Cons.prems(1) by (auto simp: emit_code_def split: sum.splits)
  have off: "code_offset s + word_of_nat (length j) \<le> code_size s"
    "code_offset u = code_offset s + word_of_nat (length j)"
    using u(1) Cons.prems(2,3)
    by (auto simp: emit_bytes_def mp_asm_base_get_cur_to_write_bytes_def mp_store_bytes_def
        split: if_splits option.splits)
  have nat: "unat (code_offset u) = unat (code_offset s) + length j"
    unfolding off(2) using Cons.prems(4) by (intro unat_add_of_nat) simp
  show ?case
  proof (cases "js = []")
    case True
    then show ?thesis using off nat by (simp add: word_le_nat_alt)
  next
    case False
    have "in_emit_pass u" using emit_bytes_keeps [OF u(1)] Cons.prems(3) by (simp add: in_emit_pass_def)
    then have "unat (code_offset u) + total_length js \<le> unat (code_size u)"
      using Cons.prems False emit_bytes_keeps [OF u(1)] nat by (intro Cons.IH [OF u(2)]) auto
    then show ?thesis using nat emit_bytes_keeps [OF u(1)] by simp
  qed
qed simp

lemma store_at_before:
  assumes "k + length bs + length cs \<le> length mem"
  shows "store_at k bs (store_at (k + length bs) cs mem) = store_at k (bs @ cs) mem"
  using assms by (simp add: store_at_def add.assoc)

lemma reserve_then_fill:
  fixes e :: "('w::len, 'z) mp_asm_base_t_scheme"
  assumes e: "in_emit_pass e" "\<not> suppress e" "code_base e = Some mem" "unat (code_size e) \<le> length mem"
    and run: "emit_code (j # js) e = Inr e'"
    and small: "unat (code_offset e) + total_length (j # js) < 2 ^ LENGTH('w)"
  obtains e1 where
    "mp_asm_base_get_cur_to_write_bytes (word_of_nat (length j)) e =
       Inr (Some (code_offset e), e\<lparr>code_offset := code_offset e + word_of_nat (length j)\<rparr>)"
    "emit_code js (e\<lparr>code_offset := code_offset e + word_of_nat (length j)\<rparr>) = Inr e1"
    "mp_store_bytes (code_offset e) j e1 = Inr e'" "code_offset e' = code_offset e1"
proof -
  let ?o = "unat (code_offset e)" and ?e = "e\<lparr>code_offset := code_offset e + word_of_nat (length j)\<rparr>"
  let ?e1 = "?e\<lparr>code_offset := code_offset ?e + word_of_nat (length (concat js)),
      code_base := Some (store_at (?o + length j) (concat js) mem)\<rparr>"
  have room: "?o + length (concat (j # js)) \<le> unat (code_size e)"
    using emit_code_room [OF run e(2,1) small] by (simp add: length_concat)
  have off: "unat (code_offset e + word_of_nat (length j)) = ?o + length j"
    using small by (intro unat_add_of_nat) simp
  have "code_offset e + word_of_nat (length j) \<le> code_size e"
    using room off by (simp add: word_le_nat_alt)
  then have cur: "mp_asm_base_get_cur_to_write_bytes (word_of_nat (length j)) e = Inr (Some (code_offset e), ?e)"
    using e by (simp add: mp_asm_base_get_cur_to_write_bytes_def)
  have "emit_code js ?e = Inr (?e\<lparr>code_offset := code_offset ?e + word_of_nat (length (concat js)),
      code_base := Some (store_at (unat (code_offset ?e)) (concat js) mem)\<rparr>)"
    using e room off by (intro emit_code_store) auto
  then have rest: "emit_code js ?e = Inr ?e1" using off by simp
  have fill: "mp_store_bytes (code_offset e) j ?e1 = Inr e'"
    using emit_code_store [OF e(2,1,3,4) room] run room e(4) store_at_before [of ?o j "concat js" mem]
    by (simp add: mp_store_bytes_def add.assoc)
  then have "code_offset e' = code_offset ?e1"
    by (auto simp: mp_store_bytes_def split: if_splits)
  then show thesis using that [OF cur rest fill] by simp
qed

section \<open>Assemblers of plain operations\<close>

locale plain_assembler = two_pass_assembler exec cost is_entry allowed "\<lambda>_ _. True" R lim
  for exec :: "'op \<Rightarrow> ('w::len, 'z) mp_asm_base_t_scheme asm"
    and cost :: "'op \<Rightarrow> nat"
    and is_entry :: "'op \<Rightarrow> bool"
    and allowed :: "'op \<Rightarrow> bool"
    and R :: "('w, 'z) mp_asm_base_t_scheme \<Rightarrow> ('w, 'z) mp_asm_base_t_scheme \<Rightarrow> bool"
    and lim :: nat +
  assumes quiet: "allowed op \<Longrightarrow> exec op s = Inl e \<Longrightarrow> \<not> raised e"
begin

lemma program_quiet:
  "\<forall>op \<in> set ops. allowed op \<Longrightarrow> asm_seq (map exec ops) s = Inl e \<Longrightarrow> \<not> raised e"
  by (induction ops arbitrary: s) (auto split: sum.splits dest: quiet)

text \<open>
  A function whose compute pass succeeds is assembled by the emit pass, into the size and
  with the labels of the compute pass.
\<close>

lemma assembles:
  assumes prog: "is_entry op" "allowed op" "\<forall>op \<in> set ops. \<not> is_entry op \<and> allowed op"
    and compute: "run_pass alloc exec (op # ops) MP_ASM_PASS_COMPUTE s = Inr c"
    and fits: "sum_list (map cost (op # ops)) \<le> lim"
    and room: "alloc_gives alloc (code_offset c)"
  shows "\<exists>e. run_pass alloc exec (op # ops) MP_ASM_PASS_EMIT c = Inr e \<and>
    code_offset e = code_offset c \<and> label_offsets e = label_offsets c \<and> code_offset e \<le> code_size e"
proof -
  have "\<not> raised err" if "run_pass alloc exec (op # ops) MP_ASM_PASS_EMIT c = Inl err" for err
  proof -
    have "\<not> raised err" if "mp_asm_base_start_pass alloc MP_ASM_PASS_EMIT c = Inl err"
      using that by (auto simp: mp_asm_base_start_pass_def Let_def split: if_splits prod.splits)
    moreover have "\<not> raised err" if "asm_seq (map exec (op # ops)) u = Inl err" for u
      using program_quiet [OF _ that] prog by auto
    ultimately show ?thesis using that by (auto simp del: asm_seq.simps simp: run_pass_def split: sum.splits)
  qed
  then show ?thesis
    using emit_follows_compute [OF prog compute _ fits room] by (auto split: sum.splits)
qed

end

section \<open>Operations that must not fail\<close>

text \<open>
  An operation that only the guards make raise: any failure of \<open>f\<close> itself counts as a failed
  assertion, which the contract of the two passes excludes.
\<close>

definition sure :: "'s asm \<Rightarrow> 's asm" where
  "sure f s = (case f s of Inl e \<Rightarrow> Inl AssertionFailed | Inr t \<Rightarrow> Inr t)"

lemma sure_Inr [simp]: "sure f s = Inr t \<longleftrightarrow> f s = Inr t"
  by (simp add: sure_def split: sum.split)

lemma sure_Inl: "sure f s = Inl e \<Longrightarrow> \<not> raised e"
  by (auto simp: sure_def split: sum.splits)

definition quiet :: "'s asm \<Rightarrow> bool" where
  "quiet f \<longleftrightarrow> (\<forall>s e. f s = Inl e \<longrightarrow> \<not> raised e)"

lemma two_pass_sure_unless:
  assumes ok: "two_pass_ok R R' lim n (\<lambda>s. if bad s then Inl RuntimeError else f s)" and quiet: "quiet f"
  shows "two_pass_ok R R' lim n (\<lambda>s. if bad s then Inl RuntimeError else sure f s)"
proof (rule two_pass_okI)
  let ?f = "\<lambda>s. if bad s then Inl RuntimeError else f s"
  fix c c'
  assume c: "compute_state c" "unat (code_offset c) + n \<le> lim" "(if bad c then Inl RuntimeError else sure f c) = Inr c'"
  then have f: "?f c = Inr c'" by (simp split: if_splits)
  show "grows n c c'" by (rule two_pass_okD_grows [OF ok c(1,2) f])
  fix L e
  assume "passes_agree R lim L c e" "labels_ahead L c'" "unat (code_offset c') \<le> unat (code_size e)"
  from two_pass_okD_sim [OF ok c(1,2) f this]
  show "case if bad e then Inl RuntimeError else sure f e of
      Inr e' \<Rightarrow> passes_agree R' lim L c' e' \<and> code_size e' = code_size e | Inl err \<Rightarrow> raised err"
    using quiet by (auto simp: quiet_def sure_def split: sum.splits if_splits)
qed

lemma two_pass_sure: "two_pass_ok R R' lim n f \<Longrightarrow> quiet f \<Longrightarrow> two_pass_ok R R' lim n (sure f)"
  using two_pass_sure_unless [where bad = "\<lambda>_. False"] by simp

lemma plain_sure:
  assumes "plain lim n f" "added_rel R"
  shows "two_pass_ok R R lim n (sure f)"
  using plainD(2) [OF assms] plainD(3) [OF assms(1)] by (intro two_pass_sure) (auto simp: quiet_def)

lemma quiet_plain: "plain lim n f \<Longrightarrow> quiet f"
  unfolding quiet_def using plainD(3) by blast

lemma quiet_Cons: "quiet f \<Longrightarrow> quiet (asm_seq fs) \<Longrightarrow> quiet (asm_seq (f # fs))"
  by (auto simp: quiet_def split: sum.splits)

lemma sure_seq:
  "asm_seq (map (\<lambda>op. sure (f op)) ops) s = Inr t \<longleftrightarrow> asm_seq (map f ops) s = Inr t"
  "asm_seq (map (\<lambda>op. sure (f op)) ops) s = Inl e \<Longrightarrow> \<not> raised e"
  by (induction ops arbitrary: s) (auto simp: sure_def split: sum.splits)

lemma two_pass_if_field:
  assumes "two_pass_ok R R' lim n g" "\<And>c e. R c e \<Longrightarrow> P e"
  shows "two_pass_ok R R' lim n (\<lambda>s. if P s then g s else Inl RuntimeError)"
proof (rule two_pass_okI)
  fix c c'
  assume c: "compute_state c" "unat (code_offset c) + n \<le> lim" "(if P c then g c else Inl RuntimeError) = Inr c'"
  then have g: "g c = Inr c'" by (simp split: if_splits)
  show "grows n c c'" by (rule two_pass_okD_grows [OF assms(1) c(1,2) g])
  fix L e
  assume e: "passes_agree R lim L c e" "labels_ahead L c'" "unat (code_offset c') \<le> unat (code_size e)"
  moreover from e(1) have "P e" using assms(2) by (auto simp: passes_agree_def)
  ultimately show "case if P e then g e else Inl RuntimeError of
      Inr e' \<Rightarrow> passes_agree R' lim L c' e' \<and> code_size e' = code_size e | Inl err \<Rightarrow> raised err"
    using two_pass_okD_sim [OF assms(1) c(1,2) g] by simp
qed

end
