(* ===== verification/Asm_RV32_Passes.thy ===== *)
theory Asm_RV32_Passes
  imports Asm_RV32 Plain_Ops
begin

text \<open>
  The RISC-V assembler in two passes. \<open>rv32_exec\<close> is the \<open>GENERIC_ASM_API\<close> of
  \<open>asmrv32.h\<close>; every operation is shown to keep the two-pass contract, the entry included,
  where the set of saved registers must have settled: it grows while a function is
  compiled, so the compute pass is run until it is stable (twice is enough).
\<close>

section \<open>The operations of the header\<close>

datatype rv32_op =
    RV32_API "u32 asm_op"
  | RV32_RISC "u32 asm_risc_op"
  | RV32_NOT_REG u32
  | RV32_COMPARISON_EQ u32 u32 u32
  | RV32_COMPARISON_NE u32 u32 u32
  | RV32_COMPARISON_LT u32 u32 u32 bool
  | RV32_COMPARISON_LE u32 u32 u32 bool

fun rv32_api :: "rv32_env \<Rightarrow> u32 asm_op \<Rightarrow> asm_rv32_t asm" where
  "rv32_api env (Base_label_assign l) = mp_asm_base_label_assign l"
| "rv32_api env (Base_align align) = mp_asm_base_align align"
| "rv32_api env (Base_data bytesize val) = mp_asm_base_data bytesize val"
| "rv32_api env Base_suppress_code = mp_asm_base_suppress_code"
| "rv32_api env (ASM_ENTRY labels) = asm_rv32_entry env labels"
| "rv32_api env ASM_EXIT = asm_rv32_exit env"
| "rv32_api env ASM_END_PASS = asm_rv32_end_pass"
| "rv32_api env (ASM_ADD_REG_REG rd rs) = asm_rv32_opcode_cadd env rd rs"
| "rv32_api env (ASM_AND_REG_REG rd rs) = asm_rv32_opcode_and env rd rs rd"
| "rv32_api env (ASM_CALL_IND index) = asm_rv32_emit_call_ind env index"
| "rv32_api env (ASM_JUMP label) = asm_rv32_emit_jump env label"
| "rv32_api env (ASM_JUMP_IF_REG_EQ rs1 rs2 label) = asm_rv32_emit_jump_if_reg_eq env rs1 rs2 label"
| "rv32_api env (ASM_JUMP_IF_REG_NONZERO rs label bool_test) =
     asm_rv32_emit_jump_if_reg_nonzero env rs label"
| "rv32_api env (ASM_JUMP_IF_REG_ZERO rs label bool_test) =
     asm_rv32_emit_jump_if_reg_eq env rs ASM_RV32_REG_ZERO label"
| "rv32_api env (ASM_JUMP_REG rs) = asm_rv32_opcode_cjr env rs"
| "rv32_api env (ASM_LOAD_REG_REG_OFFSET rd rs offset) =
     asm_rv32_emit_load_reg_reg_offset env rd rs offset 2"
| "rv32_api env (ASM_LOAD8_REG_REG rd rs) = asm_rv32_emit_load_reg_reg_offset env rd rs 0 0"
| "rv32_api env (ASM_LOAD16_REG_REG rd rs) = asm_rv32_emit_load_reg_reg_offset env rd rs 0 1"
| "rv32_api env (ASM_LOAD32_REG_REG rd rs) = asm_rv32_emit_load_reg_reg_offset env rd rs 0 2"
| "rv32_api env (ASM_LOAD8_REG_REG_OFFSET rd rs offset) =
     asm_rv32_emit_load_reg_reg_offset env rd rs offset 0"
| "rv32_api env (ASM_LOAD16_REG_REG_OFFSET rd rs offset) =
     asm_rv32_emit_load_reg_reg_offset env rd rs offset 1"
| "rv32_api env (ASM_LOAD32_REG_REG_OFFSET rd rs offset) =
     asm_rv32_emit_load_reg_reg_offset env rd rs offset 2"
| "rv32_api env (ASM_MOV_LOCAL_REG local rs) = asm_rv32_emit_mov_local_reg env local rs"
| "rv32_api env (ASM_MOV_REG_IMM rd imm) = asm_rv32_emit_optimised_load_immediate env rd imm"
| "rv32_api env (ASM_MOV_REG_LOCAL_ADDR rd local) = asm_rv32_emit_mov_reg_local_addr env rd local"
| "rv32_api env (ASM_MOV_REG_LOCAL rd local) = asm_rv32_emit_mov_reg_local env rd local"
| "rv32_api env (ASM_MOV_REG_PCREL rd label) = asm_rv32_emit_mov_reg_pcrel env rd label"
| "rv32_api env (ASM_MOV_REG_REG rd rs) = asm_rv32_opcode_cmv env rd rs"
| "rv32_api env (ASM_MUL_REG_REG rd rs) = asm_rv32_opcode_mul env rd rd rs"
| "rv32_api env (ASM_NEG_REG rd) = asm_rv32_opcode_sub env rd ASM_RV32_REG_ZERO rd"
| "rv32_api env (ASM_OR_REG_REG rd rs) = asm_rv32_opcode_or env rd rd rs"
| "rv32_api env (ASM_STORE_REG_REG_OFFSET rd rs offset) =
     asm_rv32_emit_store_reg_reg_offset env rd rs offset 2"
| "rv32_api env (ASM_STORE8_REG_REG rs1 rs2) = asm_rv32_emit_store_reg_reg_offset env rs1 rs2 0 0"
| "rv32_api env (ASM_STORE16_REG_REG rs1 rs2) = asm_rv32_emit_store_reg_reg_offset env rs1 rs2 0 1"
| "rv32_api env (ASM_STORE32_REG_REG rs1 rs2) = asm_rv32_emit_store_reg_reg_offset env rs1 rs2 0 2"
| "rv32_api env (ASM_STORE8_REG_REG_OFFSET rd rs offset) =
     asm_rv32_emit_store_reg_reg_offset env rd rs offset 0"
| "rv32_api env (ASM_STORE16_REG_REG_OFFSET rd rs offset) =
     asm_rv32_emit_store_reg_reg_offset env rd rs offset 1"
| "rv32_api env (ASM_STORE32_REG_REG_OFFSET rd rs offset) =
     asm_rv32_emit_store_reg_reg_offset env rd rs offset 2"
| "rv32_api env (ASM_SUB_REG_REG rd rs) = asm_rv32_opcode_sub env rd rd rs"
| "rv32_api env (ASM_XOR_REG_REG rd rs) = asm_rv32_emit_optimised_xor env rd rs"
| "rv32_api env (ASM_CLR_REG rd) = asm_rv32_emit_optimised_xor env rd rd"

fun rv32_risc :: "rv32_env \<Rightarrow> u32 asm_risc_op \<Rightarrow> asm_rv32_t asm" where
  "rv32_risc env (ASM_LSL_REG_REG rd rs) = asm_rv32_opcode_sll env rd rd rs"
| "rv32_risc env (ASM_LSR_REG_REG rd rs) = asm_rv32_opcode_srl env rd rd rs"
| "rv32_risc env (ASM_ASR_REG_REG rd rs) = asm_rv32_opcode_sra env rd rd rs"
| "rv32_risc env (ASM_LOAD8_REG_REG_REG rd rs1 rs2) = asm_rv32_emit_load_reg_reg_reg env rd rs1 rs2 0"
| "rv32_risc env (ASM_LOAD16_REG_REG_REG rd rs1 rs2) = asm_rv32_emit_load_reg_reg_reg env rd rs1 rs2 1"
| "rv32_risc env (ASM_LOAD32_REG_REG_REG rd rs1 rs2) = asm_rv32_emit_load_reg_reg_reg env rd rs1 rs2 2"
| "rv32_risc env (ASM_STORE8_REG_REG_REG rd rs1 rs2) = asm_rv32_emit_store_reg_reg_reg env rd rs1 rs2 0"
| "rv32_risc env (ASM_STORE16_REG_REG_REG rd rs1 rs2) = asm_rv32_emit_store_reg_reg_reg env rd rs1 rs2 1"
| "rv32_risc env (ASM_STORE32_REG_REG_REG rd rs1 rs2) = asm_rv32_emit_store_reg_reg_reg env rd rs1 rs2 2"

fun rv32_exec :: "rv32_env \<Rightarrow> rv32_op \<Rightarrow> asm_rv32_t asm" where
  "rv32_exec env (RV32_API op) = rv32_api env op"
| "rv32_exec env (RV32_RISC op) = rv32_risc env op"
| "rv32_exec env (RV32_NOT_REG rd) = asm_rv32_opcode_xori env rd rd (- 1)"
| "rv32_exec env (RV32_COMPARISON_EQ rs1 rs2 rd) = asm_rv32_meta_comparison_eq env rs1 rs2 rd"
| "rv32_exec env (RV32_COMPARISON_NE rs1 rs2 rd) = asm_rv32_meta_comparison_ne env rs1 rs2 rd"
| "rv32_exec env (RV32_COMPARISON_LT rs1 rs2 rd unsigned_comparison) =
     asm_rv32_meta_comparison_lt env rs1 rs2 rd unsigned_comparison"
| "rv32_exec env (RV32_COMPARISON_LE rs1 rs2 rd unsigned_comparison) =
     asm_rv32_meta_comparison_le env rs1 rs2 rd unsigned_comparison"

section \<open>Straight-line operations\<close>

text \<open>Rewriting the operations that do not look at the state into the code they write.\<close>

lemmas rv32_code =
  asm_rv32_emit_word_opcode_def asm_rv32_emit_halfword_opcode_def asm_ops asm_seq_code
  Let_def case_prod_beta

lemmas rv32_straight =
  load_upper_immediate_def load_lower_immediate_def load_full_immediate_def
  asm_rv32_emit_optimised_load_immediate_def asm_rv32_emit_optimised_xor_def
  asm_rv32_meta_comparison_eq_def asm_rv32_meta_comparison_ne_def
  asm_rv32_meta_comparison_lt_def asm_rv32_meta_comparison_le_def adjust_stack_def

text \<open>Below this size of the code, offsets are not negative as \<open>ptrdiff_t\<close>.\<close>

abbreviation rv32_lim :: nat where
  "rv32_lim \<equiv> 0x7FFFFFFF"

lemma two_pass_rv32_code:
  "total_length js \<le> n \<Longrightarrow> added_rel R \<Longrightarrow> two_pass_ok R R rv32_lim n (emit_code js :: asm_rv32_t asm)"
  by (rule two_pass_emit_code) auto

lemma rv32_immediate_ok:
  "added_rel R \<Longrightarrow> two_pass_ok R R rv32_lim 8 (asm_rv32_emit_optimised_load_immediate env rd imm)"
  unfolding rv32_straight rv32_code by (rule two_pass_rv32_code) auto

lemma adjust_stack_ok: "added_rel R \<Longrightarrow> two_pass_ok R R rv32_lim 10 (adjust_stack env sz)"
  unfolding rv32_straight rv32_code by (rule two_pass_rv32_code) auto

lemma rv32_comparison_ok:
  assumes "added_rel R"
  shows "two_pass_ok R R rv32_lim 8 (asm_rv32_meta_comparison_eq env rs1 rs2 rd)"
    "two_pass_ok R R rv32_lim 8 (asm_rv32_meta_comparison_ne env rs1 rs2 rd)"
    "two_pass_ok R R rv32_lim 8 (asm_rv32_meta_comparison_lt env rs1 rs2 rd u)"
    "two_pass_ok R R rv32_lim 8 (asm_rv32_meta_comparison_le env rs1 rs2 rd u)"
  unfolding rv32_straight rv32_code by (rule two_pass_rv32_code, simp, fact)+

lemma rv32_xor_ok: "added_rel R \<Longrightarrow> two_pass_ok R R rv32_lim 4 (asm_rv32_emit_optimised_xor env rd rs)"
  unfolding rv32_straight rv32_code by (rule two_pass_rv32_code) auto

lemma rv32_load_offset_ok:
  "added_rel R \<Longrightarrow>
     two_pass_ok R R rv32_lim 10 (asm_rv32_emit_load_reg_reg_offset env rd rs offset sz)"
  unfolding asm_rv32_emit_load_reg_reg_offset_def rv32_straight rv32_code
  by (intro two_pass_cond two_pass_rv32_code two_pass_fail) auto

lemma rv32_store_offset_ok:
  "added_rel R \<Longrightarrow>
     two_pass_ok R R rv32_lim 10 (asm_rv32_emit_store_reg_reg_offset env rd rs offset sz)"
  unfolding asm_rv32_emit_store_reg_reg_offset_def rv32_straight rv32_code
  by (intro two_pass_cond two_pass_rv32_code two_pass_fail) auto

lemma rv32_fix_up_ok:
  "added_rel R \<Longrightarrow>
     two_pass_ok R R rv32_lim 6 (asm_rv32_fix_up_scaled_reg_reg_reg env rs1 rs2 sz)"
  unfolding asm_rv32_fix_up_scaled_reg_reg_reg_def rv32_straight rv32_code
  by (intro two_pass_cond two_pass_rv32_code two_pass_fail) auto

lemma rv32_load_store_reg_ok:
  assumes "added_rel R"
  shows "two_pass_ok R R rv32_lim 16 (asm_rv32_emit_load_reg_reg_reg env rd rs1 rs2 sz)"
    "two_pass_ok R R rv32_lim 16 (asm_rv32_emit_store_reg_reg_reg env rd rs1 rs2 sz)"
  unfolding asm_rv32_emit_load_reg_reg_reg_def asm_rv32_emit_store_reg_reg_reg_def
  using assms
  by (auto intro!: two_pass_two [OF rv32_fix_up_ok] rv32_load_offset_ok rv32_store_offset_ok)

section \<open>Jumps\<close>

text \<open>The instructions of each jump, from the offsets of its label and of the jump itself.\<close>

definition behind :: "u32 \<Rightarrow> u32 \<Rightarrow> bool" where
  "behind dest here \<longleftrightarrow> dest \<noteq> - 1 \<and> sint (dest - here) < 0"

lemma not_behind_ahead: "unat here \<le> unat dest \<Longrightarrow> unat dest \<le> rv32_lim \<Longrightarrow> \<not> behind dest here"
  using sint_sub_small [of dest here] by (simp del: of_nat_unat add: behind_def)

lemma not_behind_unknown [simp]: "\<not> behind (- 1) here"
  by (simp add: behind_def)

definition rv32_long_jump :: "rv32_env \<Rightarrow> u32 \<Rightarrow> u8 list list" where
  "rv32_long_jump env displacement =
     [rv32_word_bytes env (RV32_ENCODE_TYPE_U 0x17 RV32_REG_TEMP2 (fst (split_immediate displacement))),
      rv32_word_bytes env (RV32_ENCODE_TYPE_I 0x67 0 ASM_RV32_REG_ZERO RV32_REG_TEMP2
        (snd (split_immediate displacement)))]"

definition rv32_jump_code :: "rv32_env \<Rightarrow> u32 \<Rightarrow> u32 \<Rightarrow> u8 list list" where
  "rv32_jump_code env dest here =
     (if behind dest here \<and> FIT_SIGNED (dest - here) 12
      then [rv32_halfword_bytes env (RV32_ENCODE_TYPE_CJ 0x01 0x05 (dest - here))]
      else rv32_long_jump env (dest - here))"

definition rv32_jump_eq_code :: "rv32_env \<Rightarrow> u32 \<Rightarrow> u32 \<Rightarrow> u32 \<Rightarrow> u32 \<Rightarrow> u8 list list" where
  "rv32_jump_eq_code env rs1 rs2 dest here =
     (if behind dest here \<and> FIT_SIGNED (dest - here) 13
      then [rv32_word_bytes env (RV32_ENCODE_TYPE_B 0x63 0x00 rs1 rs2 (dest - here))]
      else rv32_word_bytes env (RV32_ENCODE_TYPE_B 0x63 0x01 rs1 rs2 12) #
           rv32_long_jump env (dest - here - 4))"

definition rv32_jump_nonzero_code :: "rv32_env \<Rightarrow> u32 \<Rightarrow> u32 \<Rightarrow> u32 \<Rightarrow> u8 list list" where
  "rv32_jump_nonzero_code env rs dest here =
     (if behind dest here \<and> FIT_SIGNED (dest - here) 8 \<and> RV32_IS_IN_C_REGISTER_WINDOW rs
      then [rv32_halfword_bytes env (RV32_ENCODE_TYPE_CB 0x01 0x07 (RV32_MAP_IN_C_REGISTER_WINDOW rs)
        (drop_bit 1 ((dest - here) AND 0x100) OR drop_bit 3 ((dest - here) AND 0xC0) OR
         drop_bit 5 ((dest - here) AND 0x20) OR push_bit 2 ((dest - here) AND 0x18) OR
         ((dest - here) AND 0x06)))]
      else if behind dest here \<and> FIT_SIGNED (dest - here) 13
      then [rv32_word_bytes env (RV32_ENCODE_TYPE_B 0x63 0x01 rs ASM_RV32_REG_ZERO (dest - here))]
      else if behind dest here \<and> RV32_IS_IN_C_REGISTER_WINDOW rs
      then rv32_halfword_bytes env (RV32_ENCODE_TYPE_CB 0x01 0x06 (RV32_MAP_IN_C_REGISTER_WINDOW rs)
        (drop_bit 1 (10 AND 0x100) OR drop_bit 3 (10 AND 0xC0) OR
         drop_bit 5 (10 AND 0x20) OR push_bit 2 (10 AND 0x18) OR (10 AND 0x06))) #
        rv32_long_jump env (dest - here - 2)
      else rv32_word_bytes env (RV32_ENCODE_TYPE_B 0x63 0x00 rs ASM_RV32_REG_ZERO 12) #
        rv32_long_jump env (dest - here - 4))"

definition rv32_pcrel_code :: "rv32_env \<Rightarrow> u32 \<Rightarrow> u32 \<Rightarrow> u32 \<Rightarrow> u8 list list" where
  "rv32_pcrel_code env rd dest here =
     [rv32_word_bytes env (RV32_ENCODE_TYPE_U 0x17 rd (fst (split_immediate (dest - here)))),
      rv32_word_bytes env (RV32_ENCODE_TYPE_I 0x13 0 rd rd (snd (split_immediate (dest - here))))]"

abbreviation rv32_label_jump :: "u32 \<Rightarrow> (u32 \<Rightarrow> u32 \<Rightarrow> u8 list list) \<Rightarrow> asm_rv32_t asm" where
  "rv32_label_jump label \<equiv> label_jump (label_offset label) (\<lambda>_ _. False)"

lemmas rv32_jump_defs =
  calculate_displacement_for_label_def label_jump_def rv32_long_jump_def behind_def
  RV32_ASM_WORD_SIZE_def RV32_ASM_HALFWORD_SIZE_def

lemma asm_rv32_emit_jump_code:
  "asm_rv32_emit_jump env label = rv32_label_jump label (rv32_jump_code env)"
  unfolding fun_eq_iff asm_rv32_emit_jump_def rv32_jump_code_def rv32_jump_defs rv32_code
  by (simp split: sum.split)

lemma asm_rv32_emit_jump_if_reg_eq_code:
  "asm_rv32_emit_jump_if_reg_eq env rs1 rs2 label =
     rv32_label_jump label (rv32_jump_eq_code env rs1 rs2)"
  unfolding fun_eq_iff asm_rv32_emit_jump_if_reg_eq_def rv32_jump_eq_code_def rv32_jump_defs rv32_code
  by (simp split: sum.split)

lemma asm_rv32_emit_jump_if_reg_nonzero_code:
  "asm_rv32_emit_jump_if_reg_nonzero env rs label =
     rv32_label_jump label (rv32_jump_nonzero_code env rs)"
  unfolding fun_eq_iff asm_rv32_emit_jump_if_reg_nonzero_def rv32_jump_nonzero_code_def
    rv32_jump_defs rv32_code
  by (simp split: sum.split)

lemma asm_rv32_emit_mov_reg_pcrel_code:
  "asm_rv32_emit_mov_reg_pcrel env rd label = rv32_label_jump label (rv32_pcrel_code env rd)"
  unfolding fun_eq_iff asm_rv32_emit_mov_reg_pcrel_def rv32_pcrel_code_def rv32_jump_defs rv32_code
  by (simp split: sum.split)

lemma two_pass_rv32_jump:
  assumes "added_rel R" "\<And>dest here. total_length (J dest here) \<le> n"
    and "\<And>dest here. \<not> behind dest here \<Longrightarrow> map length (J dest here) = map length (J (- 1) here)"
  shows "two_pass_ok R R rv32_lim n (rv32_label_jump label J)"
proof (rule two_pass_jump [where l = label])
  fix dest here :: u32
  assume "unat here + total_length (J (- 1) here) \<le> unat dest" "unat dest \<le> rv32_lim"
  then show "map length (J dest here) = map length (J (- 1) here)"
    by (intro assms(3) not_behind_ahead) simp_all
qed (use assms(1,2) in simp_all)

lemma rv32_jumps_ok:
  assumes "added_rel R"
  shows "two_pass_ok R R rv32_lim 8 (asm_rv32_emit_jump env label)"
    "two_pass_ok R R rv32_lim 12 (asm_rv32_emit_jump_if_reg_eq env rs1 rs2 label)"
    "two_pass_ok R R rv32_lim 12 (asm_rv32_emit_jump_if_reg_nonzero env rs label)"
    "two_pass_ok R R rv32_lim 8 (asm_rv32_emit_mov_reg_pcrel env rd label)"
  unfolding asm_rv32_emit_jump_code asm_rv32_emit_jump_if_reg_eq_code
    asm_rv32_emit_jump_if_reg_nonzero_code asm_rv32_emit_mov_reg_pcrel_code
  using assms
  by (auto intro!: two_pass_rv32_jump simp: rv32_jump_code_def rv32_jump_eq_code_def
      rv32_jump_nonzero_code_def rv32_pcrel_code_def rv32_long_jump_def)

section \<open>Locals and calls\<close>

lemma same_added_rv32:
  "same_added (c :: asm_rv32_t) e \<longleftrightarrow> saved_registers_mask c = saved_registers_mask e \<and>
     locals_count c = locals_count e \<and> stack_size c = stack_size e \<and>
     locals_stack_offset c = locals_stack_offset e"
  by (cases c; cases e) (auto simp: same_added_def)

lemma rv32_mov_local_reg_ok:
  "two_pass_ok same_added same_added rv32_lim 10 (asm_rv32_emit_mov_local_reg env local rs)"
  by (rule two_pass_readI [where v = locals_stack_offset],
      simp only: asm_rv32_emit_mov_local_reg_def rv32_straight rv32_code,
      simp add: same_added_rv32, (intro two_pass_if two_pass_rv32_code; auto))

lemma rv32_mov_reg_local_ok:
  "two_pass_ok same_added same_added rv32_lim 10 (asm_rv32_emit_mov_reg_local env rd local)"
  by (rule two_pass_readI [where v = locals_stack_offset],
      simp only: asm_rv32_emit_mov_reg_local_def rv32_straight rv32_code,
      simp add: same_added_rv32, (intro two_pass_if two_pass_rv32_code; auto))

lemma rv32_mov_reg_local_addr_ok:
  "two_pass_ok same_added same_added rv32_lim 10 (asm_rv32_emit_mov_reg_local_addr env rd local)"
  by (rule two_pass_readI [where v = locals_stack_offset],
      simp only: asm_rv32_emit_mov_reg_local_addr_def rv32_straight rv32_code,
      simp add: same_added_rv32, (intro two_pass_if two_pass_rv32_code; auto))

definition taint :: "u32 \<Rightarrow> asm_rv32_t \<Rightarrow> asm_rv32_t" where
  "taint bits s = s\<lparr>saved_registers_mask := saved_registers_mask s OR bits\<rparr>"

lemma keeps_base_rv32 [simp]:
  "keeps_base (taint bits)"
  "keeps_base (\<lambda>s. s\<lparr>saved_registers_mask := x\<rparr>)"
  "keeps_base (\<lambda>s. s\<lparr>locals_count := x\<rparr>)"
  "keeps_base (\<lambda>s. s\<lparr>stack_size := x\<rparr>)"
  "keeps_base (\<lambda>s. s\<lparr>locals_stack_offset := x\<rparr>)"
  by (simp_all add: keeps_base_def taint_def)

text \<open>Which registers a call makes the function save.\<close>

definition call_taints :: "u32 \<Rightarrow> u32" where
  "call_taints index = (if FIT_UNSIGNED (index * 4) 6 then 0x102 else 0x2)"

definition rv32_call_code :: "rv32_env \<Rightarrow> u32 \<Rightarrow> u8 list list" where
  "rv32_call_code env index =
     (let offset = index * 4 in
      if FIT_UNSIGNED offset 6
      then [rv32_halfword_bytes env (RV32_ENCODE_TYPE_CL 0 2 0 1 offset),
            rv32_halfword_bytes env (RV32_ENCODE_TYPE_CR 2 9 8 0)]
      else if FIT_UNSIGNED offset 11
      then [rv32_word_bytes env (RV32_ENCODE_TYPE_I 3 2 28 9 offset),
            rv32_halfword_bytes env (RV32_ENCODE_TYPE_CR 2 9 28 0)]
      else (if FIT_SIGNED (fst (split_immediate offset)) 17 \<and>
               drop_bit 12 (fst (split_immediate offset)) \<noteq> 0
            then [rv32_halfword_bytes env
                   (RV32_ENCODE_TYPE_CI 1 3 28 (signed_drop_bit 12 (fst (split_immediate offset))))]
            else [rv32_word_bytes env (RV32_ENCODE_TYPE_U 0x37 28 (fst (split_immediate offset)))]) @
           [rv32_halfword_bytes env (RV32_ENCODE_TYPE_CR 2 9 28 9),
            rv32_word_bytes env (RV32_ENCODE_TYPE_I 3 2 28 28 (snd (split_immediate offset))),
            rv32_halfword_bytes env (RV32_ENCODE_TYPE_CR 2 9 28 0)])"

lemma asm_rv32_emit_call_ind_code:
  "asm_rv32_emit_call_ind env index s = emit_code (rv32_call_code env index) (taint (call_taints index) s)"
proof -
  have masks: "(0x2 :: u32) OR 0x100 = 0x102" by simp
  show ?thesis
    unfolding asm_rv32_emit_call_ind_def rv32_straight rv32_code
    by (simp add: asm_consts taint_def call_taints_def rv32_call_code_def or.assoc masks
        RV32_IS_IN_C_REGISTER_WINDOW_def RV32_MAP_IN_C_REGISTER_WINDOW_def Let_def)
qed

lemma rv32_call_ok:
  "two_pass_ok same_added same_added rv32_lim 12 (asm_rv32_emit_call_ind env index)"
proof (rule two_pass_update_then [where R' = same_added and u = "taint (call_taints index)"])
  show "asm_rv32_emit_call_ind env index s =
      emit_code (rv32_call_code env index) (taint (call_taints index) s)" for s
    by (rule asm_rv32_emit_call_ind_code)
  show "two_pass_ok same_added same_added rv32_lim 12 (emit_code (rv32_call_code env index) :: asm_rv32_t asm)"
    by (rule two_pass_rv32_code) (auto simp: rv32_call_code_def Let_def)
  show "same_added (taint (call_taints index) c) (taint (call_taints index) e)"
    if "same_added c e" for c e
    using that by (simp add: same_added_rv32 taint_def)
qed simp

section \<open>Entry and exit\<close>

lemma emit_registers_store_loop_ok:
  assumes "added_rel R"
  shows "two_pass_ok R R rv32_lim (2 * length rs) (emit_registers_store_loop env regs offset rs)"
proof (induction rs arbitrary: offset)
  case (Cons r rs)
  have store: "two_pass_ok R R rv32_lim 2 (asm_rv32_opcode_cswsp env (word_of_nat r) offset)"
    unfolding rv32_code by (rule two_pass_rv32_code) (use assms in auto)
  have "two_pass_ok R R rv32_lim (2 * length (r # rs))
      (asm_seq [asm_assert (FIT_UNSIGNED (drop_bit 2 offset) 6),
                asm_rv32_opcode_cswsp env (word_of_nat r) offset,
                emit_registers_store_loop env regs (offset + 4) rs])"
    by (rule two_pass_step [OF two_pass_assert [where n = 0]], rule two_pass_two [OF store Cons.IH]) auto
  moreover have "two_pass_ok R R rv32_lim (2 * length (r # rs))
      (emit_registers_store_loop env regs offset rs)"
    by (rule two_pass_weaken [OF Cons.IH]) simp
  ultimately show ?case by (simp del: asm_seq.simps)
qed (simp add: two_pass_skip)

lemma emit_registers_load_loop_ok:
  assumes "added_rel R"
  shows "two_pass_ok R R rv32_lim (2 * length rs) (emit_registers_load_loop env regs offset rs)"
proof (induction rs arbitrary: offset)
  case (Cons r rs)
  have load: "two_pass_ok R R rv32_lim 2 (asm_rv32_opcode_clwsp env (word_of_nat r) offset)"
    unfolding rv32_code by (rule two_pass_rv32_code) (use assms in auto)
  have "two_pass_ok R R rv32_lim (2 * length (r # rs))
      (asm_seq [asm_assert (FIT_UNSIGNED (drop_bit 2 offset) 6),
                asm_rv32_opcode_clwsp env (word_of_nat r) offset,
                emit_registers_load_loop env regs (offset + 4) rs])"
    by (rule two_pass_step [OF two_pass_assert [where n = 0]], rule two_pass_two [OF load Cons.IH]) auto
  moreover have "two_pass_ok R R rv32_lim (2 * length (r # rs))
      (emit_registers_load_loop env regs offset rs)"
    by (rule two_pass_weaken [OF Cons.IH]) simp
  ultimately show ?case by (simp del: asm_seq.simps)
qed (simp add: two_pass_skip)

lemma emit_registers_ok:
  assumes "added_rel R"
  shows "two_pass_ok R R rv32_lim 64 (emit_registers_store env regs)"
    "two_pass_ok R R rv32_lim 64 (emit_registers_load env regs)"
  using emit_registers_store_loop_ok [OF assms, of "[0..<32]" env regs 0]
    emit_registers_load_loop_ok [OF assms, of "[0..<32]" env regs 0]
  by (simp_all add: emit_registers_store_def emit_registers_load_def asm_consts del: upt_rec_numeral)

text \<open>
  How the added fields of the two passes are related while a function is entered: the
  registers to save and the locals agree; with Zcmp the prologue does not set where the
  locals start, so that must agree beforehand.
\<close>

definition rv32_entry_rel :: "rv32_env \<Rightarrow> asm_rv32_t \<Rightarrow> asm_rv32_t \<Rightarrow> bool" where
  "rv32_entry_rel env c e \<longleftrightarrow>
     saved_registers_mask c OR 0x1C0200 = saved_registers_mask e OR 0x1C0200 \<and>
     (asm_rv32_allow_zcmp_opcodes env \<longrightarrow> locals_stack_offset c = locals_stack_offset e)"

definition rv32_prologue_rel :: "rv32_env \<Rightarrow> asm_rv32_t \<Rightarrow> asm_rv32_t \<Rightarrow> bool" where
  "rv32_prologue_rel env c e \<longleftrightarrow>
     saved_registers_mask c = saved_registers_mask e \<and> locals_count c = locals_count e \<and>
     (asm_rv32_allow_zcmp_opcodes env \<longrightarrow> locals_stack_offset c = locals_stack_offset e)"

definition rv32_sized_rel :: "asm_rv32_t \<Rightarrow> asm_rv32_t \<Rightarrow> bool" where
  "rv32_sized_rel c e \<longleftrightarrow>
     saved_registers_mask c = saved_registers_mask e \<and> locals_count c = locals_count e \<and>
     stack_size c = stack_size e"

lemma added_rel_rv32 [simp, intro]:
  "added_rel (rv32_entry_rel env)" "added_rel (rv32_prologue_rel env)" "added_rel rv32_sized_rel"
proof -
  have fields: "saved_registers_mask s = saved_registers_mask t" "locals_count s = locals_count t"
    "stack_size s = stack_size t" "locals_stack_offset s = locals_stack_offset t"
    if "mp_asm_base_t.more s = mp_asm_base_t.more t" for s t :: asm_rv32_t
    using that by (cases s; cases t; simp)+
  show "added_rel (rv32_entry_rel env)" "added_rel (rv32_prologue_rel env)" "added_rel rv32_sized_rel"
    unfolding added_rel_def rv32_entry_rel_def rv32_prologue_rel_def rv32_sized_rel_def
    by (metis fields)+
qed

lemma emit_function_prologue_ok:
  assumes "\<not> asm_rv32_allow_zcmp_opcodes env"
  shows "two_pass_ok (rv32_prologue_rel env) same_added rv32_lim 80 (emit_function_prologue env regs)"
proof (rule two_pass_readI [where v = "\<lambda>s. (saved_registers_mask s, locals_count s)"])
  let ?n = "mp_popcount env regs"
  let ?F = "\<lambda>(saved, locals). asm_seq
    [\<lambda>s. Inr (s\<lparr>stack_size := (?n + locals) * 4\<rparr>),
     adjust_stack env (- ((?n + locals) * 4)), emit_registers_store env regs,
     \<lambda>s. Inr (s\<lparr>locals_stack_offset := ?n * 4\<rparr>), \<lambda>s. Inr (s\<lparr>saved_registers_mask := saved\<rparr>)]"
  show "emit_function_prologue env regs s = ?F (saved_registers_mask s, locals_count s) s" for s
    by (simp add: emit_function_prologue_def Let_def split: sum.split)
  show "two_pass_ok (rv32_prologue_rel env) same_added rv32_lim 80 (?F x)" for x
    unfolding case_prod_beta
    by (rule two_pass_step [OF two_pass_update [where R' = rv32_sized_rel and n = 0]],
        simp, simp add: rv32_prologue_rel_def rv32_sized_rel_def,
        rule two_pass_step [OF adjust_stack_ok], simp,
        rule two_pass_step [OF emit_registers_ok(1)], simp,
        rule two_pass_step [OF two_pass_update [where R' = same_added and n = 0]],
        simp, simp add: same_added_rv32 rv32_sized_rel_def,
        simp only: asm_seq_singleton, rule two_pass_update)
      (auto simp: same_added_rv32)
qed (simp add: rv32_prologue_rel_def)

lemma zcmp_arg_nonzero:
  assumes "regs AND NOT 0x0FFC0302 = 0" 
   "drop_bit 1 (regs AND 0x00000002) OR drop_bit 7 (regs AND 0x00000300) OR
                       drop_bit 15 (regs AND 0x0FFC0000) = 0"
  shows "regs = (0 :: u32)"
  using assms unfolding word32_eq_iff_bits
  by (simp add: bit_simps)

lemma count_leading_zeros_le: "count_leading_zeros x \<le> 32"
  using length_takeWhile_le [of "\<lambda>i. \<not> bit x i" "rev [0..<32]"]
  by (simp add: count_leading_zeros_def del: upt_rec_numeral)

lemma zcmp_length_bound:
  assumes "mp_env_ok env" "compute_zcmp_sequence_length env regs = Inr len"
  shows "unat len \<le> 32"
proof -
  let ?x = "drop_bit 1 (regs AND 0x00000002) OR drop_bit 7 (regs AND 0x00000300) OR
                       drop_bit 15 (regs AND 0x0FFC0000)"
  have r: "regs \<noteq> 0" "regs AND NOT 0x0FFC0302 = 0"
    and len: "len = (if 32 - mp_clz env ?x = 12 then 13 else 32 - mp_clz env ?x)"
    using assms(2) by (auto simp: compute_zcmp_sequence_length_def Let_def split: if_splits)
  then have "mp_clz env ?x = word_of_nat (count_leading_zeros ?x)"
    using assms(1) zcmp_arg_nonzero [OF r(2)] unfolding mp_env_ok_def by blast
  moreover have "unat (32 - word_of_nat k :: u32) = 32 - k" if "k \<le> 32" for k
  proof -
    have "(32 - word_of_nat k :: u32) = word_of_nat (32 - k)" using that by (simp add: of_nat_diff)
    then show ?thesis using that by (simp only: unat_of_nat) simp
  qed
  ultimately show ?thesis
    unfolding len using count_leading_zeros_le [of ?x] by auto
qed

lemma round_to_4:
  assumes "unat (x :: u32) \<le> 32"
  shows "x \<le> (x + 3) AND (- 4)" "unat (((x + 3) AND (- 4)) - x) \<le> 3"
proof -
  have "unat ((x + 2 ^ 2 - 1) AND NOT (2 ^ 2 - 1)) = (unat x + 2 ^ 2 - 1) div 2 ^ 2 * 2 ^ 2"
    by (rule unat_align) (use assms in simp)
  moreover have "(x + 2 ^ 2 - 1) AND NOT (2 ^ 2 - 1) = (x + 3) AND (- 4)"
    by (simp add: add.commute)
  ultimately have r: "unat ((x + 3) AND (- 4)) = (unat x + 3) div 4 * 4" by simp
  then show le: "x \<le> (x + 3) AND (- 4)"
    by (simp add: word_le_nat_alt)
  show "unat (((x + 3) AND (- 4)) - x) \<le> 3"
    using le r by (simp add: unat_sub)
qed

lemma zcmp_chunks:
  fixes n :: u32
  defines "k \<equiv> min 3 (n div 4)"
  shows "k * 4 \<le> n" "n < 0x20000000 \<Longrightarrow> n - k * 4 \<le> MP_INT_MAX div 4"
proof -
  have "unat k \<le> unat n div 4" "unat k \<le> 3"
    unfolding k_def by (auto simp: min_def word_le_nat_alt unat_div)
  then have k4: "unat (k * 4) = unat k * 4" by (simp add: unat_word_ariths)
  with \<open>unat k \<le> unat n div 4\<close> show le: "k * 4 \<le> n" by (simp add: word_le_nat_alt)
  show "n - k * 4 \<le> MP_INT_MAX div 4" if "n < 0x20000000"
  proof -
    have "unat (n - k * 4) \<le> unat n" using le by (simp add: unat_sub)
    moreover have "unat n \<le> 0x1FFFFFFF" using that by (simp add: word_less_nat_alt)
    ultimately show ?thesis by (simp add: word_le_nat_alt MP_INT_MAX_def)
  qed
qed

lemma EMIT_ASSERT_True [simp]: "EMIT_ASSERT True = skip"
  by (simp add: EMIT_ASSERT_def fun_eq_iff)

lemma cmpush_ok: "added_rel R \<Longrightarrow> two_pass_ok R R rv32_lim 2 (asm_rv32_opcode_cmpush env l n)"
  unfolding rv32_code by (rule two_pass_rv32_code) auto

lemma emit_compressed_function_prologue_ok:
  assumes env: "mp_env_ok env" "asm_rv32_allow_zcmp_opcodes env"
  shows "two_pass_ok (rv32_prologue_rel env) same_added rv32_lim 80
    (\<lambda>s. if locals_count s < 0x20000000
         then emit_compressed_function_prologue env regs s else Inl AssertionFailed)"
proof (cases "compute_zcmp_sequence_length env regs")
  case (Inl err)
  then show ?thesis
    by (intro two_pass_okI) (auto simp: emit_compressed_function_prologue_def split: if_splits)
next
  case (Inr len)
  note bounds = round_to_4 [OF zcmp_length_bound [OF env(1) Inr]]
  let ?slack = "((len + 3) AND (- 4)) - len"
  let ?all = "\<lambda>locals. if locals < ?slack then 0 else locals - ?slack"
  let ?chunks = "\<lambda>locals. min 3 (?all locals div 4)"
  let ?left = "\<lambda>locals. (?all locals - ?chunks locals * 4) * 4"
  let ?F = "\<lambda>locals. if locals < 0x20000000 then asm_seq
     [asm_rv32_opcode_cmpush env (min (3 + len) 15) (?chunks locals),
      adjust_stack env (- ?left locals),
      \<lambda>s. Inr (s\<lparr>stack_size := ?left locals OR ?chunks locals\<rparr>)]
     else asm_assert False"
  show ?thesis
  proof (rule two_pass_readI [where v = locals_count])
    fix s :: asm_rv32_t
    have "?all (locals_count s) \<le> locals_count s"
      by (auto simp: not_less intro: word_sub_le)
    then have "?all (locals_count s) < 0x20000000" if "locals_count s < 0x20000000"
      using that by (rule order_le_less_trans)
    then have "locals_count s < 0x20000000 \<Longrightarrow>
        ?all (locals_count s) - ?chunks (locals_count s) * 4 \<le> MP_INT_MAX div 4"
      by (intro zcmp_chunks(2))
    then show "(if locals_count s < 0x20000000
         then emit_compressed_function_prologue env regs s else Inl AssertionFailed) = ?F (locals_count s) s"
      using bounds zcmp_chunks(1) [of "?all (locals_count s)"]
      by (simp add: emit_compressed_function_prologue_def Inr Let_def)
  next
    show "two_pass_ok (rv32_prologue_rel env) same_added rv32_lim 80 (?F x)" for x
      by (intro two_pass_cond two_pass_fail,
        rule two_pass_step [OF cmpush_ok], simp,
        rule two_pass_two [OF adjust_stack_ok two_pass_update [where n = 0]])
       (use env(2) in \<open>auto simp: same_added_rv32 rv32_prologue_rel_def\<close>)
  qed (simp add: rv32_prologue_rel_def)
qed

lemma asm_rv32_entry_ok:
  assumes env: "mp_env_ok env" and locals: "locals < 0x20000000"
  shows "two_pass_ok (rv32_entry_rel env) same_added rv32_lim 80 (asm_rv32_entry env locals)"
proof (rule two_pass_update_then [where R' = "rv32_prologue_rel env"
      and u = "\<lambda>s. s\<lparr>locals_count := locals, saved_registers_mask := saved_registers_mask s OR 0x1C0200\<rparr>"])
  let ?F = "\<lambda>regs. if asm_rv32_allow_zcmp_opcodes env
     then (\<lambda>s. if locals_count s < 0x20000000
         then emit_compressed_function_prologue env regs s else Inl AssertionFailed)
     else emit_function_prologue env regs"
  show "two_pass_ok (rv32_prologue_rel env) same_added rv32_lim 80 (\<lambda>s. ?F (saved_registers_mask s) s)"
    by (rule two_pass_read, simp add: rv32_prologue_rel_def, intro two_pass_cond)
      (use emit_compressed_function_prologue_ok [OF env] emit_function_prologue_ok in auto)
  show "asm_rv32_entry env locals s =
     ?F (saved_registers_mask (s\<lparr>locals_count := locals, saved_registers_mask := saved_registers_mask s OR 0x1C0200\<rparr>))
     (s\<lparr>locals_count := locals, saved_registers_mask := saved_registers_mask s OR 0x1C0200\<rparr>)" for s
    using locals by (simp add: asm_rv32_entry_def asm_consts Let_def)
qed (auto simp: keeps_base_def rv32_entry_rel_def rv32_prologue_rel_def)

lemma keeps_added_adjust_stack: "keeps_added (adjust_stack env sz)"
  unfolding rv32_straight rv32_code by (rule keeps_added_emit_code)

lemma keeps_added_registers_loops:
  "keeps_added (emit_registers_store_loop env regs offset rs)"
  "keeps_added (emit_registers_load_loop env regs offset rs)"
  by (induction rs arbitrary: offset) (auto simp del: asm_seq.simps simp: asm_ops
      asm_rv32_emit_halfword_opcode_def intro!: keeps_added_rules)

lemma keeps_added_rv32:
  assumes "keeps_added f" "f s = Inr t"
  shows "stack_size t = stack_size s" "saved_registers_mask t = saved_registers_mask s"
    "locals_count t = locals_count s" "locals_stack_offset t = locals_stack_offset (s :: asm_rv32_t)"
  using keeps_addedD(1) [OF assms] by (cases s; cases t; simp)+

lemma asm_rv32_exit_ok:
  "two_pass_ok same_added same_added rv32_lim 80 (asm_rv32_exit env)"
proof (rule two_pass_readI [where v = "\<lambda>s. (saved_registers_mask s, stack_size s)"])
  let ?F = "\<lambda>(regs, sz). if asm_rv32_allow_zcmp_opcodes env
     then case compute_zcmp_sequence_length env regs of
        Inl e \<Rightarrow> (\<lambda>s. Inl e)
      | Inr len \<Rightarrow> asm_seq [adjust_stack env (sz AND NOT 3),
          asm_rv32_opcode_cmpopret env (min (3 + len) 15) (sz AND 3)]
     else asm_seq [emit_registers_load env regs, adjust_stack env sz,
       (\<lambda>s. Inr (s\<lparr>saved_registers_mask := regs\<rparr>)), asm_rv32_opcode_cjr env ASM_RV32_REG_RA]"
  show "asm_rv32_exit env s = ?F (saved_registers_mask s, stack_size s) s" for s
    using keeps_added_rv32(1) [OF keeps_added_adjust_stack]
      keeps_added_rv32(1) [OF keeps_added_registers_loops(2)]
    by (auto simp: asm_rv32_exit_def emit_compressed_function_epilogue_def
        emit_function_epilogue_def emit_registers_load_def Let_def split: sum.split)
  have ret: "two_pass_ok same_added same_added rv32_lim 2 (asm_rv32_opcode_cmpopret env l n)"
    "two_pass_ok same_added same_added rv32_lim 2 (asm_rv32_opcode_cjr env l)" for l n
    unfolding rv32_code by (rule two_pass_rv32_code; simp)+
  have plain: "two_pass_ok same_added same_added rv32_lim 80
    (asm_seq [emit_registers_load env regs, adjust_stack env sz,
       \<lambda>s. Inr (s\<lparr>saved_registers_mask := regs\<rparr>), asm_rv32_opcode_cjr env ASM_RV32_REG_RA])"
    for regs sz
    by (rule two_pass_step [OF emit_registers_ok(2)], simp,
        rule two_pass_step [OF adjust_stack_ok], simp,
        rule two_pass_two [OF two_pass_update [where n = 0] ret(2)])
      (auto simp: same_added_rv32)
  have zcmp: "two_pass_ok same_added same_added rv32_lim 80
      (asm_seq [adjust_stack env sz, asm_rv32_opcode_cmpopret env l n])" for sz l n
    by (rule two_pass_two [OF adjust_stack_ok ret(1)]) auto
  show "two_pass_ok same_added same_added rv32_lim 80 (?F x)" for x
    using plain zcmp by (auto simp del: asm_seq.simps intro: two_pass_error split: prod.split sum.split)
qed (simp add: same_added_rv32)

text \<open>A concrete environment, for the witnesses.\<close>

definition rv32_demo_env :: rv32_env where
  "rv32_demo_env = \<lparr>MP_ENDIANNESS_LITTLE = True,
     mp_popcount = (\<lambda>x. word_of_nat (count_ones x)),
     mp_clz = (\<lambda>x. word_of_nat (count_leading_zeros x)),
     mp_ctz = (\<lambda>x. word_of_nat (count_trailing_zeros x)),
     MP_FIT_SIGNED = fits_signed, MP_FIT_UNSIGNED = fits_unsigned,
     MICROPY_EMIT_RV32_ZBA = False, MICROPY_EMIT_RV32_ZCMP = False, backend_options = None\<rparr>"

lemma mp_env_ok_rv32_demo: "mp_env_ok rv32_demo_env"
  by (simp add: mp_env_ok_def rv32_demo_env_def)

end
