(* ===== verification/Asm_RV32_Program.thy ===== *)
theory Asm_RV32_Program
  imports Asm_RV32_Passes
begin

text \<open>
  Whole RISC-V programs: the interpretation of the two-pass interface, how a pass changes
  the registers to save, and that compute pass, compute pass and emit pass over a function
  succeed together.
\<close>

section \<open>The assembler as an instance of the two-pass interface\<close>

fun rv32_is_entry :: "rv32_op \<Rightarrow> bool" where
  "rv32_is_entry (RV32_API op) = is_ASM_ENTRY op"
| "rv32_is_entry _ = False"

text \<open>Operands in range: alignments are powers of two, and the locals fit the address space.\<close>

fun rv32_allowed :: "rv32_op \<Rightarrow> bool" where
  "rv32_allowed (RV32_API (ASM_ENTRY locals)) = (locals < 0x20000000)"
| "rv32_allowed (RV32_API op) = base_allowed op"
| "rv32_allowed _ = True"

fun rv32_cost :: "rv32_op \<Rightarrow> nat" where
  "rv32_cost (RV32_API op) = base_cost 80 op"
| "rv32_cost _ = 80"

lemma two_pass_80: "two_pass_ok R R' lim n f \<Longrightarrow> n \<le> 80 \<Longrightarrow> two_pass_ok R R' lim 80 f"
  by (rule two_pass_weaken)

lemmas rv32_ops_ok =
  two_pass_80 [OF rv32_immediate_ok] two_pass_80 [OF rv32_comparison_ok(1)]
  two_pass_80 [OF rv32_comparison_ok(2)] two_pass_80 [OF rv32_comparison_ok(3)]
  two_pass_80 [OF rv32_comparison_ok(4)] two_pass_80 [OF rv32_xor_ok]
  two_pass_80 [OF rv32_load_offset_ok] two_pass_80 [OF rv32_store_offset_ok]
  two_pass_80 [OF rv32_load_store_reg_ok(1)] two_pass_80 [OF rv32_load_store_reg_ok(2)]
  two_pass_80 [OF rv32_jumps_ok(1)] two_pass_80 [OF rv32_jumps_ok(2)]
  two_pass_80 [OF rv32_jumps_ok(3)] two_pass_80 [OF rv32_jumps_ok(4)]
  two_pass_80 [OF rv32_mov_local_reg_ok] two_pass_80 [OF rv32_mov_reg_local_ok]
  two_pass_80 [OF rv32_mov_reg_local_addr_ok] two_pass_80 [OF rv32_call_ok]
  asm_rv32_exit_ok

lemma rv32_opcode_ok:
  "two_pass_ok same_added same_added rv32_lim 80 (asm_rv32_emit_word_opcode env w)"
  "two_pass_ok same_added same_added rv32_lim 80 (asm_rv32_emit_halfword_opcode env w)"
  unfolding asm_rv32_emit_word_opcode_def asm_rv32_emit_halfword_opcode_def
  by (rule two_pass_emit; simp)+

lemma asm_rv32_end_pass_skip: "asm_rv32_end_pass = skip"
  by (simp add: asm_rv32_end_pass_def fun_eq_iff)

lemma rv32_api_ok:
  "\<not> is_ASM_ENTRY op \<Longrightarrow> base_allowed op \<Longrightarrow>
     two_pass_ok same_added same_added rv32_lim (base_cost 80 op) (rv32_api env op)"
  by (cases op)
    (simp_all add: asm_ops rv32_opcode_ok rv32_ops_ok two_pass_label_assign two_pass_base_align
      two_pass_data two_pass_suppress_code two_pass_skip asm_rv32_end_pass_skip)

lemma rv32_risc_ok: "two_pass_ok same_added same_added rv32_lim 80 (rv32_risc env op)"
  by (cases op) (simp_all add: asm_ops rv32_opcode_ok rv32_ops_ok)

lemma rv32_exec_ok:
  assumes "\<not> rv32_is_entry op" "rv32_allowed op"
  shows "two_pass_ok same_added same_added rv32_lim (rv32_cost op) (rv32_exec env op)"
proof (cases op)
  case (RV32_API x)
  then have "base_allowed x" using assms by (cases x) auto
  with RV32_API assms show ?thesis by (auto intro: rv32_api_ok)
qed (simp_all add: asm_ops rv32_opcode_ok rv32_ops_ok rv32_risc_ok)

lemma rv32_exec_entry_ok:
  assumes "mp_env_ok env" "rv32_is_entry op" "rv32_allowed op"
  shows "two_pass_ok (rv32_entry_rel env) same_added rv32_lim (rv32_cost op) (rv32_exec env op)"
proof -
  obtain locals where "op = RV32_API (ASM_ENTRY locals)"
    using assms(2) by (cases op) (auto elim: is_ASM_ENTRY.elims)
  then show ?thesis using assms asm_rv32_entry_ok by simp
qed

interpretation rv32: two_pass_assembler "rv32_exec env" rv32_cost rv32_is_entry
  "\<lambda>op. mp_env_ok env \<and> rv32_allowed op" "rv32_entry_rel env" same_added rv32_lim for env
  by unfold_locales (auto intro: rv32_exec_ok rv32_exec_entry_ok)

section \<open>The saved registers settle\<close>

text \<open>The registers an operation adds to those the function saves.\<close>

fun rv32_taints :: "rv32_op \<Rightarrow> u32" where
  "rv32_taints (RV32_API (ASM_ENTRY locals)) = 0x1C0200"
| "rv32_taints (RV32_API (ASM_CALL_IND index)) = call_taints index"
| "rv32_taints _ = 0"

lemma rv32_straight_keeps:
  "keeps_added (asm_rv32_emit_optimised_load_immediate env rd imm)"
  "keeps_added (asm_rv32_meta_comparison_eq env rs1 rs2 rd)"
  "keeps_added (asm_rv32_meta_comparison_ne env rs1 rs2 rd)"
  "keeps_added (asm_rv32_meta_comparison_lt env rs1 rs2 rd u)"
  "keeps_added (asm_rv32_meta_comparison_le env rs1 rs2 rd u)"
  "keeps_added (asm_rv32_emit_optimised_xor env rd rs)"
  "keeps_added (load_upper_immediate env rd imm)"
  "keeps_added (load_full_immediate env rd imm)"
  "keeps_added (asm_rv32_emit_word_opcode env w)"
  "keeps_added (asm_rv32_emit_halfword_opcode env w)"
  unfolding rv32_straight rv32_code by (rule keeps_added_emit_code)+

lemma rv32_offsets_keep:
  "keeps_added (asm_rv32_emit_load_reg_reg_offset env rd rs offset sz)"
  "keeps_added (asm_rv32_emit_store_reg_reg_offset env rd rs offset sz)"
  "keeps_added (asm_rv32_fix_up_scaled_reg_reg_reg env rs1 rs2 sz)"
  unfolding asm_rv32_emit_load_reg_reg_offset_def asm_rv32_emit_store_reg_reg_offset_def
    asm_rv32_fix_up_scaled_reg_reg_reg_def rv32_straight rv32_code
  by (intro keeps_added_rules)+

lemma rv32_regs_keep:
  "keeps_added (asm_rv32_emit_load_reg_reg_reg env rd rs1 rs2 sz)"
  "keeps_added (asm_rv32_emit_store_reg_reg_reg env rd rs1 rs2 sz)"
  unfolding asm_rv32_emit_load_reg_reg_reg_def asm_rv32_emit_store_reg_reg_reg_def
  by (rule keeps_added_seq; simp add: rv32_offsets_keep)+

lemma rv32_jumps_keep:
  "keeps_added (asm_rv32_emit_jump env label)"
  "keeps_added (asm_rv32_emit_jump_if_reg_eq env rs1 rs2 label)"
  "keeps_added (asm_rv32_emit_jump_if_reg_nonzero env rs label)"
  "keeps_added (asm_rv32_emit_mov_reg_pcrel env rd label)"
  unfolding asm_rv32_emit_jump_code asm_rv32_emit_jump_if_reg_eq_code
    asm_rv32_emit_jump_if_reg_nonzero_code asm_rv32_emit_mov_reg_pcrel_code
  by (rule keeps_added_label_jump [where l = label], simp)+

lemma rv32_locals_keep:
  "keeps_added (asm_rv32_emit_mov_local_reg env local rs)"
  "keeps_added (asm_rv32_emit_mov_reg_local env rd local)"
  "keeps_added (asm_rv32_emit_mov_reg_local_addr env rd local)"
  by (rule keeps_added_read [where v = locals_stack_offset],
      simp only: asm_rv32_emit_mov_local_reg_def asm_rv32_emit_mov_reg_local_def
        asm_rv32_emit_mov_reg_local_addr_def rv32_straight rv32_code,
      intro keeps_added_if keeps_added_emit_code)+

text \<open>The three operations that touch the assembler's own fields.\<close>

lemma rv32_zcmp_length_errors:
  "compute_zcmp_sequence_length env regs = Inl e \<Longrightarrow> \<not> raised e"
  by (auto simp: compute_zcmp_sequence_length_def Let_def split: if_splits)

definition rv32_effect :: "rv32_env \<Rightarrow> u32 \<Rightarrow> asm_rv32_t asm \<Rightarrow> bool" where
  "rv32_effect env bits f \<longleftrightarrow>
     (\<forall>s. case f s of
        Inr t \<Rightarrow> saved_registers_mask t = saved_registers_mask s OR bits \<and>
          (asm_rv32_allow_zcmp_opcodes env \<longrightarrow> locals_stack_offset t = locals_stack_offset s)
      | Inl e \<Rightarrow> \<not> raised e)"

lemma rv32_effect_keeps: "keeps_added f \<Longrightarrow> rv32_effect env 0 f"
  using keeps_added_rv32 [of f] keeps_addedD(2) [of f]
  by (fastforce simp: rv32_effect_def split: sum.split)

lemma rv32_effect_Cons:
  assumes "rv32_effect env a f" "rv32_effect env b (asm_seq fs)"
  shows "rv32_effect env (a OR b) (asm_seq (f # fs))"
  unfolding rv32_effect_def
proof
  fix s
  have f: "case f s of Inr t \<Rightarrow> saved_registers_mask t = saved_registers_mask s OR a \<and>
          (asm_rv32_allow_zcmp_opcodes env \<longrightarrow> locals_stack_offset t = locals_stack_offset s)
      | Inl e \<Rightarrow> \<not> raised e"
    using assms(1) by (simp add: rv32_effect_def)
  show "case asm_seq (f # fs) s of Inr t \<Rightarrow> saved_registers_mask t = saved_registers_mask s OR (a OR b) \<and>
          (asm_rv32_allow_zcmp_opcodes env \<longrightarrow> locals_stack_offset t = locals_stack_offset s)
      | Inl e \<Rightarrow> \<not> raised e"
  proof (cases "f s")
    case (Inr u)
    with f assms(2) [unfolded rv32_effect_def, rule_format, of u] show ?thesis
      by (auto simp: or.assoc split: sum.splits)
  qed (use f in auto)
qed

lemma keeps_added_restore:
  assumes "keeps_added (f :: asm_rv32_t asm)"
  shows "keeps_added (\<lambda>s. asm_seq [f, \<lambda>t. Inr (t\<lparr>saved_registers_mask := saved_registers_mask s\<rparr>)] s)"
proof (rule keeps_addedI)
  fix s t
  assume "asm_seq [f, \<lambda>t. Inr (t\<lparr>saved_registers_mask := saved_registers_mask s\<rparr>)] s = Inr t"
  then obtain u where u: "f s = Inr u" "t = u\<lparr>saved_registers_mask := saved_registers_mask s\<rparr>"
    by (auto split: sum.splits)
  then have "t = u" using keeps_added_rv32(2) [OF assms u(1)] by simp
  then show "mp_asm_base_t.more t = mp_asm_base_t.more s"
    using keeps_addedD(1) [OF assms u(1)] by simp
qed (use keeps_addedD(2) [OF assms] in \<open>auto split: sum.splits\<close>)

lemma keeps_added_epilogues:
  "keeps_added (emit_function_epilogue env regs)"
  "keeps_added (emit_compressed_function_epilogue env regs)"
proof -
  have stack: "keeps_added (\<lambda>s. adjust_stack env (stack_size s) s)"
    by (rule keeps_added_read [where v = stack_size]) (rule refl, rule keeps_added_adjust_stack)
  have "keeps_added (asm_seq [emit_registers_load env regs, \<lambda>s. adjust_stack env (stack_size s) s])"
    by (rule keeps_added_seq) (auto simp: stack emit_registers_load_def keeps_added_registers_loops)
  from keeps_added_restore [OF this] show "keeps_added (emit_function_epilogue env regs)"
    by (rule back_subst [of keeps_added])
      (auto simp: fun_eq_iff emit_function_epilogue_def Let_def split: sum.split)
  show "keeps_added (emit_compressed_function_epilogue env regs)"
  proof (cases "compute_zcmp_sequence_length env regs")
    case (Inl e)
    then show ?thesis
      using rv32_zcmp_length_errors by (auto simp: keeps_added_def emit_compressed_function_epilogue_def)
  next
    case (Inr len)
    have "keeps_added (\<lambda>t. asm_rv32_opcode_cmpopret env (min (3 + len) 15) (stack_size t AND 3) t)"
      by (rule keeps_added_read [where v = stack_size], rule refl)
        (simp add: asm_ops rv32_straight_keeps)
    moreover have "keeps_added (\<lambda>s. adjust_stack env (stack_size s AND NOT 3) s)"
      by (rule keeps_added_read [where v = stack_size], rule refl, rule keeps_added_adjust_stack)
    ultimately have "keeps_added (asm_seq [\<lambda>s. adjust_stack env (stack_size s AND NOT 3) s,
        \<lambda>t. asm_rv32_opcode_cmpopret env (min (3 + len) 15) (stack_size t AND 3) t])"
      by (intro keeps_added_seq) simp
    then show ?thesis
      by (rule back_subst [of keeps_added]) (simp add: fun_eq_iff emit_compressed_function_epilogue_def Inr)
  qed
qed

lemma rv32_exit_effect: "rv32_effect env 0 (asm_rv32_exit env)"
proof (rule rv32_effect_keeps)
  let ?F = "\<lambda>regs. if asm_rv32_allow_zcmp_opcodes env
      then emit_compressed_function_epilogue env regs
      else asm_seq [emit_function_epilogue env regs, asm_rv32_opcode_cjr env ASM_RV32_REG_RA]"
  have "keeps_added (asm_seq [emit_function_epilogue env regs, asm_rv32_opcode_cjr env ASM_RV32_REG_RA])"
    for regs
    by (intro keeps_added_seq) (simp add: keeps_added_epilogues asm_ops rv32_straight_keeps)
  then have F: "keeps_added (?F regs)" for regs
    by (intro keeps_added_cond keeps_added_epilogues)
  show "keeps_added (asm_rv32_exit env)"
    by (rule keeps_added_read [where v = saved_registers_mask and F = ?F])
      (simp add: asm_rv32_exit_def, rule F)
qed

lemma rv32_call_effect: "rv32_effect env (call_taints index) (asm_rv32_emit_call_ind env index)"
  unfolding rv32_effect_def asm_rv32_emit_call_ind_code
  using keeps_added_rv32 [OF keeps_added_emit_code] keeps_addedD(2) [OF keeps_added_emit_code]
  by (fastforce simp: taint_def split: sum.split)

lemma EMIT_ASSERT_keeps: "keeps_added (EMIT_ASSERT b)"
  by (simp add: keeps_added_def EMIT_ASSERT_def asm_assert_def)

lemma rv32_prologue_effects:
  "\<not> asm_rv32_allow_zcmp_opcodes env \<Longrightarrow> rv32_effect env 0 (emit_function_prologue env regs)"
  "rv32_effect env 0 (emit_compressed_function_prologue env regs)"
proof -
  note stack = keeps_added_adjust_stack [of env] and store = keeps_added_registers_loops(1) [of env regs]
  show "rv32_effect env 0 (emit_function_prologue env regs)" if "\<not> asm_rv32_allow_zcmp_opcodes env"
    using that stack [THEN keeps_addedD(2)] store [THEN keeps_addedD(2)]
    by (auto simp: rv32_effect_def emit_function_prologue_def emit_registers_store_def Let_def
        split: sum.splits)
  show "rv32_effect env 0 (emit_compressed_function_prologue env regs)"
  proof (cases "compute_zcmp_sequence_length env regs")
    case (Inl e)
    then show ?thesis using rv32_zcmp_length_errors
      by (simp add: rv32_effect_def emit_compressed_function_prologue_def)
  next
    case (Inr len)
    have code: "rv32_effect env 0 (asm_seq [EMIT_ASSERT a, EMIT_ASSERT b, EMIT_ASSERT c,
        asm_rv32_opcode_cmpush env l n, adjust_stack env z, \<lambda>s. Inr (s\<lparr>stack_size := x\<rparr>)])"
      for a b c l n z x
    proof -
      have "rv32_effect env 0 (asm_seq [\<lambda>s. Inr (s\<lparr>stack_size := x\<rparr>)])"
        by (simp add: rv32_effect_def)
      then show ?thesis
        using rv32_effect_Cons [where a = 0 and b = 0, OF rv32_effect_keeps]
        by (simp add: EMIT_ASSERT_keeps stack asm_ops rv32_straight_keeps del: asm_seq.simps asm_seq_singleton)
    qed
    show ?thesis
      unfolding rv32_effect_def
    proof
      fix s
      show "case emit_compressed_function_prologue env regs s of
          Inr t \<Rightarrow> saved_registers_mask t = saved_registers_mask s OR 0 \<and>
            (asm_rv32_allow_zcmp_opcodes env \<longrightarrow> locals_stack_offset t = locals_stack_offset s)
        | Inl e \<Rightarrow> \<not> raised e"
        unfolding emit_compressed_function_prologue_def Inr sum.case Let_def
        by (rule code [unfolded rv32_effect_def, THEN spec])
    qed
  qed
qed

lemma rv32_entry_effect: "rv32_effect env 0x1C0200 (asm_rv32_entry env locals)"
  unfolding rv32_effect_def
proof
  fix s :: asm_rv32_t
  let ?s = "s\<lparr>locals_count := locals, saved_registers_mask := saved_registers_mask s OR 0x1C0200\<rparr>"
  have "asm_rv32_entry env locals s =
    (if asm_rv32_allow_zcmp_opcodes env
     then emit_compressed_function_prologue env (saved_registers_mask ?s) ?s
     else emit_function_prologue env (saved_registers_mask ?s) ?s)"
    by (simp add: asm_rv32_entry_def asm_consts Let_def)
  then show "case asm_rv32_entry env locals s of
        Inr t \<Rightarrow> saved_registers_mask t = saved_registers_mask s OR 0x1C0200 \<and>
          (asm_rv32_allow_zcmp_opcodes env \<longrightarrow> locals_stack_offset t = locals_stack_offset s)
      | Inl e \<Rightarrow> \<not> raised e"
    using rv32_prologue_effects [of env "saved_registers_mask ?s", unfolded rv32_effect_def, THEN spec, of ?s]
    by (auto split: if_splits sum.split)
qed


lemma rv32_exec_effect: "rv32_effect env (rv32_taints op) (rv32_exec env op)"
proof (cases op)
  case (RV32_API x)
  then show ?thesis
    by (cases x)
      (simp_all add: asm_ops rv32_entry_effect rv32_call_effect rv32_exit_effect rv32_effect_keeps
        rv32_straight_keeps rv32_offsets_keep rv32_jumps_keep rv32_locals_keep base_keeps_added
        asm_rv32_end_pass_skip keeps_added_skip)
next
  case (RV32_RISC x)
  then show ?thesis
    by (cases x) (simp_all add: asm_ops rv32_effect_keeps rv32_straight_keeps rv32_regs_keep)
qed (simp_all add: asm_ops rv32_effect_keeps rv32_straight_keeps)

lemma rv32_program_effect:
  "rv32_effect env (foldr (\<lambda>op bits. rv32_taints op OR bits) prog 0) (asm_seq (map (rv32_exec env) prog))"
proof (induction prog)
  case Nil
  show ?case by (simp add: rv32_effect_def)
next
  case (Cons op prog)
  then show ?case using rv32_effect_Cons [OF rv32_exec_effect Cons.IH] by (simp del: asm_seq.simps)
qed

text \<open>So a pass over the program settles the saved registers.\<close>

lemma rv32_pass_effect:
  assumes "run_pass alloc (rv32_exec env) prog p s = Inr t"
  shows "saved_registers_mask t =
      saved_registers_mask s OR foldr (\<lambda>op bits. rv32_taints op OR bits) prog 0"
    "asm_rv32_allow_zcmp_opcodes env \<Longrightarrow> locals_stack_offset t = locals_stack_offset s"
proof -
  obtain u where u: "mp_asm_base_start_pass alloc p s = Inr u"
    "asm_seq (map (rv32_exec env) prog) u = Inr t"
    using assms by (auto simp: run_pass_def split: sum.splits)
  have "saved_registers_mask u = saved_registers_mask s" "locals_stack_offset u = locals_stack_offset s"
    using start_pass_keeps [OF u(1)] by (cases u; cases s; simp)+
  then show "saved_registers_mask t =
      saved_registers_mask s OR foldr (\<lambda>op bits. rv32_taints op OR bits) prog 0"
    "asm_rv32_allow_zcmp_opcodes env \<Longrightarrow> locals_stack_offset t = locals_stack_offset s"
    using rv32_program_effect [of env prog, unfolded rv32_effect_def, THEN spec, of u] u(2) by auto
qed

lemma rv32_second_pass_rel:
  assumes "run_pass alloc (rv32_exec env) prog p s = Inr c1"
    and "run_pass alloc (rv32_exec env) prog p c1 = Inr c2"
  shows "rv32_entry_rel env c1 c2"
  using rv32_pass_effect [OF assms(1)] rv32_pass_effect [OF assms(2)]
  by (simp add: rv32_entry_rel_def or.assoc)

lemma rv32_emit_not_raised:
  assumes "run_pass alloc (rv32_exec env) prog p s = Inl e" "alloc_gives alloc (code_offset s)"
  shows "\<not> raised e"
proof -
  have "\<not> raised e" if "mp_asm_base_start_pass alloc p s = Inl e"
    using that by (auto simp: mp_asm_base_start_pass_def Let_def split: if_splits prod.splits)
  moreover have "\<not> raised e" if "asm_seq (map (rv32_exec env) prog) u = Inl e" for u
    using rv32_program_effect [of env prog, unfolded rv32_effect_def, THEN spec, of u] that by simp
  ultimately show ?thesis using assms(1) by (auto simp: run_pass_def split: sum.splits)
qed

section \<open>Programs\<close>

text \<open>
  C1: A function (an entry followed by any operations of the RISC-V assembler) whose compute pass
  succeeds twice in a row is assembled by the emit pass without a failed assertion, an
  exception or a store outside the buffer, into exactly the size and with the label offsets
  of the second compute pass.
\<close>

theorem rv32_assembles:
  assumes "mp_env_ok env" "locals < 0x20000000"
    and "\<forall>op \<in> set body. \<not> rv32_is_entry op \<and> rv32_allowed op"
    and "run_pass alloc (rv32_exec env) (RV32_API (ASM_ENTRY locals) # body) MP_ASM_PASS_COMPUTE s = Inr c1"
    and "run_pass alloc (rv32_exec env) (RV32_API (ASM_ENTRY locals) # body) MP_ASM_PASS_COMPUTE c1 = Inr c2"
    and "sum_list (map rv32_cost (RV32_API (ASM_ENTRY locals) # body)) \<le> rv32_lim"
    and "alloc_gives alloc (code_offset c2)"
  shows "\<exists>e. run_pass alloc (rv32_exec env) (RV32_API (ASM_ENTRY locals) # body) MP_ASM_PASS_EMIT c2 = Inr e \<and>
    code_offset e = code_offset c2 \<and> label_offsets e = label_offsets c2 \<and> code_offset e \<le> code_size e"
  using rv32.emit_follows_compute [OF _ _ _ assms(5) rv32_second_pass_rel [OF assms(4,5)] assms(6,7)]
    assms(1-3) rv32_emit_not_raised [OF _ assms(7)]
  by (fastforce split: sum.splits)

definition rv32_demo_state :: asm_rv32_t where
  "rv32_demo_state = \<lparr>pass = 0, suppress = False, code_offset = 0, code_size = 0,
     code_base = None, max_num_labels = 2, label_offsets = [0, 0],
     saved_registers_mask = 0, locals_count = 0, stack_size = 0, locals_stack_offset = 0\<rparr>"

definition rv32_demo_body :: "rv32_op list" where
  "rv32_demo_body = map RV32_API
     [Base_label_assign 0, ASM_MOV_REG_IMM 10 0x12345, ASM_CALL_IND 3, ASM_JUMP_IF_REG_NONZERO 10 1 True, ASM_JUMP 0,
      Base_label_assign 1, ASM_EXIT]"

abbreviation rv32_demo_pass :: "int \<Rightarrow> asm_rv32_t asm" where
  "rv32_demo_pass \<equiv> run_pass exact_alloc (rv32_exec rv32_demo_env) (RV32_API (ASM_ENTRY 2) # rv32_demo_body)"

lemma rv32_demo_computes:
  "case rv32_demo_pass MP_ASM_PASS_COMPUTE rv32_demo_state of
     Inl e \<Rightarrow> False
   | Inr c1 \<Rightarrow> (case rv32_demo_pass MP_ASM_PASS_COMPUTE c1 of
       Inl e \<Rightarrow> False | Inr c2 \<Rightarrow> code_offset c1 = 52 \<and> code_offset c2 = 58)"
  by code_simp

theorem rv32_assembles_witness:
  "\<exists>c1 c2 e. rv32_demo_pass MP_ASM_PASS_COMPUTE rv32_demo_state = Inr c1 \<and>
     rv32_demo_pass MP_ASM_PASS_COMPUTE c1 = Inr c2 \<and>
     rv32_demo_pass MP_ASM_PASS_EMIT c2 = Inr e \<and>
     code_offset c1 = 52 \<and> code_offset c2 = 58 \<and> code_offset e = 58"
proof -
  obtain c1 c2 where c: "rv32_demo_pass MP_ASM_PASS_COMPUTE rv32_demo_state = Inr c1"
    "rv32_demo_pass MP_ASM_PASS_COMPUTE c1 = Inr c2" "code_offset c1 = 52" "code_offset c2 = 58"
    using rv32_demo_computes by (auto split: sum.splits)
  have "\<forall>op \<in> set rv32_demo_body. \<not> rv32_is_entry op \<and> rv32_allowed op"
    "sum_list (map rv32_cost (RV32_API (ASM_ENTRY 2) # rv32_demo_body)) \<le> rv32_lim"
    by (simp_all add: rv32_demo_body_def)
  then show ?thesis
    using rv32_assembles [OF mp_env_ok_rv32_demo _ _ c(1,2)] c by auto
qed

end
