(* ===== verification/Machine_Code.thy ===== *)
theory Machine_Code
  imports Asm_Base
begin

text \<open>
  What it means that emitted bytes do something when a processor runs them. A machine has a
  fetch function on byte lists and executes one instruction at a time; the locale
  \<open>code_machine\<close> holds the rules for running code that sits somewhere in a buffer, and
  \<open>emits_code\<close> ties them to the operations of an assembler in the emit pass.
\<close>

section \<open>Little-endian memory\<close>

fun load_bytes :: "nat \<Rightarrow> (u32 \<Rightarrow> u8) \<Rightarrow> u32 \<Rightarrow> u32" where
  "load_bytes 0 M a = 0"
| "load_bytes (Suc n) M a = ucast (M a) OR push_bit 8 (load_bytes n M (a + 1))"

fun store_bytes :: "nat \<Rightarrow> u32 \<Rightarrow> u32 \<Rightarrow> (u32 \<Rightarrow> u8) \<Rightarrow> (u32 \<Rightarrow> u8)" where
  "store_bytes 0 a v M = M"
| "store_bytes (Suc n) a v M = (store_bytes n (a + 1) (drop_bit 8 v) M)(a := ucast v)"

lemma load_bytes_le_word:
  "\<forall>i < length bs. M (a + word_of_nat i) = bs ! i \<Longrightarrow> load_bytes (length bs) M a = le_word bs"
proof (induction bs arbitrary: a)
  case (Cons b bs)
  have "M (a + 1 + word_of_nat i) = bs ! i" if "i < length bs" for i
    using Cons.prems [rule_format, of "Suc i"] that by (simp add: ac_simps)
  then have "load_bytes (length bs) M (a + 1) = le_word bs" by (intro Cons.IH) blast
  moreover have "M a = b" using Cons.prems [rule_format, of 0] by simp
  ultimately show ?case by simp
qed simp

lemma store_bytes_other: "\<forall>k < n. b \<noteq> a + word_of_nat k \<Longrightarrow> store_bytes n a v M b = M b"
proof (induction n arbitrary: a v)
  case (Suc n)
  have "\<forall>k < n. b \<noteq> a + 1 + word_of_nat k" using Suc.prems by (metis Suc_mono add.assoc of_nat_Suc)
  moreover have "b \<noteq> a" using Suc.prems [rule_format, of 0] by simp
  ultimately show ?case using Suc.IH by simp
qed simp

lemma load_bytes_cong: "(\<And>k. k < n \<Longrightarrow> M (a + word_of_nat k) = M' (a + word_of_nat k)) \<Longrightarrow> load_bytes n M a = load_bytes n M' a"
proof (induction n arbitrary: a)
  case (Suc n)
  have "M (a + 1 + word_of_nat k) = M' (a + 1 + word_of_nat k)" if "k < n" for k
    using Suc.prems [of "Suc k"] that by (simp add: ac_simps)
  then have "load_bytes n M (a + 1) = load_bytes n M' (a + 1)" by (rule Suc.IH)
  then show ?case using Suc.prems [of 0] by simp
qed simp

lemma word_of_nat_inj: "j < 2 ^ 32 \<Longrightarrow> k < 2 ^ 32 \<Longrightarrow> (word_of_nat j :: u32) = word_of_nat k \<longleftrightarrow> j = k"
  by (auto simp: word_of_nat_eq_iff take_bit_nat_eq_self)

lemma load_store_bytes: "n < 2 ^ 32 \<Longrightarrow> load_bytes n (store_bytes n a v M) a = take_bit (8 * n) v"
proof (induction n arbitrary: a v M)
  case (Suc n)
  have "a + 1 + word_of_nat k \<noteq> a" if "k < n" for k
    using word_of_nat_inj [of "Suc k" 0] Suc.prems that by (auto simp: add.assoc)
  then have "load_bytes n (store_bytes (Suc n) a v M) (a + 1) = load_bytes n (store_bytes n (a + 1) (drop_bit 8 v) M) (a + 1)"
    by (intro load_bytes_cong) simp
  then have "load_bytes (Suc n) (store_bytes (Suc n) a v M) a = ucast (ucast v :: u8) OR push_bit 8 (take_bit (8 * n) (drop_bit 8 v))"
    using Suc.IH [of "a + 1" "drop_bit 8 v" M] Suc.prems by simp
  also have "\<dots> = take_bit (8 * Suc n) v"
    by (rule bit_word_eqI) (auto simp: bit_simps)
  finally show ?case .
qed simp

lemma load_store_word: "load_bytes 4 (store_bytes 4 a v M) a = v"
  using load_store_bytes [of 4 a v M] unsigned_less [of v] by (simp add: take_bit_word_iff)

lemma load_store_apart:
  assumes "\<And>j k. j < 4 \<Longrightarrow> k < 4 \<Longrightarrow> a + word_of_nat j \<noteq> b + word_of_nat k"
  shows "load_bytes 4 (store_bytes 4 b v M) a = load_bytes 4 M a"
  using assms by (intro load_bytes_cong store_bytes_other) auto

lemma load_store_words:
  assumes "unat (a - b) \<ge> 4" "unat (b - a) \<ge> 4"
  shows "load_bytes 4 (store_bytes 4 b v M) a = load_bytes 4 M a"
proof (rule load_store_apart)
  fix j k :: nat assume jk: "j < 4" "k < 4"
  show "a + word_of_nat j \<noteq> b + word_of_nat k"
  proof
    assume eq: "a + word_of_nat j = b + word_of_nat k"
    then have "a - b = word_of_nat k - word_of_nat j" "b - a = word_of_nat j - word_of_nat k"
      by (simp_all add: algebra_simps)
    moreover have small: "unat (word_of_nat p - word_of_nat q :: u32) < 4" if "q \<le> p" "p < 4" for p q
    proof -
      have "word_of_nat p - word_of_nat q = (word_of_nat (p - q) :: u32)" using that by (simp add: of_nat_diff)
      then show ?thesis using that by (simp only: unat_of_nat) simp
    qed
    ultimately show False using assms small [of j k] small [of k j] jk by (metis linorder_not_less nat_le_linear)
  qed
qed

lemma store_outside:
  assumes "16 \<le> unat (a - s)" "i \<le> 12"
  shows "store_bytes 4 (s + word_of_nat i) v M a = M a"
proof (rule store_bytes_other, intro allI impI notI)
  fix k :: nat assume "k < 4" "a = s + word_of_nat i + word_of_nat k"
  moreover from this have "a - s = word_of_nat (i + k)" by simp
  ultimately show False using assms by (simp only: unat_of_nat) simp
qed

text \<open>Several registers at consecutive addresses, the first at the lowest.\<close>

fun store_regs :: "(nat \<Rightarrow> u32) \<Rightarrow> nat list \<Rightarrow> u32 \<Rightarrow> (u32 \<Rightarrow> u8) \<Rightarrow> (u32 \<Rightarrow> u8)" where
  "store_regs R [] a M = M"
| "store_regs R (r # rs) a M = store_regs R rs (a + 4) (store_bytes 4 a (R r) M)"

fun load_regs :: "(u32 \<Rightarrow> u8) \<Rightarrow> nat list \<Rightarrow> u32 \<Rightarrow> (nat \<Rightarrow> u32) \<Rightarrow> (nat \<Rightarrow> u32)" where
  "load_regs M [] a R = R"
| "load_regs M (r # rs) a R = load_regs M rs (a + 4) (R(r := load_bytes 4 M a))"

lemma store_regs_other:
  "\<forall>k < 4 * length rs. b \<noteq> a + word_of_nat k \<Longrightarrow> store_regs R rs a M b = M b"
proof (induction rs arbitrary: a M)
  case (Cons r rs)
  have "\<forall>k < 4 * length rs. b \<noteq> (a + 4) + word_of_nat k"
  proof (intro allI impI)
    fix k assume "k < 4 * length rs"
    then show "b \<noteq> (a + 4) + word_of_nat k" using Cons.prems [rule_format, of "k + 4"] by (simp add: ac_simps)
  qed
  then have "store_regs R (r # rs) a M b = store_bytes 4 a (R r) M b" using Cons.IH by simp
  also have "\<dots> = M b" using Cons.prems by (intro store_bytes_other) simp
  finally show ?case .
qed simp

lemma load_store_regs:
  "i < length rs \<Longrightarrow> 4 * length rs < 2 ^ 32 \<Longrightarrow> load_bytes 4 (store_regs R rs a M) (a + 4 * word_of_nat i) = R (rs ! i)"
proof (induction rs arbitrary: a M i)
  case (Cons r rs)
  show ?case
  proof (cases i)
    case 0
    have "store_regs R rs (a + 4) (store_bytes 4 a (R r) M) (a + word_of_nat k) = store_bytes 4 a (R r) M (a + word_of_nat k)"
      if "k < 4" for k
    proof (rule store_regs_other, intro allI impI)
      fix j assume "j < 4 * length rs"
      then show "a + word_of_nat k \<noteq> a + 4 + word_of_nat j"
        using Cons.prems(2) that word_of_nat_inj [of k "4 + j"] by (simp add: add.assoc)
    qed
    then have "load_bytes 4 (store_regs R (r # rs) a M) a = load_bytes 4 (store_bytes 4 a (R r) M) a"
      unfolding store_regs.simps by (rule load_bytes_cong)
    then show ?thesis using 0 by (simp add: load_store_word)
  next
    case (Suc j)
    then show ?thesis using Cons.prems Cons.IH [of j "a + 4" "store_bytes 4 a (R r) M"] by (simp add: algebra_simps)
  qed
qed simp

lemma load_regs_nth:
  "distinct rs \<Longrightarrow> i < length rs \<Longrightarrow> load_regs M rs a R (rs ! i) = load_bytes 4 M (a + 4 * word_of_nat i)"
  "r \<notin> set rs \<Longrightarrow> load_regs M rs a R r = R r"
proof -
  show other: "r \<notin> set rs \<Longrightarrow> load_regs M rs a R r = R r" for r rs a R
    by (induction rs arbitrary: a R) auto
  show "distinct rs \<Longrightarrow> i < length rs \<Longrightarrow> load_regs M rs a R (rs ! i) = load_bytes 4 M (a + 4 * word_of_nat i)"
  proof (induction rs arbitrary: a R i)
    case (Cons r rs)
    then show ?case
      using other [of r rs] by (cases i) (simp_all add: algebra_simps)
  qed simp
qed

section \<open>Running code\<close>

fun run_code :: "(u32 \<Rightarrow> u8 list \<Rightarrow> 'm \<Rightarrow> 'm option) \<Rightarrow> nat \<Rightarrow> u32 \<Rightarrow> u8 list \<Rightarrow> 'm \<Rightarrow> 'm option" where
  "run_code step 0 base code m = Some m"
| "run_code step (Suc n) base code m =
     (case step base code m of None \<Rightarrow> None | Some m' \<Rightarrow> run_code step n base code m')"

text \<open>A machine with \<open>code\<close> at address \<open>base\<close> gets from \<open>m\<close> to \<open>m'\<close>.\<close>

definition reaches :: "(u32 \<Rightarrow> u8 list \<Rightarrow> 'm \<Rightarrow> 'm option) \<Rightarrow> u32 \<Rightarrow> u8 list \<Rightarrow> 'm \<Rightarrow> 'm \<Rightarrow> bool" where
  "reaches step base code m m' \<longleftrightarrow> (\<exists>n. run_code step n base code m = Some m')"

lemma reaches_refl: "reaches step base code m m"
  by (auto simp: reaches_def intro: exI [of _ 0])

lemma reaches_Some:
  assumes "step base code m = Some m'" "reaches step base code m' m''"
  shows "reaches step base code m m''"
proof -
  obtain n where "run_code step n base code m' = Some m''" using assms(2) by (auto simp: reaches_def)
  then have "run_code step (Suc n) base code m = Some m''" using assms(1) by simp
  then show ?thesis unfolding reaches_def by blast
qed

lemma reaches_trans:
  assumes "reaches step base code m m'" "reaches step base code m' m''"
  shows "reaches step base code m m''"
proof -
  obtain n where "run_code step n base code m = Some m'" using assms(1) by (auto simp: reaches_def)
  then show ?thesis using assms(2)
    by (induction n arbitrary: m) (auto split: option.splits intro: reaches_Some)
qed

lemma reaches_exI: "reaches step base code m m' \<Longrightarrow> P m' \<Longrightarrow> \<exists>m'. reaches step base code m m' \<and> P m'"
  by blast

text \<open>The bytes that an instruction is fetched from, wherever they are.\<close>

definition fetches_at :: "(u8 list \<Rightarrow> nat \<Rightarrow> ('i \<times> u32) option) \<Rightarrow> u8 list \<Rightarrow> 'i \<Rightarrow> bool" where
  "fetches_at fetch bs i \<longleftrightarrow>
     (\<forall>pre post. fetch (pre @ bs @ post) (length pre) = Some (i, word_of_nat (length bs)))"

definition sits_at :: "u32 \<Rightarrow> u8 list \<Rightarrow> u32 \<Rightarrow> u8 list \<Rightarrow> bool" where
  "sits_at base code a bs \<longleftrightarrow>
     (\<exists>pre post. code = pre @ bs @ post \<and> a = base + word_of_nat (length pre) \<and>
        length pre + length bs < 2 ^ 32)"

lemma sits_at_append:
  assumes "sits_at base code a (bs @ cs)"
  shows "sits_at base code a bs" "sits_at base code (a + word_of_nat (length bs)) cs"
proof -
  obtain pre post where p: "code = pre @ (bs @ cs) @ post" "a = base + word_of_nat (length pre)"
    "length pre + length (bs @ cs) < 2 ^ 32"
    using assms by (auto simp: sits_at_def)
  then show "sits_at base code a bs"
    unfolding sits_at_def by (intro exI [of _ pre] exI [of _ "cs @ post"]) simp
  from p show "sits_at base code (a + word_of_nat (length bs)) cs"
    unfolding sits_at_def by (intro exI [of _ "pre @ bs"] exI [of _ post]) simp
qed

text \<open>Code in the memory of a machine, for instructions that load from it.\<close>

definition holds_code :: "(u32 \<Rightarrow> u8) \<Rightarrow> u32 \<Rightarrow> u8 list \<Rightarrow> bool" where
  "holds_code M base code \<longleftrightarrow> (\<forall>i < length code. M (base + word_of_nat i) = code ! i)"

lemma load_sits_at:
  assumes "holds_code M base code" "sits_at base code a bs"
  shows "load_bytes (length bs) M a = le_word bs"
proof -
  obtain pre post where p: "code = pre @ bs @ post" "a = base + word_of_nat (length pre)"
    using assms(2) by (auto simp: sits_at_def)
  have "M (a + word_of_nat i) = bs ! i" if "i < length bs" for i
    using assms(1) that p unfolding holds_code_def
    by (auto simp: nth_append add.assoc dest!: spec [of _ "length pre + i"])
  then show ?thesis using load_bytes_le_word [of bs M a] by simp
qed

fun exec_all :: "('i \<Rightarrow> u32 \<Rightarrow> 'm \<Rightarrow> 'm) \<Rightarrow> ('i \<times> u8 list) list \<Rightarrow> 'm \<Rightarrow> 'm" where
  "exec_all exec [] m = m"
| "exec_all exec ((i, bs) # is) m = exec_all exec is (exec i (word_of_nat (length bs)) m)"

lemma exec_all_append: "exec_all exec (is @ is') m = exec_all exec is' (exec_all exec is m)"
  by (induction "is" arbitrary: m) auto

locale code_machine =
  fixes fetch :: "u8 list \<Rightarrow> nat \<Rightarrow> ('i \<times> u32) option"
    and exec :: "'i \<Rightarrow> u32 \<Rightarrow> 'm \<Rightarrow> 'm"
    and pcof :: "'m \<Rightarrow> u32"
    and step :: "u32 \<Rightarrow> u8 list \<Rightarrow> 'm \<Rightarrow> 'm option"
    and straight :: "'i \<Rightarrow> bool"
  assumes step_fetch: "fetch code (unat (pcof m - base)) = Some (i, len) \<Longrightarrow>
      step base code m = Some (exec i len m)"
    and pc_straight: "straight i \<Longrightarrow> pcof (exec i len m) = pcof m + len"
begin

lemma step_fetches:
  assumes "fetches_at fetch bs i" "sits_at base code (pcof m) bs"
  shows "step base code m = Some (exec i (word_of_nat (length bs)) m)"
proof -
  obtain pre post where p: "code = pre @ bs @ post" "pcof m = base + word_of_nat (length pre)"
    "length pre + length bs < 2 ^ 32"
    using assms(2) by (auto simp: sits_at_def)
  then have "unat (pcof m - base) = length pre" by (simp add: unat_of_nat)
  then show ?thesis using assms(1) p(1) by (intro step_fetch) (simp add: fetches_at_def)
qed

lemma reaches_step:
  assumes "fetches_at fetch bs i" "sits_at base code (pcof m) (bs @ rest)"
    "reaches step base code (exec i (word_of_nat (length bs)) m) m'"
  shows "reaches step base code m m'"
  using step_fetches [OF assms(1) sits_at_append(1) [OF assms(2)]] assms(3) by (rule reaches_Some)

lemma reaches_one:
  assumes "fetches_at fetch bs i" "sits_at base code (pcof m) bs"
  shows "reaches step base code m (exec i (word_of_nat (length bs)) m)"
  using step_fetches [OF assms] reaches_refl by (rule reaches_Some)

lemma reaches_all:
  assumes "list_all2 (fetches_at fetch) js is" "\<forall>i \<in> set (butlast is). straight i"
    "sits_at base code (pcof m) (concat js)"
  shows "reaches step base code m (exec_all exec (zip is js) m)"
  using assms
proof (induction arbitrary: m rule: list_all2_induct)
  case Nil
  then show ?case by (simp add: reaches_refl)
next
  case (Cons bs js i "is")
  have sits: "sits_at base code (pcof m) (bs @ concat js)" using Cons.prems(2) by simp
  have "reaches step base code (exec i (word_of_nat (length bs)) m)
      (exec_all exec (zip is js) (exec i (word_of_nat (length bs)) m))"
  proof (cases "is = []")
    case True
    then show ?thesis by (simp add: reaches_refl)
  next
    case False
    then have "straight i" "\<forall>i \<in> set (butlast is). straight i" using Cons.prems(1) by auto
    then show ?thesis
      using sits_at_append(2) [OF sits] by (intro Cons.IH) (auto simp: pc_straight)
  qed
  then show ?case using reaches_step [OF Cons.hyps(1) sits] by simp
qed

end

section \<open>Operations of an assembler and what their code does\<close>

text \<open>An emit-pass state with room for \<open>k\<close> more bytes.\<close>

definition emit_room :: "nat \<Rightarrow> ('w::len, 'z) mp_asm_base_t_scheme \<Rightarrow> bool" where
  "emit_room k as \<longleftrightarrow> \<not> suppress as \<and> in_emit_pass as \<and>
     (case code_base as of None \<Rightarrow> False | Some buf \<Rightarrow> unat (code_size as) \<le> length buf) \<and>
     unat (code_offset as) + k \<le> unat (code_size as)"

text \<open>
  \<open>f\<close> succeeds, and the code buffer it leaves, loaded at any address \<open>base\<close> that satisfies
  \<open>loaded\<close> and entered where \<open>f\<close> started writing, takes a machine \<open>m\<close> to some \<open>m'\<close> with
  \<open>R base next m m'\<close>, where \<open>next\<close> is the address behind the written code.
\<close>

definition emits_code ::
    "(u32 \<Rightarrow> u8 list \<Rightarrow> 'm \<Rightarrow> 'm option) \<Rightarrow> ('m \<Rightarrow> u32) \<Rightarrow> (u32 \<Rightarrow> u8 list \<Rightarrow> 'm \<Rightarrow> bool) \<Rightarrow>
      (32, 'z) mp_asm_base_t_scheme asm \<Rightarrow> (32, 'z) mp_asm_base_t_scheme \<Rightarrow>
      (u32 \<Rightarrow> u32 \<Rightarrow> 'm \<Rightarrow> 'm \<Rightarrow> bool) \<Rightarrow> bool" where
  "emits_code step pcof loaded f as R \<longleftrightarrow>
     (\<exists>as' code. f as = Inr as' \<and> code_base as' = Some code \<and>
        (\<forall>base m. loaded base code m \<longrightarrow> pcof m = base + code_offset as \<longrightarrow>
           (\<exists>m'. reaches step base code m m' \<and> R base (base + code_offset as') m m')))"

lemma emits_codeI:
  assumes "f as = emit_code js as1" "mp_asm_base_t.truncate as1 = mp_asm_base_t.truncate as"
    and "emit_room k as" "length (concat js) \<le> k"
    and "\<And>base code m. loaded base code m \<Longrightarrow> pcof m = base + code_offset as \<Longrightarrow>
      sits_at base code (pcof m) (concat js) \<Longrightarrow>
      \<exists>m'. reaches step base code m m' \<and> R base (pcof m + word_of_nat (length (concat js))) m m'"
  shows "emits_code step pcof loaded f as R"
proof -
  obtain buf where room: "\<not> suppress as" "in_emit_pass as" "code_base as = Some buf"
    "unat (code_size as) \<le> length buf" "unat (code_offset as) + length (concat js) \<le> unat (code_size as)"
    using assms(3,4) by (auto simp: emit_room_def split: option.splits)
  have same: "suppress as1 = suppress as" "pass as1 = pass as" "code_base as1 = code_base as"
    "code_size as1 = code_size as" "code_offset as1 = code_offset as"
    using assms(2) by (auto simp: mp_asm_base_t.defs)
  let ?code = "store_at (unat (code_offset as)) (concat js) buf"
  have run: "f as = Inr (as1\<lparr>code_offset := code_offset as + word_of_nat (length (concat js)), code_base := Some ?code\<rparr>)"
    unfolding assms(1) using emit_code_store [of as1 buf js] room same
    by (simp add: in_emit_pass_def)
  have "sits_at base ?code (base + code_offset as) (concat js)" for base
    unfolding sits_at_def
  proof (intro exI conjI)
    show "?code = take (unat (code_offset as)) buf @ concat js @
        drop (unat (code_offset as) + length (concat js)) buf"
      by (simp add: store_at_def)
    have len: "length (take (unat (code_offset as)) buf) = unat (code_offset as)" using room by simp
    show "base + code_offset as = base + word_of_nat (length (take (unat (code_offset as)) buf))"
      unfolding len by simp
    have "unat (code_size as) < 2 ^ 32" using unsigned_less [of "code_size as"] by simp
    then show "length (take (unat (code_offset as)) buf) + length (concat js) < 2 ^ 32"
      unfolding len using room(5) by linarith
  qed
  then have "\<exists>m'. reaches step base ?code m m' \<and>
      R base (base + (code_offset as + word_of_nat (length (concat js)))) m m'"
    if "loaded base ?code m" "pcof m = base + code_offset as" for base m
    using assms(5) [OF that] that(2) by (simp add: add.assoc)
  with run show ?thesis unfolding emits_code_def by auto
qed

lemma emits_code_mono:
  assumes "emits_code step pcof loaded f as R" "\<And>base next m m'. R base next m m' \<Longrightarrow> R' base next m m'"
  shows "emits_code step pcof loaded f as R'"
  using assms unfolding emits_code_def by metis

lemma emits_code_update:
  assumes "emits_code step pcof loaded g as R" "\<And>s. code_base (u s) = code_base s \<and> code_offset (u s) = code_offset s"
    and "f as = asm_seq [g, \<lambda>s. Inr (u s)] as"
  shows "emits_code step pcof loaded f as R"
  using assms unfolding emits_code_def by fastforce

lemma emits_code_cong:
  "emits_code step pcof loaded g as R \<Longrightarrow> f as = g as \<Longrightarrow> emits_code step pcof loaded f as R"
  by (simp add: emits_code_def)

lemma emit_room_weaken: "emit_room k as \<Longrightarrow> j \<le> k \<Longrightarrow> emit_room j as"
  by (auto simp: emit_room_def)

lemma length_concat: "length (concat js) = sum_list (map length js)"
  by (induction js) simp_all

text \<open>Code without jumps: it runs to its end.\<close>

context code_machine
begin

lemma pc_all:
  "\<forall>i \<in> set is. straight i \<Longrightarrow> length js = length is \<Longrightarrow>
     pcof (exec_all exec (zip is js) m) = pcof m + word_of_nat (length (concat js))"
proof (induction "is" arbitrary: js m)
  case (Cons i "is")
  then obtain bs js' where js: "js = bs # js'" by (cases js) auto
  with Cons.prems Cons.IH [of js' "exec i (word_of_nat (length bs)) m"] show ?case
    by (simp add: pc_straight add.assoc)
qed simp

lemma straight_emits:
  assumes "f as = emit_code js as" "emit_room k as" "length (concat js) \<le> k"
    and "list_all2 (fetches_at fetch) js ins" "\<forall>i \<in> set ins. straight i"
    and "\<And>base code m. loaded base code m \<Longrightarrow> R base m (exec_all exec (zip ins js) m)"
  shows "emits_code step pcof loaded f as (\<lambda>base next m m'. pcof m' = next \<and> R base m m')"
proof (rule emits_codeI [where f = f and js = js, OF assms(1) refl assms(2,3)])
  fix base code m
  assume m: "loaded base code m" "sits_at base code (pcof m) (concat js)"
  have "reaches step base code m (exec_all exec (zip ins js) m)"
    using assms(5) by (intro reaches_all assms(4) m(2)) (auto dest: in_set_butlastD)
  then show "\<exists>m'. reaches step base code m m' \<and>
      pcof m' = pcof m + word_of_nat (length (concat js)) \<and> R base m m'"
    by (rule reaches_exI)
      (use assms(6) [OF m(1)] pc_all [OF assms(5)] list_all2_lengthD [OF assms(4)] in simp)
qed

lemma pieces_emits:
  assumes "f as = emit_code js as" "emit_room k as" "length (concat js) \<le> k" "concat js = concat ks"
    and "list_all2 (fetches_at fetch) ks ins" "\<forall>i \<in> set (butlast ins). straight i"
    and "\<And>base code m. loaded base code m \<Longrightarrow> pcof m = base + code_offset as \<Longrightarrow>
      R base (pcof m + word_of_nat (length (concat js))) m (exec_all exec (zip ins ks) m)"
  shows "emits_code step pcof loaded f as R"
proof (rule emits_codeI [where f = f and js = js, OF assms(1) refl assms(2,3)])
  fix base code m
  assume m: "loaded base code m" "pcof m = base + code_offset as" "sits_at base code (pcof m) (concat js)"
  have "reaches step base code m (exec_all exec (zip ins ks) m)"
    using assms(4) m(3) by (intro reaches_all assms(5,6)) simp
  then show "\<exists>m'. reaches step base code m m' \<and> R base (pcof m + word_of_nat (length (concat js))) m m'"
    by (rule reaches_exI) (rule assms(7) [OF m(1,2)])
qed

end

end
