(* ===== verification/RV32_ISA.thy ===== *)
theory RV32_ISA
  imports Machine_Code
begin

text \<open>
  A specification of the part of RV32IMC and Zba that the RISC-V assembler generates, after
  the RISC-V unprivileged manual: decoding of 32-bit and 16-bit instructions and one step of
  a machine with 32 registers and byte-addressed memory. It is written independently of the
  encodings of the assembler, so that running emitted code here says what that code does.
  Encodings the assembler never uses decode to \<open>None\<close>.
\<close>

section \<open>Instructions\<close>

datatype rv_alu = Add | Sub | Sll | Slt | Sltu | Xor | Srl | Sra | Or | And | Mul | Sh1add | Sh2add | Sh3add

datatype rv_cond = Eq | Ne | Lt | Ge | Ltu | Geu

datatype rv_instr =
    LUI nat u32
  | AUIPC nat u32
  | OP rv_alu nat nat nat
  | OP_IMM rv_alu nat nat u32
  | LOAD nat bool nat nat u32
  | STORE nat nat nat u32
  | BRANCH rv_cond nat nat u32
  | JAL nat u32
  | JALR nat nat u32

text \<open>\<open>LOAD n sx rd rs imm\<close> reads \<open>n\<close> bytes and sign-extends when \<open>sx\<close>.\<close>

section \<open>Machine\<close>

record rv_machine =
  regs :: "nat \<Rightarrow> u32"
  pc :: u32
  mem :: "u32 \<Rightarrow> u8"

definition rget :: "rv_machine \<Rightarrow> nat \<Rightarrow> u32" where
  "rget m r = (if r = 0 then 0 else regs m r)"

definition rset :: "nat \<Rightarrow> u32 \<Rightarrow> rv_machine \<Rightarrow> rv_machine" where
  "rset r v m = (if r = 0 then m else m\<lparr>regs := (regs m)(r := v)\<rparr>)"

abbreviation mem_load :: "nat \<Rightarrow> (u32 \<Rightarrow> u8) \<Rightarrow> u32 \<Rightarrow> u32" where
  "mem_load \<equiv> load_bytes"

abbreviation mem_store :: "nat \<Rightarrow> u32 \<Rightarrow> u32 \<Rightarrow> (u32 \<Rightarrow> u8) \<Rightarrow> (u32 \<Rightarrow> u8)" where
  "mem_store \<equiv> store_bytes"

fun rv_alu_fun :: "rv_alu \<Rightarrow> u32 \<Rightarrow> u32 \<Rightarrow> u32" where
  "rv_alu_fun Add a b = a + b"
| "rv_alu_fun Sub a b = a - b"
| "rv_alu_fun Sll a b = push_bit (unat (b AND 31)) a"
| "rv_alu_fun Slt a b = (if sint a < sint b then 1 else 0)"
| "rv_alu_fun Sltu a b = (if a < b then 1 else 0)"
| "rv_alu_fun Xor a b = a XOR b"
| "rv_alu_fun Srl a b = drop_bit (unat (b AND 31)) a"
| "rv_alu_fun Sra a b = signed_drop_bit (unat (b AND 31)) a"
| "rv_alu_fun Or a b = a OR b"
| "rv_alu_fun And a b = a AND b"
| "rv_alu_fun Mul a b = a * b"
| "rv_alu_fun Sh1add a b = push_bit 1 a + b"
| "rv_alu_fun Sh2add a b = push_bit 2 a + b"
| "rv_alu_fun Sh3add a b = push_bit 3 a + b"

fun rv_cond_holds :: "rv_cond \<Rightarrow> u32 \<Rightarrow> u32 \<Rightarrow> bool" where
  "rv_cond_holds Eq a b = (a = b)"
| "rv_cond_holds Ne a b = (a \<noteq> b)"
| "rv_cond_holds Lt a b = (sint a < sint b)"
| "rv_cond_holds Ge a b = (sint a \<ge> sint b)"
| "rv_cond_holds Ltu a b = (a < b)"
| "rv_cond_holds Geu a b = (a \<ge> b)"

text \<open>One instruction of \<open>len\<close> bytes at the current \<open>pc\<close>.\<close>

fun rv_exec :: "rv_instr \<Rightarrow> u32 \<Rightarrow> rv_machine \<Rightarrow> rv_machine" where
  "rv_exec (LUI rd imm) len m = (rset rd imm m)\<lparr>pc := pc m + len\<rparr>"
| "rv_exec (AUIPC rd imm) len m = (rset rd (pc m + imm) m)\<lparr>pc := pc m + len\<rparr>"
| "rv_exec (OP f rd rs1 rs2) len m =
     (rset rd (rv_alu_fun f (rget m rs1) (rget m rs2)) m)\<lparr>pc := pc m + len\<rparr>"
| "rv_exec (OP_IMM f rd rs imm) len m =
     (rset rd (rv_alu_fun f (rget m rs) imm) m)\<lparr>pc := pc m + len\<rparr>"
| "rv_exec (LOAD n sx rd rs imm) len m =
     (let v = mem_load n (mem m) (rget m rs + imm)
      in (rset rd (if sx then signed_take_bit (8 * n - 1) v else v) m)\<lparr>pc := pc m + len\<rparr>)"
| "rv_exec (STORE n rs2 rs1 imm) len m =
     m\<lparr>mem := mem_store n (rget m rs1 + imm) (rget m rs2) (mem m), pc := pc m + len\<rparr>"
| "rv_exec (BRANCH c rs1 rs2 imm) len m =
     m\<lparr>pc := (if rv_cond_holds c (rget m rs1) (rget m rs2) then pc m + imm else pc m + len)\<rparr>"
| "rv_exec (JAL rd imm) len m = (rset rd (pc m + len) m)\<lparr>pc := pc m + imm\<rparr>"
| "rv_exec (JALR rd rs imm) len m =
     (rset rd (pc m + len) m)\<lparr>pc := (rget m rs + imm) AND NOT 1\<rparr>"

section \<open>Decoding\<close>

subsection \<open>32-bit instructions\<close>

abbreviation field :: "u32 \<Rightarrow> nat \<Rightarrow> nat \<Rightarrow> u32" where
  "field w lo n \<equiv> take_bit n (drop_bit lo w)"

definition imm_I :: "u32 \<Rightarrow> u32" where
  "imm_I w = signed_take_bit 11 (field w 20 12)"

definition imm_S :: "u32 \<Rightarrow> u32" where
  "imm_S w = signed_take_bit 11 (field w 7 5 OR push_bit 5 (field w 25 7))"

definition imm_B :: "u32 \<Rightarrow> u32" where
  "imm_B w = signed_take_bit 12
     (push_bit 1 (field w 8 4) OR push_bit 5 (field w 25 6) OR push_bit 11 (field w 7 1) OR
      push_bit 12 (field w 31 1))"

definition imm_U :: "u32 \<Rightarrow> u32" where
  "imm_U w = push_bit 12 (drop_bit 12 w)"

definition imm_J :: "u32 \<Rightarrow> u32" where
  "imm_J w = signed_take_bit 20
     (push_bit 1 (field w 21 10) OR push_bit 11 (field w 20 1) OR push_bit 12 (field w 12 8) OR
      push_bit 20 (field w 31 1))"

definition rv_op_alu :: "u32 \<Rightarrow> u32 \<Rightarrow> rv_alu option" where
  "rv_op_alu f7 f3 =
     (if f7 = 0 then
        (if f3 = 0 then Some Add else if f3 = 1 then Some Sll else if f3 = 2 then Some Slt
         else if f3 = 3 then Some Sltu else if f3 = 4 then Some Xor else if f3 = 5 then Some Srl
         else if f3 = 6 then Some Or else Some And)
      else if f7 = 0x20 then (if f3 = 0 then Some Sub else if f3 = 5 then Some Sra else None)
      else if f7 = 1 then (if f3 = 0 then Some Mul else None)
      else if f7 = 0x10 then
        (if f3 = 2 then Some Sh1add else if f3 = 4 then Some Sh2add
         else if f3 = 6 then Some Sh3add else None)
      else None)"

definition rv_cond_of :: "u32 \<Rightarrow> rv_cond option" where
  "rv_cond_of f3 =
     (if f3 = 0 then Some Eq else if f3 = 1 then Some Ne else if f3 = 4 then Some Lt
      else if f3 = 5 then Some Ge else if f3 = 6 then Some Ltu else if f3 = 7 then Some Geu
      else None)"

definition rv_decode_op_imm :: "u32 \<Rightarrow> rv_instr option" where
  "rv_decode_op_imm w =
     (let f3 = field w 12 3; rd = unat (field w 7 5); rs = unat (field w 15 5);
          f7 = field w 25 7; shamt = field w 20 5
      in if f3 = 0 then Some (OP_IMM Add rd rs (imm_I w))
      else if f3 = 2 then Some (OP_IMM Slt rd rs (imm_I w))
      else if f3 = 3 then Some (OP_IMM Sltu rd rs (imm_I w))
      else if f3 = 4 then Some (OP_IMM Xor rd rs (imm_I w))
      else if f3 = 6 then Some (OP_IMM Or rd rs (imm_I w))
      else if f3 = 7 then Some (OP_IMM And rd rs (imm_I w))
      else if f3 = 1 then (if f7 = 0 then Some (OP_IMM Sll rd rs shamt) else None)
      else if f7 = 0 then Some (OP_IMM Srl rd rs shamt)
      else if f7 = 0x20 then Some (OP_IMM Sra rd rs shamt) else None)"

definition rv_decode_load :: "u32 \<Rightarrow> rv_instr option" where
  "rv_decode_load w =
     (let f3 = field w 12 3; rd = unat (field w 7 5); rs = unat (field w 15 5)
      in if f3 = 0 then Some (LOAD 1 True rd rs (imm_I w))
      else if f3 = 1 then Some (LOAD 2 True rd rs (imm_I w))
      else if f3 = 2 then Some (LOAD 4 False rd rs (imm_I w))
      else if f3 = 4 then Some (LOAD 1 False rd rs (imm_I w))
      else if f3 = 5 then Some (LOAD 2 False rd rs (imm_I w)) else None)"

definition rv_decode_store :: "u32 \<Rightarrow> rv_instr option" where
  "rv_decode_store w =
     (let f3 = field w 12 3; rs1 = unat (field w 15 5); rs2 = unat (field w 20 5)
      in if f3 = 0 then Some (STORE 1 rs2 rs1 (imm_S w))
      else if f3 = 1 then Some (STORE 2 rs2 rs1 (imm_S w))
      else if f3 = 2 then Some (STORE 4 rs2 rs1 (imm_S w)) else None)"

definition rv_decode32 :: "u32 \<Rightarrow> rv_instr option" where
  "rv_decode32 w =
     (let opc = field w 0 7; f3 = field w 12 3; f7 = field w 25 7; rd = unat (field w 7 5);
          rs1 = unat (field w 15 5); rs2 = unat (field w 20 5)
      in if opc = 0x37 then Some (LUI rd (imm_U w))
      else if opc = 0x17 then Some (AUIPC rd (imm_U w))
      else if opc = 0x33 then map_option (\<lambda>f. OP f rd rs1 rs2) (rv_op_alu f7 f3)
      else if opc = 0x13 then rv_decode_op_imm w
      else if opc = 0x03 then rv_decode_load w
      else if opc = 0x23 then rv_decode_store w
      else if opc = 0x63 then map_option (\<lambda>c. BRANCH c rs1 rs2 (imm_B w)) (rv_cond_of f3)
      else if opc = 0x6F then Some (JAL rd (imm_J w))
      else if opc = 0x67 \<and> f3 = 0 then Some (JALR rd rs1 (imm_I w))
      else None)"

subsection \<open>16-bit instructions\<close>

definition imm_CI :: "u32 \<Rightarrow> u32" where
  "imm_CI w = signed_take_bit 5 (field w 2 5 OR push_bit 5 (field w 12 1))"

definition imm_CJ :: "u32 \<Rightarrow> u32" where
  "imm_CJ w = signed_take_bit 11
     (push_bit 1 (field w 3 3) OR push_bit 4 (field w 11 1) OR push_bit 5 (field w 2 1) OR
      push_bit 6 (field w 7 1) OR push_bit 7 (field w 6 1) OR push_bit 8 (field w 9 2) OR
      push_bit 10 (field w 8 1) OR push_bit 11 (field w 12 1))"

definition imm_CB :: "u32 \<Rightarrow> u32" where
  "imm_CB w = signed_take_bit 8
     (push_bit 1 (field w 3 2) OR push_bit 3 (field w 10 2) OR push_bit 5 (field w 2 1) OR
      push_bit 6 (field w 5 2) OR push_bit 8 (field w 12 1))"

definition uimm_CL :: "u32 \<Rightarrow> u32" where
  "uimm_CL w = push_bit 2 (field w 6 1) OR push_bit 3 (field w 10 3) OR push_bit 6 (field w 5 1)"

definition uimm_LWSP :: "u32 \<Rightarrow> u32" where
  "uimm_LWSP w = push_bit 2 (field w 4 3) OR push_bit 5 (field w 12 1) OR push_bit 6 (field w 2 2)"

definition uimm_SWSP :: "u32 \<Rightarrow> u32" where
  "uimm_SWSP w = push_bit 2 (field w 9 4) OR push_bit 6 (field w 7 2)"

definition uimm_CIW :: "u32 \<Rightarrow> u32" where
  "uimm_CIW w = push_bit 2 (field w 6 1) OR push_bit 3 (field w 5 1) OR push_bit 4 (field w 11 2) OR
     push_bit 6 (field w 7 4)"

definition rv_decode_q0 :: "u32 \<Rightarrow> rv_instr option" where
  "rv_decode_q0 w =
     (let f3 = field w 13 3; rd' = 8 + unat (field w 2 3); rs' = 8 + unat (field w 7 3)
      in if f3 = 0 then (if uimm_CIW w = 0 then None else Some (OP_IMM Add rd' 2 (uimm_CIW w)))
      else if f3 = 2 then Some (LOAD 4 False rd' rs' (uimm_CL w))
      else if f3 = 6 then Some (STORE 4 rd' rs' (uimm_CL w)) else None)"

definition rv_decode_q1 :: "u32 \<Rightarrow> rv_instr option" where
  "rv_decode_q1 w =
     (let f3 = field w 13 3; rd = unat (field w 7 5); rs' = 8 + unat (field w 7 3)
      in if f3 = 0 then Some (OP_IMM Add rd rd (imm_CI w))
      else if f3 = 1 then Some (JAL 1 (imm_CJ w))
      else if f3 = 2 then Some (OP_IMM Add rd 0 (imm_CI w))
      else if f3 = 3 then
        (if rd = 2 \<or> imm_CI w = 0 then None else Some (LUI rd (push_bit 12 (imm_CI w))))
      else if f3 = 5 then Some (JAL 0 (imm_CJ w))
      else if f3 = 6 then Some (BRANCH Eq rs' 0 (imm_CB w))
      else if f3 = 7 then Some (BRANCH Ne rs' 0 (imm_CB w)) else None)"

definition rv_decode_q2 :: "u32 \<Rightarrow> rv_instr option" where
  "rv_decode_q2 w =
     (let f3 = field w 13 3; rd = unat (field w 7 5); rs2 = unat (field w 2 5); b12 = field w 12 1
      in if f3 = 2 then (if rd = 0 then None else Some (LOAD 4 False rd 2 (uimm_LWSP w)))
      else if f3 = 6 then Some (STORE 4 rs2 2 (uimm_SWSP w))
      else if f3 = 4 then
        (if b12 = 0 then
           (if rs2 = 0 then (if rd = 0 then None else Some (JALR 0 rd 0)) else Some (OP Add rd 0 rs2))
         else
           (if rs2 = 0 then (if rd = 0 then None else Some (JALR 1 rd 0)) else Some (OP Add rd rd rs2)))
      else None)"

definition rv_decode16 :: "u32 \<Rightarrow> rv_instr option" where
  "rv_decode16 w =
     (let q = field w 0 2 in if q = 0 then rv_decode_q0 w else if q = 1 then rv_decode_q1 w
      else if q = 2 then rv_decode_q2 w else None)"

section \<open>Running code\<close>

text \<open>The instruction that starts at an offset of a byte list, with its length.\<close>

definition rv_fetch :: "u8 list \<Rightarrow> nat \<Rightarrow> (rv_instr \<times> u32) option" where
  "rv_fetch code off =
     (if length code < off + 2 then None
      else let h = le_word (take 2 (drop off code))
      in if take_bit 2 h = 3
         then if length code < off + 4 then None
              else map_option (\<lambda>i. (i, 4)) (rv_decode32 (le_word (take 4 (drop off code))))
         else map_option (\<lambda>i. (i, 2)) (rv_decode16 h))"

text \<open>One step of a machine that has \<open>code\<close> at address \<open>base\<close>.\<close>

definition rv_step :: "u32 \<Rightarrow> u8 list \<Rightarrow> rv_machine \<Rightarrow> rv_machine option" where
  "rv_step base code m =
     (case rv_fetch code (unat (pc m - base)) of
        None \<Rightarrow> None | Some (i, len) \<Rightarrow> Some (rv_exec i len m))"

end
