(* ===== verification/RV32_Encodings.thy ===== *)
theory RV32_Encodings
  imports RV32_ISA Asm_RV32
begin

text \<open>
  The encodings of the assembler against the decoder of the specification: what each
  encoding macro of \<open>asmrv32.h\<close> is decoded to, the ranges the \<open>FIT_\<close> macros test, and the
  split of an immediate into its upper and lower parts.
\<close>

section \<open>Registers and ranges\<close>

text \<open>The register an operand names.\<close>

definition rv_reg :: "u32 \<Rightarrow> nat" where
  "rv_reg r = unat (take_bit 5 r)"

lemma rv_reg_eq: "r < 32 \<Longrightarrow> rv_reg r = unat r"
proof -
  assume "r < 32"
  then have "unat r < 2 ^ 5" by (simp add: word_less_nat_alt)
  then show ?thesis by (simp add: rv_reg_def unsigned_take_bit_eq take_bit_nat_eq_self)
qed

lemma rv_reg_numeral [simp]: "rv_reg 0 = 0" "rv_reg 1 = 1" "rv_reg (numeral n) = unat (take_bit 5 (numeral n :: u32))"
  by (simp_all add: rv_reg_def)

lemma rv_reg_window:
  assumes "RV32_IS_IN_C_REGISTER_WINDOW r"
  shows "8 + unat (take_bit 3 (RV32_MAP_IN_C_REGISTER_WINDOW r)) = unat r"
proof -
  have r: "8 \<le> unat r" "unat r \<le> 15"
    using assms by (simp_all add: RV32_IS_IN_C_REGISTER_WINDOW_def asm_consts word_le_nat_alt)
  then have "unat (r - 8) = unat r - 8"
    by (simp add: unat_sub word_le_nat_alt)
  then show ?thesis
    using r by (simp add: RV32_MAP_IN_C_REGISTER_WINDOW_def asm_consts unsigned_take_bit_eq
        take_bit_nat_eq_self)
qed

lemma window_less_32: "RV32_IS_IN_C_REGISTER_WINDOW r \<Longrightarrow> r < 32"
  by (auto simp: RV32_IS_IN_C_REGISTER_WINDOW_def asm_consts intro: order_le_less_trans)

text \<open>\<open>FIT_SIGNED\<close> tests that sign extension from the given width gives the value back.\<close>

lemma FIT_SIGNED_iff:
  "FIT_SIGNED v 6 \<longleftrightarrow> signed_take_bit 5 v = v"
  "FIT_SIGNED v 8 \<longleftrightarrow> signed_take_bit 7 v = v"
  "FIT_SIGNED v 12 \<longleftrightarrow> signed_take_bit 11 v = v"
  "FIT_SIGNED v 13 \<longleftrightarrow> signed_take_bit 12 v = v"
  "FIT_SIGNED v 17 \<longleftrightarrow> signed_take_bit 16 v = v"
  unfolding FIT_SIGNED_def word32_eq_iff_bits
  by (simp_all add: bit_simps) argo+

lemma FIT_UNSIGNED_iff:
  "FIT_UNSIGNED v 6 \<longleftrightarrow> take_bit 6 v = v"
  "FIT_UNSIGNED v 10 \<longleftrightarrow> take_bit 10 v = v"
  "FIT_UNSIGNED v 11 \<longleftrightarrow> take_bit 11 v = v"
  unfolding FIT_UNSIGNED_def word32_eq_iff_bits
  by (simp_all add: bit_simps) 

section \<open>Fields of the encodings\<close>

lemma encode_I_fields:
  "field (RV32_ENCODE_TYPE_I op ft3 rd rs imm) 0 7 = take_bit 7 op"
  "field (RV32_ENCODE_TYPE_I op ft3 rd rs imm) 7 5 = take_bit 5 rd"
  "field (RV32_ENCODE_TYPE_I op ft3 rd rs imm) 12 3 = take_bit 3 ft3"
  "field (RV32_ENCODE_TYPE_I op ft3 rd rs imm) 15 5 = take_bit 5 rs"
  "field (RV32_ENCODE_TYPE_I op ft3 rd rs imm) 20 5 = take_bit 5 imm"
  "field (RV32_ENCODE_TYPE_I op ft3 rd rs imm) 25 7 = take_bit 7 (drop_bit 5 imm)"
  "imm_I (RV32_ENCODE_TYPE_I op ft3 rd rs imm) = signed_take_bit 11 imm"
  unfolding asm_encodes imm_I_def word32_eq_iff_bits by (simp_all only: list.pred_inject bit_simps) (simp_all add: word_bits_simps)

lemma encode_U_fields:
  "field (RV32_ENCODE_TYPE_U op rd imm) 0 7 = take_bit 7 op"
  "field (RV32_ENCODE_TYPE_U op rd imm) 7 5 = take_bit 5 rd"
  "imm_U (RV32_ENCODE_TYPE_U op rd imm) = imm AND 0xFFFFF000"
  unfolding asm_encodes imm_U_def word32_eq_iff_bits by (simp_all only: list.pred_inject bit_simps) (simp_all add: word_bits_simps)

lemma encode_R_fields:
  "field (RV32_ENCODE_TYPE_R op ft3 ft7 rd rs1 rs2) 0 7 = take_bit 7 op"
  "field (RV32_ENCODE_TYPE_R op ft3 ft7 rd rs1 rs2) 7 5 = take_bit 5 rd"
  "field (RV32_ENCODE_TYPE_R op ft3 ft7 rd rs1 rs2) 12 3 = take_bit 3 ft3"
  "field (RV32_ENCODE_TYPE_R op ft3 ft7 rd rs1 rs2) 15 5 = take_bit 5 rs1"
  "field (RV32_ENCODE_TYPE_R op ft3 ft7 rd rs1 rs2) 20 5 = take_bit 5 rs2"
  "field (RV32_ENCODE_TYPE_R op ft3 ft7 rd rs1 rs2) 25 7 = take_bit 7 ft7"
  unfolding asm_encodes word32_eq_iff_bits by (simp_all only: list.pred_inject bit_simps) (simp_all add: word_bits_simps)

lemma encode_S_fields:
  "field (RV32_ENCODE_TYPE_S op ft3 rs1 rs2 imm) 0 7 = take_bit 7 op"
  "field (RV32_ENCODE_TYPE_S op ft3 rs1 rs2 imm) 12 3 = take_bit 3 ft3"
  "field (RV32_ENCODE_TYPE_S op ft3 rs1 rs2 imm) 15 5 = take_bit 5 rs1"
  "field (RV32_ENCODE_TYPE_S op ft3 rs1 rs2 imm) 20 5 = take_bit 5 rs2"
  "imm_S (RV32_ENCODE_TYPE_S op ft3 rs1 rs2 imm) = signed_take_bit 11 imm"
  unfolding asm_encodes imm_S_def word32_eq_iff_bits by (simp_all only: list.pred_inject bit_simps) (simp_all add: word_bits_simps)

lemma encode_B_fields:
  "field (RV32_ENCODE_TYPE_B op ft3 rs1 rs2 imm) 0 7 = take_bit 7 op"
  "field (RV32_ENCODE_TYPE_B op ft3 rs1 rs2 imm) 12 3 = take_bit 3 ft3"
  "field (RV32_ENCODE_TYPE_B op ft3 rs1 rs2 imm) 15 5 = take_bit 5 rs1"
  "field (RV32_ENCODE_TYPE_B op ft3 rs1 rs2 imm) 20 5 = take_bit 5 rs2"
  "imm_B (RV32_ENCODE_TYPE_B op ft3 rs1 rs2 imm) = signed_take_bit 12 (imm AND NOT 1)"
  unfolding asm_encodes imm_B_def word32_eq_iff_bits by (simp_all only: list.pred_inject bit_simps) (simp_all add: word_bits_simps)

lemma encode_J_fields:
  "field (RV32_ENCODE_TYPE_J op rd imm) 0 7 = take_bit 7 op"
  "field (RV32_ENCODE_TYPE_J op rd imm) 7 5 = take_bit 5 rd"
  "imm_J (RV32_ENCODE_TYPE_J op rd imm) = signed_take_bit 20 (imm AND NOT 1)"
  unfolding asm_encodes imm_J_def word32_eq_iff_bits by (simp_all only: list.pred_inject bit_simps) (simp_all add: word_bits_simps)

lemma encode_CI_fields:
  "field (RV32_ENCODE_TYPE_CI op ft3 rd imm) 0 2 = take_bit 2 op"
  "field (RV32_ENCODE_TYPE_CI op ft3 rd imm) 13 3 = take_bit 3 ft3"
  "field (RV32_ENCODE_TYPE_CI op ft3 rd imm) 7 5 = take_bit 5 rd"
  "imm_CI (RV32_ENCODE_TYPE_CI op ft3 rd imm) = signed_take_bit 5 imm"
  "uimm_LWSP (RV32_ENCODE_TYPE_CI op ft3 rd (drop_bit 6 (imm AND 0xC0) OR (imm AND 0x3C))) = imm AND 0xFC"
  "take_bit 16 (RV32_ENCODE_TYPE_CI op ft3 rd imm) = RV32_ENCODE_TYPE_CI op ft3 rd imm"
  unfolding asm_encodes imm_CI_def uimm_LWSP_def word32_eq_iff_bits by (simp_all only: list.pred_inject bit_simps) (simp_all add: word_bits_simps)

lemma encode_CR_fields:
  "field (RV32_ENCODE_TYPE_CR op ft4 rs1 rs2) 0 2 = take_bit 2 op"
  "field (RV32_ENCODE_TYPE_CR op ft4 rs1 rs2) 13 3 = field ft4 1 3"
  "field (RV32_ENCODE_TYPE_CR op ft4 rs1 rs2) 12 1 = take_bit 1 ft4"
  "field (RV32_ENCODE_TYPE_CR op ft4 rs1 rs2) 7 5 = take_bit 5 rs1"
  "field (RV32_ENCODE_TYPE_CR op ft4 rs1 rs2) 2 5 = take_bit 5 rs2"
  "take_bit 16 (RV32_ENCODE_TYPE_CR op ft4 rs1 rs2) = RV32_ENCODE_TYPE_CR op ft4 rs1 rs2"
  unfolding asm_encodes word32_eq_iff_bits by (simp_all only: list.pred_inject bit_simps) (simp_all add: word_bits_simps)

lemma encode_CJ_fields:
  "field (RV32_ENCODE_TYPE_CJ op ft3 imm) 0 2 = take_bit 2 op"
  "field (RV32_ENCODE_TYPE_CJ op ft3 imm) 13 3 = take_bit 3 ft3"
  "imm_CJ (RV32_ENCODE_TYPE_CJ op ft3 imm) = signed_take_bit 11 (imm AND NOT 1)"
  "take_bit 16 (RV32_ENCODE_TYPE_CJ op ft3 imm) = RV32_ENCODE_TYPE_CJ op ft3 imm"
  unfolding asm_encodes imm_CJ_def word32_eq_iff_bits by (simp_all only: list.pred_inject bit_simps) (simp_all add: word_bits_simps)

text \<open>How the branches scramble their offset before the encoding.\<close>

abbreviation CB_offset :: "u32 \<Rightarrow> u32" where
  "CB_offset offset \<equiv> drop_bit 1 (offset AND 0x100) OR drop_bit 3 (offset AND 0xC0) OR
     drop_bit 5 (offset AND 0x20) OR push_bit 2 (offset AND 0x18) OR (offset AND 0x06)"

lemma encode_CB_fields:
  "field (RV32_ENCODE_TYPE_CB op ft3 rs imm) 0 2 = take_bit 2 op"
  "field (RV32_ENCODE_TYPE_CB op ft3 rs imm) 13 3 = take_bit 3 ft3"
  "field (RV32_ENCODE_TYPE_CB op ft3 rs imm) 7 3 = take_bit 3 rs"
  "imm_CB (RV32_ENCODE_TYPE_CB op ft3 rs (CB_offset imm)) = signed_take_bit 8 (imm AND NOT 1)"
  "take_bit 16 (RV32_ENCODE_TYPE_CB op ft3 rs imm) = RV32_ENCODE_TYPE_CB op ft3 rs imm"
  unfolding asm_encodes imm_CB_def word32_eq_iff_bits by (simp_all only: list.pred_inject bit_simps) (simp_all add: word_bits_simps)

lemma encode_CL_fields:
  "field (RV32_ENCODE_TYPE_CL op ft3 rd rs imm) 0 2 = take_bit 2 op"
  "field (RV32_ENCODE_TYPE_CL op ft3 rd rs imm) 13 3 = take_bit 3 ft3"
  "field (RV32_ENCODE_TYPE_CL op ft3 rd rs imm) 2 3 = take_bit 3 rd"
  "field (RV32_ENCODE_TYPE_CL op ft3 rd rs imm) 7 3 = take_bit 3 rs"
  "uimm_CL (RV32_ENCODE_TYPE_CL op ft3 rd rs imm) = imm AND 0x7C"
  "take_bit 16 (RV32_ENCODE_TYPE_CL op ft3 rd rs imm) = RV32_ENCODE_TYPE_CL op ft3 rd rs imm"
  unfolding asm_encodes uimm_CL_def word32_eq_iff_bits by (simp_all only: list.pred_inject bit_simps) (simp_all add: word_bits_simps)

lemma encode_CSS_fields:
  "field (RV32_ENCODE_TYPE_CSS op ft3 rs imm) 0 2 = take_bit 2 op"
  "field (RV32_ENCODE_TYPE_CSS op ft3 rs imm) 13 3 = take_bit 3 ft3"
  "field (RV32_ENCODE_TYPE_CSS op ft3 rs imm) 2 5 = take_bit 5 rs"
  "uimm_SWSP (RV32_ENCODE_TYPE_CSS op ft3 rs (drop_bit 6 (imm AND 0xC0) OR (imm AND 0x3C))) = imm AND 0xFC"
  "take_bit 16 (RV32_ENCODE_TYPE_CSS op ft3 rs imm) = RV32_ENCODE_TYPE_CSS op ft3 rs imm"
  unfolding asm_encodes uimm_SWSP_def word32_eq_iff_bits by (simp_all only: list.pred_inject bit_simps) (simp_all add: word_bits_simps)

lemma encode_CIW_fields:
  "field (RV32_ENCODE_TYPE_CIW op ft3 rd imm) 0 2 = take_bit 2 op"
  "field (RV32_ENCODE_TYPE_CIW op ft3 rd imm) 13 3 = take_bit 3 ft3"
  "field (RV32_ENCODE_TYPE_CIW op ft3 rd imm) 2 3 = take_bit 3 rd"
  "uimm_CIW (RV32_ENCODE_TYPE_CIW op ft3 rd imm) = imm AND 0x3FC"
  "take_bit 16 (RV32_ENCODE_TYPE_CIW op ft3 rd imm) = RV32_ENCODE_TYPE_CIW op ft3 rd imm"
  unfolding asm_encodes uimm_CIW_def word32_eq_iff_bits by (simp_all only: list.pred_inject bit_simps) (simp_all add: word_bits_simps)

section \<open>Decoding what the assembler encodes\<close>

lemma signed_take_bit_even:
  "even (v :: u32) \<Longrightarrow> v AND NOT 1 = v"
  unfolding word32_eq_iff_bits by (simp add: bit_simps bit_0)

lemmas rv_decode_defs =
  rv_decode32_def rv_decode_op_imm_def rv_decode_load_def rv_decode_store_def rv_op_alu_def
  rv_cond_of_def rv_decode16_def rv_decode_q0_def rv_decode_q1_def rv_decode_q2_def Let_def

lemma decode_U:
  "rv_decode32 (RV32_ENCODE_TYPE_U 0x37 rd imm) = Some (LUI (rv_reg rd) (imm AND 0xFFFFF000))"
  "rv_decode32 (RV32_ENCODE_TYPE_U 0x17 rd imm) = Some (AUIPC (rv_reg rd) (imm AND 0xFFFFF000))"
  by (simp_all only: rv_decode_defs encode_U_fields) (simp_all add: rv_reg_def)

lemma decode_I:
  "rv_decode32 (RV32_ENCODE_TYPE_I 0x13 0 rd rs imm) =
     Some (OP_IMM Add (rv_reg rd) (rv_reg rs) (signed_take_bit 11 imm))"
  "rv_decode32 (RV32_ENCODE_TYPE_I 0x13 3 rd rs imm) =
     Some (OP_IMM Sltu (rv_reg rd) (rv_reg rs) (signed_take_bit 11 imm))"
  "rv_decode32 (RV32_ENCODE_TYPE_I 0x13 4 rd rs imm) =
     Some (OP_IMM Xor (rv_reg rd) (rv_reg rs) (signed_take_bit 11 imm))"
  "rv_decode32 (RV32_ENCODE_TYPE_I 0x67 0 rd rs imm) =
     Some (JALR (rv_reg rd) (rv_reg rs) (signed_take_bit 11 imm))"
  "rv_decode32 (RV32_ENCODE_TYPE_I 0x03 4 rd rs imm) =
     Some (LOAD 1 False (rv_reg rd) (rv_reg rs) (signed_take_bit 11 imm))"
  "rv_decode32 (RV32_ENCODE_TYPE_I 0x03 5 rd rs imm) =
     Some (LOAD 2 False (rv_reg rd) (rv_reg rs) (signed_take_bit 11 imm))"
  "rv_decode32 (RV32_ENCODE_TYPE_I 0x03 2 rd rs imm) =
     Some (LOAD 4 False (rv_reg rd) (rv_reg rs) (signed_take_bit 11 imm))"
  "rv_decode32 (RV32_ENCODE_TYPE_I 0x13 1 rd rs (imm AND 0x1F)) =
     Some (OP_IMM Sll (rv_reg rd) (rv_reg rs) (take_bit 5 imm))"
proof -
  have sh: "take_bit 7 (drop_bit 5 (imm AND 0x1F)) = 0" "take_bit 5 (imm AND 0x1F) = take_bit 5 imm"
    unfolding word32_eq_iff_bits by (simp_all add: bit_simps)
  show "rv_decode32 (RV32_ENCODE_TYPE_I 0x13 1 rd rs (imm AND 0x1F)) =
     Some (OP_IMM Sll (rv_reg rd) (rv_reg rs) (take_bit 5 imm))"
    by (simp only: rv_decode_defs encode_I_fields sh) (simp add: rv_reg_def)
qed (simp_all only: rv_decode_defs encode_I_fields, simp_all add: rv_reg_def)

lemma decode_S:
  "rv_decode32 (RV32_ENCODE_TYPE_S 0x23 0 rs1 rs2 imm) =
     Some (STORE 1 (rv_reg rs2) (rv_reg rs1) (signed_take_bit 11 imm))"
  "rv_decode32 (RV32_ENCODE_TYPE_S 0x23 1 rs1 rs2 imm) =
     Some (STORE 2 (rv_reg rs2) (rv_reg rs1) (signed_take_bit 11 imm))"
  "rv_decode32 (RV32_ENCODE_TYPE_S 0x23 2 rs1 rs2 imm) =
     Some (STORE 4 (rv_reg rs2) (rv_reg rs1) (signed_take_bit 11 imm))"
  by (simp_all only: rv_decode_defs encode_S_fields) (simp_all add: rv_reg_def)

lemma decode_B:
  "rv_decode32 (RV32_ENCODE_TYPE_B 0x63 0 rs1 rs2 imm) =
     Some (BRANCH Eq (rv_reg rs1) (rv_reg rs2) (signed_take_bit 12 (imm AND NOT 1)))"
  "rv_decode32 (RV32_ENCODE_TYPE_B 0x63 1 rs1 rs2 imm) =
     Some (BRANCH Ne (rv_reg rs1) (rv_reg rs2) (signed_take_bit 12 (imm AND NOT 1)))"
  by (simp_all only: rv_decode_defs encode_B_fields) (simp_all add: rv_reg_def)

lemma decode_R:
  "rv_decode32 (RV32_ENCODE_TYPE_R 0x33 ft3 ft7 rd rs1 rs2) =
     map_option (\<lambda>f. OP f (rv_reg rd) (rv_reg rs1) (rv_reg rs2))
       (rv_op_alu (take_bit 7 ft7) (take_bit 3 ft3))"
  unfolding rv_decode32_def Let_def encode_R_fields by (simp add: rv_reg_def)

lemma decode_CI:
  "rv_decode16 (RV32_ENCODE_TYPE_CI 1 0 rd imm) =
     Some (OP_IMM Add (rv_reg rd) (rv_reg rd) (signed_take_bit 5 imm))"
  "rv_decode16 (RV32_ENCODE_TYPE_CI 1 2 rd imm) =
     Some (OP_IMM Add (rv_reg rd) 0 (signed_take_bit 5 imm))"
  "rv_decode16 (RV32_ENCODE_TYPE_CI 1 3 rd imm) =
     (if rv_reg rd = 2 \<or> signed_take_bit 5 imm = 0 then None
      else Some (LUI (rv_reg rd) (push_bit 12 (signed_take_bit 5 imm))))"
  "rv_decode16 (RV32_ENCODE_TYPE_CI 2 2 rd (drop_bit 6 (offset AND 0xC0) OR (offset AND 0x3C))) =
     (if rv_reg rd = 0 then None else Some (LOAD 4 False (rv_reg rd) 2 (offset AND 0xFC)))"
  by (simp_all only: rv_decode_defs encode_CI_fields) (simp_all add: rv_reg_def)

lemma decode_CSS:
  "rv_decode16 (RV32_ENCODE_TYPE_CSS 2 6 rs (drop_bit 6 (offset AND 0xC0) OR (offset AND 0x3C))) =
     Some (STORE 4 (rv_reg rs) 2 (offset AND 0xFC))"
  by (simp only: rv_decode_defs encode_CSS_fields) (simp add: rv_reg_def)

lemma decode_CR:
  "rv_decode16 (RV32_ENCODE_TYPE_CR 2 9 rd rs) =
     (if rv_reg rs = 0 then if rv_reg rd = 0 then None else Some (JALR 1 (rv_reg rd) 0)
      else Some (OP Add (rv_reg rd) (rv_reg rd) (rv_reg rs)))"
  "rv_decode16 (RV32_ENCODE_TYPE_CR 2 8 rd rs) =
     (if rv_reg rs = 0 then if rv_reg rd = 0 then None else Some (JALR 0 (rv_reg rd) 0)
      else Some (OP Add (rv_reg rd) 0 (rv_reg rs)))"
  by (simp_all only: rv_decode_defs encode_CR_fields) (simp_all add: rv_reg_def)

lemma decode_CJ:
  "rv_decode16 (RV32_ENCODE_TYPE_CJ 1 5 imm) = Some (JAL 0 (signed_take_bit 11 (imm AND NOT 1)))"
  by (simp only: rv_decode_defs encode_CJ_fields) simp

lemma decode_CB:
  "rv_decode16 (RV32_ENCODE_TYPE_CB 1 6 rs (CB_offset offset)) =
     Some (BRANCH Eq (8 + unat (take_bit 3 rs)) 0 (signed_take_bit 8 (offset AND NOT 1)))"
  "rv_decode16 (RV32_ENCODE_TYPE_CB 1 7 rs (CB_offset offset)) =
     Some (BRANCH Ne (8 + unat (take_bit 3 rs)) 0 (signed_take_bit 8 (offset AND NOT 1)))"
  by (simp_all only: rv_decode_defs encode_CB_fields) simp_all

lemma decode_CL:
  "rv_decode16 (RV32_ENCODE_TYPE_CL 0 2 rd rs imm) =
     Some (LOAD 4 False (8 + unat (take_bit 3 rd)) (8 + unat (take_bit 3 rs)) (imm AND 0x7C))"
  "rv_decode16 (RV32_ENCODE_TYPE_CL 0 6 rd rs imm) =
     Some (STORE 4 (8 + unat (take_bit 3 rd)) (8 + unat (take_bit 3 rs)) (imm AND 0x7C))"
  by (simp_all only: rv_decode_defs encode_CL_fields) simp_all

lemma decode_CIW:
  "imm AND 0x3FC \<noteq> 0 \<Longrightarrow> rv_decode16 (RV32_ENCODE_TYPE_CIW 0 0 rd imm) =
     Some (OP_IMM Add (8 + unat (take_bit 3 rd)) 2 (imm AND 0x3FC))"
  by (simp only: rv_decode_defs encode_CIW_fields) simp

section \<open>Fetching\<close>

lemma rv32_bytes_word:
  assumes "MP_ENDIANNESS_LITTLE env"
  shows "le_word (rv32_word_bytes env w) = w" "le_word (rv32_halfword_bytes env w) = take_bit 16 w"
    "le_word (take 2 (rv32_word_bytes env w)) = take_bit 16 w"
  using assms unfolding word32_eq_iff_bits
  by (simp_all add: rv32_word_bytes_def rv32_halfword_bytes_def bit_simps)

lemma rv_fetch_word:
  assumes "MP_ENDIANNESS_LITTLE env" "field w 0 2 = 3"
  shows "rv_fetch (pre @ rv32_word_bytes env w @ post) (length pre) =
    map_option (\<lambda>i. (i, 4)) (rv_decode32 w)"
proof -
  have t: "take 2 (drop (length pre) (pre @ rv32_word_bytes env w @ post)) = take 2 (rv32_word_bytes env w)"
    "take 4 (drop (length pre) (pre @ rv32_word_bytes env w @ post)) = rv32_word_bytes env w"
    by simp_all
  show ?thesis
    unfolding rv_fetch_def t rv32_bytes_word [OF assms(1)] using assms(2) by (simp add: take_bit_take_bit)
qed

lemma rv_fetch_halfword:
  assumes "MP_ENDIANNESS_LITTLE env" "field w 0 2 \<noteq> 3" "take_bit 16 w = w"
  shows "rv_fetch (pre @ rv32_halfword_bytes env w @ post) (length pre) =
    map_option (\<lambda>i. (i, 2)) (rv_decode16 w)"
proof -
  have t: "take 2 (drop (length pre) (pre @ rv32_halfword_bytes env w @ post)) = rv32_halfword_bytes env w"
    by simp
  show ?thesis
    unfolding rv_fetch_def t rv32_bytes_word [OF assms(1)] using assms(2,3) by simp
qed

section \<open>Immediates\<close>

lemma signed_take_bit_11_split:
  "signed_take_bit 11 (v :: u32) = (if bit v 11 then (v AND 0xFFF) - 0x1000 else v AND 0xFFF)"
proof -
  have "signed_take_bit 11 v = (v AND 0xFFF) OR 0xFFFFF000" if "bit v 11"
    using that unfolding word32_eq_iff_bits by (simp add: bit_simps)
  moreover have "(v AND 0xFFF) OR 0xFFFFF000 = (v AND 0xFFF) + 0xFFFFF000"
  proof -
    have "(v AND 0xFFF) AND 0xFFFFF000 = 0"
      unfolding word32_eq_iff_bits by (simp add: bit_simps)
    then show ?thesis by (simp add: disjunctive_add_eq_or)
  qed
  moreover have "signed_take_bit 11 v = v AND 0xFFF" if "\<not> bit v 11"
    using that unfolding word32_eq_iff_bits by (simp add: bit_simps)
  ultimately show ?thesis by simp
qed

lemma split_immediate_eq:
  "split_immediate imm =
     (if bit imm 11 then (push_bit 12 (drop_bit 12 imm + 1), imm AND 0xFFF)
      else (push_bit 12 (drop_bit 12 imm), imm AND 0xFFF))"
proof -
  have "imm AND 0xFFFFF000 = push_bit 12 (drop_bit 12 imm)" "((imm AND 0xFFF) AND 0x800 \<noteq> 0) = bit imm 11"
    unfolding word32_eq_iff_bits by (simp_all add: bit_simps)
  then show ?thesis
    by (simp add: split_immediate_def Let_def push_bit_add)
qed

lemma split_immediate_sum:
  "fst (split_immediate imm) + signed_take_bit 11 (snd (split_immediate imm)) = imm"
proof -
  have parts: "push_bit 12 (drop_bit 12 imm) + (imm AND 0xFFF) = imm"
  proof -
    have "push_bit 12 (drop_bit 12 imm) AND (imm AND 0xFFF) = 0"
      "push_bit 12 (drop_bit 12 imm) OR (imm AND 0xFFF) = imm"
      unfolding word32_eq_iff_bits by (simp_all add: bit_simps)
    then show ?thesis by (simp add: disjunctive_add_eq_or)
  qed
  have low: "bit (imm AND 0xFFF) 11 = bit imm 11" "(imm AND 0xFFF) AND 0xFFF = imm AND 0xFFF"
    unfolding word32_eq_iff_bits by (simp_all add: bit_simps)
  show ?thesis
    using parts by (simp add: split_immediate_eq signed_take_bit_11_split low push_bit_add)
qed

lemma push_bit_12_and: "push_bit 12 w AND 0xFFFFF000 = (push_bit 12 w :: u32)"
  unfolding word32_eq_iff_bits by (simp add: bit_simps)

lemma split_immediate_upper: "fst (split_immediate imm) AND 0xFFFFF000 = fst (split_immediate imm)"
  by (simp add: split_immediate_eq push_bit_12_and)

end
