(* ===== verification/RV32_Correct.thy ===== *)
theory RV32_Correct
  imports RV32_Encodings Asm_RV32_Passes Machine_Code
begin

text \<open>
  What the code does that the RISC-V assembler writes: the buffer left by an operation of the
  emit pass is run on the machine of the specification, from the address where the operation
  started to write. Immediates, jumps, calls, locals, loads and stores, comparisons.
\<close>

section \<open>Running emitted code\<close>

abbreviation fetches :: "u8 list \<Rightarrow> rv_instr \<Rightarrow> bool" where
  "fetches \<equiv> fetches_at rv_fetch"

lemma fetches_word:
  assumes "MP_ENDIANNESS_LITTLE env" "field w 0 7 = opc" "take_bit 2 opc = 3" "rv_decode32 w = Some i"
  shows "fetches (rv32_word_bytes env w) i"
proof -
  have "field w 0 2 = take_bit 2 (field w 0 7)" by (simp add: take_bit_take_bit)
  then have "field w 0 2 = 3" by (simp only: assms(2,3))
  then show ?thesis using rv_fetch_word [OF assms(1)] assms(4) by (simp add: fetches_at_def)
qed

lemma fetches_halfword:
  assumes "MP_ENDIANNESS_LITTLE env" "field w 0 2 = opc" "opc \<noteq> 3" "take_bit 16 w = w"
    "rv_decode16 w = Some i"
  shows "fetches (rv32_halfword_bytes env w) i"
  using rv_fetch_halfword [OF assms(1) _ assms(4)] assms(2,3,5) by (simp add: fetches_at_def)

lemma fetches_I:
  assumes "MP_ENDIANNESS_LITTLE env" "rv_decode32 (RV32_ENCODE_TYPE_I op ft3 rd rs imm) = Some i"
    "take_bit 2 (take_bit 7 op) = 3"
  shows "fetches (rv32_word_bytes env (RV32_ENCODE_TYPE_I op ft3 rd rs imm)) i"
  using assms by (intro fetches_word [OF _ encode_I_fields(1)])

lemma fetches_U:
  assumes "MP_ENDIANNESS_LITTLE env" "rv_decode32 (RV32_ENCODE_TYPE_U op rd imm) = Some i"
    "take_bit 2 (take_bit 7 op) = 3"
  shows "fetches (rv32_word_bytes env (RV32_ENCODE_TYPE_U op rd imm)) i"
  using assms by (intro fetches_word [OF _ encode_U_fields(1)])

lemma fetches_R:
  assumes "MP_ENDIANNESS_LITTLE env" "rv_decode32 (RV32_ENCODE_TYPE_R op ft3 ft7 rd rs1 rs2) = Some i"
    "take_bit 2 (take_bit 7 op) = 3"
  shows "fetches (rv32_word_bytes env (RV32_ENCODE_TYPE_R op ft3 ft7 rd rs1 rs2)) i"
  using assms by (intro fetches_word [OF _ encode_R_fields(1)])

lemma fetches_S:
  assumes "MP_ENDIANNESS_LITTLE env" "rv_decode32 (RV32_ENCODE_TYPE_S op ft3 rs1 rs2 imm) = Some i"
    "take_bit 2 (take_bit 7 op) = 3"
  shows "fetches (rv32_word_bytes env (RV32_ENCODE_TYPE_S op ft3 rs1 rs2 imm)) i"
  using assms by (intro fetches_word [OF _ encode_S_fields(1)])

lemma fetches_B:
  assumes "MP_ENDIANNESS_LITTLE env" "rv_decode32 (RV32_ENCODE_TYPE_B op ft3 rs1 rs2 imm) = Some i"
    "take_bit 2 (take_bit 7 op) = 3"
  shows "fetches (rv32_word_bytes env (RV32_ENCODE_TYPE_B op ft3 rs1 rs2 imm)) i"
  using assms by (intro fetches_word [OF _ encode_B_fields(1)])

lemma fetches_CI:
  assumes "MP_ENDIANNESS_LITTLE env" "rv_decode16 (RV32_ENCODE_TYPE_CI op ft3 rd imm) = Some i"
    "take_bit 2 op \<noteq> 3"
  shows "fetches (rv32_halfword_bytes env (RV32_ENCODE_TYPE_CI op ft3 rd imm)) i"
  using assms by (intro fetches_halfword [OF _ encode_CI_fields(1) _ encode_CI_fields(6)])

lemma fetches_CR:
  assumes "MP_ENDIANNESS_LITTLE env" "rv_decode16 (RV32_ENCODE_TYPE_CR op ft4 rs1 rs2) = Some i"
    "take_bit 2 op \<noteq> 3"
  shows "fetches (rv32_halfword_bytes env (RV32_ENCODE_TYPE_CR op ft4 rs1 rs2)) i"
  using assms by (intro fetches_halfword [OF _ encode_CR_fields(1) _ encode_CR_fields(6)])

lemma fetches_CJ:
  assumes "MP_ENDIANNESS_LITTLE env" "rv_decode16 (RV32_ENCODE_TYPE_CJ op ft3 imm) = Some i"
    "take_bit 2 op \<noteq> 3"
  shows "fetches (rv32_halfword_bytes env (RV32_ENCODE_TYPE_CJ op ft3 imm)) i"
  using assms by (intro fetches_halfword [OF _ encode_CJ_fields(1) _ encode_CJ_fields(4)])

lemma fetches_CB:
  assumes "MP_ENDIANNESS_LITTLE env" "rv_decode16 (RV32_ENCODE_TYPE_CB op ft3 rs imm) = Some i"
    "take_bit 2 op \<noteq> 3"
  shows "fetches (rv32_halfword_bytes env (RV32_ENCODE_TYPE_CB op ft3 rs imm)) i"
  using assms by (intro fetches_halfword [OF _ encode_CB_fields(1) _ encode_CB_fields(5)])

lemma fetches_CL:
  assumes "MP_ENDIANNESS_LITTLE env" "rv_decode16 (RV32_ENCODE_TYPE_CL op ft3 rd rs imm) = Some i"
    "take_bit 2 op \<noteq> 3"
  shows "fetches (rv32_halfword_bytes env (RV32_ENCODE_TYPE_CL op ft3 rd rs imm)) i"
  using assms by (intro fetches_halfword [OF _ encode_CL_fields(1) _ encode_CL_fields(6)])

lemma fetches_CSS:
  assumes "MP_ENDIANNESS_LITTLE env" "rv_decode16 (RV32_ENCODE_TYPE_CSS op ft3 rs imm) = Some i"
    "take_bit 2 op \<noteq> 3"
  shows "fetches (rv32_halfword_bytes env (RV32_ENCODE_TYPE_CSS op ft3 rs imm)) i"
  using assms by (intro fetches_halfword [OF _ encode_CSS_fields(1) _ encode_CSS_fields(5)])

lemma fetches_CIW:
  assumes "MP_ENDIANNESS_LITTLE env" "rv_decode16 (RV32_ENCODE_TYPE_CIW op ft3 rd imm) = Some i"
    "take_bit 2 op \<noteq> 3"
  shows "fetches (rv32_halfword_bytes env (RV32_ENCODE_TYPE_CIW op ft3 rd imm)) i"
  using assms by (intro fetches_halfword [OF _ encode_CIW_fields(1) _ encode_CIW_fields(5)])

text \<open>Running instructions that follow each other in memory.\<close>

fun straight :: "rv_instr \<Rightarrow> bool" where
  "straight (BRANCH _ _ _ _) = False"
| "straight (JAL _ _) = False"
| "straight (JALR _ _ _) = False"
| "straight _ = True"

interpretation rv: code_machine rv_fetch rv_exec pc rv_step straight
proof
  show "rv_step base code m = Some (rv_exec i len m)" if "rv_fetch code (unat (pc m - base)) = Some (i, len)"
    for base code m i len using that by (simp add: rv_step_def)
  show "pc (rv_exec i len m) = pc m + len" if "straight i" for i len m
    using that by (cases i) (simp_all add: Let_def)
qed

abbreviation rv_reaches :: "u32 \<Rightarrow> u8 list \<Rightarrow> rv_machine \<Rightarrow> rv_machine \<Rightarrow> bool" where
  "rv_reaches \<equiv> reaches rv_step"

abbreviation rv_exec_all :: "(rv_instr \<times> u8 list) list \<Rightarrow> rv_machine \<Rightarrow> rv_machine" where
  "rv_exec_all \<equiv> exec_all rv_exec"

lemmas rv_reaches_refl = reaches_refl [where step = rv_step]
lemmas rv_reaches_step = rv.reaches_step
lemmas rv_reaches_all = rv.reaches_all

section \<open>Operations of the assembler and what their code does\<close>

text \<open>The code of \<open>f\<close>, loaded at an even address, does \<open>R\<close>.\<close>

abbreviation emits_code_for ::
    "asm_rv32_t asm \<Rightarrow> asm_rv32_t \<Rightarrow> (u32 \<Rightarrow> u32 \<Rightarrow> rv_machine \<Rightarrow> rv_machine \<Rightarrow> bool) \<Rightarrow> bool" where
  "emits_code_for \<equiv> emits_code rv_step pc (\<lambda>base code m. even base)"

lemmas emits_code_forI = emits_codeI [where step = rv_step and pcof = pc and loaded = "\<lambda>base code m. even base"]

lemma emits_code_for_list:
  assumes "f as = emit_code js as1" "mp_asm_base_t.truncate as1 = mp_asm_base_t.truncate as"
    and "emit_room k as" "length (concat js) \<le> k"
    and "list_all2 fetches js ins" "\<forall>i \<in> set (butlast ins). straight i"
    and "\<And>base m. even base \<Longrightarrow> pc m = base + code_offset as \<Longrightarrow>
      R base (pc m + word_of_nat (length (concat js))) m (rv_exec_all (zip ins js) m)"
  shows "emits_code_for f as R"
proof (rule emits_code_forI [where f = f, OF assms(1-4)])
  show "\<exists>m'. rv_reaches base code m m' \<and> R base (pc m + word_of_nat (length (concat js))) m m'"
    if "even base" "pc m = base + code_offset as" "sits_at base code (pc m) (concat js)" for base code m
    using rv_reaches_all [OF assms(5,6) that(3)] assms(7) [OF that(1,2)] by blast
qed

lemma unat_neq: "(a :: u32) \<noteq> b \<Longrightarrow> unat a \<noteq> unat b"
  by (metis word_unat_eq_iff)

text \<open>A concrete state of the emit pass, for the witnesses.\<close>

definition rv32_emit_state :: asm_rv32_t where
  "rv32_emit_state = \<lparr>pass = 2, suppress = False, code_offset = 8, code_size = 64,
     code_base = Some (replicate 64 0), max_num_labels = 2, label_offsets = [4, 40],
     saved_registers_mask = 2, locals_count = 4, stack_size = 64, locals_stack_offset = 24\<rparr>"

lemma rv32_emit_state_simps:
  "k \<le> 56 \<Longrightarrow> emit_room k rv32_emit_state" "code_offset rv32_emit_state = 8"
  "label_offset 0 rv32_emit_state = Inr 4" "label_offset 1 rv32_emit_state = Inr 40"
  "locals_stack_offset rv32_emit_state = 24" "MP_ENDIANNESS_LITTLE rv32_demo_env"
  by (simp_all add: rv32_emit_state_def emit_room_def in_emit_pass_def label_offset_def rv32_demo_env_def
      asm_consts)

subsection \<open>Immediates\<close>

lemma clui_upper:
  assumes "FIT_SIGNED u 17" "u AND 0xFFFFF000 = u"
  shows "push_bit 12 (signed_take_bit 5 (signed_drop_bit 12 u)) = u"
  using assms unfolding FIT_SIGNED_iff word32_eq_iff_bits
  by (cases "bit u 16") (simp_all add: bit_simps)

lemma small_signed: "signed_take_bit 5 (v :: u32) = v \<Longrightarrow> signed_take_bit 11 v = v"
  unfolding word32_eq_iff_bits by (cases "bit v 5") (simp_all add: bit_simps)

definition rv32_upper :: "rv32_env \<Rightarrow> u32 \<Rightarrow> u32 \<Rightarrow> u8 list" where
  "rv32_upper env rd u =
     (if FIT_SIGNED u 17 \<and> drop_bit 12 u \<noteq> 0
      then rv32_halfword_bytes env (RV32_ENCODE_TYPE_CI 1 3 rd (signed_drop_bit 12 u))
      else rv32_word_bytes env (RV32_ENCODE_TYPE_U 0x37 rd u))"

definition rv32_lower :: "rv32_env \<Rightarrow> u32 \<Rightarrow> u32 \<Rightarrow> u8 list" where
  "rv32_lower env rd l =
     (if FIT_SIGNED l 6 then rv32_halfword_bytes env (RV32_ENCODE_TYPE_CI 1 0 rd l)
      else rv32_word_bytes env (RV32_ENCODE_TYPE_I 0x13 0 rd rd l))"

lemma length_rv32_upper_lower:
  "length (rv32_upper env rd u) \<le> 4" "length (rv32_lower env rd l) \<le> 4"
  by (simp_all add: rv32_upper_def rv32_lower_def)

lemma load_upper_immediate_code: "load_upper_immediate env rd u = emit_code [rv32_upper env rd u]"
  unfolding load_upper_immediate_def rv32_upper_def rv32_code by (simp add: if_distrib)

lemma load_lower_immediate_code:
  "load_lower_immediate env rd l = emit_code (if l = 0 then [] else [rv32_lower env rd l])"
  unfolding load_lower_immediate_def rv32_lower_def rv32_code by (simp add: if_distrib)

lemma fetches_upper:
  assumes "MP_ENDIANNESS_LITTLE env" "rv_reg rd \<noteq> 2" "u AND 0xFFFFF000 = u"
  shows "fetches (rv32_upper env rd u) (LUI (rv_reg rd) u)"
proof (cases "FIT_SIGNED u 17 \<and> drop_bit 12 u \<noteq> 0")
  case True
  then have u: "push_bit 12 (signed_take_bit 5 (signed_drop_bit 12 u)) = u" "u \<noteq> 0"
    using clui_upper [OF _ assms(3)] by auto
  then have "signed_take_bit 5 (signed_drop_bit 12 u) \<noteq> 0" by auto
  then have "rv_decode16 (RV32_ENCODE_TYPE_CI 1 3 rd (signed_drop_bit 12 u)) = Some (LUI (rv_reg rd) u)"
    unfolding decode_CI using assms(2) u(1) by simp
  then show ?thesis
    using True fetches_CI [OF assms(1)] by (simp add: rv32_upper_def)
next
  case False
  then show ?thesis
    using fetches_U [OF assms(1) decode_U(1), of rd u] assms(3) by (auto simp: rv32_upper_def)
qed

lemma fetches_lower:
  assumes "MP_ENDIANNESS_LITTLE env"
  shows "fetches (rv32_lower env rd l) (OP_IMM Add (rv_reg rd) (rv_reg rd) (signed_take_bit 11 l))"
proof (cases "FIT_SIGNED l 6")
  case True
  then have "signed_take_bit 11 l = signed_take_bit 5 l" using small_signed by (simp add: FIT_SIGNED_iff)
  then show ?thesis
    using True fetches_CI [OF assms decode_CI(1)] by (simp add: rv32_lower_def)
qed (use fetches_I [OF assms decode_I(1)] in \<open>simp add: rv32_lower_def\<close>)

text \<open>The code of an immediate and what it is fetched as.\<close>

definition rv32_li :: "rv32_env \<Rightarrow> u32 \<Rightarrow> u32 \<Rightarrow> u8 list list" where
  "rv32_li env rd imm =
     rv32_upper env rd (fst (split_immediate imm)) #
     (if snd (split_immediate imm) = 0 then [] else [rv32_lower env rd (snd (split_immediate imm))])"

definition rv32_li_instrs :: "u32 \<Rightarrow> u32 \<Rightarrow> rv_instr list" where
  "rv32_li_instrs rd imm =
     LUI (rv_reg rd) (fst (split_immediate imm)) #
     (if snd (split_immediate imm) = 0 then []
      else [OP_IMM Add (rv_reg rd) (rv_reg rd) (signed_take_bit 11 (snd (split_immediate imm)))])"

lemma load_full_immediate_code: "load_full_immediate env rd imm = emit_code (rv32_li env rd imm)"
  unfolding load_full_immediate_def load_upper_immediate_code load_lower_immediate_code rv32_code
  by (simp add: rv32_li_def)

lemma fetches_li:
  assumes "MP_ENDIANNESS_LITTLE env" "rv_reg rd \<noteq> 2"
  shows "list_all2 fetches (rv32_li env rd imm) (rv32_li_instrs rd imm)"
  using fetches_upper [OF assms split_immediate_upper] fetches_lower [OF assms(1)]
  by (simp add: rv32_li_def rv32_li_instrs_def)

lemma straight_li: "\<forall>i \<in> set (rv32_li_instrs rd imm). straight i"
  by (simp add: rv32_li_instrs_def)

lemma length_li: "length (concat (rv32_li env rd imm)) \<le> 8"
  using length_rv32_upper_lower(1) [of env rd "fst (split_immediate imm)"]
    length_rv32_upper_lower(2) [of env rd "snd (split_immediate imm)"]
  by (simp add: rv32_li_def)

lemma exec_li:
  assumes "rv_reg rd \<noteq> 0"
  shows "rv_exec_all (zip (rv32_li_instrs rd imm) (rv32_li env rd imm)) m =
    (rset (rv_reg rd) imm m)\<lparr>pc := pc m + word_of_nat (length (concat (rv32_li env rd imm)))\<rparr>"
  using split_immediate_sum [of imm] assms
  by (auto simp: rv32_li_def rv32_li_instrs_def rset_def rget_def add.assoc)

text \<open>
  C8: Loading an immediate: the emitted code (one of \<open>c.li\<close>, \<open>addi\<close>, \<open>lui\<close>/\<open>c.lui\<close> with \<open>addi\<close> or
  \<open>c.addi\<close>) puts exactly the immediate into the register, for every 32-bit value and every
  register but \<open>zero\<close> and \<open>sp\<close>, and changes nothing else.
\<close>

theorem rv32_load_immediate_correct:
  assumes env: "MP_ENDIANNESS_LITTLE env" and rd: "rd < 32" "rd \<noteq> 0" "rd \<noteq> 2"
    and room: "emit_room 8 as"
  shows "emits_code_for (asm_rv32_emit_optimised_load_immediate env rd imm) as
    (\<lambda>base next m m'. m' = (rset (unat rd) imm m)\<lparr>pc := next\<rparr>)"
proof -
  have reg: "rv_reg rd = unat rd" "unat rd \<noteq> 0" "rv_reg rd \<noteq> 2"
    using rv_reg_eq [OF rd(1)] unat_neq [OF rd(2)] unat_neq [OF rd(3)] by simp_all
  consider (small) "FIT_SIGNED imm 6" | (medium) "\<not> FIT_SIGNED imm 6" "FIT_SIGNED imm 12"
    | (full) "\<not> FIT_SIGNED imm 6" "\<not> FIT_SIGNED imm 12" by blast
  then show ?thesis
  proof cases
    case small
    then have "asm_rv32_emit_optimised_load_immediate env rd imm =
        emit_code [rv32_halfword_bytes env (RV32_ENCODE_TYPE_CI 1 2 rd imm)]"
      unfolding asm_rv32_emit_optimised_load_immediate_def rv32_code by simp
    then show ?thesis
      by (intro emits_code_for_list [OF _ _ room, where ins = "[OP_IMM Add (rv_reg rd) 0 (signed_take_bit 5 imm)]"])
        (use small reg fetches_CI [OF env decode_CI(2), of rd imm] in \<open>auto simp: FIT_SIGNED_iff rget_def\<close>)
  next
    case medium
    then have "asm_rv32_emit_optimised_load_immediate env rd imm =
        emit_code [rv32_word_bytes env (RV32_ENCODE_TYPE_I 0x13 0 rd ASM_RV32_REG_ZERO imm)]"
      unfolding asm_rv32_emit_optimised_load_immediate_def rv32_code by simp
    then show ?thesis
      by (intro emits_code_for_list [OF _ _ room, where ins = "[OP_IMM Add (rv_reg rd) 0 (signed_take_bit 11 imm)]"])
        (use medium reg fetches_I [OF env decode_I(1), of rd 0 imm] in \<open>auto simp: FIT_SIGNED_iff rget_def asm_consts\<close>)
  next
    case full
    then have "asm_rv32_emit_optimised_load_immediate env rd imm = emit_code (rv32_li env rd imm)"
      by (simp add: asm_rv32_emit_optimised_load_immediate_def load_full_immediate_code)
    then show ?thesis
      by (intro emits_code_for_list [OF _ _ room length_li fetches_li [OF env reg(3)]])
        (auto simp: exec_li reg straight_li dest: in_set_butlastD)
  qed
qed

theorem rv32_load_immediate_correct_witness:
  "emits_code_for (asm_rv32_emit_optimised_load_immediate rv32_demo_env 10 0xDEADB8EF) rv32_emit_state
    (\<lambda>base next m m'. m' = (rset (unat (10 :: u32)) 0xDEADB8EF m)\<lparr>pc := next\<rparr>)"
  by (rule rv32_load_immediate_correct) (simp_all add: rv32_emit_state_simps mp_env_ok_rv32_demo)

subsection \<open>Jumps\<close>

definition same_but :: "nat set \<Rightarrow> rv_machine \<Rightarrow> rv_machine \<Rightarrow> bool" where
  "same_but rs m m' \<longleftrightarrow> rv_machine.mem m' = rv_machine.mem m \<and> (\<forall>r. r \<notin> rs \<longrightarrow> regs m' r = regs m r)"

lemma even_and_not_1: "even (v :: u32) \<Longrightarrow> v AND NOT 1 = v"
  by (rule signed_take_bit_even)

lemma long_jump_reaches:
  assumes "MP_ENDIANNESS_LITTLE env" "even (pc m + disp)"
    "sits_at base code (pc m) (concat (rv32_long_jump env disp))"
  shows "\<exists>m'. rv_reaches base code m m' \<and> pc m' = pc m + disp \<and> same_but {28} m m'"
proof -
  let ?ins = "[AUIPC 28 (fst (split_immediate disp)), JALR 0 28 (signed_take_bit 11 (snd (split_immediate disp)))]"
  have "list_all2 fetches (rv32_long_jump env disp) ?ins"
    using fetches_U [OF assms(1) decode_U(2), of 28 "fst (split_immediate disp)"]
      fetches_I [OF assms(1) decode_I(4), of 0 28 "snd (split_immediate disp)"]
    by (simp add: rv32_long_jump_def asm_consts split_immediate_upper)
  then have "rv_reaches base code m (rv_exec_all (zip ?ins (rv32_long_jump env disp)) m)"
    by (rule rv_reaches_all) (use assms(3) in auto)
  moreover have "pc (rv_exec_all (zip ?ins (rv32_long_jump env disp)) m) = pc m + disp"
    using split_immediate_sum [of disp] even_and_not_1 [OF assms(2)]
    by (simp add: rv32_long_jump_def rget_def rset_def add.assoc)
  moreover have "same_but {28} m (rv_exec_all (zip ?ins (rv32_long_jump env disp)) m)"
    by (simp add: rv32_long_jump_def rget_def rset_def same_but_def)
  ultimately show ?thesis by blast
qed

lemma length_long_jump: "length (concat (rv32_long_jump env disp)) = 8"
  by (simp add: rv32_long_jump_def)

lemma label_jump_as_code:
  "label_offset label as = Inr dest \<Longrightarrow>
     rv32_label_jump label J as = emit_code (J dest (code_offset as)) as"
  by (simp add: label_jump_def)

text \<open>
  A jump to a label: the code enters the label's address, for a short and a long jump,
  backwards and forwards, and changes no register but the temporary \<open>t3\<close>.
\<close>

lemma rv32_jump_correct:
  assumes env: "MP_ENDIANNESS_LITTLE env" and room: "emit_room 8 as"
    and label: "label_offset label as = Inr dest" and even: "even (code_offset as)" "even dest"
  shows "emits_code_for (asm_rv32_emit_jump env label) as
    (\<lambda>base next m m'. pc m' = base + dest \<and> same_but {28} m m')"
proof (rule emits_code_forI)
  show "asm_rv32_emit_jump env label as = emit_code (rv32_jump_code env dest (code_offset as)) as"
    by (simp add: asm_rv32_emit_jump_code label_jump_as_code [OF label])
  show "length (concat (rv32_jump_code env dest (code_offset as))) \<le> 8"
    by (simp add: rv32_jump_code_def length_long_jump)
  fix base code and m :: rv_machine
  assume m: "even base" "pc m = base + code_offset as"
    "sits_at base code (pc m) (concat (rv32_jump_code env dest (code_offset as)))"
  let ?disp = "dest - code_offset as"
  have target: "pc m + ?disp = base + dest" "even (pc m + ?disp)" "even ?disp"
    using m even by auto
  show "\<exists>m'. rv_reaches base code m m' \<and> pc m' = base + dest \<and> same_but {28} m m'"
  proof (cases "behind dest (code_offset as) \<and> FIT_SIGNED ?disp 12")
    case True
    then have code: "rv32_jump_code env dest (code_offset as) =
        [rv32_halfword_bytes env (RV32_ENCODE_TYPE_CJ 1 5 ?disp)]"
      by (simp add: rv32_jump_code_def)
    have "fetches (rv32_halfword_bytes env (RV32_ENCODE_TYPE_CJ 1 5 ?disp)) (JAL 0 ?disp)"
      using fetches_CJ [OF env decode_CJ, of ?disp] True even_and_not_1 [OF target(3)]
      by (simp add: FIT_SIGNED_iff)
    then have "rv_reaches base code m (m\<lparr>pc := pc m + ?disp\<rparr>)"
      using rv_reaches_all [of "[rv32_halfword_bytes env (RV32_ENCODE_TYPE_CJ 1 5 ?disp)]" "[JAL 0 ?disp]"]
        m(3) unfolding code by (simp add: rset_def)
    then show ?thesis using target(1) by (auto simp: same_but_def)
  next
    case False
    then show ?thesis
      using long_jump_reaches [OF env target(2)] m(3) target(1) by (auto simp: rv32_jump_code_def)
  qed
qed (use room in simp_all)

lemma branch_reaches:
  assumes "fetches bs (BRANCH c r1 r2 disp)" "sits_at base code (pc m) (concat [bs])" "pc m + disp = t"
  shows "\<exists>m'. rv_reaches base code m m' \<and> same_but {28} m m' \<and>
    pc m' = (if rv_cond_holds c (rget m r1) (rget m r2) then t else pc m + word_of_nat (length (concat [bs])))"
proof -
  have "rv_reaches base code m (rv_exec (BRANCH c r1 r2 disp) (word_of_nat (length bs)) m)"
    using rv_reaches_step [OF assms(1), where rest = "[]"] assms(2) rv_reaches_refl by simp
  then show ?thesis using assms(3) by (auto simp: same_but_def)
qed

lemma branch_over_long_jump:
  assumes env: "MP_ENDIANNESS_LITTLE env" and f: "fetches bs (BRANCH c r1 r2 k)"
    and sits: "sits_at base code (pc m) (concat (bs # rv32_long_jump env disp))"
    and k: "k = word_of_nat (length bs) + 8"
    and t: "pc m + (disp + word_of_nat (length bs)) = t" "even t"
  shows "\<exists>m'. rv_reaches base code m m' \<and> same_but {28} m m' \<and>
    pc m' = (if rv_cond_holds c (rget m r1) (rget m r2)
             then pc m + word_of_nat (length (concat (bs # rv32_long_jump env disp))) else t)"
proof (cases "rv_cond_holds c (rget m r1) (rget m r2)")
  case True
  then show ?thesis
    using rv_reaches_step [OF f sits [simplified], of "m\<lparr>pc := pc m + k\<rparr>"] rv_reaches_refl k
    by (auto simp: same_but_def length_long_jump simp del: length_concat)
next
  case False
  let ?m = "m\<lparr>pc := pc m + word_of_nat (length bs)\<rparr>"
  have "sits_at base code (pc ?m) (concat (rv32_long_jump env disp))"
    using sits_at_append(2) [OF sits [simplified]] by simp
  moreover have "pc ?m + disp = t" using t(1) by (simp add: ac_simps)
  ultimately obtain m' where m': "rv_reaches base code ?m m'" "pc m' = t" "same_but {28} ?m m'"
    using long_jump_reaches [OF env, of ?m disp] t(2) by auto
  then show ?thesis
    using rv_reaches_step [OF f sits [simplified], of m'] False by (auto simp: same_but_def)
qed

text \<open>
  A jump on equal registers: the code continues at the label exactly when the two registers
  hold the same value, and behind the emitted code otherwise.
\<close>

lemma rv32_jump_if_reg_eq_correct:
  assumes env: "MP_ENDIANNESS_LITTLE env" and room: "emit_room 12 as"
    and label: "label_offset label as = Inr dest" and even: "even (code_offset as)" "even dest"
    and regs: "rs1 < 32" "rs2 < 32"
  shows "emits_code_for (asm_rv32_emit_jump_if_reg_eq env rs1 rs2 label) as
    (\<lambda>base next m m'. same_but {28} m m' \<and>
       pc m' = (if rget m (unat rs1) = rget m (unat rs2) then base + dest else next))"
proof (rule emits_code_forI)
  let ?js = "rv32_jump_eq_code env rs1 rs2 dest (code_offset as)"
  show "asm_rv32_emit_jump_if_reg_eq env rs1 rs2 label as = emit_code ?js as"
    by (simp add: asm_rv32_emit_jump_if_reg_eq_code label_jump_as_code [OF label])
  show "length (concat ?js) \<le> 12"
    by (simp add: rv32_jump_eq_code_def length_long_jump)
  fix base code and m :: rv_machine
  assume m: "even base" "pc m = base + code_offset as" "sits_at base code (pc m) (concat ?js)"
  let ?disp = "dest - code_offset as"
  have target: "pc m + ?disp = base + dest" "even (pc m + ?disp)" "even ?disp"
    using m even by auto
  show "\<exists>m'. rv_reaches base code m m' \<and> same_but {28} m m' \<and>
      pc m' = (if rget m (unat rs1) = rget m (unat rs2) then base + dest
               else pc m + word_of_nat (length (concat ?js)))"
  proof (cases "behind dest (code_offset as) \<and> FIT_SIGNED ?disp 13")
    case True
    then have code: "?js = [rv32_word_bytes env (RV32_ENCODE_TYPE_B 0x63 0 rs1 rs2 ?disp)]"
      by (simp add: rv32_jump_eq_code_def)
    have "fetches (rv32_word_bytes env (RV32_ENCODE_TYPE_B 0x63 0 rs1 rs2 ?disp))
        (BRANCH Eq (unat rs1) (unat rs2) ?disp)"
      using fetches_B [OF env decode_B(1), of rs1 rs2 ?disp] True even_and_not_1 [OF target(3)] regs
      by (simp add: FIT_SIGNED_iff rv_reg_eq)
    from branch_reaches [OF this m(3) [unfolded code] target(1)] show ?thesis
      unfolding code by (simp del: concat.simps)
  next
    case False
    then have code: "?js = rv32_word_bytes env (RV32_ENCODE_TYPE_B 0x63 1 rs1 rs2 12) #
        rv32_long_jump env (?disp - 4)"
      by (auto simp: rv32_jump_eq_code_def)
    have "fetches (rv32_word_bytes env (RV32_ENCODE_TYPE_B 0x63 1 rs1 rs2 12))
        (BRANCH Ne (unat rs1) (unat rs2) 12)"
      using fetches_B [OF env decode_B(2), of rs1 rs2 12] regs by (simp add: rv_reg_eq)
    from branch_over_long_jump [OF env this m(3) [unfolded code] _ _ target(2)] show ?thesis
      unfolding code using target(1) by (auto simp del: concat.simps)
  qed
qed (use room in simp_all)

lemma rv32_nonzero_near_runs:
  assumes env: "MP_ENDIANNESS_LITTLE env" and even: "even here" "even dest" and regs: "rs < 32"
    and m: "even base" "pc m = base + here" "sits_at base code (pc m) (concat (rv32_jump_nonzero_code env rs dest here))"
    and near: "behind dest here" "FIT_SIGNED (dest - here) 8 \<and> RV32_IS_IN_C_REGISTER_WINDOW rs \<or> FIT_SIGNED (dest - here) 13"
  shows "\<exists>m'. rv_reaches base code m m' \<and> same_but {28} m m' \<and> pc m' =
    (if rget m (unat rs) \<noteq> 0 then base + dest else pc m + word_of_nat (length (concat (rv32_jump_nonzero_code env rs dest here))))"
proof -
  let ?js = "rv32_jump_nonzero_code env rs dest here" and ?disp = "dest - here" and ?w = "RV32_MAP_IN_C_REGISTER_WINDOW rs"
  have target: "pc m + ?disp = base + dest" "even (pc m + ?disp)" "even ?disp" using m even by auto
  have zero: "rget m 0 = 0" by (simp add: rget_def)
  have sext8: "signed_take_bit 8 (signed_take_bit 7 v) = signed_take_bit 7 (v :: u32)" for v
    unfolding word32_eq_iff_bits by (simp add: bit_simps)
  consider (c) "FIT_SIGNED ?disp 8" "RV32_IS_IN_C_REGISTER_WINDOW rs"
    | (b) "\<not> (FIT_SIGNED ?disp 8 \<and> RV32_IS_IN_C_REGISTER_WINDOW rs)" "FIT_SIGNED ?disp 13"
    using near(2) by blast
  then show ?thesis
  proof cases
    case c
    then have code: "?js = [rv32_halfword_bytes env (RV32_ENCODE_TYPE_CB 1 7 ?w (CB_offset ?disp))]"
      using near(1) by (simp add: rv32_jump_nonzero_code_def)
    have "signed_take_bit 8 ?disp = ?disp" using c(1) sext8 [of ?disp] by (simp add: FIT_SIGNED_iff)
    then have "fetches (rv32_halfword_bytes env (RV32_ENCODE_TYPE_CB 1 7 ?w (CB_offset ?disp)))
        (BRANCH Ne (unat rs) 0 ?disp)"
      using fetches_CB [OF env decode_CB(2), of ?w ?disp] even_and_not_1 [OF target(3)] rv_reg_window [OF c(2)] by simp
    from branch_reaches [OF this m(3) [unfolded code] target(1)] show ?thesis
      unfolding code using zero by (simp del: concat.simps)
  next
    case b
    then have code: "?js = [rv32_word_bytes env (RV32_ENCODE_TYPE_B 0x63 1 rs ASM_RV32_REG_ZERO ?disp)]"
      using near(1) by (auto simp: rv32_jump_nonzero_code_def)
    have "fetches (rv32_word_bytes env (RV32_ENCODE_TYPE_B 0x63 1 rs ASM_RV32_REG_ZERO ?disp))
        (BRANCH Ne (unat rs) 0 ?disp)"
      using fetches_B [OF env decode_B(2), of rs 0 ?disp] b even_and_not_1 [OF target(3)] regs
      by (simp add: FIT_SIGNED_iff rv_reg_eq asm_consts)
    from branch_reaches [OF this m(3) [unfolded code] target(1)] show ?thesis
      unfolding code using zero by (simp del: concat.simps)
  qed
qed

lemma rv32_nonzero_far_runs:
  assumes env: "MP_ENDIANNESS_LITTLE env" and even: "even here" "even dest" and regs: "rs < 32"
    and m: "even base" "pc m = base + here" "sits_at base code (pc m) (concat (rv32_jump_nonzero_code env rs dest here))"
    and far: "behind dest here \<longrightarrow> \<not> FIT_SIGNED (dest - here) 13 \<and> \<not> (FIT_SIGNED (dest - here) 8 \<and> RV32_IS_IN_C_REGISTER_WINDOW rs)"
  shows "\<exists>m'. rv_reaches base code m m' \<and> same_but {28} m m' \<and> pc m' =
    (if rget m (unat rs) \<noteq> 0 then base + dest else pc m + word_of_nat (length (concat (rv32_jump_nonzero_code env rs dest here))))"
proof -
  let ?js = "rv32_jump_nonzero_code env rs dest here" and ?disp = "dest - here" and ?w = "RV32_MAP_IN_C_REGISTER_WINDOW rs"
  have target: "pc m + ?disp = base + dest" "even (pc m + ?disp)" "even ?disp" using m even by auto
  have zero: "rget m 0 = 0" by (simp add: rget_def)
  consider (cl) "behind dest here" "RV32_IS_IN_C_REGISTER_WINDOW rs" | (l) "behind dest here \<longrightarrow> \<not> RV32_IS_IN_C_REGISTER_WINDOW rs"
    by blast
  then show ?thesis
  proof cases
    case cl
    then have code: "?js = rv32_halfword_bytes env (RV32_ENCODE_TYPE_CB 1 6 ?w (CB_offset 10)) #
        rv32_long_jump env (?disp - 2)"
      using far by (simp add: rv32_jump_nonzero_code_def)
    have "fetches (rv32_halfword_bytes env (RV32_ENCODE_TYPE_CB 1 6 ?w (CB_offset 10)))
        (BRANCH Eq (unat rs) 0 10)"
      using fetches_CB [OF env decode_CB(1), of ?w 10] rv_reg_window [OF cl(2)] by simp
    from branch_over_long_jump [OF env this m(3) [unfolded code] _ _ target(2)] show ?thesis
      unfolding code using target(1) zero by (auto simp del: concat.simps)
  next
    case l
    then have code: "?js = rv32_word_bytes env (RV32_ENCODE_TYPE_B 0x63 0 rs ASM_RV32_REG_ZERO 12) #
        rv32_long_jump env (?disp - 4)"
      using far by (auto simp: rv32_jump_nonzero_code_def)
    have "fetches (rv32_word_bytes env (RV32_ENCODE_TYPE_B 0x63 0 rs ASM_RV32_REG_ZERO 12))
        (BRANCH Eq (unat rs) 0 12)"
      using fetches_B [OF env decode_B(1), of rs 0 12] regs by (simp add: rv_reg_eq asm_consts)
    from branch_over_long_jump [OF env this m(3) [unfolded code] _ _ target(2)] show ?thesis
      unfolding code using target(1) zero by (auto simp del: concat.simps)
  qed
qed

text \<open>
  A jump on a nonzero register, in each of its four forms: the code continues at the label
  exactly when the register is not zero, and behind the emitted code otherwise.
\<close>

lemma rv32_jump_if_reg_nonzero_correct:
  assumes env: "MP_ENDIANNESS_LITTLE env" and room: "emit_room 12 as"
    and label: "label_offset label as = Inr dest" and even: "even (code_offset as)" "even dest"
    and regs: "rs < 32"
  shows "emits_code_for (asm_rv32_emit_jump_if_reg_nonzero env rs label) as
    (\<lambda>base next m m'. same_but {28} m m' \<and>
       pc m' = (if rget m (unat rs) \<noteq> 0 then base + dest else next))"
proof (rule emits_code_forI)
  let ?js = "rv32_jump_nonzero_code env rs dest (code_offset as)"
  show "asm_rv32_emit_jump_if_reg_nonzero env rs label as = emit_code ?js as"
    by (simp add: asm_rv32_emit_jump_if_reg_nonzero_code label_jump_as_code [OF label])
  show "length (concat ?js) \<le> 12"
    by (simp add: rv32_jump_nonzero_code_def length_long_jump)
  fix base code and m :: rv_machine
  assume m: "even base" "pc m = base + code_offset as" "sits_at base code (pc m) (concat ?js)"
  show "\<exists>m'. rv_reaches base code m m' \<and> same_but {28} m m' \<and>
      pc m' = (if rget m (unat rs) \<noteq> 0 then base + dest else pc m + word_of_nat (length (concat ?js)))"
    using rv32_nonzero_near_runs [OF env even regs m] rv32_nonzero_far_runs [OF env even regs m] by blast
qed (use room in simp_all)

text \<open>
  C9: Jumps: the code of a jump enters the label's address; the code of a jump on equal registers or
  on a nonzero register continues at the label exactly when the condition holds, and behind the
  emitted code otherwise. This holds of every form, short and long, backwards and forwards, and no
  register but the temporary \<open>t3\<close> changes.
\<close>

theorem rv32_jumps_correct:
  assumes env: "MP_ENDIANNESS_LITTLE env" and room: "emit_room 12 as"
    and label: "label_offset label as = Inr dest" and even: "even (code_offset as)" "even dest"
    and regs: "rs1 < 32" "rs2 < 32"
  shows "emits_code_for (asm_rv32_emit_jump env label) as
      (\<lambda>base next m m'. pc m' = base + dest \<and> same_but {28} m m') \<and>
    emits_code_for (asm_rv32_emit_jump_if_reg_eq env rs1 rs2 label) as
      (\<lambda>base next m m'. same_but {28} m m' \<and>
         pc m' = (if rget m (unat rs1) = rget m (unat rs2) then base + dest else next)) \<and>
    emits_code_for (asm_rv32_emit_jump_if_reg_nonzero env rs1 label) as
      (\<lambda>base next m m'. same_but {28} m m' \<and>
         pc m' = (if rget m (unat rs1) \<noteq> 0 then base + dest else next))"
  using rv32_jump_correct [OF env emit_room_weaken [OF room, of 8, simplified] label even] rv32_jump_if_reg_eq_correct [OF env room label even regs]
    rv32_jump_if_reg_nonzero_correct [OF env room label even regs(1)]
  by simp

theorem rv32_jumps_correct_witness:
  "emits_code_for (asm_rv32_emit_jump rv32_demo_env 1) rv32_emit_state
      (\<lambda>base next m m'. pc m' = base + 40 \<and> same_but {28} m m') \<and>
    emits_code_for (asm_rv32_emit_jump_if_reg_eq rv32_demo_env 10 11 1) rv32_emit_state
      (\<lambda>base next m m'. same_but {28} m m' \<and>
         pc m' = (if rget m (unat (10 :: u32)) = rget m (unat (11 :: u32)) then base + 40 else next)) \<and>
    emits_code_for (asm_rv32_emit_jump_if_reg_nonzero rv32_demo_env 10 1) rv32_emit_state
      (\<lambda>base next m m'. same_but {28} m m' \<and>
         pc m' = (if rget m (unat (10 :: u32)) \<noteq> 0 then base + 40 else next))"
  by (rule rv32_jumps_correct) (simp_all add: rv32_emit_state_simps mp_env_ok_rv32_demo)

end
