(* ===== verification/RV32_Data.thy ===== *)
theory RV32_Data
  imports RV32_Correct
begin

text \<open>
  What the code does that the RISC-V assembler writes for data: addresses of labels,
  comparisons, locals, loads and stores, arithmetic.
\<close>

lemma emits_code_for_emit_code:
  assumes "emit_room k as" "length (concat js) \<le> k" "list_all2 fetches js ins"
    "\<forall>i \<in> set (butlast ins). straight i"
    "\<And>base m. even base \<Longrightarrow> pc m = base + code_offset as \<Longrightarrow>
      R base (pc m + word_of_nat (length (concat js))) m (rv_exec_all (zip ins js) m)"
  shows "emits_code_for (emit_code js) as R"
  using assms by (intro emits_code_for_list [where f = "emit_code js", OF refl [of "emit_code js as"] refl [of "mp_asm_base_t.truncate as"]])

lemma rget_simps [simp]:
  "rget (m\<lparr>pc := a\<rparr>) r = rget m r"
  "rget m 0 = 0"
  "rget (rset d v m) r = (if r = d \<and> d \<noteq> 0 then v else rget m r)"
  "rset d v (rset d w m) = rset d v m"
  "rset d v (m\<lparr>pc := a\<rparr>) = (rset d v m)\<lparr>pc := a\<rparr>"
  "pc (rset d v m) = pc m"
  "mem (rset d v m) = mem m"
  by (simp_all add: rget_def rset_def)

subsection \<open>The instructions, as the decoder sees them\<close>

lemma fetches_ops:
  assumes "MP_ENDIANNESS_LITTLE env"
  shows
    "fetches (rv32_word_bytes env (RV32_ENCODE_TYPE_U 0x17 rd imm)) (AUIPC (rv_reg rd) (imm AND 0xFFFFF000))"
    "fetches (rv32_word_bytes env (RV32_ENCODE_TYPE_I 0x13 0 rd rs imm)) (OP_IMM Add (rv_reg rd) (rv_reg rs) (signed_take_bit 11 imm))"
    "fetches (rv32_word_bytes env (RV32_ENCODE_TYPE_I 0x13 3 rd rs imm)) (OP_IMM Sltu (rv_reg rd) (rv_reg rs) (signed_take_bit 11 imm))"
    "fetches (rv32_word_bytes env (RV32_ENCODE_TYPE_I 0x13 4 rd rs imm)) (OP_IMM Xor (rv_reg rd) (rv_reg rs) (signed_take_bit 11 imm))"
    "fetches (rv32_word_bytes env (RV32_ENCODE_TYPE_I 0x13 1 rd rs (imm AND 0x1F))) (OP_IMM Sll (rv_reg rd) (rv_reg rs) (take_bit 5 imm))"
    "fetches (rv32_word_bytes env (RV32_ENCODE_TYPE_I 0x03 4 rd rs imm)) (LOAD 1 False (rv_reg rd) (rv_reg rs) (signed_take_bit 11 imm))"
    "fetches (rv32_word_bytes env (RV32_ENCODE_TYPE_I 0x03 5 rd rs imm)) (LOAD 2 False (rv_reg rd) (rv_reg rs) (signed_take_bit 11 imm))"
    "fetches (rv32_word_bytes env (RV32_ENCODE_TYPE_I 0x03 2 rd rs imm)) (LOAD 4 False (rv_reg rd) (rv_reg rs) (signed_take_bit 11 imm))"
    "fetches (rv32_word_bytes env (RV32_ENCODE_TYPE_S 0x23 0 rs1 rs2 imm)) (STORE 1 (rv_reg rs2) (rv_reg rs1) (signed_take_bit 11 imm))"
    "fetches (rv32_word_bytes env (RV32_ENCODE_TYPE_S 0x23 1 rs1 rs2 imm)) (STORE 2 (rv_reg rs2) (rv_reg rs1) (signed_take_bit 11 imm))"
    "fetches (rv32_word_bytes env (RV32_ENCODE_TYPE_S 0x23 2 rs1 rs2 imm)) (STORE 4 (rv_reg rs2) (rv_reg rs1) (signed_take_bit 11 imm))"
    "fetches (rv32_halfword_bytes env (RV32_ENCODE_TYPE_CSS 2 6 rs (drop_bit 6 (off AND 0xC0) OR (off AND 0x3C)))) (STORE 4 (rv_reg rs) 2 (off AND 0xFC))"
    "fetches (rv32_halfword_bytes env (RV32_ENCODE_TYPE_CL 0 2 rd rs imm)) (LOAD 4 False (8 + unat (take_bit 3 rd)) (8 + unat (take_bit 3 rs)) (imm AND 0x7C))"
    "fetches (rv32_halfword_bytes env (RV32_ENCODE_TYPE_CL 0 6 rd rs imm)) (STORE 4 (8 + unat (take_bit 3 rd)) (8 + unat (take_bit 3 rs)) (imm AND 0x7C))"
  by (rule fetches_U [OF assms decode_U(2)], simp,
    rule fetches_I [OF assms decode_I(1)], simp,
    rule fetches_I [OF assms decode_I(2)], simp,
    rule fetches_I [OF assms decode_I(3)], simp,
    rule fetches_I [OF assms decode_I(8)], simp,
    rule fetches_I [OF assms decode_I(5)], simp,
    rule fetches_I [OF assms decode_I(6)], simp,
    rule fetches_I [OF assms decode_I(7)], simp,
    rule fetches_S [OF assms decode_S(1)], simp,
    rule fetches_S [OF assms decode_S(2)], simp,
    rule fetches_S [OF assms decode_S(3)], simp,
    rule fetches_CSS [OF assms decode_CSS], simp,
    rule fetches_CL [OF assms decode_CL(1)], simp,
    rule fetches_CL [OF assms decode_CL(2)], simp)

lemma fetches_op:
  assumes "MP_ENDIANNESS_LITTLE env" "rv_op_alu (take_bit 7 ft7) (take_bit 3 ft3) = Some f"
  shows "fetches (rv32_word_bytes env (RV32_ENCODE_TYPE_R 0x33 ft3 ft7 rd rs1 rs2))
    (OP f (rv_reg rd) (rv_reg rs1) (rv_reg rs2))"
  using assms by (intro fetches_R) (auto simp: decode_R)

lemma fetches_cadd:
  assumes "MP_ENDIANNESS_LITTLE env" "rv_reg rs \<noteq> 0"
  shows "fetches (rv32_halfword_bytes env (RV32_ENCODE_TYPE_CR 2 9 rd rs)) (OP Add (rv_reg rd) (rv_reg rd) (rv_reg rs))"
  using assms by (intro fetches_CR) (auto simp: decode_CR)

lemma fetches_cjalr:
  assumes "MP_ENDIANNESS_LITTLE env" "rv_reg rs \<noteq> 0"
  shows "fetches (rv32_halfword_bytes env (RV32_ENCODE_TYPE_CR 2 9 rs 0)) (JALR 1 (rv_reg rs) 0)"
  using assms by (intro fetches_CR) (auto simp: decode_CR)

lemma fetches_clwsp:
  assumes "MP_ENDIANNESS_LITTLE env" "rv_reg rd \<noteq> 0"
  shows "fetches (rv32_halfword_bytes env (RV32_ENCODE_TYPE_CI 2 2 rd (drop_bit 6 (off AND 0xC0) OR (off AND 0x3C))))
    (LOAD 4 False (rv_reg rd) 2 (off AND 0xFC))"
  by (rule fetches_CI [OF assms(1)], simp only: decode_CI assms(2) if_False, simp)

lemma fetches_caddi4spn:
  assumes "MP_ENDIANNESS_LITTLE env" "imm AND 0x3FC \<noteq> 0"
  shows "fetches (rv32_halfword_bytes env (RV32_ENCODE_TYPE_CIW 0 0 rd imm))
    (OP_IMM Add (8 + unat (take_bit 3 rd)) 2 (imm AND 0x3FC))"
  using assms by (intro fetches_CIW) (auto simp: decode_CIW)

lemma reg_cases:
  assumes "rd < 32" "rd \<noteq> 0"
  shows "rv_reg rd = unat rd" "unat rd \<noteq> 0"
  using rv_reg_eq [OF assms(1)] unat_neq [OF assms(2)] by simp_all

text \<open>
  The address of a label: the code puts the run-time address of the label into the register,
  wherever the code is loaded, and changes nothing else.
\<close>

lemma rv32_mov_reg_pcrel_correct:
  assumes env: "MP_ENDIANNESS_LITTLE env" and room: "emit_room 8 as"
    and label: "label_offset label as = Inr dest" and rd: "rd < 32" "rd \<noteq> 0"
  shows "emits_code_for (asm_rv32_emit_mov_reg_pcrel env rd label) as
    (\<lambda>base next m m'. m' = (rset (unat rd) (base + dest) m)\<lparr>pc := next\<rparr>)"
proof (rule emits_code_for_list [OF _ refl room])
  let ?d = "dest - code_offset as"
  let ?js = "rv32_pcrel_code env rd dest (code_offset as)"
  let ?ins = "[AUIPC (rv_reg rd) (fst (split_immediate ?d)),
    OP_IMM Add (rv_reg rd) (rv_reg rd) (signed_take_bit 11 (snd (split_immediate ?d)))]"
  show "asm_rv32_emit_mov_reg_pcrel env rd label as = emit_code ?js as"
    by (simp add: asm_rv32_emit_mov_reg_pcrel_code label_jump_as_code [OF label])
  show "list_all2 fetches ?js ?ins"
    using fetches_ops(1) [OF env, of rd "fst (split_immediate ?d)"] fetches_ops(2) [OF env]
    by (simp add: rv32_pcrel_code_def split_immediate_upper)
  show "rv_exec_all (zip ?ins ?js) m = (rset (unat rd) (base + dest) m)\<lparr>pc := pc m + word_of_nat (length (concat ?js))\<rparr>"
    if "pc m = base + code_offset as" for base m
    using split_immediate_sum [of ?d] that reg_cases [OF rd]
    by (simp add: rv32_pcrel_code_def rset_def rget_def add.assoc)
qed (simp_all add: rv32_pcrel_code_def)

subsection \<open>Comparisons\<close>

lemma less_1_word: "(x < 1) = (x = (0 :: u32))"
  by (metis word_less_1)

lemma meta_comparison_codes:
  "asm_rv32_meta_comparison_eq env rs1 rs2 rd = emit_code
     [rv32_word_bytes env (RV32_ENCODE_TYPE_R 0x33 0 0x20 rd rs1 rs2), rv32_word_bytes env (RV32_ENCODE_TYPE_I 0x13 3 rd rd 1)]"
  "asm_rv32_meta_comparison_ne env rs1 rs2 rd = emit_code
     [rv32_word_bytes env (RV32_ENCODE_TYPE_R 0x33 0 0x20 rd rs1 rs2), rv32_word_bytes env (RV32_ENCODE_TYPE_R 0x33 3 0 rd ASM_RV32_REG_ZERO rd)]"
  "asm_rv32_meta_comparison_lt env rs1 rs2 rd u = emit_code
     [rv32_word_bytes env (RV32_ENCODE_TYPE_R 0x33 (2 OR (if u then 1 else 0)) 0 rd rs1 rs2)]"
  "asm_rv32_meta_comparison_le env rs1 rs2 rd u = emit_code
     [rv32_word_bytes env (RV32_ENCODE_TYPE_R 0x33 (2 OR (if u then 1 else 0)) 0 rd rs2 rs1),
      rv32_word_bytes env (RV32_ENCODE_TYPE_I 0x13 4 rd rd 1)]"
  unfolding asm_rv32_meta_comparison_eq_def asm_rv32_meta_comparison_ne_def
    asm_rv32_meta_comparison_lt_def asm_rv32_meta_comparison_le_def rv32_code by simp_all

text \<open>
  C12: Comparisons: the code of each comparison puts 1 or 0 into the destination as the relation
  holds of the two registers or not, signed and unsigned, also when the destination is one of
  the operands, and changes nothing else.
\<close>

theorem rv32_comparisons_correct:
  assumes env: "MP_ENDIANNESS_LITTLE env" and room: "emit_room 8 as"
    and regs: "rs1 < 32" "rs2 < 32" "rd < 32" "rd \<noteq> 0"
  shows "emits_code_for (asm_rv32_meta_comparison_eq env rs1 rs2 rd) as
      (\<lambda>base next m m'. m' = (rset (unat rd) (of_bool (rget m (unat rs1) = rget m (unat rs2))) m)\<lparr>pc := next\<rparr>) \<and>
    emits_code_for (asm_rv32_meta_comparison_ne env rs1 rs2 rd) as
      (\<lambda>base next m m'. m' = (rset (unat rd) (of_bool (rget m (unat rs1) \<noteq> rget m (unat rs2))) m)\<lparr>pc := next\<rparr>) \<and>
    emits_code_for (asm_rv32_meta_comparison_lt env rs1 rs2 rd u) as
      (\<lambda>base next m m'. m' = (rset (unat rd) (of_bool (if u then rget m (unat rs1) < rget m (unat rs2)
         else sint (rget m (unat rs1)) < sint (rget m (unat rs2)))) m)\<lparr>pc := next\<rparr>) \<and>
    emits_code_for (asm_rv32_meta_comparison_le env rs1 rs2 rd u) as
      (\<lambda>base next m m'. m' = (rset (unat rd) (of_bool (if u then rget m (unat rs1) \<le> rget m (unat rs2)
         else sint (rget m (unat rs1)) \<le> sint (rget m (unat rs2)))) m)\<lparr>pc := next\<rparr>)"
    (is "emits_code_for _ _ ?eq \<and> emits_code_for _ _ ?ne \<and> emits_code_for _ _ ?lt \<and> emits_code_for _ _ ?le")
proof -
  note reg = reg_cases [OF regs(3,4)] rv_reg_eq [OF regs(1)] rv_reg_eq [OF regs(2)]
  have sub: "fetches (rv32_word_bytes env (RV32_ENCODE_TYPE_R 0x33 0 0x20 rd rs1 rs2))
      (OP Sub (rv_reg rd) (rv_reg rs1) (rv_reg rs2))"
    by (rule fetches_op [OF env]) (simp add: rv_op_alu_def)
  have sltu: "fetches (rv32_word_bytes env (RV32_ENCODE_TYPE_R 0x33 3 0 rd a b))
      (OP Sltu (rv_reg rd) (rv_reg a) (rv_reg b))" for a b
    by (rule fetches_op [OF env]) (simp add: rv_op_alu_def)
  have slt: "fetches (rv32_word_bytes env (RV32_ENCODE_TYPE_R 0x33 (2 OR (if u then 1 else 0)) 0 rd a b))
      (OP (if u then Sltu else Slt) (rv_reg rd) (rv_reg a) (rv_reg b))" for a b
    by (rule fetches_op [OF env]) (simp add: rv_op_alu_def)
  have "emits_code_for (asm_rv32_meta_comparison_eq env rs1 rs2 rd) as ?eq"
    unfolding meta_comparison_codes
    by (rule emits_code_for_emit_code [OF room, where ins = "[OP Sub (rv_reg rd) (rv_reg rs1) (rv_reg rs2),
          OP_IMM Sltu (rv_reg rd) (rv_reg rd) (signed_take_bit 11 1)]"])
      (use sub fetches_ops(3) [OF env, of rd rd 1] reg in \<open>simp_all add: unat_neq less_1_word\<close>)
  moreover have "emits_code_for (asm_rv32_meta_comparison_ne env rs1 rs2 rd) as ?ne"
    unfolding meta_comparison_codes
    by (rule emits_code_for_emit_code [OF room, where ins = "[OP Sub (rv_reg rd) (rv_reg rs1) (rv_reg rs2),
          OP Sltu (rv_reg rd) (rv_reg ASM_RV32_REG_ZERO) (rv_reg rd)]"])
      (use sub sltu [of 0 rd] reg in \<open>simp_all add: asm_consts word_gt_0\<close>)
  moreover have "emits_code_for (asm_rv32_meta_comparison_lt env rs1 rs2 rd u) as ?lt"
    unfolding meta_comparison_codes
    by (rule emits_code_for_emit_code [OF room, where ins = "[OP (if u then Sltu else Slt) (rv_reg rd) (rv_reg rs1) (rv_reg rs2)]"])
      (use slt [of rs1 rs2] reg in \<open>simp_all\<close>)
  moreover have "emits_code_for (asm_rv32_meta_comparison_le env rs1 rs2 rd u) as ?le"
    unfolding meta_comparison_codes
    by (rule emits_code_for_emit_code [OF room, where ins = "[OP (if u then Sltu else Slt) (rv_reg rd) (rv_reg rs2) (rv_reg rs1),
          OP_IMM Xor (rv_reg rd) (rv_reg rd) (signed_take_bit 11 1)]"])
      (use slt [of rs2 rs1] fetches_ops(4) [OF env, of rd rd 1] reg in \<open>simp_all add: unat_neq not_less\<close>)
  ultimately show ?thesis by blast
qed

theorem rv32_comparisons_correct_witness:
  "emits_code_for (asm_rv32_meta_comparison_le rv32_demo_env 10 11 10 False) rv32_emit_state
      (\<lambda>base next m m'. m' = (rset 10 (of_bool (sint (rget m 10) \<le> sint (rget m 11))) m)\<lparr>pc := next\<rparr>)"
  using rv32_comparisons_correct [of rv32_demo_env rv32_emit_state 10 11 10 False]
  by (simp add: rv32_emit_state_simps)

lemma emits_code_for_code:
  assumes "emit_room k as" "f as = emit_code js as" "length (concat js) \<le> k" "list_all2 fetches js ins"
    "\<forall>i \<in> set (butlast ins). straight i"
    "\<And>base m. even base \<Longrightarrow> pc m = base + code_offset as \<Longrightarrow>
      R base (pc m + word_of_nat (length (concat js))) m (rv_exec_all (zip ins js) m)"
  shows "emits_code_for f as R"
  proof -
  have "emits_code_for (emit_code js) as R" using assms by (intro emits_code_for_emit_code)
  then show ?thesis using assms(2) by (simp add: emits_code_def)
qed

subsection \<open>Locals\<close>

lemma aligned_small:
  assumes "off AND 3 = (0 :: u32)" "FIT_UNSIGNED (drop_bit 2 off) 6"
  shows "off AND 0xFC = off"
  using assms unfolding FIT_UNSIGNED_iff word32_eq_iff_bits by (simp add: bit_simps)

lemma fits_11: "FIT_UNSIGNED off 11 \<Longrightarrow> signed_take_bit 11 off = off"
  unfolding FIT_UNSIGNED_iff word32_eq_iff_bits by (simp add: bit_simps)

lemma aligned_10:
  assumes "off AND 3 = (0 :: u32)" "FIT_UNSIGNED off 10"
  shows "off AND 0x3FC = off"
  using assms unfolding FIT_UNSIGNED_iff word32_eq_iff_bits by (simp add: bit_simps)

text \<open>The address of a far local or of a far word: upper part plus base, lower part in the access.\<close>

definition rv32_far :: "rv32_env \<Rightarrow> u32 \<Rightarrow> u32 \<Rightarrow> u32 \<Rightarrow> u8 list list" where
  "rv32_far env t rs imm =
     [rv32_upper env t (fst (split_immediate imm)), rv32_halfword_bytes env (RV32_ENCODE_TYPE_CR 2 9 t rs)]"

definition rv32_far_instrs :: "u32 \<Rightarrow> u32 \<Rightarrow> u32 \<Rightarrow> rv_instr list" where
  "rv32_far_instrs t rs imm =
     [LUI (rv_reg t) (fst (split_immediate imm)), OP Add (rv_reg t) (rv_reg t) (rv_reg rs)]"

lemma fetches_far:
  assumes "MP_ENDIANNESS_LITTLE env" "rv_reg t \<noteq> 2" "rv_reg rs \<noteq> 0"
  shows "list_all2 fetches (rv32_far env t rs imm) (rv32_far_instrs t rs imm)"
  using fetches_upper [OF assms(1,2) split_immediate_upper] fetches_cadd [OF assms(1,3)]
  by (simp add: rv32_far_def rv32_far_instrs_def)

lemma far_address:
  "fst (split_immediate imm) + (a + signed_take_bit 11 (snd (split_immediate imm))) = a + imm"
  using split_immediate_sum [of imm] by (simp add: add.left_commute)

lemma rv32_local_codes:
  "asm_rv32_emit_mov_reg_local env rd local as = emit_code
     (let off = locals_stack_offset as + local * 4 in
      if FIT_UNSIGNED (drop_bit 2 off) 6
      then [rv32_halfword_bytes env (RV32_ENCODE_TYPE_CI 2 2 rd (drop_bit 6 (off AND 0xC0) OR (off AND 0x3C)))]
      else if FIT_UNSIGNED off 11 then [rv32_word_bytes env (RV32_ENCODE_TYPE_I 0x03 2 rd 2 off)]
      else rv32_far env rd 2 off @ [rv32_word_bytes env (RV32_ENCODE_TYPE_I 0x03 2 rd rd (snd (split_immediate off)))]) as"
  "asm_rv32_emit_mov_local_reg env local rs as = emit_code
     (let off = locals_stack_offset as + local * 4 in
      if FIT_UNSIGNED (drop_bit 2 off) 6
      then [rv32_halfword_bytes env (RV32_ENCODE_TYPE_CSS 2 6 rs (drop_bit 6 (off AND 0xC0) OR (off AND 0x3C)))]
      else if FIT_UNSIGNED off 11 then [rv32_word_bytes env (RV32_ENCODE_TYPE_S 0x23 2 2 rs off)]
      else rv32_far env 28 2 off @ [rv32_word_bytes env (RV32_ENCODE_TYPE_S 0x23 2 28 rs (snd (split_immediate off)))]) as"
  "asm_rv32_emit_mov_reg_local_addr env rd local as = emit_code
     (let off = locals_stack_offset as + local * 4 in
      if FIT_UNSIGNED off 10 \<and> off \<noteq> 0 \<and> RV32_IS_IN_C_REGISTER_WINDOW rd
      then [rv32_halfword_bytes env (RV32_ENCODE_TYPE_CIW 0 0 (RV32_MAP_IN_C_REGISTER_WINDOW rd) off)]
      else if FIT_UNSIGNED off 11 then [rv32_word_bytes env (RV32_ENCODE_TYPE_I 0x13 0 rd 2 off)]
      else rv32_li env rd off @ [rv32_halfword_bytes env (RV32_ENCODE_TYPE_CR 2 9 rd 2)]) as"
  unfolding asm_rv32_emit_mov_reg_local_def asm_rv32_emit_mov_local_reg_def asm_rv32_emit_mov_reg_local_addr_def
    load_upper_immediate_code load_full_immediate_code rv32_code rv32_far_def
  by (simp_all add: asm_consts)

lemma regs_rset: "regs (rset d v m) r = (if r = d \<and> d \<noteq> 0 then v else regs m r)"
  by (simp add: rset_def)

lemma reg_28_2 [simp]: "rv_reg 28 = 28" "rv_reg 2 = 2" "rv_reg 9 = 9" "rv_reg 8 = 8"
  by (simp_all add: rv_reg_def)

lemma length_far: "length (concat (rv32_far env t rs imm)) \<le> 6"
  using length_rv32_upper_lower(1) [of env t "fst (split_immediate imm)"] by (simp add: rv32_far_def)

text \<open>
  Reading a local: the code loads the word of the local's stack slot into the register, with
  the compressed, the short and the far form of the offset, and changes nothing else.
\<close>

lemma rv32_local_read:
  assumes env: "MP_ENDIANNESS_LITTLE env" and room: "emit_room 10 as"
    and off: "off = locals_stack_offset as + local * 4" "off AND 3 = 0"
    and rd: "rd < 32" "rd \<noteq> 0" "rd \<noteq> 2"
  shows "emits_code_for (asm_rv32_emit_mov_reg_local env rd local) as
    (\<lambda>base next m m'. m' = (rset (unat rd) (mem_load 4 (mem m) (rget m 2 + off)) m)\<lparr>pc := next\<rparr>)"
proof -
  note reg = reg_cases [OF rd(1,2)] unat_neq [OF rd(3)]
  note code = rv32_local_codes(1) [of env rd local as, unfolded Let_def, folded off(1)]
  consider (small) "FIT_UNSIGNED (drop_bit 2 off) 6"
    | (medium) "\<not> FIT_UNSIGNED (drop_bit 2 off) 6" "FIT_UNSIGNED off 11"
    | (far) "\<not> FIT_UNSIGNED (drop_bit 2 off) 6" "\<not> FIT_UNSIGNED off 11" by blast
  then show ?thesis
  proof cases
    case small
    note js = code [unfolded if_P [OF small]]
    from fetches_clwsp [OF env, of rd off] aligned_small [OF off(2) small] reg
    have f: "fetches (rv32_halfword_bytes env (RV32_ENCODE_TYPE_CI 2 2 rd (drop_bit 6 (off AND 0xC0) OR (off AND 0x3C))))
        (LOAD 4 False (unat rd) 2 off)" by simp
    show ?thesis
      by (rule emits_code_for_code [OF room, where ins = "[LOAD 4 False (unat rd) 2 off]"], rule js) (use f in simp_all)
  next
    case medium
    note js = code [unfolded if_not_P [OF medium(1)] if_P [OF medium(2)]]
    show ?thesis
      by (rule emits_code_for_code [OF room, where ins = "[LOAD 4 False (unat rd) 2 off]"], rule js)
        (use fetches_ops(8) [OF env, of rd 2 off] fits_11 [OF medium(2)] reg in \<open>simp_all\<close>)
  next
    case far
    note js = code [unfolded if_not_P [OF far(1)] if_not_P [OF far(2)]]
    show ?thesis
      by (rule emits_code_for_code [OF room, where ins = "rv32_far_instrs rd 2 off @
            [LOAD 4 False (unat rd) (unat rd) (signed_take_bit 11 (snd (split_immediate off)))]"], rule js)
        (use fetches_far [OF env, of rd 2 off] fetches_ops(8) [OF env, of rd rd "snd (split_immediate off)"]
           length_far [of env rd 2 off] reg
         in \<open>simp_all add: list_all2_appendI rv32_far_def rv32_far_instrs_def far_address add.assoc\<close>)
  qed
qed

text \<open>
  Writing a local: the code stores the register into the local's stack slot and changes no other
  byte of memory and no register but \<open>t3\<close>.
\<close>

lemma rv32_local_write:
  assumes env: "MP_ENDIANNESS_LITTLE env" and room: "emit_room 10 as"
    and off: "off = locals_stack_offset as + local * 4" "off AND 3 = 0"
    and rs: "rs < 32" "rs \<noteq> 28"
  shows "emits_code_for (asm_rv32_emit_mov_local_reg env local rs) as
    (\<lambda>base next m m'. pc m' = next \<and> mem m' = mem_store 4 (rget m 2 + off) (rget m (unat rs)) (mem m) \<and>
       (\<forall>r. r \<noteq> 28 \<longrightarrow> regs m' r = regs m r))"
proof -
  note reg = rv_reg_eq [OF rs(1)] unat_neq [OF rs(2)]
  note code = rv32_local_codes(2) [of env local rs as, unfolded Let_def, folded off(1)]
  consider (small) "FIT_UNSIGNED (drop_bit 2 off) 6"
    | (medium) "\<not> FIT_UNSIGNED (drop_bit 2 off) 6" "FIT_UNSIGNED off 11"
    | (far) "\<not> FIT_UNSIGNED (drop_bit 2 off) 6" "\<not> FIT_UNSIGNED off 11" by blast
  then show ?thesis
  proof cases
    case small
    note js = code [unfolded if_P [OF small]]
    from fetches_ops(12) [OF env, of rs off] aligned_small [OF off(2) small] reg
    have f: "fetches (rv32_halfword_bytes env (RV32_ENCODE_TYPE_CSS 2 6 rs (drop_bit 6 (off AND 0xC0) OR (off AND 0x3C))))
        (STORE 4 (unat rs) 2 off)" by simp
    show ?thesis
      by (rule emits_code_for_code [OF room, where ins = "[STORE 4 (unat rs) 2 off]"], rule js) (use f in simp_all)
  next
    case medium
    note js = code [unfolded if_not_P [OF medium(1)] if_P [OF medium(2)]]
    show ?thesis
      by (rule emits_code_for_code [OF room, where ins = "[STORE 4 (unat rs) 2 off]"], rule js)
        (use fetches_ops(11) [OF env, of 2 rs off] fits_11 [OF medium(2)] reg in \<open>simp_all\<close>)
  next
    case far
    note js = code [unfolded if_not_P [OF far(1)] if_not_P [OF far(2)]]
    show ?thesis
      by (rule emits_code_for_code [OF room, where ins = "rv32_far_instrs 28 2 off @
            [STORE 4 (unat rs) 28 (signed_take_bit 11 (snd (split_immediate off)))]"], rule js)
        (use fetches_far [OF env, of 28 2 off] fetches_ops(11) [OF env, of 28 rs "snd (split_immediate off)"]
           length_far [of env 28 2 off] reg
         in \<open>simp_all add: list_all2_appendI rv32_far_def rv32_far_instrs_def far_address add.assoc regs_rset\<close>)
  qed
qed

lemma rv_exec_all_snoc: "rv_exec_all (xs @ [(i, bs)]) m = rv_exec i (word_of_nat (length bs)) (rv_exec_all xs m)"
  by (induction xs arbitrary: m) auto

text \<open>
  The address of a local: the code puts the address of the stack slot into the register and
  changes nothing else.
\<close>

lemma rv32_local_address:
  assumes env: "MP_ENDIANNESS_LITTLE env" and room: "emit_room 10 as"
    and off: "off = locals_stack_offset as + local * 4" "off AND 3 = 0"
    and rd: "rd < 32" "rd \<noteq> 0" "rd \<noteq> 2"
  shows "emits_code_for (asm_rv32_emit_mov_reg_local_addr env rd local) as
    (\<lambda>base next m m'. m' = (rset (unat rd) (rget m 2 + off) m)\<lparr>pc := next\<rparr>)"
proof -
  note reg = reg_cases [OF rd(1,2)] unat_neq [OF rd(3)]
  note code = rv32_local_codes(3) [of env rd local as, unfolded Let_def, folded off(1)]
  consider (small) "FIT_UNSIGNED off 10 \<and> off \<noteq> 0 \<and> RV32_IS_IN_C_REGISTER_WINDOW rd"
    | (medium) "\<not> (FIT_UNSIGNED off 10 \<and> off \<noteq> 0 \<and> RV32_IS_IN_C_REGISTER_WINDOW rd)" "FIT_UNSIGNED off 11"
    | (far) "\<not> (FIT_UNSIGNED off 10 \<and> off \<noteq> 0 \<and> RV32_IS_IN_C_REGISTER_WINDOW rd)" "\<not> FIT_UNSIGNED off 11" by blast
  then show ?thesis
  proof cases
    case small
    note js = code [unfolded if_P [OF small]]
    from small have f: "off AND 0x3FC = off" "off \<noteq> 0" using aligned_10 [OF off(2)] by auto
    show ?thesis
      by (rule emits_code_for_code [OF room, where ins = "[OP_IMM Add (unat rd) 2 off]"], rule js)
        (use f fetches_caddi4spn [OF env, of off "RV32_MAP_IN_C_REGISTER_WINDOW rd"] small rv_reg_window in simp_all)
  next
    case medium
    note js = code [unfolded if_not_P [OF medium(1)] if_P [OF medium(2)]]
    show ?thesis
      by (rule emits_code_for_code [OF room, where ins = "[OP_IMM Add (unat rd) 2 off]"], rule js)
        (use fetches_ops(2) [OF env, of rd 2 off] fits_11 [OF medium(2)] reg in \<open>simp_all\<close>)
  next
    case far
    note js = code [unfolded if_not_P [OF far(1)] if_not_P [OF far(2)]]
    have f: "length (rv32_li_instrs rd off) = length (rv32_li env rd off)"
      by (simp add: rv32_li_def rv32_li_instrs_def)
    have add: "fetches (rv32_halfword_bytes env (RV32_ENCODE_TYPE_CR 2 9 rd 2)) (OP Add (unat rd) (unat rd) 2)"
      using fetches_cadd [OF env, of 2 rd] reg(1) by simp
    have li: "list_all2 fetches (rv32_li env rd off) (rv32_li_instrs rd off)"
      using fetches_li [OF env, of rd off] reg by simp
    show ?thesis
    proof (rule emits_code_for_code [OF room, where ins = "rv32_li_instrs rd off @ [OP Add (unat rd) (unat rd) 2]"], rule js)
      show "list_all2 fetches (rv32_li env rd off @ [rv32_halfword_bytes env (RV32_ENCODE_TYPE_CR 2 9 rd 2)])
          (rv32_li_instrs rd off @ [OP Add (unat rd) (unat rd) 2])"
        using li add by (intro list_all2_appendI) auto
    qed (use length_li [of env rd off] straight_li [of rd off] exec_li [of rd off env] reg f
      in \<open>simp_all add: rv_exec_all_snoc add.commute add.left_commute\<close>)
  qed
qed

text \<open>
  C13: The code that reads, writes or takes the address of a local works on the word of its stack
  slot, with the compressed, the short and the far form of the offset: a read changes only the
  destination, a write no other byte of memory and no register but \<open>t3\<close>, the address is that of
  the slot.
\<close>

theorem rv32_locals_correct:
  assumes env: "MP_ENDIANNESS_LITTLE env" and room: "emit_room 10 as"
    and off: "off = locals_stack_offset as + local * 4" "off AND 3 = 0"
    and rd: "rd < 32" "rd \<noteq> 0" "rd \<noteq> 2" and rs: "rs < 32" "rs \<noteq> 28"
  shows "emits_code_for (asm_rv32_emit_mov_reg_local env rd local) as
      (\<lambda>base next m m'. m' = (rset (unat rd) (mem_load 4 (mem m) (rget m 2 + off)) m)\<lparr>pc := next\<rparr>) \<and>
    emits_code_for (asm_rv32_emit_mov_local_reg env local rs) as
      (\<lambda>base next m m'. pc m' = next \<and> mem m' = mem_store 4 (rget m 2 + off) (rget m (unat rs)) (mem m) \<and>
         (\<forall>r. r \<noteq> 28 \<longrightarrow> regs m' r = regs m r)) \<and>
    emits_code_for (asm_rv32_emit_mov_reg_local_addr env rd local) as
      (\<lambda>base next m m'. m' = (rset (unat rd) (rget m 2 + off) m)\<lparr>pc := next\<rparr>)"
  using rv32_local_read [OF env room off rd] rv32_local_write [OF env room off rs] rv32_local_address [OF env room off rd]
  by blast

theorem rv32_locals_correct_witness:
  "emits_code_for (asm_rv32_emit_mov_reg_local rv32_demo_env 10 600) rv32_emit_state
      (\<lambda>base next m m'. m' = (rset (unat (10 :: u32)) (mem_load 4 (mem m) (rget m 2 + 2424)) m)\<lparr>pc := next\<rparr>) \<and>
    emits_code_for (asm_rv32_emit_mov_local_reg rv32_demo_env 600 10) rv32_emit_state
      (\<lambda>base next m m'. pc m' = next \<and> mem m' = mem_store 4 (rget m 2 + 2424) (rget m (unat (10 :: u32))) (mem m) \<and>
         (\<forall>r. r \<noteq> 28 \<longrightarrow> regs m' r = regs m r)) \<and>
    emits_code_for (asm_rv32_emit_mov_reg_local_addr rv32_demo_env 10 600) rv32_emit_state
      (\<lambda>base next m m'. m' = (rset (unat (10 :: u32)) (rget m 2 + 2424) m)\<lparr>pc := next\<rparr>)"
  by (rule rv32_locals_correct) (simp_all add: rv32_emit_state_simps mp_env_ok_rv32_demo)

subsection \<open>Loads and stores\<close>

lemma word_le_2_cases: "sz \<le> 2 \<Longrightarrow> sz = 0 \<or> sz = 1 \<or> sz = (2 :: u32)"
  by (auto simp: word_le_nat_alt word_unat_eq_iff)

lemma fetches_load:
  assumes "MP_ENDIANNESS_LITTLE env" "sz \<le> (2 :: u32)"
  shows "fetches (rv32_word_bytes env (RV32_ENCODE_TYPE_I 0x03 (RV32_LOAD_OPCODE_TABLE ! unat sz) rd rs imm))
    (LOAD (2 ^ unat sz) False (rv_reg rd) (rv_reg rs) (signed_take_bit 11 imm))"
  using word_le_2_cases [OF assms(2)] fetches_ops(6) [OF assms(1), of rd rs imm]
    fetches_ops(7) [OF assms(1), of rd rs imm] fetches_ops(8) [OF assms(1), of rd rs imm]
  by (elim disjE) (simp_all add: RV32_LOAD_OPCODE_TABLE_def)

lemma fetches_store:
  assumes "MP_ENDIANNESS_LITTLE env" "sz \<le> (2 :: u32)"
  shows "fetches (rv32_word_bytes env (RV32_ENCODE_TYPE_S 0x23 sz rs1 rs2 imm))
    (STORE (2 ^ unat sz) (rv_reg rs2) (rv_reg rs1) (signed_take_bit 11 imm))"
  using word_le_2_cases [OF assms(2)] fetches_ops(9) [OF assms(1), of rs1 rs2 imm]
    fetches_ops(10) [OF assms(1), of rs1 rs2 imm] fetches_ops(11) [OF assms(1), of rs1 rs2 imm]
  by (elim disjE) simp_all

lemma fits_12: "mp_env_ok env \<Longrightarrow> MP_FIT_SIGNED env 12 v \<Longrightarrow> signed_take_bit 11 v = v"
proof -
  assume "mp_env_ok env" "MP_FIT_SIGNED env 12 v"
  then have "fits_signed 12 v" by (simp add: mp_env_ok_def)
  then have "signed_take_bit 11 (sint v) = sint v"
    by (simp add: fits_signed_def signed_take_bit_int_eq_self)
  from arg_cong [OF this, where f = "\<lambda>k. bit k n" for n]
  have "bit (sint v) (min 11 n) = bit (sint v) n" for n by (simp add: bit_signed_take_bit_iff)
  then show ?thesis
    by (intro bit_word_eqI) (auto simp: bit_signed_take_bit_iff bit_sint_iff split: if_splits)
qed

lemma fits_6: "mp_env_ok env \<Longrightarrow> MP_FIT_UNSIGNED env 6 (push_bit 2 v) \<Longrightarrow> push_bit 2 v AND 0x7C = push_bit 2 v"
proof -
  assume "mp_env_ok env" "MP_FIT_UNSIGNED env 6 (push_bit 2 v)"
  then have "fits_unsigned 6 (push_bit 2 v)" by (simp add: mp_env_ok_def)
  then have "take_bit 6 (push_bit 2 v) = push_bit 2 v"
    by (simp add: fits_unsigned_def word_eq_iff_unsigned [where ?'a = int] unsigned_take_bit_eq take_bit_int_eq_self)
  then show ?thesis unfolding word32_eq_iff_bits by (simp add: bit_simps)
qed

lemma rv32_access_codes:
  assumes "sz \<le> (2 :: u32)"
  shows "asm_rv32_emit_load_reg_reg_offset env rd rs offset sz = emit_code
     (let off = push_bit (unat sz) offset; ft3 = RV32_LOAD_OPCODE_TABLE ! unat sz in
      if sint off \<ge> 0 \<and> sz = 2 \<and> RV32_IS_IN_C_REGISTER_WINDOW rd \<and> RV32_IS_IN_C_REGISTER_WINDOW rs \<and> MP_FIT_UNSIGNED env 6 off
      then [rv32_halfword_bytes env (RV32_ENCODE_TYPE_CL 0 2 (RV32_MAP_IN_C_REGISTER_WINDOW rd) (RV32_MAP_IN_C_REGISTER_WINDOW rs) off)]
      else if MP_FIT_SIGNED env 12 off then [rv32_word_bytes env (RV32_ENCODE_TYPE_I 0x03 ft3 rd rs off)]
      else rv32_far env rd rs off @ [rv32_word_bytes env (RV32_ENCODE_TYPE_I 0x03 ft3 rd rd (snd (split_immediate off)))])"
  "asm_rv32_emit_store_reg_reg_offset env rd rs offset sz = emit_code
     (let off = push_bit (unat sz) offset in
      if sint off \<ge> 0 \<and> sz = 2 \<and> RV32_IS_IN_C_REGISTER_WINDOW rd \<and> RV32_IS_IN_C_REGISTER_WINDOW rs \<and> MP_FIT_UNSIGNED env 6 off
      then [rv32_halfword_bytes env (RV32_ENCODE_TYPE_CL 0 6 (RV32_MAP_IN_C_REGISTER_WINDOW rd) (RV32_MAP_IN_C_REGISTER_WINDOW rs) off)]
      else if MP_FIT_SIGNED env 12 off then [rv32_word_bytes env (RV32_ENCODE_TYPE_S 0x23 sz rs rd off)]
      else rv32_far env 28 rs off @ [rv32_word_bytes env (RV32_ENCODE_TYPE_S 0x23 sz 28 rd (snd (split_immediate off)))])"
  unfolding asm_rv32_emit_load_reg_reg_offset_def asm_rv32_emit_store_reg_reg_offset_def
    load_upper_immediate_code rv32_code rv32_far_def
  by (simp_all only: asm_consts assms not_True_eq_False if_False append.simps if_distrib [of emit_code])


text \<open>
  Loads at a scaled offset: for each access size the code reads the zero-extended value at
  base register plus scaled offset, in the compressed, the 12-bit and the far form, whenever
  the destination is not the base.
\<close>

lemma rv32_load_reg_reg_offset_correct:
  assumes env: "MP_ENDIANNESS_LITTLE env" "mp_env_ok env" and room: "emit_room 10 as" and sz: "sz \<le> 2"
    and rd: "rd < 32" "rd \<noteq> 0" "rd \<noteq> 2" and rs: "rs < 32" "rs \<noteq> 0" "rs \<noteq> rd"
  shows "emits_code_for (asm_rv32_emit_load_reg_reg_offset env rd rs offset sz) as
    (\<lambda>base next m m'. m' =
       (rset (unat rd) (mem_load (2 ^ unat sz) (mem m) (rget m (unat rs) + push_bit (unat sz) offset)) m)\<lparr>pc := next\<rparr>)"
proof -
  let ?off = "push_bit (unat sz) offset"
  let ?c = "sint ?off \<ge> 0 \<and> sz = 2 \<and> RV32_IS_IN_C_REGISTER_WINDOW rd \<and> RV32_IS_IN_C_REGISTER_WINDOW rs \<and> MP_FIT_UNSIGNED env 6 ?off"
  note reg = reg_cases [OF rd(1,2)] unat_neq [OF rd(3)] reg_cases [OF rs(1,2)] unat_neq [OF rs(3)]
  note code = fun_cong [OF rv32_access_codes(1) [OF sz, of env rd rs offset, unfolded Let_def]]
  consider (small) ?c | (medium) "\<not> ?c" "MP_FIT_SIGNED env 12 ?off" | (far) "\<not> ?c" "\<not> MP_FIT_SIGNED env 12 ?off"
    by blast
  then show ?thesis
  proof cases
    case small
    note js = code [unfolded if_P [OF small]]
    have s: "sz = 2" "RV32_IS_IN_C_REGISTER_WINDOW rd" "RV32_IS_IN_C_REGISTER_WINDOW rs" using small by blast+
    have "?off AND 0x7C = ?off" using small fits_6 [OF env(2), of offset] by auto
    then have f: "fetches (rv32_halfword_bytes env (RV32_ENCODE_TYPE_CL 0 2 (RV32_MAP_IN_C_REGISTER_WINDOW rd)
        (RV32_MAP_IN_C_REGISTER_WINDOW rs) ?off)) (LOAD 4 False (unat rd) (unat rs) ?off)"
      using fetches_ops(13) [OF env(1), of "RV32_MAP_IN_C_REGISTER_WINDOW rd" "RV32_MAP_IN_C_REGISTER_WINDOW rs" ?off]
        rv_reg_window [OF s(2)] rv_reg_window [OF s(3)] by simp
    show ?thesis
      by (rule emits_code_for_code [OF room, where ins = "[LOAD 4 False (unat rd) (unat rs) ?off]"], rule js)
        (use f s(1) in simp_all)
  next
    case medium
    note js = code [unfolded if_not_P [OF medium(1)] if_P [OF medium(2)]]
    show ?thesis
      by (rule emits_code_for_code [OF room, where ins = "[LOAD (2 ^ unat sz) False (unat rd) (unat rs) ?off]"], rule js)
        (use fetches_load [OF env(1) sz, of rd rs ?off] fits_12 [OF env(2) medium(2)] reg in simp_all)
  next
    case far
    note js = code [unfolded if_not_P [OF far(1)] if_not_P [OF far(2)]]
    show ?thesis
      by (rule emits_code_for_code [OF room, where ins = "rv32_far_instrs rd rs ?off @
            [LOAD (2 ^ unat sz) False (unat rd) (unat rd) (signed_take_bit 11 (snd (split_immediate ?off)))]"], rule js)
        (use fetches_far [OF env(1), of rd rs ?off] fetches_load [OF env(1) sz, of rd rd "snd (split_immediate ?off)"]
           length_far [of env rd rs ?off] reg
         in \<open>simp_all add: list_all2_appendI rv32_far_def rv32_far_instrs_def far_address add.assoc\<close>)
  qed
qed

text \<open>
  Stores at a scaled offset: for each access size the code writes the low bytes of the register
  at base register plus scaled offset and changes no register but \<open>t3\<close>.
\<close>

lemma rv32_store_reg_reg_offset_correct:
  assumes env: "MP_ENDIANNESS_LITTLE env" "mp_env_ok env" and room: "emit_room 10 as" and sz: "sz \<le> 2"
    and rd: "rd < 32" "rd \<noteq> 28" and rs: "rs < 32" "rs \<noteq> 0" "rs \<noteq> 28"
  shows "emits_code_for (asm_rv32_emit_store_reg_reg_offset env rd rs offset sz) as
    (\<lambda>base next m m'. pc m' = next \<and>
       mem m' = mem_store (2 ^ unat sz) (rget m (unat rs) + push_bit (unat sz) offset) (rget m (unat rd)) (mem m) \<and>
       (\<forall>r. r \<noteq> 28 \<longrightarrow> regs m' r = regs m r))"
proof -
  let ?off = "push_bit (unat sz) offset"
  let ?c = "sint ?off \<ge> 0 \<and> sz = 2 \<and> RV32_IS_IN_C_REGISTER_WINDOW rd \<and> RV32_IS_IN_C_REGISTER_WINDOW rs \<and> MP_FIT_UNSIGNED env 6 ?off"
  note reg = rv_reg_eq [OF rd(1)] unat_neq [OF rd(2)] reg_cases [OF rs(1,2)] unat_neq [OF rs(3)]
  note code = fun_cong [OF rv32_access_codes(2) [OF sz, of env rd rs offset, unfolded Let_def]]
  consider (small) ?c | (medium) "\<not> ?c" "MP_FIT_SIGNED env 12 ?off" | (far) "\<not> ?c" "\<not> MP_FIT_SIGNED env 12 ?off"
    by blast
  then show ?thesis
  proof cases
    case small
    note js = code [unfolded if_P [OF small]]
    have s: "sz = 2" "RV32_IS_IN_C_REGISTER_WINDOW rd" "RV32_IS_IN_C_REGISTER_WINDOW rs" using small by blast+
    have "?off AND 0x7C = ?off" using small fits_6 [OF env(2), of offset] by auto
    then have f: "fetches (rv32_halfword_bytes env (RV32_ENCODE_TYPE_CL 0 6 (RV32_MAP_IN_C_REGISTER_WINDOW rd)
        (RV32_MAP_IN_C_REGISTER_WINDOW rs) ?off)) (STORE 4 (unat rd) (unat rs) ?off)"
      using fetches_ops(14) [OF env(1), of "RV32_MAP_IN_C_REGISTER_WINDOW rd" "RV32_MAP_IN_C_REGISTER_WINDOW rs" ?off]
        rv_reg_window [OF s(2)] rv_reg_window [OF s(3)] by simp
    show ?thesis
      by (rule emits_code_for_code [OF room, where ins = "[STORE 4 (unat rd) (unat rs) ?off]"], rule js)
        (use f s(1) in simp_all)
  next
    case medium
    note js = code [unfolded if_not_P [OF medium(1)] if_P [OF medium(2)]]
    show ?thesis
      by (rule emits_code_for_code [OF room, where ins = "[STORE (2 ^ unat sz) (unat rd) (unat rs) ?off]"], rule js)
        (use fetches_store [OF env(1) sz, of rs rd ?off] fits_12 [OF env(2) medium(2)] reg in simp_all)
  next
    case far
    note js = code [unfolded if_not_P [OF far(1)] if_not_P [OF far(2)]]
    show ?thesis
      by (rule emits_code_for_code [OF room, where ins = "rv32_far_instrs 28 rs ?off @
            [STORE (2 ^ unat sz) (unat rd) 28 (signed_take_bit 11 (snd (split_immediate ?off)))]"], rule js)
        (use fetches_far [OF env(1), of 28 rs ?off] fetches_store [OF env(1) sz, of 28 rd "snd (split_immediate ?off)"]
           length_far [of env 28 rs ?off] reg
         in \<open>simp_all add: list_all2_appendI rv32_far_def rv32_far_instrs_def far_address add.assoc regs_rset\<close>)
  qed
qed

text \<open>
  Loads and stores at a scaled offset: for each access size, in the compressed, the 12-bit and the
  far form, a load reads the zero-extended value at base register plus scaled offset whenever the
  destination is not the base, and a store writes the low bytes of the register there and changes no
  register but \<open>t3\<close>.
\<close>

lemma rv32_offset_access_correct:
  assumes env: "MP_ENDIANNESS_LITTLE env" "mp_env_ok env" and room: "emit_room 10 as" and sz: "sz \<le> 2"
    and rd: "rd < 32" "rd \<noteq> 0" "rd \<noteq> 2" and rs: "rs < 32" "rs \<noteq> 0"
    and rv: "rv < 32" "rv \<noteq> 28"
  shows "(rs \<noteq> rd \<longrightarrow> emits_code_for (asm_rv32_emit_load_reg_reg_offset env rd rs offset sz) as
      (\<lambda>base next m m'. m' =
         (rset (unat rd) (mem_load (2 ^ unat sz) (mem m) (rget m (unat rs) + push_bit (unat sz) offset)) m)\<lparr>pc := next\<rparr>)) \<and>
    (rs \<noteq> 28 \<longrightarrow> emits_code_for (asm_rv32_emit_store_reg_reg_offset env rv rs offset sz) as
      (\<lambda>base next m m'. pc m' = next \<and>
         mem m' = mem_store (2 ^ unat sz) (rget m (unat rs) + push_bit (unat sz) offset) (rget m (unat rv)) (mem m) \<and>
         (\<forall>r. r \<noteq> 28 \<longrightarrow> regs m' r = regs m r)))"
  using rv32_load_reg_reg_offset_correct [OF env room sz rd rs] rv32_store_reg_reg_offset_correct [OF env room sz rv rs]
  by blast

text \<open>
  C14: A far load whose destination is also its base (\<open>REG_RET\<close> and \<open>REG_ARG_1\<close> are the same
  register) overwrites the base with the upper part of the offset before adding it: the
  address that is read is twice the upper part plus the lower part, whatever the base
  register held.
\<close>

theorem rv32_far_load_clobbers_base:
  assumes env: "MP_ENDIANNESS_LITTLE env" "mp_env_ok env" and room: "emit_room 10 as" and sz: "sz \<le> 2"
    and rd: "rd < 32" "rd \<noteq> 0" "rd \<noteq> 2" and far: "\<not> fits_signed 12 (push_bit (unat sz) offset)"
    and small: "\<not> fits_unsigned 6 (push_bit (unat sz) offset)"
    and split: "split_immediate (push_bit (unat sz) offset) = (upper, lower)"
  shows "emits_code_for (asm_rv32_emit_load_reg_reg_offset env rd rd offset sz) as
    (\<lambda>base next m m'. m' =
       (rset (unat rd) (mem_load (2 ^ unat sz) (mem m) (2 * upper + signed_take_bit 11 lower)) m)\<lparr>pc := next\<rparr>)"
proof -
  let ?off = "push_bit (unat sz) offset"
  note reg = reg_cases [OF rd(1,2)] unat_neq [OF rd(3)]
  have far': "\<not> MP_FIT_SIGNED env 12 ?off" "\<not> MP_FIT_UNSIGNED env 6 ?off"
    using far small env(2) by (simp_all add: mp_env_ok_def)
  have js: "asm_rv32_emit_load_reg_reg_offset env rd rd offset sz as = emit_code (rv32_far env rd rd ?off @
      [rv32_word_bytes env (RV32_ENCODE_TYPE_I 0x03 (RV32_LOAD_OPCODE_TABLE ! unat sz) rd rd (snd (split_immediate ?off)))]) as"
    by (simp only: rv32_access_codes(1) [OF sz] Let_def far' simp_thms if_False)
  show ?thesis
    by (rule emits_code_for_code [OF room, where ins = "rv32_far_instrs rd rd ?off @
          [LOAD (2 ^ unat sz) False (unat rd) (unat rd) (signed_take_bit 11 (snd (split_immediate ?off)))]"], rule js)
      (use fetches_far [OF env(1), of rd rd ?off] fetches_load [OF env(1) sz, of rd rd "snd (split_immediate ?off)"]
         length_far [of env rd rd ?off] reg split
       in \<open>simp_all add: list_all2_appendI rv32_far_def rv32_far_instrs_def add.assoc\<close>)
qed

theorem rv32_far_load_clobbers_base_witness:
  "emits_code_for (asm_rv32_emit_load_reg_reg_offset rv32_demo_env 10 10 0x1000 0) rv32_emit_state
    (\<lambda>base next m m'. m' = (rset (unat (10 :: u32)) (mem_load (2 ^ unat (0 :: u32)) (mem m)
       (2 * 0x1000 + signed_take_bit 11 0)) m)\<lparr>pc := next\<rparr>)"
  by (rule rv32_far_load_clobbers_base)
    (simp_all add: rv32_emit_state_simps mp_env_ok_rv32_demo fits_signed_def fits_unsigned_def split_immediate_def)

subsection \<open>Indexed loads and stores\<close>

lemma rget_mem [simp]: "rget (m\<lparr>mem := M\<rparr>) r = rget m r" "rget (m\<lparr>mem := M, pc := a\<rparr>) r = rget m r"
  by (simp_all add: rget_def)

lemma rv_op_alu_shnadd:
  "sz = 1 \<or> sz = 2 \<Longrightarrow> rv_op_alu (take_bit 7 0x10) (take_bit 3 (push_bit (unat sz) 1)) =
     Some (if sz = (1 :: u32) then Sh1add else Sh2add)"
  by (auto simp: rv_op_alu_def)

definition rv32_index :: "rv32_env \<Rightarrow> u32 \<Rightarrow> u32 \<Rightarrow> u32 \<Rightarrow> u8 list list" where
  "rv32_index env rs1 rs2 sz =
     (if sz > 0 \<and> asm_rv32_allow_zba_opcodes env
      then [rv32_word_bytes env (RV32_ENCODE_TYPE_R 0x33 (push_bit (unat sz) 1) 0x10 28 rs2 rs1)]
      else if sz > 0
      then [rv32_word_bytes env (RV32_ENCODE_TYPE_I 0x13 1 28 rs2 (sz AND 0x1F)),
            rv32_halfword_bytes env (RV32_ENCODE_TYPE_CR 2 9 28 rs1)]
      else [rv32_word_bytes env (RV32_ENCODE_TYPE_R 0x33 0 0 28 rs1 rs2)])"

definition rv32_index_instrs :: "rv32_env \<Rightarrow> u32 \<Rightarrow> u32 \<Rightarrow> u32 \<Rightarrow> rv_instr list" where
  "rv32_index_instrs env rs1 rs2 sz =
     (if sz > 0 \<and> asm_rv32_allow_zba_opcodes env
      then [OP (if sz = 1 then Sh1add else Sh2add) 28 (rv_reg rs2) (rv_reg rs1)]
      else if sz > 0
      then [OP_IMM Sll 28 (rv_reg rs2) (take_bit 5 sz), OP Add 28 28 (rv_reg rs1)]
      else [OP Add 28 (rv_reg rs1) (rv_reg rs2)])"

lemma fetches_index:
  assumes "MP_ENDIANNESS_LITTLE env" "rv_reg rs1 \<noteq> 0" "sz \<le> 2"
  shows "list_all2 fetches (rv32_index env rs1 rs2 sz) (rv32_index_instrs env rs1 rs2 sz)"
proof -
  have "fetches (rv32_word_bytes env (RV32_ENCODE_TYPE_R 0x33 (push_bit (unat sz) 1) 0x10 28 rs2 rs1))
      (OP (if sz = 1 then Sh1add else Sh2add) 28 (rv_reg rs2) (rv_reg rs1))" if "sz > 0"
    using fetches_op [OF assms(1) rv_op_alu_shnadd, of sz 28 rs2 rs1] that word_le_2_cases [OF assms(3)] by auto
  moreover have "fetches (rv32_word_bytes env (RV32_ENCODE_TYPE_R 0x33 0 0 28 rs1 rs2)) (OP Add 28 (rv_reg rs1) (rv_reg rs2))"
    using fetches_op [OF assms(1), of 0 0 Add 28 rs1 rs2] by (simp add: rv_op_alu_def)
  moreover have "fetches (rv32_word_bytes env (RV32_ENCODE_TYPE_I 0x13 1 28 rs2 (sz AND 0x1F))) (OP_IMM Sll 28 (rv_reg rs2) (take_bit 5 sz))"
    using fetches_ops(5) [OF assms(1), of 28 rs2 sz] by simp
  moreover have "fetches (rv32_halfword_bytes env (RV32_ENCODE_TYPE_CR 2 9 28 rs1)) (OP Add 28 28 (rv_reg rs1))"
    using fetches_cadd [OF assms(1,2), of 28] by simp
  ultimately show ?thesis by (simp add: rv32_index_def rv32_index_instrs_def)
qed

lemma exec_index:
  assumes "rv_reg rs1 \<noteq> 28" "sz \<le> 2"
  shows "rv_exec_all (zip (rv32_index_instrs env rs1 rs2 sz) (rv32_index env rs1 rs2 sz)) m =
    (rset 28 (rget m (rv_reg rs1) + push_bit (unat sz) (rget m (rv_reg rs2))) m)
      \<lparr>pc := pc m + word_of_nat (length (concat (rv32_index env rs1 rs2 sz)))\<rparr>"
  using word_le_2_cases [OF assms(2)] assms(1)
  by (elim disjE) (auto simp: rv32_index_def rv32_index_instrs_def add.commute push_bit_eq_mult)

lemma length_index: "length (concat (rv32_index env rs1 rs2 sz)) \<le> 6"
  "length (rv32_index_instrs env rs1 rs2 sz) = length (rv32_index env rs1 rs2 sz)"
  by (simp_all add: rv32_index_def rv32_index_instrs_def)

lemma straight_index: "\<forall>i \<in> set (rv32_index_instrs env rs1 rs2 sz). straight i"
  by (simp add: rv32_index_instrs_def)

lemma fix_up_code:
  "sz \<le> 2 \<Longrightarrow> asm_rv32_fix_up_scaled_reg_reg_reg env rs1 rs2 sz = emit_code (rv32_index env rs1 rs2 sz)"
  unfolding asm_rv32_fix_up_scaled_reg_reg_reg_def rv32_index_def rv32_code
  by (simp add: asm_consts if_distrib [of emit_code])

lemma indexed_codes:
  assumes "sz \<le> 2" "mp_env_ok env"
  shows "asm_rv32_emit_load_reg_reg_reg env rd rs1 rs2 sz = emit_code (rv32_index env rs1 rs2 sz @
      [rv32_word_bytes env (RV32_ENCODE_TYPE_I 0x03 (RV32_LOAD_OPCODE_TABLE ! unat sz) rd 28 0)])"
    "asm_rv32_emit_store_reg_reg_reg env rd rs1 rs2 sz = emit_code (rv32_index env rs1 rs2 sz @
      [rv32_word_bytes env (RV32_ENCODE_TYPE_S 0x23 sz 28 rd 0)])"
proof -
  have "\<not> RV32_IS_IN_C_REGISTER_WINDOW 28" "MP_FIT_SIGNED env 12 0"
    using assms(2) by (simp_all add: RV32_IS_IN_C_REGISTER_WINDOW_def asm_consts mp_env_ok_def fits_signed_def)
  then show "asm_rv32_emit_load_reg_reg_reg env rd rs1 rs2 sz = emit_code (rv32_index env rs1 rs2 sz @
      [rv32_word_bytes env (RV32_ENCODE_TYPE_I 0x03 (RV32_LOAD_OPCODE_TABLE ! unat sz) rd 28 0)])"
    "asm_rv32_emit_store_reg_reg_reg env rd rs1 rs2 sz = emit_code (rv32_index env rs1 rs2 sz @
      [rv32_word_bytes env (RV32_ENCODE_TYPE_S 0x23 sz 28 rd 0)])"
    unfolding asm_rv32_emit_load_reg_reg_reg_def asm_rv32_emit_store_reg_reg_reg_def
      fix_up_code [OF assms(1)] rv32_access_codes [OF assms(1)] Let_def
    by (simp_all add: asm_consts asm_seq_code)
qed

text \<open>
  Indexed loads and stores: the code accesses base plus index scaled by the access size, with
  and without the Zba instructions, and changes no other register but \<open>t3\<close>.
\<close>

lemma rv32_indexed_access_correct:
  assumes env: "MP_ENDIANNESS_LITTLE env" "mp_env_ok env" and room: "emit_room 10 as" and sz: "sz \<le> 2"
    and rd: "rd < 32" "rd \<noteq> 28" and rs: "rs1 < 32" "rs1 \<noteq> 0" "rs1 \<noteq> 28" "rs2 < 32" "rs2 \<noteq> 28"
  shows "emits_code_for (asm_rv32_emit_load_reg_reg_reg env rd rs1 rs2 sz) as
    (\<lambda>base next m m'. pc m' = next \<and> mem m' = mem m \<and>
       (\<forall>r. r \<noteq> 28 \<longrightarrow> rget m' r =
          (if r = unat rd \<and> rd \<noteq> 0 then mem_load (2 ^ unat sz) (mem m)
             (rget m (unat rs1) + push_bit (unat sz) (rget m (unat rs2))) else rget m r))) \<and>
    emits_code_for (asm_rv32_emit_store_reg_reg_reg env rd rs1 rs2 sz) as
    (\<lambda>base next m m'. pc m' = next \<and> (\<forall>r. r \<noteq> 28 \<longrightarrow> rget m' r = rget m r) \<and>
       mem m' = mem_store (2 ^ unat sz) (rget m (unat rs1) + push_bit (unat sz) (rget m (unat rs2)))
         (rget m (unat rd)) (mem m))"
    (is "emits_code_for _ _ ?load \<and> emits_code_for _ _ ?store")
proof
  note reg = rv_reg_eq [OF rd(1)] unat_neq [OF rd(2)] reg_cases [OF rs(1,2)] unat_neq [OF rs(3)] rv_reg_eq [OF rs(4)]
  note facts = fetches_index [OF env(1) _ sz, of rs1 rs2] exec_index [OF _ sz, of rs1 env rs2]
    length_index [of env rs1 rs2 sz] straight_index [of env rs1 rs2 sz]
  have f: "fetches (rv32_word_bytes env (RV32_ENCODE_TYPE_I 0x03 (RV32_LOAD_OPCODE_TABLE ! unat sz) rd 28 0))
      (LOAD (2 ^ unat sz) False (unat rd) 28 0)"
    using fetches_load [OF env(1) sz, of rd 28 0] reg(1) by simp
  show "emits_code_for (asm_rv32_emit_load_reg_reg_reg env rd rs1 rs2 sz) as ?load"
    unfolding indexed_codes [OF sz env(2)]
    by (rule emits_code_for_emit_code [OF room, where ins = "rv32_index_instrs env rs1 rs2 sz @ [LOAD (2 ^ unat sz) False (unat rd) 28 0]"])
      (use f facts reg in \<open>auto simp: list_all2_appendI rv_exec_all_snoc word_unat_eq_iff add.assoc butlast_append\<close>)
  have f: "fetches (rv32_word_bytes env (RV32_ENCODE_TYPE_S 0x23 sz 28 rd 0))
      (STORE (2 ^ unat sz) (unat rd) 28 0)"
    using fetches_store [OF env(1) sz, of 28 rd 0] reg(1) by simp
  show "emits_code_for (asm_rv32_emit_store_reg_reg_reg env rd rs1 rs2 sz) as ?store"
    unfolding indexed_codes [OF sz env(2)]
    by (rule emits_code_for_emit_code [OF room, where ins = "rv32_index_instrs env rs1 rs2 sz @ [STORE (2 ^ unat sz) (unat rd) 28 0]"])
      (use f facts reg in \<open>auto simp: list_all2_appendI rv_exec_all_snoc add.assoc butlast_append\<close>)
qed



subsection \<open>Calls\<close>

lemma truncate_taint: "mp_asm_base_t.truncate (taint k as) = mp_asm_base_t.truncate as"
  by (simp add: taint_def mp_asm_base_t.defs)

lemma fetches_call_jalr:
  assumes "MP_ENDIANNESS_LITTLE env"
  shows "fetches (rv32_halfword_bytes env (RV32_ENCODE_TYPE_CR 2 9 28 0)) (JALR 1 28 0)"
    "fetches (rv32_halfword_bytes env (RV32_ENCODE_TYPE_CR 2 9 8 0)) (JALR 1 8 0)"
  using fetches_cjalr [OF assms, of 28] fetches_cjalr [OF assms, of 8] by simp_all

text \<open>The three forms of an indirect call, by the size of the offset in the table.\<close>

lemma rv32_call_ind_small:
  assumes env: "MP_ENDIANNESS_LITTLE env" and room: "emit_room 12 as" and small: "FIT_UNSIGNED (index * 4) 6"
  shows "emits_code_for (asm_rv32_emit_call_ind env index) as
    (\<lambda>base next m m'. pc m' = mem_load 4 (mem m) (rget m 9 + index * 4) AND NOT 1 \<and>
       rget m' 1 = next \<and> same_but {1, 8, 28} m m')"
proof -
  let ?off = "index * 4"
  have "?off = push_bit 2 index" by (simp add: push_bit_eq_mult)
  then have al: "?off AND 3 = 0" unfolding word32_eq_iff_bits by (simp add: bit_simps)
  have "?off AND 0x7C = ?off" using small al unfolding FIT_UNSIGNED_iff word32_eq_iff_bits by (simp add: bit_simps)
  then have f: "fetches (rv32_halfword_bytes env (RV32_ENCODE_TYPE_CL 0 2 0 1 ?off)) (LOAD 4 False 8 9 ?off)"
    using fetches_ops(13) [OF env, of 0 1 ?off] by simp
  show ?thesis
  proof (rule emits_code_for_list [OF _ truncate_taint room, where ins = "[LOAD 4 False 8 9 ?off, JALR 1 8 0]"])
    show "asm_rv32_emit_call_ind env index as = emit_code [rv32_halfword_bytes env (RV32_ENCODE_TYPE_CL 0 2 0 1 ?off),
        rv32_halfword_bytes env (RV32_ENCODE_TYPE_CR 2 9 8 0)] (taint (call_taints index) as)"
      using small by (simp add: asm_rv32_emit_call_ind_code rv32_call_code_def)
  qed (use f fetches_call_jalr [OF env] in \<open>simp_all add: same_but_def regs_rset add.assoc\<close>)
qed

lemma rv32_call_ind_medium:
  assumes env: "MP_ENDIANNESS_LITTLE env" and room: "emit_room 12 as"
    and medium: "\<not> FIT_UNSIGNED (index * 4) 6" "FIT_UNSIGNED (index * 4) 11"
  shows "emits_code_for (asm_rv32_emit_call_ind env index) as
    (\<lambda>base next m m'. pc m' = mem_load 4 (mem m) (rget m 9 + index * 4) AND NOT 1 \<and>
       rget m' 1 = next \<and> same_but {1, 8, 28} m m')"
proof -
  let ?off = "index * 4"
  have f: "fetches (rv32_word_bytes env (RV32_ENCODE_TYPE_I 3 2 28 9 ?off)) (LOAD 4 False 28 9 ?off)"
    using fetches_ops(8) [OF env, of 28 9 ?off] fits_11 [OF medium(2)] by simp
  show ?thesis
  proof (rule emits_code_for_list [OF _ truncate_taint room, where ins = "[LOAD 4 False 28 9 ?off, JALR 1 28 0]"])
    show "asm_rv32_emit_call_ind env index as = emit_code [rv32_word_bytes env (RV32_ENCODE_TYPE_I 3 2 28 9 ?off),
        rv32_halfword_bytes env (RV32_ENCODE_TYPE_CR 2 9 28 0)] (taint (call_taints index) as)"
      using medium by (simp add: asm_rv32_emit_call_ind_code rv32_call_code_def)
  qed (use f fetches_call_jalr [OF env] in \<open>simp_all add: same_but_def regs_rset add.assoc\<close>)
qed

lemma rv32_call_ind_far:
  assumes env: "MP_ENDIANNESS_LITTLE env" and room: "emit_room 12 as"
    and far: "\<not> FIT_UNSIGNED (index * 4) 6" "\<not> FIT_UNSIGNED (index * 4) 11"
  shows "emits_code_for (asm_rv32_emit_call_ind env index) as
    (\<lambda>base next m m'. pc m' = mem_load 4 (mem m) (rget m 9 + index * 4) AND NOT 1 \<and>
       rget m' 1 = next \<and> same_but {1, 8, 28} m m')"
proof -
  let ?off = "index * 4"
  have f: "fetches (rv32_word_bytes env (RV32_ENCODE_TYPE_I 3 2 28 28 (snd (split_immediate ?off))))
      (LOAD 4 False 28 28 (signed_take_bit 11 (snd (split_immediate ?off))))"
    using fetches_ops(8) [OF env, of 28 28] by simp
  show ?thesis
  proof (rule emits_code_for_list [OF _ truncate_taint room, where ins = "rv32_far_instrs 28 9 ?off @
        [LOAD 4 False 28 28 (signed_take_bit 11 (snd (split_immediate ?off))), JALR 1 28 0]"])
    show "asm_rv32_emit_call_ind env index as = emit_code (rv32_far env 28 9 ?off @
        [rv32_word_bytes env (RV32_ENCODE_TYPE_I 3 2 28 28 (snd (split_immediate ?off))),
         rv32_halfword_bytes env (RV32_ENCODE_TYPE_CR 2 9 28 0)]) (taint (call_taints index) as)"
      using far by (simp add: asm_rv32_emit_call_ind_code rv32_call_code_def rv32_far_def rv32_upper_def Let_def)
  qed (use f fetches_call_jalr [OF env] fetches_far [OF env, of 28 9 ?off] length_far [of env 28 9 ?off]
    in \<open>simp_all add: same_but_def regs_rset add.assoc list_all2_appendI rv32_far_def rv32_far_instrs_def far_address\<close>)
qed

text \<open>
  An indirect call enters the function whose address is in the given slot of the function
  table, with the return address behind the emitted code, and changes only \<open>ra\<close>, \<open>s0\<close> and
  \<open>t3\<close>.
\<close>

lemma rv32_call_ind_correct:
  assumes env: "MP_ENDIANNESS_LITTLE env" and room: "emit_room 12 as"
  shows "emits_code_for (asm_rv32_emit_call_ind env index) as
    (\<lambda>base next m m'. pc m' = mem_load 4 (mem m) (rget m 9 + index * 4) AND NOT 1 \<and>
       rget m' 1 = next \<and> same_but {1, 8, 28} m m')"
  using rv32_call_ind_small [OF env room] rv32_call_ind_medium [OF env room] rv32_call_ind_far [OF env room] by blast

text \<open>
  C10: Code addresses: an indirect call enters the function whose address is in the given slot of the
  function table, with the return address behind the emitted code, and changes only \<open>ra\<close>, \<open>s0\<close>
  and \<open>t3\<close>; the address of a label is put into a register as it is at run time, wherever the code is
  loaded, and nothing else changes.
\<close>

theorem rv32_code_addresses_correct:
  assumes env: "MP_ENDIANNESS_LITTLE env" and room: "emit_room 12 as"
    and label: "label_offset label as = Inr dest" and rd: "rd < 32" "rd \<noteq> 0"
  shows "emits_code_for (asm_rv32_emit_call_ind env index) as
      (\<lambda>base next m m'. pc m' = mem_load 4 (mem m) (rget m 9 + index * 4) AND NOT 1 \<and>
         rget m' 1 = next \<and> same_but {1, 8, 28} m m') \<and>
    emits_code_for (asm_rv32_emit_mov_reg_pcrel env rd label) as
      (\<lambda>base next m m'. m' = (rset (unat rd) (base + dest) m)\<lparr>pc := next\<rparr>)"
  using rv32_call_ind_correct [OF env room]
    rv32_mov_reg_pcrel_correct [OF env emit_room_weaken [OF room, of 8, simplified] label rd] by blast

theorem rv32_code_addresses_correct_witness:
  "emits_code_for (asm_rv32_emit_call_ind rv32_demo_env 7) rv32_emit_state
      (\<lambda>base next m m'. pc m' = mem_load 4 (mem m) (rget m 9 + 7 * 4) AND NOT 1 \<and>
         rget m' 1 = next \<and> same_but {1, 8, 28} m m') \<and>
    emits_code_for (asm_rv32_emit_mov_reg_pcrel rv32_demo_env 10 1) rv32_emit_state
      (\<lambda>base next m m'. m' = (rset (unat (10 :: u32)) (base + 40) m)\<lparr>pc := next\<rparr>)"
  by (rule rv32_code_addresses_correct) (simp_all add: rv32_emit_state_simps mp_env_ok_rv32_demo)

end
