(* ===== verification/Thumb_ISA.thy ===== *)
theory Thumb_ISA
  imports Machine_Code
begin

text \<open>
  A specification of the part of the Thumb instruction set that immediates, branches, frames
  and locals of the Thumb assembler use, after the Armv7-M architecture manual: decoding of
  16-bit and 32-bit instructions and one step of a machine with registers, flags and memory.
  It is written independently of the encodings of the assembler; encodings outside this part
  decode to \<open>None\<close>.
\<close>

section \<open>Machine\<close>

record thumb_machine =
  treg :: "nat \<Rightarrow> u32"
  tpc :: u32
  tmem :: "u32 \<Rightarrow> u8"
  flagN :: bool
  flagZ :: bool
  flagC :: bool
  flagV :: bool

text \<open>Register 15 reads as the address of the instruction plus 4.\<close>

definition tget :: "thumb_machine \<Rightarrow> nat \<Rightarrow> u32" where
  "tget m r = (if r = 15 then tpc m + 4 else treg m r)"

definition tset :: "nat \<Rightarrow> u32 \<Rightarrow> thumb_machine \<Rightarrow> thumb_machine" where
  "tset r v m = m\<lparr>treg := (treg m)(r := v)\<rparr>"

definition set_NZ :: "u32 \<Rightarrow> thumb_machine \<Rightarrow> thumb_machine" where
  "set_NZ v m = m\<lparr>flagN := bit v 31, flagZ := (v = 0)\<rparr>"

definition set_CV :: "bool \<Rightarrow> bool \<Rightarrow> thumb_machine \<Rightarrow> thumb_machine" where
  "set_CV c v m = m\<lparr>flagC := c, flagV := v\<rparr>"

text \<open>The conditions 0 to 13 of a conditional branch.\<close>

definition tcond :: "u32 \<Rightarrow> thumb_machine \<Rightarrow> bool" where
  "tcond c m =
     (let b = (if c div 2 = 0 then flagZ m
               else if c div 2 = 1 then flagC m
               else if c div 2 = 2 then flagN m
               else if c div 2 = 3 then flagV m
               else if c div 2 = 4 then flagC m \<and> \<not> flagZ m
               else if c div 2 = 5 then flagN m = flagV m
               else flagN m = flagV m \<and> \<not> flagZ m)
      in if c AND 1 = 0 then b else \<not> b)"

section \<open>Instructions\<close>

datatype thumb_instr =
    MOV_I8 nat u32
  | ADD_I8 nat u32
  | LSL_I5 nat nat nat
  | NEG nat nat
  | ADD_REG nat nat
  | LDR_PC nat u32
  | LDR_SP nat u32
  | STR_SP nat u32
  | ADD_REG_SP nat u32
  | ADD_SP u32
  | SUB_SP u32
  | PUSH "nat list"
  | POP "nat list"
  | B u32
  | BCC u32 u32
  | NOP
  | MOVW nat u32
  | MOVT nat u32
  | ADDW nat nat u32
  | SUBW nat nat u32

fun thumb_exec_instr :: "thumb_instr \<Rightarrow> u32 \<Rightarrow> thumb_machine \<Rightarrow> thumb_machine" where
  "thumb_exec_instr (MOV_I8 rd imm) len m = (set_NZ imm (tset rd imm m))\<lparr>tpc := tpc m + len\<rparr>"
| "thumb_exec_instr (ADD_I8 rd imm) len m =
     (let a = tget m rd; v = a + imm
      in (set_CV (v < a) (sint v \<noteq> sint a + sint imm) (set_NZ v (tset rd v m)))\<lparr>tpc := tpc m + len\<rparr>)"
| "thumb_exec_instr (LSL_I5 rd rs n) len m =
     (let v = push_bit n (tget m rs); c = (if n = 0 then flagC m else bit (tget m rs) (32 - n))
      in (set_CV c (flagV m) (set_NZ v (tset rd v m)))\<lparr>tpc := tpc m + len\<rparr>)"
| "thumb_exec_instr (NEG rd rs) len m =
     (let a = tget m rs; v = - a
      in (set_CV (a = 0) (sint v \<noteq> - sint a) (set_NZ v (tset rd v m)))\<lparr>tpc := tpc m + len\<rparr>)"
| "thumb_exec_instr (ADD_REG rd rm) len m =
     (let v = tget m rd + tget m rm
      in if rd = 15 then m\<lparr>tpc := v AND NOT 1\<rparr> else (tset rd v m)\<lparr>tpc := tpc m + len\<rparr>)"
| "thumb_exec_instr (LDR_PC rd imm) len m =
     (tset rd (load_bytes 4 (tmem m) (((tpc m + 4) AND NOT 3) + imm)) m)\<lparr>tpc := tpc m + len\<rparr>"
| "thumb_exec_instr (LDR_SP rd imm) len m =
     (tset rd (load_bytes 4 (tmem m) (tget m 13 + imm)) m)\<lparr>tpc := tpc m + len\<rparr>"
| "thumb_exec_instr (STR_SP rd imm) len m =
     m\<lparr>tmem := store_bytes 4 (tget m 13 + imm) (tget m rd) (tmem m), tpc := tpc m + len\<rparr>"
| "thumb_exec_instr (ADD_REG_SP rd imm) len m = (tset rd (tget m 13 + imm) m)\<lparr>tpc := tpc m + len\<rparr>"
| "thumb_exec_instr (ADD_SP imm) len m = (tset 13 (tget m 13 + imm) m)\<lparr>tpc := tpc m + len\<rparr>"
| "thumb_exec_instr (SUB_SP imm) len m = (tset 13 (tget m 13 - imm) m)\<lparr>tpc := tpc m + len\<rparr>"
| "thumb_exec_instr (PUSH rs) len m =
     (let sp = treg m 13 - 4 * word_of_nat (length rs)
      in (tset 13 sp m)\<lparr>tmem := store_regs (treg m) rs sp (tmem m), tpc := tpc m + len\<rparr>)"
| "thumb_exec_instr (POP rs) len m =
     (let R = load_regs (tmem m) rs (treg m 13) (treg m)
      in m\<lparr>treg := R(13 := treg m 13 + 4 * word_of_nat (length rs), 15 := treg m 15),
           tpc := (if 15 \<in> set rs then R 15 AND NOT 1 else tpc m + len)\<rparr>)"
| "thumb_exec_instr (B off) len m = m\<lparr>tpc := tpc m + 4 + off\<rparr>"
| "thumb_exec_instr (BCC c off) len m = m\<lparr>tpc := (if tcond c m then tpc m + 4 + off else tpc m + len)\<rparr>"
| "thumb_exec_instr NOP len m = m\<lparr>tpc := tpc m + len\<rparr>"
| "thumb_exec_instr (MOVW rd imm) len m = (tset rd imm m)\<lparr>tpc := tpc m + len\<rparr>"
| "thumb_exec_instr (MOVT rd imm) len m =
     (tset rd (take_bit 16 (tget m rd) OR push_bit 16 imm) m)\<lparr>tpc := tpc m + len\<rparr>"
| "thumb_exec_instr (ADDW rd rn imm) len m = (tset rd (tget m rn + imm) m)\<lparr>tpc := tpc m + len\<rparr>"
| "thumb_exec_instr (SUBW rd rn imm) len m = (tset rd (tget m rn - imm) m)\<lparr>tpc := tpc m + len\<rparr>"

section \<open>Decoding\<close>

abbreviation tfield :: "u32 \<Rightarrow> nat \<Rightarrow> nat \<Rightarrow> u32" where
  "tfield w lo n \<equiv> take_bit n (drop_bit lo w)"

text \<open>The registers of a list: the low ones of bits 0 to 7, and one more for bit 8.\<close>

definition reglist :: "u32 \<Rightarrow> nat \<Rightarrow> nat list" where
  "reglist w extra = filter (bit w) [0..<8] @ (if bit w 8 then [extra] else [])"

definition thumb_decode16 :: "u32 \<Rightarrow> thumb_instr option" where
  "thumb_decode16 w =
     (let top5 = tfield w 11 5; rd = unat (tfield w 0 3); rm = unat (tfield w 3 3);
          r8 = unat (tfield w 8 3); imm8 = tfield w 0 8
      in if top5 = 0 then Some (LSL_I5 rd rm (unat (tfield w 6 5)))
      else if top5 = 0x04 then Some (MOV_I8 r8 imm8)
      else if top5 = 0x06 then Some (ADD_I8 r8 imm8)
      else if top5 = 0x08 then
        (if tfield w 6 5 = 0x09 then Some (NEG rd rm)
         else if tfield w 8 3 = 4
         then Some (ADD_REG (unat (tfield w 0 3 OR push_bit 3 (tfield w 7 1))) (unat (tfield w 3 4)))
         else None)
      else if top5 = 0x09 then Some (LDR_PC r8 (push_bit 2 imm8))
      else if top5 = 0x12 then Some (STR_SP r8 (push_bit 2 imm8))
      else if top5 = 0x13 then Some (LDR_SP r8 (push_bit 2 imm8))
      else if top5 = 0x15 then Some (ADD_REG_SP r8 (push_bit 2 imm8))
      else if top5 = 0x16 then
        (if tfield w 7 4 = 0 then Some (ADD_SP (push_bit 2 (tfield w 0 7)))
         else if tfield w 7 4 = 1 then Some (SUB_SP (push_bit 2 (tfield w 0 7)))
         else if tfield w 9 2 = 2 then Some (PUSH (reglist w 14))
         else None)
      else if top5 = 0x17 then
        (if tfield w 0 11 = 0x700 then Some NOP
         else if tfield w 9 2 = 2 then Some (POP (reglist w 15))
         else None)
      else if top5 = 0x1a \<or> top5 = 0x1b then
        (if tfield w 8 4 < 14 then Some (BCC (tfield w 8 4) (signed_take_bit 8 (push_bit 1 imm8))) else None)
      else if top5 = 0x1c then Some (B (signed_take_bit 11 (push_bit 1 (tfield w 0 11))))
      else None)"

text \<open>The branch offsets of the 32-bit encodings T3 and T4.\<close>

definition branch_T3 :: "u32 \<Rightarrow> u32 \<Rightarrow> u32" where
  "branch_T3 h1 h2 = signed_take_bit 20
     (push_bit 1 (tfield h2 0 11) OR push_bit 12 (tfield h1 0 6) OR push_bit 18 (tfield h2 13 1) OR
      push_bit 19 (tfield h2 11 1) OR push_bit 20 (tfield h1 10 1))"

definition branch_T4 :: "u32 \<Rightarrow> u32 \<Rightarrow> u32" where
  "branch_T4 h1 h2 =
     (let s = tfield h1 10 1; i1 = 1 - (tfield h2 13 1 XOR s); i2 = 1 - (tfield h2 11 1 XOR s)
      in signed_take_bit 24
        (push_bit 1 (tfield h2 0 11) OR push_bit 12 (tfield h1 0 10) OR push_bit 22 i2 OR push_bit 23 i1 OR push_bit 24 s))"

definition thumb_decode32 :: "u32 \<Rightarrow> u32 \<Rightarrow> thumb_instr option" where
  "thumb_decode32 h1 h2 =
     (let rn = unat (tfield h1 0 4); rd = unat (tfield h2 8 4);
          imm12 = tfield h2 0 8 OR push_bit 8 (tfield h2 12 3) OR push_bit 11 (tfield h1 10 1);
          imm16 = imm12 OR push_bit 12 (tfield h1 0 4)
      in if tfield h1 11 5 \<noteq> 0x1e then None
      else if tfield h2 15 1 = 0 then
        (if tfield h1 4 6 = 0x24 then Some (MOVW rd imm16)
         else if tfield h1 4 6 = 0x2c then Some (MOVT rd imm16)
         else if tfield h1 4 6 = 0x20 then Some (ADDW rd rn imm12)
         else if tfield h1 4 6 = 0x2a then Some (SUBW rd rn imm12)
         else None)
      else if tfield h2 14 1 = 0 then
        (if tfield h2 12 1 = 1 then Some (B (branch_T4 h1 h2))
         else if tfield h1 6 4 < 14 then Some (BCC (tfield h1 6 4) (branch_T3 h1 h2))
         else None)
      else None)"

definition thumb_fetch :: "u8 list \<Rightarrow> nat \<Rightarrow> (thumb_instr \<times> u32) option" where
  "thumb_fetch code off =
     (if length code < off + 2 then None
      else let h1 = le_word (take 2 (drop off code))
      in if 0x1d \<le> tfield h1 11 5
         then if length code < off + 4 then None
              else map_option (\<lambda>i. (i, 4)) (thumb_decode32 h1 (le_word (take 2 (drop (off + 2) code))))
         else map_option (\<lambda>i. (i, 2)) (thumb_decode16 h1))"

definition thumb_step :: "u32 \<Rightarrow> u8 list \<Rightarrow> thumb_machine \<Rightarrow> thumb_machine option" where
  "thumb_step base code m =
     (case thumb_fetch code (unat (tpc m - base)) of
        None \<Rightarrow> None | Some (i, len) \<Rightarrow> Some (thumb_exec_instr i len m))"

text \<open>Instructions that continue with the next one.\<close>

fun thumb_straight :: "thumb_instr \<Rightarrow> bool" where
  "thumb_straight (B _) = False"
| "thumb_straight (BCC _ _) = False"
| "thumb_straight (ADD_REG rd _) = (rd \<noteq> 15)"
| "thumb_straight (POP rs) = (15 \<notin> set rs)"
| "thumb_straight _ = True"

interpretation thumb_machine: code_machine thumb_fetch thumb_exec_instr tpc thumb_step thumb_straight
proof
  show "thumb_step base code m = Some (thumb_exec_instr i len m)"
    if "thumb_fetch code (unat (tpc m - base)) = Some (i, len)" for base code m i len
    using that by (simp add: thumb_step_def)
  show "tpc (thumb_exec_instr i len m) = tpc m + len" if "thumb_straight i" for i len m
    using that by (cases i) (simp_all add: Let_def)
qed

end
