(* ===== verification/Asm_Thumb_Opcodes.thy ===== *)
theory Asm_Thumb_Opcodes
  imports Plain_Ops
begin

text \<open>
  The Thumb assembler below its code generator: \<open>src/bank/uPython-ASM/asmthumb.h\<close>
  (registers, condition codes, the assembler's struct, instruction formats and the inline
  operations on them) and the writers \<open>asm_thumb_op16\<close> and \<open>asm_thumb_op32\<close> of
  \<open>asmthumb.c\<close>. \<open>uint\<close>, \<open>mp_uint_t\<close> and \<open>size_t\<close> have 32 bits on this target.
\<close>

section \<open>Constants\<close>

definition ASM_THUMB_REG_R0 :: u32 where [asm_consts]: "ASM_THUMB_REG_R0 = 0"
definition ASM_THUMB_REG_R1 :: u32 where [asm_consts]: "ASM_THUMB_REG_R1 = 1"
definition ASM_THUMB_REG_R2 :: u32 where [asm_consts]: "ASM_THUMB_REG_R2 = 2"
definition ASM_THUMB_REG_R3 :: u32 where [asm_consts]: "ASM_THUMB_REG_R3 = 3"
definition ASM_THUMB_REG_R4 :: u32 where [asm_consts]: "ASM_THUMB_REG_R4 = 4"
definition ASM_THUMB_REG_R5 :: u32 where [asm_consts]: "ASM_THUMB_REG_R5 = 5"
definition ASM_THUMB_REG_R6 :: u32 where [asm_consts]: "ASM_THUMB_REG_R6 = 6"
definition ASM_THUMB_REG_R7 :: u32 where [asm_consts]: "ASM_THUMB_REG_R7 = 7"
definition ASM_THUMB_REG_R8 :: u32 where [asm_consts]: "ASM_THUMB_REG_R8 = 8"
definition ASM_THUMB_REG_R9 :: u32 where [asm_consts]: "ASM_THUMB_REG_R9 = 9"
definition ASM_THUMB_REG_R10 :: u32 where [asm_consts]: "ASM_THUMB_REG_R10 = 10"
definition ASM_THUMB_REG_R11 :: u32 where [asm_consts]: "ASM_THUMB_REG_R11 = 11"
definition ASM_THUMB_REG_R12 :: u32 where [asm_consts]: "ASM_THUMB_REG_R12 = 12"
definition ASM_THUMB_REG_R13 :: u32 where [asm_consts]: "ASM_THUMB_REG_R13 = 13"
definition ASM_THUMB_REG_R14 :: u32 where [asm_consts]: "ASM_THUMB_REG_R14 = 14"
definition ASM_THUMB_REG_R15 :: u32 where [asm_consts]: "ASM_THUMB_REG_R15 = 15"
definition ASM_THUMB_REG_SP :: u32 where [asm_consts]: "ASM_THUMB_REG_SP = ASM_THUMB_REG_R13"
definition ASM_THUMB_REG_FUN_TABLE :: u32 where [asm_consts]: "ASM_THUMB_REG_FUN_TABLE = ASM_THUMB_REG_R7"
definition THUMB_REG_TEMP2 :: u32 where [asm_consts]: "THUMB_REG_TEMP2 = ASM_THUMB_REG_R2"

definition ASM_THUMB_CC_EQ :: u32 where [asm_consts]: "ASM_THUMB_CC_EQ = 0x0"
definition ASM_THUMB_CC_NE :: u32 where [asm_consts]: "ASM_THUMB_CC_NE = 0x1"
definition ASM_THUMB_CC_CS :: u32 where [asm_consts]: "ASM_THUMB_CC_CS = 0x2"
definition ASM_THUMB_CC_CC :: u32 where [asm_consts]: "ASM_THUMB_CC_CC = 0x3"
definition ASM_THUMB_CC_MI :: u32 where [asm_consts]: "ASM_THUMB_CC_MI = 0x4"
definition ASM_THUMB_CC_PL :: u32 where [asm_consts]: "ASM_THUMB_CC_PL = 0x5"
definition ASM_THUMB_CC_VS :: u32 where [asm_consts]: "ASM_THUMB_CC_VS = 0x6"
definition ASM_THUMB_CC_VC :: u32 where [asm_consts]: "ASM_THUMB_CC_VC = 0x7"
definition ASM_THUMB_CC_HI :: u32 where [asm_consts]: "ASM_THUMB_CC_HI = 0x8"
definition ASM_THUMB_CC_LS :: u32 where [asm_consts]: "ASM_THUMB_CC_LS = 0x9"
definition ASM_THUMB_CC_GE :: u32 where [asm_consts]: "ASM_THUMB_CC_GE = 0xa"
definition ASM_THUMB_CC_LT :: u32 where [asm_consts]: "ASM_THUMB_CC_LT = 0xb"
definition ASM_THUMB_CC_GT :: u32 where [asm_consts]: "ASM_THUMB_CC_GT = 0xc"
definition ASM_THUMB_CC_LE :: u32 where [asm_consts]: "ASM_THUMB_CC_LE = 0xd"

definition ASM_THUMB_OP_IT :: u32 where [asm_consts]: "ASM_THUMB_OP_IT = 0xbf00"
definition ASM_THUMB_OP_ITE_EQ :: u32 where [asm_consts]: "ASM_THUMB_OP_ITE_EQ = 0xbf0c"
definition ASM_THUMB_OP_ITE_NE :: u32 where [asm_consts]: "ASM_THUMB_OP_ITE_NE = 0xbf14"
definition ASM_THUMB_OP_ITE_CS :: u32 where [asm_consts]: "ASM_THUMB_OP_ITE_CS = 0xbf2c"
definition ASM_THUMB_OP_ITE_CC :: u32 where [asm_consts]: "ASM_THUMB_OP_ITE_CC = 0xbf34"
definition ASM_THUMB_OP_ITE_MI :: u32 where [asm_consts]: "ASM_THUMB_OP_ITE_MI = 0xbf4c"
definition ASM_THUMB_OP_ITE_PL :: u32 where [asm_consts]: "ASM_THUMB_OP_ITE_PL = 0xbf54"
definition ASM_THUMB_OP_ITE_VS :: u32 where [asm_consts]: "ASM_THUMB_OP_ITE_VS = 0xbf6c"
definition ASM_THUMB_OP_ITE_VC :: u32 where [asm_consts]: "ASM_THUMB_OP_ITE_VC = 0xbf74"
definition ASM_THUMB_OP_ITE_HI :: u32 where [asm_consts]: "ASM_THUMB_OP_ITE_HI = 0xbf8c"
definition ASM_THUMB_OP_ITE_LS :: u32 where [asm_consts]: "ASM_THUMB_OP_ITE_LS = 0xbf94"
definition ASM_THUMB_OP_ITE_GE :: u32 where [asm_consts]: "ASM_THUMB_OP_ITE_GE = 0xbfac"
definition ASM_THUMB_OP_ITE_LT :: u32 where [asm_consts]: "ASM_THUMB_OP_ITE_LT = 0xbfb4"
definition ASM_THUMB_OP_ITE_GT :: u32 where [asm_consts]: "ASM_THUMB_OP_ITE_GT = 0xbfcc"
definition ASM_THUMB_OP_ITE_LE :: u32 where [asm_consts]: "ASM_THUMB_OP_ITE_LE = 0xbfd4"
definition ASM_THUMB_OP_NOP :: u32 where [asm_consts]: "ASM_THUMB_OP_NOP = 0xbf00"
definition ASM_THUMB_OP_WFI :: u32 where [asm_consts]: "ASM_THUMB_OP_WFI = 0xbf30"
definition ASM_THUMB_OP_CPSID_I :: u32 where [asm_consts]: "ASM_THUMB_OP_CPSID_I = 0xb672"
definition ASM_THUMB_OP_CPSIE_I :: u32 where [asm_consts]: "ASM_THUMB_OP_CPSIE_I = 0xb662"
definition ASM_THUMB_OP_MOVW :: u32 where [asm_consts]: "ASM_THUMB_OP_MOVW = 0xf240"
definition ASM_THUMB_OP_MOVT :: u32 where [asm_consts]: "ASM_THUMB_OP_MOVT = 0xf2c0"

definition ASM_THUMB_FORMAT_1_LSL :: u32 where [asm_consts]: "ASM_THUMB_FORMAT_1_LSL = 0x0000"
definition ASM_THUMB_FORMAT_1_LSR :: u32 where [asm_consts]: "ASM_THUMB_FORMAT_1_LSR = 0x0800"
definition ASM_THUMB_FORMAT_1_ASR :: u32 where [asm_consts]: "ASM_THUMB_FORMAT_1_ASR = 0x1000"
definition ASM_THUMB_FORMAT_2_ADD :: u32 where [asm_consts]: "ASM_THUMB_FORMAT_2_ADD = 0x1800"
definition ASM_THUMB_FORMAT_2_SUB :: u32 where [asm_consts]: "ASM_THUMB_FORMAT_2_SUB = 0x1a00"
definition ASM_THUMB_FORMAT_2_REG_OPERAND :: u32 where [asm_consts]: "ASM_THUMB_FORMAT_2_REG_OPERAND = 0x0000"
definition ASM_THUMB_FORMAT_2_IMM_OPERAND :: u32 where [asm_consts]: "ASM_THUMB_FORMAT_2_IMM_OPERAND = 0x0400"
definition ASM_THUMB_FORMAT_3_MOV :: u32 where [asm_consts]: "ASM_THUMB_FORMAT_3_MOV = 0x2000"
definition ASM_THUMB_FORMAT_3_CMP :: u32 where [asm_consts]: "ASM_THUMB_FORMAT_3_CMP = 0x2800"
definition ASM_THUMB_FORMAT_3_ADD :: u32 where [asm_consts]: "ASM_THUMB_FORMAT_3_ADD = 0x3000"
definition ASM_THUMB_FORMAT_3_SUB :: u32 where [asm_consts]: "ASM_THUMB_FORMAT_3_SUB = 0x3800"
definition ASM_THUMB_FORMAT_3_LDR :: u32 where [asm_consts]: "ASM_THUMB_FORMAT_3_LDR = 0x4800"
definition ASM_THUMB_FORMAT_4_AND :: u32 where [asm_consts]: "ASM_THUMB_FORMAT_4_AND = 0x4000"
definition ASM_THUMB_FORMAT_4_EOR :: u32 where [asm_consts]: "ASM_THUMB_FORMAT_4_EOR = 0x4040"
definition ASM_THUMB_FORMAT_4_LSL :: u32 where [asm_consts]: "ASM_THUMB_FORMAT_4_LSL = 0x4080"
definition ASM_THUMB_FORMAT_4_LSR :: u32 where [asm_consts]: "ASM_THUMB_FORMAT_4_LSR = 0x40c0"
definition ASM_THUMB_FORMAT_4_ASR :: u32 where [asm_consts]: "ASM_THUMB_FORMAT_4_ASR = 0x4100"
definition ASM_THUMB_FORMAT_4_ADC :: u32 where [asm_consts]: "ASM_THUMB_FORMAT_4_ADC = 0x4140"
definition ASM_THUMB_FORMAT_4_SBC :: u32 where [asm_consts]: "ASM_THUMB_FORMAT_4_SBC = 0x4180"
definition ASM_THUMB_FORMAT_4_ROR :: u32 where [asm_consts]: "ASM_THUMB_FORMAT_4_ROR = 0x41c0"
definition ASM_THUMB_FORMAT_4_TST :: u32 where [asm_consts]: "ASM_THUMB_FORMAT_4_TST = 0x4200"
definition ASM_THUMB_FORMAT_4_NEG :: u32 where [asm_consts]: "ASM_THUMB_FORMAT_4_NEG = 0x4240"
definition ASM_THUMB_FORMAT_4_CMP :: u32 where [asm_consts]: "ASM_THUMB_FORMAT_4_CMP = 0x4280"
definition ASM_THUMB_FORMAT_4_CMN :: u32 where [asm_consts]: "ASM_THUMB_FORMAT_4_CMN = 0x42c0"
definition ASM_THUMB_FORMAT_4_ORR :: u32 where [asm_consts]: "ASM_THUMB_FORMAT_4_ORR = 0x4300"
definition ASM_THUMB_FORMAT_4_MUL :: u32 where [asm_consts]: "ASM_THUMB_FORMAT_4_MUL = 0x4340"
definition ASM_THUMB_FORMAT_4_BIC :: u32 where [asm_consts]: "ASM_THUMB_FORMAT_4_BIC = 0x4380"
definition ASM_THUMB_FORMAT_4_MVN :: u32 where [asm_consts]: "ASM_THUMB_FORMAT_4_MVN = 0x43c0"
definition ASM_THUMB_FORMAT_5_ADD :: u32 where [asm_consts]: "ASM_THUMB_FORMAT_5_ADD = 0x4400"
definition ASM_THUMB_FORMAT_5_BX :: u32 where [asm_consts]: "ASM_THUMB_FORMAT_5_BX = 0x4700"
definition ASM_THUMB_FORMAT_7_LDR :: u32 where [asm_consts]: "ASM_THUMB_FORMAT_7_LDR = 0x5800"
definition ASM_THUMB_FORMAT_7_STR :: u32 where [asm_consts]: "ASM_THUMB_FORMAT_7_STR = 0x5000"
definition ASM_THUMB_FORMAT_7_WORD_TRANSFER :: u32 where [asm_consts]: "ASM_THUMB_FORMAT_7_WORD_TRANSFER = 0x0000"
definition ASM_THUMB_FORMAT_7_BYTE_TRANSFER :: u32 where [asm_consts]: "ASM_THUMB_FORMAT_7_BYTE_TRANSFER = 0x0400"
definition ASM_THUMB_FORMAT_8_LDRH :: u32 where [asm_consts]: "ASM_THUMB_FORMAT_8_LDRH = 0x5A00"
definition ASM_THUMB_FORMAT_8_STRH :: u32 where [asm_consts]: "ASM_THUMB_FORMAT_8_STRH = 0x5200"
definition ASM_THUMB_FORMAT_9_STR :: u32 where [asm_consts]: "ASM_THUMB_FORMAT_9_STR = 0x6000"
definition ASM_THUMB_FORMAT_9_LDR :: u32 where [asm_consts]: "ASM_THUMB_FORMAT_9_LDR = 0x6800"
definition ASM_THUMB_FORMAT_9_WORD_TRANSFER :: u32 where [asm_consts]: "ASM_THUMB_FORMAT_9_WORD_TRANSFER = 0x0000"
definition ASM_THUMB_FORMAT_9_BYTE_TRANSFER :: u32 where [asm_consts]: "ASM_THUMB_FORMAT_9_BYTE_TRANSFER = 0x1000"
definition ASM_THUMB_FORMAT_10_STRH :: u32 where [asm_consts]: "ASM_THUMB_FORMAT_10_STRH = 0x8000"
definition ASM_THUMB_FORMAT_10_LDRH :: u32 where [asm_consts]: "ASM_THUMB_FORMAT_10_LDRH = 0x8800"
definition ASM_THUMB_FORMAT_11_SXTH :: u32 where [asm_consts]: "ASM_THUMB_FORMAT_11_SXTH = 0xb200"
definition ASM_THUMB_FORMAT_11_SXTB :: u32 where [asm_consts]: "ASM_THUMB_FORMAT_11_SXTB = 0xb240"
definition ASM_THUMB_FORMAT_11_UXTH :: u32 where [asm_consts]: "ASM_THUMB_FORMAT_11_UXTH = 0xb280"
definition ASM_THUMB_FORMAT_11_UXTB :: u32 where [asm_consts]: "ASM_THUMB_FORMAT_11_UXTB = 0xb2c0"

section \<open>State and configuration\<close>

record asm_thumb_t = "32 mp_asm_base_t" +
  push_reglist :: u32
  stack_adjust :: u32

text \<open>
  The configuration of the port and of the dynamic compiler: the \<open>MP_NATIVE_ARCH\<close> constants
  come from \<open>py/persistentcode.h\<close>; \<open>arm_state_target\<close> is the condition on the compiler's
  \<open>__arm__\<close> and \<open>__thumb__\<close> macros; \<open>code_base_address\<close> is the address of the block that
  holds the code.
\<close>

record thumb_env = mp_env +
  MICROPY_DYNAMIC_COMPILER :: bool
  native_arch :: u32
  MP_NATIVE_ARCH_ARMV6 :: u32
  MP_NATIVE_ARCH_ARMV7M :: u32
  MP_NATIVE_ARCH_ARMV7EMDP :: u32
  MICROPY_EMIT_ARM :: bool
  arm_state_target :: bool
  MICROPY_EMIT_THUMB_ARMV7M :: bool
  code_base_address :: u32

definition asm_thumb_allow_armv7m :: "thumb_env \<Rightarrow> bool" where
  "asm_thumb_allow_armv7m env =
     (if MICROPY_DYNAMIC_COMPILER env
      then MP_NATIVE_ARCH_ARMV7M env \<le> native_arch env \<and> native_arch env \<le> MP_NATIVE_ARCH_ARMV7EMDP env
      else MICROPY_EMIT_THUMB_ARMV7M env)"

definition asm_thumb_end_pass :: "asm_thumb_t asm" where
  "asm_thumb_end_pass s = Inr s"

section \<open>Writers\<close>

definition thumb_op16_bytes :: "u32 \<Rightarrow> u8 list" where
  "thumb_op16_bytes op = [ucast op, ucast (drop_bit 8 op)]"

definition thumb_op32_bytes :: "u32 \<Rightarrow> u32 \<Rightarrow> u8 list" where
  "thumb_op32_bytes op1 op2 = [ucast op1, ucast (drop_bit 8 op1), ucast op2, ucast (drop_bit 8 op2)]"

definition asm_thumb_op16 :: "u32 \<Rightarrow> asm_thumb_t asm" where
  "asm_thumb_op16 op = emit_bytes (thumb_op16_bytes op)"

definition asm_thumb_op32 :: "u32 \<Rightarrow> u32 \<Rightarrow> asm_thumb_t asm" where
  "asm_thumb_op32 op1 op2 = emit_bytes (thumb_op32_bytes op1 op2)"

lemma length_thumb_bytes [simp]: "length (thumb_op16_bytes op) = 2" "length (thumb_op32_bytes op1 op2) = 4"
  by (simp_all add: thumb_op16_bytes_def thumb_op32_bytes_def)

section \<open>Instruction formats\<close>

definition asm_thumb_it_cc :: "u32 \<Rightarrow> u32 \<Rightarrow> asm_thumb_t asm" where
  "asm_thumb_it_cc cc it_mask = asm_thumb_op16 (ASM_THUMB_OP_IT OR push_bit 4 cc OR it_mask)"

definition ASM_THUMB_FORMAT_1_ENCODE :: "u32 \<Rightarrow> u32 \<Rightarrow> u32 \<Rightarrow> u32 \<Rightarrow> u32" where
  [asm_encodes]: "ASM_THUMB_FORMAT_1_ENCODE op rlo_dest rlo_src offset = op OR push_bit 6 offset OR push_bit 3 rlo_src OR rlo_dest"

definition asm_thumb_format_1 :: "u32 \<Rightarrow> u32 \<Rightarrow> u32 \<Rightarrow> u32 \<Rightarrow> asm_thumb_t asm" where
  "asm_thumb_format_1 op rlo_dest rlo_src offset =
     asm_seq [asm_assert (rlo_dest < ASM_THUMB_REG_R8),
              asm_assert (rlo_src < ASM_THUMB_REG_R8),
              asm_thumb_op16 (ASM_THUMB_FORMAT_1_ENCODE op rlo_dest rlo_src offset)]"

definition ASM_THUMB_FORMAT_2_ENCODE :: "u32 \<Rightarrow> u32 \<Rightarrow> u32 \<Rightarrow> u32 \<Rightarrow> u32" where
  [asm_encodes]: "ASM_THUMB_FORMAT_2_ENCODE op rlo_dest rlo_src src_b = op OR push_bit 6 src_b OR push_bit 3 rlo_src OR rlo_dest"

definition asm_thumb_format_2 :: "u32 \<Rightarrow> u32 \<Rightarrow> u32 \<Rightarrow> u32 \<Rightarrow> asm_thumb_t asm" where
  "asm_thumb_format_2 op rlo_dest rlo_src src_b =
     asm_seq [asm_assert (rlo_dest < ASM_THUMB_REG_R8),
              asm_assert (rlo_src < ASM_THUMB_REG_R8),
              asm_thumb_op16 (ASM_THUMB_FORMAT_2_ENCODE op rlo_dest rlo_src src_b)]"

definition asm_thumb_add_rlo_rlo_rlo :: "u32 \<Rightarrow> u32 \<Rightarrow> u32 \<Rightarrow> asm_thumb_t asm" where
  [asm_ops]: "asm_thumb_add_rlo_rlo_rlo rlo_dest rlo_src_a rlo_src_b =
     asm_thumb_format_2 (ASM_THUMB_FORMAT_2_ADD OR ASM_THUMB_FORMAT_2_REG_OPERAND) rlo_dest rlo_src_a rlo_src_b"

definition asm_thumb_add_rlo_rlo_i3 :: "u32 \<Rightarrow> u32 \<Rightarrow> u32 \<Rightarrow> asm_thumb_t asm" where
  [asm_ops]: "asm_thumb_add_rlo_rlo_i3 rlo_dest rlo_src_a i3_src =
     asm_thumb_format_2 (ASM_THUMB_FORMAT_2_ADD OR ASM_THUMB_FORMAT_2_IMM_OPERAND) rlo_dest rlo_src_a i3_src"

definition asm_thumb_sub_rlo_rlo_rlo :: "u32 \<Rightarrow> u32 \<Rightarrow> u32 \<Rightarrow> asm_thumb_t asm" where
  [asm_ops]: "asm_thumb_sub_rlo_rlo_rlo rlo_dest rlo_src_a rlo_src_b =
     asm_thumb_format_2 (ASM_THUMB_FORMAT_2_SUB OR ASM_THUMB_FORMAT_2_REG_OPERAND) rlo_dest rlo_src_a rlo_src_b"

definition asm_thumb_sub_rlo_rlo_i3 :: "u32 \<Rightarrow> u32 \<Rightarrow> u32 \<Rightarrow> asm_thumb_t asm" where
  [asm_ops]: "asm_thumb_sub_rlo_rlo_i3 rlo_dest rlo_src_a i3_src =
     asm_thumb_format_2 (ASM_THUMB_FORMAT_2_SUB OR ASM_THUMB_FORMAT_2_IMM_OPERAND) rlo_dest rlo_src_a i3_src"

definition ASM_THUMB_FORMAT_3_ENCODE :: "u32 \<Rightarrow> u32 \<Rightarrow> u32 \<Rightarrow> u32" where
  [asm_encodes]: "ASM_THUMB_FORMAT_3_ENCODE op rlo i8 = op OR push_bit 8 rlo OR i8"

definition asm_thumb_format_3 :: "u32 \<Rightarrow> u32 \<Rightarrow> u32 \<Rightarrow> asm_thumb_t asm" where
  "asm_thumb_format_3 op rlo i8 =
     asm_seq [asm_assert (rlo < ASM_THUMB_REG_R8),
              asm_thumb_op16 (ASM_THUMB_FORMAT_3_ENCODE op rlo i8)]"

definition asm_thumb_mov_rlo_i8 :: "u32 \<Rightarrow> u32 \<Rightarrow> asm_thumb_t asm" where
  [asm_ops]: "asm_thumb_mov_rlo_i8 rlo i8 = asm_thumb_format_3 ASM_THUMB_FORMAT_3_MOV rlo i8"

definition asm_thumb_cmp_rlo_i8 :: "u32 \<Rightarrow> u32 \<Rightarrow> asm_thumb_t asm" where
  [asm_ops]: "asm_thumb_cmp_rlo_i8 rlo i8 = asm_thumb_format_3 ASM_THUMB_FORMAT_3_CMP rlo i8"

definition asm_thumb_add_rlo_i8 :: "u32 \<Rightarrow> u32 \<Rightarrow> asm_thumb_t asm" where
  [asm_ops]: "asm_thumb_add_rlo_i8 rlo i8 = asm_thumb_format_3 ASM_THUMB_FORMAT_3_ADD rlo i8"

definition asm_thumb_sub_rlo_i8 :: "u32 \<Rightarrow> u32 \<Rightarrow> asm_thumb_t asm" where
  [asm_ops]: "asm_thumb_sub_rlo_i8 rlo i8 = asm_thumb_format_3 ASM_THUMB_FORMAT_3_SUB rlo i8"

definition asm_thumb_ldr_rlo_pcrel_i8 :: "u32 \<Rightarrow> u32 \<Rightarrow> asm_thumb_t asm" where
  [asm_ops]: "asm_thumb_ldr_rlo_pcrel_i8 rlo i8 = asm_thumb_format_3 ASM_THUMB_FORMAT_3_LDR rlo i8"

definition THUMB_OP_FORMAT_4 :: "u32 \<Rightarrow> u32 \<Rightarrow> u32 \<Rightarrow> u32" where
  [asm_encodes]: "THUMB_OP_FORMAT_4 op rlo_dest rlo_src = op OR push_bit 3 rlo_src OR rlo_dest"

definition asm_thumb_format_4 :: "u32 \<Rightarrow> u32 \<Rightarrow> u32 \<Rightarrow> asm_thumb_t asm" where
  "asm_thumb_format_4 op rlo_dest rlo_src =
     asm_seq [asm_assert (rlo_dest < ASM_THUMB_REG_R8), asm_assert (rlo_src < ASM_THUMB_REG_R8),
              asm_thumb_op16 (THUMB_OP_FORMAT_4 op rlo_dest rlo_src)]"

definition asm_thumb_cmp_rlo_rlo :: "u32 \<Rightarrow> u32 \<Rightarrow> asm_thumb_t asm" where
  [asm_ops]: "asm_thumb_cmp_rlo_rlo rlo_dest rlo_src =
     asm_thumb_format_4 ASM_THUMB_FORMAT_4_CMP rlo_dest rlo_src"

definition asm_thumb_mvn_rlo_rlo :: "u32 \<Rightarrow> u32 \<Rightarrow> asm_thumb_t asm" where
  [asm_ops]: "asm_thumb_mvn_rlo_rlo rlo_dest rlo_src =
     asm_thumb_format_4 ASM_THUMB_FORMAT_4_MVN rlo_dest rlo_src"

definition asm_thumb_neg_rlo_rlo :: "u32 \<Rightarrow> u32 \<Rightarrow> asm_thumb_t asm" where
  [asm_ops]: "asm_thumb_neg_rlo_rlo rlo_dest rlo_src =
     asm_thumb_format_4 ASM_THUMB_FORMAT_4_NEG rlo_dest rlo_src"

definition ASM_THUMB_FORMAT_5_ENCODE :: "u32 \<Rightarrow> u32 \<Rightarrow> u32 \<Rightarrow> u32" where
  [asm_encodes]: "ASM_THUMB_FORMAT_5_ENCODE op r_dest r_src = op OR (push_bit 4 r_dest AND 0x0080) OR push_bit 3 r_src OR (r_dest AND 0x0007)"

definition asm_thumb_format_5 :: "u32 \<Rightarrow> u32 \<Rightarrow> u32 \<Rightarrow> asm_thumb_t asm" where
  [asm_ops]: "asm_thumb_format_5 op r_dest r_src =
     asm_thumb_op16 (ASM_THUMB_FORMAT_5_ENCODE op r_dest r_src)"

definition asm_thumb_add_reg_reg :: "u32 \<Rightarrow> u32 \<Rightarrow> asm_thumb_t asm" where
  [asm_ops]: "asm_thumb_add_reg_reg r_dest r_src =
     asm_thumb_format_5 ASM_THUMB_FORMAT_5_ADD r_dest r_src"

definition asm_thumb_bx_reg :: "u32 \<Rightarrow> asm_thumb_t asm" where
  [asm_ops]: "asm_thumb_bx_reg r_src = asm_thumb_format_5 ASM_THUMB_FORMAT_5_BX 0 r_src"

definition ASM_THUMB_FORMAT_7_8_ENCODE :: "u32 \<Rightarrow> u32 \<Rightarrow> u32 \<Rightarrow> u32 \<Rightarrow> u32" where
  [asm_encodes]: "ASM_THUMB_FORMAT_7_8_ENCODE op rlo_dest rlo_base rlo_index = op OR push_bit 6 rlo_index OR push_bit 3 rlo_base OR rlo_dest"

definition asm_thumb_format_7_8 :: "u32 \<Rightarrow> u32 \<Rightarrow> u32 \<Rightarrow> u32 \<Rightarrow> asm_thumb_t asm" where
  "asm_thumb_format_7_8 op rlo_dest rlo_base rlo_index =
     asm_seq [asm_assert (rlo_dest < ASM_THUMB_REG_R8),
              asm_assert (rlo_base < ASM_THUMB_REG_R8),
              asm_assert (rlo_index < ASM_THUMB_REG_R8),
              asm_thumb_op16 (ASM_THUMB_FORMAT_7_8_ENCODE op rlo_dest rlo_base rlo_index)]"

definition asm_thumb_ldrb_rlo_rlo_rlo :: "u32 \<Rightarrow> u32 \<Rightarrow> u32 \<Rightarrow> asm_thumb_t asm" where
  [asm_ops]: "asm_thumb_ldrb_rlo_rlo_rlo rlo_dest rlo_base rlo_index =
     asm_thumb_format_7_8 (ASM_THUMB_FORMAT_7_LDR OR ASM_THUMB_FORMAT_7_BYTE_TRANSFER) rlo_dest rlo_base rlo_index"

definition asm_thumb_ldrh_rlo_rlo_rlo :: "u32 \<Rightarrow> u32 \<Rightarrow> u32 \<Rightarrow> asm_thumb_t asm" where
  [asm_ops]: "asm_thumb_ldrh_rlo_rlo_rlo rlo_dest rlo_base rlo_index =
     asm_thumb_format_7_8 ASM_THUMB_FORMAT_8_LDRH rlo_dest rlo_base rlo_index"

definition asm_thumb_ldr_rlo_rlo_rlo :: "u32 \<Rightarrow> u32 \<Rightarrow> u32 \<Rightarrow> asm_thumb_t asm" where
  [asm_ops]: "asm_thumb_ldr_rlo_rlo_rlo rlo_dest rlo_base rlo_index =
     asm_thumb_format_7_8 (ASM_THUMB_FORMAT_7_LDR OR ASM_THUMB_FORMAT_7_WORD_TRANSFER) rlo_dest rlo_base rlo_index"

definition asm_thumb_strb_rlo_rlo_rlo :: "u32 \<Rightarrow> u32 \<Rightarrow> u32 \<Rightarrow> asm_thumb_t asm" where
  [asm_ops]: "asm_thumb_strb_rlo_rlo_rlo rlo_src rlo_base rlo_index =
     asm_thumb_format_7_8 (ASM_THUMB_FORMAT_7_STR OR ASM_THUMB_FORMAT_7_BYTE_TRANSFER) rlo_src rlo_base rlo_index"

definition asm_thumb_strh_rlo_rlo_rlo :: "u32 \<Rightarrow> u32 \<Rightarrow> u32 \<Rightarrow> asm_thumb_t asm" where
  [asm_ops]: "asm_thumb_strh_rlo_rlo_rlo rlo_dest rlo_base rlo_index =
     asm_thumb_format_7_8 ASM_THUMB_FORMAT_8_STRH rlo_dest rlo_base rlo_index"

definition asm_thumb_str_rlo_rlo_rlo :: "u32 \<Rightarrow> u32 \<Rightarrow> u32 \<Rightarrow> asm_thumb_t asm" where
  [asm_ops]: "asm_thumb_str_rlo_rlo_rlo rlo_src rlo_base rlo_index =
     asm_thumb_format_7_8 (ASM_THUMB_FORMAT_7_STR OR ASM_THUMB_FORMAT_7_WORD_TRANSFER) rlo_src rlo_base rlo_index"

definition ASM_THUMB_FORMAT_9_10_ENCODE :: "u32 \<Rightarrow> u32 \<Rightarrow> u32 \<Rightarrow> u32 \<Rightarrow> u32" where
  [asm_encodes]: "ASM_THUMB_FORMAT_9_10_ENCODE op rlo_dest rlo_base offset = op OR (push_bit 6 offset AND 0x07c0) OR push_bit 3 rlo_base OR rlo_dest"

definition asm_thumb_format_9_10 :: "u32 \<Rightarrow> u32 \<Rightarrow> u32 \<Rightarrow> u32 \<Rightarrow> asm_thumb_t asm" where
  [asm_ops]: "asm_thumb_format_9_10 op rlo_dest rlo_base offset =
     asm_thumb_op16 (ASM_THUMB_FORMAT_9_10_ENCODE op rlo_dest rlo_base offset)"

definition asm_thumb_lsl_rlo_rlo_i5 :: "u32 \<Rightarrow> u32 \<Rightarrow> u32 \<Rightarrow> asm_thumb_t asm" where
  [asm_ops]: "asm_thumb_lsl_rlo_rlo_i5 rlo_dest rlo_src shift =
     asm_thumb_format_1 ASM_THUMB_FORMAT_1_LSL rlo_dest rlo_src shift"

definition asm_thumb_asr_rlo_rlo_i5 :: "u32 \<Rightarrow> u32 \<Rightarrow> u32 \<Rightarrow> asm_thumb_t asm" where
  [asm_ops]: "asm_thumb_asr_rlo_rlo_i5 rlo_dest rlo_src shift =
     asm_thumb_format_1 ASM_THUMB_FORMAT_1_ASR rlo_dest rlo_src shift"

definition ASM_THUMB_FORMAT_11_ENCODE :: "u32 \<Rightarrow> u32 \<Rightarrow> u32 \<Rightarrow> u32" where
  [asm_encodes]: "ASM_THUMB_FORMAT_11_ENCODE op rlo_dest rlo_src = op OR push_bit 3 rlo_src OR rlo_dest"

definition asm_thumb_format_11 :: "u32 \<Rightarrow> u32 \<Rightarrow> u32 \<Rightarrow> asm_thumb_t asm" where
  "asm_thumb_format_11 op rlo_dest rlo_src =
     asm_seq [asm_assert (rlo_dest < ASM_THUMB_REG_R8),
              asm_assert (rlo_src < ASM_THUMB_REG_R8),
              asm_thumb_op16 (ASM_THUMB_FORMAT_11_ENCODE op rlo_dest rlo_src)]"

definition asm_thumb_sxth_rlo_rlo :: "u32 \<Rightarrow> u32 \<Rightarrow> asm_thumb_t asm" where
  [asm_ops]: "asm_thumb_sxth_rlo_rlo rlo_dest rlo_src =
     asm_thumb_format_11 ASM_THUMB_FORMAT_11_SXTH rlo_dest rlo_src"

end
