(* ===== verification/Asm_Thumb.thy ===== *)
theory Asm_Thumb
  imports Asm_Thumb_Opcodes
begin

text \<open>
  The code generator of the Thumb assembler, \<open>src/bank/uPython-ASM/asmthumb.c\<close>: function
  prologue and epilogue, moves and immediates in the ARMv6-M and ARMv7-M forms, locals,
  loads and stores, branches with their narrow, wide and long forms, and calls. A C \<open>int\<close> is
  held in a \<open>u32\<close>; arithmetic on it wraps as the compilers of the ports do.
\<close>

section \<open>Ranges and encodings\<close>

definition THUMB_UNSIGNED_FIT7 :: "u32 \<Rightarrow> bool" where
  "THUMB_UNSIGNED_FIT7 x \<longleftrightarrow> x < 128"

definition THUMB_UNSIGNED_FIT8 :: "u32 \<Rightarrow> bool" where
  "THUMB_UNSIGNED_FIT8 x \<longleftrightarrow> x AND 0xffffff00 = 0"

definition THUMB_UNSIGNED_FIT16 :: "u32 \<Rightarrow> bool" where
  "THUMB_UNSIGNED_FIT16 x \<longleftrightarrow> x AND 0xffff0000 = 0"

definition THUMB_SIGNED_FIT8 :: "u32 \<Rightarrow> bool" where
  "THUMB_SIGNED_FIT8 x \<longleftrightarrow> x AND 0xffffff80 = 0 \<or> x AND 0xffffff80 = 0xffffff80"

definition THUMB_SIGNED_FIT9 :: "u32 \<Rightarrow> bool" where
  "THUMB_SIGNED_FIT9 x \<longleftrightarrow> x AND 0xffffff00 = 0 \<or> x AND 0xffffff00 = 0xffffff00"

definition THUMB_SIGNED_FIT12 :: "u32 \<Rightarrow> bool" where
  "THUMB_SIGNED_FIT12 x \<longleftrightarrow> x AND 0xfffff800 = 0 \<or> x AND 0xfffff800 = 0xfffff800"

definition THUMB_SIGNED_FIT23 :: "u32 \<Rightarrow> bool" where
  "THUMB_SIGNED_FIT23 x \<longleftrightarrow> x AND 0xffc00000 = 0 \<or> x AND 0xffc00000 = 0xffc00000"

definition THUMB_OP_ADD_W_RRI_HI :: "u32 \<Rightarrow> u32" where
  [asm_encodes]: "THUMB_OP_ADD_W_RRI_HI reg_src = 0xf200 OR reg_src"

definition THUMB_OP_ADD_W_RRI_LO :: "u32 \<Rightarrow> u32 \<Rightarrow> u32" where
  [asm_encodes]: "THUMB_OP_ADD_W_RRI_LO reg_dest imm11 =
     (push_bit 4 imm11 AND 0x7000) OR push_bit 8 reg_dest OR (imm11 AND 0xff)"

definition THUMB_OP_SUB_W_RRI_HI :: "u32 \<Rightarrow> u32" where
  [asm_encodes]: "THUMB_OP_SUB_W_RRI_HI reg_src = 0xf2a0 OR reg_src"

definition THUMB_OP_SUB_W_RRI_LO :: "u32 \<Rightarrow> u32 \<Rightarrow> u32" where
  [asm_encodes]: "THUMB_OP_SUB_W_RRI_LO reg_dest imm11 =
     (push_bit 4 imm11 AND 0x7000) OR push_bit 8 reg_dest OR (imm11 AND 0xff)"

definition THUMB_OP_PUSH_RLIST :: "u32 \<Rightarrow> u32" where
  [asm_encodes]: "THUMB_OP_PUSH_RLIST rlolist = 0xb400 OR rlolist"

definition THUMB_OP_PUSH_RLIST_LR :: "u32 \<Rightarrow> u32" where
  [asm_encodes]: "THUMB_OP_PUSH_RLIST_LR rlolist = 0xb400 OR 0x0100 OR rlolist"

definition THUMB_OP_POP_RLIST :: "u32 \<Rightarrow> u32" where
  [asm_encodes]: "THUMB_OP_POP_RLIST rlolist = 0xbc00 OR rlolist"

definition THUMB_OP_POP_RLIST_PC :: "u32 \<Rightarrow> u32" where
  [asm_encodes]: "THUMB_OP_POP_RLIST_PC rlolist = 0xbc00 OR 0x0100 OR rlolist"

definition THUMB_OP_ADD_SP :: "u32 \<Rightarrow> u32" where
  [asm_encodes]: "THUMB_OP_ADD_SP num_words = 0xb000 OR num_words"

definition THUMB_OP_SUB_SP :: "u32 \<Rightarrow> u32" where
  [asm_encodes]: "THUMB_OP_SUB_SP num_words = 0xb080 OR num_words"

definition THUMB_OP_B_N :: "u32 \<Rightarrow> u32" where
  [asm_encodes]: "THUMB_OP_B_N byte_offset = 0xe000 OR (signed_drop_bit 1 byte_offset AND 0x07ff)"

definition THUMB_OP_BCC_N :: "u32 \<Rightarrow> u32 \<Rightarrow> u32" where
  [asm_encodes]: "THUMB_OP_BCC_N cond byte_offset =
     0xd000 OR push_bit 8 cond OR (signed_drop_bit 1 byte_offset AND 0x00ff)"

definition THUMB_OP_BCC_W_HI :: "u32 \<Rightarrow> u32 \<Rightarrow> u32" where
  [asm_encodes]: "THUMB_OP_BCC_W_HI cond byte_offset =
     0xf000 OR push_bit 6 cond OR (signed_drop_bit 10 byte_offset AND 0x0400) OR
     (signed_drop_bit 12 byte_offset AND 0x003f)"

definition THUMB_OP_BCC_W_LO :: "u32 \<Rightarrow> u32" where
  [asm_encodes]: "THUMB_OP_BCC_W_LO byte_offset =
     0x8000 OR (signed_drop_bit 5 byte_offset AND 0x2000) OR
     (signed_drop_bit 8 byte_offset AND 0x0800) OR (signed_drop_bit 1 byte_offset AND 0x07ff)"

definition THUMB_OP_BL_HI :: "u32 \<Rightarrow> u32" where
  [asm_encodes]: "THUMB_OP_BL_HI byte_offset = 0xf000 OR (signed_drop_bit 12 byte_offset AND 0x07ff)"

definition THUMB_OP_BL_LO :: "u32 \<Rightarrow> u32" where
  [asm_encodes]: "THUMB_OP_BL_LO byte_offset = 0xf800 OR (signed_drop_bit 1 byte_offset AND 0x07ff)"

definition THUMB_OP_STR_TO_SP_OFFSET :: "u32 \<Rightarrow> u32 \<Rightarrow> u32" where
  [asm_encodes]: "THUMB_OP_STR_TO_SP_OFFSET rlo_dest word_offset =
     0x9000 OR push_bit 8 rlo_dest OR (word_offset AND 0x00ff)"

definition THUMB_OP_LDR_FROM_SP_OFFSET :: "u32 \<Rightarrow> u32 \<Rightarrow> u32" where
  [asm_encodes]: "THUMB_OP_LDR_FROM_SP_OFFSET rlo_dest word_offset =
     0x9800 OR push_bit 8 rlo_dest OR (word_offset AND 0x00ff)"

definition THUMB_OP_ADD_REG_SP_OFFSET :: "u32 \<Rightarrow> u32 \<Rightarrow> u32" where
  [asm_encodes]: "THUMB_OP_ADD_REG_SP_OFFSET rlo_dest word_offset =
     0xa800 OR push_bit 8 rlo_dest OR (word_offset AND 0x00ff)"

definition THUMB_OP_LDR_STR_W_HI :: "u32 \<Rightarrow> u32 \<Rightarrow> u32" where
  [asm_encodes]: "THUMB_OP_LDR_STR_W_HI operation_size reg = (0xf880 OR push_bit 5 operation_size) OR reg"

definition THUMB_OP_LDR_STR_W_LO :: "u32 \<Rightarrow> u32 \<Rightarrow> u32" where
  [asm_encodes]: "THUMB_OP_LDR_STR_W_LO reg imm12 = push_bit 12 reg OR imm12"

definition THUMB_OP_LDR :: u32 where [asm_consts]: "THUMB_OP_LDR = 0x01"
definition THUMB_OP_STR :: u32 where [asm_consts]: "THUMB_OP_STR = 0x00"
definition THUMB_OP_LDR_W :: u32 where [asm_consts]: "THUMB_OP_LDR_W = 0x10"
definition THUMB_OP_STR_W :: u32 where [asm_consts]: "THUMB_OP_STR_W = 0x00"

definition THUMB_OP_LDR_STR_TABLE :: "u32 list" where
  "THUMB_OP_LDR_STR_TABLE = [0x0E, 0x10, 0x0C]"

definition THUMB_OP_BW_HI :: "u32 \<Rightarrow> u32" where
  [asm_encodes]: "THUMB_OP_BW_HI byte_offset = 0xf000 OR (signed_drop_bit 12 byte_offset AND 0x07ff)"

definition THUMB_OP_BW_LO :: "u32 \<Rightarrow> u32" where
  [asm_encodes]: "THUMB_OP_BW_LO byte_offset = 0xb800 OR (signed_drop_bit 1 byte_offset AND 0x07ff)"

definition THUMB_OP_BLX :: "u32 \<Rightarrow> u32" where
  [asm_encodes]: "THUMB_OP_BLX reg = 0x4780 OR push_bit 3 reg"

section \<open>Entry and exit\<close>

text \<open>The loops that move the stack pointer in steps of at most 127 words.\<close>

function thumb_sub_sp_loop :: "u32 \<Rightarrow> asm_thumb_t asm" where
  "thumb_sub_sp_loop adj =
     (if \<not> THUMB_UNSIGNED_FIT7 adj
      then asm_seq [asm_thumb_op16 (THUMB_OP_SUB_SP 127), thumb_sub_sp_loop (adj - 127)]
      else asm_thumb_op16 (THUMB_OP_SUB_SP adj))"
  by pat_completeness auto
termination
  by (relation "measure unat")
    (auto simp: THUMB_UNSIGNED_FIT7_def word_less_nat_alt not_less unat_sub word_le_nat_alt)

function thumb_add_sp_loop :: "u32 \<Rightarrow> asm_thumb_t asm" where
  "thumb_add_sp_loop adj =
     (if \<not> THUMB_UNSIGNED_FIT7 adj
      then asm_seq [asm_thumb_op16 (THUMB_OP_ADD_SP 127), thumb_add_sp_loop (adj - 127)]
      else asm_thumb_op16 (THUMB_OP_ADD_SP adj))"
  by pat_completeness auto
termination
  by (relation "measure unat")
    (auto simp: THUMB_UNSIGNED_FIT7_def word_less_nat_alt not_less unat_sub word_le_nat_alt)

declare thumb_sub_sp_loop.simps [simp del] thumb_add_sp_loop.simps [simp del]

text \<open>The switch over the number of locals: the registers to push and the words to reserve.\<close>

definition thumb_frame :: "u32 \<Rightarrow> u32 \<times> u32" where
  "thumb_frame num_locals =
     (if num_locals = 0 then (0xf2, 0)
      else if num_locals = 1 then (0xf2, 0)
      else if num_locals = 2 then (0xfe, 0)
      else if num_locals = 3 then (0xfe, 0)
      else (0xfe, ((num_locals - 3) + 1) AND NOT 1))"

definition thumb_arm_prelude :: "thumb_env \<Rightarrow> bool" where
  "thumb_arm_prelude env \<longleftrightarrow>
     (MICROPY_DYNAMIC_COMPILER env \<or> MICROPY_EMIT_ARM env \<or> arm_state_target env) \<and>
     (MICROPY_DYNAMIC_COMPILER env \<longrightarrow> native_arch env = MP_NATIVE_ARCH_ARMV6 env)"

definition asm_thumb_entry :: "thumb_env \<Rightarrow> u32 \<Rightarrow> asm_thumb_t asm" where
  "asm_thumb_entry env num_locals =
     (let (reglist, adjust) = thumb_frame num_locals
      in asm_seq
        [asm_assert (sint num_locals \<ge> 0),
         asm_when (thumb_arm_prelude env) (asm_seq
           [asm_thumb_op32 0x4010 0xe92d,
            asm_thumb_op32 0xe009 0xe28f,
            asm_thumb_op32 0xff3e 0xe12f,
            asm_thumb_op32 0x4010 0xe8bd,
            asm_thumb_op32 0xff1e 0xe12f]),
         asm_thumb_op16 (THUMB_OP_PUSH_RLIST_LR reglist),
         asm_when (adjust > 0)
           (if asm_thumb_allow_armv7m env
            then if THUMB_UNSIGNED_FIT7 adjust
              then asm_thumb_op16 (THUMB_OP_SUB_SP adjust)
              else asm_thumb_op32 (THUMB_OP_SUB_W_RRI_HI ASM_THUMB_REG_SP)
                     (THUMB_OP_SUB_W_RRI_LO ASM_THUMB_REG_SP (adjust * 4))
            else thumb_sub_sp_loop adjust),
         \<lambda>s. Inr (s\<lparr>push_reglist := reglist, stack_adjust := adjust\<rparr>)])"

definition asm_thumb_exit :: "thumb_env \<Rightarrow> asm_thumb_t asm" where
  "asm_thumb_exit env s =
     asm_seq
       [asm_when (stack_adjust s > 0)
          (if asm_thumb_allow_armv7m env
           then if THUMB_UNSIGNED_FIT7 (stack_adjust s)
             then asm_thumb_op16 (THUMB_OP_ADD_SP (stack_adjust s))
             else asm_thumb_op32 (THUMB_OP_ADD_W_RRI_HI ASM_THUMB_REG_SP)
                    (THUMB_OP_ADD_W_RRI_LO ASM_THUMB_REG_SP (stack_adjust s * 4))
           else thumb_add_sp_loop (stack_adjust s)),
        asm_thumb_op16 (THUMB_OP_POP_RLIST_PC (push_reglist s))] s"

section \<open>Moves\<close>

definition thumb_get_label_dest :: "u32 \<Rightarrow> asm_thumb_t \<Rightarrow> asm_error + u32" where
  "thumb_get_label_dest label s =
     (if \<not> label < max_num_labels s then Inl AssertionFailed else label_offset label s)"

definition asm_thumb_mov_reg_reg :: "u32 \<Rightarrow> u32 \<Rightarrow> asm_thumb_t asm" where
  "asm_thumb_mov_reg_reg reg_dest reg_src =
     (let op_lo = (if reg_src < 8 then push_bit 3 reg_src else 0x40 OR push_bit 3 (reg_src - 8));
          op_lo = op_lo OR (if reg_dest < 8 then reg_dest else 0x80 OR (reg_dest - 8))
      in asm_thumb_op16 (0x4600 OR op_lo))"

definition asm_thumb_mov_reg_i16 :: "u32 \<Rightarrow> u32 \<Rightarrow> u32 \<Rightarrow> asm_thumb_t asm" where
  "asm_thumb_mov_reg_i16 mov_op reg_dest i16_src =
     asm_seq [asm_assert (reg_dest < ASM_THUMB_REG_R15),
              asm_thumb_op32
                (mov_op OR (signed_drop_bit 1 i16_src AND 0x0400) OR (signed_drop_bit 12 i16_src AND 0xf))
                ((push_bit 4 i16_src AND 0x7000) OR push_bit 8 reg_dest OR (i16_src AND 0xff))]"

definition asm_thumb_mov_rlo_i16 :: "u32 \<Rightarrow> u32 \<Rightarrow> asm_thumb_t asm" where
  "asm_thumb_mov_rlo_i16 rlo_dest i16_src =
     asm_seq [asm_thumb_mov_rlo_i8 rlo_dest (signed_drop_bit 8 i16_src AND 0xff),
              asm_thumb_lsl_rlo_rlo_i5 rlo_dest rlo_dest 8,
              asm_thumb_add_rlo_i8 rlo_dest (i16_src AND 0xff)]"

text \<open>Short branches of the inline assembler; the result says whether the label is in range.\<close>

definition asm_thumb_b_n_label :: "u32 \<Rightarrow> asm_thumb_t \<Rightarrow> asm_error + (bool \<times> asm_thumb_t)" where
  "asm_thumb_b_n_label label s =
     (case thumb_get_label_dest label s of
        Inl e \<Rightarrow> Inl e
      | Inr dest \<Rightarrow>
          let rel = dest - code_offset s - 4
          in case asm_thumb_op16 (THUMB_OP_B_N rel) s of
               Inl e \<Rightarrow> Inl e
             | Inr t \<Rightarrow> Inr (\<not> in_emit_pass t \<or> THUMB_SIGNED_FIT12 rel, t))"

definition asm_thumb_bcc_nw_label ::
    "thumb_env \<Rightarrow> u32 \<Rightarrow> u32 \<Rightarrow> bool \<Rightarrow> asm_thumb_t \<Rightarrow> asm_error + (bool \<times> asm_thumb_t)" where
  "asm_thumb_bcc_nw_label env cond label wide s =
     (case thumb_get_label_dest label s of
        Inl e \<Rightarrow> Inl e
      | Inr dest \<Rightarrow>
          let rel = dest - code_offset s - 4
          in if \<not> wide
             then case asm_thumb_op16 (THUMB_OP_BCC_N cond rel) s of
                    Inl e \<Rightarrow> Inl e
                  | Inr t \<Rightarrow> Inr (\<not> in_emit_pass t \<or> THUMB_SIGNED_FIT9 rel, t)
             else if asm_thumb_allow_armv7m env
             then case asm_thumb_op32 (THUMB_OP_BCC_W_HI cond rel) (THUMB_OP_BCC_W_LO rel) s of
                    Inl e \<Rightarrow> Inl e
                  | Inr t \<Rightarrow> Inr (True, t)
             else Inr (False, s))"

definition asm_thumb_bl_label :: "u32 \<Rightarrow> asm_thumb_t \<Rightarrow> asm_error + (bool \<times> asm_thumb_t)" where
  "asm_thumb_bl_label label s =
     (case thumb_get_label_dest label s of
        Inl e \<Rightarrow> Inl e
      | Inr dest \<Rightarrow>
          let rel = dest - code_offset s - 4
          in case asm_thumb_op32 (THUMB_OP_BL_HI rel) (THUMB_OP_BL_LO rel) s of
               Inl e \<Rightarrow> Inl e
             | Inr t \<Rightarrow> Inr (\<not> in_emit_pass t \<or> THUMB_SIGNED_FIT23 rel, t))"

text \<open>The position the C function returns is the offset of the state it is given.\<close>

definition asm_thumb_mov_reg_i32 :: "thumb_env \<Rightarrow> u32 \<Rightarrow> u32 \<Rightarrow> asm_thumb_t \<Rightarrow> asm_error + (u32 \<times> asm_thumb_t)" where
  "asm_thumb_mov_reg_i32 env reg_dest i32 s =
     (let loc = mp_asm_base_get_code_pos s
      in case
        (if asm_thumb_allow_armv7m env
         then asm_seq [asm_thumb_mov_reg_i16 ASM_THUMB_OP_MOVW reg_dest i32,
                       asm_thumb_mov_reg_i16 ASM_THUMB_OP_MOVT reg_dest (drop_bit 16 i32)] s
         else asm_seq
           [asm_assert (reg_dest < ASM_THUMB_REG_R8),
            asm_assert (code_base s = None \<or> 3 AND code_base_address env = 0),
            asm_when (code_offset s AND 2 \<noteq> 0) (asm_thumb_op16 ASM_THUMB_OP_NOP),
            asm_thumb_ldr_rlo_pcrel_i8 reg_dest 0,
            asm_thumb_op16 (THUMB_OP_B_N 2),
            asm_thumb_op16 (i32 AND 0xffff),
            asm_thumb_op16 (drop_bit 16 i32)] s) of
        Inl e \<Rightarrow> Inl e
      | Inr t \<Rightarrow> Inr (loc, t))"

definition asm_thumb_mov_reg_i32_optimised :: "thumb_env \<Rightarrow> u32 \<Rightarrow> u32 \<Rightarrow> asm_thumb_t asm" where
  "asm_thumb_mov_reg_i32_optimised env reg_dest i32 =
     (if reg_dest < 8 \<and> THUMB_UNSIGNED_FIT8 i32 then asm_thumb_mov_rlo_i8 reg_dest i32
      else if asm_thumb_allow_armv7m env
      then if THUMB_UNSIGNED_FIT16 i32
        then asm_thumb_mov_reg_i16 ASM_THUMB_OP_MOVW reg_dest i32
        else ignore_result (asm_thumb_mov_reg_i32 env reg_dest i32)
      else let negate = (sint i32 < 0 \<and> (i32 + i32) AND 0xffffffff \<noteq> 0);
               v = (if negate then - i32 else i32);
               clz = mp_clz env v;
               ctz = (if v \<noteq> 0 then mp_ctz env v else 0)
      in asm_seq
        [asm_assert (reg_dest < ASM_THUMB_REG_R8),
         asm_assert (clz + ctz \<le> 32),
         if clz + ctz \<ge> 24
         then asm_seq
           [asm_thumb_mov_rlo_i8 reg_dest (signed_drop_bit (unat ctz) v AND 0xff),
            asm_thumb_lsl_rlo_rlo_i5 reg_dest reg_dest ctz,
            asm_when negate (asm_thumb_neg_rlo_rlo reg_dest reg_dest)]
         else if THUMB_UNSIGNED_FIT16 v
         then asm_seq
           [asm_thumb_mov_rlo_i16 reg_dest v,
            asm_when negate (asm_thumb_neg_rlo_rlo reg_dest reg_dest)]
         else ignore_result (asm_thumb_mov_reg_i32 env reg_dest (if negate then - v else v))])"

section \<open>Locals\<close>

definition asm_thumb_mov_local_check :: "u32 \<Rightarrow> asm_thumb_t asm" where
  "asm_thumb_mov_local_check word_offset s =
     (if uint (pass s) \<ge> MP_ASM_PASS_EMIT
      then if \<not> sint word_offset \<ge> 0 then Inl AssertionFailed
           else if \<not> THUMB_UNSIGNED_FIT8 word_offset then Inl NotImplementedError
           else Inr s
      else Inr s)"

definition asm_thumb_mov_local_reg :: "u32 \<Rightarrow> u32 \<Rightarrow> asm_thumb_t asm" where
  "asm_thumb_mov_local_reg local_num rlo_src =
     asm_seq [asm_assert (rlo_src < ASM_THUMB_REG_R8),
              asm_thumb_mov_local_check local_num,
              asm_thumb_op16 (THUMB_OP_STR_TO_SP_OFFSET rlo_src local_num)]"

definition asm_thumb_mov_reg_local :: "u32 \<Rightarrow> u32 \<Rightarrow> asm_thumb_t asm" where
  "asm_thumb_mov_reg_local rlo_dest local_num =
     asm_seq [asm_assert (rlo_dest < ASM_THUMB_REG_R8),
              asm_thumb_mov_local_check local_num,
              asm_thumb_op16 (THUMB_OP_LDR_FROM_SP_OFFSET rlo_dest local_num)]"

definition asm_thumb_mov_reg_local_addr :: "u32 \<Rightarrow> u32 \<Rightarrow> asm_thumb_t asm" where
  "asm_thumb_mov_reg_local_addr rlo_dest local_num s =
     asm_seq [asm_assert (rlo_dest < ASM_THUMB_REG_R8),
              asm_assert (uint (pass s) < MP_ASM_PASS_EMIT \<or> sint local_num \<ge> 0),
              asm_thumb_op16 (THUMB_OP_ADD_REG_SP_OFFSET rlo_dest local_num)] s"

definition asm_thumb_mov_reg_pcrel :: "thumb_env \<Rightarrow> u32 \<Rightarrow> u32 \<Rightarrow> asm_thumb_t asm" where
  "asm_thumb_mov_reg_pcrel env rlo_dest label s =
     (case thumb_get_label_dest label s of
        Inl e \<Rightarrow> Inl e
      | Inr dest \<Rightarrow>
          let rel = (dest - code_offset s) OR 1
          in asm_seq
            [if asm_thumb_allow_armv7m env
             then asm_seq [asm_thumb_mov_reg_i16 ASM_THUMB_OP_MOVW rlo_dest (rel - (6 + 4)),
                           asm_thumb_sxth_rlo_rlo rlo_dest rlo_dest]
             else asm_seq [asm_thumb_mov_rlo_i16 rlo_dest (rel - (8 + 4)),
                           asm_thumb_sxth_rlo_rlo rlo_dest rlo_dest],
             asm_thumb_add_reg_reg rlo_dest ASM_THUMB_REG_R15] s)"

section \<open>Loads and stores\<close>

definition asm_thumb_add_reg_reg_offset :: "thumb_env \<Rightarrow> u32 \<Rightarrow> u32 \<Rightarrow> u32 \<Rightarrow> u32 \<Rightarrow> asm_thumb_t asm" where
  "asm_thumb_add_reg_reg_offset env reg_dest reg_base offset offset_shift =
     (if reg_dest < ASM_THUMB_REG_R8 \<and> reg_base < ASM_THUMB_REG_R8
      then let scaled = push_bit (unat offset_shift) offset
        in if scaled < 256
        then asm_seq [asm_when (reg_dest \<noteq> reg_base) (asm_thumb_mov_reg_reg reg_dest reg_base),
                      asm_thumb_add_rlo_i8 reg_dest scaled]
        else if THUMB_UNSIGNED_FIT8 offset \<and> reg_dest \<noteq> reg_base
        then asm_seq [asm_thumb_mov_rlo_i8 reg_dest offset,
                      asm_thumb_lsl_rlo_rlo_i5 reg_dest reg_dest offset_shift,
                      asm_thumb_add_rlo_rlo_rlo reg_dest reg_dest reg_base]
        else if reg_dest \<noteq> reg_base
        then asm_seq [asm_thumb_mov_reg_i32_optimised env reg_dest scaled,
                      asm_thumb_add_rlo_rlo_rlo reg_dest reg_dest reg_base]
        else let reg_other = reg_dest XOR 7
          in asm_seq [asm_thumb_op16 (THUMB_OP_PUSH_RLIST (push_bit (unat reg_other) 1)),
                      asm_thumb_mov_reg_i32_optimised env reg_other scaled,
                      asm_thumb_add_rlo_rlo_rlo reg_dest reg_dest reg_other,
                      asm_thumb_op16 (THUMB_OP_POP_RLIST (push_bit (unat reg_other) 1))]
      else asm_assert False)"

definition asm_thumb_load_reg_reg_offset :: "thumb_env \<Rightarrow> u32 \<Rightarrow> u32 \<Rightarrow> u32 \<Rightarrow> u32 \<Rightarrow> asm_thumb_t asm" where
  "asm_thumb_load_reg_reg_offset env reg_dest reg_base offset operation_size =
     (if \<not> operation_size \<le> 2 then asm_assert False
      else let op = push_bit 11 (THUMB_OP_LDR_STR_TABLE ! unat operation_size OR THUMB_OP_LDR)
      in if MP_FIT_UNSIGNED env 5 offset \<and> reg_dest < ASM_THUMB_REG_R8 \<and> reg_base < ASM_THUMB_REG_R8
      then asm_thumb_op16 (op OR push_bit 6 offset OR push_bit 3 reg_base OR reg_dest)
      else if asm_thumb_allow_armv7m env \<and> MP_FIT_UNSIGNED env 12 (push_bit (unat operation_size) offset)
      then asm_thumb_op32 (THUMB_OP_LDR_STR_W_HI operation_size reg_base OR THUMB_OP_LDR_W)
             (THUMB_OP_LDR_STR_W_LO reg_dest (push_bit (unat operation_size) offset))
      else asm_seq [asm_thumb_add_reg_reg_offset env reg_dest reg_base (offset - 31) operation_size,
                    asm_thumb_op16 (op OR push_bit 6 31 OR push_bit 3 reg_dest OR reg_dest)])"

definition asm_thumb_store_reg_reg_offset :: "thumb_env \<Rightarrow> u32 \<Rightarrow> u32 \<Rightarrow> u32 \<Rightarrow> u32 \<Rightarrow> asm_thumb_t asm" where
  "asm_thumb_store_reg_reg_offset env reg_src reg_base offset operation_size =
     (if \<not> operation_size \<le> 2 then asm_assert False
      else let op = push_bit 11 (THUMB_OP_LDR_STR_TABLE ! unat operation_size OR THUMB_OP_STR)
      in if MP_FIT_UNSIGNED env 5 offset \<and> reg_src < ASM_THUMB_REG_R8 \<and> reg_base < ASM_THUMB_REG_R8
      then asm_thumb_op16 (op OR push_bit 6 offset OR push_bit 3 reg_base OR reg_src)
      else if asm_thumb_allow_armv7m env \<and> MP_FIT_UNSIGNED env 12 (push_bit (unat operation_size) offset)
      then asm_thumb_op32 (THUMB_OP_LDR_STR_W_HI operation_size reg_base OR THUMB_OP_STR_W)
             (THUMB_OP_LDR_STR_W_LO reg_src (push_bit (unat operation_size) offset))
      else asm_seq [asm_thumb_op16 (THUMB_OP_PUSH_RLIST (push_bit (unat reg_base) 1)),
                    asm_thumb_add_reg_reg_offset env reg_base reg_base (offset - 31) operation_size,
                    asm_thumb_op16 (op OR push_bit 6 31 OR push_bit 3 reg_base OR reg_src),
                    asm_thumb_op16 (THUMB_OP_POP_RLIST (push_bit (unat reg_base) 1))])"

section \<open>Branches and calls\<close>

definition asm_thumb_b_label :: "thumb_env \<Rightarrow> u32 \<Rightarrow> asm_thumb_t asm" where
  "asm_thumb_b_label env label s =
     (case thumb_get_label_dest label s of
        Inl e \<Rightarrow> Inl e
      | Inr dest \<Rightarrow>
          let rel = dest - code_offset s - 4
          in if (dest \<noteq> - 1 \<and> sint rel \<le> - 4) \<and> THUMB_SIGNED_FIT12 rel
          then asm_thumb_op16 (THUMB_OP_B_N rel) s
          else if asm_thumb_allow_armv7m env
          then asm_thumb_op32 (THUMB_OP_BW_HI rel) (THUMB_OP_BW_LO rel) s
          else let need_align = (code_offset s AND 2 \<noteq> 0)
          in if THUMB_SIGNED_FIT12 rel
          then asm_seq [asm_thumb_op16 (THUMB_OP_B_N rel),
                        asm_thumb_op16 ASM_THUMB_OP_NOP,
                        asm_thumb_op16 ASM_THUMB_OP_NOP,
                        asm_thumb_op16 ASM_THUMB_OP_NOP,
                        asm_when need_align (asm_thumb_op16 ASM_THUMB_OP_NOP)] s
          else let rel = rel - 2; rel = (if need_align then rel - 2 else rel)
          in asm_seq [asm_when need_align (asm_thumb_op16 ASM_THUMB_OP_NOP),
                      asm_thumb_ldr_rlo_pcrel_i8 ASM_THUMB_REG_R1 0,
                      asm_thumb_add_reg_reg ASM_THUMB_REG_R15 ASM_THUMB_REG_R1,
                      asm_thumb_op16 (rel AND 0xffff),
                      asm_thumb_op16 (signed_drop_bit 16 rel)] s)"

text \<open>
  Without ARMv7-M the conditional branch skips a long branch: two bytes are reserved, the
  long branch is written, and the reserved bytes are filled in afterwards.
\<close>

definition asm_thumb_bcc_label :: "thumb_env \<Rightarrow> u32 \<Rightarrow> u32 \<Rightarrow> asm_thumb_t asm" where
  "asm_thumb_bcc_label env cond label s =
     (case thumb_get_label_dest label s of
        Inl e \<Rightarrow> Inl e
      | Inr dest \<Rightarrow>
          let rel = dest - code_offset s - 4
          in if (dest \<noteq> - 1 \<and> sint rel \<le> - 4) \<and> THUMB_SIGNED_FIT9 rel
          then asm_thumb_op16 (THUMB_OP_BCC_N cond rel) s
          else if asm_thumb_allow_armv7m env
          then asm_thumb_op32 (THUMB_OP_BCC_W_HI cond rel) (THUMB_OP_BCC_W_LO rel) s
          else let code_offset_start = code_offset s
          in case mp_asm_base_get_cur_to_write_bytes 2 s of
               Inl e \<Rightarrow> Inl e
             | Inr (c, s1) \<Rightarrow>
                 (case asm_thumb_b_label env label s1 of
                    Inl e \<Rightarrow> Inl e
                  | Inr s2 \<Rightarrow>
                      let bytes_to_skip = code_offset s2 - code_offset_start;
                          op = THUMB_OP_BCC_N (cond XOR 1) (bytes_to_skip - 4)
                      in case c of
                           None \<Rightarrow> Inr s2
                         | Some p \<Rightarrow> mp_store_bytes p [ucast op, ucast (drop_bit 8 op)] s2))"

definition asm_thumb_bcc_rel9 :: "u32 \<Rightarrow> u32 \<Rightarrow> asm_thumb_t asm" where
  "asm_thumb_bcc_rel9 cond rel =
     asm_seq [asm_assert (THUMB_SIGNED_FIT9 (rel - 4)), asm_thumb_op16 (THUMB_OP_BCC_N cond (rel - 4))]"

definition asm_thumb_b_rel12 :: "u32 \<Rightarrow> asm_thumb_t asm" where
  "asm_thumb_b_rel12 rel =
     asm_seq [asm_assert (THUMB_SIGNED_FIT12 (rel - 4)), asm_thumb_op16 (THUMB_OP_B_N (rel - 4))]"

definition asm_thumb_bl_ind :: "thumb_env \<Rightarrow> u32 \<Rightarrow> u32 \<Rightarrow> asm_thumb_t asm" where
  "asm_thumb_bl_ind env fun_id reg_temp =
     asm_seq [asm_thumb_load_reg_reg_offset env reg_temp ASM_THUMB_REG_FUN_TABLE fun_id 2,
              asm_thumb_op16 (THUMB_OP_BLX reg_temp)]"

end
