(* ===== verification/Thumb_Encodings.thy ===== *)
theory Thumb_Encodings
  imports Thumb_ISA Asm_Thumb
begin

text \<open>
  The encodings of the Thumb assembler against the decoder of the specification: the
  instruction that each halfword or pair of halfwords written by the assembler is fetched as.
\<close>

section \<open>Fetching what the assembler writes\<close>

lemma le_word_op16: "le_word (thumb_op16_bytes op) = (take_bit 16 op :: u32)"
  unfolding thumb_op16_bytes_def word32_eq_iff_bits by (simp add: word_bits_simps)

lemma fetches_op16:
  assumes "thumb_decode16 (take_bit 16 op) = Some i" "tfield (take_bit 16 op) 11 5 < 0x1d"
  shows "fetches_at thumb_fetch (thumb_op16_bytes op) i"
  using assms le_word_op16 [of op] by (auto simp: fetches_at_def thumb_fetch_def thumb_op16_bytes_def Let_def not_le)

lemma fetches_op32:
  assumes "thumb_decode32 (take_bit 16 op1) (take_bit 16 op2) = Some i" "tfield (take_bit 16 op1) 11 5 = 0x1e"
  shows "fetches_at thumb_fetch (thumb_op32_bytes op1 op2) i"
proof -
  have "thumb_op32_bytes op1 op2 = thumb_op16_bytes op1 @ thumb_op16_bytes op2"
    by (simp add: thumb_op32_bytes_def thumb_op16_bytes_def)
  then show ?thesis
    using assms le_word_op16 [of op1] le_word_op16 [of op2]
    by (auto simp: fetches_at_def thumb_fetch_def thumb_op16_bytes_def)
qed

section \<open>Decoding the encodings\<close>

text \<open>The fields of an instruction word, compared bit by bit.\<close>

lemmas thumb_bits = asm_encodes asm_consts word32_eq_iff_bits

lemma fetches_B_N:
  "fetches_at thumb_fetch (thumb_op16_bytes (THUMB_OP_B_N rel)) (B (signed_take_bit 11 (rel AND NOT 1)))"
proof -
  have f: "tfield (take_bit 16 (THUMB_OP_B_N rel)) 11 5 = 0x1c"
    "signed_take_bit 11 (push_bit 1 (tfield (take_bit 16 (THUMB_OP_B_N rel)) 0 11)) = signed_take_bit 11 (rel AND NOT 1)"
    unfolding thumb_bits by (simp_all only: list.pred_inject bit_simps) (simp_all add: word_bits_simps)
  show ?thesis by (rule fetches_op16; unfold thumb_decode16_def Let_def f) simp_all
qed

lemma fetches_BCC_N:
  assumes "cond < 14"
  shows "fetches_at thumb_fetch (thumb_op16_bytes (THUMB_OP_BCC_N cond rel)) (BCC cond (signed_take_bit 8 (rel AND NOT 1)))"
proof -
  have c: "take_bit 4 cond = cond" using assms by (intro small_fields(2)) (simp add: order_less_trans)
  have f: "tfield (take_bit 16 (THUMB_OP_BCC_N cond rel)) 11 5 = (if bit cond 3 then 0x1b else 0x1a)"
    "tfield (take_bit 16 (THUMB_OP_BCC_N cond rel)) 8 4 = cond"
    "signed_take_bit 8 (push_bit 1 (tfield (take_bit 16 (THUMB_OP_BCC_N cond rel)) 0 8)) = signed_take_bit 8 (rel AND NOT 1)"
    using c unfolding thumb_bits
    by (cases "bit cond 3"; simp_all only: list.pred_inject bit_simps if_True if_False simp_thms; simp_all add: word_bits_simps)+
  show ?thesis using assms by (intro fetches_op16; unfold thumb_decode16_def Let_def f) (simp_all split: if_split)
qed

lemma fetches_BW:
  "fetches_at thumb_fetch (thumb_op32_bytes (THUMB_OP_BW_HI rel) (THUMB_OP_BW_LO rel)) (B (signed_take_bit 22 (rel AND NOT 1)))"
proof -
  have f: "tfield (take_bit 16 (THUMB_OP_BW_HI rel)) 11 5 = 0x1e" "tfield (take_bit 16 (THUMB_OP_BW_LO rel)) 15 1 = 1"
    "tfield (take_bit 16 (THUMB_OP_BW_LO rel)) 14 1 = 0" "tfield (take_bit 16 (THUMB_OP_BW_LO rel)) 12 1 = 1"
    unfolding thumb_bits by (simp_all only: list.pred_inject bit_simps) (simp_all add: word_bits_simps)
  have s: "tfield (take_bit 16 (THUMB_OP_BW_HI rel)) 10 1 = (if bit rel 22 then 1 else 0)"
    "tfield (take_bit 16 (THUMB_OP_BW_LO rel)) 13 1 = 1" "tfield (take_bit 16 (THUMB_OP_BW_LO rel)) 11 1 = 1"
    unfolding thumb_bits
    by (cases "bit rel 22"; simp_all only: list.pred_inject bit_simps if_True if_False simp_thms; simp_all add: word_bits_simps)+
  have off: "branch_T4 (take_bit 16 (THUMB_OP_BW_HI rel)) (take_bit 16 (THUMB_OP_BW_LO rel)) = signed_take_bit 22 (rel AND NOT 1)"
    unfolding branch_T4_def Let_def s unfolding thumb_bits
    by (cases "bit rel 22"; simp only: if_True if_False; simp_all add: word_bits_simps)
  show ?thesis by (rule fetches_op32; unfold thumb_decode32_def Let_def f off) simp_all
qed

lemma fetches_BCC_W:
  assumes "cond < 14"
  shows "fetches_at thumb_fetch (thumb_op32_bytes (THUMB_OP_BCC_W_HI cond rel) (THUMB_OP_BCC_W_LO rel))
    (BCC cond (signed_take_bit 20 (rel AND NOT 1)))"
proof -
  have c: "take_bit 4 cond = cond" using assms by (intro small_fields(2)) (simp add: order_less_trans)
  have f: "tfield (take_bit 16 (THUMB_OP_BCC_W_HI cond rel)) 11 5 = 0x1e" "tfield (take_bit 16 (THUMB_OP_BCC_W_LO rel)) 15 1 = 1"
    "tfield (take_bit 16 (THUMB_OP_BCC_W_LO rel)) 14 1 = 0" "tfield (take_bit 16 (THUMB_OP_BCC_W_LO rel)) 12 1 = 0"
    "tfield (take_bit 16 (THUMB_OP_BCC_W_HI cond rel)) 6 4 = cond"
    "branch_T3 (take_bit 16 (THUMB_OP_BCC_W_HI cond rel)) (take_bit 16 (THUMB_OP_BCC_W_LO rel)) = signed_take_bit 20 (rel AND NOT 1)"
    using c unfolding thumb_bits branch_T3_def
    by (simp_all only: list.pred_inject bit_simps) (simp_all add: word_bits_simps)
  show ?thesis using assms by (intro fetches_op32; unfold thumb_decode32_def Let_def f) simp_all
qed

lemma fetches_format_3:
  assumes "rlo < 8" "take_bit 8 i8 = i8"
  shows "fetches_at thumb_fetch (thumb_op16_bytes (ASM_THUMB_FORMAT_3_ENCODE ASM_THUMB_FORMAT_3_MOV rlo i8)) (MOV_I8 (unat rlo) i8)"
    "fetches_at thumb_fetch (thumb_op16_bytes (ASM_THUMB_FORMAT_3_ENCODE ASM_THUMB_FORMAT_3_ADD rlo i8)) (ADD_I8 (unat rlo) i8)"
    "fetches_at thumb_fetch (thumb_op16_bytes (ASM_THUMB_FORMAT_3_ENCODE ASM_THUMB_FORMAT_3_LDR rlo i8)) (LDR_PC (unat rlo) (push_bit 2 i8))"
proof -
  have f: "tfield (take_bit 16 (ASM_THUMB_FORMAT_3_ENCODE ASM_THUMB_FORMAT_3_MOV rlo i8)) 11 5 = 0x04"
    "tfield (take_bit 16 (ASM_THUMB_FORMAT_3_ENCODE ASM_THUMB_FORMAT_3_ADD rlo i8)) 11 5 = 0x06"
    "tfield (take_bit 16 (ASM_THUMB_FORMAT_3_ENCODE ASM_THUMB_FORMAT_3_LDR rlo i8)) 11 5 = 0x09"
    using small_fields(1) [OF assms(1)] assms(2) unfolding thumb_bits
    by (simp_all only: list.pred_inject bit_simps) (simp_all add: word_bits_simps)
  have g: "tfield (take_bit 16 (ASM_THUMB_FORMAT_3_ENCODE ASM_THUMB_FORMAT_3_MOV rlo i8)) 8 3 = rlo"
    "tfield (take_bit 16 (ASM_THUMB_FORMAT_3_ENCODE ASM_THUMB_FORMAT_3_MOV rlo i8)) 0 8 = i8"
    "tfield (take_bit 16 (ASM_THUMB_FORMAT_3_ENCODE ASM_THUMB_FORMAT_3_ADD rlo i8)) 8 3 = rlo"
    "tfield (take_bit 16 (ASM_THUMB_FORMAT_3_ENCODE ASM_THUMB_FORMAT_3_ADD rlo i8)) 0 8 = i8"
    "tfield (take_bit 16 (ASM_THUMB_FORMAT_3_ENCODE ASM_THUMB_FORMAT_3_LDR rlo i8)) 8 3 = rlo"
    "tfield (take_bit 16 (ASM_THUMB_FORMAT_3_ENCODE ASM_THUMB_FORMAT_3_LDR rlo i8)) 0 8 = i8"
    using small_fields(1) [OF assms(1)] assms(2) unfolding thumb_bits
    by (simp_all only: list.pred_inject bit_simps) (simp_all add: word_bits_simps)
  show "fetches_at thumb_fetch (thumb_op16_bytes (ASM_THUMB_FORMAT_3_ENCODE ASM_THUMB_FORMAT_3_MOV rlo i8)) (MOV_I8 (unat rlo) i8)"
    "fetches_at thumb_fetch (thumb_op16_bytes (ASM_THUMB_FORMAT_3_ENCODE ASM_THUMB_FORMAT_3_ADD rlo i8)) (ADD_I8 (unat rlo) i8)"
    "fetches_at thumb_fetch (thumb_op16_bytes (ASM_THUMB_FORMAT_3_ENCODE ASM_THUMB_FORMAT_3_LDR rlo i8)) (LDR_PC (unat rlo) (push_bit 2 i8))"
    by (rule fetches_op16; unfold thumb_decode16_def Let_def f g; simp)+
qed

lemma fetches_LSL:
  assumes "rd < 8" "rs < 8" "n < 32"
  shows "fetches_at thumb_fetch (thumb_op16_bytes (ASM_THUMB_FORMAT_1_ENCODE ASM_THUMB_FORMAT_1_LSL rd rs n))
    (LSL_I5 (unat rd) (unat rs) (unat n))"
proof -
  let ?w = "take_bit 16 (ASM_THUMB_FORMAT_1_ENCODE ASM_THUMB_FORMAT_1_LSL rd rs n)"
  have f: "tfield ?w 11 5 = 0" "tfield ?w 0 3 = rd" "tfield ?w 3 3 = rs" "tfield ?w 6 5 = n"
    using small_fields(1) [OF assms(1)] small_fields(1) [OF assms(2)] small_fields(3) [OF assms(3)] unfolding thumb_bits
    by (simp_all only: list.pred_inject bit_simps) (simp_all add: word_bits_simps)
  show ?thesis by (rule fetches_op16; unfold thumb_decode16_def Let_def f; simp)
qed

lemma fetches_NEG:
  assumes "rd < 8" "rs < 8"
  shows "fetches_at thumb_fetch (thumb_op16_bytes (THUMB_OP_FORMAT_4 ASM_THUMB_FORMAT_4_NEG rd rs)) (NEG (unat rd) (unat rs))"
proof -
  let ?w = "take_bit 16 (THUMB_OP_FORMAT_4 ASM_THUMB_FORMAT_4_NEG rd rs)"
  have f: "tfield ?w 11 5 = 8" "tfield ?w 6 5 = 9" "tfield ?w 0 3 = rd" "tfield ?w 3 3 = rs"
    using small_fields(1) [OF assms(1)] small_fields(1) [OF assms(2)] unfolding thumb_bits
    by (simp_all only: list.pred_inject bit_simps) (simp_all add: word_bits_simps)
  show ?thesis by (rule fetches_op16; unfold thumb_decode16_def Let_def f; simp)
qed

lemma fetches_fixed:
  "fetches_at thumb_fetch (thumb_op16_bytes ASM_THUMB_OP_NOP) NOP"
  "fetches_at thumb_fetch (thumb_op16_bytes (ASM_THUMB_FORMAT_5_ENCODE ASM_THUMB_FORMAT_5_ADD ASM_THUMB_REG_R15 ASM_THUMB_REG_R1))
     (ADD_REG 15 1)"
  by (rule fetches_op16; code_simp)+

lemma fetches_SP:
  assumes "n < 128"
  shows "fetches_at thumb_fetch (thumb_op16_bytes (THUMB_OP_ADD_SP n)) (ADD_SP (push_bit 2 n))"
    "fetches_at thumb_fetch (thumb_op16_bytes (THUMB_OP_SUB_SP n)) (SUB_SP (push_bit 2 n))"
proof -
  have f: "tfield (take_bit 16 (THUMB_OP_ADD_SP n)) 11 5 = 0x16" "tfield (take_bit 16 (THUMB_OP_ADD_SP n)) 7 4 = 0"
    "tfield (take_bit 16 (THUMB_OP_ADD_SP n)) 0 7 = n"
    "tfield (take_bit 16 (THUMB_OP_SUB_SP n)) 11 5 = 0x16" "tfield (take_bit 16 (THUMB_OP_SUB_SP n)) 7 4 = 1"
    "tfield (take_bit 16 (THUMB_OP_SUB_SP n)) 0 7 = n"
    using small_fields(4) [OF assms] unfolding thumb_bits
    by (simp_all only: list.pred_inject bit_simps) (simp_all add: word_bits_simps)
  show "fetches_at thumb_fetch (thumb_op16_bytes (THUMB_OP_ADD_SP n)) (ADD_SP (push_bit 2 n))"
    "fetches_at thumb_fetch (thumb_op16_bytes (THUMB_OP_SUB_SP n)) (SUB_SP (push_bit 2 n))"
    by (rule fetches_op16; unfold thumb_decode16_def Let_def f; simp)+
qed

lemma fetches_reglist:
  assumes "take_bit 8 rl = rl"
  shows "fetches_at thumb_fetch (thumb_op16_bytes (THUMB_OP_PUSH_RLIST_LR rl)) (PUSH (filter (bit rl) [0..<8] @ [14]))"
    "fetches_at thumb_fetch (thumb_op16_bytes (THUMB_OP_POP_RLIST_PC rl)) (POP (filter (bit rl) [0..<8] @ [15]))"
proof -
  let ?push = "take_bit 16 (THUMB_OP_PUSH_RLIST_LR rl)" and ?pop = "take_bit 16 (THUMB_OP_POP_RLIST_PC rl)"
  have f: "tfield ?push 11 5 = 0x16" "tfield ?pop 11 5 = 0x17" "tfield ?push 9 2 = 2" "tfield ?pop 9 2 = 2"
    using assms unfolding thumb_bits by (simp_all only: list.pred_inject bit_simps) (simp_all add: word_bits_simps)
  have n: "bit (tfield ?push 7 4) 3" "\<not> bit (tfield ?pop 0 11) 9"
    using assms unfolding thumb_bits by (simp_all only: list.pred_inject bit_simps) (simp_all add: word_bits_simps)
  have "tfield ?push 7 4 \<noteq> 0" "tfield ?push 7 4 \<noteq> 1" "tfield ?pop 0 11 \<noteq> 0x700" using n by (auto simp: bit_1_iff)
  moreover have "bit ?push k = bit rl k" "bit ?pop k = bit rl k" if "k < 8" for k
  proof -
    have "k \<in> {0, 1, 2, 3, 4, 5, 6, 7}" using that by auto
    then show "bit ?push k = bit rl k" "bit ?pop k = bit rl k"
      by (auto simp: asm_encodes word_bits_simps)
  qed
  then have "filter (bit ?push) [0..<8] = filter (bit rl) [0..<8]" "filter (bit ?pop) [0..<8] = filter (bit rl) [0..<8]"
    by (auto intro!: filter_cong)
  moreover have "bit ?push 8" "bit ?pop 8" by (simp_all add: asm_encodes word_bits_simps)
  ultimately show "fetches_at thumb_fetch (thumb_op16_bytes (THUMB_OP_PUSH_RLIST_LR rl)) (PUSH (filter (bit rl) [0..<8] @ [14]))"
    "fetches_at thumb_fetch (thumb_op16_bytes (THUMB_OP_POP_RLIST_PC rl)) (POP (filter (bit rl) [0..<8] @ [15]))"
    by (intro fetches_op16; unfold thumb_decode16_def reglist_def Let_def f; simp)+
qed

lemma fetches_local:
  assumes "r < 8"
  shows "fetches_at thumb_fetch (thumb_op16_bytes (THUMB_OP_STR_TO_SP_OFFSET r n)) (STR_SP (unat r) (push_bit 2 (take_bit 8 n)))"
    "fetches_at thumb_fetch (thumb_op16_bytes (THUMB_OP_LDR_FROM_SP_OFFSET r n)) (LDR_SP (unat r) (push_bit 2 (take_bit 8 n)))"
    "fetches_at thumb_fetch (thumb_op16_bytes (THUMB_OP_ADD_REG_SP_OFFSET r n)) (ADD_REG_SP (unat r) (push_bit 2 (take_bit 8 n)))"
proof -
  have f: "tfield (take_bit 16 (THUMB_OP_STR_TO_SP_OFFSET r n)) 11 5 = 0x12"
    "tfield (take_bit 16 (THUMB_OP_STR_TO_SP_OFFSET r n)) 8 3 = r" "tfield (take_bit 16 (THUMB_OP_STR_TO_SP_OFFSET r n)) 0 8 = take_bit 8 n"
    "tfield (take_bit 16 (THUMB_OP_LDR_FROM_SP_OFFSET r n)) 11 5 = 0x13"
    "tfield (take_bit 16 (THUMB_OP_LDR_FROM_SP_OFFSET r n)) 8 3 = r" "tfield (take_bit 16 (THUMB_OP_LDR_FROM_SP_OFFSET r n)) 0 8 = take_bit 8 n"
    "tfield (take_bit 16 (THUMB_OP_ADD_REG_SP_OFFSET r n)) 11 5 = 0x15"
    "tfield (take_bit 16 (THUMB_OP_ADD_REG_SP_OFFSET r n)) 8 3 = r" "tfield (take_bit 16 (THUMB_OP_ADD_REG_SP_OFFSET r n)) 0 8 = take_bit 8 n"
    using small_fields(1) [OF assms] unfolding thumb_bits
    by (simp_all only: list.pred_inject bit_simps) (simp_all add: word_bits_simps)
  show "fetches_at thumb_fetch (thumb_op16_bytes (THUMB_OP_STR_TO_SP_OFFSET r n)) (STR_SP (unat r) (push_bit 2 (take_bit 8 n)))"
    "fetches_at thumb_fetch (thumb_op16_bytes (THUMB_OP_LDR_FROM_SP_OFFSET r n)) (LDR_SP (unat r) (push_bit 2 (take_bit 8 n)))"
    "fetches_at thumb_fetch (thumb_op16_bytes (THUMB_OP_ADD_REG_SP_OFFSET r n)) (ADD_REG_SP (unat r) (push_bit 2 (take_bit 8 n)))"
    by (rule fetches_op16; unfold thumb_decode16_def Let_def f; simp)+
qed

definition thumb_mov16_bytes :: "u32 \<Rightarrow> u32 \<Rightarrow> u32 \<Rightarrow> u8 list" where
  "thumb_mov16_bytes mov_op reg_dest i16_src = thumb_op32_bytes
     (mov_op OR (signed_drop_bit 1 i16_src AND 0x0400) OR (signed_drop_bit 12 i16_src AND 0xf))
     ((push_bit 4 i16_src AND 0x7000) OR push_bit 8 reg_dest OR (i16_src AND 0xff))"

lemma fetches_MOVW:
  assumes "rd < 15"
  shows "fetches_at thumb_fetch (thumb_mov16_bytes ASM_THUMB_OP_MOVW rd v) (MOVW (unat rd) (take_bit 16 v))"
    "fetches_at thumb_fetch (thumb_mov16_bytes ASM_THUMB_OP_MOVT rd v) (MOVT (unat rd) (take_bit 16 v))"
proof -
  let ?hi = "\<lambda>op. take_bit 16 (op OR (signed_drop_bit 1 v AND 0x0400) OR (signed_drop_bit 12 v AND 0xf))"
  let ?lo = "take_bit 16 ((push_bit 4 v AND 0x7000) OR push_bit 8 rd OR (v AND 0xff))"
  have r: "take_bit 4 rd = rd" using assms by (intro small_fields(2)) (simp add: order_less_trans)
  have f: "tfield (?hi ASM_THUMB_OP_MOVW) 11 5 = 0x1e" "tfield (?hi ASM_THUMB_OP_MOVW) 4 6 = 0x24"
    "tfield (?hi ASM_THUMB_OP_MOVT) 11 5 = 0x1e" "tfield (?hi ASM_THUMB_OP_MOVT) 4 6 = 0x2c"
    "tfield ?lo 15 1 = 0" "tfield ?lo 8 4 = rd"
    using r unfolding thumb_bits by (simp_all only: list.pred_inject bit_simps) (simp_all add: word_bits_simps)
  have i: "(tfield ?lo 0 8 OR push_bit 8 (tfield ?lo 12 3) OR push_bit 11 (tfield (?hi ASM_THUMB_OP_MOVW) 10 1)) OR
      push_bit 12 (tfield (?hi ASM_THUMB_OP_MOVW) 0 4) = take_bit 16 v"
    "(tfield ?lo 0 8 OR push_bit 8 (tfield ?lo 12 3) OR push_bit 11 (tfield (?hi ASM_THUMB_OP_MOVT) 10 1)) OR
      push_bit 12 (tfield (?hi ASM_THUMB_OP_MOVT) 0 4) = take_bit 16 v"
    using r unfolding thumb_bits by (simp_all only: list.pred_inject bit_simps) (simp_all add: word_bits_simps)
  show "fetches_at thumb_fetch (thumb_mov16_bytes ASM_THUMB_OP_MOVW rd v) (MOVW (unat rd) (take_bit 16 v))"
    "fetches_at thumb_fetch (thumb_mov16_bytes ASM_THUMB_OP_MOVT rd v) (MOVT (unat rd) (take_bit 16 v))"
    unfolding thumb_mov16_bytes_def by (rule fetches_op32; unfold thumb_decode32_def Let_def f i; simp)+
qed

lemma fetches_wide_SP:
  "fetches_at thumb_fetch (thumb_op32_bytes (THUMB_OP_ADD_W_RRI_HI ASM_THUMB_REG_SP) (THUMB_OP_ADD_W_RRI_LO ASM_THUMB_REG_SP n))
     (ADDW 13 13 (take_bit 11 n))"
  "fetches_at thumb_fetch (thumb_op32_bytes (THUMB_OP_SUB_W_RRI_HI ASM_THUMB_REG_SP) (THUMB_OP_SUB_W_RRI_LO ASM_THUMB_REG_SP n))
     (SUBW 13 13 (take_bit 11 n))"
proof -
  let ?lo = "take_bit 16 ((push_bit 4 n AND 0x7000) OR push_bit 8 13 OR (n AND 0xff))"
  have f: "tfield ?lo 15 1 = 0" "tfield ?lo 8 4 = 13"
    "tfield ?lo 0 8 OR push_bit 8 (tfield ?lo 12 3) OR push_bit 11 (tfield 0xf20d 10 1) = take_bit 11 n"
    "tfield ?lo 0 8 OR push_bit 8 (tfield ?lo 12 3) OR push_bit 11 (tfield 0xf2ad 10 1) = take_bit 11 n"
    unfolding thumb_bits by (simp_all only: list.pred_inject bit_simps) (simp_all add: word_bits_simps)
  have h: "take_bit 16 (0xf200 OR 13) = (0xf20d :: u32)" "take_bit 16 (0xf2a0 OR 13) = (0xf2ad :: u32)" by simp_all
  show "fetches_at thumb_fetch (thumb_op32_bytes (THUMB_OP_ADD_W_RRI_HI ASM_THUMB_REG_SP) (THUMB_OP_ADD_W_RRI_LO ASM_THUMB_REG_SP n))
     (ADDW 13 13 (take_bit 11 n))"
    unfolding asm_encodes asm_consts by (rule fetches_op32, unfold h, unfold thumb_decode32_def Let_def f) simp_all
  show "fetches_at thumb_fetch (thumb_op32_bytes (THUMB_OP_SUB_W_RRI_HI ASM_THUMB_REG_SP) (THUMB_OP_SUB_W_RRI_LO ASM_THUMB_REG_SP n))
     (SUBW 13 13 (take_bit 11 n))"
    unfolding asm_encodes asm_consts by (rule fetches_op32, unfold h, unfold thumb_decode32_def Let_def f) simp_all
qed

end
