(* ===== verification/Asm_Thumb_Program.thy ===== *)
theory Asm_Thumb_Program
  imports Asm_Thumb
begin

text \<open>
  The Thumb assembler in two passes: \<open>thumb_exec\<close> is the \<open>GENERIC_ASM_API\<close> of
  \<open>asmthumb.h\<close>; every operation is shown to be plain (in the sense of \<open>Plain_Ops\<close>) and the
  assembler is an instance of the two-pass interface.
\<close>

section \<open>The operations of the header\<close>

datatype thumb_op =
    Thumb_API "u32 asm_op"
  | Thumb_RISC "u32 asm_risc_op"
  | Thumb_NOT_REG u32

fun thumb_api :: "thumb_env \<Rightarrow> u32 asm_op \<Rightarrow> asm_thumb_t asm" where
  "thumb_api env (Base_label_assign l) = mp_asm_base_label_assign l"
| "thumb_api env (Base_align align) = mp_asm_base_align align"
| "thumb_api env (Base_data bytesize val) = mp_asm_base_data bytesize val"
| "thumb_api env Base_suppress_code = mp_asm_base_suppress_code"
| "thumb_api env (ASM_ENTRY num_locals) = asm_thumb_entry env num_locals"
| "thumb_api env ASM_EXIT = asm_thumb_exit env"
| "thumb_api env ASM_END_PASS = asm_thumb_end_pass"
| "thumb_api env (ASM_JUMP label) = asm_thumb_b_label env label"
| "thumb_api env (ASM_JUMP_IF_REG_ZERO reg label bool_test) =
     asm_seq [asm_thumb_cmp_rlo_i8 reg 0, asm_thumb_bcc_label env ASM_THUMB_CC_EQ label]"
| "thumb_api env (ASM_JUMP_IF_REG_NONZERO reg label bool_test) =
     asm_seq [asm_thumb_cmp_rlo_i8 reg 0, asm_thumb_bcc_label env ASM_THUMB_CC_NE label]"
| "thumb_api env (ASM_JUMP_IF_REG_EQ reg1 reg2 label) =
     asm_seq [asm_thumb_cmp_rlo_rlo reg1 reg2, asm_thumb_bcc_label env ASM_THUMB_CC_EQ label]"
| "thumb_api env (ASM_JUMP_REG reg) = asm_thumb_bx_reg reg"
| "thumb_api env (ASM_CALL_IND idx) = asm_thumb_bl_ind env idx ASM_THUMB_REG_R3"
| "thumb_api env (ASM_MOV_LOCAL_REG local_num reg) = asm_thumb_mov_local_reg local_num reg"
| "thumb_api env (ASM_MOV_REG_IMM reg_dest imm) = asm_thumb_mov_reg_i32_optimised env reg_dest imm"
| "thumb_api env (ASM_MOV_REG_LOCAL reg_dest local_num) = asm_thumb_mov_reg_local reg_dest local_num"
| "thumb_api env (ASM_MOV_REG_REG reg_dest reg_src) = asm_thumb_mov_reg_reg reg_dest reg_src"
| "thumb_api env (ASM_MOV_REG_LOCAL_ADDR reg_dest local_num) = asm_thumb_mov_reg_local_addr reg_dest local_num"
| "thumb_api env (ASM_MOV_REG_PCREL rlo_dest label) = asm_thumb_mov_reg_pcrel env rlo_dest label"
| "thumb_api env (ASM_NEG_REG reg_dest) = asm_thumb_neg_rlo_rlo reg_dest reg_dest"
| "thumb_api env (ASM_OR_REG_REG reg_dest reg_src) = asm_thumb_format_4 ASM_THUMB_FORMAT_4_ORR reg_dest reg_src"
| "thumb_api env (ASM_XOR_REG_REG reg_dest reg_src) = asm_thumb_format_4 ASM_THUMB_FORMAT_4_EOR reg_dest reg_src"
| "thumb_api env (ASM_AND_REG_REG reg_dest reg_src) = asm_thumb_format_4 ASM_THUMB_FORMAT_4_AND reg_dest reg_src"
| "thumb_api env (ASM_ADD_REG_REG reg_dest reg_src) = asm_thumb_add_rlo_rlo_rlo reg_dest reg_dest reg_src"
| "thumb_api env (ASM_SUB_REG_REG reg_dest reg_src) = asm_thumb_sub_rlo_rlo_rlo reg_dest reg_dest reg_src"
| "thumb_api env (ASM_MUL_REG_REG reg_dest reg_src) = asm_thumb_format_4 ASM_THUMB_FORMAT_4_MUL reg_dest reg_src"
| "thumb_api env (ASM_LOAD_REG_REG_OFFSET reg_dest reg_base word_offset) =
     asm_thumb_load_reg_reg_offset env reg_dest reg_base word_offset 2"
| "thumb_api env (ASM_LOAD8_REG_REG reg_dest reg_base) = asm_thumb_load_reg_reg_offset env reg_dest reg_base 0 0"
| "thumb_api env (ASM_LOAD8_REG_REG_OFFSET reg_dest reg_base byte_offset) =
     asm_thumb_load_reg_reg_offset env reg_dest reg_base byte_offset 0"
| "thumb_api env (ASM_LOAD16_REG_REG reg_dest reg_base) = asm_thumb_load_reg_reg_offset env reg_dest reg_base 0 1"
| "thumb_api env (ASM_LOAD16_REG_REG_OFFSET reg_dest reg_base halfword_offset) =
     asm_thumb_load_reg_reg_offset env reg_dest reg_base halfword_offset 1"
| "thumb_api env (ASM_LOAD32_REG_REG reg_dest reg_base) = asm_thumb_load_reg_reg_offset env reg_dest reg_base 0 2"
| "thumb_api env (ASM_LOAD32_REG_REG_OFFSET reg_dest reg_base word_offset) =
     asm_thumb_load_reg_reg_offset env reg_dest reg_base word_offset 2"
| "thumb_api env (ASM_STORE_REG_REG_OFFSET reg_src reg_base word_offset) =
     asm_thumb_store_reg_reg_offset env reg_src reg_base word_offset 2"
| "thumb_api env (ASM_STORE8_REG_REG reg_src reg_base) = asm_thumb_store_reg_reg_offset env reg_src reg_base 0 0"
| "thumb_api env (ASM_STORE8_REG_REG_OFFSET reg_src reg_base byte_offset) =
     asm_thumb_store_reg_reg_offset env reg_src reg_base byte_offset 0"
| "thumb_api env (ASM_STORE16_REG_REG reg_src reg_base) = asm_thumb_store_reg_reg_offset env reg_src reg_base 0 1"
| "thumb_api env (ASM_STORE16_REG_REG_OFFSET reg_src reg_base halfword_offset) =
     asm_thumb_store_reg_reg_offset env reg_src reg_base halfword_offset 1"
| "thumb_api env (ASM_STORE32_REG_REG reg_src reg_base) = asm_thumb_store_reg_reg_offset env reg_src reg_base 0 2"
| "thumb_api env (ASM_STORE32_REG_REG_OFFSET reg_src reg_base word_offset) =
     asm_thumb_store_reg_reg_offset env reg_src reg_base word_offset 2"
| "thumb_api env (ASM_CLR_REG reg_dest) = asm_thumb_mov_rlo_i8 reg_dest 0"

fun thumb_risc :: "u32 asm_risc_op \<Rightarrow> asm_thumb_t asm" where
  "thumb_risc (ASM_LSL_REG_REG reg_dest reg_shift) = asm_thumb_format_4 ASM_THUMB_FORMAT_4_LSL reg_dest reg_shift"
| "thumb_risc (ASM_LSR_REG_REG reg_dest reg_shift) = asm_thumb_format_4 ASM_THUMB_FORMAT_4_LSR reg_dest reg_shift"
| "thumb_risc (ASM_ASR_REG_REG reg_dest reg_shift) = asm_thumb_format_4 ASM_THUMB_FORMAT_4_ASR reg_dest reg_shift"
| "thumb_risc (ASM_LOAD8_REG_REG_REG reg_dest reg_base reg_index) =
     asm_thumb_ldrb_rlo_rlo_rlo reg_dest reg_base reg_index"
| "thumb_risc (ASM_LOAD16_REG_REG_REG reg_dest reg_base reg_index) =
     asm_seq [asm_thumb_lsl_rlo_rlo_i5 THUMB_REG_TEMP2 reg_index 1,
              asm_thumb_ldrh_rlo_rlo_rlo reg_dest reg_base THUMB_REG_TEMP2]"
| "thumb_risc (ASM_LOAD32_REG_REG_REG reg_dest reg_base reg_index) =
     asm_seq [asm_thumb_lsl_rlo_rlo_i5 THUMB_REG_TEMP2 reg_index 2,
              asm_thumb_ldr_rlo_rlo_rlo reg_dest reg_base THUMB_REG_TEMP2]"
| "thumb_risc (ASM_STORE8_REG_REG_REG reg_val reg_base reg_index) =
     asm_thumb_strb_rlo_rlo_rlo reg_val reg_base reg_index"
| "thumb_risc (ASM_STORE16_REG_REG_REG reg_val reg_base reg_index) =
     asm_seq [asm_thumb_op16 (0xB400 OR push_bit (unat reg_index) 1),
              asm_thumb_lsl_rlo_rlo_i5 reg_index reg_index 1,
              asm_thumb_strh_rlo_rlo_rlo reg_val reg_base reg_index,
              asm_thumb_op16 (0xBC00 OR push_bit (unat reg_index) 1)]"
| "thumb_risc (ASM_STORE32_REG_REG_REG reg_val reg_base reg_index) =
     asm_seq [asm_thumb_op16 (0xB400 OR push_bit (unat reg_index) 1),
              asm_thumb_lsl_rlo_rlo_i5 reg_index reg_index 2,
              asm_thumb_str_rlo_rlo_rlo reg_val reg_base reg_index,
              asm_thumb_op16 (0xBC00 OR push_bit (unat reg_index) 1)]"

fun thumb_exec :: "thumb_env \<Rightarrow> thumb_op \<Rightarrow> asm_thumb_t asm" where
  "thumb_exec env (Thumb_API op) = thumb_api env op"
| "thumb_exec env (Thumb_RISC op) = thumb_risc op"
| "thumb_exec env (Thumb_NOT_REG reg_dest) = asm_thumb_mvn_rlo_rlo reg_dest reg_dest"

section \<open>Straight-line operations\<close>

text \<open>Below this size of the code, offsets are not negative as \<open>mp_int_t\<close>.\<close>

abbreviation thumb_lim :: nat where
  "thumb_lim \<equiv> 2147483632"

lemma thumb_op_plain:
  "plain thumb_lim 2 (asm_thumb_op16 op)" "plain thumb_lim 4 (asm_thumb_op32 op1 op2)"
  using plain_emit [where 'w = 32, of thumb_lim "thumb_op16_bytes op"]
    plain_emit [where 'w = 32, of thumb_lim "thumb_op32_bytes op1 op2"]
  by (simp_all add: asm_thumb_op16_def asm_thumb_op32_def)

lemma thumb_format_plain:
  "plain thumb_lim 2 (asm_thumb_format_1 op rd rs off)"
  "plain thumb_lim 2 (asm_thumb_format_2 op rd rs b)"
  "plain thumb_lim 2 (asm_thumb_format_3 op r i8)"
  "plain thumb_lim 2 (asm_thumb_format_4 op rd rs)"
  "plain thumb_lim 2 (asm_thumb_format_7_8 op rd rb ri)"
  "plain thumb_lim 2 (asm_thumb_format_11 op rd rs)"
  unfolding asm_thumb_format_1_def asm_thumb_format_2_def asm_thumb_format_3_def
    asm_thumb_format_4_def asm_thumb_format_7_8_def asm_thumb_format_11_def
  by (rule plain_seq_rules thumb_op_plain | simp)+

lemmas thumb_plain = thumb_op_plain thumb_format_plain

lemma thumb_mov_plain:
  "plain thumb_lim 2 (asm_thumb_mov_reg_reg rd rs)"
  "plain thumb_lim 4 (asm_thumb_mov_reg_i16 op rd i16)"
  "plain thumb_lim 6 (asm_thumb_mov_rlo_i16 rd i16)"
  unfolding asm_thumb_mov_reg_reg_def asm_thumb_mov_reg_i16_def asm_thumb_mov_rlo_i16_def asm_ops Let_def
  by (rule plain_seq_rules thumb_plain | simp)+

text \<open>What the code relies on: the helpers of \<open>py/misc.h\<close>, and an aligned block for the code.\<close>

definition thumb_env_ok :: "thumb_env \<Rightarrow> bool" where
  "thumb_env_ok env \<longleftrightarrow> mp_env_ok env \<and> 3 AND code_base_address env = 0"

definition thumb_i32_code :: "thumb_env \<Rightarrow> u32 \<Rightarrow> u32 \<Rightarrow> u32 \<Rightarrow> asm_thumb_t asm" where
  "thumb_i32_code env reg_dest i32 here =
     (if asm_thumb_allow_armv7m env
      then asm_seq [asm_thumb_mov_reg_i16 ASM_THUMB_OP_MOVW reg_dest i32,
                    asm_thumb_mov_reg_i16 ASM_THUMB_OP_MOVT reg_dest (drop_bit 16 i32)]
      else asm_seq
        [asm_assert (reg_dest < ASM_THUMB_REG_R8),
         asm_when (here AND 2 \<noteq> 0) (asm_thumb_op16 ASM_THUMB_OP_NOP),
         asm_thumb_ldr_rlo_pcrel_i8 reg_dest 0,
         asm_thumb_op16 (THUMB_OP_B_N 2),
         asm_thumb_op16 (i32 AND 0xffff),
         asm_thumb_op16 (drop_bit 16 i32)])"

lemma thumb_mov_reg_i32_code:
  "thumb_env_ok env \<Longrightarrow>
     ignore_result (asm_thumb_mov_reg_i32 env reg_dest i32) s = thumb_i32_code env reg_dest i32 (code_offset s) s"
  by (simp add: ignore_result_def asm_thumb_mov_reg_i32_def thumb_i32_code_def thumb_env_ok_def Let_def
      asm_assert_def split: sum.split)

lemma thumb_i32_plain:
  "thumb_env_ok env \<Longrightarrow> plain thumb_lim 10 (ignore_result (asm_thumb_mov_reg_i32 env reg_dest i32))"
proof (rule plain_offset [where F = "thumb_i32_code env reg_dest i32"])
  show "plain thumb_lim 10 (thumb_i32_code env reg_dest i32 here)" for here
    unfolding thumb_i32_code_def asm_ops
    by (rule plain_cond plain_seq_rules thumb_plain thumb_mov_plain | simp)+
qed (rule thumb_mov_reg_i32_code)

lemma thumb_i32_optimised_plain:
  assumes "thumb_env_ok env"
  shows "plain thumb_lim 10 (asm_thumb_mov_reg_i32_optimised env reg_dest i32)"
  unfolding asm_thumb_mov_reg_i32_optimised_def asm_ops Let_def
  by (rule plain_weaken, (rule plain_sum thumb_i32_plain [OF assms] thumb_plain thumb_mov_plain)+, simp)

lemma thumb_local_plain:
  assumes "local_num < 256"
  shows "plain thumb_lim 2 (asm_thumb_mov_local_reg local_num r)"
    "plain thumb_lim 2 (asm_thumb_mov_reg_local r local_num)"
proof -
  have "local_num AND 0xffffff00 = 0" "0 \<le> sint local_num"
  proof -
    have u: "unat local_num < 256" using assms by (simp add: word_less_nat_alt)
    then have "take_bit 8 local_num = local_num"
      by (simp add: word_eq_iff_unsigned [where ?'a = nat] unsigned_take_bit_eq take_bit_nat_eq_self)
    then show "local_num AND 0xffffff00 = 0" unfolding word32_eq_iff_bits by (simp add: bit_simps)
    have "sint local_num = int (unat local_num)" using sint_sub_small [of local_num 0] u by simp
    then show "0 \<le> sint local_num" by linarith
  qed
  then have check: "asm_thumb_mov_local_check local_num = skip"
    by (simp add: asm_thumb_mov_local_check_def fun_eq_iff THUMB_UNSIGNED_FIT8_def)
  show "plain thumb_lim 2 (asm_thumb_mov_local_reg local_num r)"
    "plain thumb_lim 2 (asm_thumb_mov_reg_local r local_num)"
    unfolding asm_thumb_mov_local_reg_def asm_thumb_mov_reg_local_def check
    by (rule plain_weaken, (rule plain_sum thumb_plain)+, simp)+
qed

lemma thumb_local_addr_plain:
  assumes "0 \<le> sint local_num"
  shows "plain thumb_lim 2 (asm_thumb_mov_reg_local_addr r local_num)"
proof -
  have "asm_thumb_mov_reg_local_addr r local_num =
      asm_seq [asm_assert (r < ASM_THUMB_REG_R8), asm_thumb_op16 (THUMB_OP_ADD_REG_SP_OFFSET r local_num)]"
    using assms by (simp add: fun_eq_iff asm_thumb_mov_reg_local_addr_def split: sum.split)
  then show ?thesis
    by (simp only:) (rule plain_weaken, (rule plain_sum thumb_plain)+, simp)
qed

lemma thumb_add_offset_plain:
  assumes "thumb_env_ok env"
  shows "plain thumb_lim 16 (asm_thumb_add_reg_reg_offset env rd rb off sh)"
  unfolding asm_thumb_add_reg_reg_offset_def asm_ops Let_def
  by (rule plain_weaken, (rule plain_sum thumb_i32_optimised_plain [OF assms] thumb_plain thumb_mov_plain)+, simp)

lemma thumb_access_plain:
  assumes "thumb_env_ok env"
  shows "plain thumb_lim 18 (asm_thumb_load_reg_reg_offset env rd rb off sz)"
    "plain thumb_lim 22 (asm_thumb_store_reg_reg_offset env rd rb off sz)"
    "plain thumb_lim 20 (asm_thumb_bl_ind env idx r)"
  unfolding asm_thumb_bl_ind_def asm_thumb_load_reg_reg_offset_def asm_thumb_store_reg_reg_offset_def Let_def
  by (rule plain_weaken, (rule plain_sum thumb_add_offset_plain [OF assms] thumb_plain)+, simp)+

section \<open>Branches\<close>

definition thumb_behind :: "u32 \<Rightarrow> u32 \<Rightarrow> bool" where
  "thumb_behind dest here \<longleftrightarrow> dest \<noteq> - 1 \<and> sint (dest - here - 4) \<le> - 4"

lemma thumb_ahead:
  assumes "unat here < unat dest" "unat dest \<le> thumb_lim"
  shows "\<not> thumb_behind dest here"
proof -
  have small: "unat here + 4 < 2 ^ LENGTH(32)" using assms by simp
  have h: "unat (here + 4) = unat here + 4"
    using unat_add_of_nat [of here 4] small by simp
  have "sint (dest - (here + 4)) = int (unat dest) - int (unat (here + 4))"
    using assms h by (intro sint_sub_small) simp_all
  then have "sint (dest - here - 4) = int (unat dest) - int (unat here) - 4"
    unfolding h by (simp only: diff_diff_eq of_nat_add)
  then show ?thesis using assms(1) by (simp only: thumb_behind_def) linarith
qed

lemma thumb_behind_unknown [simp]: "\<not> thumb_behind (- 1) here"
  by (simp add: thumb_behind_def)

abbreviation thumb_label_jump :: "u32 \<Rightarrow> (u32 \<Rightarrow> u32 \<Rightarrow> u8 list list) \<Rightarrow> asm_thumb_t asm" where
  "thumb_label_jump label \<equiv> label_jump (checked_label_offset label) (\<lambda>_ _. False)"

definition thumb_b_code :: "thumb_env \<Rightarrow> u32 \<Rightarrow> u32 \<Rightarrow> u8 list list" where
  "thumb_b_code env dest here =
     (let rel = dest - here - 4;
          nop = (if here AND 2 \<noteq> 0 then [thumb_op16_bytes ASM_THUMB_OP_NOP] else []);
          rel' = (if here AND 2 \<noteq> 0 then rel - 2 - 2 else rel - 2)
      in if thumb_behind dest here \<and> THUMB_SIGNED_FIT12 rel then [thumb_op16_bytes (THUMB_OP_B_N rel)]
      else if asm_thumb_allow_armv7m env then [thumb_op32_bytes (THUMB_OP_BW_HI rel) (THUMB_OP_BW_LO rel)]
      else if THUMB_SIGNED_FIT12 rel
      then [thumb_op16_bytes (THUMB_OP_B_N rel), thumb_op16_bytes ASM_THUMB_OP_NOP,
            thumb_op16_bytes ASM_THUMB_OP_NOP, thumb_op16_bytes ASM_THUMB_OP_NOP] @ nop
      else nop @ [thumb_op16_bytes (ASM_THUMB_FORMAT_3_ENCODE ASM_THUMB_FORMAT_3_LDR ASM_THUMB_REG_R1 0),
                  thumb_op16_bytes (ASM_THUMB_FORMAT_5_ENCODE ASM_THUMB_FORMAT_5_ADD ASM_THUMB_REG_R15 ASM_THUMB_REG_R1),
                  thumb_op16_bytes (rel' AND 0xffff), thumb_op16_bytes (signed_drop_bit 16 rel')])"

lemma thumb_get_label_dest_checked: "thumb_get_label_dest = checked_label_offset"
  by (simp add: fun_eq_iff thumb_get_label_dest_def checked_label_offset_def)

lemma thumb_ldr_r1: "asm_thumb_ldr_rlo_pcrel_i8 ASM_THUMB_REG_R1 0 =
    asm_thumb_op16 (ASM_THUMB_FORMAT_3_ENCODE ASM_THUMB_FORMAT_3_LDR ASM_THUMB_REG_R1 0)"
  by (simp add: asm_thumb_ldr_rlo_pcrel_i8_def asm_thumb_format_3_def asm_consts fun_eq_iff split: sum.split)

lemma asm_thumb_b_label_code: "asm_thumb_b_label env label = thumb_label_jump label (thumb_b_code env)"
  unfolding fun_eq_iff asm_thumb_b_label_def thumb_get_label_dest_checked label_jump_def thumb_b_code_def
    thumb_ldr_r1 asm_thumb_op16_def asm_thumb_op32_def asm_thumb_add_reg_reg_def asm_thumb_format_5_def
    emit_bytes_as_code asm_when_code asm_seq_emit_code5 Let_def
  by (auto simp: thumb_behind_def split: sum.split)

lemma thumb_b_code_lengths:
  "\<not> thumb_behind dest here \<Longrightarrow> map length (thumb_b_code env dest here) = map length (thumb_b_code env (- 1) here)"
  "total_length (thumb_b_code env dest here) \<le> 10"
  "0 < total_length (thumb_b_code env dest here)"
  by (simp_all add: thumb_b_code_def Let_def)

lemma thumb_jump_plain:
  assumes "\<And>dest here. total_length (J dest here) \<le> n" "\<And>here. 0 < total_length (J (- 1) here)"
    and "\<And>dest here. unat here < unat dest \<Longrightarrow> unat dest \<le> thumb_lim \<Longrightarrow> unat here + total_length (J (- 1) here) \<le> unat dest \<Longrightarrow>
      map length (J dest here) = map length (J (- 1) here)"
  shows "plain thumb_lim n (thumb_label_jump label J)"
proof (rule plain_jump [where l = label])
  fix dest here :: u32
  assume "unat here + total_length (J (- 1) here) \<le> unat dest" "unat dest \<le> thumb_lim"
  then show "map length (J dest here) = map length (J (- 1) here)"
    using assms(2) [of here] by (intro assms(3)) linarith+
qed (use assms(1) in simp_all)

lemma thumb_b_plain: "plain thumb_lim 10 (asm_thumb_b_label env label)"
  unfolding asm_thumb_b_label_code
  by (rule thumb_jump_plain, rule thumb_b_code_lengths, rule thumb_b_code_lengths)
    (rule thumb_b_code_lengths(1) [OF thumb_ahead])

definition thumb_pcrel_seq :: "thumb_env \<Rightarrow> u32 \<Rightarrow> u32 \<Rightarrow> asm_thumb_t asm" where
  "thumb_pcrel_seq env rd rel = asm_seq
      [if asm_thumb_allow_armv7m env
       then asm_seq [asm_thumb_mov_reg_i16 ASM_THUMB_OP_MOVW rd (rel - (6 + 4)), asm_thumb_sxth_rlo_rlo rd rd]
       else asm_seq [asm_thumb_mov_rlo_i16 rd (rel - (8 + 4)), asm_thumb_sxth_rlo_rlo rd rd],
       asm_thumb_add_reg_reg rd ASM_THUMB_REG_R15]"

lemma thumb_pcrel_seq_quiet: "thumb_pcrel_seq env rd rel s = Inl e \<Longrightarrow> \<not> raised e"
proof (rule plainD(3))
  show "plain thumb_lim 10 (thumb_pcrel_seq env rd rel)"
    unfolding thumb_pcrel_seq_def asm_ops
    by (rule plain_weaken, (rule plain_sum thumb_plain thumb_mov_plain)+, simp)
qed

definition thumb_pcrel_code :: "thumb_env \<Rightarrow> u32 \<Rightarrow> u32 \<Rightarrow> u32 \<Rightarrow> u8 list list" where
  "thumb_pcrel_code env rd dest here =
     (let rel = ((dest - here) OR 1) - (if asm_thumb_allow_armv7m env then 6 + 4 else 8 + 4)
      in (if asm_thumb_allow_armv7m env
          then [thumb_op32_bytes
                  (ASM_THUMB_OP_MOVW OR (signed_drop_bit 1 rel AND 0x0400) OR (signed_drop_bit 12 rel AND 0xf))
                  ((push_bit 4 rel AND 0x7000) OR push_bit 8 rd OR (rel AND 0xff))]
          else [thumb_op16_bytes (ASM_THUMB_FORMAT_3_ENCODE ASM_THUMB_FORMAT_3_MOV rd (signed_drop_bit 8 rel AND 0xff)),
                thumb_op16_bytes (ASM_THUMB_FORMAT_1_ENCODE ASM_THUMB_FORMAT_1_LSL rd rd 8),
                thumb_op16_bytes (ASM_THUMB_FORMAT_3_ENCODE ASM_THUMB_FORMAT_3_ADD rd (rel AND 0xff))]) @
         [thumb_op16_bytes (ASM_THUMB_FORMAT_11_ENCODE ASM_THUMB_FORMAT_11_SXTH rd rd),
          thumb_op16_bytes (ASM_THUMB_FORMAT_5_ENCODE ASM_THUMB_FORMAT_5_ADD rd ASM_THUMB_REG_R15)])"

lemma thumb_low_register_ops:
  assumes "rd < 8"
  shows "asm_thumb_format_1 op rd rd off = emit_code [thumb_op16_bytes (ASM_THUMB_FORMAT_1_ENCODE op rd rd off)]"
    "asm_thumb_format_3 op rd i8 = emit_code [thumb_op16_bytes (ASM_THUMB_FORMAT_3_ENCODE op rd i8)]"
    "asm_thumb_format_11 op rd rd = emit_code [thumb_op16_bytes (ASM_THUMB_FORMAT_11_ENCODE op rd rd)]"
    "asm_thumb_mov_reg_i16 op rd i16 = emit_code [thumb_op32_bytes
        (op OR (signed_drop_bit 1 i16 AND 0x0400) OR (signed_drop_bit 12 i16 AND 0xf))
        ((push_bit 4 i16 AND 0x7000) OR push_bit 8 rd OR (i16 AND 0xff))]"
proof -
  have "rd < 15" using assms by (rule order_less_trans) simp
  then show "asm_thumb_format_1 op rd rd off = emit_code [thumb_op16_bytes (ASM_THUMB_FORMAT_1_ENCODE op rd rd off)]"
    "asm_thumb_format_3 op rd i8 = emit_code [thumb_op16_bytes (ASM_THUMB_FORMAT_3_ENCODE op rd i8)]"
    "asm_thumb_format_11 op rd rd = emit_code [thumb_op16_bytes (ASM_THUMB_FORMAT_11_ENCODE op rd rd)]"
    "asm_thumb_mov_reg_i16 op rd i16 = emit_code [thumb_op32_bytes
        (op OR (signed_drop_bit 1 i16 AND 0x0400) OR (signed_drop_bit 12 i16 AND 0xf))
        ((push_bit 4 i16 AND 0x7000) OR push_bit 8 rd OR (i16 AND 0xff))]"
    using assms
    by (simp_all add: fun_eq_iff asm_thumb_format_1_def asm_thumb_format_3_def asm_thumb_format_11_def
        asm_thumb_mov_reg_i16_def asm_consts asm_thumb_op16_def asm_thumb_op32_def emit_bytes_as_code split: sum.split)
qed

lemma asm_thumb_mov_reg_pcrel_code:
  assumes "rd < 8"
  shows "asm_thumb_mov_reg_pcrel env rd label = thumb_label_jump label (thumb_pcrel_code env rd)"
  unfolding fun_eq_iff asm_thumb_mov_reg_pcrel_def thumb_get_label_dest_checked label_jump_def thumb_pcrel_code_def
    asm_thumb_mov_rlo_i16_def asm_ops thumb_low_register_ops [OF assms] asm_thumb_op16_def asm_seq_code Let_def
  by (simp split: sum.split)

lemma thumb_pcrel_plain: "plain thumb_lim 10 (asm_thumb_mov_reg_pcrel env rd label)"
proof (cases "rd < 8")
  case True
  show ?thesis
    unfolding asm_thumb_mov_reg_pcrel_code [OF True]
    by (rule thumb_jump_plain) (simp_all add: thumb_pcrel_code_def Let_def)
next
  case False
  then have "asm_thumb_sxth_rlo_rlo rd rd s = Inl AssertionFailed" for s
    by (simp add: asm_ops asm_thumb_format_11_def asm_consts)
  then have no: "thumb_pcrel_seq env rd rel s \<noteq> Inr t" for rel s t
    by (auto simp: thumb_pcrel_seq_def split: sum.splits)
  show ?thesis
  proof (rule plain_never)
    fix s
    show "\<exists>e. asm_thumb_mov_reg_pcrel env rd label s = Inl e \<and> \<not> raised e"
    proof (cases "checked_label_offset label s")
      case (Inl e)
      then have "\<not> raised e" by (auto simp: checked_label_offset_def label_offset_def split: if_splits)
      with Inl show ?thesis by (simp add: asm_thumb_mov_reg_pcrel_def thumb_get_label_dest_checked)
    next
      case (Inr dest)
      then have "asm_thumb_mov_reg_pcrel env rd label s = thumb_pcrel_seq env rd ((dest - code_offset s) OR 1) s"
        by (simp add: asm_thumb_mov_reg_pcrel_def thumb_get_label_dest_checked thumb_pcrel_seq_def)
      then show ?thesis
        using no thumb_pcrel_seq_quiet by (cases "thumb_pcrel_seq env rd ((dest - code_offset s) OR 1) s") auto
    qed
  qed
qed

definition thumb_bcc_code :: "thumb_env \<Rightarrow> u32 \<Rightarrow> u32 \<Rightarrow> u32 \<Rightarrow> u8 list list" where
  "thumb_bcc_code env cond dest here =
     (let rel = dest - here - 4; js = thumb_b_code env dest (here + 2)
      in if thumb_behind dest here \<and> THUMB_SIGNED_FIT9 rel then [thumb_op16_bytes (THUMB_OP_BCC_N cond rel)]
      else if asm_thumb_allow_armv7m env then [thumb_op32_bytes (THUMB_OP_BCC_W_HI cond rel) (THUMB_OP_BCC_W_LO rel)]
      else thumb_op16_bytes (THUMB_OP_BCC_N (cond XOR 1) (2 + word_of_nat (total_length js) - 4)) # js)"

lemma asm_thumb_bcc_label_count:
  assumes "compute_state c"
  shows "asm_thumb_bcc_label env cond label c = thumb_label_jump label (thumb_bcc_code env cond) c"
proof (cases "checked_label_offset label c")
  case (Inl e)
  then show ?thesis by (simp add: asm_thumb_bcc_label_def thumb_get_label_dest_checked label_jump_def)
next
  case (Inr dest)
  show ?thesis
  proof (cases "suppress c")
    case True
    then show ?thesis using Inr
      by (simp add: asm_thumb_bcc_label_def thumb_get_label_dest_checked label_jump_def emit_code_suppressed
          mp_asm_base_get_cur_to_write_bytes_def asm_thumb_b_label_code asm_thumb_op16_def asm_thumb_op32_def Let_def)
  next
    case False
    then show ?thesis using Inr assms
      by (simp add: asm_thumb_bcc_label_def thumb_get_label_dest_checked label_jump_def emit_code_counts
          mp_asm_base_get_cur_to_write_bytes_def asm_thumb_b_label_code asm_thumb_op16_def asm_thumb_op32_def Let_def
          emit_bytes_as_code thumb_bcc_code_def thumb_behind_def)
  qed
qed

lemma asm_thumb_bcc_label_store:
  assumes e: "in_emit_pass e" "code_base e = Some mem" "unat (code_size e) \<le> length mem"
    and small: "unat (code_offset e) + 12 \<le> thumb_lim"
    and run: "thumb_label_jump label (thumb_bcc_code env cond) e = Inr e'"
  shows "asm_thumb_bcc_label env cond label e = Inr e'"
proof -
  obtain dest where dest: "checked_label_offset label e = Inr dest"
    "emit_code (thumb_bcc_code env cond dest (code_offset e)) e = Inr e'"
    using run by (auto simp: label_jump_def split: sum.splits)
  show ?thesis
  proof (cases "suppress e \<or> asm_thumb_allow_armv7m env \<or> thumb_behind dest (code_offset e) \<and> THUMB_SIGNED_FIT9 (dest - code_offset e - 4)")
    case True
    then show ?thesis using dest
      by (auto simp: asm_thumb_bcc_label_def thumb_get_label_dest_checked thumb_bcc_code_def Let_def thumb_behind_def
          asm_thumb_op16_def asm_thumb_op32_def emit_code_suppressed mp_asm_base_get_cur_to_write_bytes_def
          asm_thumb_b_label_code label_jump_def emit_bytes_as_code)
  next
    case False
    let ?js = "thumb_b_code env dest (code_offset e + 2)"
    let ?j = "thumb_op16_bytes (THUMB_OP_BCC_N (cond XOR 1) (2 + word_of_nat (total_length ?js) - 4))"
    have code: "thumb_bcc_code env cond dest (code_offset e) = ?j # ?js"
      using False by (auto simp: thumb_bcc_code_def Let_def)
    have "unat (code_offset e) + total_length (?j # ?js) < 2 ^ LENGTH(32)"
      using small thumb_b_code_lengths(2) [of env dest "code_offset e + 2"] by simp
    then obtain e1 where e1: "mp_asm_base_get_cur_to_write_bytes (word_of_nat (length ?j)) e =
         Inr (Some (code_offset e), e\<lparr>code_offset := code_offset e + word_of_nat (length ?j)\<rparr>)"
      "emit_code ?js (e\<lparr>code_offset := code_offset e + word_of_nat (length ?j)\<rparr>) = Inr e1"
      "mp_store_bytes (code_offset e) ?j e1 = Inr e'" "code_offset e' = code_offset e1"
      using reserve_then_fill [OF e(1) _ e(2,3) dest(2) [unfolded code]] False by auto
    have l: "length ?j = 2" by simp
    let ?e = "e\<lparr>code_offset := code_offset e + 2\<rparr>"
    have b: "asm_thumb_b_label env label ?e = Inr e1"
      using e1(2) dest(1) by (simp add: l asm_thumb_b_label_code label_jump_def)
    have skip: "code_offset e1 - code_offset e = 2 + word_of_nat (total_length ?js)"
    proof -
      have "code_offset e' = code_offset e + word_of_nat (total_length (?j # ?js))"
        using emit_code_offset [OF dest(2) [unfolded code]] False by simp
      then show ?thesis using e1(4) by simp
    qed
    have cur: "mp_asm_base_get_cur_to_write_bytes 2 e = Inr (Some (code_offset e), ?e)"
      using e1(1) by (simp add: l)
    have rest: "\<not> (dest \<noteq> - 1 \<and> sint (dest - code_offset e - 4) \<le> - 4 \<and> THUMB_SIGNED_FIT9 (dest - code_offset e - 4))"
      "\<not> asm_thumb_allow_armv7m env"
      using False by (auto simp: thumb_behind_def)
    show ?thesis
      using e1(3) dest(1) rest
      by (auto simp: asm_thumb_bcc_label_def thumb_get_label_dest_checked cur b skip thumb_op16_bytes_def Let_def)
  qed
qed

lemma thumb_bcc_code_lengths:
  "total_length (thumb_bcc_code env cond dest here) \<le> 12"
  "2 < total_length (thumb_bcc_code env cond (- 1) here)"
  using thumb_b_code_lengths(2) [of env dest "here + 2"] thumb_b_code_lengths(3) [of env "- 1" "here + 2"]
  by (simp_all add: thumb_bcc_code_def Let_def)

lemma thumb_bcc_code_ahead:
  assumes "unat here < unat dest" "unat dest \<le> thumb_lim"
    and "unat here + total_length (thumb_bcc_code env cond (- 1) here) \<le> unat dest"
  shows "map length (thumb_bcc_code env cond dest here) = map length (thumb_bcc_code env cond (- 1) here)"
proof -
  have "unat here + 2 < unat dest" using assms(3) thumb_bcc_code_lengths(2) [of env cond here] by linarith
  moreover from this have "unat (here + 2) = unat here + 2"
    using unat_add_of_nat [of here 2] assms(2) by simp
  ultimately have "\<not> thumb_behind dest (here + 2)" using assms(2) by (intro thumb_ahead) linarith+
  then show ?thesis
    using thumb_ahead [OF assms(1,2)] thumb_b_code_lengths(1) [of dest "here + 2" env]
    by (simp add: thumb_bcc_code_def Let_def)
qed

lemma thumb_bcc_keeps: "keeps_added (asm_thumb_bcc_label env cond label)"
proof (rule keeps_addedI)
  note b = keeps_addedD [OF plainD(1) [OF thumb_b_plain]] and op = keeps_addedD [OF plainD(1) [OF thumb_op_plain(1)]]
    keeps_addedD [OF plainD(1) [OF thumb_op_plain(2)]]
  show "mp_asm_base_t.more t = mp_asm_base_t.more s" if "asm_thumb_bcc_label env cond label s = Inr t" for s t
    using that
    by (auto simp: asm_thumb_bcc_label_def Let_def mp_asm_base_get_cur_to_write_bytes_def mp_store_bytes_def
        dest!: b(1) op(1,3) split: sum.splits if_splits option.splits)
  show "\<not> raised e" if "asm_thumb_bcc_label env cond label s = Inl e" for s e
    using that
    by (auto simp: asm_thumb_bcc_label_def Let_def mp_asm_base_get_cur_to_write_bytes_def mp_store_bytes_def
        thumb_get_label_dest_def label_offset_def dest!: b(2) op(2,4) split: sum.splits if_splits option.splits)
qed

lemma thumb_bcc_plain: "plain thumb_lim 12 (asm_thumb_bcc_label env cond label)"
  unfolding plain_def
proof (intro conjI allI impI)
  have g: "plain thumb_lim 12 (thumb_label_jump label (thumb_bcc_code env cond))"
  proof (rule thumb_jump_plain)
    show "0 < total_length (thumb_bcc_code env cond (- 1) here)" for here
      using thumb_bcc_code_lengths(2) [of env cond here] by linarith
  qed (rule thumb_bcc_code_lengths thumb_bcc_code_ahead; assumption)+
  show "two_pass_ok R R thumb_lim 12 (asm_thumb_bcc_label env cond label)" if "added_rel R" for R
  proof (rule two_pass_cong)
    show "two_pass_ok R R thumb_lim 12 (thumb_label_jump label (thumb_bcc_code env cond))"
      by (rule plainD(2) [OF g that])
  qed (rule asm_thumb_bcc_label_count asm_thumb_bcc_label_store plainD(3) [OF g]; assumption)+
qed (rule thumb_bcc_keeps)

section \<open>Entry and exit\<close>

lemma thumb_loop_step:
  assumes "\<not> THUMB_UNSIGNED_FIT7 a"
  shows "2 * (unat (a - 127) div 127) + 2 + 2 \<le> 2 * (unat a div 127) + 2"
proof -
  have a: "128 \<le> unat a" using assms by (simp add: THUMB_UNSIGNED_FIT7_def not_less word_le_nat_alt)
  then have "unat (a - 127) = unat a - 127" by (simp add: unat_sub word_le_nat_alt)
  with a show ?thesis using div_le_mono [of 127 "unat a" 127] by (simp add: le_div_geq)
qed

lemma thumb_sub_sp_loop_plain: "plain thumb_lim (2 * (unat adj div 127) + 2) (thumb_sub_sp_loop adj)"
proof (induction adj rule: thumb_sub_sp_loop.induct)
  case (1 adj)
  show ?case
  proof (cases "THUMB_UNSIGNED_FIT7 adj")
    case False
    show ?thesis
      by (subst thumb_sub_sp_loop.simps, rule plain_weaken,
          (rule plain_sum thumb_plain 1 [OF False])+) (use thumb_loop_step [OF False] in simp)
  qed (subst thumb_sub_sp_loop.simps, simp only: not_True_eq_False if_False,
      rule plain_weaken [OF thumb_op_plain(1)], simp)
qed

lemma thumb_add_sp_loop_plain: "plain thumb_lim (2 * (unat adj div 127) + 2) (thumb_add_sp_loop adj)"
proof (induction adj rule: thumb_add_sp_loop.induct)
  case (1 adj)
  show ?case
  proof (cases "THUMB_UNSIGNED_FIT7 adj")
    case False
    show ?thesis
      by (subst thumb_add_sp_loop.simps, rule plain_weaken,
          (rule plain_sum thumb_plain 1 [OF False])+) (use thumb_loop_step [OF False] in simp)
  qed (subst thumb_add_sp_loop.simps, simp only: not_True_eq_False if_False,
      rule plain_weaken [OF thumb_op_plain(1)], simp)
qed


text \<open>
  The most bytes an exit can take: without ARMv7-M the 32-bit \<open>stack_adjust\<close> is given back 127
  words at a time.
\<close>

definition thumb_exit_cost :: "thumb_env \<Rightarrow> nat" where
  "thumb_exit_cost env = (if asm_thumb_allow_armv7m env then 6 else 68000000)"

lemma same_added_thumb:
  "same_added (c :: asm_thumb_t) e \<longleftrightarrow> push_reglist c = push_reglist e \<and> stack_adjust c = stack_adjust e"
  by (cases c; cases e) (auto simp: same_added_def)

definition thumb_exit_seq :: "thumb_env \<Rightarrow> u32 \<times> u32 \<Rightarrow> asm_thumb_t asm" where
  "thumb_exit_seq env = (\<lambda>(adjust, reglist). asm_seq
       [asm_when (adjust > 0)
          (if asm_thumb_allow_armv7m env
           then if THUMB_UNSIGNED_FIT7 adjust
             then asm_thumb_op16 (THUMB_OP_ADD_SP adjust)
             else asm_thumb_op32 (THUMB_OP_ADD_W_RRI_HI ASM_THUMB_REG_SP)
                    (THUMB_OP_ADD_W_RRI_LO ASM_THUMB_REG_SP (adjust * 4))
           else thumb_add_sp_loop adjust),
        asm_thumb_op16 (THUMB_OP_POP_RLIST_PC reglist)])"

lemma thumb_exit_seq_plain: "plain thumb_lim (thumb_exit_cost env) (thumb_exit_seq env x)"
proof -
  obtain adjust reglist where x: "x = (adjust, reglist)" by (cases x)
  have "unat adjust \<le> 4294967295" using unsigned_less [where ?'a = nat, of adjust] by simp
  then have "unat adjust div 127 \<le> 4294967295 div 127" by (rule div_le_mono)
  then have loop: "plain thumb_lim 67999998 (thumb_add_sp_loop adjust)"
    by (intro plain_weaken [OF thumb_add_sp_loop_plain]) simp
  show ?thesis
    unfolding x thumb_exit_seq_def prod.case thumb_exit_cost_def
    by (cases "asm_thumb_allow_armv7m env"; simp only: if_True if_False)
      (rule plain_weaken, (rule plain_sum thumb_plain loop)+, simp)+
qed

lemma thumb_exit_ok: "two_pass_ok same_added same_added thumb_lim (thumb_exit_cost env) (asm_thumb_exit env)"
proof (rule two_pass_readI [where v = "\<lambda>s. (stack_adjust s, push_reglist s)" and F = "thumb_exit_seq env"])
  show "asm_thumb_exit env s = thumb_exit_seq env (stack_adjust s, push_reglist s) s" for s
    by (simp add: asm_thumb_exit_def thumb_exit_seq_def)
qed (simp_all add: same_added_thumb plainD(2) [OF thumb_exit_seq_plain])

lemma thumb_frame_bound: "unat (snd (thumb_frame n)) \<le> unat n"
proof (cases "n = 0 \<or> n = 1 \<or> n = 2 \<or> n = 3")
  case False
  have "3 < unat n"
  proof (rule ccontr)
    assume "\<not> 3 < unat n"
    then have "unat n \<in> {0, 1, 2, 3}" by auto
    then show False using False by (auto simp: word_unat_eq_iff)
  qed
  then have "unat (n - 2) = unat n - 2" by (simp add: unat_sub word_le_nat_alt)
  then have "unat (n - 3 + 1) \<le> unat n" by (simp add: diff_add_eq)
  moreover have "unat ((n - 3 + 1) AND NOT 1) \<le> unat (n - 3 + 1)"
    by (metis word_and_le1 word_le_nat_alt and.commute)
  ultimately show ?thesis using False by (simp add: thumb_frame_def)
qed (auto simp: thumb_frame_def)

lemma keeps_base_thumb [simp]: "keeps_base (\<lambda>s. s\<lparr>push_reglist := x, stack_adjust := y\<rparr>)"
  by (simp add: keeps_base_def)

lemma thumb_entry_ok:
  "two_pass_ok (\<lambda>_ _. True) same_added thumb_lim (unat num_locals + 28) (asm_thumb_entry env num_locals)"
proof -
  obtain reglist adjust where f: "thumb_frame num_locals = (reglist, adjust)" by (cases "thumb_frame num_locals")
  have bound: "unat adjust \<le> unat num_locals" using thumb_frame_bound [of num_locals] f by simp
  let ?n = "unat num_locals + 28"
  let ?code = "[asm_assert (sint num_locals \<ge> 0),
         asm_when (thumb_arm_prelude env) (asm_seq
           [asm_thumb_op32 0x4010 0xe92d, asm_thumb_op32 0xe009 0xe28f, asm_thumb_op32 0xff3e 0xe12f,
            asm_thumb_op32 0x4010 0xe8bd, asm_thumb_op32 0xff1e 0xe12f]),
         asm_thumb_op16 (THUMB_OP_PUSH_RLIST_LR reglist),
         asm_when (adjust > 0)
           (if asm_thumb_allow_armv7m env
            then if THUMB_UNSIGNED_FIT7 adjust
              then asm_thumb_op16 (THUMB_OP_SUB_SP adjust)
              else asm_thumb_op32 (THUMB_OP_SUB_W_RRI_HI ASM_THUMB_REG_SP)
                     (THUMB_OP_SUB_W_RRI_LO ASM_THUMB_REG_SP (adjust * 4))
            else thumb_sub_sp_loop adjust)]"
  have "2 * (unat adjust div 127) \<le> unat adjust" by linarith
  with bound have loop: "plain thumb_lim (unat num_locals + 2) (thumb_sub_sp_loop adjust)"
    by (intro plain_weaken [OF thumb_sub_sp_loop_plain]) linarith
  have "plain thumb_lim ?n (asm_seq ?code)"
    by (rule plain_weaken, (rule plain_sum thumb_plain loop)+) simp
  then have "two_pass_ok (\<lambda>_ _. True) (\<lambda>_ _. True) thumb_lim ?n (asm_seq ?code)"
    by (rule plainD(2)) (simp add: added_rel_def)
  moreover have "two_pass_ok (\<lambda>_ _. True) same_added thumb_lim 0
      (\<lambda>s :: asm_thumb_t. Inr (s\<lparr>push_reglist := reglist, stack_adjust := adjust\<rparr>))"
    by (rule two_pass_update) (simp_all add: same_added_thumb)
  ultimately have "two_pass_ok (\<lambda>_ _. True) same_added thumb_lim ?n
      (asm_seq [asm_seq ?code, \<lambda>s. Inr (s\<lparr>push_reglist := reglist, stack_adjust := adjust\<rparr>)])"
    by (rule two_pass_two) simp
  moreover have "asm_thumb_entry env num_locals =
      asm_seq [asm_seq ?code, \<lambda>s. Inr (s\<lparr>push_reglist := reglist, stack_adjust := adjust\<rparr>)]"
    by (simp add: fun_eq_iff asm_thumb_entry_def f split: sum.split)
  ultimately show ?thesis by simp
qed

lemma thumb_entry_exit_quiet:
  "asm_thumb_entry env num_locals s = Inl e \<Longrightarrow> \<not> raised e"
  "asm_thumb_exit env s = Inl e \<Longrightarrow> \<not> raised e"
proof -
  note quiet = plainD(3) [OF thumb_op_plain(1)] plainD(3) [OF thumb_op_plain(2)]
    plainD(3) [OF thumb_sub_sp_loop_plain]
  show "\<not> raised e" if "asm_thumb_entry env num_locals s = Inl e"
    using that quiet
    by (cases "thumb_frame num_locals")
      (auto simp: asm_thumb_entry_def asm_assert_def asm_when_def split: sum.splits if_splits)
  show "\<not> raised e" if "asm_thumb_exit env s = Inl e"
    using that plainD(3) [OF thumb_exit_seq_plain, of env "(stack_adjust s, push_reglist s)" s e]
    by (simp add: asm_thumb_exit_def thumb_exit_seq_def)
qed

section \<open>Whole programs\<close>

fun thumb_is_entry :: "thumb_op \<Rightarrow> bool" where
  "thumb_is_entry (Thumb_API op) = is_ASM_ENTRY op"
| "thumb_is_entry _ = False"

text \<open>
  Operands in range: alignments are powers of two, and locals are numbered below 256 where
  they are accessed (the code raises an exception in the emit pass otherwise).
\<close>

fun thumb_allowed :: "thumb_op \<Rightarrow> bool" where
  "thumb_allowed (Thumb_API (ASM_MOV_LOCAL_REG local_num reg)) = (local_num < 256)"
| "thumb_allowed (Thumb_API (ASM_MOV_REG_LOCAL reg local_num)) = (local_num < 256)"
| "thumb_allowed (Thumb_API (ASM_MOV_REG_LOCAL_ADDR reg local_num)) = (sint local_num \<ge> 0)"
| "thumb_allowed (Thumb_API op) = base_allowed op"
| "thumb_allowed _ = True"

fun thumb_cost :: "thumb_env \<Rightarrow> thumb_op \<Rightarrow> nat" where
  "thumb_cost env (Thumb_API (ASM_ENTRY num_locals)) = unat num_locals + 28"
| "thumb_cost env (Thumb_API ASM_EXIT) = thumb_exit_cost env"
| "thumb_cost env (Thumb_API op) = base_cost 24 op"
| "thumb_cost env _ = 24"

lemma asm_thumb_end_pass_skip: "asm_thumb_end_pass = skip"
  by (simp add: asm_thumb_end_pass_def fun_eq_iff)

lemma plain_24: "plain lim n f \<Longrightarrow> n \<le> 24 \<Longrightarrow> plain lim 24 f"
  by (rule plain_weaken)

lemmas thumb_all_plain =
  thumb_plain [THEN plain_24] thumb_mov_plain [THEN plain_24]
  thumb_i32_optimised_plain [THEN plain_24] thumb_local_plain [THEN plain_24]
  thumb_local_addr_plain [THEN plain_24] thumb_access_plain [THEN plain_24]
  thumb_b_plain [THEN plain_24] thumb_pcrel_plain [THEN plain_24]

lemma thumb_cmp_bcc_plain:
  "plain thumb_lim 24 (asm_seq [asm_thumb_format_3 op r i8, asm_thumb_bcc_label env cond label])"
  "plain thumb_lim 24 (asm_seq [asm_thumb_format_4 op r r', asm_thumb_bcc_label env cond label])"
  by (rule plain_weaken, (rule plain_sum thumb_plain thumb_bcc_plain)+, simp)+

lemma thumb_api_plain:
  assumes "thumb_env_ok env" "\<not> is_ASM_ENTRY op" "op \<noteq> ASM_EXIT" "thumb_allowed (Thumb_API op)"
  shows "plain thumb_lim (thumb_cost env (Thumb_API op)) (thumb_api env op)"
  using assms
  by (cases op)
    (simp_all add: asm_ops thumb_all_plain thumb_cmp_bcc_plain plain_base plain_skip asm_thumb_end_pass_skip
      del: asm_seq.simps base_allowed.simps)

lemma thumb_risc_plain: "plain thumb_lim 24 (thumb_risc op)"
  by (cases op; simp only: thumb_risc.simps asm_ops)
    ((rule plain_weaken, (rule plain_sum thumb_plain)+, simp) | (rule thumb_all_plain, simp))+

lemma thumb_exec_plain:
  assumes "thumb_env_ok env" "\<not> thumb_is_entry op" "op \<noteq> Thumb_API ASM_EXIT" "thumb_allowed op"
  shows "plain thumb_lim (thumb_cost env op) (thumb_exec env op)"
  using assms thumb_api_plain thumb_risc_plain thumb_all_plain
  by (cases op) (simp_all add: asm_ops)

lemma thumb_exec_quiet:
  assumes "thumb_env_ok env" "thumb_allowed op" "thumb_exec env op s = Inl e"
  shows "\<not> raised e"
proof (cases "thumb_is_entry op \<or> op = Thumb_API ASM_EXIT")
  case True
  then show ?thesis
    using assms(3) thumb_entry_exit_quiet by (cases op rule: thumb_is_entry.cases; auto elim!: is_ASM_ENTRY.elims)
next
  case False
  then show ?thesis using plainD(3) [OF thumb_exec_plain] assms by blast
qed

interpretation thumb: plain_assembler "thumb_exec env" "thumb_cost env" thumb_is_entry
  "\<lambda>op. thumb_env_ok env \<and> thumb_allowed op" same_added thumb_lim for env
proof unfold_locales
  fix op
  assume op: "thumb_env_ok env \<and> thumb_allowed op"
  show "two_pass_ok (\<lambda>_ _. True) same_added thumb_lim (thumb_cost env op) (thumb_exec env op)"
    if "thumb_is_entry op"
    using that thumb_entry_ok by (cases op rule: thumb_is_entry.cases) (auto elim!: is_ASM_ENTRY.elims)
  show "two_pass_ok same_added same_added thumb_lim (thumb_cost env op) (thumb_exec env op)"
    if "\<not> thumb_is_entry op"
    using that op thumb_exit_ok plainD(2) [OF thumb_exec_plain]
    by (cases "op = Thumb_API ASM_EXIT") auto
  show "\<not> raised e" if "thumb_exec env op s = Inl e" for s e
    using that op thumb_exec_quiet by blast
qed (simp_all add: added_rel_def)


definition thumb_demo_env :: "bool \<Rightarrow> thumb_env" where
  "thumb_demo_env armv7m = \<lparr>MP_ENDIANNESS_LITTLE = True,
     mp_popcount = (\<lambda>x. word_of_nat (count_ones x)),
     mp_clz = (\<lambda>x. word_of_nat (count_leading_zeros x)),
     mp_ctz = (\<lambda>x. word_of_nat (count_trailing_zeros x)),
     MP_FIT_SIGNED = fits_signed, MP_FIT_UNSIGNED = fits_unsigned,
     MICROPY_DYNAMIC_COMPILER = False, native_arch = 0, MP_NATIVE_ARCH_ARMV6 = 3,
     MP_NATIVE_ARCH_ARMV7M = 5, MP_NATIVE_ARCH_ARMV7EMDP = 8, MICROPY_EMIT_ARM = False,
     arm_state_target = False, MICROPY_EMIT_THUMB_ARMV7M = armv7m, code_base_address = 0\<rparr>"

lemma thumb_env_ok_demo [simp]: "thumb_env_ok (thumb_demo_env armv7m)"
  by (simp add: thumb_env_ok_def mp_env_ok_def thumb_demo_env_def)

lemma thumb_demo_armv7m [simp]: "asm_thumb_allow_armv7m (thumb_demo_env armv7m) = armv7m"
  by (simp add: asm_thumb_allow_armv7m_def thumb_demo_env_def)

definition thumb_demo_state :: asm_thumb_t where
  "thumb_demo_state = \<lparr>pass = 0, suppress = False, code_offset = 0, code_size = 0,
     code_base = None, max_num_labels = 2, label_offsets = [0, 0], push_reglist = 0, stack_adjust = 0\<rparr>"

definition thumb_demo_body :: "thumb_op list" where
  "thumb_demo_body = map Thumb_API
     [Base_label_assign 0, ASM_MOV_REG_IMM 3 0x12345, ASM_CALL_IND 60, ASM_JUMP_IF_REG_ZERO 0 1 True, ASM_JUMP 0,
      Base_label_assign 1, ASM_MOV_LOCAL_REG 255 2, ASM_EXIT]"

abbreviation thumb_demo_pass :: "bool \<Rightarrow> int \<Rightarrow> asm_thumb_t asm" where
  "thumb_demo_pass armv7m \<equiv>
     run_pass exact_alloc (thumb_exec (thumb_demo_env armv7m)) (Thumb_API (ASM_ENTRY 300) # thumb_demo_body)"

lemma thumb_demo_computes:
  "case thumb_demo_pass False MP_ASM_PASS_COMPUTE thumb_demo_state of Inl e \<Rightarrow> False | Inr c \<Rightarrow> code_offset c = 48"
  by code_simp


end
