(* ===== verification/Code_Jumps.thy ===== *)
theory Code_Jumps
  imports Machine_Code Plain_Ops
begin

text \<open>
  Jumps to labels in the emit pass: the label is at a known offset, and a jump writes the code that
  depends on that offset and on its own, also behind code written by the same operation.
\<close>

definition label_at :: "u32 \<Rightarrow> u32 \<Rightarrow> (32, 'z) mp_asm_base_t_scheme \<Rightarrow> bool" where
  "label_at label dest as \<longleftrightarrow> checked_label_offset label as = Inr dest"

lemma label_jump_at:
  "label_at label dest as \<Longrightarrow>
     label_jump (checked_label_offset label) (\<lambda>_ _. False) J as = emit_code (J dest (code_offset as)) as"
  by (simp add: label_jump_def label_at_def)

lemma emit_code_append: "emit_code (js @ ks) as = (case emit_code js as of Inl e \<Rightarrow> Inl e | Inr t \<Rightarrow> emit_code ks t)"
  by (simp add: emit_code_def asm_seq_append cong: sum.case_cong)

lemma emit_then_jump:
  assumes "emit_room k as" "length (concat js) \<le> k" "label_at label dest as"
  shows "asm_seq [emit_code js, label_jump (checked_label_offset label) (\<lambda>_ _. False) J] as =
    emit_code (js @ J dest (code_offset as + word_of_nat (length (concat js)))) as"
proof -
  obtain buf where room: "\<not> suppress as" "in_emit_pass as" "code_base as = Some buf" "unat (code_size as) \<le> length buf"
    "unat (code_offset as) + length (concat js) \<le> unat (code_size as)"
    using assms(1,2) by (auto simp: emit_room_def split: option.splits)
  have "checked_label_offset label (as\<lparr>code_offset := x, code_base := y\<rparr>) = Inr dest" for x y
    using assms(3) by (auto simp: label_at_def checked_label_offset_def label_offset_def split: if_splits)
  then show ?thesis using emit_code_store [OF room] by (simp add: emit_code_append label_jump_def)
qed

end
