(* ===== verification/Thumb_Branches.thy ===== *)
theory Thumb_Branches
  imports Thumb_Encodings Asm_Thumb_Program Code_Jumps
begin

text \<open>
  The branches of the Thumb assembler, run: the bytes that \<open>asm_thumb_b_label\<close> and
  \<open>asm_thumb_bcc_label\<close> write are executed on the machine of \<open>Thumb_ISA\<close>, in each form the code
  chooses (narrow, wide, padded, and the long jump of ARMv6-M through a distance kept behind the
  code).
\<close>

section \<open>Running emitted code\<close>

text \<open>The code is in memory, at an address that is a multiple of four.\<close>

definition thumb_loaded :: "u32 \<Rightarrow> u8 list \<Rightarrow> thumb_machine \<Rightarrow> bool" where
  "thumb_loaded base code m \<longleftrightarrow> base AND 3 = 0 \<and> holds_code (tmem m) base code"

abbreviation emits_thumb ::
    "asm_thumb_t asm \<Rightarrow> asm_thumb_t \<Rightarrow> (u32 \<Rightarrow> u32 \<Rightarrow> thumb_machine \<Rightarrow> thumb_machine \<Rightarrow> bool) \<Rightarrow> bool" where
  "emits_thumb \<equiv> emits_code thumb_step tpc thumb_loaded"

text \<open>Only the program counter and the registers in \<open>rs\<close> have changed, and maybe the flags.\<close>

definition thumb_only :: "nat set \<Rightarrow> thumb_machine \<Rightarrow> thumb_machine \<Rightarrow> bool" where
  "thumb_only rs m m' \<longleftrightarrow> tmem m' = tmem m \<and> (\<forall>r. r \<notin> rs \<longrightarrow> treg m' r = treg m r)"

definition same_flags :: "thumb_machine \<Rightarrow> thumb_machine \<Rightarrow> bool" where
  "same_flags m m' \<longleftrightarrow>
     flagN m' = flagN m \<and> flagZ m' = flagZ m \<and> flagC m' = flagC m \<and> flagV m' = flagV m"

lemma load_sits:
  "thumb_loaded base code m \<Longrightarrow> sits_at base code a bs \<Longrightarrow> length bs = 4 \<Longrightarrow> load_bytes 4 (tmem m) a = le_word bs"
  using load_sits_at [of "tmem m" base code a bs] by (simp add: thumb_loaded_def)

text \<open>The ranges the branches test.\<close>

lemma FIT_even:
  assumes "rel AND 1 = 0"
  shows "THUMB_SIGNED_FIT9 rel \<Longrightarrow> signed_take_bit 8 (rel AND NOT 1) = rel"
    "THUMB_SIGNED_FIT12 rel \<Longrightarrow> signed_take_bit 11 (rel AND NOT 1) = rel"
    "THUMB_SIGNED_FIT23 rel \<Longrightarrow> signed_take_bit 22 (rel AND NOT 1) = rel"
  using assms unfolding THUMB_SIGNED_FIT9_def THUMB_SIGNED_FIT12_def THUMB_SIGNED_FIT23_def word32_eq_iff_bits
  by (auto simp: bit_simps)

section \<open>Branches\<close>

lemma and_1_iff: "x AND 1 = 0 \<longleftrightarrow> even (x :: u32)"
  by (simp add: and_one_eq even_iff_mod_2_eq_zero)

lemma and_3_mod: "unat (z AND 3) = unat (z :: u32) mod 4"
proof -
  have "z AND 3 = take_bit 2 z" by (simp add: take_bit_eq_mask mask_eq_exp_minus_1)
  then have "unat (z AND 3) = take_bit 2 (unat z)" by (simp only: unsigned_take_bit_eq)
  then show ?thesis by (simp add: take_bit_eq_mod)
qed

lemma and_3_iff: "(z :: u32) AND 3 = 0 \<longleftrightarrow> 4 dvd unat z"
  using and_3_mod [of z] by (metis dvd_eq_mod_eq_0 unsigned_0 unsigned_eq_0_iff)

lemma and_3_add: "x AND 3 = 0 \<Longrightarrow> y AND 3 = 0 \<Longrightarrow> (x + y) AND 3 = (0 :: u32)"
  unfolding and_3_iff by (simp add: unat_word_ariths dvd_mod_iff)

lemma and_2_aligned: "even (h :: u32) \<Longrightarrow> h AND 2 = 0 \<Longrightarrow> h AND 3 = 0"
  unfolding and_1_iff [symmetric] word32_eq_iff_bits by (simp add: bit_simps)

lemma and_2_padded:
  assumes "even (h :: u32)" "h AND 2 \<noteq> 0"
  shows "(h + 2) AND 3 = 0"
proof -
  have "h AND 3 = 2" using assms unfolding and_1_iff [symmetric] word32_eq_iff_bits by (simp add: bit_simps)
  then have "unat h mod 4 = 2" using and_3_mod [of h] by simp
  then have "4 dvd unat h + 2" by presburger
  then show ?thesis unfolding and_3_iff by (simp add: unat_word_ariths dvd_mod_iff)
qed

lemma and_3_not: "x AND 3 = 0 \<Longrightarrow> x AND NOT 3 = (x :: u32)"
  unfolding word32_eq_iff_bits by (simp add: bit_simps)

lemma even_not_1: "even (x :: u32) \<Longrightarrow> x AND NOT 1 = x"
  unfolding and_1_iff [symmetric] word32_eq_iff_bits by (simp add: bit_simps)

lemma and_3_even: "x AND 3 = 0 \<Longrightarrow> even (x :: u32)"
  unfolding and_1_iff [symmetric] word32_eq_iff_bits by (simp add: bit_simps)

text \<open>The long jump: a load of the distance from behind the code, and an addition to the program counter.\<close>

lemma thumb_long_jump:
  assumes loaded: "thumb_loaded base code m" and pc: "tpc m = base + here"
    and here: "here AND 3 = 0" and rel: "even rel"
    and sits: "sits_at base code (tpc m) (concat
      [thumb_op16_bytes (ASM_THUMB_FORMAT_3_ENCODE ASM_THUMB_FORMAT_3_LDR ASM_THUMB_REG_R1 0),
       thumb_op16_bytes (ASM_THUMB_FORMAT_5_ENCODE ASM_THUMB_FORMAT_5_ADD ASM_THUMB_REG_R15 ASM_THUMB_REG_R1),
       thumb_op16_bytes (rel AND 0xffff), thumb_op16_bytes (signed_drop_bit 16 rel)])"
  shows "\<exists>m'. reaches thumb_step base code m m' \<and> tpc m' = base + here + 6 + rel \<and> thumb_only {1} m m' \<and> same_flags m m'"
proof -
  let ?ldr = "thumb_op16_bytes (ASM_THUMB_FORMAT_3_ENCODE ASM_THUMB_FORMAT_3_LDR ASM_THUMB_REG_R1 0)"
  let ?add = "thumb_op16_bytes (ASM_THUMB_FORMAT_5_ENCODE ASM_THUMB_FORMAT_5_ADD ASM_THUMB_REG_R15 ASM_THUMB_REG_R1)"
  let ?data = "thumb_op16_bytes (rel AND 0xffff) @ thumb_op16_bytes (signed_drop_bit 16 rel)"
  have s: "sits_at base code (tpc m) (?ldr @ ?add @ ?data)" using sits by simp
  have "sits_at base code (tpc m + 4) ?data"
    using sits_at_append(2) [OF sits_at_append(2) [OF s]] by (simp add: thumb_op16_bytes_def add.assoc)
  moreover have "le_word ?data = rel"
    unfolding thumb_op16_bytes_def word32_eq_iff_bits by (simp add: word_bits_simps)
  ultimately have word: "load_bytes 4 (tmem m) (tpc m + 4) = rel"
    using load_sits [OF loaded] by (simp add: thumb_op16_bytes_def)
  have al: "tpc m AND 3 = 0"
    unfolding pc using loaded here by (intro and_3_add) (simp_all add: thumb_loaded_def)
  then have "(tpc m + 4) AND 3 = 0" by (intro and_3_add) simp_all
  then have align: "(tpc m + 4) AND NOT 3 = tpc m + 4" by (rule and_3_not)
  have ldr: "fetches_at thumb_fetch ?ldr (LDR_PC 1 0)"
    using fetches_format_3(3) [of 1 0] by (simp add: asm_consts)
  have "even (tpc m + 6 + rel)" using and_3_even [OF al] rel by simp
  then have even: "(tpc m + 6 + rel) AND NOT 1 = tpc m + 6 + rel" by (rule even_not_1)
  have "exec_all thumb_exec_instr (zip [LDR_PC 1 0, ADD_REG 15 1] [?ldr, ?add]) m =
      (tset 1 rel m)\<lparr>tpc := tpc m + 6 + rel\<rparr>"
    using word align [simplified] even [simplified] by (simp add: thumb_op16_bytes_def tset_def tget_def add.assoc)
  moreover have "reaches thumb_step base code m (exec_all thumb_exec_instr (zip [LDR_PC 1 0, ADD_REG 15 1] [?ldr, ?add]) m)"
    using s ldr fetches_fixed(2) sits_at_append(1) [of base code "tpc m" "?ldr @ ?add" ?data]
    by (intro thumb_machine.reaches_all) simp_all
  ultimately have "reaches thumb_step base code m ((tset 1 rel m)\<lparr>tpc := tpc m + 6 + rel\<rparr>)" by simp
  then show ?thesis
    by (rule reaches_exI) (simp add: pc thumb_only_def same_flags_def tset_def)
qed

lemma thumb_narrow_jump:
  assumes "tpc m = base + here" "even rel" "THUMB_SIGNED_FIT12 rel" "rel = dest - here - 4"
    and "sits_at base code (tpc m) (thumb_op16_bytes (THUMB_OP_B_N rel) @ rest)"
  shows "\<exists>m'. reaches thumb_step base code m m' \<and> tpc m' = base + dest \<and> thumb_only {} m m' \<and> same_flags m m'"
proof -
  have "signed_take_bit 11 (rel AND NOT 1) = rel" using assms(2,3) by (intro FIT_even) (simp_all add: and_1_iff)
  then have "fetches_at thumb_fetch (thumb_op16_bytes (THUMB_OP_B_N rel)) (B rel)"
    using fetches_B_N [of rel] by simp
  from thumb_machine.reaches_one [OF this sits_at_append(1) [OF assms(5)]]
  show ?thesis
    by (rule reaches_exI) (simp add: assms(1,4) thumb_only_def same_flags_def)
qed

lemma thumb_only_mono: "thumb_only rs m m' \<Longrightarrow> rs \<subseteq> rs' \<Longrightarrow> thumb_only rs' m m'"
  by (auto simp: thumb_only_def)

text \<open>Where the code of a jump goes, in each of its forms.\<close>

definition thumb_reach :: "thumb_env \<Rightarrow> u32 \<Rightarrow> bool" where
  "thumb_reach env rel \<longleftrightarrow> asm_thumb_allow_armv7m env \<longrightarrow> THUMB_SIGNED_FIT23 rel"

lemma thumb_b_code_runs:
  assumes loaded: "thumb_loaded base code m" and pc: "tpc m = base + here"
    and even: "even dest" "even here" and reach: "thumb_reach env (dest - here - 4)"
    and sits: "sits_at base code (tpc m) (concat (thumb_b_code env dest here))"
  shows "\<exists>m'. reaches thumb_step base code m m' \<and> tpc m' = base + dest \<and> thumb_only {1} m m' \<and> same_flags m m'"
proof -
  let ?rel = "dest - here - 4"
  have rel: "even ?rel" using even by simp
  consider (narrow) "THUMB_SIGNED_FIT12 ?rel" "thumb_behind dest here \<or> \<not> asm_thumb_allow_armv7m env"
    | (wide) "asm_thumb_allow_armv7m env" "\<not> (thumb_behind dest here \<and> THUMB_SIGNED_FIT12 ?rel)"
    | (long) "\<not> asm_thumb_allow_armv7m env" "\<not> THUMB_SIGNED_FIT12 ?rel"
    by blast
  then show ?thesis
  proof cases
    case narrow
    then have "\<exists>rest. concat (thumb_b_code env dest here) = thumb_op16_bytes (THUMB_OP_B_N ?rel) @ rest"
      by (cases "thumb_behind dest here") (simp_all add: thumb_b_code_def Let_def)
    then obtain rest where "concat (thumb_b_code env dest here) = thumb_op16_bytes (THUMB_OP_B_N ?rel) @ rest" by blast
    then show ?thesis
      using thumb_narrow_jump [OF pc rel narrow(1) refl] sits thumb_only_mono [of "{}" m _ "{1}"] by fastforce
  next
    case wide
    then have code: "concat (thumb_b_code env dest here) = thumb_op32_bytes (THUMB_OP_BW_HI ?rel) (THUMB_OP_BW_LO ?rel)"
      by (auto simp: thumb_b_code_def Let_def)
    have "signed_take_bit 22 (?rel AND NOT 1) = ?rel"
      using rel reach wide(1) by (intro FIT_even) (simp_all add: and_1_iff thumb_reach_def)
    then have "fetches_at thumb_fetch (thumb_op32_bytes (THUMB_OP_BW_HI ?rel) (THUMB_OP_BW_LO ?rel)) (B ?rel)"
      using fetches_BW [of ?rel] by simp
    from thumb_machine.reaches_one [OF this sits [unfolded code]] show ?thesis
      by (rule reaches_exI) (simp add: pc thumb_only_def same_flags_def)
  next
    case long
    show ?thesis
    proof (cases "here AND 2 = 0")
      case True
      then have h: "here AND 3 = 0" by (rule and_2_aligned [OF even(2)])
      have "\<exists>m'. reaches thumb_step base code m m' \<and> tpc m' = base + here + 6 + (?rel - 2) \<and> thumb_only {1} m m' \<and> same_flags m m'"
        using long True sits even by (intro thumb_long_jump [OF loaded pc h]) (simp_all add: thumb_b_code_def Let_def)
      then show ?thesis by simp
    next
      case False
      let ?m = "m\<lparr>tpc := tpc m + 2\<rparr>"
      let ?js = "[thumb_op16_bytes (ASM_THUMB_FORMAT_3_ENCODE ASM_THUMB_FORMAT_3_LDR ASM_THUMB_REG_R1 0),
         thumb_op16_bytes (ASM_THUMB_FORMAT_5_ENCODE ASM_THUMB_FORMAT_5_ADD ASM_THUMB_REG_R15 ASM_THUMB_REG_R1),
         thumb_op16_bytes ((?rel - 2 - 2) AND 0xffff), thumb_op16_bytes (signed_drop_bit 16 (?rel - 2 - 2))]"
      have s: "sits_at base code (tpc m) (thumb_op16_bytes ASM_THUMB_OP_NOP @ concat ?js)"
        using long False sits by (simp add: thumb_b_code_def Let_def)
      have "(here + 2) AND 3 = 0" by (rule and_2_padded [OF even(2) False])
      then have "\<exists>m'. reaches thumb_step base code ?m m' \<and> tpc m' = base + (here + 2) + 6 + (?rel - 2 - 2) \<and>
          thumb_only {1} ?m m' \<and> same_flags ?m m'"
        using loaded rel sits_at_append(2) [OF s]
        by (intro thumb_long_jump [where here = "here + 2"]) (simp_all add: pc thumb_loaded_def thumb_op16_bytes_def)
      then obtain m' where m': "reaches thumb_step base code ?m m'" "tpc m' = base + dest" "thumb_only {1} m m'" "same_flags m m'"
        by (auto simp: thumb_only_def same_flags_def)
      have "reaches thumb_step base code m m'"
        using thumb_machine.reaches_step [OF fetches_fixed(1) s] m'(1) by (simp add: thumb_op16_bytes_def)
      with m' show ?thesis by blast
    qed
  qed
qed

text \<open>
  The code written for an unconditional jump, run on a Thumb machine, continues at the address
  of the label and changes nothing else but register 1, in the narrow form, the wide form of
  ARMv7-M (within 4 MB) and the padded and long forms of ARMv6-M (at any distance).
\<close>

lemma thumb_b_label_correct:
  assumes "emit_room 10 as" "label_at label dest as" "even dest" "even (code_offset as)"
    and "thumb_reach env (dest - code_offset as - 4)"
  shows "emits_thumb (asm_thumb_b_label env label) as
    (\<lambda>base next m m'. tpc m' = base + dest \<and> thumb_only {1} m m' \<and> same_flags m m')"
proof (rule emits_codeI [OF _ refl assms(1)])
  show "asm_thumb_b_label env label as = emit_code (thumb_b_code env dest (code_offset as)) as"
    by (simp add: asm_thumb_b_label_code label_jump_at [OF assms(2)])
  show "length (concat (thumb_b_code env dest (code_offset as))) \<le> 10"
    by (simp add: length_concat thumb_b_code_lengths)
qed (rule thumb_b_code_runs [OF _ _ assms(3,4,5)])

text \<open>The conditions and their opposites.\<close>

lemma tcond_opposite:
  assumes "cond < 14"
  shows "cond XOR 1 < 14" "tcond (cond XOR 1) m \<longleftrightarrow> \<not> tcond cond m"
proof -
  have h: "(cond XOR 1) div 2 = cond div 2"
  proof -
    have "drop_bit 1 (cond XOR 1) = drop_bit 1 cond" unfolding word32_eq_iff_bits by (simp add: bit_simps)
    then show ?thesis by (simp add: drop_bit_eq_div)
  qed
  have b: "(cond XOR 1) AND 1 = 0 \<longleftrightarrow> \<not> cond AND 1 = 0"
    unfolding word32_eq_iff_bits by (simp add: bit_simps)
  show "tcond (cond XOR 1) m \<longleftrightarrow> \<not> tcond cond m" unfolding tcond_def h b by (simp add: Let_def)
  have "unat (cond XOR 1) div 2 = unat cond div 2" using arg_cong [OF h, of unat] by (simp add: unat_div)
  moreover have "unat cond < 14" using assms by (simp add: word_less_nat_alt)
  ultimately have "unat (cond XOR 1) < 14" by presburger
  then show "cond XOR 1 < 14" by (simp add: word_less_nat_alt)
qed

lemma thumb_bcc_runs:
  assumes "fetches_at thumb_fetch bs (BCC cond rel)" "sits_at base code (tpc m) bs"
    and "tpc m = base + here" "rel = dest - here - 4"
  shows "\<exists>m'. reaches thumb_step base code m m' \<and>
    tpc m' = (if tcond cond m then base + dest else tpc m + word_of_nat (length bs)) \<and> thumb_only {1} m m' \<and> same_flags m m'"
  using thumb_machine.reaches_one [OF assms(1,2)]
  by (rule reaches_exI) (simp add: assms(3,4) thumb_only_def same_flags_def)

definition thumb_bcc_reach :: "thumb_env \<Rightarrow> u32 \<Rightarrow> bool" where
  "thumb_bcc_reach env rel \<longleftrightarrow> asm_thumb_allow_armv7m env \<longrightarrow> signed_take_bit 20 rel = rel"

lemma thumb_bcc_code_runs:
  assumes loaded: "thumb_loaded base code m" and pc: "tpc m = base + here" and cond: "cond < 14"
    and even: "even dest" "even here" and reach: "thumb_bcc_reach env (dest - here - 4)"
    and sits: "sits_at base code (tpc m) (concat (thumb_bcc_code env cond dest here))"
  shows "\<exists>m'. reaches thumb_step base code m m' \<and>
    tpc m' = (if tcond cond m then base + dest else tpc m + word_of_nat (length (concat (thumb_bcc_code env cond dest here)))) \<and>
    thumb_only {1} m m' \<and> same_flags m m'"
proof -
  let ?rel = "dest - here - 4"
  have rel: "?rel AND 1 = 0" "?rel AND NOT 1 = ?rel" using even even_not_1 [of ?rel] by (simp_all add: and_1_iff)
  consider (narrow) "thumb_behind dest here" "THUMB_SIGNED_FIT9 ?rel"
    | (wide) "\<not> (thumb_behind dest here \<and> THUMB_SIGNED_FIT9 ?rel)" "asm_thumb_allow_armv7m env"
    | (skip) "\<not> (thumb_behind dest here \<and> THUMB_SIGNED_FIT9 ?rel)" "\<not> asm_thumb_allow_armv7m env"
    by blast
  then show ?thesis
  proof cases
    case narrow
    then have code: "concat (thumb_bcc_code env cond dest here) = thumb_op16_bytes (THUMB_OP_BCC_N cond ?rel)"
      by (simp add: thumb_bcc_code_def Let_def)
    show ?thesis
      unfolding code using fetches_BCC_N [OF cond, of ?rel] FIT_even(1) [OF rel(1) narrow(2)] sits [unfolded code] pc
      by (intro thumb_bcc_runs) simp_all
  next
    case wide
    then have code: "concat (thumb_bcc_code env cond dest here) = thumb_op32_bytes (THUMB_OP_BCC_W_HI cond ?rel) (THUMB_OP_BCC_W_LO ?rel)"
      by (auto simp: thumb_bcc_code_def Let_def)
    have "signed_take_bit 20 ?rel = ?rel" using reach wide(2) by (simp add: thumb_bcc_reach_def)
    then show ?thesis
      unfolding code using fetches_BCC_W [OF cond, of ?rel] rel(2) sits [unfolded code] pc
      by (intro thumb_bcc_runs) simp_all
  next
    case skip
    let ?js = "thumb_b_code env dest (here + 2)" and ?m = "m\<lparr>tpc := tpc m + 2\<rparr>"
    let ?k = "2 + word_of_nat (total_length ?js) - 4 :: u32"
    have code: "concat (thumb_bcc_code env cond dest here) = thumb_op16_bytes (THUMB_OP_BCC_N (cond XOR 1) ?k) @ concat ?js"
      using skip by (auto simp: thumb_bcc_code_def Let_def)
    have "total_length ?js \<in> {2, 8, 10}" using skip(2) by (simp add: thumb_b_code_def Let_def)
    then have k: "signed_take_bit 8 (?k AND NOT 1) = ?k" by auto
    note s = sits [unfolded code]
    have f: "fetches_at thumb_fetch (thumb_op16_bytes (THUMB_OP_BCC_N (cond XOR 1) ?k)) (BCC (cond XOR 1) ?k)"
      using fetches_BCC_N [OF tcond_opposite(1) [OF cond], of ?k] unfolding k .
    show ?thesis
    proof (cases "tcond cond m")
      case True
      have "\<exists>m'. reaches thumb_step base code ?m m' \<and> tpc m' = base + dest \<and> thumb_only {1} ?m m' \<and> same_flags ?m m'"
        using loaded even skip(2) sits_at_append(2) [OF s]
        by (intro thumb_b_code_runs [where env = env and here = "here + 2"])
          (simp_all add: pc thumb_loaded_def thumb_op16_bytes_def thumb_reach_def)
      then obtain m' where m': "reaches thumb_step base code ?m m'" "tpc m' = base + dest" "thumb_only {1} m m'" "same_flags m m'"
        by (auto simp: thumb_only_def same_flags_def)
      have "thumb_exec_instr (BCC (cond XOR 1) ?k) 2 m = ?m" using True tcond_opposite(2) [OF cond] by simp
      then have "reaches thumb_step base code m m'"
        using thumb_machine.reaches_step [OF f s] m'(1) by (simp add: thumb_op16_bytes_def)
      with m' True show ?thesis by auto
    next
      case False
      show ?thesis
        using thumb_machine.reaches_one [OF f sits_at_append(1) [OF s]]
        by (rule reaches_exI)
          (use False tcond_opposite(2) [OF cond] in \<open>simp add: code length_concat thumb_op16_bytes_def thumb_only_def same_flags_def\<close>)
    qed
  qed
qed

lemma asm_thumb_bcc_label_emits:
  assumes "emit_room 12 as" "label_at label dest as" "unat (code_offset as) + 12 \<le> thumb_lim"
  shows "asm_thumb_bcc_label env cond label as = emit_code (thumb_bcc_code env cond dest (code_offset as)) as"
proof -
  let ?js = "thumb_bcc_code env cond dest (code_offset as)"
  obtain buf where room: "\<not> suppress as" "in_emit_pass as" "code_base as = Some buf" "unat (code_size as) \<le> length buf"
    "unat (code_offset as) + 12 \<le> unat (code_size as)"
    using assms(1) by (auto simp: emit_room_def split: option.splits)
  have "length (concat ?js) \<le> 12" by (simp add: length_concat thumb_bcc_code_lengths)
  then obtain as' where as': "emit_code ?js as = Inr as'"
    using emit_code_store [OF room(1-4), of ?js] room(5) by auto
  then have "thumb_label_jump label (thumb_bcc_code env cond) as = Inr as'"
    using label_jump_at [OF assms(2)] by simp
  then show ?thesis
    using asm_thumb_bcc_label_store [OF room(2,3,4) assms(3)] as' by simp
qed

text \<open>
  The code written for a conditional jump, run on a Thumb machine, continues at the label
  exactly when the condition holds of the flags, and else behind the code; it changes nothing else
  but register 1. This includes the form of ARMv6-M, a branch on the opposite condition over a
  jump, that is filled in after the jump has been written.
\<close>

lemma thumb_bcc_label_correct:
  assumes "emit_room 12 as" "label_at label dest as" "even dest" "even (code_offset as)"
    and "cond < 14" "unat (code_offset as) + 12 \<le> thumb_lim" "thumb_bcc_reach env (dest - code_offset as - 4)"
  shows "emits_thumb (asm_thumb_bcc_label env cond label) as
    (\<lambda>base next m m'. tpc m' = (if tcond cond m then base + dest else next) \<and> thumb_only {1} m m' \<and> same_flags m m')"
proof (rule emits_codeI [OF _ refl assms(1)])
  show "asm_thumb_bcc_label env cond label as = emit_code (thumb_bcc_code env cond dest (code_offset as)) as"
    by (rule asm_thumb_bcc_label_emits [OF assms(1,2,6)])
  show "length (concat (thumb_bcc_code env cond dest (code_offset as))) \<le> 12"
    by (simp add: length_concat thumb_bcc_code_lengths)
qed (rule thumb_bcc_code_runs [OF _ _ assms(5,3,4,7)])

text \<open>A concrete state of the emit pass, for the witnesses.\<close>

definition thumb_emit_state :: asm_thumb_t where
  "thumb_emit_state = \<lparr>pass = 2, suppress = False, code_offset = 6, code_size = 64,
     code_base = Some (replicate 64 0), max_num_labels = 2, label_offsets = [4, 40], push_reglist = 0xfe, stack_adjust = 4\<rparr>"

lemma thumb_emit_state_simps:
  "k \<le> 58 \<Longrightarrow> emit_room k thumb_emit_state" "code_offset thumb_emit_state = 6"
  "label_at 0 4 thumb_emit_state" "label_at 1 40 thumb_emit_state"
  by (simp_all add: thumb_emit_state_def emit_room_def in_emit_pass_def label_at_def checked_label_offset_def
      label_offset_def asm_consts)



end
