(* ===== verification/Thumb_Data.thy ===== *)
theory Thumb_Data
  imports Thumb_Branches
begin

text \<open>
  Immediates and locals of the Thumb assembler, run: the bytes that
  \<open>asm_thumb_mov_reg_i32_optimised\<close> and the accesses to locals write are executed on the machine
  of \<open>Thumb_ISA\<close>.
\<close>

section \<open>Immediates\<close>

text \<open>A byte shifted into place.\<close>

lemma shifted_byte:
  assumes "v \<noteq> 0" "24 \<le> count_leading_zeros v + count_trailing_zeros v"
  shows "push_bit (count_trailing_zeros v) (signed_drop_bit (count_trailing_zeros v) v AND 0xff) = (v :: u32)"
proof (rule bit_eqI)
  fix n assume "possible_bit TYPE(u32) n"
  then have n: "n < 32" by simp
  let ?c = "count_trailing_zeros v"
  have ff: "(0xff :: u32) = mask 8" by (simp add: mask_eq_exp_minus_1)
  have "bit v n \<Longrightarrow> ?c \<le> n" "bit v n \<Longrightarrow> n - ?c < 8"
    using count_zeros_bound [of v n] assms(2) by linarith+
  with n show "bit (push_bit ?c (signed_drop_bit ?c v AND 0xff)) n = bit v n"
    unfolding ff by (auto simp: bit_simps)
qed


definition thumb_sets :: "u32 \<Rightarrow> u32 \<Rightarrow> thumb_machine \<Rightarrow> thumb_machine \<Rightarrow> bool" where
  "thumb_sets rd v m m' \<longleftrightarrow> treg m' (unat rd) = v \<and> thumb_only {unat rd} m m'"

lemmas thumb_exec_simps = tset_def tget_def set_NZ_def set_CV_def Let_def

lemma thumb_format_emits:
  "rlo < 8 \<Longrightarrow> asm_thumb_format_3 op rlo i8 = emit_code [thumb_op16_bytes (ASM_THUMB_FORMAT_3_ENCODE op rlo i8)]"
  "rd < 8 \<Longrightarrow> rs < 8 \<Longrightarrow> asm_thumb_format_1 op rd rs n = emit_code [thumb_op16_bytes (ASM_THUMB_FORMAT_1_ENCODE op rd rs n)]"
  "rd < 8 \<Longrightarrow> rs < 8 \<Longrightarrow> asm_thumb_format_4 op rd rs = emit_code [thumb_op16_bytes (THUMB_OP_FORMAT_4 op rd rs)]"
  "rd < 15 \<Longrightarrow> asm_thumb_mov_reg_i16 op rd v = emit_code [thumb_mov16_bytes op rd v]"
  "asm_thumb_op16 op = emit_code [thumb_op16_bytes op]"
  by (simp_all add: fun_eq_iff asm_thumb_format_3_def asm_thumb_format_1_def asm_thumb_format_4_def asm_thumb_mov_reg_i16_def
      thumb_mov16_bytes_def asm_thumb_op16_def asm_thumb_op32_def asm_assert_def asm_consts emit_code_def)

lemma length_mov16 [simp]: "length (thumb_mov16_bytes op rd v) = 4"
  by (simp add: thumb_mov16_bytes_def)

lemma unat_low: "r < 15 \<Longrightarrow> unat (r :: u32) \<noteq> 15" "r < 8 \<Longrightarrow> unat (r :: u32) \<noteq> 15" 
  by (auto simp: word_less_nat_alt)


lemma FIT_take: "THUMB_UNSIGNED_FIT8 v \<Longrightarrow> take_bit 8 v = v" "THUMB_UNSIGNED_FIT16 v \<Longrightarrow> take_bit 16 v = v"
  unfolding THUMB_UNSIGNED_FIT8_def THUMB_UNSIGNED_FIT16_def word32_eq_iff_bits by (simp_all add: bit_simps)

text \<open>The forms an immediate is loaded in, each run on its own.\<close>

abbreviation emits_imm :: "asm_thumb_t asm \<Rightarrow> asm_thumb_t \<Rightarrow> u32 \<Rightarrow> u32 \<Rightarrow> bool" where
  "emits_imm f as rd v \<equiv> emits_thumb f as (\<lambda>base next m m'. tpc m' = next \<and> thumb_sets rd v m m')"

lemma thumb_imm_byte:
  assumes "emit_room 2 as" "rd < 8" "take_bit 8 v = v"
    and "f as = emit_code [thumb_op16_bytes (ASM_THUMB_FORMAT_3_ENCODE ASM_THUMB_FORMAT_3_MOV rd v)] as"
  shows "emits_imm f as rd v"
  by (rule thumb_machine.straight_emits [where f = f and ins = "[MOV_I8 (unat rd) v]", OF assms(4,1)])
    (use assms(2,3) in \<open>simp_all add: fetches_format_3 thumb_sets_def thumb_only_def thumb_exec_simps\<close>)

lemma thumb_imm_halfword:
  assumes "emit_room 4 as" "rd < 13" "take_bit 16 v = v" "f as = emit_code [thumb_mov16_bytes ASM_THUMB_OP_MOVW rd v] as"
  shows "emits_imm f as rd v"
proof -
  have "rd < 15" using assms(2) by (simp add: order_less_trans)
  then show ?thesis
    by (intro thumb_machine.straight_emits [where f = f and ins = "[MOVW (unat rd) v]", OF assms(4,1)])
      (use fetches_MOVW(1) [of rd v] assms(3) in
        \<open>simp_all add: thumb_sets_def thumb_only_def thumb_exec_simps\<close>)
qed

lemma thumb_imm_wide:
  assumes "emit_room 8 as" "rd < 13"
    and "f as = emit_code [thumb_mov16_bytes ASM_THUMB_OP_MOVW rd v, thumb_mov16_bytes ASM_THUMB_OP_MOVT rd (drop_bit 16 v)] as"
  shows "emits_imm f as rd v"
proof -
  have rd: "rd < 15" using assms(2) by (simp add: order_less_trans)
  have "take_bit 16 v OR push_bit 16 (take_bit 16 (drop_bit 16 v)) = v"
    unfolding word32_eq_iff_bits by (simp add: bit_simps)
  with rd show ?thesis
    by (intro thumb_machine.straight_emits
        [where f = f and ins = "[MOVW (unat rd) (take_bit 16 v), MOVT (unat rd) (take_bit 16 (drop_bit 16 v))]", OF assms(3,1)])
      (simp_all add: fetches_MOVW unat_low thumb_sets_def thumb_only_def thumb_exec_simps)
qed

text \<open>The optional negation at the end.\<close>

abbreviation thumb_negation :: "bool \<Rightarrow> u32 \<Rightarrow> u8 list list" where
  "thumb_negation negate rd \<equiv> if negate then [thumb_op16_bytes (THUMB_OP_FORMAT_4 ASM_THUMB_FORMAT_4_NEG rd rd)] else []"

lemma thumb_imm_shifted:
  assumes "emit_room 6 as" "rd < 8" "n < 32" "take_bit 8 b = b" "v = (if negate then - push_bit (unat n) b else push_bit (unat n) b)"
    and "f as = emit_code ([thumb_op16_bytes (ASM_THUMB_FORMAT_3_ENCODE ASM_THUMB_FORMAT_3_MOV rd b),
      thumb_op16_bytes (ASM_THUMB_FORMAT_1_ENCODE ASM_THUMB_FORMAT_1_LSL rd rd n)] @ thumb_negation negate rd) as"
  shows "emits_imm f as rd v"
  by (rule thumb_machine.straight_emits
      [where f = f and ins = "[MOV_I8 (unat rd) b, LSL_I5 (unat rd) (unat rd) (unat n)] @ (if negate then [NEG (unat rd) (unat rd)] else [])", OF assms(6,1)])
    (use assms(2-5) in \<open>auto simp: fetches_format_3 fetches_LSL fetches_NEG unat_low thumb_sets_def thumb_only_def thumb_exec_simps\<close>)

lemma thumb_imm_two_bytes:
  assumes "emit_room 8 as" "rd < 8" "take_bit 8 hi = hi" "take_bit 8 lo = lo"
    and "v = (if negate then - (push_bit 8 hi + lo) else push_bit 8 hi + lo)"
    and "f as = emit_code ([thumb_op16_bytes (ASM_THUMB_FORMAT_3_ENCODE ASM_THUMB_FORMAT_3_MOV rd hi),
      thumb_op16_bytes (ASM_THUMB_FORMAT_1_ENCODE ASM_THUMB_FORMAT_1_LSL rd rd 8),
      thumb_op16_bytes (ASM_THUMB_FORMAT_3_ENCODE ASM_THUMB_FORMAT_3_ADD rd lo)] @ thumb_negation negate rd) as"
  shows "emits_imm f as rd v"
  using fetches_LSL [of rd rd 8]
  by (intro thumb_machine.straight_emits
      [where f = f and ins = "[MOV_I8 (unat rd) hi, LSL_I5 (unat rd) (unat rd) 8, ADD_I8 (unat rd) lo] @ (if negate then [NEG (unat rd) (unat rd)] else [])", OF assms(6,1)])
    (use assms(2-5) in \<open>auto simp: fetches_format_3 fetches_NEG unat_low thumb_sets_def thumb_only_def thumb_exec_simps\<close>)


text \<open>A word kept behind a load and a branch over it.\<close>

abbreviation thumb_literal :: "u32 \<Rightarrow> u32 \<Rightarrow> u8 list list" where
  "thumb_literal rd v \<equiv>
     [thumb_op16_bytes (ASM_THUMB_FORMAT_3_ENCODE ASM_THUMB_FORMAT_3_LDR rd 0), thumb_op16_bytes (THUMB_OP_B_N 2),
      thumb_op16_bytes (v AND 0xffff), thumb_op16_bytes (drop_bit 16 v)]"

lemma thumb_literal_runs:
  assumes loaded: "thumb_loaded base code m" and pc: "tpc m = base + here" and here: "here AND 3 = 0"
    and rd: "rd < 8" and sits: "sits_at base code (tpc m) (concat (thumb_literal rd v))"
  shows "\<exists>m'. reaches thumb_step base code m m' \<and> tpc m' = tpc m + 8 \<and> thumb_sets rd v m m'"
proof -
  let ?ldr = "thumb_op16_bytes (ASM_THUMB_FORMAT_3_ENCODE ASM_THUMB_FORMAT_3_LDR rd 0)"
  let ?b = "thumb_op16_bytes (THUMB_OP_B_N 2)"
  let ?data = "thumb_op16_bytes (v AND 0xffff) @ thumb_op16_bytes (drop_bit 16 v)"
  have s: "sits_at base code (tpc m) (?ldr @ ?b @ ?data)" using sits by simp
  have "sits_at base code (tpc m + 4) ?data"
    using sits_at_append(2) [OF sits_at_append(2) [OF s]] by (simp add: add.assoc)
  moreover have "le_word ?data = v"
    unfolding thumb_op16_bytes_def word32_eq_iff_bits by (simp add: word_bits_simps)
  ultimately have word: "load_bytes 4 (tmem m) (tpc m + 4) = v" using load_sits [OF loaded] by simp
  have "(tpc m + 4) AND 3 = 0"
    unfolding pc using loaded here by (intro and_3_add) (simp_all add: thumb_loaded_def)
  then have align: "(tpc m + 4) AND NOT 3 = tpc m + 4" by (rule and_3_not)
  have "reaches thumb_step base code m (exec_all thumb_exec_instr (zip [LDR_PC (unat rd) 0, B 2] [?ldr, ?b]) m)"
    using s fetches_format_3(3) [OF rd, of 0] fetches_B_N [of 2] sits_at_append(1) [of base code "tpc m" "?ldr @ ?b" ?data]
    by (intro thumb_machine.reaches_all) simp_all
  then show ?thesis
    by (rule reaches_exI) (use word align in \<open>simp add: thumb_sets_def thumb_only_def tset_def\<close>)
qed

lemma thumb_imm_literal:
  assumes room: "emit_room 10 as" and rd: "rd < 8" and even: "even (code_offset as)"
    and f: "f as = emit_code ((if code_offset as AND 2 \<noteq> 0 then [thumb_op16_bytes ASM_THUMB_OP_NOP] else []) @ thumb_literal rd v) as"
  shows "emits_imm f as rd v"
proof (rule emits_codeI [where f = f, OF f refl room])
  fix base code m
  let ?js = "(if code_offset as AND 2 \<noteq> 0 then [thumb_op16_bytes ASM_THUMB_OP_NOP] else []) @ thumb_literal rd v"
  assume loaded: "thumb_loaded base code m" and pc: "tpc m = base + code_offset as"
    and sits: "sits_at base code (tpc m) (concat ?js)"
  show "\<exists>m'. reaches thumb_step base code m m' \<and> tpc m' = tpc m + word_of_nat (length (concat ?js)) \<and> thumb_sets rd v m m'"
  proof (cases "code_offset as AND 2 = 0")
    case True
    from thumb_literal_runs [OF loaded pc and_2_aligned [OF even True] rd, of v] show ?thesis using sits True by simp
  next
    case False
    let ?m = "m\<lparr>tpc := tpc m + 2\<rparr>"
    have s: "sits_at base code (tpc m) (thumb_op16_bytes ASM_THUMB_OP_NOP @ concat (thumb_literal rd v))"
      using False sits by simp
    have "\<exists>m'. reaches thumb_step base code ?m m' \<and> tpc m' = tpc ?m + 8 \<and> thumb_sets rd v ?m m'"
      using loaded sits_at_append(2) [OF s] and_2_padded [OF even False]
      by (intro thumb_literal_runs [where here = "code_offset as + 2"] rd) (simp_all add: pc thumb_loaded_def)
    then obtain m' where m': "reaches thumb_step base code ?m m'" "tpc m' = tpc m + 10" "thumb_sets rd v m m'"
      by (auto simp: thumb_sets_def thumb_only_def)
    have "reaches thumb_step base code m m'"
      using thumb_machine.reaches_step [OF fetches_fixed(1) s] m'(1) by simp
    with m' False show ?thesis by auto
  qed
qed simp


lemma thumb_i32_full:
  assumes "thumb_env_ok env" "emit_room 10 as" "rd < (if asm_thumb_allow_armv7m env then 13 else 8)" "even (code_offset as)"
    and "f as = ignore_result (asm_thumb_mov_reg_i32 env rd v) as"
  shows "emits_imm f as rd v"
proof -
  note f = assms(5) [unfolded thumb_mov_reg_i32_code [OF assms(1)] thumb_i32_code_def]
  show ?thesis
  proof (cases "asm_thumb_allow_armv7m env")
    case True
    then have "rd < 15" using assms(3) by (simp add: order_less_trans)
    with f True show ?thesis
      by (intro thumb_imm_wide emit_room_weaken [OF assms(2)])
        (use assms(3) in \<open>simp_all add: thumb_format_emits emit_code_seq\<close>)
  next
    case False
    then have rd: "rd < 8" using assms(3) by simp
    with f False show ?thesis
      by (intro thumb_imm_literal assms(2,4))
        (simp_all add: thumb_format_emits emit_code_seq asm_ops asm_consts)
  qed
qed


text \<open>The word that is shifted or split on ARMv6-M, and what makes it the immediate again.\<close>

abbreviation thumb_negates :: "u32 \<Rightarrow> bool" where
  "thumb_negates v \<equiv> sint v < 0 \<and> (v + v) AND 0xffffffff \<noteq> 0"

lemma thumb_env_zeros:
  assumes "thumb_env_ok env" "x \<noteq> 0"
  shows "mp_clz env x + mp_ctz env x = word_of_nat (count_leading_zeros x + count_trailing_zeros x)"
    "unat (mp_clz env x + mp_ctz env x) = count_leading_zeros x + count_trailing_zeros x"
    "mp_ctz env x < 32" "unat (mp_ctz env x) = count_trailing_zeros x"
proof -
  have e: "mp_clz env x = word_of_nat (count_leading_zeros x)" "mp_ctz env x = word_of_nat (count_trailing_zeros x)"
    using assms by (auto simp: thumb_env_ok_def mp_env_ok_def)
  note small = count_zeros_nonzero [OF assms(2)]
  show sum: "mp_clz env x + mp_ctz env x = word_of_nat (count_leading_zeros x + count_trailing_zeros x)"
    by (simp add: e)
  show "unat (mp_clz env x + mp_ctz env x) = count_leading_zeros x + count_trailing_zeros x"
    unfolding sum using small by (simp only: unat_of_nat) simp
  show c: "unat (mp_ctz env x) = count_trailing_zeros x"
    unfolding e using small by (simp only: unat_of_nat) simp
  show "mp_ctz env x < 32" using small by (simp add: word_less_nat_alt c)
qed

lemma thumb_imm_armv6m:
  assumes env: "thumb_env_ok env" "\<not> asm_thumb_allow_armv7m env" and room: "emit_room 10 as" and rd: "rd < 8"
    and even: "even (code_offset as)" and big: "\<not> THUMB_UNSIGNED_FIT8 v"
  shows "emits_imm (asm_thumb_mov_reg_i32_optimised env rd v) as rd v"
proof -
  let ?neg = "thumb_negates v"
  define w where "w = (if ?neg then - v else v)"
  have v: "v = (if ?neg then - w else w)" by (simp add: w_def)
  have "v \<noteq> 0" using big by (auto simp: THUMB_UNSIGNED_FIT8_def)
  then have w0: "w \<noteq> 0" by (simp add: w_def)
  let ?z = "count_leading_zeros w + count_trailing_zeros w"
  have z: "mp_clz env w + mp_ctz env w \<le> 32" "24 \<le> mp_clz env w + mp_ctz env w \<longleftrightarrow> 24 \<le> ?z"
    using thumb_env_zeros [OF env(1) w0] count_zeros_nonzero [OF w0] by (simp_all add: word_le_nat_alt)
  have code: "asm_thumb_mov_reg_i32_optimised env rd v =
      (if 24 \<le> ?z then emit_code ([thumb_op16_bytes (ASM_THUMB_FORMAT_3_ENCODE ASM_THUMB_FORMAT_3_MOV rd
            (signed_drop_bit (count_trailing_zeros w) w AND 0xff)),
          thumb_op16_bytes (ASM_THUMB_FORMAT_1_ENCODE ASM_THUMB_FORMAT_1_LSL rd rd (mp_ctz env w))] @ thumb_negation ?neg rd)
       else if THUMB_UNSIGNED_FIT16 w then emit_code
        ([thumb_op16_bytes (ASM_THUMB_FORMAT_3_ENCODE ASM_THUMB_FORMAT_3_MOV rd (signed_drop_bit 8 w AND 0xff)),
          thumb_op16_bytes (ASM_THUMB_FORMAT_1_ENCODE ASM_THUMB_FORMAT_1_LSL rd rd 8),
          thumb_op16_bytes (ASM_THUMB_FORMAT_3_ENCODE ASM_THUMB_FORMAT_3_ADD rd (w AND 0xff))] @ thumb_negation ?neg rd)
       else ignore_result (asm_thumb_mov_reg_i32 env rd v))"
    unfolding asm_thumb_mov_reg_i32_optimised_def Let_def w_def [symmetric] v [symmetric]
    using big env(2) rd w0 z thumb_env_zeros(4) [OF env(1) w0]
    by (simp add: emit_code_seq thumb_format_emits asm_ops asm_consts asm_thumb_mov_rlo_i16_def)
  have byte: "take_bit 8 (x AND 0xff) = x AND (0xff :: u32)" for x
    unfolding word32_eq_iff_bits by (simp add: bit_simps)
  consider (shift) "24 \<le> ?z" | (split) "\<not> 24 \<le> ?z" "THUMB_UNSIGNED_FIT16 w" | (full) "\<not> 24 \<le> ?z" "\<not> THUMB_UNSIGNED_FIT16 w"
    by blast
  then show ?thesis
  proof cases
    case shift
    let ?p = "push_bit (unat (mp_ctz env w)) (signed_drop_bit (count_trailing_zeros w) w AND 0xff)"
    have w: "?p = w"
      unfolding thumb_env_zeros(4) [OF env(1) w0] by (rule shifted_byte [OF w0 shift])
    have v': "v = (if ?neg then - ?p else ?p)" unfolding w by (rule v)
    show ?thesis
      by (rule thumb_imm_shifted [OF emit_room_weaken [OF room] rd thumb_env_zeros(3) [OF env(1) w0] byte v'])
        (simp_all add: code shift)
  next
    case split
    let ?s = "push_bit 8 (signed_drop_bit 8 w AND 0xff) + (w AND 0xff)"
    have "push_bit 8 (signed_drop_bit 8 w AND 0xff) AND (w AND 0xff) = 0"
      unfolding word32_eq_iff_bits by (simp add: bit_simps)
    then have "?s = push_bit 8 (signed_drop_bit 8 w AND 0xff) OR (w AND 0xff)" by (rule disjunctive_add_eq_or)
    also have "\<dots> = w" using split(2) unfolding THUMB_UNSIGNED_FIT16_def word32_eq_iff_bits by (simp add: bit_simps)
    finally have v': "v = (if ?neg then - ?s else ?s)" using v by (simp only:)
    show ?thesis
      by (rule thumb_imm_two_bytes [OF emit_room_weaken [OF room] rd byte byte v']) (simp_all add: code split)
  next
    case full
    show ?thesis
      by (rule thumb_i32_full [OF env(1) room _ even]) (use full code env(2) rd in simp_all)
  qed
qed

text \<open>
  C17: The code that loads an immediate, run on a Thumb machine, puts exactly that value into the
  register and continues behind the code; memory and the other registers are unchanged. This holds
  for every 32-bit value and every form: a byte, \<open>movw\<close>, \<open>movw\<close> with \<open>movt\<close>, a shifted byte, two
  bytes, either one negated, and a word kept behind the code.
\<close>

theorem thumb_mov_reg_i32_optimised_correct:
  assumes "thumb_env_ok env" "emit_room 10 as" "rd < (if asm_thumb_allow_armv7m env then 13 else 8)" "even (code_offset as)"
  shows "emits_thumb (asm_thumb_mov_reg_i32_optimised env rd v) as
    (\<lambda>base next m m'. tpc m' = next \<and> treg m' (unat rd) = v \<and> thumb_only {unat rd} m m')"
proof -
  have rd: "rd < 15" using assms(3) by (simp add: order_less_trans split: if_splits)
  consider (byte) "rd < 8" "THUMB_UNSIGNED_FIT8 v" | (old) "\<not> THUMB_UNSIGNED_FIT8 v" "\<not> asm_thumb_allow_armv7m env"
    | (half) "\<not> (rd < 8 \<and> THUMB_UNSIGNED_FIT8 v)" "asm_thumb_allow_armv7m env" "THUMB_UNSIGNED_FIT16 v"
    | (full) "\<not> (rd < 8 \<and> THUMB_UNSIGNED_FIT8 v)" "asm_thumb_allow_armv7m env" "\<not> THUMB_UNSIGNED_FIT16 v"
    using assms(3) by (auto split: if_splits)
  then have "emits_imm (asm_thumb_mov_reg_i32_optimised env rd v) as rd v"
  proof cases
    case byte
    then show ?thesis
      by (intro thumb_imm_byte emit_room_weaken [OF assms(2)] FIT_take)
        (simp_all add: asm_thumb_mov_reg_i32_optimised_def asm_ops thumb_format_emits)
  next
    case old
    then show ?thesis using assms by (intro thumb_imm_armv6m) simp_all
  next
    case half
    then show ?thesis
      using assms(3) rd by (intro thumb_imm_halfword emit_room_weaken [OF assms(2)] FIT_take)
        (auto simp: asm_thumb_mov_reg_i32_optimised_def thumb_format_emits)
  next
    case full
    then show ?thesis
      by (intro thumb_i32_full [OF assms]) (auto simp: asm_thumb_mov_reg_i32_optimised_def)
  qed
  then show ?thesis by (simp add: thumb_sets_def)
qed

theorem thumb_mov_reg_i32_optimised_correct_witness:
  "emits_thumb (asm_thumb_mov_reg_i32_optimised (thumb_demo_env False) 3 0xffff8000) thumb_emit_state
    (\<lambda>base next m m'. tpc m' = next \<and> treg m' (unat (3 :: u32)) = 0xffff8000 \<and> thumb_only {unat (3 :: u32)} m m')"
  by (rule thumb_mov_reg_i32_optimised_correct)
    (simp_all add: thumb_emit_state_simps)


section \<open>Locals\<close>

lemma UNSIGNED_FIT8_less: "THUMB_UNSIGNED_FIT8 n \<longleftrightarrow> n < 256"
proof -
  have "THUMB_UNSIGNED_FIT8 n \<longleftrightarrow> take_bit 8 n = n"
    unfolding THUMB_UNSIGNED_FIT8_def word32_eq_iff_bits by (simp add: bit_simps)
  then show ?thesis by (simp add: take_bit_word_iff word_less_nat_alt)
qed

lemma local_check_emit:
  "in_emit_pass as \<Longrightarrow> 0 \<le> sint n \<Longrightarrow>
     asm_thumb_mov_local_check n as = (if n < 256 then Inr as else Inl NotImplementedError)"
  by (simp add: asm_thumb_mov_local_check_def in_emit_pass_def UNSIGNED_FIT8_less)

lemma small_nonneg: "n < 256 \<Longrightarrow> 0 \<le> sint (n :: u32)"
  using sint_sub_small [of n 0] by (simp add: word_less_nat_alt)

lemma emit_room_emit: "emit_room k as \<Longrightarrow> in_emit_pass as"
  by (simp add: emit_room_def)




text \<open>
  A local beyond the 256 words that an access reaches is only refused in the emit pass: a pass
  before it accepts the access and counts its two bytes, and the emit pass raises
  \<open>NotImplementedError\<close> without writing anything.
\<close>

lemma thumb_far_local_refused_late:
  assumes "r < 8" "\<not> n < 256" "0 \<le> sint n"
  shows "asm_thumb_mov_reg_local r n as = (if uint (pass as) < MP_ASM_PASS_EMIT then asm_thumb_op16 (THUMB_OP_LDR_FROM_SP_OFFSET r n) as else Inl NotImplementedError) \<and>
    asm_thumb_mov_local_reg n r as = (if uint (pass as) < MP_ASM_PASS_EMIT then asm_thumb_op16 (THUMB_OP_STR_TO_SP_OFFSET r n) as else Inl NotImplementedError)"
  using assms
  by (simp add: asm_thumb_mov_reg_local_def asm_thumb_mov_local_reg_def asm_thumb_mov_local_check_def asm_assert_def
      asm_consts UNSIGNED_FIT8_less)

end
