(* ===== verification/Thumb_Frames.thy ===== *)
theory Thumb_Frames
  imports Thumb_Data
begin

text \<open>
  Entry and exit of a function in the Thumb assembler, run: the registers saved and restored, the
  frame made and dropped by \<open>asm_thumb_entry\<close> and \<open>asm_thumb_exit\<close>, in one instruction or in the
  steps of a loop.
\<close>

section \<open>Moving the stack pointer\<close>

text \<open>The steps of the loops.\<close>

function thumb_sp_steps :: "u32 \<Rightarrow> u32 list" where
  "thumb_sp_steps adj = (if \<not> THUMB_UNSIGNED_FIT7 adj then 127 # thumb_sp_steps (adj - 127) else [adj])"
  by pat_completeness auto
termination
  by (relation "measure unat")
    (auto simp: THUMB_UNSIGNED_FIT7_def word_less_nat_alt not_less unat_sub word_le_nat_alt)

declare thumb_sp_steps.simps [simp del]

lemma thumb_sp_steps:
  "sum_list (thumb_sp_steps adj) = adj" "\<forall>n \<in> set (thumb_sp_steps adj). n < 128"
  "length (thumb_sp_steps adj) \<le> unat adj div 127 + 1"
proof -
  have "sum_list (thumb_sp_steps adj) = adj \<and> (\<forall>n \<in> set (thumb_sp_steps adj). n < 128) \<and> length (thumb_sp_steps adj) \<le> unat adj div 127 + 1"
  proof (induction adj rule: thumb_sp_steps.induct)
    case (1 adj)
    show ?case
    proof (cases "THUMB_UNSIGNED_FIT7 adj")
      case True
      then show ?thesis by (subst (1 2 3) thumb_sp_steps.simps) (simp add: THUMB_UNSIGNED_FIT7_def)
    next
      case False
      then have u: "128 \<le> unat adj" by (simp add: THUMB_UNSIGNED_FIT7_def word_less_nat_alt)
      then have "unat (adj - 127) = unat adj - 127" by (simp add: unat_sub word_le_nat_alt)
      then have "Suc (unat (adj - 127) div 127) = unat adj div 127" using u by (simp add: div_if)
      with 1 [OF False] False show ?thesis by (subst (1 2 3) thumb_sp_steps.simps) simp
    qed
  qed
  then show "sum_list (thumb_sp_steps adj) = adj" "\<forall>n \<in> set (thumb_sp_steps adj). n < 128"
    "length (thumb_sp_steps adj) \<le> unat adj div 127 + 1" by blast+
qed

lemma thumb_sp_loops_code:
  "thumb_sub_sp_loop adj = emit_code (map (\<lambda>n. thumb_op16_bytes (THUMB_OP_SUB_SP n)) (thumb_sp_steps adj))"
  "thumb_add_sp_loop adj = emit_code (map (\<lambda>n. thumb_op16_bytes (THUMB_OP_ADD_SP n)) (thumb_sp_steps adj))"
proof -
  show "thumb_sub_sp_loop adj = emit_code (map (\<lambda>n. thumb_op16_bytes (THUMB_OP_SUB_SP n)) (thumb_sp_steps adj))"
  proof (induction adj rule: thumb_sp_steps.induct)
    case (1 adj)
    then show ?case
      by (subst thumb_sub_sp_loop.simps, subst thumb_sp_steps.simps) (auto simp: thumb_format_emits emit_code_seq)
  qed
  show "thumb_add_sp_loop adj = emit_code (map (\<lambda>n. thumb_op16_bytes (THUMB_OP_ADD_SP n)) (thumb_sp_steps adj))"
  proof (induction adj rule: thumb_sp_steps.induct)
    case (1 adj)
    then show ?case
      by (subst thumb_add_sp_loop.simps, subst thumb_sp_steps.simps) (auto simp: thumb_format_emits emit_code_seq)
  qed
qed

lemma exec_sp_steps:
  "exec_all thumb_exec_instr (zip (map (\<lambda>n. SUB_SP (push_bit 2 n)) ns) (map (\<lambda>n. thumb_op16_bytes (f n)) ns)) m =
     (tset 13 (treg m 13 - 4 * sum_list ns) m)\<lparr>tpc := tpc m + 2 * word_of_nat (length ns)\<rparr>"
  "exec_all thumb_exec_instr (zip (map (\<lambda>n. ADD_SP (push_bit 2 n)) ns) (map (\<lambda>n. thumb_op16_bytes (f n)) ns)) m =
     (tset 13 (treg m 13 + 4 * sum_list ns) m)\<lparr>tpc := tpc m + 2 * word_of_nat (length ns)\<rparr>"
  by (induction ns arbitrary: m) (simp_all add: tset_def tget_def push_bit_eq_mult algebra_simps fun_upd_def [symmetric])


text \<open>The bytes a frame takes below the saved registers, and the code that makes and drops it.\<close>

definition thumb_reserved :: "thumb_env \<Rightarrow> u32 \<Rightarrow> u32" where
  "thumb_reserved env adj = (if asm_thumb_allow_armv7m env \<and> \<not> THUMB_UNSIGNED_FIT7 adj then take_bit 11 (adj * 4) else adj * 4)"

definition thumb_sub_code :: "thumb_env \<Rightarrow> u32 \<Rightarrow> u8 list list" where
  "thumb_sub_code env adj =
     (if adj = 0 then []
      else if asm_thumb_allow_armv7m env \<and> \<not> THUMB_UNSIGNED_FIT7 adj
      then [thumb_op32_bytes (THUMB_OP_SUB_W_RRI_HI ASM_THUMB_REG_SP) (THUMB_OP_SUB_W_RRI_LO ASM_THUMB_REG_SP (adj * 4))]
      else map (\<lambda>n. thumb_op16_bytes (THUMB_OP_SUB_SP n)) (thumb_sp_steps adj))"

definition thumb_add_code :: "thumb_env \<Rightarrow> u32 \<Rightarrow> u8 list list" where
  "thumb_add_code env adj =
     (if adj = 0 then []
      else if asm_thumb_allow_armv7m env \<and> \<not> THUMB_UNSIGNED_FIT7 adj
      then [thumb_op32_bytes (THUMB_OP_ADD_W_RRI_HI ASM_THUMB_REG_SP) (THUMB_OP_ADD_W_RRI_LO ASM_THUMB_REG_SP (adj * 4))]
      else map (\<lambda>n. thumb_op16_bytes (THUMB_OP_ADD_SP n)) (thumb_sp_steps adj))"

lemma thumb_frame_code_length:
  "length (concat (thumb_sub_code env adj)) \<le> 2 * (unat adj div 127) + 4"
  "length (concat (thumb_add_code env adj)) \<le> 2 * (unat adj div 127) + 4"
  using thumb_sp_steps(3) [of adj]
  by (auto simp: thumb_sub_code_def thumb_add_code_def length_concat o_def sum_list_triv)

text \<open>Code that moves the stack pointer and nothing else.\<close>

definition moves_sp :: "u8 list list \<Rightarrow> u32 \<Rightarrow> thumb_instr list \<Rightarrow> bool" where
  "moves_sp js d ins \<longleftrightarrow> list_all2 (fetches_at thumb_fetch) js ins \<and> (\<forall>i \<in> set ins. thumb_straight i) \<and>
     (\<forall>m. exec_all thumb_exec_instr (zip ins js) m = (tset 13 (treg m 13 + d) m)\<lparr>tpc := tpc m + word_of_nat (length (concat js))\<rparr>)"

lemma list_all2_map_fetches:
  "\<forall>n \<in> set ns. fetches_at fetch (f n) (g n) \<Longrightarrow> list_all2 (fetches_at fetch) (map f ns) (map g ns)"
  by (induction ns) simp_all

lemma thumb_frame_code_moves:
  "\<exists>ins. moves_sp (thumb_sub_code env adj) (- thumb_reserved env adj) ins"
  "\<exists>ins. moves_sp (thumb_add_code env adj) (thumb_reserved env adj) ins"
proof -
  let ?ns = "thumb_sp_steps adj"
  consider (none) "adj = 0" | (wide) "adj \<noteq> 0" "asm_thumb_allow_armv7m env \<and> \<not> THUMB_UNSIGNED_FIT7 adj"
    | (steps) "adj \<noteq> 0" "\<not> (asm_thumb_allow_armv7m env \<and> \<not> THUMB_UNSIGNED_FIT7 adj)" by blast
  then have "(\<exists>ins. moves_sp (thumb_sub_code env adj) (- thumb_reserved env adj) ins) \<and>
      (\<exists>ins. moves_sp (thumb_add_code env adj) (thumb_reserved env adj) ins)"
  proof cases
    case none
    then show ?thesis by (auto simp: moves_sp_def thumb_sub_code_def thumb_add_code_def thumb_reserved_def tset_def intro!: exI [of _ "[]"])
  next
    case wide
    have "moves_sp (thumb_sub_code env adj) (- thumb_reserved env adj) [SUBW 13 13 (take_bit 11 (adj * 4))]"
      "moves_sp (thumb_add_code env adj) (thumb_reserved env adj) [ADDW 13 13 (take_bit 11 (adj * 4))]"
      using wide fetches_wide_SP
      by (simp_all add: moves_sp_def thumb_sub_code_def thumb_add_code_def thumb_reserved_def tset_def tget_def)
    then show ?thesis by blast
  next
    case steps
    have "moves_sp (thumb_sub_code env adj) (- thumb_reserved env adj) (map (\<lambda>n. SUB_SP (push_bit 2 n)) ?ns)"
      "moves_sp (thumb_add_code env adj) (thumb_reserved env adj) (map (\<lambda>n. ADD_SP (push_bit 2 n)) ?ns)"
      using steps thumb_sp_steps(1,2) [of adj]
      by (auto simp: moves_sp_def thumb_sub_code_def thumb_add_code_def thumb_reserved_def exec_sp_steps
          length_concat o_def sum_list_triv mult.commute intro!: list_all2_map_fetches fetches_SP)
    then show ?thesis by blast
  qed
  then show "\<exists>ins. moves_sp (thumb_sub_code env adj) (- thumb_reserved env adj) ins"
    "\<exists>ins. moves_sp (thumb_add_code env adj) (thumb_reserved env adj) ins" by blast+
qed


section \<open>Entry and exit\<close>

definition thumb_saved :: "u32 \<Rightarrow> nat list" where
  "thumb_saved rl = filter (bit rl) [0..<8]"

lemma thumb_frame_values:
  "thumb_saved (fst (thumb_frame n)) = (if n < 2 then [1, 4, 5, 6, 7] else [1, 2, 3, 4, 5, 6, 7])"
  "take_bit 8 (fst (thumb_frame n)) = fst (thumb_frame n)"
  "unat (snd (thumb_frame n)) \<le> unat n"
proof -
  have small: "n < 2 \<longleftrightarrow> n = 0 \<or> n = 1" by (auto simp: word_less_nat_alt word_eq_iff_unsigned [where ?'a = nat] less_2_cases_iff)
  show "thumb_saved (fst (thumb_frame n)) = (if n < 2 then [1, 4, 5, 6, 7] else [1, 2, 3, 4, 5, 6, 7])"
    by (auto simp: thumb_saved_def thumb_frame_def small upt_rec)
  show "take_bit 8 (fst (thumb_frame n)) = fst (thumb_frame n)" by (simp add: thumb_frame_def)
  show "unat (snd (thumb_frame n)) \<le> unat n"
  proof (cases "n = 0 \<or> n = 1 \<or> n = 2 \<or> n = 3")
    case False
    then have "4 \<le> unat n" by (auto simp: word_eq_iff_unsigned [where ?'a = nat])
    moreover have "unat ((n - 3 + 1) AND NOT 1) \<le> unat (n - 3 + 1)" by (metis word_and_le2 word_le_nat_alt)
    moreover have "n - 3 + 1 = n - 2" by simp
    ultimately show ?thesis using False by (simp add: thumb_frame_def unat_sub word_le_nat_alt)
  qed (auto simp: thumb_frame_def)
qed

text \<open>
  A machine inside a function entered from \<open>m0\<close>: the stack pointer is below the frame, and above
  the frame are the saved registers and the return address.
\<close>

definition thumb_framed :: "thumb_env \<Rightarrow> u32 \<Rightarrow> thumb_machine \<Rightarrow> thumb_machine \<Rightarrow> bool" where
  "thumb_framed env n m0 m \<longleftrightarrow>
     (let rs = thumb_saved (fst (thumb_frame n)) @ [14]; top = treg m0 13 - 4 * word_of_nat (length rs)
      in treg m 13 = top - thumb_reserved env (snd (thumb_frame n)) \<and>
         (\<forall>i < length rs. load_bytes 4 (tmem m) (top + 4 * word_of_nat i) = treg m0 (rs ! i)))"

abbreviation thumb_entry_code :: "thumb_env \<Rightarrow> u32 \<Rightarrow> u8 list list" where
  "thumb_entry_code env n \<equiv> thumb_op16_bytes (THUMB_OP_PUSH_RLIST_LR (fst (thumb_frame n))) # thumb_sub_code env (snd (thumb_frame n))"

abbreviation thumb_exit_code :: "thumb_env \<Rightarrow> u32 \<Rightarrow> u8 list list" where
  "thumb_exit_code env n \<equiv> thumb_add_code env (snd (thumb_frame n)) @ [thumb_op16_bytes (THUMB_OP_POP_RLIST_PC (fst (thumb_frame n)))]"

lemma emit_code_then_frame:
  assumes "emit_room k as" "length (concat js) \<le> k"
  shows "asm_seq [emit_code js, \<lambda>s. Inr (s\<lparr>push_reglist := rl, stack_adjust := adj\<rparr>)] as =
    emit_code js (as\<lparr>push_reglist := rl, stack_adjust := adj\<rparr>)"
proof -
  obtain buf where room: "\<not> suppress as" "in_emit_pass as" "code_base as = Some buf" "unat (code_size as) \<le> length buf"
    "unat (code_offset as) + length (concat js) \<le> unat (code_size as)"
    using assms by (auto simp: emit_room_def split: option.splits)
  then show ?thesis
    using emit_code_store [of as buf js] emit_code_store [of "as\<lparr>push_reglist := rl, stack_adjust := adj\<rparr>" buf js]
    by (simp add: in_emit_pass_def)
qed

lemma thumb_adjust_code:
  "asm_when (adjust > 0) (if asm_thumb_allow_armv7m env
     then if THUMB_UNSIGNED_FIT7 adjust then asm_thumb_op16 (THUMB_OP_SUB_SP adjust)
       else asm_thumb_op32 (THUMB_OP_SUB_W_RRI_HI ASM_THUMB_REG_SP) (THUMB_OP_SUB_W_RRI_LO ASM_THUMB_REG_SP (adjust * 4))
     else thumb_sub_sp_loop adjust) = emit_code (thumb_sub_code env adjust)"
  "asm_when (adjust > 0) (if asm_thumb_allow_armv7m env
     then if THUMB_UNSIGNED_FIT7 adjust then asm_thumb_op16 (THUMB_OP_ADD_SP adjust)
       else asm_thumb_op32 (THUMB_OP_ADD_W_RRI_HI ASM_THUMB_REG_SP) (THUMB_OP_ADD_W_RRI_LO ASM_THUMB_REG_SP (adjust * 4))
     else thumb_add_sp_loop adjust) = emit_code (thumb_add_code env adjust)"
proof -
  have "THUMB_UNSIGNED_FIT7 adjust \<Longrightarrow> thumb_sp_steps adjust = [adjust]" by (subst thumb_sp_steps.simps) simp
  moreover have "asm_thumb_op32 a b = emit_code [thumb_op32_bytes a b]" for a b
    by (simp add: asm_thumb_op32_def emit_bytes_as_code)
  ultimately show "asm_when (adjust > 0) (if asm_thumb_allow_armv7m env
     then if THUMB_UNSIGNED_FIT7 adjust then asm_thumb_op16 (THUMB_OP_SUB_SP adjust)
       else asm_thumb_op32 (THUMB_OP_SUB_W_RRI_HI ASM_THUMB_REG_SP) (THUMB_OP_SUB_W_RRI_LO ASM_THUMB_REG_SP (adjust * 4))
     else thumb_sub_sp_loop adjust) = emit_code (thumb_sub_code env adjust)"
    "asm_when (adjust > 0) (if asm_thumb_allow_armv7m env
     then if THUMB_UNSIGNED_FIT7 adjust then asm_thumb_op16 (THUMB_OP_ADD_SP adjust)
       else asm_thumb_op32 (THUMB_OP_ADD_W_RRI_HI ASM_THUMB_REG_SP) (THUMB_OP_ADD_W_RRI_LO ASM_THUMB_REG_SP (adjust * 4))
     else thumb_add_sp_loop adjust) = emit_code (thumb_add_code env adjust)"
    by (auto simp: thumb_sub_code_def thumb_add_code_def thumb_format_emits(5) thumb_sp_loops_code skip_as_code word_gt_0)
qed

lemma thumb_entry_emits:
  assumes "\<not> thumb_arm_prelude env" "0 \<le> sint n" "emit_room k as" "length (concat (thumb_entry_code env n)) \<le> k"
  shows "asm_thumb_entry env n as = emit_code (thumb_entry_code env n)
    (as\<lparr>push_reglist := fst (thumb_frame n), stack_adjust := snd (thumb_frame n)\<rparr>)"
proof -
  have "asm_thumb_entry env n = asm_seq [emit_code (thumb_entry_code env n),
      \<lambda>s. Inr (s\<lparr>push_reglist := fst (thumb_frame n), stack_adjust := snd (thumb_frame n)\<rparr>)]"
    unfolding asm_thumb_entry_def case_prod_beta Let_def thumb_adjust_code
    using assms(1,2) by (simp add: emit_code_seq thumb_format_emits(5))
  then show ?thesis using emit_code_then_frame [OF assms(3,4)] by simp
qed

lemma thumb_exit_emits:
  assumes "push_reglist as = fst (thumb_frame n)" "stack_adjust as = snd (thumb_frame n)"
  shows "asm_thumb_exit env as = emit_code (thumb_exit_code env n) as"
  unfolding asm_thumb_exit_def thumb_adjust_code assms by (simp add: emit_code_seq thumb_format_emits(5))


lemma thumb_saved_props:
  assumes "rs = thumb_saved (fst (thumb_frame n))"
  shows "distinct rs" "13 \<notin> set rs" "14 \<notin> set rs" "15 \<notin> set rs" "{4, 5, 6, 7} \<subseteq> set rs" "set rs \<subseteq> {1..7}" "length rs \<le> 7"
  unfolding assms thumb_frame_values by (auto split: if_splits)

lemma thumb_entry_runs:
  assumes "sits_at base code (tpc m) (concat (thumb_entry_code env n))"
  shows "\<exists>m'. reaches thumb_step base code m m' \<and> tpc m' = tpc m + word_of_nat (length (concat (thumb_entry_code env n))) \<and>
    thumb_framed env n m m' \<and> (\<forall>r. r \<noteq> 13 \<longrightarrow> treg m' r = treg m r)"
proof -
  let ?rs = "thumb_saved (fst (thumb_frame n)) @ [14]" and ?js = "thumb_sub_code env (snd (thumb_frame n))"
  let ?push = "thumb_op16_bytes (THUMB_OP_PUSH_RLIST_LR (fst (thumb_frame n)))"
  let ?top = "treg m 13 - 4 * word_of_nat (length ?rs)"
  obtain ins where ins: "moves_sp ?js (- thumb_reserved env (snd (thumb_frame n))) ins"
    using thumb_frame_code_moves(1) by blast
  have push: "fetches_at thumb_fetch ?push (PUSH ?rs)"
    unfolding thumb_saved_def by (rule fetches_reglist(1) [OF thumb_frame_values(2)])
  let ?m = "exec_all thumb_exec_instr (zip (PUSH ?rs # ins) (?push # ?js)) m"
  have "reaches thumb_step base code m ?m"
    using push ins assms by (intro thumb_machine.reaches_all) (auto simp: moves_sp_def dest: in_set_butlastD split: if_splits)
  moreover have m: "tpc ?m = tpc m + word_of_nat (length (concat (thumb_entry_code env n)))"
    "treg ?m = (treg m)(13 := ?top - thumb_reserved env (snd (thumb_frame n)))"
    "tmem ?m = store_regs (treg m) ?rs ?top (tmem m)"
    using ins by (simp_all add: moves_sp_def tset_def Let_def add.assoc)
  moreover have "load_bytes 4 (tmem ?m) (?top + 4 * word_of_nat i) = treg m (?rs ! i)" if "i < length ?rs" for i
    unfolding m using that thumb_saved_props(7) [OF refl, of n] by (intro load_store_regs) simp_all
  ultimately show ?thesis by (intro exI [of _ ?m]) (simp add: thumb_framed_def Let_def)
qed

definition thumb_returned :: "thumb_machine \<Rightarrow> thumb_machine \<Rightarrow> thumb_machine \<Rightarrow> bool" where
  "thumb_returned m0 m m' \<longleftrightarrow> tpc m' = treg m0 14 AND NOT 1 \<and> treg m' 13 = treg m0 13 \<and> (\<forall>r \<in> {4..7}. treg m' r = treg m0 r) \<and>
     (\<forall>r \<in> {0} \<union> {8..12}. treg m' r = treg m r) \<and> tmem m' = tmem m"

lemma thumb_exit_runs:
  assumes "sits_at base code (tpc m) (concat (thumb_exit_code env n))"
  shows "\<exists>m'. reaches thumb_step base code m m' \<and> (\<forall>m0. thumb_framed env n m0 m \<longrightarrow> thumb_returned m0 m m')"
proof -
  let ?s = "thumb_saved (fst (thumb_frame n))" and ?js = "thumb_add_code env (snd (thumb_frame n))"
  let ?pop = "thumb_op16_bytes (THUMB_OP_POP_RLIST_PC (fst (thumb_frame n)))"
  obtain ins where ins: "moves_sp ?js (thumb_reserved env (snd (thumb_frame n))) ins"
    using thumb_frame_code_moves(2) by blast
  have pop: "fetches_at thumb_fetch ?pop (POP (?s @ [15]))"
    unfolding thumb_saved_def by (rule fetches_reglist(2) [OF thumb_frame_values(2)])
  have len: "length ins = length ?js" using ins by (auto simp: moves_sp_def dest: list_all2_lengthD)
  let ?m = "exec_all thumb_exec_instr (zip (ins @ [POP (?s @ [15])]) (?js @ [?pop])) m"
  let ?top = "treg m 13 + thumb_reserved env (snd (thumb_frame n))"
  let ?R = "load_regs (tmem m) (?s @ [15]) ?top ((treg m)(13 := ?top))"
  have run: "reaches thumb_step base code m ?m"
    using pop ins assms by (intro thumb_machine.reaches_all) (auto simp: moves_sp_def intro: list_all2_appendI)
  have m: "tpc ?m = ?R 15 AND NOT 1" "tmem ?m = tmem m"
    "treg ?m = ?R(13 := ?top + 4 * word_of_nat (length (?s @ [15])), 15 := treg m 15)"
    using ins len by (simp_all add: exec_all_append moves_sp_def tset_def Let_def zip_append)
  have "thumb_returned m0 m ?m" if framed: "thumb_framed env n m0 m" for m0
  proof -
    have top: "?top = treg m0 13 - 4 * word_of_nat (length (?s @ [14]))"
      and saved: "\<And>i. i < length (?s @ [14]) \<Longrightarrow> load_bytes 4 (tmem m) (?top + 4 * word_of_nat i) = treg m0 ((?s @ [14]) ! i)"
      using framed by (simp_all add: thumb_framed_def Let_def)
    note props = thumb_saved_props [OF refl, of n]
    have R: "?R ((?s @ [15]) ! i) = treg m0 ((?s @ [14]) ! i)" if "i < length (?s @ [15])" for i
      using load_regs_nth(1) [OF _ that, of "tmem m" ?top] saved [of i] that props(1,4) by simp
    have "?R 15 = treg m0 14" using R [of "length ?s"] by simp
    moreover have "?R r = treg m0 r" if s: "r \<in> set ?s" for r
    proof -
      obtain i where "i < length ?s" "r = ?s ! i" using s by (auto simp: in_set_conv_nth)
      then show ?thesis using R [of i] by (simp add: nth_append)
    qed
    moreover have "?R r = treg m r" if "r \<in> {0} \<union> {8..12}" for r
    proof -
      have "r \<notin> set (?s @ [15])" "r \<noteq> 13" using that props(6) by auto
      then show ?thesis using load_regs_nth(2) [of r "?s @ [15]" "tmem m" ?top] by simp
    qed
    moreover have "r \<in> set ?s" if "r \<in> {4..7}" for r
    proof -
      have "r \<in> {4, 5, 6, 7}" using that by auto
      then show ?thesis using props(5) by blast
    qed
    ultimately show ?thesis using top by (auto simp: thumb_returned_def m)
  qed
  with run show ?thesis by blast
qed


lemma thumb_frame_room:
  "length (concat (thumb_entry_code env n)) \<le> 2 * (unat n div 127) + 6"
  "length (concat (thumb_exit_code env n)) \<le> 2 * (unat n div 127) + 6"
  using thumb_frame_code_length [of env "snd (thumb_frame n)"] div_le_mono [OF thumb_frame_values(3) [of n], of 127]
  by simp_all

lemma thumb_entry_framed:
  assumes "\<not> thumb_arm_prelude env" "0 \<le> sint n" "emit_room (2 * (unat n div 127) + 6) as"
  shows "emits_thumb (asm_thumb_entry env n) as
    (\<lambda>base next m m'. tpc m' = next \<and> thumb_framed env n m m' \<and> (\<forall>r. r \<noteq> 13 \<longrightarrow> treg m' r = treg m r))"
  by (rule emits_codeI [where f = "asm_thumb_entry env n",
        OF thumb_entry_emits [OF assms thumb_frame_room(1)] _ assms(3) thumb_frame_room(1)])
    (simp add: mp_asm_base_t.defs, rule thumb_entry_runs)



lemma even_part: "unat (x :: u32) \<le> unat (x AND NOT 1) + 1" "unat (x AND NOT 1) \<le> unat x"
proof -
  have "(x AND NOT 1) AND (x AND 1) = 0" unfolding word32_eq_iff_bits by (simp add: bit_simps)
  then have "(x AND NOT 1) + (x AND 1) = (x AND NOT 1) OR (x AND 1)" by (rule disjunctive_add_eq_or)
  also have "\<dots> = x" unfolding word32_eq_iff_bits by (auto simp: bit_simps)
  finally have "unat x = unat ((x AND NOT 1) + (x AND 1))" by simp
  also have "\<dots> \<le> unat (x AND NOT 1) + unat (x AND 1)" by (simp only: unat_word_ariths mod_less_eq_dividend)
  also have "unat (x AND 1) \<le> 1" by (simp add: and_one_eq mod_2_eq_odd)
  finally show "unat x \<le> unat (x AND NOT 1) + 1" by simp
  show "unat (x AND NOT 1) \<le> unat x" by (metis word_and_le2 word_le_nat_alt)
qed

text \<open>
  On ARMv7-M the field for the size of a large frame has 11 bits: the entry of a function with
  515 locals or more moves the stack pointer below the saved registers by the size modulo 2048
  only, which is less than the locals need, so that locals share memory with the saved registers.
\<close>

lemma thumb_wide_frame_truncated:
  assumes "asm_thumb_allow_armv7m env" "\<not> thumb_arm_prelude env" "515 \<le> unat n" "unat n < 2 ^ 30"
    and "emit_room (2 * (unat n div 127) + 6) as"
  shows "unat (thumb_reserved env (snd (thumb_frame n))) = 4 * unat (snd (thumb_frame n)) mod 2048 \<and>
    4 * unat (snd (thumb_frame n)) mod 2048 < 4 * (unat n - 3) \<and>
    emits_thumb (asm_thumb_entry env n) as
      (\<lambda>base next m m'. treg m' 13 = treg m 13 - 32 - thumb_reserved env (snd (thumb_frame n)))"
proof (intro conjI)
  let ?adj = "snd (thumb_frame n)"
  have big: "\<not> n < 2" "n \<noteq> 0" "n \<noteq> 1" "n \<noteq> 2" "n \<noteq> 3" using assms(3) by (auto simp: word_less_nat_alt)
  have adj: "?adj = (n - 2) AND NOT 1" using big by (simp add: thumb_frame_def)
  have "unat (n - 2) = unat n - 2" using assms(3) by (simp add: unat_sub word_le_nat_alt)
  moreover have "unat (n - 2) \<le> unat ?adj + 1" "unat ?adj \<le> unat (n - 2)"
    unfolding adj by (rule even_part)+
  ultimately have u: "unat n - 3 \<le> unat ?adj" "unat ?adj \<le> unat n - 2" by linarith+
  have mult: "unat (?adj * 4) = 4 * unat ?adj" using u(2) assms(4) by (simp add: unat_word_ariths)
  have "\<not> THUMB_UNSIGNED_FIT7 ?adj" using u(1) assms(3) by (simp add: THUMB_UNSIGNED_FIT7_def word_less_nat_alt)
  then have "thumb_reserved env ?adj = take_bit 11 (?adj * 4)" using assms(1) by (simp add: thumb_reserved_def)
  then show "unat (thumb_reserved env ?adj) = 4 * unat ?adj mod 2048"
    by (simp only: unsigned_take_bit_eq mult) (simp add: take_bit_eq_mod)
  show "4 * unat ?adj mod 2048 < 4 * (unat n - 3)" using assms(3) by (rule_tac order_less_le_trans [of _ 2048]) simp_all
  have sint: "0 \<le> sint n" using sint_sub_small [of n 0] assms(4) by simp
  show "emits_thumb (asm_thumb_entry env n) as
      (\<lambda>base next m m'. treg m' 13 = treg m 13 - 32 - thumb_reserved env ?adj)"
    by (rule emits_code_mono [OF thumb_entry_framed [OF assms(2) sint assms(5)]])
      (simp add: thumb_framed_def thumb_frame_values big Let_def)
qed

text \<open>
  C19: Too many locals. On ARMv7-M the field for the size of a large frame has 11 bits: the entry of a
  function with 515 locals or more moves the stack pointer below the saved registers by the size
  modulo 2048 only, which is less than the locals need, so that locals share memory with the saved
  registers. An access to a local beyond 256 words is refused in the emit pass only: a pass before
  it counts its two bytes, and the emit pass raises \<open>NotImplementedError\<close> without writing anything.
\<close>

theorem thumb_many_locals:
  assumes frame: "asm_thumb_allow_armv7m env" "\<not> thumb_arm_prelude env" "515 \<le> unat n" "unat n < 2 ^ 30"
      "emit_room (2 * (unat n div 127) + 6) as"
    and far: "r < 8" "\<not> k < 256" "0 \<le> sint k"
  shows "(unat (thumb_reserved env (snd (thumb_frame n))) = 4 * unat (snd (thumb_frame n)) mod 2048 \<and>
      4 * unat (snd (thumb_frame n)) mod 2048 < 4 * (unat n - 3) \<and>
      emits_thumb (asm_thumb_entry env n) as
        (\<lambda>base next m m'. treg m' 13 = treg m 13 - 32 - thumb_reserved env (snd (thumb_frame n)))) \<and>
    asm_thumb_mov_reg_local r k st = (if uint (pass st) < MP_ASM_PASS_EMIT
      then asm_thumb_op16 (THUMB_OP_LDR_FROM_SP_OFFSET r k) st else Inl NotImplementedError) \<and>
    asm_thumb_mov_local_reg k r st = (if uint (pass st) < MP_ASM_PASS_EMIT
      then asm_thumb_op16 (THUMB_OP_STR_TO_SP_OFFSET r k) st else Inl NotImplementedError)"
  by (rule conjI [OF thumb_wide_frame_truncated [OF frame] thumb_far_local_refused_late [OF far]])

theorem thumb_many_locals_witness:
  "(unat (thumb_reserved (thumb_demo_env True) (snd (thumb_frame 515))) = 4 * unat (snd (thumb_frame 515)) mod 2048 \<and>
      4 * unat (snd (thumb_frame 515)) mod 2048 < 4 * (unat (515 :: u32) - 3) \<and>
      emits_thumb (asm_thumb_entry (thumb_demo_env True) 515) thumb_emit_state
        (\<lambda>base next m m'. treg m' 13 = treg m 13 - 32 - thumb_reserved (thumb_demo_env True) (snd (thumb_frame 515)))) \<and>
    asm_thumb_mov_reg_local 2 256 thumb_emit_state = (if uint (pass thumb_emit_state) < MP_ASM_PASS_EMIT
      then asm_thumb_op16 (THUMB_OP_LDR_FROM_SP_OFFSET 2 256) thumb_emit_state else Inl NotImplementedError) \<and>
    asm_thumb_mov_local_reg 256 2 thumb_emit_state = (if uint (pass thumb_emit_state) < MP_ASM_PASS_EMIT
      then asm_thumb_op16 (THUMB_OP_STR_TO_SP_OFFSET 2 256) thumb_emit_state else Inl NotImplementedError)"
  by (rule thumb_many_locals)
    (simp_all add: thumb_emit_state_simps thumb_arm_prelude_def, simp_all add: thumb_demo_env_def)

end
