(* ===== verification/ARM_ISA.thy ===== *)
theory ARM_ISA
  imports Machine_Code
begin

text \<open>
  A specification of the part of the 32-bit ARM instruction set that the ARM assembler uses for
  immediates, arithmetic, loads and stores, frames, branches and calls, after the ARM architecture
  manual: decoding of instruction words with their condition, and one step of a machine with
  registers, flags and memory. It is written independently of the encodings of the assembler;
  encodings outside this part decode to \<open>None\<close>.
\<close>

section \<open>Machine\<close>

record arm_machine =
  areg :: "nat \<Rightarrow> u32"
  apc :: u32
  amem :: "u32 \<Rightarrow> u8"
  aN :: bool
  aZ :: bool
  aC :: bool
  aV :: bool

text \<open>Register 15 reads as the address of the instruction plus 8.\<close>

definition aget :: "arm_machine \<Rightarrow> nat \<Rightarrow> u32" where
  "aget m r = (if r = 15 then apc m + 8 else areg m r)"

definition aset :: "nat \<Rightarrow> u32 \<Rightarrow> arm_machine \<Rightarrow> arm_machine" where
  "aset r v m = m\<lparr>areg := (areg m)(r := v)\<rparr>"

definition acond :: "u32 \<Rightarrow> arm_machine \<Rightarrow> bool" where
  "acond c m =
     (let b = (if c div 2 = 0 then aZ m
               else if c div 2 = 1 then aC m
               else if c div 2 = 2 then aN m
               else if c div 2 = 3 then aV m
               else if c div 2 = 4 then aC m \<and> \<not> aZ m
               else if c div 2 = 5 then aN m = aV m
               else if c div 2 = 6 then aN m = aV m \<and> \<not> aZ m
               else True)
      in if c AND 1 = 0 then b else \<not> b)"

section \<open>Instructions\<close>

datatype arm_operand = A_Imm u32 | A_Shl nat nat

datatype arm_dp = A_AND | A_EOR | A_SUB | A_RSB | A_ADD | A_ORR | A_MOV | A_MVN

datatype arm_instr =
    A_DP arm_dp nat nat arm_operand
  | A_CMP nat arm_operand
  | A_LOAD nat nat nat arm_operand
  | A_STORE nat nat nat arm_operand
  | A_PUSH "nat list"
  | A_POP "nat list"
  | A_B u32
  | A_BX nat

definition aoperand :: "arm_machine \<Rightarrow> arm_operand \<Rightarrow> u32" where
  "aoperand m x = (case x of A_Imm v \<Rightarrow> v | A_Shl r n \<Rightarrow> push_bit n (aget m r))"

fun arm_dp_value :: "arm_dp \<Rightarrow> u32 \<Rightarrow> u32 \<Rightarrow> u32" where
  "arm_dp_value A_AND a b = a AND b"
| "arm_dp_value A_EOR a b = a XOR b"
| "arm_dp_value A_SUB a b = a - b"
| "arm_dp_value A_RSB a b = b - a"
| "arm_dp_value A_ADD a b = a + b"
| "arm_dp_value A_ORR a b = a OR b"
| "arm_dp_value A_MOV a b = b"
| "arm_dp_value A_MVN a b = NOT b"

text \<open>A value loaded into register 15 is a jump; its lowest bit selects the state.\<close>

fun arm_effect :: "arm_instr \<Rightarrow> u32 \<Rightarrow> arm_machine \<Rightarrow> arm_machine" where
  "arm_effect (A_DP f rd rn x) len m = (aset rd (arm_dp_value f (aget m rn) (aoperand m x)) m)\<lparr>apc := apc m + len\<rparr>"
| "arm_effect (A_CMP rn x) len m =
     (let a = aget m rn; b = aoperand m x; v = a - b
      in m\<lparr>aN := bit v 31, aZ := (v = 0), aC := (b \<le> a), aV := (sint v \<noteq> sint a - sint b), apc := apc m + len\<rparr>)"
| "arm_effect (A_LOAD n rd rn x) len m =
     (let v = load_bytes n (amem m) (aget m rn + aoperand m x)
      in if rd = 15 then m\<lparr>apc := v AND NOT 1\<rparr> else (aset rd v m)\<lparr>apc := apc m + len\<rparr>)"
| "arm_effect (A_STORE n rd rn x) len m =
     m\<lparr>amem := store_bytes n (aget m rn + aoperand m x) (aget m rd) (amem m), apc := apc m + len\<rparr>"
| "arm_effect (A_PUSH rs) len m =
     (let sp = areg m 13 - 4 * word_of_nat (length rs)
      in (aset 13 sp m)\<lparr>amem := store_regs (areg m) rs sp (amem m), apc := apc m + len\<rparr>)"
| "arm_effect (A_POP rs) len m =
     (let R = load_regs (amem m) rs (areg m 13) (areg m)
      in m\<lparr>areg := R(13 := areg m 13 + 4 * word_of_nat (length rs), 15 := areg m 15),
           apc := (if 15 \<in> set rs then R 15 AND NOT 1 else apc m + len)\<rparr>)"
| "arm_effect (A_B off) len m = m\<lparr>apc := apc m + 8 + off\<rparr>"
| "arm_effect (A_BX r) len m = m\<lparr>apc := aget m r AND NOT 1\<rparr>"

fun arm_exec_instr :: "u32 \<times> arm_instr \<Rightarrow> u32 \<Rightarrow> arm_machine \<Rightarrow> arm_machine" where
  "arm_exec_instr (c, i) len m = (if acond c m then arm_effect i len m else m\<lparr>apc := apc m + len\<rparr>)"

section \<open>Decoding\<close>

abbreviation afield :: "u32 \<Rightarrow> nat \<Rightarrow> nat \<Rightarrow> u32" where
  "afield w lo n \<equiv> take_bit n (drop_bit lo w)"

text \<open>
  An instruction word has the condition in bits 28 to 31, the kind of instruction in bits 20 to 27,
  two register numbers in bits 16 to 19 and 12 to 15, and an operand in bits 0 to 11.
\<close>

definition shifted_register :: "u32 \<Rightarrow> arm_operand" where
  "shifted_register x = A_Shl (unat (take_bit 4 x)) (unat (drop_bit 7 x))"

text \<open>Data processing: the operations, and the comparison, which alone sets the flags.\<close>

definition arm_decode_dp :: "u32 \<Rightarrow> nat \<Rightarrow> nat \<Rightarrow> arm_operand \<Rightarrow> arm_instr option" where
  "arm_decode_dp h rn rd x =
     (let op = take_bit 4 (drop_bit 1 h); s = bit h 0
      in if rd = 15 then None
      else if op = 10 then (if s \<and> rd = 0 then Some (A_CMP rn x) else None)
      else if s then None
      else if op = 0 then Some (A_DP A_AND rd rn x)
      else if op = 1 then Some (A_DP A_EOR rd rn x)
      else if op = 2 then Some (A_DP A_SUB rd rn x)
      else if op = 3 then Some (A_DP A_RSB rd rn x)
      else if op = 4 then Some (A_DP A_ADD rd rn x)
      else if op = 12 then Some (A_DP A_ORR rd rn x)
      else if op = 13 then (if rn = 0 then Some (A_DP A_MOV rd rn x) else None)
      else if op = 15 then (if rn = 0 then Some (A_DP A_MVN rd rn x) else None)
      else None)"

text \<open>A load or store of \<open>n\<close> bytes at base plus offset, without write-back.\<close>

definition arm_decode_mem :: "u32 \<Rightarrow> nat \<Rightarrow> nat \<Rightarrow> nat \<Rightarrow> arm_operand \<Rightarrow> arm_instr option" where
  "arm_decode_mem h n rn rd x =
     (if bit h 4 \<and> bit h 3 \<and> \<not> bit h 1
      then (if bit h 0 then if rd = 15 \<and> n \<noteq> 4 then None else Some (A_LOAD n rd rn x)
            else if rd = 15 then None else Some (A_STORE n rd rn x))
      else None)"

definition arm_decode_fields :: "u32 \<Rightarrow> nat \<Rightarrow> nat \<Rightarrow> u32 \<Rightarrow> u32 \<Rightarrow> arm_instr option" where
  "arm_decode_fields h rn rd x w =
     (let group = drop_bit 5 h; n = (if bit h 2 then 1 else 4)
      in if group = 0 then
          if h = 0x12 then (if afield w 4 24 = 0x12fff1 then Some (A_BX (unat (take_bit 4 x))) else None)
          else if afield x 4 4 = 0xb
          then arm_decode_mem h 2 rn rd (if bit h 2 then A_Imm (push_bit 4 (drop_bit 8 x) OR take_bit 4 x)
                                         else A_Shl (unat (take_bit 4 x)) 0)
          else if afield x 4 3 = 0 then arm_decode_dp h rn rd (shifted_register x) else None
        else if group = 1 then (if drop_bit 8 x = 0 then arm_decode_dp h rn rd (A_Imm x) else None)
        else if group = 2 then arm_decode_mem h n rn rd (A_Imm x)
        else if group = 3 then (if afield x 4 3 = 0 then arm_decode_mem h n rn rd (shifted_register x) else None)
        else if h = 0x92 \<and> rn = 13 then Some (A_PUSH (filter (bit w) [0..<16]))
        else if h = 0x8b \<and> rn = 13 then Some (A_POP (filter (bit w) [0..<16]))
        else if drop_bit 4 h = 0xa then Some (A_B (signed_take_bit 25 (push_bit 2 (take_bit 24 w))))
        else None)"

definition arm_decode :: "u32 \<Rightarrow> (u32 \<times> arm_instr) option" where
  "arm_decode w =
     (if afield w 28 4 = 15 then None
      else map_option (Pair (afield w 28 4))
        (arm_decode_fields (afield w 20 8) (unat (afield w 16 4)) (unat (afield w 12 4)) (take_bit 12 w) w))"

definition arm_fetch :: "u8 list \<Rightarrow> nat \<Rightarrow> ((u32 \<times> arm_instr) \<times> u32) option" where
  "arm_fetch code off =
     (if length code < off + 4 then None
      else map_option (\<lambda>i. (i, 4)) (arm_decode (le_word (take 4 (drop off code)))))"

definition arm_step :: "u32 \<Rightarrow> u8 list \<Rightarrow> arm_machine \<Rightarrow> arm_machine option" where
  "arm_step base code m =
     (case arm_fetch code (unat (apc m - base)) of
        None \<Rightarrow> None | Some (i, len) \<Rightarrow> Some (arm_exec_instr i len m))"

text \<open>Instructions that continue with the next one.\<close>

fun arm_straight :: "u32 \<times> arm_instr \<Rightarrow> bool" where
  "arm_straight (c, A_LOAD n rd rn x) = (rd \<noteq> 15)"
| "arm_straight (c, A_POP rs) = (15 \<notin> set rs)"
| "arm_straight (c, A_B _) = False"
| "arm_straight (c, A_BX _) = False"
| "arm_straight _ = True"

interpretation arm_cpu: code_machine arm_fetch arm_exec_instr apc arm_step arm_straight
proof
  show "arm_step base code m = Some (arm_exec_instr i len m)"
    if "arm_fetch code (unat (apc m - base)) = Some (i, len)" for base code m i len
    using that by (simp add: arm_step_def)
  show "apc (arm_exec_instr i len m) = apc m + len" if "arm_straight i" for i len m
    using that by (cases i rule: arm_straight.cases) (simp_all add: Let_def aset_def)
qed

lemma acond_always [simp]: "acond 14 m"
  by (simp add: acond_def)

end
