(* ===== verification/Asm_ARM.thy ===== *)
theory Asm_ARM
  imports Plain_Ops
begin

text \<open>
  The assembler for the 32-bit ARM state, \<open>src/bank/uPython-ASM/asmarm.c\<close> and \<open>asmarm.h\<close>:
  registers and condition codes, instruction words, function entry and exit, moves, locals,
  arithmetic, loads and stores, branches and calls. Names without a prefix in the source carry
  the prefix \<open>arm\<close> or \<open>ARM\<close> here. A C \<open>int\<close> is held in a \<open>u32\<close>; arithmetic on it wraps.
\<close>

section \<open>Registers and conditions\<close>

definition ASM_ARM_REG_R0 :: u32 where [asm_consts]: "ASM_ARM_REG_R0 = 0"
definition ASM_ARM_REG_R1 :: u32 where [asm_consts]: "ASM_ARM_REG_R1 = 1"
definition ASM_ARM_REG_R2 :: u32 where [asm_consts]: "ASM_ARM_REG_R2 = 2"
definition ASM_ARM_REG_R3 :: u32 where [asm_consts]: "ASM_ARM_REG_R3 = 3"
definition ASM_ARM_REG_R4 :: u32 where [asm_consts]: "ASM_ARM_REG_R4 = 4"
definition ASM_ARM_REG_R5 :: u32 where [asm_consts]: "ASM_ARM_REG_R5 = 5"
definition ASM_ARM_REG_R6 :: u32 where [asm_consts]: "ASM_ARM_REG_R6 = 6"
definition ASM_ARM_REG_R7 :: u32 where [asm_consts]: "ASM_ARM_REG_R7 = 7"
definition ASM_ARM_REG_R8 :: u32 where [asm_consts]: "ASM_ARM_REG_R8 = 8"
definition ASM_ARM_REG_R9 :: u32 where [asm_consts]: "ASM_ARM_REG_R9 = 9"
definition ASM_ARM_REG_R10 :: u32 where [asm_consts]: "ASM_ARM_REG_R10 = 10"
definition ASM_ARM_REG_R11 :: u32 where [asm_consts]: "ASM_ARM_REG_R11 = 11"
definition ASM_ARM_REG_R12 :: u32 where [asm_consts]: "ASM_ARM_REG_R12 = 12"
definition ASM_ARM_REG_R13 :: u32 where [asm_consts]: "ASM_ARM_REG_R13 = 13"
definition ASM_ARM_REG_R14 :: u32 where [asm_consts]: "ASM_ARM_REG_R14 = 14"
definition ASM_ARM_REG_R15 :: u32 where [asm_consts]: "ASM_ARM_REG_R15 = 15"
definition ASM_ARM_REG_SP :: u32 where [asm_consts]: "ASM_ARM_REG_SP = ASM_ARM_REG_R13"
definition ASM_ARM_REG_LR :: u32 where [asm_consts]: "ASM_ARM_REG_LR = ASM_ARM_REG_R14"
definition ASM_ARM_REG_PC :: u32 where [asm_consts]: "ASM_ARM_REG_PC = ASM_ARM_REG_R15"
definition ASM_ARM_REG_FUN_TABLE :: u32 where [asm_consts]: "ASM_ARM_REG_FUN_TABLE = ASM_ARM_REG_R7"
definition ARM_REG_TEMP :: u32 where [asm_consts]: "ARM_REG_TEMP = ASM_ARM_REG_R8"

definition ASM_ARM_CC_EQ :: u32 where [asm_consts]: "ASM_ARM_CC_EQ = push_bit 28 0x0"
definition ASM_ARM_CC_NE :: u32 where [asm_consts]: "ASM_ARM_CC_NE = push_bit 28 0x1"
definition ASM_ARM_CC_CS :: u32 where [asm_consts]: "ASM_ARM_CC_CS = push_bit 28 0x2"
definition ASM_ARM_CC_CC :: u32 where [asm_consts]: "ASM_ARM_CC_CC = push_bit 28 0x3"
definition ASM_ARM_CC_MI :: u32 where [asm_consts]: "ASM_ARM_CC_MI = push_bit 28 0x4"
definition ASM_ARM_CC_PL :: u32 where [asm_consts]: "ASM_ARM_CC_PL = push_bit 28 0x5"
definition ASM_ARM_CC_VS :: u32 where [asm_consts]: "ASM_ARM_CC_VS = push_bit 28 0x6"
definition ASM_ARM_CC_VC :: u32 where [asm_consts]: "ASM_ARM_CC_VC = push_bit 28 0x7"
definition ASM_ARM_CC_HI :: u32 where [asm_consts]: "ASM_ARM_CC_HI = push_bit 28 0x8"
definition ASM_ARM_CC_LS :: u32 where [asm_consts]: "ASM_ARM_CC_LS = push_bit 28 0x9"
definition ASM_ARM_CC_GE :: u32 where [asm_consts]: "ASM_ARM_CC_GE = push_bit 28 0xa"
definition ASM_ARM_CC_LT :: u32 where [asm_consts]: "ASM_ARM_CC_LT = push_bit 28 0xb"
definition ASM_ARM_CC_GT :: u32 where [asm_consts]: "ASM_ARM_CC_GT = push_bit 28 0xc"
definition ASM_ARM_CC_LE :: u32 where [asm_consts]: "ASM_ARM_CC_LE = push_bit 28 0xd"
definition ASM_ARM_CC_AL :: u32 where [asm_consts]: "ASM_ARM_CC_AL = push_bit 28 0xe"

section \<open>State and writers\<close>

record asm_arm_t = "32 mp_asm_base_t" +
  push_reglist :: u32
  stack_adjust :: u32

definition asm_arm_end_pass :: "asm_arm_t asm" where
  "asm_arm_end_pass s = Inr s"

text \<open>A word is stored through a \<open>uint32_t\<close> pointer, in the byte order of the host.\<close>

definition arm_word_bytes :: "mp_env \<Rightarrow> u32 \<Rightarrow> u8 list" where
  "arm_word_bytes env op = (if MP_ENDIANNESS_LITTLE env then le_bytes 4 op else rev (le_bytes 4 op))"

definition arm_emit :: "mp_env \<Rightarrow> u32 \<Rightarrow> asm_arm_t asm" where
  "arm_emit env op = emit_bytes (arm_word_bytes env op)"

definition arm_emit_al :: "mp_env \<Rightarrow> u32 \<Rightarrow> asm_arm_t asm" where
  "arm_emit_al env op = arm_emit env (op OR ASM_ARM_CC_AL)"

section \<open>Instruction words without a condition\<close>

definition asm_arm_op_push :: "u32 \<Rightarrow> u32" where
  [asm_encodes]: "asm_arm_op_push reglist = 0x92d0000 OR (reglist AND 0xFFFF)"

definition asm_arm_op_pop :: "u32 \<Rightarrow> u32" where
  [asm_encodes]: "asm_arm_op_pop reglist = 0x8bd0000 OR (reglist AND 0xFFFF)"

definition asm_arm_op_mov_reg :: "u32 \<Rightarrow> u32 \<Rightarrow> u32" where
  [asm_encodes]: "asm_arm_op_mov_reg rd rn = 0x1a00000 OR push_bit 12 rd OR rn"

definition asm_arm_op_mov_imm :: "u32 \<Rightarrow> u32 \<Rightarrow> u32" where
  [asm_encodes]: "asm_arm_op_mov_imm rd imm = 0x3a00000 OR push_bit 12 rd OR imm"

definition asm_arm_op_mvn_imm :: "u32 \<Rightarrow> u32 \<Rightarrow> u32" where
  [asm_encodes]: "asm_arm_op_mvn_imm rd imm = 0x3e00000 OR push_bit 12 rd OR imm"

definition asm_arm_op_mvn_reg :: "u32 \<Rightarrow> u32 \<Rightarrow> u32" where
  [asm_encodes]: "asm_arm_op_mvn_reg rd rm = 0x1e00000 OR push_bit 12 rd OR rm"

definition asm_arm_op_add_imm :: "u32 \<Rightarrow> u32 \<Rightarrow> u32 \<Rightarrow> u32" where
  [asm_encodes]: "asm_arm_op_add_imm rd rn imm = 0x2800000 OR push_bit 16 rn OR push_bit 12 rd OR (imm AND 0xFF)"

definition asm_arm_op_add_reg :: "u32 \<Rightarrow> u32 \<Rightarrow> u32 \<Rightarrow> u32" where
  [asm_encodes]: "asm_arm_op_add_reg rd rn rm = 0x0800000 OR push_bit 16 rn OR push_bit 12 rd OR rm"

definition asm_arm_op_sub_imm :: "u32 \<Rightarrow> u32 \<Rightarrow> u32 \<Rightarrow> u32" where
  [asm_encodes]: "asm_arm_op_sub_imm rd rn imm = 0x2400000 OR push_bit 16 rn OR push_bit 12 rd OR (imm AND 0xFF)"

definition asm_arm_op_sub_reg :: "u32 \<Rightarrow> u32 \<Rightarrow> u32 \<Rightarrow> u32" where
  [asm_encodes]: "asm_arm_op_sub_reg rd rn rm = 0x0400000 OR push_bit 16 rn OR push_bit 12 rd OR rm"

definition asm_arm_op_rsb_imm :: "u32 \<Rightarrow> u32 \<Rightarrow> u32 \<Rightarrow> u32" where
  [asm_encodes]: "asm_arm_op_rsb_imm rd rn imm = 0x2600000 OR push_bit 16 rn OR push_bit 12 rd OR (imm AND 0xFF)"

definition asm_arm_op_mul_reg :: "u32 \<Rightarrow> u32 \<Rightarrow> u32 \<Rightarrow> asm_error + u32" where
  "asm_arm_op_mul_reg rd rm rs =
     (if rd \<noteq> rm then Inr (0x0000090 OR push_bit 16 rd OR push_bit 8 rs OR rm) else Inl AssertionFailed)"

definition asm_arm_op_and_reg :: "u32 \<Rightarrow> u32 \<Rightarrow> u32 \<Rightarrow> u32" where
  [asm_encodes]: "asm_arm_op_and_reg rd rn rm = 0x0000000 OR push_bit 16 rn OR push_bit 12 rd OR rm"

definition asm_arm_op_eor_reg :: "u32 \<Rightarrow> u32 \<Rightarrow> u32 \<Rightarrow> u32" where
  [asm_encodes]: "asm_arm_op_eor_reg rd rn rm = 0x0200000 OR push_bit 16 rn OR push_bit 12 rd OR rm"

definition asm_arm_op_orr_reg :: "u32 \<Rightarrow> u32 \<Rightarrow> u32 \<Rightarrow> u32" where
  [asm_encodes]: "asm_arm_op_orr_reg rd rn rm = 0x1800000 OR push_bit 16 rn OR push_bit 12 rd OR rm"

section \<open>Moves of immediates\<close>

definition asm_arm_bkpt :: "mp_env \<Rightarrow> asm_arm_t asm" where
  [asm_ops]: "asm_arm_bkpt env =
     arm_emit_al env (0x1200070)"

text \<open>The position the C function returns is the one of the immediate in the code.\<close>

definition asm_arm_mov_reg_i32 :: "mp_env \<Rightarrow> u32 \<Rightarrow> u32 \<Rightarrow> asm_arm_t \<Rightarrow> asm_error + (u32 \<times> asm_arm_t)" where
  "asm_arm_mov_reg_i32 env rd imm s =
     (case asm_seq [arm_emit_al env (0x59f0000 OR push_bit 12 rd), arm_emit_al env 0xa000000] s of
        Inl e \<Rightarrow> Inl e
      | Inr t \<Rightarrow>
          let loc = mp_asm_base_get_code_pos t
          in case arm_emit env imm t of Inl e \<Rightarrow> Inl e | Inr u \<Rightarrow> Inr (loc, u))"

definition asm_arm_mov_reg_i32_optimised :: "mp_env \<Rightarrow> u32 \<Rightarrow> u32 \<Rightarrow> asm_arm_t asm" where
  "asm_arm_mov_reg_i32_optimised env rd imm =
     (if imm AND 0xFF = imm then arm_emit_al env (asm_arm_op_mov_imm rd imm)
      else if sint imm < 0 \<and> sint imm \<ge> - 256 then arm_emit_al env (asm_arm_op_mvn_imm rd (NOT imm))
      else ignore_result (asm_arm_mov_reg_i32 env rd imm))"

section \<open>Entry and exit\<close>

definition ARM_ENTRY_REGLIST :: u32 where
  "ARM_ENTRY_REGLIST =
     push_bit (unat ASM_ARM_REG_R1) 1 OR push_bit (unat ASM_ARM_REG_R2) 1 OR
     push_bit (unat ASM_ARM_REG_R3) 1 OR push_bit (unat ASM_ARM_REG_R4) 1 OR
     push_bit (unat ASM_ARM_REG_R5) 1 OR push_bit (unat ASM_ARM_REG_R6) 1 OR
     push_bit (unat ASM_ARM_REG_R7) 1 OR push_bit (unat ASM_ARM_REG_R8) 1"

definition arm_frame_size :: "u32 \<Rightarrow> u32" where
  "arm_frame_size num_locals =
     (if sint num_locals > 3
      then if num_locals AND 1 \<noteq> 0 then num_locals * 4 + 4 else num_locals * 4
      else 0)"

definition asm_arm_entry :: "mp_env \<Rightarrow> u32 \<Rightarrow> asm_arm_t asm" where
  "asm_arm_entry env num_locals =
     (let reglist = ARM_ENTRY_REGLIST; adjust = arm_frame_size num_locals
      in asm_seq
        [asm_assert (sint num_locals \<ge> 0),
         \<lambda>s. Inr (s\<lparr>push_reglist := reglist, stack_adjust := adjust\<rparr>),
         arm_emit_al env (asm_arm_op_push (reglist OR push_bit (unat ASM_ARM_REG_LR) 1)),
         asm_when (adjust > 0)
           (if adjust < 0x100
            then arm_emit_al env (asm_arm_op_sub_imm ASM_ARM_REG_SP ASM_ARM_REG_SP adjust)
            else asm_seq
              [asm_arm_mov_reg_i32_optimised env ARM_REG_TEMP adjust,
               arm_emit_al env (asm_arm_op_sub_reg ASM_ARM_REG_SP ASM_ARM_REG_SP ARM_REG_TEMP)])])"

definition asm_arm_exit :: "mp_env \<Rightarrow> asm_arm_t asm" where
  "asm_arm_exit env s =
     asm_seq
       [asm_when (stack_adjust s > 0)
          (if stack_adjust s < 0x100
           then arm_emit_al env (asm_arm_op_add_imm ASM_ARM_REG_SP ASM_ARM_REG_SP (stack_adjust s))
           else asm_seq
             [asm_arm_mov_reg_i32_optimised env ARM_REG_TEMP (stack_adjust s),
              arm_emit_al env (asm_arm_op_add_reg ASM_ARM_REG_SP ASM_ARM_REG_SP ARM_REG_TEMP)]),
        arm_emit_al env (asm_arm_op_pop (push_reglist s OR push_bit (unat ASM_ARM_REG_PC) 1))] s"

section \<open>Moves, comparisons and arithmetic\<close>

definition asm_arm_push :: "mp_env \<Rightarrow> u32 \<Rightarrow> asm_arm_t asm" where
  [asm_ops]: "asm_arm_push env reglist =
     arm_emit_al env (asm_arm_op_push reglist)"

definition asm_arm_pop :: "mp_env \<Rightarrow> u32 \<Rightarrow> asm_arm_t asm" where
  [asm_ops]: "asm_arm_pop env reglist =
     arm_emit_al env (asm_arm_op_pop reglist)"

definition asm_arm_mov_reg_reg :: "mp_env \<Rightarrow> u32 \<Rightarrow> u32 \<Rightarrow> asm_arm_t asm" where
  [asm_ops]: "asm_arm_mov_reg_reg env reg_dest reg_src =
     arm_emit_al env (asm_arm_op_mov_reg reg_dest reg_src)"

definition asm_arm_mov_local_reg :: "mp_env \<Rightarrow> u32 \<Rightarrow> u32 \<Rightarrow> asm_arm_t asm" where
  [asm_ops]: "asm_arm_mov_local_reg env local_num rd =
     arm_emit_al env (0x58d0000 OR push_bit 12 rd OR push_bit 2 local_num)"

definition asm_arm_mov_reg_local :: "mp_env \<Rightarrow> u32 \<Rightarrow> u32 \<Rightarrow> asm_arm_t asm" where
  [asm_ops]: "asm_arm_mov_reg_local env rd local_num =
     arm_emit_al env (0x59d0000 OR push_bit 12 rd OR push_bit 2 local_num)"

definition asm_arm_cmp_reg_i8 :: "mp_env \<Rightarrow> u32 \<Rightarrow> u32 \<Rightarrow> asm_arm_t asm" where
  [asm_ops]: "asm_arm_cmp_reg_i8 env rd imm =
     arm_emit_al env (0x3500000 OR push_bit 16 rd OR (imm AND 0xFF))"

definition asm_arm_cmp_reg_reg :: "mp_env \<Rightarrow> u32 \<Rightarrow> u32 \<Rightarrow> asm_arm_t asm" where
  [asm_ops]: "asm_arm_cmp_reg_reg env rd rn =
     arm_emit_al env (0x1500000 OR push_bit 16 rd OR rn)"

definition asm_arm_setcc_reg :: "mp_env \<Rightarrow> u32 \<Rightarrow> u32 \<Rightarrow> asm_arm_t asm" where
  [asm_ops]: "asm_arm_setcc_reg env rd cond =
     asm_seq [arm_emit env (asm_arm_op_mov_imm rd 1 OR cond),
              arm_emit env (asm_arm_op_mov_imm rd 0 OR (cond XOR push_bit 28 1))]"

definition asm_arm_mvn_reg_reg :: "mp_env \<Rightarrow> u32 \<Rightarrow> u32 \<Rightarrow> asm_arm_t asm" where
  [asm_ops]: "asm_arm_mvn_reg_reg env rd rm =
     arm_emit_al env (asm_arm_op_mvn_reg rd rm)"

definition asm_arm_add_reg_reg_reg :: "mp_env \<Rightarrow> u32 \<Rightarrow> u32 \<Rightarrow> u32 \<Rightarrow> asm_arm_t asm" where
  [asm_ops]: "asm_arm_add_reg_reg_reg env rd rn rm =
     arm_emit_al env (asm_arm_op_add_reg rd rn rm)"

definition asm_arm_rsb_reg_reg_imm :: "mp_env \<Rightarrow> u32 \<Rightarrow> u32 \<Rightarrow> u32 \<Rightarrow> asm_arm_t asm" where
  [asm_ops]: "asm_arm_rsb_reg_reg_imm env rd rn imm =
     arm_emit_al env (asm_arm_op_rsb_imm rd rn imm)"

definition asm_arm_sub_reg_reg_reg :: "mp_env \<Rightarrow> u32 \<Rightarrow> u32 \<Rightarrow> u32 \<Rightarrow> asm_arm_t asm" where
  [asm_ops]: "asm_arm_sub_reg_reg_reg env rd rn rm =
     arm_emit_al env (asm_arm_op_sub_reg rd rn rm)"

definition asm_arm_mul_reg_reg_reg :: "mp_env \<Rightarrow> u32 \<Rightarrow> u32 \<Rightarrow> u32 \<Rightarrow> asm_arm_t asm" where
  [asm_ops]: "asm_arm_mul_reg_reg_reg env rd rs rm =
     (case asm_arm_op_mul_reg rd rm rs of
        Inl e \<Rightarrow> (\<lambda>s. Inl e)
      | Inr op \<Rightarrow> arm_emit_al env op)"

definition asm_arm_and_reg_reg_reg :: "mp_env \<Rightarrow> u32 \<Rightarrow> u32 \<Rightarrow> u32 \<Rightarrow> asm_arm_t asm" where
  [asm_ops]: "asm_arm_and_reg_reg_reg env rd rn rm =
     arm_emit_al env (asm_arm_op_and_reg rd rn rm)"

definition asm_arm_eor_reg_reg_reg :: "mp_env \<Rightarrow> u32 \<Rightarrow> u32 \<Rightarrow> u32 \<Rightarrow> asm_arm_t asm" where
  [asm_ops]: "asm_arm_eor_reg_reg_reg env rd rn rm =
     arm_emit_al env (asm_arm_op_eor_reg rd rn rm)"

definition asm_arm_orr_reg_reg_reg :: "mp_env \<Rightarrow> u32 \<Rightarrow> u32 \<Rightarrow> u32 \<Rightarrow> asm_arm_t asm" where
  [asm_ops]: "asm_arm_orr_reg_reg_reg env rd rn rm =
     arm_emit_al env (asm_arm_op_orr_reg rd rn rm)"

definition asm_arm_mov_reg_local_addr :: "mp_env \<Rightarrow> u32 \<Rightarrow> u32 \<Rightarrow> asm_arm_t asm" where
  [asm_ops]: "asm_arm_mov_reg_local_addr env rd local_num =
     (if sint local_num \<ge> 0x40
      then asm_seq [asm_arm_mov_reg_i32_optimised env ARM_REG_TEMP (push_bit 2 local_num),
                    arm_emit_al env (asm_arm_op_add_reg rd ASM_ARM_REG_SP ARM_REG_TEMP)]
      else arm_emit_al env (asm_arm_op_add_imm rd ASM_ARM_REG_SP (push_bit 2 local_num)))"

definition asm_arm_mov_reg_pcrel :: "mp_env \<Rightarrow> u32 \<Rightarrow> u32 \<Rightarrow> asm_arm_t asm" where
  "asm_arm_mov_reg_pcrel env reg_dest label s =
     (if \<not> label < max_num_labels s then Inl AssertionFailed
      else case label_offset label s of
        Inl e \<Rightarrow> Inl e
      | Inr dest \<Rightarrow>
          let rel = dest - code_offset s - (12 + 8)
          in asm_seq
            [arm_emit_al env (0x59f0000 OR push_bit 12 reg_dest),
             arm_emit_al env 0xa000000,
             arm_emit env rel,
             asm_arm_add_reg_reg_reg env reg_dest reg_dest ASM_ARM_REG_PC] s)"

definition asm_arm_lsl_reg_reg :: "mp_env \<Rightarrow> u32 \<Rightarrow> u32 \<Rightarrow> asm_arm_t asm" where
  [asm_ops]: "asm_arm_lsl_reg_reg env rd rs =
     arm_emit_al env (0x1a00010 OR push_bit 12 rd OR push_bit 8 rs OR rd)"

definition asm_arm_lsr_reg_reg :: "mp_env \<Rightarrow> u32 \<Rightarrow> u32 \<Rightarrow> asm_arm_t asm" where
  [asm_ops]: "asm_arm_lsr_reg_reg env rd rs =
     arm_emit_al env (0x1a00030 OR push_bit 12 rd OR push_bit 8 rs OR rd)"

definition asm_arm_asr_reg_reg :: "mp_env \<Rightarrow> u32 \<Rightarrow> u32 \<Rightarrow> asm_arm_t asm" where
  [asm_ops]: "asm_arm_asr_reg_reg env rd rs =
     arm_emit_al env (0x1a00050 OR push_bit 12 rd OR push_bit 8 rs OR rd)"

section \<open>Loads and stores\<close>

definition asm_arm_ldr_reg_reg_offset :: "mp_env \<Rightarrow> u32 \<Rightarrow> u32 \<Rightarrow> u32 \<Rightarrow> asm_arm_t asm" where
  [asm_ops]: "asm_arm_ldr_reg_reg_offset env rd rn byte_offset =
     (if byte_offset < 0x1000
      then arm_emit_al env (0x5900000 OR push_bit 16 rn OR push_bit 12 rd OR byte_offset)
      else asm_seq [asm_arm_mov_reg_i32_optimised env ARM_REG_TEMP byte_offset,
                    arm_emit_al env (0x7900000 OR push_bit 16 rn OR push_bit 12 rd OR ARM_REG_TEMP)])"

definition asm_arm_ldrh_reg_reg_reg :: "mp_env \<Rightarrow> u32 \<Rightarrow> u32 \<Rightarrow> u32 \<Rightarrow> asm_arm_t asm" where
  [asm_ops]: "asm_arm_ldrh_reg_reg_reg env rd rm rn =
     asm_seq [arm_emit_al env (0x1a00080 OR push_bit 12 ARM_REG_TEMP OR rn),
              arm_emit_al env (0x19000b0 OR push_bit 16 rm OR push_bit 12 rd OR ARM_REG_TEMP)]"

definition asm_arm_ldrh_reg_reg_offset :: "mp_env \<Rightarrow> u32 \<Rightarrow> u32 \<Rightarrow> u32 \<Rightarrow> asm_arm_t asm" where
  [asm_ops]: "asm_arm_ldrh_reg_reg_offset env rd rn byte_offset =
     (if byte_offset < 0x100
      then arm_emit_al env (0x1d000b0 OR push_bit 16 rn OR push_bit 12 rd OR
          push_bit 4 (byte_offset AND 0xf0) OR (byte_offset AND 0xf))
      else asm_seq [asm_arm_mov_reg_i32_optimised env ARM_REG_TEMP byte_offset,
                    arm_emit_al env (0x19000b0 OR push_bit 16 rn OR push_bit 12 rd OR ARM_REG_TEMP)])"

definition asm_arm_ldrb_reg_reg_reg :: "mp_env \<Rightarrow> u32 \<Rightarrow> u32 \<Rightarrow> u32 \<Rightarrow> asm_arm_t asm" where
  [asm_ops]: "asm_arm_ldrb_reg_reg_reg env rd rm rn =
     arm_emit_al env (0x7d00000 OR push_bit 16 rm OR push_bit 12 rd OR rn)"

definition asm_arm_ldrb_reg_reg_offset :: "mp_env \<Rightarrow> u32 \<Rightarrow> u32 \<Rightarrow> u32 \<Rightarrow> asm_arm_t asm" where
  [asm_ops]: "asm_arm_ldrb_reg_reg_offset env rd rn byte_offset =
     (if byte_offset < 0x1000
      then arm_emit_al env (0x5d00000 OR push_bit 16 rn OR push_bit 12 rd OR byte_offset)
      else asm_seq [asm_arm_mov_reg_i32_optimised env ARM_REG_TEMP byte_offset,
                    arm_emit_al env (0x7d00000 OR push_bit 16 rn OR push_bit 12 rd OR ARM_REG_TEMP)])"

definition asm_arm_ldr_reg_reg_reg :: "mp_env \<Rightarrow> u32 \<Rightarrow> u32 \<Rightarrow> u32 \<Rightarrow> asm_arm_t asm" where
  [asm_ops]: "asm_arm_ldr_reg_reg_reg env rd rm rn =
     arm_emit_al env (0x7900100 OR push_bit 16 rm OR push_bit 12 rd OR rn)"

definition asm_arm_str_reg_reg_offset :: "mp_env \<Rightarrow> u32 \<Rightarrow> u32 \<Rightarrow> u32 \<Rightarrow> asm_arm_t asm" where
  [asm_ops]: "asm_arm_str_reg_reg_offset env rd rm byte_offset =
     (if byte_offset < 0x1000
      then arm_emit_al env (0x5800000 OR push_bit 16 rm OR push_bit 12 rd OR byte_offset)
      else asm_seq [asm_arm_mov_reg_i32_optimised env ARM_REG_TEMP byte_offset,
                    arm_emit_al env (0x7800000 OR push_bit 16 rm OR push_bit 12 rd OR ARM_REG_TEMP)])"

definition asm_arm_strh_reg_reg_offset :: "mp_env \<Rightarrow> u32 \<Rightarrow> u32 \<Rightarrow> u32 \<Rightarrow> asm_arm_t asm" where
  [asm_ops]: "asm_arm_strh_reg_reg_offset env rd rn byte_offset =
     (if byte_offset < 0x100
      then arm_emit_al env (0x1c000b0 OR push_bit 16 rn OR push_bit 12 rd OR
          push_bit 4 (byte_offset AND 0xf0) OR (byte_offset AND 0xf))
      else asm_seq [asm_arm_mov_reg_i32_optimised env ARM_REG_TEMP byte_offset,
                    arm_emit_al env (0x18000b0 OR push_bit 16 rn OR push_bit 12 rd OR ARM_REG_TEMP)])"

definition asm_arm_strb_reg_reg_offset :: "mp_env \<Rightarrow> u32 \<Rightarrow> u32 \<Rightarrow> u32 \<Rightarrow> asm_arm_t asm" where
  [asm_ops]: "asm_arm_strb_reg_reg_offset env rd rm byte_offset =
     (if byte_offset < 0x1000
      then arm_emit_al env (0x5c00000 OR push_bit 16 rm OR push_bit 12 rd OR byte_offset)
      else asm_seq [asm_arm_mov_reg_i32_optimised env ARM_REG_TEMP byte_offset,
                    arm_emit_al env (0x7c00000 OR push_bit 16 rm OR push_bit 12 rd OR ARM_REG_TEMP)])"

definition asm_arm_str_reg_reg_reg :: "mp_env \<Rightarrow> u32 \<Rightarrow> u32 \<Rightarrow> u32 \<Rightarrow> asm_arm_t asm" where
  [asm_ops]: "asm_arm_str_reg_reg_reg env rd rm rn =
     arm_emit_al env (0x7800100 OR push_bit 16 rm OR push_bit 12 rd OR rn)"

definition asm_arm_strh_reg_reg_reg :: "mp_env \<Rightarrow> u32 \<Rightarrow> u32 \<Rightarrow> u32 \<Rightarrow> asm_arm_t asm" where
  [asm_ops]: "asm_arm_strh_reg_reg_reg env rd rm rn =
     asm_seq [arm_emit_al env (0x1a00080 OR push_bit 12 ARM_REG_TEMP OR rn),
              arm_emit_al env (0x18000b0 OR push_bit 16 rm OR push_bit 12 rd OR ARM_REG_TEMP)]"

definition asm_arm_strb_reg_reg_reg :: "mp_env \<Rightarrow> u32 \<Rightarrow> u32 \<Rightarrow> u32 \<Rightarrow> asm_arm_t asm" where
  [asm_ops]: "asm_arm_strb_reg_reg_reg env rd rm rn =
     arm_emit_al env (0x7c00000 OR push_bit 16 rm OR push_bit 12 rd OR rn)"

section \<open>Branches and calls\<close>

text \<open>A branch that does not fit is reported by \<open>printf\<close> and nothing is written.\<close>

definition asm_arm_bcc_label :: "mp_env \<Rightarrow> u32 \<Rightarrow> u32 \<Rightarrow> asm_arm_t asm" where
  "asm_arm_bcc_label env cond label s =
     (if \<not> label < max_num_labels s then Inl AssertionFailed
      else case label_offset label s of
        Inl e \<Rightarrow> Inl e
      | Inr dest \<Rightarrow>
          let rel = signed_drop_bit 2 (dest - code_offset s - 8)
          in if MP_FIT_SIGNED env 24 rel then arm_emit env (cond OR 0xa000000 OR (rel AND 0xffffff)) s
             else Inr s)"

definition asm_arm_b_label :: "mp_env \<Rightarrow> u32 \<Rightarrow> asm_arm_t asm" where
  [asm_ops]: "asm_arm_b_label env label = asm_arm_bcc_label env ASM_ARM_CC_AL label"

definition asm_arm_bl_ind :: "mp_env \<Rightarrow> u32 \<Rightarrow> u32 \<Rightarrow> asm_arm_t asm" where
  [asm_ops]: "asm_arm_bl_ind env fun_id reg_temp =
     asm_seq [asm_assert (fun_id < 0x1000 div 4),
              arm_emit_al env (asm_arm_op_mov_reg ASM_ARM_REG_LR ASM_ARM_REG_PC),
              arm_emit_al env (0x597f000 OR push_bit 2 fun_id)]"

definition asm_arm_bx_reg :: "mp_env \<Rightarrow> u32 \<Rightarrow> asm_arm_t asm" where
  [asm_ops]: "asm_arm_bx_reg env reg_src =
     arm_emit_al env (0x012fff10 OR reg_src)"

section \<open>The operations of the header\<close>

datatype arm_op =
    ARM_API "u32 asm_op"
  | ARM_RISC "u32 asm_risc_op"
  | ARM_NOT_REG u32

fun arm_api :: "mp_env \<Rightarrow> u32 asm_op \<Rightarrow> asm_arm_t asm" where
  "arm_api env (Base_label_assign l) = mp_asm_base_label_assign l"
| "arm_api env (Base_align align) = mp_asm_base_align align"
| "arm_api env (Base_data bytesize val) = mp_asm_base_data bytesize val"
| "arm_api env Base_suppress_code = mp_asm_base_suppress_code"
| "arm_api env (ASM_ENTRY num_locals) = asm_arm_entry env num_locals"
| "arm_api env ASM_EXIT = asm_arm_exit env"
| "arm_api env ASM_END_PASS = asm_arm_end_pass"
| "arm_api env (ASM_JUMP label) = asm_arm_b_label env label"
| "arm_api env (ASM_JUMP_IF_REG_ZERO reg label bool_test) =
     asm_seq [asm_arm_cmp_reg_i8 env reg 0, asm_arm_bcc_label env ASM_ARM_CC_EQ label]"
| "arm_api env (ASM_JUMP_IF_REG_NONZERO reg label bool_test) =
     asm_seq [asm_arm_cmp_reg_i8 env reg 0, asm_arm_bcc_label env ASM_ARM_CC_NE label]"
| "arm_api env (ASM_JUMP_IF_REG_EQ reg1 reg2 label) =
     asm_seq [asm_arm_cmp_reg_reg env reg1 reg2, asm_arm_bcc_label env ASM_ARM_CC_EQ label]"
| "arm_api env (ASM_JUMP_REG reg) = asm_arm_bx_reg env reg"
| "arm_api env (ASM_CALL_IND idx) = asm_arm_bl_ind env idx ASM_ARM_REG_R3"
| "arm_api env (ASM_MOV_LOCAL_REG local_num reg_src) = asm_arm_mov_local_reg env local_num reg_src"
| "arm_api env (ASM_MOV_REG_IMM reg_dest imm) = asm_arm_mov_reg_i32_optimised env reg_dest imm"
| "arm_api env (ASM_MOV_REG_LOCAL reg_dest local_num) = asm_arm_mov_reg_local env reg_dest local_num"
| "arm_api env (ASM_MOV_REG_REG reg_dest reg_src) = asm_arm_mov_reg_reg env reg_dest reg_src"
| "arm_api env (ASM_MOV_REG_LOCAL_ADDR reg_dest local_num) = asm_arm_mov_reg_local_addr env reg_dest local_num"
| "arm_api env (ASM_MOV_REG_PCREL reg_dest label) = asm_arm_mov_reg_pcrel env reg_dest label"
| "arm_api env (ASM_NEG_REG reg_dest) = asm_arm_rsb_reg_reg_imm env reg_dest reg_dest 0"
| "arm_api env (ASM_OR_REG_REG reg_dest reg_src) = asm_arm_orr_reg_reg_reg env reg_dest reg_dest reg_src"
| "arm_api env (ASM_XOR_REG_REG reg_dest reg_src) = asm_arm_eor_reg_reg_reg env reg_dest reg_dest reg_src"
| "arm_api env (ASM_AND_REG_REG reg_dest reg_src) = asm_arm_and_reg_reg_reg env reg_dest reg_dest reg_src"
| "arm_api env (ASM_ADD_REG_REG reg_dest reg_src) = asm_arm_add_reg_reg_reg env reg_dest reg_dest reg_src"
| "arm_api env (ASM_SUB_REG_REG reg_dest reg_src) = asm_arm_sub_reg_reg_reg env reg_dest reg_dest reg_src"
| "arm_api env (ASM_MUL_REG_REG reg_dest reg_src) = asm_arm_mul_reg_reg_reg env reg_dest reg_dest reg_src"
| "arm_api env (ASM_LOAD_REG_REG_OFFSET reg_dest reg_base word_offset) =
     asm_arm_ldr_reg_reg_offset env reg_dest reg_base (4 * word_offset)"
| "arm_api env (ASM_LOAD8_REG_REG reg_dest reg_base) = asm_arm_ldrb_reg_reg_offset env reg_dest reg_base 0"
| "arm_api env (ASM_LOAD8_REG_REG_OFFSET reg_dest reg_base byte_offset) =
     asm_arm_ldrb_reg_reg_offset env reg_dest reg_base byte_offset"
| "arm_api env (ASM_LOAD16_REG_REG reg_dest reg_base) =
     asm_arm_ldrh_reg_reg_offset env reg_dest reg_base (2 * 0)"
| "arm_api env (ASM_LOAD16_REG_REG_OFFSET reg_dest reg_base halfword_offset) =
     asm_arm_ldrh_reg_reg_offset env reg_dest reg_base (2 * halfword_offset)"
| "arm_api env (ASM_LOAD32_REG_REG reg_dest reg_base) =
     asm_arm_ldr_reg_reg_offset env reg_dest reg_base (4 * 0)"
| "arm_api env (ASM_LOAD32_REG_REG_OFFSET reg_dest reg_base word_offset) =
     asm_arm_ldr_reg_reg_offset env reg_dest reg_base (4 * word_offset)"
| "arm_api env (ASM_STORE_REG_REG_OFFSET reg_value reg_base word_offset) =
     asm_arm_str_reg_reg_offset env reg_value reg_base (4 * word_offset)"
| "arm_api env (ASM_STORE8_REG_REG reg_value reg_base) = asm_arm_strb_reg_reg_offset env reg_value reg_base 0"
| "arm_api env (ASM_STORE8_REG_REG_OFFSET reg_value reg_base byte_offset) =
     asm_arm_strb_reg_reg_offset env reg_value reg_base byte_offset"
| "arm_api env (ASM_STORE16_REG_REG reg_value reg_base) =
     asm_arm_strh_reg_reg_offset env reg_value reg_base (2 * 0)"
| "arm_api env (ASM_STORE16_REG_REG_OFFSET reg_value reg_base halfword_offset) =
     asm_arm_strh_reg_reg_offset env reg_value reg_base (2 * halfword_offset)"
| "arm_api env (ASM_STORE32_REG_REG reg_value reg_base) =
     asm_arm_str_reg_reg_offset env reg_value reg_base (4 * 0)"
| "arm_api env (ASM_STORE32_REG_REG_OFFSET reg_value reg_base word_offset) =
     asm_arm_str_reg_reg_offset env reg_value reg_base (4 * word_offset)"
| "arm_api env (ASM_CLR_REG reg_dest) = asm_arm_eor_reg_reg_reg env reg_dest reg_dest reg_dest"

fun arm_risc :: "mp_env \<Rightarrow> u32 asm_risc_op \<Rightarrow> asm_arm_t asm" where
  "arm_risc env (ASM_LSL_REG_REG reg_dest reg_shift) = asm_arm_lsl_reg_reg env reg_dest reg_shift"
| "arm_risc env (ASM_LSR_REG_REG reg_dest reg_shift) = asm_arm_lsr_reg_reg env reg_dest reg_shift"
| "arm_risc env (ASM_ASR_REG_REG reg_dest reg_shift) = asm_arm_asr_reg_reg env reg_dest reg_shift"
| "arm_risc env (ASM_LOAD8_REG_REG_REG reg_dest reg_base reg_index) =
     asm_arm_ldrb_reg_reg_reg env reg_dest reg_base reg_index"
| "arm_risc env (ASM_LOAD16_REG_REG_REG reg_dest reg_base reg_index) =
     asm_arm_ldrh_reg_reg_reg env reg_dest reg_base reg_index"
| "arm_risc env (ASM_LOAD32_REG_REG_REG reg_dest reg_base reg_index) =
     asm_arm_ldr_reg_reg_reg env reg_dest reg_base reg_index"
| "arm_risc env (ASM_STORE8_REG_REG_REG reg_val reg_base reg_index) =
     asm_arm_strb_reg_reg_reg env reg_val reg_base reg_index"
| "arm_risc env (ASM_STORE16_REG_REG_REG reg_val reg_base reg_index) =
     asm_arm_strh_reg_reg_reg env reg_val reg_base reg_index"
| "arm_risc env (ASM_STORE32_REG_REG_REG reg_val reg_base reg_index) =
     asm_arm_str_reg_reg_reg env reg_val reg_base reg_index"

fun arm_exec :: "mp_env \<Rightarrow> arm_op \<Rightarrow> asm_arm_t asm" where
  "arm_exec env (ARM_API op) = arm_api env op"
| "arm_exec env (ARM_RISC op) = arm_risc env op"
| "arm_exec env (ARM_NOT_REG reg_dest) = asm_arm_mvn_reg_reg env reg_dest reg_dest"

end
