(* ===== verification/Asm_ARM_Program.thy ===== *)
theory Asm_ARM_Program
  imports Asm_ARM
begin

text \<open>
  The ARM assembler in two passes: every operation is plain (in the sense of \<open>Plain_Ops\<close>),
  and the assembler is an instance of the two-pass interface.
\<close>

section \<open>Straight-line operations\<close>

text \<open>
  Below this size of the code every branch fits its 24-bit field, also the one to a label that
  is not known yet, so that the two passes write the same number of bytes.
\<close>

abbreviation arm_lim :: nat where
  "arm_lim \<equiv> 33554400"

lemma length_arm_word_bytes [simp]: "length (arm_word_bytes env op) = 4"
  by (simp add: arm_word_bytes_def)

lemma arm_emit_plain:
  "plain arm_lim 4 (arm_emit env op)" "plain arm_lim 4 (arm_emit_al env op)"
proof -
  show "plain arm_lim 4 (arm_emit env op)" for op
    using plain_emit [where 'w = 32, of arm_lim "arm_word_bytes env op"] by (simp add: arm_emit_def)
  then show "plain arm_lim 4 (arm_emit_al env op)" by (simp add: arm_emit_al_def)
qed

lemma asm_arm_mov_reg_i32_seq:
  "ignore_result (asm_arm_mov_reg_i32 env rd imm) = asm_seq
     [arm_emit_al env (0x59f0000 OR push_bit 12 rd), arm_emit_al env 0xa000000, arm_emit env imm]"
  by (simp add: fun_eq_iff ignore_result_def asm_arm_mov_reg_i32_def Let_def split: sum.split)

lemma arm_imm_plain: "plain arm_lim 12 (asm_arm_mov_reg_i32_optimised env rd imm)"
  unfolding asm_arm_mov_reg_i32_optimised_def asm_arm_mov_reg_i32_seq
  by (rule plain_weaken, (rule plain_sum arm_emit_plain)+, simp)

lemma arm_mul_plain: "plain arm_lim 4 (asm_arm_mul_reg_reg_reg env rd rs rm)"
  by (cases "rd = rm")
    (simp_all add: asm_arm_mul_reg_reg_reg_def asm_arm_op_mul_reg_def arm_emit_plain plain_error)

lemmas arm_plain = arm_emit_plain arm_imm_plain arm_mul_plain

section \<open>Branches\<close>

definition arm_bcc_code :: "mp_env \<Rightarrow> u32 \<Rightarrow> u32 \<Rightarrow> u32 \<Rightarrow> u8 list list" where
  "arm_bcc_code env cond dest here =
     (let rel = signed_drop_bit 2 (dest - here - 8)
      in if MP_FIT_SIGNED env 24 rel then [arm_word_bytes env (cond OR 0xa000000 OR (rel AND 0xffffff))] else [])"

definition arm_pcrel_code :: "mp_env \<Rightarrow> u32 \<Rightarrow> u32 \<Rightarrow> u32 \<Rightarrow> u8 list list" where
  "arm_pcrel_code env rd dest here = map (arm_word_bytes env)
     [(0x59f0000 OR push_bit 12 rd) OR ASM_ARM_CC_AL, 0xa000000 OR ASM_ARM_CC_AL, dest - here - (12 + 8),
      asm_arm_op_add_reg rd rd ASM_ARM_REG_PC OR ASM_ARM_CC_AL]"

abbreviation arm_label_jump :: "u32 \<Rightarrow> (u32 \<Rightarrow> u32 \<Rightarrow> u8 list list) \<Rightarrow> asm_arm_t asm" where
  "arm_label_jump label \<equiv> label_jump (checked_label_offset label) (\<lambda>_ _. False)"

lemma asm_arm_bcc_label_code: "asm_arm_bcc_label env cond label = arm_label_jump label (arm_bcc_code env cond)"
  by (simp add: fun_eq_iff asm_arm_bcc_label_def label_jump_def checked_label_offset_def arm_bcc_code_def
      arm_emit_def emit_code_def Let_def split: sum.split)

lemma asm_arm_mov_reg_pcrel_code:
  "asm_arm_mov_reg_pcrel env rd label = arm_label_jump label (arm_pcrel_code env rd)"
  by (simp add: fun_eq_iff asm_arm_mov_reg_pcrel_def label_jump_def checked_label_offset_def arm_pcrel_code_def
      arm_emit_def arm_emit_al_def emit_code_def asm_arm_add_reg_reg_reg_def Let_def split: sum.split)

text \<open>The distance of a branch, to an offset in the range and to a label that is not known.\<close>

lemma arm_distance:
  fixes here dest :: u32
  assumes "unat here \<le> arm_lim"
  shows "unat dest \<le> arm_lim \<Longrightarrow> sint (dest - here - 8) = int (unat dest) - int (unat here) - 8"
    and "sint (- 1 - here - 8) = - int (unat here) - 9"
proof -
  have "unat (here + word_of_nat 8) = unat here + 8" "unat (here + word_of_nat 9) = unat here + 9"
    using assms by (intro unat_add_of_nat; simp)+
  then have n: "unat (here + 8) = unat here + 8" "unat (here + 9) = unat here + 9" by simp_all
  have e: "dest - here - 8 = dest - (here + 8)" "- 1 - here - 8 = 0 - (here + 9)" by simp_all
  show "sint (dest - here - 8) = int (unat dest) - int (unat here) - 8" if "unat dest \<le> arm_lim"
    unfolding e using sint_sub_small [of dest "here + 8"] that n assms by simp
  show "sint (- 1 - here - 8) = - int (unat here) - 9"
    unfolding e using sint_sub_small [of 0 "here + 9"] n assms by simp
qed

lemma fits_signed_24_quarter:
  "- 33554432 \<le> sint w \<Longrightarrow> sint w < 33554432 \<Longrightarrow> fits_signed 24 (signed_drop_bit 2 w)"
  by (simp add: fits_signed_def sint_signed_drop_bit_eq drop_bit_eq_div) linarith

lemma arm_branch_fits:
  assumes "mp_env_ok env" "unat here \<le> arm_lim"
  shows "unat dest \<le> arm_lim \<Longrightarrow> MP_FIT_SIGNED env 24 (signed_drop_bit 2 (dest - here - 8))"
    and "MP_FIT_SIGNED env 24 (signed_drop_bit 2 (- 1 - here - 8))"
proof -
  have env: "MP_FIT_SIGNED env 24 = fits_signed 24" using assms(1) by (simp add: mp_env_ok_def fun_eq_iff)
  show "MP_FIT_SIGNED env 24 (signed_drop_bit 2 (dest - here - 8))" if "unat dest \<le> arm_lim"
    unfolding env using arm_distance(1) [OF assms(2) that] that assms(2)
    by (intro fits_signed_24_quarter) linarith+
  show "MP_FIT_SIGNED env 24 (signed_drop_bit 2 (- 1 - here - 8))"
    unfolding env using arm_distance(2) [OF assms(2)] assms(2)
    by (intro fits_signed_24_quarter) linarith+
qed

lemma arm_bcc_code_lengths:
  "total_length (arm_bcc_code env cond dest here) \<le> 4"
  "mp_env_ok env \<Longrightarrow> unat here \<le> unat dest \<Longrightarrow> unat dest \<le> arm_lim \<Longrightarrow>
     map length (arm_bcc_code env cond dest here) = map length (arm_bcc_code env cond (- 1) here)"
  using arm_branch_fits [of env here]
  by (simp_all add: arm_bcc_code_def Let_def del: diff_diff_eq)

lemma arm_bcc_plain:
  assumes "mp_env_ok env"
  shows "plain arm_lim 4 (asm_arm_bcc_label env cond label)"
  unfolding asm_arm_bcc_label_code
  by (rule plain_jump [where l = label])
    (use arm_bcc_code_lengths(2) [OF assms] in \<open>auto simp: arm_bcc_code_lengths(1)\<close>)

lemma arm_pcrel_plain: "plain arm_lim 16 (asm_arm_mov_reg_pcrel env rd label)"
  unfolding asm_arm_mov_reg_pcrel_code
  by (rule plain_jump [where l = label]) (simp_all add: arm_pcrel_code_def)

section \<open>Entry and exit\<close>

lemma same_added_arm:
  "same_added (c :: asm_arm_t) e \<longleftrightarrow> push_reglist c = push_reglist e \<and> stack_adjust c = stack_adjust e"
  by (cases c; cases e) (auto simp: same_added_def)

lemma keeps_base_arm [simp]: "keeps_base (\<lambda>s. s\<lparr>push_reglist := x, stack_adjust := y\<rparr>)"
  by (simp add: keeps_base_def)

definition arm_exit_seq :: "mp_env \<Rightarrow> u32 \<times> u32 \<Rightarrow> asm_arm_t asm" where
  "arm_exit_seq env = (\<lambda>(adjust, reglist). asm_seq
       [asm_when (adjust > 0)
          (if adjust < 0x100
           then arm_emit_al env (asm_arm_op_add_imm ASM_ARM_REG_SP ASM_ARM_REG_SP adjust)
           else asm_seq
             [asm_arm_mov_reg_i32_optimised env ARM_REG_TEMP adjust,
              arm_emit_al env (asm_arm_op_add_reg ASM_ARM_REG_SP ASM_ARM_REG_SP ARM_REG_TEMP)]),
        arm_emit_al env (asm_arm_op_pop (reglist OR push_bit (unat ASM_ARM_REG_PC) 1))])"

lemma asm_arm_exit_seq: "asm_arm_exit env s = arm_exit_seq env (stack_adjust s, push_reglist s) s"
  by (simp add: asm_arm_exit_def arm_exit_seq_def)

lemma arm_exit_seq_plain: "plain arm_lim 20 (arm_exit_seq env x)"
  unfolding arm_exit_seq_def case_prod_beta
  by (rule plain_weaken, (rule plain_sum arm_plain)+, simp)

lemma arm_exit_ok: "two_pass_ok same_added same_added arm_lim 20 (asm_arm_exit env)"
  by (rule two_pass_readI [where v = "\<lambda>s. (stack_adjust s, push_reglist s)" and F = "arm_exit_seq env"])
    (simp_all add: asm_arm_exit_seq same_added_arm plainD(2) [OF arm_exit_seq_plain])

text \<open>The entry sets the fields of the frame and then writes code.\<close>

definition arm_entry_code :: "mp_env \<Rightarrow> u32 \<Rightarrow> asm_arm_t asm" where
  "arm_entry_code env num_locals =
     (let adjust = arm_frame_size num_locals
      in asm_seq
        [arm_emit_al env (asm_arm_op_push (ARM_ENTRY_REGLIST OR push_bit (unat ASM_ARM_REG_LR) 1)),
         asm_when (adjust > 0)
           (if adjust < 0x100
            then arm_emit_al env (asm_arm_op_sub_imm ASM_ARM_REG_SP ASM_ARM_REG_SP adjust)
            else asm_seq
              [asm_arm_mov_reg_i32_optimised env ARM_REG_TEMP adjust,
               arm_emit_al env (asm_arm_op_sub_reg ASM_ARM_REG_SP ASM_ARM_REG_SP ARM_REG_TEMP)])])"

lemma arm_entry_code_plain: "plain arm_lim 20 (arm_entry_code env num_locals)"
  unfolding arm_entry_code_def Let_def
  by (rule plain_weaken, (rule plain_sum arm_plain)+, simp)

lemma asm_arm_entry_seq:
  "asm_arm_entry env num_locals = asm_seq
     [asm_assert (sint num_locals \<ge> 0),
      \<lambda>s. Inr (s\<lparr>push_reglist := ARM_ENTRY_REGLIST, stack_adjust := arm_frame_size num_locals\<rparr>),
      arm_entry_code env num_locals]"
  by (simp add: fun_eq_iff asm_arm_entry_def arm_entry_code_def Let_def split: sum.split)

lemma arm_entry_ok: "two_pass_ok (\<lambda>_ _. True) same_added arm_lim 20 (asm_arm_entry env num_locals)"
proof -
  have "two_pass_ok (\<lambda>_ _. True) same_added arm_lim 0
      (\<lambda>s :: asm_arm_t. Inr (s\<lparr>push_reglist := ARM_ENTRY_REGLIST, stack_adjust := arm_frame_size num_locals\<rparr>))"
    by (rule two_pass_update) (simp_all add: same_added_arm)
  moreover have "two_pass_ok same_added same_added arm_lim 20 (arm_entry_code env num_locals)"
    by (rule plainD(2) [OF arm_entry_code_plain]) simp
  ultimately have "two_pass_ok (\<lambda>_ _. True) same_added arm_lim 20
      (asm_seq [\<lambda>s. Inr (s\<lparr>push_reglist := ARM_ENTRY_REGLIST, stack_adjust := arm_frame_size num_locals\<rparr>),
         arm_entry_code env num_locals])"
    by (rule two_pass_two) simp
  from two_pass_step [where k = 0, OF two_pass_assert, of _ _ arm_lim 20, simplified, OF this]
  show ?thesis unfolding asm_arm_entry_seq .
qed

lemma arm_entry_exit_quiet:
  "asm_arm_entry env num_locals s = Inl e \<Longrightarrow> \<not> raised e"
  "asm_arm_exit env s = Inl e \<Longrightarrow> \<not> raised e"
  using plainD(3) [OF arm_entry_code_plain] plainD(3) [OF arm_exit_seq_plain]
  by (auto simp: asm_arm_entry_seq asm_arm_exit_seq asm_assert_def split: sum.splits if_splits)

section \<open>Whole programs\<close>

fun arm_is_entry :: "arm_op \<Rightarrow> bool" where
  "arm_is_entry (ARM_API op) = is_ASM_ENTRY op"
| "arm_is_entry _ = False"

fun arm_allowed :: "arm_op \<Rightarrow> bool" where
  "arm_allowed (ARM_API op) = base_allowed op"
| "arm_allowed _ = True"

fun arm_cost :: "arm_op \<Rightarrow> nat" where
  "arm_cost (ARM_API op) = base_cost 20 op"
| "arm_cost _ = 20"

lemma asm_arm_end_pass_skip: "asm_arm_end_pass = skip"
  by (simp add: asm_arm_end_pass_def fun_eq_iff)

lemma arm_far_plain:
  "plain arm_lim 16 (asm_seq [asm_arm_mov_reg_i32_optimised env rd imm, arm_emit_al env op])"
  "plain arm_lim 8 (asm_seq [arm_emit_al env op, arm_emit_al env op'])"
  by (rule plain_weaken, (rule plain_sum arm_plain)+, simp)+

lemma arm_api_plain:
  assumes "mp_env_ok env" "\<not> is_ASM_ENTRY op" "op \<noteq> ASM_EXIT" "base_allowed op"
  shows "plain arm_lim (base_cost 20 op) (arm_api env op)"
proof -
  note w = plain_weaken [where m = 20]
  note rules = arm_emit_plain [THEN w] arm_imm_plain [THEN w] arm_mul_plain [THEN w] arm_far_plain [THEN w]
    arm_bcc_plain [OF assms(1), THEN w] arm_pcrel_plain [THEN w]
  have jumps: "plain arm_lim 20 (asm_seq [arm_emit_al env op, asm_arm_bcc_label env cond label])" for op cond label
    by (rule w, (rule plain_sum arm_plain arm_bcc_plain [OF assms(1)])+, simp)
  have call: "plain arm_lim 20 (asm_seq [asm_assert b, arm_emit_al env op, arm_emit_al env op'])" for b op op'
    by (rule w, (rule plain_sum arm_plain)+, simp)
  show ?thesis
    using assms
    by (cases op)
      (simp_all add: asm_ops rules jumps call plain_base plain_skip asm_arm_end_pass_skip
        del: asm_seq.simps base_allowed.simps asm_arm_mul_reg_reg_reg_def split del: if_split,
       simp_all add: rules split: if_splits del: asm_seq.simps base_allowed.simps)
qed

lemma arm_risc_plain: "plain arm_lim 20 (arm_risc env op)"
  by (cases op; simp only: arm_risc.simps asm_ops)
    (rule plain_weaken, (rule plain_sum arm_plain)+, simp)+

lemma arm_exec_plain:
  assumes "mp_env_ok env" "\<not> arm_is_entry op" "op \<noteq> ARM_API ASM_EXIT" "arm_allowed op"
  shows "plain arm_lim (arm_cost op) (arm_exec env op)"
  using assms arm_api_plain arm_risc_plain plain_weaken [OF arm_emit_plain(2), where m = 20]
  by (cases op) (simp_all add: asm_ops)

lemma arm_exec_quiet:
  assumes "mp_env_ok env" "arm_allowed op" "arm_exec env op s = Inl e"
  shows "\<not> raised e"
proof (cases "arm_is_entry op \<or> op = ARM_API ASM_EXIT")
  case True
  then show ?thesis
    using assms(3) arm_entry_exit_quiet by (cases op rule: arm_is_entry.cases; auto elim!: is_ASM_ENTRY.elims)
next
  case False
  then show ?thesis using plainD(3) [OF arm_exec_plain] assms by blast
qed

interpretation arm: plain_assembler "arm_exec env" arm_cost arm_is_entry
  "\<lambda>op. mp_env_ok env \<and> arm_allowed op" same_added arm_lim for env
proof unfold_locales
  fix op
  assume op: "mp_env_ok env \<and> arm_allowed op"
  show "two_pass_ok (\<lambda>_ _. True) same_added arm_lim (arm_cost op) (arm_exec env op)" if "arm_is_entry op"
    using that arm_entry_ok by (cases op rule: arm_is_entry.cases) (auto elim!: is_ASM_ENTRY.elims)
  show "two_pass_ok same_added same_added arm_lim (arm_cost op) (arm_exec env op)" if "\<not> arm_is_entry op"
    using that op arm_exit_ok plainD(2) [OF arm_exec_plain] by (cases "op = ARM_API ASM_EXIT") auto
  show "\<not> raised e" if "arm_exec env op s = Inl e" for s e
    using that op arm_exec_quiet by blast
qed (simp_all add: added_rel_def)

text \<open>
  C21: A function (an entry followed by any operations of the ARM assembler) of at most 32 MB
  whose compute pass succeeds is assembled by the emit pass without a failed assertion, an
  exception or a store outside the buffer, into exactly the size and with the label offsets of
  the compute pass.
\<close>

theorem arm_assembles:
  assumes "mp_env_ok env"
    and "\<forall>op \<in> set body. \<not> arm_is_entry op \<and> arm_allowed op"
    and "run_pass alloc (arm_exec env) (ARM_API (ASM_ENTRY locals) # body) MP_ASM_PASS_COMPUTE s = Inr c"
    and "sum_list (map arm_cost (ARM_API (ASM_ENTRY locals) # body)) \<le> arm_lim"
    and "alloc_gives alloc (code_offset c)"
  shows "\<exists>e. run_pass alloc (arm_exec env) (ARM_API (ASM_ENTRY locals) # body) MP_ASM_PASS_EMIT c = Inr e \<and>
    code_offset e = code_offset c \<and> label_offsets e = label_offsets c \<and> code_offset e \<le> code_size e"
  by (rule arm.assembles [OF _ _ _ assms(3,4,5)]) (use assms(1,2) in simp_all)

definition arm_demo_env :: mp_env where
  "arm_demo_env = \<lparr>MP_ENDIANNESS_LITTLE = True,
     mp_popcount = (\<lambda>x. word_of_nat (count_ones x)),
     mp_clz = (\<lambda>x. word_of_nat (count_leading_zeros x)),
     mp_ctz = (\<lambda>x. word_of_nat (count_trailing_zeros x)),
     MP_FIT_SIGNED = fits_signed, MP_FIT_UNSIGNED = fits_unsigned\<rparr>"

lemma mp_env_ok_arm_demo: "mp_env_ok arm_demo_env"
  by (simp add: mp_env_ok_def arm_demo_env_def)

definition arm_demo_state :: asm_arm_t where
  "arm_demo_state = \<lparr>pass = 0, suppress = False, code_offset = 0, code_size = 0,
     code_base = None, max_num_labels = 2, label_offsets = [0, 0], push_reglist = 0, stack_adjust = 0\<rparr>"

definition arm_demo_body :: "arm_op list" where
  "arm_demo_body = map ARM_API
     [Base_label_assign 0, ASM_MOV_REG_IMM 3 0x12345, ASM_CALL_IND 60, ASM_JUMP_IF_REG_ZERO 0 1 True, ASM_JUMP 0,
      Base_label_assign 1, ASM_MOV_LOCAL_REG 255 2, ASM_EXIT]"

abbreviation arm_demo_pass :: "int \<Rightarrow> asm_arm_t asm" where
  "arm_demo_pass \<equiv> run_pass exact_alloc (arm_exec arm_demo_env) (ARM_API (ASM_ENTRY 300) # arm_demo_body)"

lemma arm_demo_computes:
  "case arm_demo_pass MP_ASM_PASS_COMPUTE arm_demo_state of Inl e \<Rightarrow> False | Inr c \<Rightarrow> code_offset c = 76"
  by code_simp

theorem arm_assembles_witness:
  "\<exists>c e. arm_demo_pass MP_ASM_PASS_COMPUTE arm_demo_state = Inr c \<and>
     arm_demo_pass MP_ASM_PASS_EMIT c = Inr e \<and> code_offset c = 76 \<and> code_offset e = 76"
proof -
  obtain c where c: "arm_demo_pass MP_ASM_PASS_COMPUTE arm_demo_state = Inr c" "code_offset c = 76"
    using arm_demo_computes by (auto split: sum.splits)
  have "\<forall>op \<in> set arm_demo_body. \<not> arm_is_entry op \<and> arm_allowed op"
    "sum_list (map arm_cost (ARM_API (ASM_ENTRY 300) # arm_demo_body)) \<le> arm_lim"
    by (simp_all add: arm_demo_body_def)
  then show ?thesis using arm_assembles [OF mp_env_ok_arm_demo _ c(1)] c by auto
qed

end
