(* ===== verification/ARM_Encodings.thy ===== *)
theory ARM_Encodings
  imports ARM_ISA Asm_ARM_Program
begin

text \<open>
  The instruction words the ARM assembler writes, and what the decoder of the instruction set makes
  of them: data processing, loads and stores, register lists, branches and calls.
\<close>

section \<open>Fetching what the assembler writes\<close>

lemma fetches_arm:
  assumes "MP_ENDIANNESS_LITTLE env" "arm_decode op = Some i"
  shows "fetches_at arm_fetch (arm_word_bytes env op) i"
proof -
  have "le_word (arm_word_bytes env op) = op"
    using assms(1) le_word_le_bytes [of 4 op] by (simp add: arm_word_bytes_def take_bit_word_eq_self)
  then show ?thesis using assms(2) by (simp add: fetches_at_def arm_fetch_def)
qed

text \<open>An instruction word put together from its fields.\<close>

definition aword :: "u32 \<Rightarrow> u32 \<Rightarrow> u32 \<Rightarrow> u32 \<Rightarrow> u32 \<Rightarrow> u32" where
  "aword c h rn rd x = push_bit 28 c OR push_bit 20 h OR push_bit 16 rn OR push_bit 12 rd OR x"

lemma arm_decode_aword:
  assumes "c < 15" "take_bit 8 h = h" "rn < 16" "rd < 16" "take_bit 12 x = x"
  shows "arm_decode (aword c h rn rd x) =
    map_option (Pair c) (arm_decode_fields h (unat rn) (unat rd) x (aword c h rn rd x))"
proof -
  have t: "take_bit 4 c = c" "take_bit 4 rn = rn" "take_bit 4 rd = rd"
    using assms by (auto intro!: small_fields intro: order_less_trans)
  have "afield (aword c h rn rd x) 28 4 = c" "afield (aword c h rn rd x) 20 8 = h" "afield (aword c h rn rd x) 16 4 = rn"
    "afield (aword c h rn rd x) 12 4 = rd" "take_bit 12 (aword c h rn rd x) = x"
    using t assms(2,5) unfolding aword_def word32_eq_iff_bits
    by (simp_all only: list.pred_inject bit_simps) (simp_all add: word_bits_simps)
  then show ?thesis using assms(1) by (auto simp: arm_decode_def)
qed

text \<open>Instructions that always execute, by the upper bits of their word.\<close>

abbreviation arm_al :: "mp_env \<Rightarrow> u32 \<Rightarrow> u8 list" where
  "arm_al env op \<equiv> arm_word_bytes env (op OR ASM_ARM_CC_AL)"

lemma fetches_al:
  assumes "MP_ENDIANNESS_LITTLE env" "op = push_bit 20 h OR push_bit 16 rn OR push_bit 12 rd OR x"
    and "take_bit 8 h = h" "rn < 16" "rd < 16" "take_bit 12 x = x"
    and "arm_decode_fields h (unat rn) (unat rd) x (aword 14 h rn rd x) = Some i"
  shows "fetches_at arm_fetch (arm_al env op) (14, i)"
proof -
  have "op OR ASM_ARM_CC_AL = aword 14 h rn rd x" by (simp add: assms(2) aword_def asm_consts or.commute)
  then show ?thesis using arm_decode_aword [of 14 h rn rd x] assms by (intro fetches_arm) simp_all
qed

lemma unat_not_15: "r < 15 \<Longrightarrow> unat (r :: u32) \<noteq> 15"
  by (auto simp: word_less_nat_alt)

lemma reg_15_16: "r < 15 \<Longrightarrow> r < (16 :: u32)"
  by (simp add: order_less_trans)

lemma fetches_dp_imm:
  assumes "MP_ENDIANNESS_LITTLE env" "rd < 15" "rn < 16" "take_bit 8 imm = imm"
  shows "fetches_at arm_fetch (arm_al env (asm_arm_op_mov_imm rd imm)) (14, A_DP A_MOV (unat rd) 0 (A_Imm imm))"
    "fetches_at arm_fetch (arm_al env (asm_arm_op_mvn_imm rd imm)) (14, A_DP A_MVN (unat rd) 0 (A_Imm imm))"
    "fetches_at arm_fetch (arm_al env (asm_arm_op_add_imm rd rn imm)) (14, A_DP A_ADD (unat rd) (unat rn) (A_Imm imm))"
    "fetches_at arm_fetch (arm_al env (asm_arm_op_sub_imm rd rn imm)) (14, A_DP A_SUB (unat rd) (unat rn) (A_Imm imm))"
    "fetches_at arm_fetch (arm_al env (0x3500000 OR push_bit 16 rn OR (imm AND 0xFF))) (14, A_CMP (unat rn) (A_Imm imm))"
proof -
  have x: "take_bit 12 imm = imm" "imm AND 0xff = imm"
    using assms(4) unfolding word32_eq_iff_bits by (simp_all add: bit_simps)
  have "drop_bit 8 imm = 0" using drop_bit_take_bit [of 8 8 imm] assms(4) by simp
  note f = this x assms(2,3,4) reg_15_16 unat_not_15 arm_decode_fields_def arm_decode_dp_def asm_encodes
  show "fetches_at arm_fetch (arm_al env (asm_arm_op_mov_imm rd imm)) (14, A_DP A_MOV (unat rd) 0 (A_Imm imm))"
    by (rule fetches_al [OF assms(1), where h = "0x3a" and rn = 0 and rd = rd and x = imm]) (simp_all add: f)
  show "fetches_at arm_fetch (arm_al env (asm_arm_op_mvn_imm rd imm)) (14, A_DP A_MVN (unat rd) 0 (A_Imm imm))"
    by (rule fetches_al [OF assms(1), where h = "0x3e" and rn = 0 and rd = rd and x = imm]) (simp_all add: f)
  show "fetches_at arm_fetch (arm_al env (asm_arm_op_add_imm rd rn imm)) (14, A_DP A_ADD (unat rd) (unat rn) (A_Imm imm))"
    by (rule fetches_al [OF assms(1), where h = "0x28" and rn = rn and rd = rd and x = imm]) (simp_all add: f or.assoc)
  show "fetches_at arm_fetch (arm_al env (asm_arm_op_sub_imm rd rn imm)) (14, A_DP A_SUB (unat rd) (unat rn) (A_Imm imm))"
    by (rule fetches_al [OF assms(1), where h = "0x24" and rn = rn and rd = rd and x = imm]) (simp_all add: f or.assoc)
  show "fetches_at arm_fetch (arm_al env (0x3500000 OR push_bit 16 rn OR (imm AND 0xFF))) (14, A_CMP (unat rn) (A_Imm imm))"
    by (rule fetches_al [OF assms(1), where h = "0x35" and rn = rn and rd = 0 and x = imm]) (simp_all add: f or.assoc)
qed


lemma operand_fields:
  assumes "rm < 16"
  shows "take_bit 12 rm = rm" "take_bit 4 rm = rm" "drop_bit 7 rm = 0" "afield rm 4 3 = 0" "afield rm 4 4 = 0"
    "take_bit 12 (0xb0 OR rm) = 0xb0 OR rm" "take_bit 4 (0xb0 OR rm) = rm" "afield (0xb0 OR rm) 4 4 = 0xb"
proof -
  have t: "take_bit 4 rm = rm" using assms by (rule small_fields(2))
  show "take_bit 12 rm = rm" "take_bit 4 rm = rm" "afield rm 4 3 = 0" "afield rm 4 4 = 0"
    "take_bit 12 (0xb0 OR rm) = 0xb0 OR rm" "take_bit 4 (0xb0 OR rm) = rm" "afield (0xb0 OR rm) 4 4 = 0xb"
    using t unfolding word32_eq_iff_bits by (simp_all add: word_bits_simps)
  show "drop_bit 7 rm = 0" using t drop_bit_take_bit [of 7 4 rm] by simp
qed

lemma fetches_dp_reg:
  assumes "MP_ENDIANNESS_LITTLE env" "rd < 15" "rn < 16" "rm < 16"
  shows "fetches_at arm_fetch (arm_al env (asm_arm_op_mov_reg rd rm)) (14, A_DP A_MOV (unat rd) 0 (A_Shl (unat rm) 0))"
    "fetches_at arm_fetch (arm_al env (asm_arm_op_add_reg rd rn rm)) (14, A_DP A_ADD (unat rd) (unat rn) (A_Shl (unat rm) 0))"
    "fetches_at arm_fetch (arm_al env (asm_arm_op_sub_reg rd rn rm)) (14, A_DP A_SUB (unat rd) (unat rn) (A_Shl (unat rm) 0))"
    "fetches_at arm_fetch (arm_al env (0x1500000 OR push_bit 16 rn OR rm)) (14, A_CMP (unat rn) (A_Shl (unat rm) 0))"
proof -
  note f = assms(2-4) reg_15_16 unat_not_15 arm_decode_fields_def arm_decode_dp_def shifted_register_def asm_encodes operand_fields or.assoc
  show "fetches_at arm_fetch (arm_al env (asm_arm_op_mov_reg rd rm)) (14, A_DP A_MOV (unat rd) 0 (A_Shl (unat rm) 0))"
    by (rule fetches_al [OF assms(1), where h = "0x1a" and rn = 0 and rd = rd and x = rm]) (simp_all add: f)
  show "fetches_at arm_fetch (arm_al env (asm_arm_op_add_reg rd rn rm)) (14, A_DP A_ADD (unat rd) (unat rn) (A_Shl (unat rm) 0))"
    by (rule fetches_al [OF assms(1), where h = "0x08" and rn = rn and rd = rd and x = rm]) (simp_all add: f)
  show "fetches_at arm_fetch (arm_al env (asm_arm_op_sub_reg rd rn rm)) (14, A_DP A_SUB (unat rd) (unat rn) (A_Shl (unat rm) 0))"
    by (rule fetches_al [OF assms(1), where h = "0x04" and rn = rn and rd = rd and x = rm]) (simp_all add: f)
  show "fetches_at arm_fetch (arm_al env (0x1500000 OR push_bit 16 rn OR rm)) (14, A_CMP (unat rn) (A_Shl (unat rm) 0))"
    by (rule fetches_al [OF assms(1), where h = "0x15" and rn = rn and rd = 0 and x = rm]) (simp_all add: f)
qed

text \<open>Loads and stores with an offset in the instruction, and with the offset in a register.\<close>

lemma fetches_mem_imm:
  assumes "MP_ENDIANNESS_LITTLE env" "rd < 15" "rn < 16" "take_bit 12 x = x"
  shows "fetches_at arm_fetch (arm_al env (0x5900000 OR push_bit 16 rn OR push_bit 12 rd OR x)) (14, A_LOAD 4 (unat rd) (unat rn) (A_Imm x))"
    "fetches_at arm_fetch (arm_al env (0x5800000 OR push_bit 16 rn OR push_bit 12 rd OR x)) (14, A_STORE 4 (unat rd) (unat rn) (A_Imm x))"
    "fetches_at arm_fetch (arm_al env (0x5d00000 OR push_bit 16 rn OR push_bit 12 rd OR x)) (14, A_LOAD 1 (unat rd) (unat rn) (A_Imm x))"
    "fetches_at arm_fetch (arm_al env (0x5c00000 OR push_bit 16 rn OR push_bit 12 rd OR x)) (14, A_STORE 1 (unat rd) (unat rn) (A_Imm x))"
    "fetches_at arm_fetch (arm_al env (0x59f0000 OR push_bit 12 rd)) (14, A_LOAD 4 (unat rd) 15 (A_Imm 0))"
proof -
  note f = assms(2-4) reg_15_16 unat_not_15 arm_decode_fields_def arm_decode_mem_def or.assoc
  show "fetches_at arm_fetch (arm_al env (0x5900000 OR push_bit 16 rn OR push_bit 12 rd OR x)) (14, A_LOAD 4 (unat rd) (unat rn) (A_Imm x))"
    by (rule fetches_al [OF assms(1), where h = "0x59" and rn = rn and rd = rd and x = x]) (simp_all add: f)
  show "fetches_at arm_fetch (arm_al env (0x5800000 OR push_bit 16 rn OR push_bit 12 rd OR x)) (14, A_STORE 4 (unat rd) (unat rn) (A_Imm x))"
    by (rule fetches_al [OF assms(1), where h = "0x58" and rn = rn and rd = rd and x = x]) (simp_all add: f)
  show "fetches_at arm_fetch (arm_al env (0x5d00000 OR push_bit 16 rn OR push_bit 12 rd OR x)) (14, A_LOAD 1 (unat rd) (unat rn) (A_Imm x))"
    by (rule fetches_al [OF assms(1), where h = "0x5d" and rn = rn and rd = rd and x = x]) (simp_all add: f)
  show "fetches_at arm_fetch (arm_al env (0x5c00000 OR push_bit 16 rn OR push_bit 12 rd OR x)) (14, A_STORE 1 (unat rd) (unat rn) (A_Imm x))"
    by (rule fetches_al [OF assms(1), where h = "0x5c" and rn = rn and rd = rd and x = x]) (simp_all add: f)
  show "fetches_at arm_fetch (arm_al env (0x59f0000 OR push_bit 12 rd)) (14, A_LOAD 4 (unat rd) 15 (A_Imm 0))"
    by (rule fetches_al [OF assms(1), where h = "0x59" and rn = 15 and rd = rd and x = 0])
      (simp_all add: assms(2) reg_15_16 unat_not_15 arm_decode_fields_def arm_decode_mem_def or.assoc [symmetric])
qed

lemma halfword_word:
  "k = push_bit 20 h OR (0xb0 :: u32) \<Longrightarrow> k OR a OR b OR x = push_bit 20 h OR a OR b OR (0xb0 OR x)"
  by (simp only: or.assoc or.commute or.left_commute)

lemma fetches_mem_reg:
  assumes "MP_ENDIANNESS_LITTLE env" "rd < 15" "rn < 16" "rm < 16"
  shows "fetches_at arm_fetch (arm_al env (0x7900000 OR push_bit 16 rn OR push_bit 12 rd OR rm)) (14, A_LOAD 4 (unat rd) (unat rn) (A_Shl (unat rm) 0))"
    "fetches_at arm_fetch (arm_al env (0x7800000 OR push_bit 16 rn OR push_bit 12 rd OR rm)) (14, A_STORE 4 (unat rd) (unat rn) (A_Shl (unat rm) 0))"
    "fetches_at arm_fetch (arm_al env (0x7d00000 OR push_bit 16 rn OR push_bit 12 rd OR rm)) (14, A_LOAD 1 (unat rd) (unat rn) (A_Shl (unat rm) 0))"
    "fetches_at arm_fetch (arm_al env (0x7c00000 OR push_bit 16 rn OR push_bit 12 rd OR rm)) (14, A_STORE 1 (unat rd) (unat rn) (A_Shl (unat rm) 0))"
    "fetches_at arm_fetch (arm_al env (0x19000b0 OR push_bit 16 rn OR push_bit 12 rd OR rm)) (14, A_LOAD 2 (unat rd) (unat rn) (A_Shl (unat rm) 0))"
    "fetches_at arm_fetch (arm_al env (0x18000b0 OR push_bit 16 rn OR push_bit 12 rd OR rm)) (14, A_STORE 2 (unat rd) (unat rn) (A_Shl (unat rm) 0))"
proof -
  note f = assms(2-4) reg_15_16 unat_not_15 arm_decode_fields_def arm_decode_mem_def shifted_register_def operand_fields or.assoc
  show "fetches_at arm_fetch (arm_al env (0x7900000 OR push_bit 16 rn OR push_bit 12 rd OR rm)) (14, A_LOAD 4 (unat rd) (unat rn) (A_Shl (unat rm) 0))"
    by (rule fetches_al [OF assms(1), where h = "0x79" and rn = rn and rd = rd and x = rm]) (simp_all add: f)
  show "fetches_at arm_fetch (arm_al env (0x7800000 OR push_bit 16 rn OR push_bit 12 rd OR rm)) (14, A_STORE 4 (unat rd) (unat rn) (A_Shl (unat rm) 0))"
    by (rule fetches_al [OF assms(1), where h = "0x78" and rn = rn and rd = rd and x = rm]) (simp_all add: f)
  show "fetches_at arm_fetch (arm_al env (0x7d00000 OR push_bit 16 rn OR push_bit 12 rd OR rm)) (14, A_LOAD 1 (unat rd) (unat rn) (A_Shl (unat rm) 0))"
    by (rule fetches_al [OF assms(1), where h = "0x7d" and rn = rn and rd = rd and x = rm]) (simp_all add: f)
  show "fetches_at arm_fetch (arm_al env (0x7c00000 OR push_bit 16 rn OR push_bit 12 rd OR rm)) (14, A_STORE 1 (unat rd) (unat rn) (A_Shl (unat rm) 0))"
    by (rule fetches_al [OF assms(1), where h = "0x7c" and rn = rn and rd = rd and x = rm]) (simp_all add: f)
  have h: "(0x19000b0 :: u32) OR push_bit 16 rn OR push_bit 12 rd OR rm = push_bit 20 0x19 OR push_bit 16 rn OR push_bit 12 rd OR (0xb0 OR rm)"
    "(0x18000b0 :: u32) OR push_bit 16 rn OR push_bit 12 rd OR rm = push_bit 20 0x18 OR push_bit 16 rn OR push_bit 12 rd OR (0xb0 OR rm)"
    by (rule halfword_word; simp)+
  show "fetches_at arm_fetch (arm_al env (0x19000b0 OR push_bit 16 rn OR push_bit 12 rd OR rm)) (14, A_LOAD 2 (unat rd) (unat rn) (A_Shl (unat rm) 0))"
    by (rule fetches_al [OF assms(1) h(1)]) (simp_all add: f)
  show "fetches_at arm_fetch (arm_al env (0x18000b0 OR push_bit 16 rn OR push_bit 12 rd OR rm)) (14, A_STORE 2 (unat rd) (unat rn) (A_Shl (unat rm) 0))"
    by (rule fetches_al [OF assms(1) h(2)]) (simp_all add: f)
qed

lemma fetches_half_imm:
  assumes "MP_ENDIANNESS_LITTLE env" "rd < 15" "rn < 16" "take_bit 8 x = x"
  shows "fetches_at arm_fetch (arm_al env (0x1d000b0 OR push_bit 16 rn OR push_bit 12 rd OR (push_bit 4 (x AND 0xf0) OR (x AND 0xf))))
      (14, A_LOAD 2 (unat rd) (unat rn) (A_Imm x))"
    "fetches_at arm_fetch (arm_al env (0x1c000b0 OR push_bit 16 rn OR push_bit 12 rd OR (push_bit 4 (x AND 0xf0) OR (x AND 0xf))))
      (14, A_STORE 2 (unat rd) (unat rn) (A_Imm x))"
proof -
  define y where "y = 0xb0 OR (push_bit 4 (x AND 0xf0) OR (x AND 0xf))"
  have y: "take_bit 12 y = y" "afield y 4 4 = 0xb" "afield y 8 4 = afield x 4 4" "take_bit 4 y = take_bit 4 x"
    "push_bit 4 (afield x 4 4) OR take_bit 4 x = x"
    using assms(4) unfolding y_def word32_eq_iff_bits by (simp_all add: word_bits_simps)
  have "drop_bit 8 y = afield y 8 4" using drop_bit_take_bit [of 8 12 y] y(1) by simp
  then have d: "push_bit 4 (drop_bit 8 y) OR take_bit 4 y = x" using y(3-5) by simp
  have h: "(0x1d000b0 :: u32) OR push_bit 16 rn OR push_bit 12 rd OR (push_bit 4 (x AND 0xf0) OR (x AND 0xf)) = push_bit 20 0x1d OR push_bit 16 rn OR push_bit 12 rd OR y"
    "(0x1c000b0 :: u32) OR push_bit 16 rn OR push_bit 12 rd OR (push_bit 4 (x AND 0xf0) OR (x AND 0xf)) = push_bit 20 0x1c OR push_bit 16 rn OR push_bit 12 rd OR y"
    unfolding y_def by (rule halfword_word; simp)+
  note f = assms(2,3) reg_15_16 unat_not_15 arm_decode_fields_def arm_decode_mem_def y(1,2) d
  show "fetches_at arm_fetch (arm_al env (0x1d000b0 OR push_bit 16 rn OR push_bit 12 rd OR (push_bit 4 (x AND 0xf0) OR (x AND 0xf))))
      (14, A_LOAD 2 (unat rd) (unat rn) (A_Imm x))"
    by (rule fetches_al [OF assms(1) h(1)]) (simp_all add: f)
  show "fetches_at arm_fetch (arm_al env (0x1c000b0 OR push_bit 16 rn OR push_bit 12 rd OR (push_bit 4 (x AND 0xf0) OR (x AND 0xf))))
      (14, A_STORE 2 (unat rd) (unat rn) (A_Imm x))"
    by (rule fetches_al [OF assms(1) h(2)]) (simp_all add: f)
qed

lemma fetches_branch:
  assumes "MP_ENDIANNESS_LITTLE env" "c < 15"
  shows "fetches_at arm_fetch (arm_word_bytes env (push_bit 28 c OR 0xa000000 OR (rel AND 0xffffff)))
    (c, A_B (signed_take_bit 25 (push_bit 2 rel)))"
proof (rule fetches_arm [OF assms(1)])
  let ?w = "push_bit 28 c OR 0xa000000 OR (rel AND 0xffffff)"
  have t: "take_bit 4 c = c" using assms(2) by (intro small_fields(2)) (rule reg_15_16)
  have h: "afield ?w 28 4 = c" "drop_bit 4 (afield ?w 20 8) = 0xa" "signed_take_bit 25 (push_bit 2 (take_bit 24 ?w)) = signed_take_bit 25 (push_bit 2 rel)"
    "drop_bit 5 (afield ?w 20 8) = 5"
    using t unfolding word32_eq_iff_bits by (simp_all only: list.pred_inject bit_simps) (simp_all add: word_bits_simps)
  have "drop_bit 4 k = 0xa \<Longrightarrow> k \<noteq> 0x92 \<and> k \<noteq> (0x8b :: u32)" for k by auto
  from this [OF h(2)] have "afield ?w 20 8 \<noteq> 0x92" "afield ?w 20 8 \<noteq> 0x8b" by blast+
  then show "arm_decode ?w = Some (c, A_B (signed_take_bit 25 (push_bit 2 rel)))"
    using assms(2) h by (auto simp: arm_decode_def arm_decode_fields_def)
qed

lemma fetches_reglists:
  assumes "MP_ENDIANNESS_LITTLE env" "take_bit 16 rl = rl"
  shows "fetches_at arm_fetch (arm_al env (asm_arm_op_push rl)) (14, A_PUSH (filter (bit rl) [0..<16]))"
    "fetches_at arm_fetch (arm_al env (asm_arm_op_pop rl)) (14, A_POP (filter (bit rl) [0..<16]))"
proof -
  let ?push = "asm_arm_op_push rl OR ASM_ARM_CC_AL" and ?pop = "asm_arm_op_pop rl OR ASM_ARM_CC_AL"
  have f: "afield ?push 28 4 = 14" "afield ?push 20 8 = 0x92" "afield ?push 16 4 = 13"
    "afield ?pop 28 4 = 14" "afield ?pop 20 8 = 0x8b" "afield ?pop 16 4 = 13" "take_bit 16 ?push = rl" "take_bit 16 ?pop = rl"
    using assms(2) unfolding asm_encodes asm_consts word32_eq_iff_bits
    by (simp_all only: list.pred_inject bit_simps) (simp_all add: word_bits_simps)
  have "bit ?push k = bit rl k" "bit ?pop k = bit rl k" if "k < 16" for k
    using that f(7,8) bit_take_bit_iff [of 16 ?push k] bit_take_bit_iff [of 16 ?pop k] by simp_all
  then have "filter (bit ?push) [0..<16] = filter (bit rl) [0..<16]" "filter (bit ?pop) [0..<16] = filter (bit rl) [0..<16]"
    by (auto intro!: filter_cong)
  then show "fetches_at arm_fetch (arm_al env (asm_arm_op_push rl)) (14, A_PUSH (filter (bit rl) [0..<16]))"
    "fetches_at arm_fetch (arm_al env (asm_arm_op_pop rl)) (14, A_POP (filter (bit rl) [0..<16]))"
    using f by (auto intro!: fetches_arm [OF assms(1)] simp: arm_decode_def arm_decode_fields_def)
qed

lemma fetches_bx:
  assumes "MP_ENDIANNESS_LITTLE env" "r < 16"
  shows "fetches_at arm_fetch (arm_al env (0x012fff10 OR r)) (14, A_BX (unat r))"
proof (rule fetches_arm [OF assms(1)])
  let ?w = "(0x012fff10 OR r) OR ASM_ARM_CC_AL"
  have t: "take_bit 4 r = r" using assms(2) by (rule small_fields(2))
  have "afield ?w 28 4 = 14" "afield ?w 20 8 = 0x12" "afield ?w 4 24 = 0x12fff1" "take_bit 4 (take_bit 12 ?w) = r"
    using t unfolding asm_consts word32_eq_iff_bits by (simp_all only: list.pred_inject bit_simps) (simp_all add: word_bits_simps)
  then show "arm_decode ?w = Some (14, A_BX (unat r))" by (simp add: arm_decode_def arm_decode_fields_def)
qed

lemma fetches_call:
  assumes "MP_ENDIANNESS_LITTLE env" "idx < 1024"
  shows "fetches_at arm_fetch (arm_al env (0x597f000 OR push_bit 2 idx)) (14, A_LOAD 4 15 7 (A_Imm (push_bit 2 idx)))"
proof -
  have "take_bit 10 idx = idx" using assms(2) by (simp add: take_bit_word_iff word_less_nat_alt)
  then have "take_bit 12 (push_bit 2 idx) = push_bit 2 idx"
    unfolding word32_eq_iff_bits by (simp_all add: word_bits_simps)
  then show ?thesis
    by (intro fetches_al [OF assms(1), where h = "0x59" and rn = 7 and rd = 15])
      (simp_all add: arm_decode_fields_def arm_decode_mem_def or.assoc [symmetric])
qed

end
