(* ===== verification/ARM_Correct.thy ===== *)
theory ARM_Correct
  imports ARM_Encodings Code_Jumps
begin

text \<open>
  What the code of the ARM assembler does when it is run: immediates in their three forms, jumps
  and calls, loads and stores, locals. Stores through a \<open>uint32_t\<close> pointer are taken on a
  little-endian host, as on the target.
\<close>

abbreviation arm_loaded :: "u32 \<Rightarrow> u8 list \<Rightarrow> arm_machine \<Rightarrow> bool" where
  "arm_loaded base code m \<equiv> holds_code (amem m) base code"

abbreviation emits_arm ::
    "asm_arm_t asm \<Rightarrow> asm_arm_t \<Rightarrow> (u32 \<Rightarrow> u32 \<Rightarrow> arm_machine \<Rightarrow> arm_machine \<Rightarrow> bool) \<Rightarrow> bool" where
  "emits_arm \<equiv> emits_code arm_step apc arm_loaded"

section \<open>Immediates\<close>

definition arm_imm_code :: "mp_env \<Rightarrow> u32 \<Rightarrow> u32 \<Rightarrow> u8 list list" where
  "arm_imm_code env rd v =
     (if v AND 0xff = v then [arm_al env (asm_arm_op_mov_imm rd v)]
      else if sint v < 0 \<and> sint v \<ge> - 256 then [arm_al env (asm_arm_op_mvn_imm rd (NOT v))]
      else [arm_al env (0x59f0000 OR push_bit 12 rd), arm_al env 0xa000000, arm_word_bytes env v])"

lemma arm_imm_emits: "asm_arm_mov_reg_i32_optimised env rd v = emit_code (arm_imm_code env rd v)"
  by (simp add: asm_arm_mov_reg_i32_optimised_def arm_imm_code_def asm_arm_mov_reg_i32_seq arm_emit_al_def arm_emit_def
      emit_bytes_as_code emit_code_seq)

lemma arm_imm_length: "length (concat (arm_imm_code env rd v)) \<le> 12"
  by (simp add: arm_imm_code_def)

lemma small_negative:
  assumes "sint (v :: u32) < 0" "sint v \<ge> - 256"
  shows "take_bit 8 (NOT v) = NOT v"
proof -
  have "bit v k \<longleftrightarrow> sint v < 0" if "8 \<le> k" "k < 32" for k
    by (rule bit_signed_small [of 8]) (use assms that in simp_all)
  then have "bit v k" if "8 \<le> k" "k < 32" for k using that assms(1) by blast
  then show ?thesis unfolding word32_eq_iff_bits by (simp add: bit_simps)
qed

lemma arm_imm_runs:
  assumes env: "MP_ENDIANNESS_LITTLE env" and rd: "rd < 15" and loaded: "arm_loaded base code m"
    and sits: "sits_at base code (apc m) (concat (arm_imm_code env rd v))"
  shows "reaches arm_step base code m
    ((aset (unat rd) v m)\<lparr>apc := apc m + word_of_nat (length (concat (arm_imm_code env rd v)))\<rparr>)"
proof -
  have al: "v AND 0xff = v \<Longrightarrow> take_bit 8 v = v" unfolding word32_eq_iff_bits by (simp add: bit_simps)
  consider (mov) "v AND 0xff = v" | (mvn) "v AND 0xff \<noteq> v" "sint v < 0" "sint v \<ge> - 256"
    | (word) "v AND 0xff \<noteq> v" "\<not> (sint v < 0 \<and> sint v \<ge> - 256)" by blast
  then show ?thesis
  proof cases
    case mov
    then show ?thesis
      using arm_cpu.reaches_one [OF fetches_dp_imm(1) [OF env rd _ al [OF mov], of 0], of base code m] sits
      by (simp add: arm_imm_code_def aoperand_def)
  next
    case mvn
    then show ?thesis
      using arm_cpu.reaches_one [OF fetches_dp_imm(2) [OF env rd _ small_negative [OF mvn(2,3)], of 0], of base code m] sits
      by (simp add: arm_imm_code_def aoperand_def)
  next
    case word
    let ?ldr = "arm_al env (0x59f0000 OR push_bit 12 rd)" and ?b = "arm_al env 0xa000000" and ?v = "arm_word_bytes env v"
    have code: "concat (arm_imm_code env rd v) = (?ldr @ ?b) @ ?v" using word by (auto simp: arm_imm_code_def)
    have "sits_at base code (apc m + 8) ?v" using sits_at_append(2) [OF sits [unfolded code]] by simp
    moreover have "le_word ?v = v" using env le_word_le_bytes [of 4 v] by (simp add: arm_word_bytes_def take_bit_word_eq_self)
    ultimately have lit: "load_bytes 4 (amem m) (apc m + 8) = v" using load_sits_at [OF loaded] by fastforce
    have b: "fetches_at arm_fetch ?b (14, A_B 0)"
      using fetches_branch [OF env, of 14 0] by (simp add: asm_consts)
    have "reaches arm_step base code m (exec_all arm_exec_instr (zip [(14, A_LOAD 4 (unat rd) 15 (A_Imm 0)), (14, A_B 0)] [?ldr, ?b]) m)"
      using fetches_mem_imm(5) [OF env rd, of 0 0] b sits_at_append(1) [OF sits [unfolded code]] rd
      by (intro arm_cpu.reaches_all) (simp_all add: unat_not_15)
    then show ?thesis
      unfolding code using lit rd by (simp add: aget_def aset_def aoperand_def Let_def unat_not_15 add.assoc)
  qed
qed

section \<open>Jumps\<close>

lemma arm_branch_word:
  assumes "mp_env_ok env" "MP_ENDIANNESS_LITTLE env" "unat here \<le> arm_lim" "unat dest \<le> arm_lim"
    and "here AND 3 = 0" "dest AND 3 = 0" "c < 15"
  shows "length (concat (arm_bcc_code env (push_bit 28 c) dest here)) = 4"
    "fetches_at arm_fetch (concat (arm_bcc_code env (push_bit 28 c) dest here)) (c, A_B (dest - here - 8))"
proof -
  define d where "d = dest - here - 8"
  have s: "sint d = int (unat dest) - int (unat here) - 8"
    unfolding d_def by (rule arm_distance(1) [OF assms(3,4)])
  have "- 33554432 \<le> sint d" "sint d < 33554432" using s assms(3,4) by linarith+
  then have "bit d k \<longleftrightarrow> sint d < 0" if "25 \<le> k" "k < 32" for k
    using bit_signed_small [of 25 d k] that by simp
  moreover have "d AND 3 = 0"
    unfolding d_def using assms(5,6) by (auto simp: and_3_dvd four_dvd_8 intro!: dvd_diff)
  ultimately have b: "signed_take_bit 25 (push_bit 2 (signed_drop_bit 2 d)) = d"
    unfolding word32_eq_iff_bits by (simp add: bit_simps word_bits_simps)
  have fit: "MP_FIT_SIGNED env 24 (signed_drop_bit 2 d)"
    unfolding d_def using arm_branch_fits(1) [OF assms(1,3,4)] .
  have code: "concat (arm_bcc_code env (push_bit 28 c) dest here) =
      arm_word_bytes env (push_bit 28 c OR 0xa000000 OR (signed_drop_bit 2 d AND 0xffffff))"
    using fit by (simp add: arm_bcc_code_def Let_def d_def)
  show "length (concat (arm_bcc_code env (push_bit 28 c) dest here)) = 4" by (simp add: code)
  show "fetches_at arm_fetch (concat (arm_bcc_code env (push_bit 28 c) dest here)) (c, A_B (dest - here - 8))"
    unfolding code using fetches_branch [OF assms(2,7), of "signed_drop_bit 2 d"] b by (simp only: d_def [symmetric])
qed

definition arm_same :: "arm_machine \<Rightarrow> arm_machine \<Rightarrow> bool" where
  "arm_same m m' \<longleftrightarrow> areg m' = areg m \<and> amem m' = amem m"

definition arm_label_near :: "u32 \<Rightarrow> u32 \<Rightarrow> asm_arm_t \<Rightarrow> bool" where
  "arm_label_near label dest as \<longleftrightarrow> label_at label dest as \<and> dest AND 3 = 0 \<and> unat dest \<le> arm_lim \<and>
     code_offset as AND 3 = 0 \<and> unat (code_offset as) + 4 \<le> arm_lim"

lemma arm_b_emits:
  assumes "mp_env_ok env" "MP_ENDIANNESS_LITTLE env" "emit_room 4 as" "arm_label_near label dest as"
  shows "emits_arm (asm_arm_b_label env label) as (\<lambda>base next m m'. m' = m\<lparr>apc := base + dest\<rparr>)"
proof -
  let ?js = "arm_bcc_code env (push_bit 28 14) dest (code_offset as)"
  have near: "label_at label dest as" "dest AND 3 = 0" "unat dest \<le> arm_lim" "code_offset as AND 3 = 0" "unat (code_offset as) \<le> arm_lim"
    using assms(4) by (simp_all add: arm_label_near_def)
  have code: "asm_arm_b_label env label as = emit_code ?js as"
    by (simp add: asm_ops asm_consts asm_arm_bcc_label_code label_jump_at [OF near(1)])
  have f: "length (concat ?js) = 4" "fetches_at arm_fetch (concat ?js) (14, A_B (dest - code_offset as - 8))"
    using arm_branch_word [OF assms(1,2) near(5,3,4,2), of 14] by simp_all
  show ?thesis
    by (rule arm_cpu.pieces_emits [where f = "asm_arm_b_label env label" and ks = "[concat ?js]" and
          ins = "[(14, A_B (dest - code_offset as - 8))]", OF code assms(3)])
      (use f in simp_all)
qed

lemma arm_cond_jump:
  assumes "mp_env_ok env" "MP_ENDIANNESS_LITTLE env" "emit_room 8 as" "arm_label_near label dest as"
    and "f = asm_seq [arm_emit_al env op, asm_arm_bcc_label env (push_bit 28 c) label]" "c < 2"
    and "fetches_at arm_fetch (arm_al env op) (14, A_CMP rn x)"
  shows "emits_arm f as (\<lambda>base next m m'.
    apc m' = (if (aget m rn = aoperand m x) = (c = 0) then base + dest else next) \<and> arm_same m m')"
proof -
  let ?js = "arm_bcc_code env (push_bit 28 c) dest (code_offset as + 4)" and ?t = "arm_al env op"
  let ?ins = "[(14, A_CMP rn x), (c, A_B (dest - (code_offset as + 4) - 8))]"
  have near: "label_at label dest as" "dest AND 3 = 0" "unat dest \<le> arm_lim" "(code_offset as + 4) AND 3 = 0" "unat (code_offset as + 4) \<le> arm_lim"
    using assms(4) by (auto simp: arm_label_near_def and_3_dvd unat_word_ariths intro: order_trans [OF mod_less_eq_dividend])
  have c: "c = 0 \<or> c = 1" using assms(6) by (auto simp: word_less_nat_alt word_eq_iff_unsigned [where ?'a = nat] less_2_cases_iff)
  have code: "f as = emit_code ([?t] @ ?js) as"
    using emit_then_jump [OF emit_room_weaken [OF assms(3)] _ near(1), of 4 "[?t]" "arm_bcc_code env (push_bit 28 c)"]
    by (simp add: assms(5) asm_arm_bcc_label_code arm_emit_al_def arm_emit_def emit_bytes_as_code)
  have f: "length (concat ?js) = 4" "fetches_at arm_fetch (concat ?js) (c, A_B (dest - (code_offset as + 4) - 8))"
    using arm_branch_word [OF assms(1,2) near(5,3,4,2), of c] c by auto
  show ?thesis
  proof (rule arm_cpu.pieces_emits [where f = f and ks = "[?t, concat ?js]" and ins = ?ins, OF code assms(3)])
    fix base :: u32 and m :: arm_machine
    assume "apc m = base + code_offset as"
    then show "apc (exec_all arm_exec_instr (zip ?ins [?t, concat ?js]) m) =
        (if (aget m rn = aoperand m x) = (c = 0) then base + dest else apc m + word_of_nat (length (concat ([?t] @ ?js)))) \<and>
        arm_same m (exec_all arm_exec_instr (zip ?ins [?t, concat ?js]) m)"
      using c f(1) by (auto simp: Let_def acond_def arm_same_def)
  qed (use f assms(7) in simp_all)
qed

text \<open>
  C22: The code of the jumps and calls of the ARM assembler, run on an ARM machine, does what the
  macros say: a jump continues at the label; a jump on a zero or nonzero register and a jump on
  equal registers continue at the label exactly when the condition holds, and else behind the
  code; a jump through a register continues at its address; an indirect call continues at the
  address in the function table, with the address behind the code in the link register.
\<close>

theorem arm_jumps_correct:
  assumes "mp_env_ok env" "MP_ENDIANNESS_LITTLE env" "emit_room 8 as" "arm_label_near label dest as"
    and "r < 15" "s < 15" "idx < 1024"
  shows "emits_arm (arm_exec env (ARM_API (ASM_JUMP label))) as
      (\<lambda>base next m m'. m' = m\<lparr>apc := base + dest\<rparr>) \<and>
    emits_arm (arm_exec env (ARM_API (ASM_JUMP_IF_REG_ZERO r label b))) as
      (\<lambda>base next m m'. apc m' = (if areg m (unat r) = 0 then base + dest else next) \<and> arm_same m m') \<and>
    emits_arm (arm_exec env (ARM_API (ASM_JUMP_IF_REG_NONZERO r label b))) as
      (\<lambda>base next m m'. apc m' = (if areg m (unat r) \<noteq> 0 then base + dest else next) \<and> arm_same m m') \<and>
    emits_arm (arm_exec env (ARM_API (ASM_JUMP_IF_REG_EQ r s label))) as
      (\<lambda>base next m m'. apc m' = (if areg m (unat r) = areg m (unat s) then base + dest else next) \<and> arm_same m m') \<and>
    emits_arm (arm_exec env (ARM_API (ASM_JUMP_REG r))) as
      (\<lambda>base next m m'. m' = m\<lparr>apc := areg m (unat r) AND NOT 1\<rparr>) \<and>
    emits_arm (arm_exec env (ARM_API (ASM_CALL_IND idx))) as
      (\<lambda>base next m m'. m' = (aset 14 next m)\<lparr>apc := load_bytes 4 (amem m) (areg m 7 + 4 * idx) AND NOT 1\<rparr>)"
proof (intro conjI)
  note near = assms(1-4) and r = reg_15_16 [OF assms(5)] reg_15_16 [OF assms(6)] and u = unat_not_15 [OF assms(5)] unat_not_15 [OF assms(6)]
  show "emits_arm (arm_exec env (ARM_API (ASM_JUMP label))) as (\<lambda>base next m m'. m' = m\<lparr>apc := base + dest\<rparr>)"
    using arm_b_emits [OF assms(1,2) emit_room_weaken [OF assms(3)] assms(4)] by simp
  show "emits_arm (arm_exec env (ARM_API (ASM_JUMP_IF_REG_ZERO r label b))) as
      (\<lambda>base next m m'. apc m' = (if areg m (unat r) = 0 then base + dest else next) \<and> arm_same m m')"
    by (rule emits_code_mono [OF arm_cond_jump [OF near, where c = 0, OF _ _ fetches_dp_imm(5) [OF assms(2,5) r(1), of 0]]])
      (simp_all add: asm_ops asm_consts u aget_def aoperand_def)
  show "emits_arm (arm_exec env (ARM_API (ASM_JUMP_IF_REG_NONZERO r label b))) as
      (\<lambda>base next m m'. apc m' = (if areg m (unat r) \<noteq> 0 then base + dest else next) \<and> arm_same m m')"
    by (rule emits_code_mono [OF arm_cond_jump [OF near, where c = 1, OF _ _ fetches_dp_imm(5) [OF assms(2,5) r(1), of 0]]])
      (simp_all add: asm_ops asm_consts u aget_def aoperand_def)
  show "emits_arm (arm_exec env (ARM_API (ASM_JUMP_IF_REG_EQ r s label))) as
      (\<lambda>base next m m'. apc m' = (if areg m (unat r) = areg m (unat s) then base + dest else next) \<and> arm_same m m')"
    by (rule emits_code_mono [OF arm_cond_jump [OF near, where c = 0, OF _ _ fetches_dp_reg(4) [OF assms(2,5) r]]])
      (simp_all add: asm_ops asm_consts u aget_def aoperand_def)
  show "emits_arm (arm_exec env (ARM_API (ASM_JUMP_REG r))) as (\<lambda>base next m m'. m' = m\<lparr>apc := areg m (unat r) AND NOT 1\<rparr>)"
    by (rule arm_cpu.pieces_emits [where ks = "[arm_al env (0x012fff10 OR r)]" and ins = "[(14, A_BX (unat r))]",
          OF _ assms(3), where js = "[arm_al env (0x012fff10 OR r)]"])
      (use fetches_bx [OF assms(2) r(1)] in \<open>simp_all add: asm_ops arm_emit_al_def arm_emit_def emit_bytes_as_code u aget_def\<close>)
  let ?js = "[arm_al env (asm_arm_op_mov_reg 14 15), arm_al env (0x597f000 OR push_bit 2 idx)]"
  let ?ins = "[(14, A_DP A_MOV 14 0 (A_Shl 15 0)), (14, A_LOAD 4 15 7 (A_Imm (push_bit 2 idx)))]"
  show "emits_arm (arm_exec env (ARM_API (ASM_CALL_IND idx))) as
      (\<lambda>base next m m'. m' = (aset 14 next m)\<lparr>apc := load_bytes 4 (amem m) (areg m 7 + 4 * idx) AND NOT 1\<rparr>)"
    by (rule arm_cpu.pieces_emits [where ks = ?js and ins = ?ins, OF _ assms(3), where js = ?js])
      (use fetches_call [OF assms(2,7)] fetches_dp_reg(1) [OF assms(2), of 14 0 15] assms(7) in
        \<open>simp_all add: asm_ops asm_consts arm_emit_al_def arm_emit_def emit_bytes_as_code emit_code_seq aget_def aoperand_def
           aset_def Let_def push_bit_eq_mult mult.commute\<close>)
qed

text \<open>A concrete state of the emit pass, for the witnesses.\<close>

definition arm_emit_state :: asm_arm_t where
  "arm_emit_state = \<lparr>pass = 2, suppress = False, code_offset = 8, code_size = 64,
     code_base = Some (replicate 64 0), max_num_labels = 2, label_offsets = [4, 40], push_reglist = 0x1fe, stack_adjust = 400\<rparr>"

lemma arm_emit_state_simps:
  "k \<le> 56 \<Longrightarrow> emit_room k arm_emit_state" "arm_label_near 0 4 arm_emit_state" "arm_label_near 1 40 arm_emit_state"
  by (simp_all add: arm_emit_state_def emit_room_def in_emit_pass_def arm_label_near_def label_at_def checked_label_offset_def
      label_offset_def asm_consts)

theorem arm_jumps_correct_witness:
  "emits_arm (arm_exec arm_demo_env (ARM_API (ASM_JUMP 1))) arm_emit_state
      (\<lambda>base next m m'. m' = m\<lparr>apc := base + 40\<rparr>) \<and>
    emits_arm (arm_exec arm_demo_env (ARM_API (ASM_JUMP_IF_REG_ZERO 2 1 True))) arm_emit_state
      (\<lambda>base next m m'. apc m' = (if areg m (unat (2 :: u32)) = 0 then base + 40 else next) \<and> arm_same m m') \<and>
    emits_arm (arm_exec arm_demo_env (ARM_API (ASM_JUMP_IF_REG_NONZERO 2 1 True))) arm_emit_state
      (\<lambda>base next m m'. apc m' = (if areg m (unat (2 :: u32)) \<noteq> 0 then base + 40 else next) \<and> arm_same m m') \<and>
    emits_arm (arm_exec arm_demo_env (ARM_API (ASM_JUMP_IF_REG_EQ 2 5 1))) arm_emit_state
      (\<lambda>base next m m'. apc m' = (if areg m (unat (2 :: u32)) = areg m (unat (5 :: u32)) then base + 40 else next) \<and> arm_same m m') \<and>
    emits_arm (arm_exec arm_demo_env (ARM_API (ASM_JUMP_REG 2))) arm_emit_state
      (\<lambda>base next m m'. m' = m\<lparr>apc := areg m (unat (2 :: u32)) AND NOT 1\<rparr>) \<and>
    emits_arm (arm_exec arm_demo_env (ARM_API (ASM_CALL_IND 10))) arm_emit_state
      (\<lambda>base next m m'. m' = (aset 14 next m)\<lparr>apc := load_bytes 4 (amem m) (areg m 7 + 4 * 10) AND NOT 1\<rparr>)"
  by (rule arm_jumps_correct [OF mp_env_ok_arm_demo]) (simp_all add: arm_emit_state_simps, simp add: arm_demo_env_def)

section \<open>Data\<close>

lemma arm_imm_emits_code:
  assumes "MP_ENDIANNESS_LITTLE env" "emit_room 12 as" "rd < 15"
  shows "emits_arm (asm_arm_mov_reg_i32_optimised env rd v) as
    (\<lambda>base next m m'. m' = (aset (unat rd) v m)\<lparr>apc := next\<rparr>)"
proof (rule emits_codeI [OF _ refl assms(2) arm_imm_length])
  show "asm_arm_mov_reg_i32_optimised env rd v as = emit_code (arm_imm_code env rd v) as" by (simp add: arm_imm_emits)
qed (use arm_imm_runs [OF assms(1,3)] in blast)

text \<open>One instruction, or one whose operand is an immediate loaded into the temporary register.\<close>

lemma arm_one_emits:
  assumes "f = arm_emit_al env op" "emit_room k as" "4 \<le> k" "fetches_at arm_fetch (arm_al env op) i" "arm_straight i"
    and "\<And>base m. R base (apc m + 4) m (arm_exec_instr i 4 m)"
  shows "emits_arm f as R"
proof (rule arm_cpu.pieces_emits [where js = "[arm_al env op]" and ks = "[arm_al env op]" and ins = "[i]", OF _ assms(2)])
  show "R base (apc m + word_of_nat (length (concat [arm_al env op]))) m (exec_all arm_exec_instr (zip [i] [arm_al env op]) m)"
    for base m using assms(6) [of base m] by simp
qed (use assms(3-5) in \<open>simp_all add: assms(1) arm_emit_al_def arm_emit_def emit_bytes_as_code\<close>)

lemma arm_far_emits:
  assumes "MP_ENDIANNESS_LITTLE env" "f = asm_seq [asm_arm_mov_reg_i32_optimised env ARM_REG_TEMP v, arm_emit_al env op]"
    and "emit_room 16 as" "fetches_at arm_fetch (arm_al env op) i" "arm_straight i"
    and "\<And>base m pc. R base (pc + 4) m (arm_exec_instr i 4 ((aset 8 v m)\<lparr>apc := pc\<rparr>))"
  shows "emits_arm f as R"
proof (rule emits_codeI [OF _ refl assms(3)])
  let ?js = "arm_imm_code env 8 v"
  show "f as = emit_code (?js @ [arm_al env op]) as"
    by (simp add: assms(2) asm_consts arm_imm_emits emit_code_append arm_emit_al_def arm_emit_def emit_bytes_as_code cong: sum.case_cong)
  show "length (concat (?js @ [arm_al env op])) \<le> 16" using arm_imm_length [of env 8 v] by simp
  fix base code m
  assume m: "arm_loaded base code m" "sits_at base code (apc m) (concat (?js @ [arm_al env op]))"
  let ?m = "(aset 8 v m)\<lparr>apc := apc m + word_of_nat (length (concat ?js))\<rparr>"
  have s: "sits_at base code (apc m) (concat ?js)" "sits_at base code (apc ?m) (arm_al env op)"
    using sits_at_append [OF m(2) [simplified]] by simp_all
  have "reaches arm_step base code m ?m" using arm_imm_runs [OF assms(1) _ m(1) s(1)] by simp
  moreover have "reaches arm_step base code ?m (arm_exec_instr i 4 ?m)"
    using arm_cpu.reaches_one [OF assms(4) s(2)] by simp
  ultimately have "reaches arm_step base code m (arm_exec_instr i 4 ?m)" by (rule reaches_trans)
  then show "\<exists>m'. reaches arm_step base code m m' \<and> R base (apc m + word_of_nat (length (concat (?js @ [arm_al env op])))) m m'"
    by (rule reaches_exI) (use assms(6) [of base "apc m + word_of_nat (length (concat ?js))" m] in \<open>simp add: add.assoc\<close>)
qed

text \<open>Machines that agree but for the temporary register.\<close>

definition arm_upto_temp :: "arm_machine \<Rightarrow> arm_machine \<Rightarrow> bool" where
  "arm_upto_temp m m' \<longleftrightarrow> aset 8 0 m = aset 8 0 m'"

lemma arm_access_emits:
  assumes "MP_ENDIANNESS_LITTLE env" "emit_room 16 as" "r < 15" "b < 15" "r \<noteq> (8 :: u32)" "b \<noteq> (8 :: u32)"
    and "f = (if near then arm_emit_al env op else asm_seq [asm_arm_mov_reg_i32_optimised env ARM_REG_TEMP k, arm_emit_al env op'])"
  shows "(near \<Longrightarrow> fetches_at arm_fetch (arm_al env op) (14, A_LOAD n (unat r) (unat b) (A_Imm k))) \<Longrightarrow>
      fetches_at arm_fetch (arm_al env op') (14, A_LOAD n (unat r) (unat b) (A_Shl (unat ARM_REG_TEMP) 0)) \<Longrightarrow>
    emits_arm f as (\<lambda>base next m m'. arm_upto_temp m' ((aset (unat r) (load_bytes n (amem m) (areg m (unat b) + k)) m)\<lparr>apc := next\<rparr>))"
    "(near \<Longrightarrow> fetches_at arm_fetch (arm_al env op) (14, A_STORE n (unat r) (unat b) (A_Imm k))) \<Longrightarrow>
      fetches_at arm_fetch (arm_al env op') (14, A_STORE n (unat r) (unat b) (A_Shl (unat ARM_REG_TEMP) 0)) \<Longrightarrow>
    emits_arm f as (\<lambda>base next m m'. arm_upto_temp m' (m\<lparr>amem := store_bytes n (areg m (unat b) + k) (areg m (unat r)) (amem m), apc := next\<rparr>))"
proof -
  have u: "unat r \<noteq> 8" "unat b \<noteq> 8" "unat r \<noteq> 15" "unat b \<noteq> 15"
    using assms(3-6) by (auto simp: word_less_nat_alt word_eq_iff_unsigned [where ?'a = nat])
  note run = arm_upto_temp_def aset_def aget_def aoperand_def u Let_def fun_upd_twist asm_consts
  show "emits_arm f as (\<lambda>base next m m'. arm_upto_temp m' ((aset (unat r) (load_bytes n (amem m) (areg m (unat b) + k)) m)\<lparr>apc := next\<rparr>))"
    if "near \<Longrightarrow> fetches_at arm_fetch (arm_al env op) (14, A_LOAD n (unat r) (unat b) (A_Imm k))"
      "fetches_at arm_fetch (arm_al env op') (14, A_LOAD n (unat r) (unat b) (A_Shl (unat ARM_REG_TEMP) 0))"
  proof (cases near)
    case True
    show ?thesis by (rule arm_one_emits [OF _ assms(2) _ that(1) [OF True]]) (simp_all add: assms(7) True run)
  next
    case False
    show ?thesis by (rule arm_far_emits [OF assms(1) _ assms(2) that(2)]) (simp_all add: assms(7) False run)
  qed
  show "emits_arm f as (\<lambda>base next m m'. arm_upto_temp m' (m\<lparr>amem := store_bytes n (areg m (unat b) + k) (areg m (unat r)) (amem m), apc := next\<rparr>))"
    if "near \<Longrightarrow> fetches_at arm_fetch (arm_al env op) (14, A_STORE n (unat r) (unat b) (A_Imm k))"
      "fetches_at arm_fetch (arm_al env op') (14, A_STORE n (unat r) (unat b) (A_Shl (unat ARM_REG_TEMP) 0))"
  proof (cases near)
    case True
    show ?thesis by (rule arm_one_emits [OF _ assms(2) _ that(1) [OF True]]) (simp_all add: assms(7) True run)
  next
    case False
    show ?thesis by (rule arm_far_emits [OF assms(1) _ assms(2) that(2)]) (simp_all add: assms(7) False run)
  qed
qed



section \<open>Immediates and locals\<close>

lemma arm_sp_words:
  "0x58d0000 OR push_bit 12 r OR x = 0x5800000 OR push_bit 16 13 OR push_bit 12 r OR (x :: u32)"
  "0x59d0000 OR push_bit 12 r OR x = 0x5900000 OR push_bit 16 13 OR push_bit 12 r OR (x :: u32)"
  by (simp_all flip: or.assoc)

lemma local_offset_fits: "unat (l :: u32) < 2 ^ k \<Longrightarrow> k \<le> 30 \<Longrightarrow> take_bit (k + 2) (push_bit 2 l) = push_bit 2 l"
  using take_bit_push_bit [of "k + 2" 2 l] take_bit_word_iff [of k l] by simp

text \<open>
  C24: The code that loads an immediate, stores or loads a local, or takes the address of a local,
  run on an ARM machine, does exactly that: any 32-bit immediate in the three forms of the
  assembler, the first 1024 locals, and the address of any local in both forms, which only then
  changes the temporary register.
\<close>

theorem arm_moves_correct:
  assumes "MP_ENDIANNESS_LITTLE env" "emit_room 16 as" "r < 15" "r \<noteq> 8" "unat l < 1024" "0 \<le> sint k"
  shows "emits_arm (arm_exec env (ARM_API (ASM_MOV_REG_IMM r v))) as
      (\<lambda>base next m m'. m' = (aset (unat r) v m)\<lparr>apc := next\<rparr>) \<and>
    emits_arm (arm_exec env (ARM_API (ASM_MOV_LOCAL_REG l r))) as
      (\<lambda>base next m m'. m' = m\<lparr>amem := store_bytes 4 (areg m 13 + 4 * l) (areg m (unat r)) (amem m), apc := next\<rparr>) \<and>
    emits_arm (arm_exec env (ARM_API (ASM_MOV_REG_LOCAL r l))) as
      (\<lambda>base next m m'. m' = (aset (unat r) (load_bytes 4 (amem m) (areg m 13 + 4 * l)) m)\<lparr>apc := next\<rparr>) \<and>
    emits_arm (arm_exec env (ARM_API (ASM_MOV_REG_LOCAL_ADDR r k))) as
      (\<lambda>base next m m'. arm_upto_temp m' ((aset (unat r) (areg m 13 + 4 * k) m)\<lparr>apc := next\<rparr>))"
proof (intro conjI)
  have u: "unat r \<noteq> 8" "unat r \<noteq> 15"
    using assms(3,4) by (auto simp: word_less_nat_alt word_eq_iff_unsigned [where ?'a = nat])
  have l: "take_bit 12 (push_bit 2 l) = push_bit 2 l" using local_offset_fits [of l 10] assms(5) by simp
  note run = aset_def aget_def aoperand_def u Let_def push_bit_eq_mult mult.commute
  note f = fetches_mem_imm(1,2) [OF assms(1,3) _ l, of 13]
  show "emits_arm (arm_exec env (ARM_API (ASM_MOV_REG_IMM r v))) as (\<lambda>base next m m'. m' = (aset (unat r) v m)\<lparr>apc := next\<rparr>)"
    using arm_imm_emits_code [OF assms(1) emit_room_weaken [OF assms(2)] assms(3)] by simp
  show "emits_arm (arm_exec env (ARM_API (ASM_MOV_LOCAL_REG l r))) as
      (\<lambda>base next m m'. m' = m\<lparr>amem := store_bytes 4 (areg m 13 + 4 * l) (areg m (unat r)) (amem m), apc := next\<rparr>)"
    by (rule arm_one_emits [OF _ assms(2) _ f(2)]) (simp_all only: arm_exec.simps arm_api.simps asm_ops arm_sp_words, simp_all add: run)
  show "emits_arm (arm_exec env (ARM_API (ASM_MOV_REG_LOCAL r l))) as
      (\<lambda>base next m m'. m' = (aset (unat r) (load_bytes 4 (amem m) (areg m 13 + 4 * l)) m)\<lparr>apc := next\<rparr>)"
    by (rule arm_one_emits [OF _ assms(2) _ f(1)]) (simp_all only: arm_exec.simps arm_api.simps asm_ops arm_sp_words, simp_all add: run)
  show "emits_arm (arm_exec env (ARM_API (ASM_MOV_REG_LOCAL_ADDR r k))) as
      (\<lambda>base next m m'. arm_upto_temp m' ((aset (unat r) (areg m 13 + 4 * k) m)\<lparr>apc := next\<rparr>))"
  proof (cases "sint k \<ge> 0x40")
    case True
    have f: "fetches_at arm_fetch (arm_al env (asm_arm_op_add_reg r ASM_ARM_REG_SP ARM_REG_TEMP)) (14, A_DP A_ADD (unat r) 13 (A_Shl 8 0))"
      using fetches_dp_reg(2) [OF assms(1,3), of 13 8] by (simp add: asm_consts)
    show ?thesis
      by (rule arm_far_emits [OF assms(1) _ assms(2) f]) (simp_all add: True asm_ops arm_upto_temp_def run fun_upd_twist)
  next
    case False
    have "uint k = sint k" using uint_sint [of k] False assms(6) by (simp add: take_bit_int_eq_self)
    then have "unat k < 2 ^ 6" using False by (simp add: unat_eq_nat_uint nat_less_iff)
    then have t: "take_bit 8 (push_bit 2 k) = push_bit 2 k" using local_offset_fits [of k 6] by simp
    have f: "fetches_at arm_fetch (arm_al env (asm_arm_op_add_imm r ASM_ARM_REG_SP (push_bit 2 k))) (14, A_DP A_ADD (unat r) 13 (A_Imm (push_bit 2 k)))"
      using fetches_dp_imm(3) [OF assms(1,3) _ t, of 13] by (simp add: asm_consts)
    show ?thesis
      by (rule arm_one_emits [OF _ assms(2) _ f]) (use False in \<open>simp_all add: asm_ops arm_upto_temp_def run\<close>)
  qed
qed

theorem arm_moves_correct_witness:
  "emits_arm (arm_exec arm_demo_env (ARM_API (ASM_MOV_REG_IMM 3 0x12345678))) arm_emit_state
      (\<lambda>base next m m'. m' = (aset (unat (3 :: u32)) 0x12345678 m)\<lparr>apc := next\<rparr>) \<and>
    emits_arm (arm_exec arm_demo_env (ARM_API (ASM_MOV_LOCAL_REG 1023 3))) arm_emit_state
      (\<lambda>base next m m'. m' = m\<lparr>amem := store_bytes 4 (areg m 13 + 4 * 1023) (areg m (unat (3 :: u32))) (amem m), apc := next\<rparr>) \<and>
    emits_arm (arm_exec arm_demo_env (ARM_API (ASM_MOV_REG_LOCAL 3 1023))) arm_emit_state
      (\<lambda>base next m m'. m' = (aset (unat (3 :: u32)) (load_bytes 4 (amem m) (areg m 13 + 4 * 1023)) m)\<lparr>apc := next\<rparr>) \<and>
    emits_arm (arm_exec arm_demo_env (ARM_API (ASM_MOV_REG_LOCAL_ADDR 3 5000))) arm_emit_state
      (\<lambda>base next m m'. arm_upto_temp m' ((aset (unat (3 :: u32)) (areg m 13 + 4 * 5000) m)\<lparr>apc := next\<rparr>))"
  by (rule arm_moves_correct) (simp_all add: arm_emit_state_simps, simp add: arm_demo_env_def)

text \<open>
  C26: What does not fit its field is not refused. A jump to a label out of range of the 24-bit field
  succeeds and writes nothing, so that execution falls through; the offset of local 1024 reaches
  into the number of the register, so that a load or store of it is the one of local 0 with the
  next register.
\<close>

theorem arm_out_of_range_accepted:
  assumes "label_at label dest as" "\<not> MP_FIT_SIGNED env 24 (signed_drop_bit 2 (dest - code_offset as - 8))"
  shows "arm_exec env (ARM_API (ASM_JUMP label)) as = Inr as \<and>
    arm_exec env (ARM_API (ASM_MOV_REG_LOCAL ASM_ARM_REG_R0 1024)) = arm_exec env (ARM_API (ASM_MOV_REG_LOCAL ASM_ARM_REG_R1 0)) \<and>
    arm_exec env (ARM_API (ASM_MOV_LOCAL_REG 1024 ASM_ARM_REG_R0)) = arm_exec env (ARM_API (ASM_MOV_LOCAL_REG 0 ASM_ARM_REG_R1))"
proof (intro conjI)
  show "arm_exec env (ARM_API (ASM_JUMP label)) as = Inr as"
    using assms by (simp add: asm_ops asm_arm_bcc_label_code label_jump_at arm_bcc_code_def Let_def emit_code_def)
qed (simp_all add: asm_ops asm_consts)

theorem arm_out_of_range_accepted_witness:
  "let as = arm_emit_state\<lparr>label_offsets := [0x8000000, 40]\<rparr>
   in arm_exec arm_demo_env (ARM_API (ASM_JUMP 0)) as = Inr as \<and>
    arm_exec arm_demo_env (ARM_API (ASM_MOV_REG_LOCAL ASM_ARM_REG_R0 1024)) = arm_exec arm_demo_env (ARM_API (ASM_MOV_REG_LOCAL ASM_ARM_REG_R1 0)) \<and>
    arm_exec arm_demo_env (ARM_API (ASM_MOV_LOCAL_REG 1024 ASM_ARM_REG_R0)) = arm_exec arm_demo_env (ARM_API (ASM_MOV_LOCAL_REG 0 ASM_ARM_REG_R1))"
  unfolding Let_def
  by (rule arm_out_of_range_accepted [where dest = "0x8000000"])
    (simp_all add: arm_emit_state_def label_at_def checked_label_offset_def label_offset_def arm_demo_env_def fits_signed_def
      sint_signed_drop_bit_eq)

end
