(* ===== verification/ARM_Frames.thy ===== *)
theory ARM_Frames
  imports ARM_Correct
begin

text \<open>
  Entry and exit of a function in the ARM assembler, run: the registers saved and restored, the
  frame made and dropped by \<open>asm_arm_entry\<close> and \<open>asm_arm_exit\<close>, with the size in the instruction
  or in the temporary register.
\<close>

section \<open>Moving the stack pointer\<close>

definition arm_adjust_code :: "mp_env \<Rightarrow> (u32 \<Rightarrow> u32 \<Rightarrow> u32 \<Rightarrow> u32) \<Rightarrow> (u32 \<Rightarrow> u32 \<Rightarrow> u32 \<Rightarrow> u32) \<Rightarrow> u32 \<Rightarrow> u8 list list" where
  "arm_adjust_code env op_imm op_reg adj =
     (if adj = 0 then []
      else if adj < 0x100 then [arm_al env (op_imm ASM_ARM_REG_SP ASM_ARM_REG_SP adj)]
      else arm_imm_code env ARM_REG_TEMP adj @ [arm_al env (op_reg ASM_ARM_REG_SP ASM_ARM_REG_SP ARM_REG_TEMP)])"

lemma arm_adjust_length: "length (concat (arm_adjust_code env op_imm op_reg adj)) \<le> 16"
  using arm_imm_length [of env ARM_REG_TEMP adj] by (simp add: arm_adjust_code_def)

lemma arm_adjust_emits:
  "asm_when (adj > 0)
     (if adj < 0x100 then arm_emit_al env (op_imm ASM_ARM_REG_SP ASM_ARM_REG_SP adj)
      else asm_seq [asm_arm_mov_reg_i32_optimised env ARM_REG_TEMP adj,
                    arm_emit_al env (op_reg ASM_ARM_REG_SP ASM_ARM_REG_SP ARM_REG_TEMP)]) =
   emit_code (arm_adjust_code env op_imm op_reg adj)"
  by (auto simp: arm_adjust_code_def arm_imm_emits arm_emit_al_def arm_emit_def emit_bytes_as_code emit_code_seq
      skip_as_code word_gt_0)

definition arm_sp_moved :: "u32 \<Rightarrow> arm_machine \<Rightarrow> arm_machine \<Rightarrow> bool" where
  "arm_sp_moved d m m' \<longleftrightarrow> areg m' 13 = areg m 13 + d \<and> (\<forall>r. r \<notin> {8, 13} \<longrightarrow> areg m' r = areg m r) \<and> amem m' = amem m"

lemma arm_adjust_runs:
  assumes env: "MP_ENDIANNESS_LITTLE env" and loaded: "arm_loaded base code m"
    and op: "f = A_SUB \<and> op_imm = asm_arm_op_sub_imm \<and> op_reg = asm_arm_op_sub_reg \<and> d = - adj \<or>
      f = A_ADD \<and> op_imm = asm_arm_op_add_imm \<and> op_reg = asm_arm_op_add_reg \<and> d = adj"
    and sits: "sits_at base code (apc m) (concat (arm_adjust_code env op_imm op_reg adj))"
  shows "\<exists>m'. reaches arm_step base code m m' \<and>
    apc m' = apc m + word_of_nat (length (concat (arm_adjust_code env op_imm op_reg adj))) \<and> arm_sp_moved d m m'"
proof -
  consider (none) "adj = 0" | (near) "adj \<noteq> 0" "adj < 0x100" | (far) "adj \<noteq> 0" "\<not> adj < 0x100" by blast
  then show ?thesis
  proof cases
    case none
    then show ?thesis using op by (auto simp: arm_adjust_code_def arm_sp_moved_def intro!: exI [of _ m] reaches_refl)
  next
    case near
    have t: "take_bit 8 adj = adj" using near(2) by (simp add: take_bit_word_iff word_less_nat_alt)
    have "fetches_at arm_fetch (arm_al env (op_imm ASM_ARM_REG_SP ASM_ARM_REG_SP adj)) (14, A_DP f 13 13 (A_Imm adj))"
      using op fetches_dp_imm(3,4) [OF env _ _ t, of 13 13] by (auto simp: asm_consts)
    from arm_cpu.reaches_one [OF this, of base code m] sits near show ?thesis
      by (intro reaches_exI [of arm_step base code m "arm_exec_instr (14, A_DP f 13 13 (A_Imm adj)) 4 m"])
        (use op in \<open>auto simp: arm_adjust_code_def arm_sp_moved_def aset_def aget_def aoperand_def\<close>)
  next
    case far
    let ?js = "arm_imm_code env 8 adj" and ?op = "arm_al env (op_reg ASM_ARM_REG_SP ASM_ARM_REG_SP ARM_REG_TEMP)"
    let ?m = "(aset 8 adj m)\<lparr>apc := apc m + word_of_nat (length (concat ?js))\<rparr>"
    have code: "concat (arm_adjust_code env op_imm op_reg adj) = concat ?js @ ?op"
      using far by (simp add: arm_adjust_code_def asm_consts)
    note s = sits_at_append [OF sits [unfolded code]]
    have "reaches arm_step base code m ?m" using arm_imm_runs [OF env _ loaded s(1)] by simp
    moreover have op': "fetches_at arm_fetch ?op (14, A_DP f 13 13 (A_Shl 8 0))"
      using op fetches_dp_reg(2,3) [OF env, of 13 13 8] by (auto simp: asm_consts)
    have "reaches arm_step base code ?m (arm_exec_instr (14, A_DP f 13 13 (A_Shl 8 0)) 4 ?m)"
      using arm_cpu.reaches_one [OF op', of base code ?m] s(2) by simp
    ultimately have "reaches arm_step base code m (arm_exec_instr (14, A_DP f 13 13 (A_Shl 8 0)) 4 ?m)" by (rule reaches_trans)
    then show ?thesis
      by (rule reaches_exI) (use op in \<open>auto simp: code arm_sp_moved_def aset_def aget_def aoperand_def\<close>)
  qed
qed

section \<open>Entry and exit\<close>

abbreviation arm_saved :: "nat list" where
  "arm_saved \<equiv> [1, 2, 3, 4, 5, 6, 7, 8]"

lemma arm_reglists:
  "fetches_at arm_fetch (arm_al env (asm_arm_op_push (ARM_ENTRY_REGLIST OR push_bit (unat ASM_ARM_REG_LR) 1))) (14, A_PUSH (arm_saved @ [14]))"
  "fetches_at arm_fetch (arm_al env (asm_arm_op_pop (ARM_ENTRY_REGLIST OR push_bit (unat ASM_ARM_REG_PC) 1))) (14, A_POP (arm_saved @ [15]))"
  if "MP_ENDIANNESS_LITTLE env"
proof -
  let ?push = "ARM_ENTRY_REGLIST OR push_bit (unat ASM_ARM_REG_LR) 1" and ?pop = "ARM_ENTRY_REGLIST OR push_bit (unat ASM_ARM_REG_PC) 1"
  have "filter (bit ?push) [0..<16] = arm_saved @ [14]" "filter (bit ?pop) [0..<16] = arm_saved @ [15]"
    "take_bit 16 ?push = ?push" "take_bit 16 ?pop = ?pop"
    by (simp_all add: ARM_ENTRY_REGLIST_def asm_consts upt_rec)
  then show "fetches_at arm_fetch (arm_al env (asm_arm_op_push ?push)) (14, A_PUSH (arm_saved @ [14]))"
    "fetches_at arm_fetch (arm_al env (asm_arm_op_pop ?pop)) (14, A_POP (arm_saved @ [15]))"
    using fetches_reglists(1) [OF that, of ?push] fetches_reglists(2) [OF that, of ?pop] by argo+
qed

text \<open>
  A machine inside a function entered from \<open>m0\<close>: the stack pointer is below the frame, and above
  the frame are the saved registers and the return address.
\<close>

definition arm_framed :: "u32 \<Rightarrow> arm_machine \<Rightarrow> arm_machine \<Rightarrow> bool" where
  "arm_framed n m0 m \<longleftrightarrow>
     (let rs = arm_saved @ [14]; top = areg m0 13 - 36
      in areg m 13 = top - arm_frame_size n \<and>
         (\<forall>i < length rs. load_bytes 4 (amem m) (top + 4 * word_of_nat i) = areg m0 (rs ! i)))"

text \<open>The code is in memory, and not where the registers are saved.\<close>

definition arm_entered :: "u32 \<Rightarrow> u8 list \<Rightarrow> arm_machine \<Rightarrow> bool" where
  "arm_entered base code m \<longleftrightarrow> arm_loaded base code m \<and>
     (\<forall>i < length code. \<forall>k < 36. base + word_of_nat i \<noteq> areg m 13 - 36 + word_of_nat k)"

abbreviation arm_entry_bytes :: "mp_env \<Rightarrow> u32 \<Rightarrow> u8 list list" where
  "arm_entry_bytes env n \<equiv> arm_al env (asm_arm_op_push (ARM_ENTRY_REGLIST OR push_bit (unat ASM_ARM_REG_LR) 1)) #
     arm_adjust_code env asm_arm_op_sub_imm asm_arm_op_sub_reg (arm_frame_size n)"

abbreviation arm_exit_bytes :: "mp_env \<Rightarrow> u32 \<Rightarrow> u8 list list" where
  "arm_exit_bytes env n \<equiv> arm_adjust_code env asm_arm_op_add_imm asm_arm_op_add_reg (arm_frame_size n) @
     [arm_al env (asm_arm_op_pop (ARM_ENTRY_REGLIST OR push_bit (unat ASM_ARM_REG_PC) 1))]"

lemma arm_entry_runs:
  assumes "MP_ENDIANNESS_LITTLE env" "arm_entered base code m" "sits_at base code (apc m) (concat (arm_entry_bytes env n))"
  shows "\<exists>m'. reaches arm_step base code m m' \<and> apc m' = apc m + word_of_nat (length (concat (arm_entry_bytes env n))) \<and>
    arm_framed n m m' \<and> (\<forall>r. r \<notin> {8, 13} \<longrightarrow> areg m' r = areg m r)"
proof -
  let ?rs = "arm_saved @ [14]" and ?top = "areg m 13 - 36"
  let ?push = "arm_al env (asm_arm_op_push (ARM_ENTRY_REGLIST OR push_bit (unat ASM_ARM_REG_LR) 1))"
  let ?js = "arm_adjust_code env asm_arm_op_sub_imm asm_arm_op_sub_reg (arm_frame_size n)"
  define m1 where "m1 = arm_exec_instr (14, A_PUSH ?rs) 4 m"
  have m1: "apc m1 = apc m + 4" "areg m1 = (areg m)(13 := ?top)" "amem m1 = store_regs (areg m) ?rs ?top (amem m)"
    by (simp_all add: m1_def aset_def Let_def del: store_regs.simps)
  have s: "sits_at base code (apc m) ?push" "sits_at base code (apc m1) (concat ?js)"
    using sits_at_append [of base code "apc m" ?push "concat ?js"] assms(3) by (simp_all add: m1)
  have "reaches arm_step base code m m1"
    using arm_cpu.reaches_one [OF arm_reglists(1) [OF assms(1)] s(1)] by (simp add: m1_def)
  moreover have "arm_loaded base code m1"
    unfolding holds_code_def m1
  proof (intro allI impI)
    fix i assume i: "i < length code"
    have "store_regs (areg m) ?rs ?top (amem m) (base + word_of_nat i) = amem m (base + word_of_nat i)"
      by (rule store_regs_other) (use assms(2) i in \<open>auto simp: arm_entered_def\<close>)
    then show "store_regs (areg m) ?rs ?top (amem m) (base + word_of_nat i) = code ! i"
      using assms(2) i by (simp add: arm_entered_def holds_code_def)
  qed
  then obtain m' where m': "reaches arm_step base code m1 m'" "apc m' = apc m1 + word_of_nat (length (concat ?js))"
    "arm_sp_moved (- arm_frame_size n) m1 m'"
    using arm_adjust_runs [OF assms(1) _ _ s(2), of A_SUB "- arm_frame_size n"] by blast
  moreover have "load_bytes 4 (amem m1) (?top + 4 * word_of_nat i) = areg m (?rs ! i)" if "i < length ?rs" for i
    unfolding m1 by (rule load_store_regs) (use that in simp_all)
  ultimately show ?thesis
    by (intro exI [of _ m'] conjI reaches_trans [of arm_step base code m m1 m'])
      (auto simp: m1 arm_framed_def arm_sp_moved_def add.assoc simp del: load_bytes.simps store_regs.simps)
qed

definition arm_returned :: "arm_machine \<Rightarrow> arm_machine \<Rightarrow> arm_machine \<Rightarrow> bool" where
  "arm_returned m0 m m' \<longleftrightarrow> apc m' = areg m0 14 AND NOT 1 \<and> areg m' 13 = areg m0 13 \<and> (\<forall>r \<in> {1..8}. areg m' r = areg m0 r) \<and>
     (\<forall>r \<in> {0} \<union> {9..12}. areg m' r = areg m r) \<and> amem m' = amem m"

lemma arm_exit_runs:
  assumes "MP_ENDIANNESS_LITTLE env" "arm_loaded base code m" "sits_at base code (apc m) (concat (arm_exit_bytes env n))"
  shows "\<exists>m'. reaches arm_step base code m m' \<and> (\<forall>m0. arm_framed n m0 m \<longrightarrow> arm_returned m0 m m')"
proof -
  let ?js = "arm_adjust_code env asm_arm_op_add_imm asm_arm_op_add_reg (arm_frame_size n)"
  let ?pop = "arm_al env (asm_arm_op_pop (ARM_ENTRY_REGLIST OR push_bit (unat ASM_ARM_REG_PC) 1))"
  have s: "sits_at base code (apc m) (concat ?js)" "sits_at base code (apc m + word_of_nat (length (concat ?js))) ?pop"
    using sits_at_append [of base code "apc m" "concat ?js" ?pop] assms(3) by simp_all
  obtain m1 where m1: "reaches arm_step base code m m1" "apc m1 = apc m + word_of_nat (length (concat ?js))"
    "arm_sp_moved (arm_frame_size n) m m1"
    using arm_adjust_runs [OF assms(1,2) _ s(1), of A_ADD "arm_frame_size n"] by blast
  let ?m = "arm_exec_instr (14, A_POP (arm_saved @ [15])) 4 m1"
  have "reaches arm_step base code m1 ?m"
    using arm_cpu.reaches_one [OF arm_reglists(2) [OF assms(1)], of base code m1] s(2) m1(2) by simp
  with m1(1) have run: "reaches arm_step base code m ?m" by (rule reaches_trans)
  have "arm_returned m0 m ?m" if framed: "arm_framed n m0 m" for m0
  proof -
    let ?top = "areg m0 13 - 36"
    define R where "R = load_regs (amem m) (arm_saved @ [15]) ?top (areg m1)"
    have top: "areg m1 13 = ?top" "amem m1 = amem m" "\<And>r. r \<notin> {8, 13} \<Longrightarrow> areg m1 r = areg m r"
      using framed m1(3) by (simp_all add: arm_framed_def arm_sp_moved_def Let_def)
    have saved: "load_bytes 4 (amem m) (?top + 4 * word_of_nat i) = areg m0 ((arm_saved @ [14]) ! i)" if "i < 9" for i
      using framed that by (simp add: arm_framed_def Let_def del: load_bytes.simps)
    have nth: "R ((arm_saved @ [15]) ! i) = areg m0 ((arm_saved @ [14]) ! i)" if "i < 9" for i
      using load_regs_nth(1) [of "arm_saved @ [15]" i "amem m" ?top "areg m1"] saved [OF that] that by (simp add: R_def)
    have "R 15 = areg m0 14" using nth [of 8] by simp
    moreover have "R r = areg m0 r" if r: "r \<in> {1..8}" for r
    proof -
      have "(arm_saved @ [15]) ! (r - 1) = r" "(arm_saved @ [14]) ! (r - 1) = r" "r - 1 < 9"
        using r by (auto simp: nth_append le_eq_less_or_eq numeral_eq_Suc less_Suc_eq)
      then show ?thesis using nth [of "r - 1"] by argo
    qed
    moreover have "R r = areg m r" if "r \<in> {0} \<union> {9..12}" for r
    proof -
      have "r \<notin> set (arm_saved @ [15])" "r \<notin> {8, 13}" using that by auto
      then show ?thesis using load_regs_nth(2) [of r "arm_saved @ [15]" "amem m" ?top "areg m1"] top(3) [of r] unfolding R_def by argo
    qed
    moreover have "apc ?m = R 15 AND NOT 1" "amem ?m = amem m" "areg ?m = R(13 := ?top + 36, 15 := areg m1 15)"
      by (simp_all add: R_def top Let_def)
    ultimately show ?thesis unfolding arm_returned_def by simp
  qed
  with run show ?thesis by blast
qed

lemma arm_entry_emits:
  assumes "0 \<le> sint n"
  shows "asm_arm_entry env n as = emit_code (arm_entry_bytes env n) (as\<lparr>push_reglist := ARM_ENTRY_REGLIST, stack_adjust := arm_frame_size n\<rparr>)"
  using assms unfolding asm_arm_entry_def Let_def arm_adjust_emits
  by (simp add: arm_emit_al_def arm_emit_def emit_bytes_as_code emit_code_seq)

lemma arm_exit_emits:
  assumes "push_reglist as = ARM_ENTRY_REGLIST" "stack_adjust as = arm_frame_size n"
  shows "asm_arm_exit env as = emit_code (arm_exit_bytes env n) as"
  unfolding asm_arm_exit_def arm_adjust_emits assms
  by (simp add: arm_emit_al_def arm_emit_def emit_bytes_as_code emit_code_seq)

text \<open>
  C25: The code of the entry of a function, run on an ARM machine, saves the registers 1 to 8 and the
  return address and reserves the frame of any size; the code of the exit, run on any machine whose
  stack still has them, restores the stack pointer and these registers and returns to the caller,
  with the result in register 0 and the memory untouched. The entry leaves in the assembler what
  the exit needs.
\<close>

theorem arm_entry_exit_correct:
  assumes "MP_ENDIANNESS_LITTLE env" "0 \<le> sint n" "emit_room 20 as" "emit_room 20 as2"
    and "push_reglist as2 = ARM_ENTRY_REGLIST" "stack_adjust as2 = arm_frame_size n"
  shows "(\<exists>as1. asm_arm_entry env n as = Inr as1 \<and>
      push_reglist as1 = ARM_ENTRY_REGLIST \<and> stack_adjust as1 = arm_frame_size n) \<and>
    emits_code arm_step apc arm_entered (asm_arm_entry env n) as
      (\<lambda>base next m m'. apc m' = next \<and> arm_framed n m m' \<and> (\<forall>r. r \<notin> {8, 13} \<longrightarrow> areg m' r = areg m r)) \<and>
    emits_arm (asm_arm_exit env) as2 (\<lambda>base next m m'. \<forall>m0. arm_framed n m0 m \<longrightarrow> arm_returned m0 m m')"
proof (intro conjI)
  let ?as = "as\<lparr>push_reglist := ARM_ENTRY_REGLIST, stack_adjust := arm_frame_size n\<rparr>"
  have len: "length (concat (arm_entry_bytes env n)) \<le> 20" "length (concat (arm_exit_bytes env n)) \<le> 20"
    using arm_adjust_length [of env asm_arm_op_sub_imm asm_arm_op_sub_reg "arm_frame_size n"]
      arm_adjust_length [of env asm_arm_op_add_imm asm_arm_op_add_reg "arm_frame_size n"] by simp_all
  obtain buf where room: "\<not> suppress as" "in_emit_pass as" "code_base as = Some buf" "unat (code_size as) \<le> length buf"
    "unat (code_offset as) + length (concat (arm_entry_bytes env n)) \<le> unat (code_size as)"
    using assms(3) len(1) by (auto simp: emit_room_def split: option.splits)
  show "\<exists>as1. asm_arm_entry env n as = Inr as1 \<and> push_reglist as1 = ARM_ENTRY_REGLIST \<and> stack_adjust as1 = arm_frame_size n"
    unfolding arm_entry_emits [OF assms(2)]
    using emit_code_store [of ?as buf "arm_entry_bytes env n"] room by (simp add: in_emit_pass_def)
  show "emits_code arm_step apc arm_entered (asm_arm_entry env n) as
      (\<lambda>base next m m'. apc m' = next \<and> arm_framed n m m' \<and> (\<forall>r. r \<notin> {8, 13} \<longrightarrow> areg m' r = areg m r))"
    by (rule emits_codeI [where f = "asm_arm_entry env n", OF arm_entry_emits [OF assms(2)] _ assms(3) len(1)])
      (simp add: mp_asm_base_t.defs, rule arm_entry_runs [OF assms(1)])
  show "emits_arm (asm_arm_exit env) as2 (\<lambda>base next m m'. \<forall>m0. arm_framed n m0 m \<longrightarrow> arm_returned m0 m m')"
    by (rule emits_codeI [where f = "asm_arm_exit env", OF arm_exit_emits [OF assms(5,6)] refl assms(4) len(2)])
      (rule arm_exit_runs [OF assms(1)])
qed

theorem arm_entry_exit_correct_witness:
  "(\<exists>as1. asm_arm_entry arm_demo_env 100 arm_emit_state = Inr as1 \<and>
      push_reglist as1 = ARM_ENTRY_REGLIST \<and> stack_adjust as1 = arm_frame_size 100) \<and>
    emits_code arm_step apc arm_entered (asm_arm_entry arm_demo_env 100) arm_emit_state
      (\<lambda>base next m m'. apc m' = next \<and> arm_framed 100 m m' \<and> (\<forall>r. r \<notin> {8, 13} \<longrightarrow> areg m' r = areg m r)) \<and>
    emits_arm (asm_arm_exit arm_demo_env) arm_emit_state (\<lambda>base next m m'. \<forall>m0. arm_framed 100 m0 m \<longrightarrow> arm_returned m0 m m')"
  by (rule arm_entry_exit_correct)
    (simp_all add: arm_emit_state_simps, simp_all add: arm_emit_state_def arm_demo_env_def ARM_ENTRY_REGLIST_def asm_consts arm_frame_size_def)

end
