(* ===== verification/X86_ISA.thy ===== *)
theory X86_ISA
  imports Machine_Code
begin

text \<open>
  A specification of the part of the 32-bit x86 instruction set that the x86 assembler uses for
  moves, memory operands, frames, comparisons, jumps and calls, after the Intel manual: decoding
  with ModRM, SIB (only the form for a base of ESP) and displacement bytes, and one step of a
  machine with eight registers, flags and memory. It is written independently of the encodings of
  the assembler; encodings outside this part decode to \<open>None\<close>.
\<close>

section \<open>Machine\<close>

record x86_machine =
  xreg :: "nat \<Rightarrow> u32"
  xip :: u32
  xmem :: "u32 \<Rightarrow> u8"
  xCF :: bool
  xZF :: bool
  xSF :: bool
  xOF :: bool

definition xset :: "nat \<Rightarrow> u32 \<Rightarrow> x86_machine \<Rightarrow> x86_machine" where
  "xset r v m = m\<lparr>xreg := (xreg m)(r := v)\<rparr>"

definition xflags :: "bool \<Rightarrow> bool \<Rightarrow> u32 \<Rightarrow> x86_machine \<Rightarrow> x86_machine" where
  "xflags c ov v m = m\<lparr>xCF := c, xOF := ov, xZF := (v = 0), xSF := bit v 31\<rparr>"

text \<open>An 8-bit register: the low byte of the first four registers, or their second byte.\<close>

definition xget8 :: "x86_machine \<Rightarrow> nat \<Rightarrow> u8" where
  "xget8 m r = (if r < 4 then ucast (xreg m r) else ucast (drop_bit 8 (xreg m (r - 4))))"

text \<open>The conditions, but for parity.\<close>

definition xcond :: "nat \<Rightarrow> x86_machine \<Rightarrow> bool" where
  "xcond c m =
     (let b = (if c div 2 = 0 then xOF m
               else if c div 2 = 1 then xCF m
               else if c div 2 = 2 then xZF m
               else if c div 2 = 3 then xCF m \<or> xZF m
               else if c div 2 = 4 then xSF m
               else if c div 2 = 6 then xSF m \<noteq> xOF m
               else xZF m \<or> xSF m \<noteq> xOF m)
      in if even c then b else \<not> b)"

section \<open>Instructions\<close>

datatype x86_operand = XReg nat | XMem nat u32

datatype x86_alu = X_ADD | X_OR | X_AND | X_SUB | X_XOR | X_CMP | X_TEST

datatype x86_instr =
    X_MOV_I nat u32
  | X_STORE x86_operand nat
  | X_STORE16 x86_operand nat
  | X_STORE8 x86_operand nat
  | X_LOAD nat x86_operand
  | X_LOADZX8 nat x86_operand
  | X_LOADZX16 nat x86_operand
  | X_LEA nat nat u32
  | X_ALU x86_alu nat nat
  | X_ALU_I x86_alu nat u32
  | X_TEST8 nat nat
  | X_PUSH nat
  | X_POP nat
  | X_RET
  | X_CALL u32
  | X_CALL_R nat
  | X_JMP u32
  | X_JMP_R nat
  | X_JCC nat u32

definition xaddr :: "x86_machine \<Rightarrow> nat \<Rightarrow> u32 \<Rightarrow> u32" where
  "xaddr m r d = xreg m r + d"

text \<open>An arithmetic operation on two values: whether the result is kept, and the flags.\<close>

fun xalu :: "x86_alu \<Rightarrow> nat \<Rightarrow> u32 \<Rightarrow> u32 \<Rightarrow> x86_machine \<Rightarrow> x86_machine" where
  "xalu X_ADD r a b m = xflags (a + b < a) (sint (a + b) \<noteq> sint a + sint b) (a + b) (xset r (a + b) m)"
| "xalu X_SUB r a b m = xflags (a < b) (sint (a - b) \<noteq> sint a - sint b) (a - b) (xset r (a - b) m)"
| "xalu X_OR r a b m = xflags False False (a OR b) (xset r (a OR b) m)"
| "xalu X_AND r a b m = xflags False False (a AND b) (xset r (a AND b) m)"
| "xalu X_XOR r a b m = xflags False False (a XOR b) (xset r (a XOR b) m)"
| "xalu X_CMP r a b m = xflags (a < b) (sint (a - b) \<noteq> sint a - sint b) (a - b) m"
| "xalu X_TEST r a b m = xflags False False (a AND b) m"

text \<open>A value of \<open>n\<close> bytes stored in memory, or a register moved to a register.\<close>

definition xpush :: "u32 \<Rightarrow> x86_machine \<Rightarrow> x86_machine" where
  "xpush v m = (let sp = xreg m 4 - 4 in (xset 4 sp m)\<lparr>xmem := store_bytes 4 sp v (xmem m)\<rparr>)"

fun x86_exec_instr :: "x86_instr \<Rightarrow> u32 \<Rightarrow> x86_machine \<Rightarrow> x86_machine" where
  "x86_exec_instr (X_MOV_I r v) len m = (xset r v m)\<lparr>xip := xip m + len\<rparr>"
| "x86_exec_instr (X_STORE (XReg d) r) len m = (xset d (xreg m r) m)\<lparr>xip := xip m + len\<rparr>"
| "x86_exec_instr (X_STORE (XMem b d) r) len m =
     m\<lparr>xmem := store_bytes 4 (xaddr m b d) (xreg m r) (xmem m), xip := xip m + len\<rparr>"
| "x86_exec_instr (X_STORE16 (XReg d) r) len m =
     (xset d ((xreg m d AND NOT 0xffff) OR take_bit 16 (xreg m r)) m)\<lparr>xip := xip m + len\<rparr>"
| "x86_exec_instr (X_STORE16 (XMem b d) r) len m =
     m\<lparr>xmem := store_bytes 2 (xaddr m b d) (xreg m r) (xmem m), xip := xip m + len\<rparr>"
| "x86_exec_instr (X_STORE8 (XReg d) r) len m =
     (if d < 4 then xset d ((xreg m d AND NOT 0xff) OR ucast (xget8 m r)) m
      else xset (d - 4) ((xreg m (d - 4) AND NOT 0xff00) OR push_bit 8 (ucast (xget8 m r))) m)\<lparr>xip := xip m + len\<rparr>"
| "x86_exec_instr (X_STORE8 (XMem b d) r) len m =
     m\<lparr>xmem := (xmem m)(xaddr m b d := xget8 m r), xip := xip m + len\<rparr>"
| "x86_exec_instr (X_LOAD r (XReg s)) len m = (xset r (xreg m s) m)\<lparr>xip := xip m + len\<rparr>"
| "x86_exec_instr (X_LOAD r (XMem b d)) len m = (xset r (load_bytes 4 (xmem m) (xaddr m b d)) m)\<lparr>xip := xip m + len\<rparr>"
| "x86_exec_instr (X_LOADZX8 r (XReg s)) len m = (xset r (ucast (xget8 m s)) m)\<lparr>xip := xip m + len\<rparr>"
| "x86_exec_instr (X_LOADZX8 r (XMem b d)) len m = (xset r (load_bytes 1 (xmem m) (xaddr m b d)) m)\<lparr>xip := xip m + len\<rparr>"
| "x86_exec_instr (X_LOADZX16 r (XReg s)) len m = (xset r (take_bit 16 (xreg m s)) m)\<lparr>xip := xip m + len\<rparr>"
| "x86_exec_instr (X_LOADZX16 r (XMem b d)) len m = (xset r (load_bytes 2 (xmem m) (xaddr m b d)) m)\<lparr>xip := xip m + len\<rparr>"
| "x86_exec_instr (X_LEA r b d) len m = (xset r (xaddr m b d) m)\<lparr>xip := xip m + len\<rparr>"
| "x86_exec_instr (X_ALU f d r) len m = (xalu f d (xreg m d) (xreg m r) m)\<lparr>xip := xip m + len\<rparr>"
| "x86_exec_instr (X_ALU_I f d v) len m = (xalu f d (xreg m d) v m)\<lparr>xip := xip m + len\<rparr>"
| "x86_exec_instr (X_TEST8 a b) len m =
     (let v = xget8 m a AND xget8 m b in m\<lparr>xCF := False, xOF := False, xZF := (v = 0), xSF := bit v 7, xip := xip m + len\<rparr>)"
| "x86_exec_instr (X_PUSH r) len m = (xpush (xreg m r) m)\<lparr>xip := xip m + len\<rparr>"
| "x86_exec_instr (X_POP r) len m =
     (xset r (load_bytes 4 (xmem m) (xreg m 4)) (xset 4 (xreg m 4 + 4) m))\<lparr>xip := xip m + len\<rparr>"
| "x86_exec_instr X_RET len m = (xset 4 (xreg m 4 + 4) m)\<lparr>xip := load_bytes 4 (xmem m) (xreg m 4)\<rparr>"
| "x86_exec_instr (X_CALL rel) len m = (xpush (xip m + len) m)\<lparr>xip := xip m + len + rel\<rparr>"
| "x86_exec_instr (X_CALL_R r) len m = (xpush (xip m + len) m)\<lparr>xip := xreg m r\<rparr>"
| "x86_exec_instr (X_JMP rel) len m = m\<lparr>xip := xip m + len + rel\<rparr>"
| "x86_exec_instr (X_JMP_R r) len m = m\<lparr>xip := xreg m r\<rparr>"
| "x86_exec_instr (X_JCC c rel) len m = m\<lparr>xip := xip m + len + (if xcond c m then rel else 0)\<rparr>"

section \<open>Decoding\<close>

definition reg_field :: "u8 \<Rightarrow> nat" where
  "reg_field b = unat (take_bit 3 (drop_bit 3 b))"

definition rm_field :: "u8 \<Rightarrow> nat" where
  "rm_field b = unat (take_bit 3 b)"

text \<open>The ModRM byte and what follows: the register field, the operand, the number of bytes.\<close>

fun x86_modrm :: "u8 list \<Rightarrow> (nat \<times> x86_operand \<times> nat) option" where
  "x86_modrm [] = None"
| "x86_modrm (b # bs) =
     (if drop_bit 6 b = 3 then Some (reg_field b, XReg (rm_field b), 1)
      else case (if rm_field b = 4
                 then (case bs of [] \<Rightarrow> None | s # ds \<Rightarrow> if s = 0x24 then Some (ds, 2) else None)
                 else Some (bs, 1)) of
        None \<Rightarrow> None
      | Some (ds, n) \<Rightarrow>
          if drop_bit 6 b = 0
          then if rm_field b = 5 then None else Some (reg_field b, XMem (rm_field b) 0, n)
          else if drop_bit 6 b = 1
          then (case ds of [] \<Rightarrow> None | d # _ \<Rightarrow> Some (reg_field b, XMem (rm_field b) (scast d), n + 1))
          else if length ds < 4 then None
          else Some (reg_field b, XMem (rm_field b) (le_word (take 4 ds)), n + 4))"

definition with_modrm :: "nat \<Rightarrow> (nat \<Rightarrow> x86_operand \<Rightarrow> x86_instr option) \<Rightarrow> u8 list \<Rightarrow> (x86_instr \<times> nat) option" where
  "with_modrm k f bs =
     (case x86_modrm bs of None \<Rightarrow> None | Some (r, rm, n) \<Rightarrow> map_option (\<lambda>i. (i, k + n)) (f r rm))"

definition with_imm32 :: "nat \<Rightarrow> (u32 \<Rightarrow> x86_instr) \<Rightarrow> u8 list \<Rightarrow> (x86_instr \<times> nat) option" where
  "with_imm32 k f bs = (if length bs < 4 then None else Some (f (le_word (take 4 bs)), k + 4))"

text \<open>Operations on two registers, by opcode.\<close>

definition x86_alu_of :: "u8 \<Rightarrow> x86_alu option" where
  "x86_alu_of b =
     (if b = 0x01 then Some X_ADD else if b = 0x09 then Some X_OR else if b = 0x21 then Some X_AND
      else if b = 0x29 then Some X_SUB else if b = 0x31 then Some X_XOR else if b = 0x39 then Some X_CMP
      else if b = 0x85 then Some X_TEST else None)"

text \<open>An arithmetic operation with an immediate of one or four bytes behind the ModRM byte.\<close>

definition x86_alu_imm :: "bool \<Rightarrow> u8 list \<Rightarrow> (x86_instr \<times> nat) option" where
  "x86_alu_imm short bs =
     (case bs of
        [] \<Rightarrow> None
      | b # ds \<Rightarrow>
          if drop_bit 6 b \<noteq> 3 \<or> reg_field b \<notin> {0, 5} then None
          else let f = (if reg_field b = 0 then X_ADD else X_SUB)
          in if short
             then (case ds of [] \<Rightarrow> None | d # _ \<Rightarrow> Some (X_ALU_I f (rm_field b) (scast d), 3))
             else with_imm32 2 (X_ALU_I f (rm_field b)) ds)"

definition x86_decode_0f :: "u8 \<Rightarrow> u8 list \<Rightarrow> (x86_instr \<times> nat) option" where
  "x86_decode_0f b bs =
     (if b = 0xb6 then with_modrm 2 (\<lambda>r rm. Some (X_LOADZX8 r rm)) bs
      else if b = 0xb7 then with_modrm 2 (\<lambda>r rm. Some (X_LOADZX16 r rm)) bs
      else if drop_bit 4 b = 8 \<and> take_bit 4 b div 2 \<noteq> 5 then with_imm32 2 (X_JCC (unat (take_bit 4 b))) bs
      else None)"

definition x86_decode :: "u8 list \<Rightarrow> (x86_instr \<times> nat) option" where
  "x86_decode code =
     (case code of
        [] \<Rightarrow> None
      | b # bs \<Rightarrow>
          if drop_bit 3 b = 0x0a then Some (X_PUSH (rm_field b), 1)
          else if drop_bit 3 b = 0x0b then Some (X_POP (rm_field b), 1)
          else if drop_bit 3 b = 0x17 then with_imm32 1 (X_MOV_I (rm_field b)) bs
          else if b = 0x0f then (case bs of [] \<Rightarrow> None | c # cs \<Rightarrow> x86_decode_0f c cs)
          else if b = 0x66 then
            (case bs of [] \<Rightarrow> None | c # cs \<Rightarrow> if c = 0x89 then with_modrm 2 (\<lambda>r rm. Some (X_STORE16 rm r)) cs else None)
          else if drop_bit 4 b = 7 \<and> take_bit 4 b div 2 \<noteq> 5 then
            (case bs of [] \<Rightarrow> None | d # _ \<Rightarrow> Some (X_JCC (unat (take_bit 4 b)) (scast d), 2))
          else if b = 0x81 then x86_alu_imm False bs
          else if b = 0x83 then x86_alu_imm True bs
          else if b = 0x84 then
            with_modrm 1 (\<lambda>r rm. case rm of XReg d \<Rightarrow> Some (X_TEST8 d r) | _ \<Rightarrow> None) bs
          else if b = 0x88 then with_modrm 1 (\<lambda>r rm. Some (X_STORE8 rm r)) bs
          else if b = 0x89 then with_modrm 1 (\<lambda>r rm. Some (X_STORE rm r)) bs
          else if b = 0x8b then with_modrm 1 (\<lambda>r rm. Some (X_LOAD r rm)) bs
          else if b = 0x8d then
            with_modrm 1 (\<lambda>r rm. case rm of XMem x d \<Rightarrow> Some (X_LEA r x d) | _ \<Rightarrow> None) bs
          else if b = 0xc3 then Some (X_RET, 1)
          else if b = 0xe8 then with_imm32 1 X_CALL bs
          else if b = 0xe9 then with_imm32 1 X_JMP bs
          else if b = 0xeb then (case bs of [] \<Rightarrow> None | d # _ \<Rightarrow> Some (X_JMP (scast d), 2))
          else if b = 0xff then
            with_modrm 1 (\<lambda>r rm. case rm of
                XReg x \<Rightarrow> if r = 2 then Some (X_CALL_R x) else if r = 4 then Some (X_JMP_R x) else None
              | _ \<Rightarrow> None) bs
          else (case x86_alu_of b of
              None \<Rightarrow> None
            | Some f \<Rightarrow> with_modrm 1 (\<lambda>r rm. case rm of XReg d \<Rightarrow> Some (X_ALU f d r) | _ \<Rightarrow> None) bs))"

definition x86_fetch :: "u8 list \<Rightarrow> nat \<Rightarrow> (x86_instr \<times> u32) option" where
  "x86_fetch code off = map_option (\<lambda>(i, n). (i, word_of_nat n)) (x86_decode (drop off code))"

definition x86_step :: "u32 \<Rightarrow> u8 list \<Rightarrow> x86_machine \<Rightarrow> x86_machine option" where
  "x86_step base code m =
     (case x86_fetch code (unat (xip m - base)) of
        None \<Rightarrow> None | Some (i, len) \<Rightarrow> Some (x86_exec_instr i len m))"

text \<open>Instructions that continue with the next one.\<close>

fun x86_straight :: "x86_instr \<Rightarrow> bool" where
  "x86_straight X_RET = False"
| "x86_straight (X_CALL _) = False"
| "x86_straight (X_CALL_R _) = False"
| "x86_straight (X_JMP _) = False"
| "x86_straight (X_JMP_R _) = False"
| "x86_straight (X_JCC _ _) = False"
| "x86_straight _ = True"

interpretation x86_cpu: code_machine x86_fetch x86_exec_instr xip x86_step x86_straight
proof
  show "x86_step base code m = Some (x86_exec_instr i len m)"
    if "x86_fetch code (unat (xip m - base)) = Some (i, len)" for base code m i len
    using that by (simp add: x86_step_def)
  show "xip (x86_exec_instr i len m) = xip m + len" if "x86_straight i" for i len m
    using that by (induction i len m rule: x86_exec_instr.induct) (simp_all add: Let_def)
qed

lemma fetches_x86I: "(\<And>post. x86_decode (bs @ post) = Some (i, length bs)) \<Longrightarrow> fetches_at x86_fetch bs i"
  by (simp add: fetches_at_def x86_fetch_def)

end
