(* ===== verification/Asm_X86.thy ===== *)
theory Asm_X86
  imports Plain_Ops
begin

text \<open>
  The assembler for 32-bit x86, \<open>src/bank/uPython-ASM/asmx86.c\<close> and \<open>asmx86.h\<close>: opcodes and
  ModRM bytes, byte writers, memory operands with their displacement forms, register
  instructions, jumps, function entry and exit, locals, arguments and calls. Macros with no
  prefix in the source carry the prefix \<open>X86_\<close>. A C \<open>int\<close> is held in a \<open>u32\<close>; passing an
  \<open>int\<close> where a \<open>byte\<close> is expected keeps its low eight bits, which the writers do. Code inside
  \<open>#if 0\<close> is left out.
\<close>

section \<open>Registers, conditions and opcodes\<close>

definition ASM_X86_REG_EAX :: u32 where [asm_consts]: "ASM_X86_REG_EAX = 0"
definition ASM_X86_REG_ECX :: u32 where [asm_consts]: "ASM_X86_REG_ECX = 1"
definition ASM_X86_REG_EDX :: u32 where [asm_consts]: "ASM_X86_REG_EDX = 2"
definition ASM_X86_REG_EBX :: u32 where [asm_consts]: "ASM_X86_REG_EBX = 3"
definition ASM_X86_REG_ESP :: u32 where [asm_consts]: "ASM_X86_REG_ESP = 4"
definition ASM_X86_REG_EBP :: u32 where [asm_consts]: "ASM_X86_REG_EBP = 5"
definition ASM_X86_REG_ESI :: u32 where [asm_consts]: "ASM_X86_REG_ESI = 6"
definition ASM_X86_REG_EDI :: u32 where [asm_consts]: "ASM_X86_REG_EDI = 7"
definition ASM_X86_REG_ARG_1 :: u32 where [asm_consts]: "ASM_X86_REG_ARG_1 = ASM_X86_REG_EAX"
definition ASM_X86_REG_ARG_2 :: u32 where [asm_consts]: "ASM_X86_REG_ARG_2 = ASM_X86_REG_ECX"
definition ASM_X86_REG_ARG_3 :: u32 where [asm_consts]: "ASM_X86_REG_ARG_3 = ASM_X86_REG_EDX"
definition ASM_X86_REG_ARG_4 :: u32 where [asm_consts]: "ASM_X86_REG_ARG_4 = ASM_X86_REG_EBX"
definition ASM_X86_CC_JB :: u32 where [asm_consts]: "ASM_X86_CC_JB = 0x2"
definition ASM_X86_CC_JAE :: u32 where [asm_consts]: "ASM_X86_CC_JAE = 0x3"
definition ASM_X86_CC_JZ :: u32 where [asm_consts]: "ASM_X86_CC_JZ = 0x4"
definition ASM_X86_CC_JE :: u32 where [asm_consts]: "ASM_X86_CC_JE = 0x4"
definition ASM_X86_CC_JNZ :: u32 where [asm_consts]: "ASM_X86_CC_JNZ = 0x5"
definition ASM_X86_CC_JNE :: u32 where [asm_consts]: "ASM_X86_CC_JNE = 0x5"
definition ASM_X86_CC_JBE :: u32 where [asm_consts]: "ASM_X86_CC_JBE = 0x6"
definition ASM_X86_CC_JA :: u32 where [asm_consts]: "ASM_X86_CC_JA = 0x7"
definition ASM_X86_CC_JL :: u32 where [asm_consts]: "ASM_X86_CC_JL = 0xc"
definition ASM_X86_CC_JGE :: u32 where [asm_consts]: "ASM_X86_CC_JGE = 0xd"
definition ASM_X86_CC_JLE :: u32 where [asm_consts]: "ASM_X86_CC_JLE = 0xe"
definition ASM_X86_CC_JG :: u32 where [asm_consts]: "ASM_X86_CC_JG = 0xf"
definition ASM_X86_REG_FUN_TABLE :: u32 where [asm_consts]: "ASM_X86_REG_FUN_TABLE = ASM_X86_REG_EBP"
definition X86_WORD_SIZE :: u32 where [asm_consts]: "X86_WORD_SIZE = 4"
definition X86_OPCODE_NOP :: u32 where [asm_consts]: "X86_OPCODE_NOP = 0x90"
definition X86_OPCODE_PUSH_R32 :: u32 where [asm_consts]: "X86_OPCODE_PUSH_R32 = 0x50"
definition X86_OPCODE_POP_R32 :: u32 where [asm_consts]: "X86_OPCODE_POP_R32 = 0x58"
definition X86_OPCODE_RET :: u32 where [asm_consts]: "X86_OPCODE_RET = 0xc3"
definition X86_OPCODE_MOV_I32_TO_R32 :: u32 where [asm_consts]: "X86_OPCODE_MOV_I32_TO_R32 = 0xb8"
definition X86_OPCODE_MOV_R8_TO_RM8 :: u32 where [asm_consts]: "X86_OPCODE_MOV_R8_TO_RM8 = 0x88"
definition X86_OPCODE_MOV_R32_TO_RM32 :: u32 where [asm_consts]: "X86_OPCODE_MOV_R32_TO_RM32 = 0x89"
definition X86_OPCODE_MOV_RM32_TO_R32 :: u32 where [asm_consts]: "X86_OPCODE_MOV_RM32_TO_R32 = 0x8b"
definition X86_OPCODE_MOVZX_RM8_TO_R32 :: u32 where [asm_consts]: "X86_OPCODE_MOVZX_RM8_TO_R32 = 0xb6"
definition X86_OPCODE_MOVZX_RM16_TO_R32 :: u32 where [asm_consts]: "X86_OPCODE_MOVZX_RM16_TO_R32 = 0xb7"
definition X86_OPCODE_LEA_MEM_TO_R32 :: u32 where [asm_consts]: "X86_OPCODE_LEA_MEM_TO_R32 = 0x8d"
definition X86_OPCODE_NOT_RM32 :: u32 where [asm_consts]: "X86_OPCODE_NOT_RM32 = 0xf7"
definition X86_OPCODE_NEG_RM32 :: u32 where [asm_consts]: "X86_OPCODE_NEG_RM32 = 0xf7"
definition X86_OPCODE_AND_R32_TO_RM32 :: u32 where [asm_consts]: "X86_OPCODE_AND_R32_TO_RM32 = 0x21"
definition X86_OPCODE_OR_R32_TO_RM32 :: u32 where [asm_consts]: "X86_OPCODE_OR_R32_TO_RM32 = 0x09"
definition X86_OPCODE_XOR_R32_TO_RM32 :: u32 where [asm_consts]: "X86_OPCODE_XOR_R32_TO_RM32 = 0x31"
definition X86_OPCODE_ADD_R32_TO_RM32 :: u32 where [asm_consts]: "X86_OPCODE_ADD_R32_TO_RM32 = 0x01"
definition X86_OPCODE_ADD_I32_TO_RM32 :: u32 where [asm_consts]: "X86_OPCODE_ADD_I32_TO_RM32 = 0x81"
definition X86_OPCODE_ADD_I8_TO_RM32 :: u32 where [asm_consts]: "X86_OPCODE_ADD_I8_TO_RM32 = 0x83"
definition X86_OPCODE_SUB_R32_FROM_RM32 :: u32 where [asm_consts]: "X86_OPCODE_SUB_R32_FROM_RM32 = 0x29"
definition X86_OPCODE_SUB_I32_FROM_RM32 :: u32 where [asm_consts]: "X86_OPCODE_SUB_I32_FROM_RM32 = 0x81"
definition X86_OPCODE_SUB_I8_FROM_RM32 :: u32 where [asm_consts]: "X86_OPCODE_SUB_I8_FROM_RM32 = 0x83"
definition X86_OPCODE_SHL_RM32_CL :: u32 where [asm_consts]: "X86_OPCODE_SHL_RM32_CL = 0xd3"
definition X86_OPCODE_SHR_RM32_CL :: u32 where [asm_consts]: "X86_OPCODE_SHR_RM32_CL = 0xd3"
definition X86_OPCODE_SAR_RM32_CL :: u32 where [asm_consts]: "X86_OPCODE_SAR_RM32_CL = 0xd3"
definition X86_OPCODE_CMP_R32_WITH_RM32 :: u32 where [asm_consts]: "X86_OPCODE_CMP_R32_WITH_RM32 = 0x39"
definition X86_OPCODE_TEST_R8_WITH_RM8 :: u32 where [asm_consts]: "X86_OPCODE_TEST_R8_WITH_RM8 = 0x84"
definition X86_OPCODE_TEST_R32_WITH_RM32 :: u32 where [asm_consts]: "X86_OPCODE_TEST_R32_WITH_RM32 = 0x85"
definition X86_OPCODE_JMP_REL8 :: u32 where [asm_consts]: "X86_OPCODE_JMP_REL8 = 0xeb"
definition X86_OPCODE_JMP_REL32 :: u32 where [asm_consts]: "X86_OPCODE_JMP_REL32 = 0xe9"
definition X86_OPCODE_JMP_RM32 :: u32 where [asm_consts]: "X86_OPCODE_JMP_RM32 = 0xff"
definition X86_OPCODE_JCC_REL8 :: u32 where [asm_consts]: "X86_OPCODE_JCC_REL8 = 0x70"
definition X86_OPCODE_JCC_REL32_A :: u32 where [asm_consts]: "X86_OPCODE_JCC_REL32_A = 0x0f"
definition X86_OPCODE_JCC_REL32_B :: u32 where [asm_consts]: "X86_OPCODE_JCC_REL32_B = 0x80"
definition X86_OPCODE_SETCC_RM8_A :: u32 where [asm_consts]: "X86_OPCODE_SETCC_RM8_A = 0x0f"
definition X86_OPCODE_SETCC_RM8_B :: u32 where [asm_consts]: "X86_OPCODE_SETCC_RM8_B = 0x90"
definition X86_OPCODE_CALL_REL32 :: u32 where [asm_consts]: "X86_OPCODE_CALL_REL32 = 0xe8"
definition X86_OPCODE_CALL_RM32 :: u32 where [asm_consts]: "X86_OPCODE_CALL_RM32 = 0xff"
definition X86_OPCODE_LEAVE :: u32 where [asm_consts]: "X86_OPCODE_LEAVE = 0xc9"
definition X86_MODRM_RM_DISP0 :: u32 where [asm_consts]: "X86_MODRM_RM_DISP0 = 0x00"
definition X86_MODRM_RM_DISP8 :: u32 where [asm_consts]: "X86_MODRM_RM_DISP8 = 0x40"
definition X86_MODRM_RM_DISP32 :: u32 where [asm_consts]: "X86_MODRM_RM_DISP32 = 0x80"
definition X86_MODRM_RM_REG :: u32 where [asm_consts]: "X86_MODRM_RM_REG = 0xc0"
definition X86_OP_SIZE_PREFIX :: u32 where [asm_consts]: "X86_OP_SIZE_PREFIX = 0x66"

definition X86_MODRM_R32 :: "u32 \<Rightarrow> u32" where
  [asm_encodes]: "X86_MODRM_R32 x = push_bit 3 x"

definition X86_MODRM_RM_R32 :: "u32 \<Rightarrow> u32" where
  [asm_encodes]: "X86_MODRM_RM_R32 x = x"

definition X86_IMM32_L0 :: "u32 \<Rightarrow> u32" where
  [asm_encodes]: "X86_IMM32_L0 x = x AND 0xff"

definition X86_IMM32_L1 :: "u32 \<Rightarrow> u32" where
  [asm_encodes]: "X86_IMM32_L1 x = signed_drop_bit 8 x AND 0xff"

definition X86_IMM32_L2 :: "u32 \<Rightarrow> u32" where
  [asm_encodes]: "X86_IMM32_L2 x = signed_drop_bit 16 x AND 0xff"

definition X86_IMM32_L3 :: "u32 \<Rightarrow> u32" where
  [asm_encodes]: "X86_IMM32_L3 x = signed_drop_bit 24 x AND 0xff"

definition X86_SIGNED_FIT8 :: "u32 \<Rightarrow> bool" where
  "X86_SIGNED_FIT8 x \<longleftrightarrow> x AND 0xffffff80 = 0 \<or> x AND 0xffffff80 = 0xffffff80"

section \<open>State and writers\<close>

record asm_x86_t = "32 mp_asm_base_t" +
  num_locals :: u32

text \<open>The number of arguments of each function of the function table, from \<open>py/nativeglue.c\<close>.\<close>

record x86_env =
  mp_f_n_args :: "u32 \<Rightarrow> u32"

definition asm_x86_end_pass :: "asm_x86_t asm" where
  "asm_x86_end_pass s = Inr s"

definition asm_x86_write_byte_1 :: "u32 \<Rightarrow> asm_x86_t asm" where
  "asm_x86_write_byte_1 b1 = emit_bytes [ucast b1]"

definition asm_x86_write_byte_2 :: "u32 \<Rightarrow> u32 \<Rightarrow> asm_x86_t asm" where
  "asm_x86_write_byte_2 b1 b2 = emit_bytes [ucast b1, ucast b2]"

definition asm_x86_write_byte_3 :: "u32 \<Rightarrow> u32 \<Rightarrow> u32 \<Rightarrow> asm_x86_t asm" where
  "asm_x86_write_byte_3 b1 b2 b3 = emit_bytes [ucast b1, ucast b2, ucast b3]"

definition x86_word32_bytes :: "u32 \<Rightarrow> u8 list" where
  "x86_word32_bytes w32 =
     [ucast (X86_IMM32_L0 w32), ucast (X86_IMM32_L1 w32), ucast (X86_IMM32_L2 w32), ucast (X86_IMM32_L3 w32)]"

definition asm_x86_write_word32 :: "u32 \<Rightarrow> asm_x86_t asm" where
  "asm_x86_write_word32 w32 = emit_bytes (x86_word32_bytes w32)"

text \<open>A memory operand: the form of the displacement, the SIB byte that ESP needs, the displacement.\<close>

definition x86_rm_disp :: "u32 \<Rightarrow> u32 \<Rightarrow> u32" where
  "x86_rm_disp disp_r32 disp_offset =
     (if disp_offset = 0 \<and> disp_r32 \<noteq> ASM_X86_REG_EBP then X86_MODRM_RM_DISP0
      else if X86_SIGNED_FIT8 disp_offset then X86_MODRM_RM_DISP8
      else X86_MODRM_RM_DISP32)"

definition asm_x86_write_r32_disp :: "u32 \<Rightarrow> u32 \<Rightarrow> u32 \<Rightarrow> asm_x86_t asm" where
  "asm_x86_write_r32_disp r32 disp_r32 disp_offset =
     (let rm_disp = x86_rm_disp disp_r32 disp_offset
      in asm_seq
        [asm_x86_write_byte_1 (X86_MODRM_R32 r32 OR rm_disp OR X86_MODRM_RM_R32 disp_r32),
         asm_when (disp_r32 = ASM_X86_REG_ESP) (asm_x86_write_byte_1 0x24),
         if rm_disp = X86_MODRM_RM_DISP8 then asm_x86_write_byte_1 (X86_IMM32_L0 disp_offset)
         else asm_when (rm_disp = X86_MODRM_RM_DISP32) (asm_x86_write_word32 disp_offset)])"

definition asm_x86_generic_r32_r32 :: "u32 \<Rightarrow> u32 \<Rightarrow> u32 \<Rightarrow> asm_x86_t asm" where
  "asm_x86_generic_r32_r32 dest_r32 src_r32 op =
     asm_x86_write_byte_2 op (X86_MODRM_R32 src_r32 OR X86_MODRM_RM_REG OR X86_MODRM_RM_R32 dest_r32)"

section \<open>Moves and memory\<close>

definition asm_x86_push_r32 :: "u32 \<Rightarrow> asm_x86_t asm" where
  [asm_ops]: "asm_x86_push_r32 src_r32 =
     asm_x86_write_byte_1 (X86_OPCODE_PUSH_R32 OR src_r32)"

definition asm_x86_pop_r32 :: "u32 \<Rightarrow> asm_x86_t asm" where
  [asm_ops]: "asm_x86_pop_r32 dest_r32 =
     asm_x86_write_byte_1 (X86_OPCODE_POP_R32 OR dest_r32)"

definition asm_x86_ret :: "asm_x86_t asm" where
  [asm_ops]: "asm_x86_ret =
     asm_x86_write_byte_1 X86_OPCODE_RET"

definition asm_x86_mov_r32_r32 :: "u32 \<Rightarrow> u32 \<Rightarrow> asm_x86_t asm" where
  [asm_ops]: "asm_x86_mov_r32_r32 dest_r32 src_r32 =
     asm_x86_generic_r32_r32 dest_r32 src_r32 X86_OPCODE_MOV_R32_TO_RM32"

definition asm_x86_mov_r8_to_mem8 :: "u32 \<Rightarrow> u32 \<Rightarrow> u32 \<Rightarrow> asm_x86_t asm" where
  [asm_ops]: "asm_x86_mov_r8_to_mem8 src_r32 dest_r32 dest_disp =
     asm_seq [asm_x86_write_byte_1 X86_OPCODE_MOV_R8_TO_RM8, asm_x86_write_r32_disp src_r32 dest_r32 dest_disp]"

definition asm_x86_mov_r16_to_mem16 :: "u32 \<Rightarrow> u32 \<Rightarrow> u32 \<Rightarrow> asm_x86_t asm" where
  [asm_ops]: "asm_x86_mov_r16_to_mem16 src_r32 dest_r32 dest_disp =
     asm_seq [asm_x86_write_byte_2 X86_OP_SIZE_PREFIX X86_OPCODE_MOV_R32_TO_RM32, asm_x86_write_r32_disp src_r32 dest_r32 dest_disp]"

definition asm_x86_mov_r32_to_mem32 :: "u32 \<Rightarrow> u32 \<Rightarrow> u32 \<Rightarrow> asm_x86_t asm" where
  [asm_ops]: "asm_x86_mov_r32_to_mem32 src_r32 dest_r32 dest_disp =
     asm_seq [asm_x86_write_byte_1 X86_OPCODE_MOV_R32_TO_RM32, asm_x86_write_r32_disp src_r32 dest_r32 dest_disp]"

definition asm_x86_mov_mem8_to_r32zx :: "u32 \<Rightarrow> u32 \<Rightarrow> u32 \<Rightarrow> asm_x86_t asm" where
  [asm_ops]: "asm_x86_mov_mem8_to_r32zx src_r32 src_disp dest_r32 =
     asm_seq [asm_x86_write_byte_2 0x0f X86_OPCODE_MOVZX_RM8_TO_R32, asm_x86_write_r32_disp dest_r32 src_r32 src_disp]"

definition asm_x86_mov_mem16_to_r32zx :: "u32 \<Rightarrow> u32 \<Rightarrow> u32 \<Rightarrow> asm_x86_t asm" where
  [asm_ops]: "asm_x86_mov_mem16_to_r32zx src_r32 src_disp dest_r32 =
     asm_seq [asm_x86_write_byte_2 0x0f X86_OPCODE_MOVZX_RM16_TO_R32, asm_x86_write_r32_disp dest_r32 src_r32 src_disp]"

definition asm_x86_mov_mem32_to_r32 :: "u32 \<Rightarrow> u32 \<Rightarrow> u32 \<Rightarrow> asm_x86_t asm" where
  [asm_ops]: "asm_x86_mov_mem32_to_r32 src_r32 src_disp dest_r32 =
     asm_seq [asm_x86_write_byte_1 X86_OPCODE_MOV_RM32_TO_R32, asm_x86_write_r32_disp dest_r32 src_r32 src_disp]"

definition asm_x86_lea_disp_to_r32 :: "u32 \<Rightarrow> u32 \<Rightarrow> u32 \<Rightarrow> asm_x86_t asm" where
  [asm_ops]: "asm_x86_lea_disp_to_r32 src_r32 src_disp dest_r32 =
     asm_seq [asm_x86_write_byte_1 X86_OPCODE_LEA_MEM_TO_R32, asm_x86_write_r32_disp dest_r32 src_r32 src_disp]"

text \<open>The position the C function returns is the one of the immediate in the code.\<close>

definition asm_x86_mov_i32_to_r32 :: "u32 \<Rightarrow> u32 \<Rightarrow> asm_x86_t \<Rightarrow> asm_error + (u32 \<times> asm_x86_t)" where
  "asm_x86_mov_i32_to_r32 src_i32 dest_r32 s =
     (case asm_x86_write_byte_1 (X86_OPCODE_MOV_I32_TO_R32 OR dest_r32) s of
        Inl e \<Rightarrow> Inl e
      | Inr t \<Rightarrow>
          let loc = mp_asm_base_get_code_pos t
          in case asm_x86_write_word32 src_i32 t of Inl e \<Rightarrow> Inl e | Inr u \<Rightarrow> Inr (loc, u))"

section \<open>Arithmetic and comparisons\<close>

definition asm_x86_not_r32 :: "u32 \<Rightarrow> asm_x86_t asm" where
  [asm_ops]: "asm_x86_not_r32 dest_r32 =
     asm_x86_generic_r32_r32 dest_r32 2 X86_OPCODE_NOT_RM32"

definition asm_x86_neg_r32 :: "u32 \<Rightarrow> asm_x86_t asm" where
  [asm_ops]: "asm_x86_neg_r32 dest_r32 =
     asm_x86_generic_r32_r32 dest_r32 3 X86_OPCODE_NEG_RM32"

definition asm_x86_and_r32_r32 :: "u32 \<Rightarrow> u32 \<Rightarrow> asm_x86_t asm" where
  [asm_ops]: "asm_x86_and_r32_r32 dest_r32 src_r32 =
     asm_x86_generic_r32_r32 dest_r32 src_r32 X86_OPCODE_AND_R32_TO_RM32"

definition asm_x86_or_r32_r32 :: "u32 \<Rightarrow> u32 \<Rightarrow> asm_x86_t asm" where
  [asm_ops]: "asm_x86_or_r32_r32 dest_r32 src_r32 =
     asm_x86_generic_r32_r32 dest_r32 src_r32 X86_OPCODE_OR_R32_TO_RM32"

definition asm_x86_xor_r32_r32 :: "u32 \<Rightarrow> u32 \<Rightarrow> asm_x86_t asm" where
  [asm_ops]: "asm_x86_xor_r32_r32 dest_r32 src_r32 =
     asm_x86_generic_r32_r32 dest_r32 src_r32 X86_OPCODE_XOR_R32_TO_RM32"

definition asm_x86_shl_r32_cl :: "u32 \<Rightarrow> asm_x86_t asm" where
  [asm_ops]: "asm_x86_shl_r32_cl dest_r32 =
     asm_x86_generic_r32_r32 dest_r32 4 X86_OPCODE_SHL_RM32_CL"

definition asm_x86_shr_r32_cl :: "u32 \<Rightarrow> asm_x86_t asm" where
  [asm_ops]: "asm_x86_shr_r32_cl dest_r32 =
     asm_x86_generic_r32_r32 dest_r32 5 X86_OPCODE_SHR_RM32_CL"

definition asm_x86_sar_r32_cl :: "u32 \<Rightarrow> asm_x86_t asm" where
  [asm_ops]: "asm_x86_sar_r32_cl dest_r32 =
     asm_x86_generic_r32_r32 dest_r32 7 X86_OPCODE_SAR_RM32_CL"

definition asm_x86_add_r32_r32 :: "u32 \<Rightarrow> u32 \<Rightarrow> asm_x86_t asm" where
  [asm_ops]: "asm_x86_add_r32_r32 dest_r32 src_r32 =
     asm_x86_generic_r32_r32 dest_r32 src_r32 X86_OPCODE_ADD_R32_TO_RM32"

definition asm_x86_add_i32_to_r32 :: "u32 \<Rightarrow> u32 \<Rightarrow> asm_x86_t asm" where
  "asm_x86_add_i32_to_r32 src_i32 dest_r32 =
     (if X86_SIGNED_FIT8 src_i32
      then asm_seq [asm_x86_write_byte_2 X86_OPCODE_ADD_I8_TO_RM32
                      (X86_MODRM_R32 0 OR X86_MODRM_RM_REG OR X86_MODRM_RM_R32 dest_r32),
                    asm_x86_write_byte_1 (src_i32 AND 0xff)]
      else asm_seq [asm_x86_write_byte_2 X86_OPCODE_ADD_I32_TO_RM32
                      (X86_MODRM_R32 0 OR X86_MODRM_RM_REG OR X86_MODRM_RM_R32 dest_r32),
                    asm_x86_write_word32 src_i32])"

definition asm_x86_sub_r32_r32 :: "u32 \<Rightarrow> u32 \<Rightarrow> asm_x86_t asm" where
  [asm_ops]: "asm_x86_sub_r32_r32 dest_r32 src_r32 =
     asm_x86_generic_r32_r32 dest_r32 src_r32 X86_OPCODE_SUB_R32_FROM_RM32"

definition asm_x86_sub_r32_i32 :: "u32 \<Rightarrow> u32 \<Rightarrow> asm_x86_t asm" where
  "asm_x86_sub_r32_i32 dest_r32 src_i32 =
     (if X86_SIGNED_FIT8 src_i32
      then asm_seq [asm_x86_write_byte_2 X86_OPCODE_SUB_I8_FROM_RM32
                      (X86_MODRM_R32 5 OR X86_MODRM_RM_REG OR X86_MODRM_RM_R32 dest_r32),
                    asm_x86_write_byte_1 (src_i32 AND 0xff)]
      else asm_seq [asm_x86_write_byte_2 X86_OPCODE_SUB_I32_FROM_RM32
                      (X86_MODRM_R32 5 OR X86_MODRM_RM_REG OR X86_MODRM_RM_R32 dest_r32),
                    asm_x86_write_word32 src_i32])"

definition asm_x86_mul_r32_r32 :: "u32 \<Rightarrow> u32 \<Rightarrow> asm_x86_t asm" where
  [asm_ops]: "asm_x86_mul_r32_r32 dest_r32 src_r32 =
     asm_x86_write_byte_3 0x0f 0xaf (X86_MODRM_R32 dest_r32 OR X86_MODRM_RM_REG OR X86_MODRM_RM_R32 src_r32)"

definition asm_x86_cmp_r32_with_r32 :: "u32 \<Rightarrow> u32 \<Rightarrow> asm_x86_t asm" where
  [asm_ops]: "asm_x86_cmp_r32_with_r32 src_r32_a src_r32_b =
     asm_x86_generic_r32_r32 src_r32_b src_r32_a X86_OPCODE_CMP_R32_WITH_RM32"

definition asm_x86_test_r8_with_r8 :: "u32 \<Rightarrow> u32 \<Rightarrow> asm_x86_t asm" where
  [asm_ops]: "asm_x86_test_r8_with_r8 src_r32_a src_r32_b =
     asm_x86_write_byte_2 X86_OPCODE_TEST_R8_WITH_RM8
       (X86_MODRM_R32 src_r32_a OR X86_MODRM_RM_REG OR X86_MODRM_RM_R32 src_r32_b)"

definition asm_x86_test_r32_with_r32 :: "u32 \<Rightarrow> u32 \<Rightarrow> asm_x86_t asm" where
  [asm_ops]: "asm_x86_test_r32_with_r32 src_r32_a src_r32_b =
     asm_x86_generic_r32_r32 src_r32_b src_r32_a X86_OPCODE_TEST_R32_WITH_RM32"

definition asm_x86_setcc_r8 :: "u32 \<Rightarrow> u32 \<Rightarrow> asm_x86_t asm" where
  [asm_ops]: "asm_x86_setcc_r8 jcc_type dest_r8 =
     asm_x86_write_byte_3 X86_OPCODE_SETCC_RM8_A (X86_OPCODE_SETCC_RM8_B OR jcc_type)
       (X86_MODRM_R32 0 OR X86_MODRM_RM_REG OR X86_MODRM_RM_R32 dest_r8)"

definition asm_x86_jmp_reg :: "u32 \<Rightarrow> asm_x86_t asm" where
  [asm_ops]: "asm_x86_jmp_reg src_r32 =
     asm_x86_write_byte_2 X86_OPCODE_JMP_RM32 (X86_MODRM_R32 4 OR X86_MODRM_RM_REG OR X86_MODRM_RM_R32 src_r32)"

section \<open>Jumps\<close>

definition x86_get_label_dest :: "u32 \<Rightarrow> asm_x86_t \<Rightarrow> asm_error + u32" where
  "x86_get_label_dest label s =
     (if \<not> label < max_num_labels s then Inl AssertionFailed else label_offset label s)"

text \<open>The two \<open>goto large_jump\<close> branches of the source come together in one \<open>else\<close> here.\<close>

definition asm_x86_jmp_label :: "u32 \<Rightarrow> asm_x86_t asm" where
  "asm_x86_jmp_label label s =
     (case x86_get_label_dest label s of
        Inl e \<Rightarrow> Inl e
      | Inr dest \<Rightarrow>
          let rel = dest - code_offset s
          in if (dest \<noteq> - 1 \<and> sint rel < 0) \<and> X86_SIGNED_FIT8 (rel - 2)
          then asm_x86_write_byte_2 X86_OPCODE_JMP_REL8 ((rel - 2) AND 0xff) s
          else asm_seq [asm_x86_write_byte_1 X86_OPCODE_JMP_REL32, asm_x86_write_word32 (rel - 5)] s)"

definition asm_x86_jcc_label :: "u32 \<Rightarrow> u32 \<Rightarrow> asm_x86_t asm" where
  "asm_x86_jcc_label jcc_type label s =
     (case x86_get_label_dest label s of
        Inl e \<Rightarrow> Inl e
      | Inr dest \<Rightarrow>
          let rel = dest - code_offset s
          in if (dest \<noteq> - 1 \<and> sint rel < 0) \<and> X86_SIGNED_FIT8 (rel - 2)
          then asm_x86_write_byte_2 (X86_OPCODE_JCC_REL8 OR jcc_type) ((rel - 2) AND 0xff) s
          else asm_seq [asm_x86_write_byte_2 X86_OPCODE_JCC_REL32_A (X86_OPCODE_JCC_REL32_B OR jcc_type),
                        asm_x86_write_word32 (rel - 6)] s)"

section \<open>Entry, exit, locals and calls\<close>

definition asm_x86_entry :: "u32 \<Rightarrow> asm_x86_t asm" where
  "asm_x86_entry num_locals_arg =
     (let locals = num_locals_arg OR 3
      in asm_seq
        [asm_assert (sint num_locals_arg \<ge> 0),
         asm_x86_push_r32 ASM_X86_REG_EBP,
         asm_x86_push_r32 ASM_X86_REG_EBX,
         asm_x86_push_r32 ASM_X86_REG_ESI,
         asm_x86_push_r32 ASM_X86_REG_EDI,
         asm_x86_sub_r32_i32 ASM_X86_REG_ESP (locals * X86_WORD_SIZE),
         \<lambda>s. Inr (s\<lparr>num_locals := locals\<rparr>)])"

definition asm_x86_exit :: "asm_x86_t asm" where
  "asm_x86_exit s =
     asm_seq
       [asm_x86_sub_r32_i32 ASM_X86_REG_ESP (- num_locals s * X86_WORD_SIZE),
        asm_x86_pop_r32 ASM_X86_REG_EDI,
        asm_x86_pop_r32 ASM_X86_REG_ESI,
        asm_x86_pop_r32 ASM_X86_REG_EBX,
        asm_x86_pop_r32 ASM_X86_REG_EBP,
        asm_x86_ret] s"

definition asm_x86_arg_offset_from_esp :: "asm_x86_t \<Rightarrow> u32 \<Rightarrow> u32" where
  "asm_x86_arg_offset_from_esp s arg_num = (num_locals s + 4 + 1 + arg_num) * X86_WORD_SIZE"

definition asm_x86_mov_arg_to_r32 :: "u32 \<Rightarrow> u32 \<Rightarrow> asm_x86_t asm" where
  "asm_x86_mov_arg_to_r32 src_arg_num dest_r32 s =
     asm_x86_mov_mem32_to_r32 ASM_X86_REG_ESP (asm_x86_arg_offset_from_esp s src_arg_num) dest_r32 s"

definition asm_x86_local_offset_from_esp :: "u32 \<Rightarrow> u32" where
  "asm_x86_local_offset_from_esp local_num = local_num * X86_WORD_SIZE"

definition asm_x86_mov_local_to_r32 :: "u32 \<Rightarrow> u32 \<Rightarrow> asm_x86_t asm" where
  [asm_ops]: "asm_x86_mov_local_to_r32 src_local_num dest_r32 =
     asm_x86_mov_mem32_to_r32 ASM_X86_REG_ESP (asm_x86_local_offset_from_esp src_local_num) dest_r32"

definition asm_x86_mov_r32_to_local :: "u32 \<Rightarrow> u32 \<Rightarrow> asm_x86_t asm" where
  [asm_ops]: "asm_x86_mov_r32_to_local src_r32 dest_local_num =
     asm_x86_mov_r32_to_mem32 src_r32 ASM_X86_REG_ESP (asm_x86_local_offset_from_esp dest_local_num)"

definition asm_x86_mov_local_addr_to_r32 :: "u32 \<Rightarrow> u32 \<Rightarrow> asm_x86_t asm" where
  "asm_x86_mov_local_addr_to_r32 local_num dest_r32 =
     (let offset = asm_x86_local_offset_from_esp local_num
      in if offset = 0 then asm_x86_mov_r32_r32 dest_r32 ASM_X86_REG_ESP
         else asm_x86_lea_disp_to_r32 ASM_X86_REG_ESP offset dest_r32)"

text \<open>A call to the next instruction, whose return address is popped and adjusted.\<close>

definition asm_x86_mov_reg_pcrel :: "u32 \<Rightarrow> u32 \<Rightarrow> asm_x86_t asm" where
  "asm_x86_mov_reg_pcrel dest_r32 label =
     asm_seq
       [asm_x86_write_byte_1 X86_OPCODE_CALL_REL32,
        asm_x86_write_word32 0,
        \<lambda>s. case x86_get_label_dest label s of
              Inl e \<Rightarrow> Inl e
            | Inr dest \<Rightarrow>
                let rel = dest - code_offset s
                in asm_seq
                  [asm_x86_pop_r32 dest_r32,
                   asm_x86_write_byte_2 X86_OPCODE_ADD_I32_TO_RM32
                     (X86_MODRM_R32 0 OR X86_MODRM_RM_REG OR X86_MODRM_RM_R32 dest_r32),
                   asm_x86_write_word32 rel] s]"

definition asm_x86_call_ind :: "u32 \<Rightarrow> u32 \<Rightarrow> u32 \<Rightarrow> asm_x86_t asm" where
  "asm_x86_call_ind fun_id n_args temp_r32 =
     (let align = ((n_args + 3) AND NOT 3) - n_args
      in asm_seq
        [asm_assert (n_args \<le> 4),
         asm_when (align \<noteq> 0) (asm_x86_sub_r32_i32 ASM_X86_REG_ESP (align * X86_WORD_SIZE)),
         asm_when (n_args > 3) (asm_x86_push_r32 ASM_X86_REG_ARG_4),
         asm_when (n_args > 2) (asm_x86_push_r32 ASM_X86_REG_ARG_3),
         asm_when (n_args > 1) (asm_x86_push_r32 ASM_X86_REG_ARG_2),
         asm_when (n_args > 0) (asm_x86_push_r32 ASM_X86_REG_ARG_1),
         asm_x86_mov_mem32_to_r32 ASM_X86_REG_FUN_TABLE (fun_id * X86_WORD_SIZE) temp_r32,
         asm_x86_write_byte_2 X86_OPCODE_CALL_RM32 (X86_MODRM_R32 2 OR X86_MODRM_RM_REG OR X86_MODRM_RM_R32 temp_r32),
         asm_when (n_args > 0) (asm_x86_add_i32_to_r32 ((n_args + align) * X86_WORD_SIZE) ASM_X86_REG_ESP)])"

section \<open>The operations of the header\<close>

text \<open>The macros of \<open>GENERIC_ASM_API\<close>, and two functions the emitter calls directly.\<close>

datatype x86_op =
    X86_API "u32 asm_op"
  | X86_NOT_REG u32
  | X86_LSL_REG u32
  | X86_LSR_REG u32
  | X86_ASR_REG u32
  | X86_SETCC_R8 u32 u32
  | X86_MOV_ARG_TO_R32 u32 u32

definition x86_test :: "bool \<Rightarrow> u32 \<Rightarrow> asm_x86_t asm" where
  "x86_test bool_test reg =
     (if bool_test then asm_x86_test_r8_with_r8 reg reg else asm_x86_test_r32_with_r32 reg reg)"

fun x86_api :: "x86_env \<Rightarrow> u32 asm_op \<Rightarrow> asm_x86_t asm" where
  "x86_api env (Base_label_assign l) = mp_asm_base_label_assign l"
| "x86_api env (Base_align align) = mp_asm_base_align align"
| "x86_api env (Base_data bytesize val) = mp_asm_base_data bytesize val"
| "x86_api env Base_suppress_code = mp_asm_base_suppress_code"
| "x86_api env (ASM_ENTRY locals) = asm_x86_entry locals"
| "x86_api env ASM_EXIT = asm_x86_exit"
| "x86_api env ASM_END_PASS = asm_x86_end_pass"
| "x86_api env (ASM_JUMP label) = asm_x86_jmp_label label"
| "x86_api env (ASM_JUMP_IF_REG_ZERO reg label bool_test) =
     asm_seq [x86_test bool_test reg, asm_x86_jcc_label ASM_X86_CC_JZ label]"
| "x86_api env (ASM_JUMP_IF_REG_NONZERO reg label bool_test) =
     asm_seq [x86_test bool_test reg, asm_x86_jcc_label ASM_X86_CC_JNZ label]"
| "x86_api env (ASM_JUMP_IF_REG_EQ reg1 reg2 label) =
     asm_seq [asm_x86_cmp_r32_with_r32 reg1 reg2, asm_x86_jcc_label ASM_X86_CC_JE label]"
| "x86_api env (ASM_JUMP_REG reg) = asm_x86_jmp_reg reg"
| "x86_api env (ASM_CALL_IND idx) = asm_x86_call_ind idx (mp_f_n_args env idx) ASM_X86_REG_EAX"
| "x86_api env (ASM_MOV_LOCAL_REG local_num reg_src) = asm_x86_mov_r32_to_local reg_src local_num"
| "x86_api env (ASM_MOV_REG_IMM reg_dest imm) = ignore_result (asm_x86_mov_i32_to_r32 imm reg_dest)"
| "x86_api env (ASM_MOV_REG_LOCAL reg_dest local_num) = asm_x86_mov_local_to_r32 local_num reg_dest"
| "x86_api env (ASM_MOV_REG_REG reg_dest reg_src) = asm_x86_mov_r32_r32 reg_dest reg_src"
| "x86_api env (ASM_MOV_REG_LOCAL_ADDR reg_dest local_num) = asm_x86_mov_local_addr_to_r32 local_num reg_dest"
| "x86_api env (ASM_MOV_REG_PCREL reg_dest label) = asm_x86_mov_reg_pcrel reg_dest label"
| "x86_api env (ASM_NEG_REG reg) = asm_x86_neg_r32 reg"
| "x86_api env (ASM_OR_REG_REG reg_dest reg_src) = asm_x86_or_r32_r32 reg_dest reg_src"
| "x86_api env (ASM_XOR_REG_REG reg_dest reg_src) = asm_x86_xor_r32_r32 reg_dest reg_src"
| "x86_api env (ASM_AND_REG_REG reg_dest reg_src) = asm_x86_and_r32_r32 reg_dest reg_src"
| "x86_api env (ASM_ADD_REG_REG reg_dest reg_src) = asm_x86_add_r32_r32 reg_dest reg_src"
| "x86_api env (ASM_SUB_REG_REG reg_dest reg_src) = asm_x86_sub_r32_r32 reg_dest reg_src"
| "x86_api env (ASM_MUL_REG_REG reg_dest reg_src) = asm_x86_mul_r32_r32 reg_dest reg_src"
| "x86_api env (ASM_LOAD_REG_REG_OFFSET reg_dest reg_base dword_offset) =
     asm_x86_mov_mem32_to_r32 reg_base (4 * dword_offset) reg_dest"
| "x86_api env (ASM_LOAD8_REG_REG reg_dest reg_base) = asm_x86_mov_mem8_to_r32zx reg_base 0 reg_dest"
| "x86_api env (ASM_LOAD8_REG_REG_OFFSET reg_dest reg_base byte_offset) =
     asm_x86_mov_mem8_to_r32zx reg_base byte_offset reg_dest"
| "x86_api env (ASM_LOAD16_REG_REG reg_dest reg_base) = asm_x86_mov_mem16_to_r32zx reg_base (2 * 0) reg_dest"
| "x86_api env (ASM_LOAD16_REG_REG_OFFSET reg_dest reg_base word_offset) =
     asm_x86_mov_mem16_to_r32zx reg_base (2 * word_offset) reg_dest"
| "x86_api env (ASM_LOAD32_REG_REG reg_dest reg_base) = asm_x86_mov_mem32_to_r32 reg_base (4 * 0) reg_dest"
| "x86_api env (ASM_LOAD32_REG_REG_OFFSET reg_dest reg_base dword_offset) =
     asm_x86_mov_mem32_to_r32 reg_base (4 * dword_offset) reg_dest"
| "x86_api env (ASM_STORE_REG_REG_OFFSET reg_src reg_base dword_offset) =
     asm_x86_mov_r32_to_mem32 reg_src reg_base (4 * dword_offset)"
| "x86_api env (ASM_STORE8_REG_REG reg_src reg_base) = asm_x86_mov_r8_to_mem8 reg_src reg_base 0"
| "x86_api env (ASM_STORE8_REG_REG_OFFSET reg_src reg_base byte_offset) =
     asm_x86_mov_r8_to_mem8 reg_src reg_base byte_offset"
| "x86_api env (ASM_STORE16_REG_REG reg_src reg_base) = asm_x86_mov_r16_to_mem16 reg_src reg_base (2 * 0)"
| "x86_api env (ASM_STORE16_REG_REG_OFFSET reg_src reg_base word_offset) =
     asm_x86_mov_r16_to_mem16 reg_src reg_base (2 * word_offset)"
| "x86_api env (ASM_STORE32_REG_REG reg_src reg_base) = asm_x86_mov_r32_to_mem32 reg_src reg_base (4 * 0)"
| "x86_api env (ASM_STORE32_REG_REG_OFFSET reg_src reg_base dword_offset) =
     asm_x86_mov_r32_to_mem32 reg_src reg_base (4 * dword_offset)"
| "x86_api env (ASM_CLR_REG reg_dest) = asm_x86_xor_r32_r32 reg_dest reg_dest"

fun x86_exec :: "x86_env \<Rightarrow> x86_op \<Rightarrow> asm_x86_t asm" where
  "x86_exec env (X86_API op) = x86_api env op"
| "x86_exec env (X86_NOT_REG reg) = asm_x86_not_r32 reg"
| "x86_exec env (X86_LSL_REG reg) = asm_x86_shl_r32_cl reg"
| "x86_exec env (X86_LSR_REG reg) = asm_x86_shr_r32_cl reg"
| "x86_exec env (X86_ASR_REG reg) = asm_x86_sar_r32_cl reg"
| "x86_exec env (X86_SETCC_R8 jcc_type dest_r8) = asm_x86_setcc_r8 jcc_type dest_r8"
| "x86_exec env (X86_MOV_ARG_TO_R32 src_arg_num dest_r32) = asm_x86_mov_arg_to_r32 src_arg_num dest_r32"

end
