(* ===== verification/Asm_X86_Program.thy ===== *)
theory Asm_X86_Program
  imports Asm_X86
begin

text \<open>
  The x86 assembler in two passes: every operation is plain (in the sense of \<open>Plain_Ops\<close>), and
  the assembler is an instance of the two-pass interface.
\<close>

section \<open>Straight-line operations\<close>

text \<open>Below this size of the code, offsets are not negative as \<open>mp_int_t\<close>.\<close>

abbreviation x86_lim :: nat where
  "x86_lim \<equiv> 2147483632"

lemma length_x86_word32_bytes [simp]: "length (x86_word32_bytes w) = 4"
  by (simp add: x86_word32_bytes_def)

lemma x86_emit_plain: "length bs = n \<Longrightarrow> plain x86_lim n (emit_bytes bs :: asm_x86_t asm)"
  using plain_emit [where 'w = 32, of x86_lim bs] by simp

lemma x86_write_plain:
  "plain x86_lim 1 (asm_x86_write_byte_1 b1)" "plain x86_lim 2 (asm_x86_write_byte_2 b1 b2)"
  "plain x86_lim 3 (asm_x86_write_byte_3 b1 b2 b3)" "plain x86_lim 4 (asm_x86_write_word32 w32)"
  unfolding asm_x86_write_byte_1_def asm_x86_write_byte_2_def asm_x86_write_byte_3_def asm_x86_write_word32_def
  by (rule x86_emit_plain, simp)+

lemma x86_disp_plain: "plain x86_lim 6 (asm_x86_write_r32_disp r32 disp_r32 disp_offset)"
  unfolding asm_x86_write_r32_disp_def Let_def
  by (rule plain_weaken, (rule plain_sum x86_write_plain)+, simp)

lemma x86_reg_plain:
  "plain x86_lim 2 (asm_x86_generic_r32_r32 dest_r32 src_r32 op)"
  "plain x86_lim 6 (asm_x86_add_i32_to_r32 src_i32 dest_r32)"
  "plain x86_lim 6 (asm_x86_sub_r32_i32 dest_r32 src_i32)"
  unfolding asm_x86_generic_r32_r32_def asm_x86_add_i32_to_r32_def asm_x86_sub_r32_i32_def
  by (rule plain_weaken, (rule plain_sum x86_write_plain)+, simp)+

lemmas x86_plain = x86_write_plain x86_disp_plain x86_reg_plain

lemma x86_i32_seq:
  "ignore_result (asm_x86_mov_i32_to_r32 src_i32 dest_r32) = asm_seq
     [asm_x86_write_byte_1 (X86_OPCODE_MOV_I32_TO_R32 OR dest_r32), asm_x86_write_word32 src_i32]"
  by (simp add: fun_eq_iff ignore_result_def asm_x86_mov_i32_to_r32_def Let_def split: sum.split)

lemma x86_mem_plain:
  "plain x86_lim 7 (asm_seq [asm_x86_write_byte_1 b1, asm_x86_write_r32_disp r32 disp_r32 disp_offset])"
  "plain x86_lim 8 (asm_seq [asm_x86_write_byte_2 b1 b2, asm_x86_write_r32_disp r32 disp_r32 disp_offset])"
  by (rule plain_weaken, (rule plain_sum x86_plain)+, simp)+

lemma x86_call_plain: "plain x86_lim 26 (asm_x86_call_ind fun_id n_args temp_r32)"
  unfolding asm_x86_call_ind_def asm_ops Let_def
  by (rule plain_weaken, (rule plain_sum x86_plain)+, simp)

lemma x86_local_addr_plain: "plain x86_lim 7 (asm_x86_mov_local_addr_to_r32 local_num dest_r32)"
  unfolding asm_x86_mov_local_addr_to_r32_def asm_ops Let_def
  by (rule plain_weaken, (rule plain_sum x86_plain)+, simp)

section \<open>Jumps\<close>

definition x86_jmp_code :: "u32 \<Rightarrow> u32 \<Rightarrow> u8 list list" where
  "x86_jmp_code dest here =
     (let rel = dest - here
      in if (dest \<noteq> - 1 \<and> sint rel < 0) \<and> X86_SIGNED_FIT8 (rel - 2)
      then [[ucast X86_OPCODE_JMP_REL8, ucast ((rel - 2) AND 0xff)]]
      else [[ucast X86_OPCODE_JMP_REL32], x86_word32_bytes (rel - 5)])"

definition x86_jcc_code :: "u32 \<Rightarrow> u32 \<Rightarrow> u32 \<Rightarrow> u8 list list" where
  "x86_jcc_code jcc_type dest here =
     (let rel = dest - here
      in if (dest \<noteq> - 1 \<and> sint rel < 0) \<and> X86_SIGNED_FIT8 (rel - 2)
      then [[ucast (X86_OPCODE_JCC_REL8 OR jcc_type), ucast ((rel - 2) AND 0xff)]]
      else [[ucast X86_OPCODE_JCC_REL32_A, ucast (X86_OPCODE_JCC_REL32_B OR jcc_type)], x86_word32_bytes (rel - 6)])"

definition x86_pcrel_code :: "u32 \<Rightarrow> u32 \<Rightarrow> u32 \<Rightarrow> u8 list list" where
  "x86_pcrel_code dest_r32 dest here =
     [[ucast (X86_OPCODE_POP_R32 OR dest_r32)],
      [ucast X86_OPCODE_ADD_I32_TO_RM32, ucast (X86_MODRM_R32 0 OR X86_MODRM_RM_REG OR X86_MODRM_RM_R32 dest_r32)],
      x86_word32_bytes (dest - here)]"

abbreviation x86_label_jump :: "u32 \<Rightarrow> (u32 \<Rightarrow> u32 \<Rightarrow> u8 list list) \<Rightarrow> asm_x86_t asm" where
  "x86_label_jump label \<equiv> label_jump (checked_label_offset label) (\<lambda>_ _. False)"

lemma x86_get_label_dest_checked: "x86_get_label_dest = checked_label_offset"
  by (simp add: fun_eq_iff x86_get_label_dest_def checked_label_offset_def)

lemma x86_jump_codes:
  "asm_x86_jmp_label label = x86_label_jump label x86_jmp_code"
  "asm_x86_jcc_label jcc_type label = x86_label_jump label (x86_jcc_code jcc_type)"
  by (simp_all add: fun_eq_iff asm_x86_jmp_label_def asm_x86_jcc_label_def label_jump_def x86_get_label_dest_checked
      x86_jmp_code_def x86_jcc_code_def asm_x86_write_byte_1_def asm_x86_write_byte_2_def asm_x86_write_word32_def
      emit_code_def Let_def split: sum.split)

lemma asm_x86_mov_reg_pcrel_seq:
  "asm_x86_mov_reg_pcrel dest_r32 label = asm_seq
     [asm_x86_write_byte_1 X86_OPCODE_CALL_REL32, asm_x86_write_word32 0, x86_label_jump label (x86_pcrel_code dest_r32)]"
  by (simp add: fun_eq_iff asm_x86_mov_reg_pcrel_def label_jump_def x86_get_label_dest_checked x86_pcrel_code_def asm_ops
      asm_x86_write_byte_1_def asm_x86_write_byte_2_def asm_x86_write_word32_def emit_code_def Let_def split: sum.split)

lemma x86_jump_plain:
  "plain x86_lim 5 (asm_x86_jmp_label label)" "plain x86_lim 6 (asm_x86_jcc_label jcc_type label)"
  "plain x86_lim 7 (x86_label_jump label (x86_pcrel_code dest_r32))"
  unfolding x86_jump_codes
  by (rule plain_jump_ahead; simp add: x86_jmp_code_def x86_jcc_code_def x86_pcrel_code_def Let_def)+

lemma x86_pcrel_plain: "plain x86_lim 12 (asm_x86_mov_reg_pcrel dest_r32 label)"
  unfolding asm_x86_mov_reg_pcrel_seq
  by (rule plain_weaken, (rule plain_sum x86_plain x86_jump_plain)+, simp)

section \<open>Entry, exit and arguments\<close>

lemma same_added_x86: "same_added (c :: asm_x86_t) e \<longleftrightarrow> num_locals c = num_locals e"
  by (cases c; cases e) (auto simp: same_added_def)

lemma keeps_base_x86 [simp]: "keeps_base (\<lambda>s. s\<lparr>num_locals := x\<rparr>)"
  by (simp add: keeps_base_def)

definition x86_exit_seq :: "u32 \<Rightarrow> asm_x86_t asm" where
  "x86_exit_seq locals = asm_seq
       [asm_x86_sub_r32_i32 ASM_X86_REG_ESP (- locals * X86_WORD_SIZE),
        asm_x86_pop_r32 ASM_X86_REG_EDI, asm_x86_pop_r32 ASM_X86_REG_ESI,
        asm_x86_pop_r32 ASM_X86_REG_EBX, asm_x86_pop_r32 ASM_X86_REG_EBP, asm_x86_ret]"

definition x86_arg_seq :: "u32 \<Rightarrow> u32 \<Rightarrow> u32 \<Rightarrow> asm_x86_t asm" where
  "x86_arg_seq arg_num dest_r32 locals =
     asm_x86_mov_mem32_to_r32 ASM_X86_REG_ESP ((locals + 4 + 1 + arg_num) * X86_WORD_SIZE) dest_r32"

lemma x86_reads:
  "asm_x86_exit s = x86_exit_seq (num_locals s) s"
  "asm_x86_mov_arg_to_r32 arg_num dest_r32 s = x86_arg_seq arg_num dest_r32 (num_locals s) s"
  by (simp_all add: asm_x86_exit_def x86_exit_seq_def asm_x86_mov_arg_to_r32_def x86_arg_seq_def
      asm_x86_arg_offset_from_esp_def)

lemma x86_read_plain: "plain x86_lim 11 (x86_exit_seq locals)" "plain x86_lim 7 (x86_arg_seq arg_num dest_r32 locals)"
  unfolding x86_exit_seq_def x86_arg_seq_def asm_ops
  by (rule plain_weaken, (rule plain_sum x86_plain)+, simp)+

lemma x86_exit_ok: "two_pass_ok same_added same_added x86_lim 11 asm_x86_exit"
  by (rule two_pass_readI [where v = num_locals and F = x86_exit_seq])
    (simp_all add: x86_reads same_added_x86 plainD(2) [OF x86_read_plain(1)])

lemma x86_arg_ok: "two_pass_ok same_added same_added x86_lim 7 (asm_x86_mov_arg_to_r32 arg_num dest_r32)"
  by (rule two_pass_readI [where v = num_locals and F = "x86_arg_seq arg_num dest_r32"])
    (simp_all add: x86_reads same_added_x86 plainD(2) [OF x86_read_plain(2)])

definition x86_entry_code :: "u32 \<Rightarrow> asm_x86_t asm" where
  "x86_entry_code locals = asm_seq
     [asm_assert (sint locals \<ge> 0),
      asm_x86_push_r32 ASM_X86_REG_EBP, asm_x86_push_r32 ASM_X86_REG_EBX,
      asm_x86_push_r32 ASM_X86_REG_ESI, asm_x86_push_r32 ASM_X86_REG_EDI,
      asm_x86_sub_r32_i32 ASM_X86_REG_ESP ((locals OR 3) * X86_WORD_SIZE)]"

lemma x86_entry_code_plain: "plain x86_lim 10 (x86_entry_code locals)"
  unfolding x86_entry_code_def asm_ops
  by (rule plain_weaken, (rule plain_sum x86_plain)+, simp)

lemma asm_x86_entry_seq:
  "asm_x86_entry locals = asm_seq [x86_entry_code locals, \<lambda>s. Inr (s\<lparr>num_locals := locals OR 3\<rparr>)]"
  by (simp add: fun_eq_iff asm_x86_entry_def x86_entry_code_def Let_def split: sum.split)

lemma x86_entry_ok: "two_pass_ok (\<lambda>_ _. True) same_added x86_lim 10 (asm_x86_entry locals)"
  unfolding asm_x86_entry_seq
proof (rule two_pass_two)
  show "two_pass_ok (\<lambda>_ _. True) (\<lambda>_ _. True) x86_lim 10 (x86_entry_code locals)"
    by (rule plainD(2) [OF x86_entry_code_plain]) (simp add: added_rel_def)
  show "two_pass_ok (\<lambda>_ _. True) same_added x86_lim 0 (\<lambda>s :: asm_x86_t. Inr (s\<lparr>num_locals := locals OR 3\<rparr>))"
    by (rule two_pass_update) (simp_all add: same_added_x86)
qed simp

lemma x86_reads_quiet:
  "asm_x86_entry locals s = Inl e \<Longrightarrow> \<not> raised e"
  "asm_x86_exit s = Inl e \<Longrightarrow> \<not> raised e"
  "asm_x86_mov_arg_to_r32 arg_num dest_r32 s = Inl e \<Longrightarrow> \<not> raised e"
  using plainD(3) [OF x86_entry_code_plain] plainD(3) [OF x86_read_plain(1)] plainD(3) [OF x86_read_plain(2)]
  by (auto simp: asm_x86_entry_seq x86_reads split: sum.splits)

section \<open>Whole programs\<close>

fun x86_is_entry :: "x86_op \<Rightarrow> bool" where
  "x86_is_entry (X86_API op) = is_ASM_ENTRY op"
| "x86_is_entry _ = False"

text \<open>The operations that read \<open>num_locals\<close>.\<close>

fun x86_reads_frame :: "x86_op \<Rightarrow> bool" where
  "x86_reads_frame (X86_API op) = (op = ASM_EXIT)"
| "x86_reads_frame (X86_MOV_ARG_TO_R32 _ _) = True"
| "x86_reads_frame _ = False"

fun x86_allowed :: "x86_op \<Rightarrow> bool" where
  "x86_allowed (X86_API op) = base_allowed op"
| "x86_allowed _ = True"

fun x86_cost :: "x86_op \<Rightarrow> nat" where
  "x86_cost (X86_API op) = base_cost 26 op"
| "x86_cost _ = 26"

lemma asm_x86_end_pass_skip: "asm_x86_end_pass = skip"
  by (simp add: asm_x86_end_pass_def fun_eq_iff)

lemma x86_jump_if_plain:
  "plain x86_lim 26 (asm_seq [x86_test b reg, asm_x86_jcc_label jcc_type label])"
  "plain x86_lim 26 (asm_seq [asm_x86_generic_r32_r32 r1 r2 op, asm_x86_jcc_label jcc_type label])"
  "plain x86_lim 26 (ignore_result (asm_x86_mov_i32_to_r32 src_i32 dest_r32))"
  unfolding x86_test_def asm_ops x86_i32_seq
  by (rule plain_weaken, (rule plain_sum x86_plain x86_jump_plain)+, simp)+

lemma x86_api_plain:
  assumes "\<not> is_ASM_ENTRY op" "op \<noteq> ASM_EXIT" "base_allowed op"
  shows "plain x86_lim (base_cost 26 op) (x86_api env op)"
proof -
  note w = plain_weaken [where m = 26]
  show ?thesis
    using assms
    by (cases op)
      (simp_all add: asm_ops x86_plain [THEN w] x86_mem_plain [THEN w] x86_jump_plain [THEN w] x86_jump_if_plain
        x86_call_plain x86_local_addr_plain [THEN w] x86_pcrel_plain [THEN w]
        plain_base plain_skip asm_x86_end_pass_skip del: asm_seq.simps base_allowed.simps)
qed

lemma x86_exec_plain:
  assumes "\<not> x86_is_entry op" "\<not> x86_reads_frame op" "x86_allowed op"
  shows "plain x86_lim (x86_cost op) (x86_exec env op)"
  using assms x86_api_plain x86_plain [THEN plain_weaken, where m = 26]
  by (cases op) (simp_all add: asm_ops)

lemma x86_frame_cases:
  assumes "x86_reads_frame op"
  obtains "op = X86_API ASM_EXIT" | a r where "op = X86_MOV_ARG_TO_R32 a r"
  using assms by (cases op) auto

lemma x86_exec_quiet:
  assumes "x86_allowed op" "x86_exec env op s = Inl e"
  shows "\<not> raised e"
proof -
  consider "x86_is_entry op" | "x86_reads_frame op" | "\<not> x86_is_entry op" "\<not> x86_reads_frame op" by blast
  then show ?thesis
  proof cases
    case 1
    then show ?thesis using assms(2) x86_reads_quiet(1)
      by (cases op rule: x86_is_entry.cases) (auto elim!: is_ASM_ENTRY.elims)
  next
    case 2
    then show ?thesis using assms(2) x86_reads_quiet(2,3) by (auto elim!: x86_frame_cases)
  next
    case 3
    then show ?thesis using plainD(3) [OF x86_exec_plain] assms by blast
  qed
qed

interpretation x86: plain_assembler "x86_exec env" x86_cost x86_is_entry x86_allowed same_added x86_lim for env
proof unfold_locales
  fix op
  assume op: "x86_allowed op"
  show "two_pass_ok (\<lambda>_ _. True) same_added x86_lim (x86_cost op) (x86_exec env op)" if "x86_is_entry op"
    using that two_pass_weaken [OF x86_entry_ok, where m = 26]
    by (cases op rule: x86_is_entry.cases) (auto elim!: is_ASM_ENTRY.elims)
  show "two_pass_ok same_added same_added x86_lim (x86_cost op) (x86_exec env op)" if "\<not> x86_is_entry op"
    using that op plainD(2) [OF x86_exec_plain] two_pass_weaken [OF x86_exit_ok, where m = 26]
      two_pass_weaken [OF x86_arg_ok, where m = 26]
    by (cases "x86_reads_frame op") (auto elim!: x86_frame_cases)
  show "\<not> raised e" if "x86_exec env op s = Inl e" for s e
    using that op x86_exec_quiet by blast
qed (simp_all add: added_rel_def)

text \<open>
  C27: A function (an entry followed by any operations of the x86 assembler) whose compute pass
  succeeds is assembled by the emit pass without a failed assertion, an exception or a store
  outside the buffer, into exactly the size and with the label offsets of the compute pass.
\<close>

theorem x86_assembles:
  assumes "\<forall>op \<in> set body. \<not> x86_is_entry op \<and> x86_allowed op"
    and "run_pass alloc (x86_exec env) (X86_API (ASM_ENTRY locals) # body) MP_ASM_PASS_COMPUTE s = Inr c"
    and "sum_list (map x86_cost (X86_API (ASM_ENTRY locals) # body)) \<le> x86_lim"
    and "alloc_gives alloc (code_offset c)"
  shows "\<exists>e. run_pass alloc (x86_exec env) (X86_API (ASM_ENTRY locals) # body) MP_ASM_PASS_EMIT c = Inr e \<and>
    code_offset e = code_offset c \<and> label_offsets e = label_offsets c \<and> code_offset e \<le> code_size e"
  by (rule x86.assembles [OF _ _ _ assms(2-4)]) (use assms(1) in simp_all)

definition x86_demo_env :: x86_env where
  "x86_demo_env = \<lparr>mp_f_n_args = (\<lambda>idx. 2)\<rparr>"

definition x86_demo_state :: asm_x86_t where
  "x86_demo_state = \<lparr>pass = 0, suppress = False, code_offset = 0, code_size = 0,
     code_base = None, max_num_labels = 2, label_offsets = [0, 0], num_locals = 0\<rparr>"

definition x86_demo_body :: "x86_op list" where
  "x86_demo_body = X86_MOV_ARG_TO_R32 1 7 # map X86_API
     [Base_label_assign 0, ASM_MOV_REG_IMM 3 0x12345, ASM_CALL_IND 60, ASM_JUMP_IF_REG_ZERO 0 1 True, ASM_JUMP 0,
      Base_label_assign 1, ASM_MOV_LOCAL_REG 255 2, ASM_EXIT]"

abbreviation x86_demo_pass :: "int \<Rightarrow> asm_x86_t asm" where
  "x86_demo_pass \<equiv> run_pass exact_alloc (x86_exec x86_demo_env) (X86_API (ASM_ENTRY 300) # x86_demo_body)"

lemma x86_demo_computes:
  "case x86_demo_pass MP_ASM_PASS_COMPUTE x86_demo_state of Inl e \<Rightarrow> False | Inr c \<Rightarrow> code_offset c = 66"
  by code_simp

theorem x86_assembles_witness:
  "\<exists>c e. x86_demo_pass MP_ASM_PASS_COMPUTE x86_demo_state = Inr c \<and>
     x86_demo_pass MP_ASM_PASS_EMIT c = Inr e \<and> code_offset c = 66 \<and> code_offset e = 66"
proof -
  obtain c where c: "x86_demo_pass MP_ASM_PASS_COMPUTE x86_demo_state = Inr c" "code_offset c = 66"
    using x86_demo_computes by (auto split: sum.splits)
  have "\<forall>op \<in> set x86_demo_body. \<not> x86_is_entry op \<and> x86_allowed op"
    "sum_list (map x86_cost (X86_API (ASM_ENTRY 300) # x86_demo_body)) \<le> x86_lim"
    by (simp_all add: x86_demo_body_def)
  then show ?thesis using x86_assembles [OF _ c(1)] c by auto
qed

end
