(* ===== verification/X86_Encodings.thy ===== *)
theory X86_Encodings
  imports X86_ISA Asm_X86_Program
begin

text \<open>
  The bytes the x86 assembler writes against the decoder of the specification: ModRM bytes, memory
  operands with their displacement forms, register operations, immediates.
\<close>

section \<open>Bytes\<close>

lemma word8_eq_nat: "x < 8 \<Longrightarrow> unat (ucast (x :: u32) :: u8) = unat x"
  by (simp add: unsigned_ucast_eq word_less_nat_alt take_bit_nat_eq_self)

lemma le_word_x86: "le_word (x86_word32_bytes w) = w"
  unfolding x86_word32_bytes_def asm_encodes word32_eq_iff_bits by (simp add: word_bits_simps)

lemma scast_byte: "X86_SIGNED_FIT8 x \<Longrightarrow> scast (ucast (x AND 0xff) :: u8) = x"
  unfolding X86_SIGNED_FIT8_def word32_eq_iff_bits by (auto simp: bit_simps)

text \<open>The fields of a ModRM byte.\<close>

lemma modrm_fields:
  assumes "r < 8" "rm < 8" "md \<in> {X86_MODRM_RM_DISP0, X86_MODRM_RM_DISP8, X86_MODRM_RM_DISP32, X86_MODRM_RM_REG}"
  defines "b \<equiv> ucast (X86_MODRM_R32 r OR md OR X86_MODRM_RM_R32 rm) :: u8"
  shows "reg_field b = unat r" "rm_field b = unat rm" "drop_bit 6 b = ucast (drop_bit 6 md)"
proof -
  have t: "take_bit 3 r = r" "take_bit 3 rm = rm" using assms small_fields(1) by blast+
  have "take_bit 3 (drop_bit 3 b) = ucast r" "take_bit 3 b = ucast rm" "drop_bit 6 b = ucast (drop_bit 6 md)"
    using t assms(3) unfolding b_def asm_encodes asm_consts word8_eq_iff_bits word32_eq_iff_bits
    by (auto simp: word_bits_simps)
  then show "reg_field b = unat r" "rm_field b = unat rm" "drop_bit 6 b = ucast (drop_bit 6 md)"
    using assms(1,2) by (simp_all add: reg_field_def rm_field_def word8_eq_nat)
qed

lemma rm_disp_cases: "x86_rm_disp base d \<in> {X86_MODRM_RM_DISP0, X86_MODRM_RM_DISP8, X86_MODRM_RM_DISP32}"
  by (simp add: x86_rm_disp_def)

text \<open>The bytes of a memory operand and what they decode to.\<close>

definition x86_disp_bytes :: "u32 \<Rightarrow> u32 \<Rightarrow> u32 \<Rightarrow> u8 list list" where
  "x86_disp_bytes r base d =
     (let md = x86_rm_disp base d
      in [ucast (X86_MODRM_R32 r OR md OR X86_MODRM_RM_R32 base)] #
         (if base = ASM_X86_REG_ESP then [[0x24]] else []) @
         (if md = X86_MODRM_RM_DISP8 then [[ucast (X86_IMM32_L0 d)]]
          else if md = X86_MODRM_RM_DISP32 then [x86_word32_bytes d] else []))"

lemma asm_x86_write_r32_disp_code: "asm_x86_write_r32_disp r base d = emit_code (x86_disp_bytes r base d)"
  by (simp add: asm_x86_write_r32_disp_def x86_disp_bytes_def Let_def asm_x86_write_byte_1_def asm_x86_write_word32_def
      emit_bytes_as_code emit_code_seq if_emit_code)

lemma x86_modrm_disp:
  assumes "r < 8" "base < 8"
  shows "x86_modrm (concat (x86_disp_bytes r base d) @ post) =
    Some (unat r, XMem (unat base) d, length (concat (x86_disp_bytes r base d)))"
proof -
  let ?md = "x86_rm_disp base d"
  define b where "b = (ucast (X86_MODRM_R32 r OR ?md OR X86_MODRM_RM_R32 base) :: u8)"
  have f: "reg_field b = unat r" "rm_field b = unat base" "drop_bit 6 b = ucast (drop_bit 6 ?md)"
    unfolding b_def using rm_disp_cases [of base d] by (auto intro!: modrm_fields assms)
  have eq: "unat base = 4 \<longleftrightarrow> base = 4" "unat base = 5 \<longleftrightarrow> base = 5"
    by (auto simp: word_eq_iff_unsigned [where ?'a = nat])
  consider (none) "?md = X86_MODRM_RM_DISP0" "d = 0" "base \<noteq> 5" | (byte) "?md = X86_MODRM_RM_DISP8" "X86_SIGNED_FIT8 d"
    | (word) "?md = X86_MODRM_RM_DISP32" unfolding x86_rm_disp_def ASM_X86_REG_EBP_def by (metis (full_types))
  then show ?thesis
  proof cases
    case none
    then show ?thesis unfolding x86_disp_bytes_def Let_def b_def [symmetric] using f eq by (simp add: asm_consts)
  next
    case byte
    then show ?thesis
      unfolding x86_disp_bytes_def Let_def b_def [symmetric] X86_IMM32_L0_def
      using f eq scast_byte [OF byte(2)] by (simp add: asm_consts)
  next
    case word
    then show ?thesis
      unfolding x86_disp_bytes_def Let_def b_def [symmetric] using f eq le_word_x86 [of d] by (simp add: asm_consts)
  qed
qed

section \<open>Instructions\<close>

lemma with_modrm_disp:
  "r < 8 \<Longrightarrow> base < 8 \<Longrightarrow> with_modrm k f (concat (x86_disp_bytes r base d) @ post) =
     map_option (\<lambda>i. (i, k + length (concat (x86_disp_bytes r base d)))) (f (unat r) (XMem (unat base) d))"
  by (simp add: with_modrm_def x86_modrm_disp)

lemma with_modrm_reg:
  assumes "r < 8" "rm < 8"
  shows "with_modrm k f (ucast (X86_MODRM_R32 r OR X86_MODRM_RM_REG OR X86_MODRM_RM_R32 rm) # post) =
    map_option (\<lambda>i. (i, k + 1)) (f (unat r) (XReg (unat rm)))"
  using modrm_fields [OF assms, of X86_MODRM_RM_REG] unfolding with_modrm_def by (simp add: asm_consts)

lemma with_imm32_word: "with_imm32 k f (x86_word32_bytes w @ post) = Some (f w, k + 4)"
  using le_word_x86 [of w] by (simp add: with_imm32_def)

lemma fetches_mem:
  assumes "r < 8" "base < 8" "ds = concat (x86_disp_bytes r base d)"
  shows "fetches_at x86_fetch (ucast X86_OPCODE_MOV_RM32_TO_R32 # ds) (X_LOAD (unat r) (XMem (unat base) d))"
    "fetches_at x86_fetch (ucast X86_OPCODE_MOV_R32_TO_RM32 # ds) (X_STORE (XMem (unat base) d) (unat r))"
    "fetches_at x86_fetch (ucast X86_OPCODE_MOV_R8_TO_RM8 # ds) (X_STORE8 (XMem (unat base) d) (unat r))"
    "fetches_at x86_fetch (ucast X86_OP_SIZE_PREFIX # ucast X86_OPCODE_MOV_R32_TO_RM32 # ds) (X_STORE16 (XMem (unat base) d) (unat r))"
    "fetches_at x86_fetch (0x0f # ucast X86_OPCODE_MOVZX_RM8_TO_R32 # ds) (X_LOADZX8 (unat r) (XMem (unat base) d))"
    "fetches_at x86_fetch (0x0f # ucast X86_OPCODE_MOVZX_RM16_TO_R32 # ds) (X_LOADZX16 (unat r) (XMem (unat base) d))"
    "fetches_at x86_fetch (ucast X86_OPCODE_LEA_MEM_TO_R32 # ds) (X_LEA (unat r) (unat base) d)"
  using assms
  by (auto intro!: fetches_x86I simp: x86_decode_def x86_decode_0f_def asm_consts with_modrm_disp)

lemma fetches_reg_reg:
  assumes "d < 8" "s < 8" "b = ucast (X86_MODRM_R32 s OR X86_MODRM_RM_REG OR X86_MODRM_RM_R32 d)"
  shows "fetches_at x86_fetch [ucast X86_OPCODE_MOV_R32_TO_RM32, b] (X_STORE (XReg (unat d)) (unat s))"
    "fetches_at x86_fetch [ucast X86_OPCODE_ADD_R32_TO_RM32, b] (X_ALU X_ADD (unat d) (unat s))"
    "fetches_at x86_fetch [ucast X86_OPCODE_SUB_R32_FROM_RM32, b] (X_ALU X_SUB (unat d) (unat s))"
    "fetches_at x86_fetch [ucast X86_OPCODE_AND_R32_TO_RM32, b] (X_ALU X_AND (unat d) (unat s))"
    "fetches_at x86_fetch [ucast X86_OPCODE_OR_R32_TO_RM32, b] (X_ALU X_OR (unat d) (unat s))"
    "fetches_at x86_fetch [ucast X86_OPCODE_XOR_R32_TO_RM32, b] (X_ALU X_XOR (unat d) (unat s))"
    "fetches_at x86_fetch [ucast X86_OPCODE_CMP_R32_WITH_RM32, b] (X_ALU X_CMP (unat d) (unat s))"
    "fetches_at x86_fetch [ucast X86_OPCODE_TEST_R32_WITH_RM32, b] (X_ALU X_TEST (unat d) (unat s))"
    "fetches_at x86_fetch [ucast X86_OPCODE_TEST_R8_WITH_RM8, b] (X_TEST8 (unat d) (unat s))"
  using with_modrm_reg [OF assms(2,1), folded assms(3)]
  by (auto intro!: fetches_x86I simp: x86_decode_def x86_alu_of_def asm_consts)

lemma x86_small_reg:
  assumes "r < (8 :: u32)" obtains "r = 0" | "r = 1" | "r = 2" | "r = 3" | "r = 4" | "r = 5" | "r = 6" | "r = 7"
proof -
  have "unat r \<in> {0, 1, 2, 3, 4, 5, 6, 7}" using assms by (auto simp: word_less_nat_alt)
  then have "r \<in> {0, 1, 2, 3, 4, 5, 6, 7}" by (auto simp: word_eq_iff_unsigned [where ?'a = nat])
  then show ?thesis using that by blast
qed

lemma fetches_push_pop:
  assumes "r < 8"
  shows "fetches_at x86_fetch [ucast (X86_OPCODE_PUSH_R32 OR r)] (X_PUSH (unat r))"
    "fetches_at x86_fetch [ucast (X86_OPCODE_POP_R32 OR r)] (X_POP (unat r))"
    "fetches_at x86_fetch (ucast (X86_OPCODE_MOV_I32_TO_R32 OR r) # x86_word32_bytes v) (X_MOV_I (unat r) v)"
    "fetches_at x86_fetch [ucast X86_OPCODE_RET] X_RET"
  using assms
  by (cases r rule: x86_small_reg; auto intro!: fetches_x86I simp: x86_decode_def rm_field_def asm_consts with_imm32_word)+

definition x86_imm_bytes :: "u32 \<Rightarrow> u32 \<Rightarrow> u32 \<Rightarrow> u8 list list" where
  "x86_imm_bytes field r v =
     (if X86_SIGNED_FIT8 v
      then [[0x83, ucast (X86_MODRM_R32 field OR X86_MODRM_RM_REG OR X86_MODRM_RM_R32 r)], [ucast (v AND 0xff)]]
      else [[0x81, ucast (X86_MODRM_R32 field OR X86_MODRM_RM_REG OR X86_MODRM_RM_R32 r)], x86_word32_bytes v])"

lemma asm_x86_imm_code:
  "asm_x86_add_i32_to_r32 v r = emit_code (x86_imm_bytes 0 r v)" "asm_x86_sub_r32_i32 r v = emit_code (x86_imm_bytes 5 r v)"
  by (simp_all add: asm_x86_add_i32_to_r32_def asm_x86_sub_r32_i32_def x86_imm_bytes_def asm_x86_write_byte_1_def
      asm_x86_write_byte_2_def asm_x86_write_word32_def emit_bytes_as_code emit_code_seq asm_consts)

lemma fetches_imm:
  assumes "r < 8"
  shows "fetches_at x86_fetch (concat (x86_imm_bytes 0 r v)) (X_ALU_I X_ADD (unat r) v)"
    "fetches_at x86_fetch (concat (x86_imm_bytes 5 r v)) (X_ALU_I X_SUB (unat r) v)"
proof -
  have f: "reg_field b = unat g" "rm_field b = unat r" "drop_bit 6 b = 3"
    if "g < 8" "b = ucast (X86_MODRM_R32 g OR X86_MODRM_RM_REG OR X86_MODRM_RM_R32 r)" for b and g
    using modrm_fields [OF that(1) assms, of X86_MODRM_RM_REG] unfolding that(2) by (simp_all add: asm_consts)
  show "fetches_at x86_fetch (concat (x86_imm_bytes 0 r v)) (X_ALU_I X_ADD (unat r) v)"
    using f [of 0] by (intro fetches_x86I) (simp add: x86_imm_bytes_def x86_decode_def x86_alu_imm_def with_imm32_word scast_byte)
  show "fetches_at x86_fetch (concat (x86_imm_bytes 5 r v)) (X_ALU_I X_SUB (unat r) v)"
    using f [of 5] by (intro fetches_x86I) (simp add: x86_imm_bytes_def x86_decode_def x86_alu_imm_def with_imm32_word scast_byte)
qed

end
