(* ===== verification/X86_Correct.thy ===== *)
theory X86_Correct
  imports X86_Encodings Code_Jumps
begin

text \<open>
  What the code of the x86 assembler does when it is run: jumps at every distance, loads and
  stores with every form of memory operand, function entry, argument access and exit.
\<close>

abbreviation emits_x86 ::
    "asm_x86_t asm \<Rightarrow> asm_x86_t \<Rightarrow> (u32 \<Rightarrow> u32 \<Rightarrow> x86_machine \<Rightarrow> x86_machine \<Rightarrow> bool) \<Rightarrow> bool" where
  "emits_x86 \<equiv> emits_code x86_step xip (\<lambda>_ _ _. True)"

section \<open>Jumps\<close>

lemma fetches_jmp_code:
  "fetches_at x86_fetch (concat (x86_jmp_code dest here)) (X_JMP (dest - here - word_of_nat (length (concat (x86_jmp_code dest here)))))"
  by (rule fetches_x86I)
    (auto simp: x86_jmp_code_def Let_def x86_decode_def asm_consts scast_byte with_imm32_word)

abbreviation x86_cc :: "u32 \<Rightarrow> bool" where
  "x86_cc cc \<equiv> cc = 2 \<or> cc = 3 \<or> cc = 4 \<or> cc = 5 \<or> cc = 6 \<or> cc = 7 \<or> cc = 12 \<or> cc = 13 \<or> cc = 14 \<or> cc = 15"

lemma x86_decode_jcc:
  assumes "x86_cc cc"
  shows "x86_decode (ucast (X86_OPCODE_JCC_REL8 OR cc) # d # post) = Some (X_JCC (unat cc) (scast d), 2)"
    "x86_decode (ucast X86_OPCODE_JCC_REL32_A # ucast (X86_OPCODE_JCC_REL32_B OR cc) # x86_word32_bytes w @ post) =
      Some (X_JCC (unat cc) w, 6)"
  using assms by (elim disjE; hypsubst; simp add: x86_decode_def x86_decode_0f_def asm_consts with_imm32_word)+

lemma fetches_jcc_code:
  assumes "x86_cc cc"
  shows "fetches_at x86_fetch (concat (x86_jcc_code cc dest here))
    (X_JCC (unat cc) (dest - here - word_of_nat (length (concat (x86_jcc_code cc dest here)))))"
  by (rule fetches_x86I) (simp add: x86_jcc_code_def Let_def scast_byte x86_decode_jcc [OF assms])


definition x86_same :: "x86_machine \<Rightarrow> x86_machine \<Rightarrow> bool" where
  "x86_same m m' \<longleftrightarrow> xreg m' = xreg m \<and> xmem m' = xmem m"

lemma x86_cond_jump:
  assumes "emit_room 8 as" "label_at label dest as" "x86_cc cc"
    and "f = asm_seq [emit_code [t], asm_x86_jcc_label cc label]" "length t = 2" "fetches_at x86_fetch t i" "x86_straight i"
    and "\<And>m. x86_same m (x86_exec_instr i 2 m) \<and> (xcond (unat cc) (x86_exec_instr i 2 m) \<longleftrightarrow> C m)"
  shows "emits_x86 f as (\<lambda>base next m m'. xip m' = (if C m then base + dest else next) \<and> x86_same m m')"
proof -
  let ?js = "x86_jcc_code cc dest (code_offset as + 2)"
  have code: "f as = emit_code ([t] @ ?js) as"
    using emit_then_jump [OF emit_room_weaken [OF assms(1)] _ assms(2), of 2 "[t]" "x86_jcc_code cc"] assms(5)
    by (simp add: assms(4) x86_jump_codes)
  have len: "length (concat ?js) \<le> 6" by (simp add: x86_jcc_code_def Let_def)
  have i: "xip (x86_exec_instr i 2 m) = xip m + 2" for m using assms(7) by (rule x86_cpu.pc_straight)
  show ?thesis
  proof (rule x86_cpu.pieces_emits [where f = f and ks = "[t, concat ?js]", OF code assms(1)])
    fix base :: u32 and m :: x86_machine
    assume "xip m = base + code_offset as"
    then show "xip (exec_all x86_exec_instr (zip [i, X_JCC (unat cc) (dest - (code_offset as + 2) - word_of_nat (length (concat ?js)))] [t, concat ?js]) m) =
        (if C m then base + dest else xip m + word_of_nat (length (concat ([t] @ ?js)))) \<and>
        x86_same m (exec_all x86_exec_instr (zip [i, X_JCC (unat cc) (dest - (code_offset as + 2) - word_of_nat (length (concat ?js)))] [t, concat ?js]) m)"
      using assms(8) [of m] by (simp add: assms(5) i x86_same_def add.assoc)
  qed (use len assms(3,5,6,7) fetches_jcc_code [OF assms(3), of dest "code_offset as + 2"] in simp_all)
qed

lemma x86_jmp_emits:
  assumes "emit_room 8 as" "label_at label dest as" "f = x86_label_jump label x86_jmp_code"
  shows "emits_x86 f as (\<lambda>base next m m'. m' = m\<lparr>xip := base + dest\<rparr>)"
proof -
  let ?js = "x86_jmp_code dest (code_offset as)"
  have code: "f as = emit_code ?js as" using assms(2) by (simp add: assms(3) label_jump_def label_at_def)
  have len: "length (concat ?js) \<le> 8" by (simp add: x86_jmp_code_def Let_def)
  show ?thesis
    by (rule x86_cpu.pieces_emits [where f = f and ks = "[concat ?js]" and
          ins = "[X_JMP (dest - code_offset as - word_of_nat (length (concat ?js)))]", OF code assms(1) len])
      (use fetches_jmp_code [of dest "code_offset as"] in simp_all)
qed

text \<open>
  C28: The code of the jumps of the x86 assembler, run on an x86 machine, does what the macros say at
  every distance: a jump continues at the label; a jump on a zero or nonzero register (the whole
  register, or its low byte for a truth value) and a jump on equal registers continue at the label
  exactly when the condition holds, and else behind the code. Registers and memory are unchanged.
\<close>

theorem x86_jumps_correct:
  assumes "emit_room 8 as" "label_at label dest as" "r < 8" "s < 8" "b \<longrightarrow> r < 4"
  shows "emits_x86 (x86_exec env (X86_API (ASM_JUMP label))) as
      (\<lambda>base next m m'. m' = m\<lparr>xip := base + dest\<rparr>) \<and>
    emits_x86 (x86_exec env (X86_API (ASM_JUMP_IF_REG_ZERO r label b))) as
      (\<lambda>base next m m'. xip m' = (if (if b then (ucast (xreg m (unat r)) :: u8) = 0 else xreg m (unat r) = 0)
         then base + dest else next) \<and> x86_same m m') \<and>
    emits_x86 (x86_exec env (X86_API (ASM_JUMP_IF_REG_NONZERO r label b))) as
      (\<lambda>base next m m'. xip m' = (if \<not> (if b then (ucast (xreg m (unat r)) :: u8) = 0 else xreg m (unat r) = 0)
         then base + dest else next) \<and> x86_same m m') \<and>
    emits_x86 (x86_exec env (X86_API (ASM_JUMP_IF_REG_EQ r s label))) as
      (\<lambda>base next m m'. xip m' = (if xreg m (unat r) = xreg m (unat s) then base + dest else next) \<and> x86_same m m')"
proof (intro conjI)
  show "emits_x86 (x86_exec env (X86_API (ASM_JUMP label))) as (\<lambda>base next m m'. m' = m\<lparr>xip := base + dest\<rparr>)"
    by (rule x86_jmp_emits [OF assms(1,2)]) (simp add: x86_jump_codes)
  let ?t = "if b then [ucast X86_OPCODE_TEST_R8_WITH_RM8, ucast (X86_MODRM_R32 r OR X86_MODRM_RM_REG OR X86_MODRM_RM_R32 r) :: u8]
    else [ucast X86_OPCODE_TEST_R32_WITH_RM32, ucast (X86_MODRM_R32 r OR X86_MODRM_RM_REG OR X86_MODRM_RM_R32 r)]"
  let ?i = "if b then X_TEST8 (unat r) (unat r) else X_ALU X_TEST (unat r) (unat r)"
  have test: "x86_test b r = emit_code [?t]" "fetches_at x86_fetch ?t ?i"
    using fetches_reg_reg [OF assms(3,3) refl]
    by (simp_all add: x86_test_def asm_ops asm_x86_generic_r32_r32_def asm_x86_write_byte_2_def emit_bytes_as_code)
  have four: "b \<Longrightarrow> unat r < 4" using assms(5) by (simp add: word_less_nat_alt)
  note run = x86_same_def xflags_def xcond_def Let_def xget8_def four asm_consts
  show "emits_x86 (x86_exec env (X86_API (ASM_JUMP_IF_REG_ZERO r label b))) as
      (\<lambda>base next m m'. xip m' = (if (if b then (ucast (xreg m (unat r)) :: u8) = 0 else xreg m (unat r) = 0)
         then base + dest else next) \<and> x86_same m m')"
    by (rule x86_cond_jump [OF assms(1,2), where t = ?t and i = ?i and cc = ASM_X86_CC_JZ])
      (use test in \<open>simp_all add: run\<close>)
  show "emits_x86 (x86_exec env (X86_API (ASM_JUMP_IF_REG_NONZERO r label b))) as
      (\<lambda>base next m m'. xip m' = (if \<not> (if b then (ucast (xreg m (unat r)) :: u8) = 0 else xreg m (unat r) = 0)
         then base + dest else next) \<and> x86_same m m')"
    by (rule x86_cond_jump [OF assms(1,2), where t = ?t and i = ?i and cc = ASM_X86_CC_JNZ])
      (use test in \<open>simp_all add: run\<close>)
  let ?c = "[ucast X86_OPCODE_CMP_R32_WITH_RM32, ucast (X86_MODRM_R32 r OR X86_MODRM_RM_REG OR X86_MODRM_RM_R32 s)]"
  have cmp: "asm_x86_cmp_r32_with_r32 r s = emit_code [?c]"
    by (simp add: asm_ops asm_x86_generic_r32_r32_def asm_x86_write_byte_2_def emit_bytes_as_code)
  show "emits_x86 (x86_exec env (X86_API (ASM_JUMP_IF_REG_EQ r s label))) as
      (\<lambda>base next m m'. xip m' = (if xreg m (unat r) = xreg m (unat s) then base + dest else next) \<and> x86_same m m')"
    by (rule x86_cond_jump [OF assms(1,2), where t = ?c and i = "X_ALU X_CMP (unat s) (unat r)" and cc = ASM_X86_CC_JE])
      (use cmp fetches_reg_reg(7) [OF assms(4,3) refl] in \<open>simp_all add: run, auto\<close>)
qed

text \<open>A concrete state of the emit pass, for the witnesses.\<close>

definition x86_emit_state :: asm_x86_t where
  "x86_emit_state = \<lparr>pass = 2, suppress = False, code_offset = 6, code_size = 64,
     code_base = Some (replicate 64 0), max_num_labels = 2, label_offsets = [4, 40], num_locals = 7\<rparr>"

lemma x86_emit_state_simps:
  "k \<le> 58 \<Longrightarrow> emit_room k x86_emit_state" "label_at 0 4 x86_emit_state" "label_at 1 40 x86_emit_state" "num_locals x86_emit_state = 7"
  by (simp_all add: x86_emit_state_def emit_room_def in_emit_pass_def label_at_def checked_label_offset_def
      label_offset_def asm_consts)

theorem x86_jumps_correct_witness:
  "emits_x86 (x86_exec x86_demo_env (X86_API (ASM_JUMP 0))) x86_emit_state
      (\<lambda>base next m m'. m' = m\<lparr>xip := base + 4\<rparr>) \<and>
    emits_x86 (x86_exec x86_demo_env (X86_API (ASM_JUMP_IF_REG_ZERO 2 0 True))) x86_emit_state
      (\<lambda>base next m m'. xip m' = (if (if True then (ucast (xreg m (unat (2 :: u32))) :: u8) = 0 else xreg m (unat (2 :: u32)) = 0)
         then base + 4 else next) \<and> x86_same m m') \<and>
    emits_x86 (x86_exec x86_demo_env (X86_API (ASM_JUMP_IF_REG_NONZERO 2 0 True))) x86_emit_state
      (\<lambda>base next m m'. xip m' = (if \<not> (if True then (ucast (xreg m (unat (2 :: u32))) :: u8) = 0 else xreg m (unat (2 :: u32)) = 0)
         then base + 4 else next) \<and> x86_same m m') \<and>
    emits_x86 (x86_exec x86_demo_env (X86_API (ASM_JUMP_IF_REG_EQ 2 7 0))) x86_emit_state
      (\<lambda>base next m m'. xip m' = (if xreg m (unat (2 :: u32)) = xreg m (unat (7 :: u32)) then base + 4 else next) \<and> x86_same m m')"
  by (rule x86_jumps_correct) (simp_all add: x86_emit_state_simps)

section \<open>Memory operands\<close>

lemma x86_one_emits:
  assumes "f as = emit_code js as" "emit_room k as" "length (concat js) \<le> k" "fetches_at x86_fetch (concat js) i" "x86_straight i"
    and "\<And>base len m. R base (xip m + len) m (x86_exec_instr i len m)"
  shows "emits_x86 f as R"
proof (rule x86_cpu.pieces_emits [where f = f and ks = "[concat js]" and ins = "[i]", OF assms(1-3)])
  show "R base (xip m + word_of_nat (length (concat js))) m (exec_all x86_exec_instr (zip [i] [concat js]) m)" for base m
    using assms(6) [of base m "word_of_nat (length (concat js))"] by simp
qed (use assms(4,5) in simp_all)

lemma x86_disp_length: "length (concat (x86_disp_bytes r b d)) \<le> 6"
  by (simp add: x86_disp_bytes_def Let_def)

lemma x86_mem_code:
  "asm_seq [asm_x86_write_byte_1 o1, asm_x86_write_r32_disp r b d] = emit_code ([ucast o1] # x86_disp_bytes r b d)"
  "asm_seq [asm_x86_write_byte_2 o1 o2, asm_x86_write_r32_disp r b d] = emit_code ([ucast o1, ucast o2] # x86_disp_bytes r b d)"
  by (simp_all add: asm_x86_write_r32_disp_code asm_x86_write_byte_1_def asm_x86_write_byte_2_def emit_bytes_as_code emit_code_seq)

text \<open>The accesses of the assembler with a base register and a displacement in bytes.\<close>

lemma x86_mem_emits:
  assumes "emit_room 8 as" "r < 8" "b < 8"
  shows "emits_x86 (asm_x86_mov_mem32_to_r32 b d r) as
      (\<lambda>base next m m'. m' = (xset (unat r) (load_bytes 4 (xmem m) (xreg m (unat b) + d)) m)\<lparr>xip := next\<rparr>)"
    "emits_x86 (asm_x86_mov_mem16_to_r32zx b d r) as
      (\<lambda>base next m m'. m' = (xset (unat r) (load_bytes 2 (xmem m) (xreg m (unat b) + d)) m)\<lparr>xip := next\<rparr>)"
    "emits_x86 (asm_x86_mov_mem8_to_r32zx b d r) as
      (\<lambda>base next m m'. m' = (xset (unat r) (load_bytes 1 (xmem m) (xreg m (unat b) + d)) m)\<lparr>xip := next\<rparr>)"
    "emits_x86 (asm_x86_mov_r32_to_mem32 r b d) as
      (\<lambda>base next m m'. m' = m\<lparr>xmem := store_bytes 4 (xreg m (unat b) + d) (xreg m (unat r)) (xmem m), xip := next\<rparr>)"
    "emits_x86 (asm_x86_mov_r16_to_mem16 r b d) as
      (\<lambda>base next m m'. m' = m\<lparr>xmem := store_bytes 2 (xreg m (unat b) + d) (xreg m (unat r)) (xmem m), xip := next\<rparr>)"
    "r < 4 \<Longrightarrow> emits_x86 (asm_x86_mov_r8_to_mem8 r b d) as
      (\<lambda>base next m m'. m' = m\<lparr>xmem := store_bytes 1 (xreg m (unat b) + d) (xreg m (unat r)) (xmem m), xip := next\<rparr>)"
  using fetches_mem [OF assms(2,3) refl, of d] x86_disp_length [of r b d] assms(1)
  by (auto intro!: x86_one_emits [OF fun_cong [OF x86_mem_code(1)]] x86_one_emits [OF fun_cong [OF x86_mem_code(2)]]
      simp: asm_ops xaddr_def xget8_def word_less_nat_alt)

text \<open>
  C29: The code of each load and store macro of the x86 assembler, run on an x86 machine, accesses
  exactly the bytes at the base register plus the scaled offset, whatever base register (the one
  that needs a SIB byte and the one that has no form without displacement included) and whatever
  displacement: loads extend with zeros, stores write the low bytes, and nothing else changes.
\<close>

theorem x86_memory_correct:
  assumes "emit_room 8 as" "r < 8" "b < 8" "q < 4"
  shows "emits_x86 (x86_exec env (X86_API (ASM_LOAD32_REG_REG_OFFSET r b k))) as
      (\<lambda>base next m m'. m' = (xset (unat r) (load_bytes 4 (xmem m) (xreg m (unat b) + 4 * k)) m)\<lparr>xip := next\<rparr>) \<and>
    emits_x86 (x86_exec env (X86_API (ASM_LOAD16_REG_REG_OFFSET r b k))) as
      (\<lambda>base next m m'. m' = (xset (unat r) (load_bytes 2 (xmem m) (xreg m (unat b) + 2 * k)) m)\<lparr>xip := next\<rparr>) \<and>
    emits_x86 (x86_exec env (X86_API (ASM_LOAD8_REG_REG_OFFSET r b k))) as
      (\<lambda>base next m m'. m' = (xset (unat r) (load_bytes 1 (xmem m) (xreg m (unat b) + k)) m)\<lparr>xip := next\<rparr>) \<and>
    emits_x86 (x86_exec env (X86_API (ASM_STORE32_REG_REG_OFFSET r b k))) as
      (\<lambda>base next m m'. m' = m\<lparr>xmem := store_bytes 4 (xreg m (unat b) + 4 * k) (xreg m (unat r)) (xmem m), xip := next\<rparr>) \<and>
    emits_x86 (x86_exec env (X86_API (ASM_STORE16_REG_REG_OFFSET r b k))) as
      (\<lambda>base next m m'. m' = m\<lparr>xmem := store_bytes 2 (xreg m (unat b) + 2 * k) (xreg m (unat r)) (xmem m), xip := next\<rparr>) \<and>
    emits_x86 (x86_exec env (X86_API (ASM_STORE8_REG_REG_OFFSET q b k))) as
      (\<lambda>base next m m'. m' = m\<lparr>xmem := store_bytes 1 (xreg m (unat b) + k) (xreg m (unat q)) (xmem m), xip := next\<rparr>)"
proof -
  have "q < 8" using assms(4) by (simp add: order_less_trans)
  then show ?thesis
    using x86_mem_emits(1-5) [OF assms(1-3)] x86_mem_emits(6) [OF assms(1) _ assms(3,4)] by simp
qed

theorem x86_memory_correct_witness:
  "emits_x86 (x86_exec x86_demo_env (X86_API (ASM_LOAD32_REG_REG_OFFSET 0 4 100))) x86_emit_state
      (\<lambda>base next m m'. m' = (xset (unat (0 :: u32)) (load_bytes 4 (xmem m) (xreg m (unat (4 :: u32)) + 4 * 100)) m)\<lparr>xip := next\<rparr>) \<and>
    emits_x86 (x86_exec x86_demo_env (X86_API (ASM_LOAD16_REG_REG_OFFSET 0 4 100))) x86_emit_state
      (\<lambda>base next m m'. m' = (xset (unat (0 :: u32)) (load_bytes 2 (xmem m) (xreg m (unat (4 :: u32)) + 2 * 100)) m)\<lparr>xip := next\<rparr>) \<and>
    emits_x86 (x86_exec x86_demo_env (X86_API (ASM_LOAD8_REG_REG_OFFSET 0 4 100))) x86_emit_state
      (\<lambda>base next m m'. m' = (xset (unat (0 :: u32)) (load_bytes 1 (xmem m) (xreg m (unat (4 :: u32)) + 100)) m)\<lparr>xip := next\<rparr>) \<and>
    emits_x86 (x86_exec x86_demo_env (X86_API (ASM_STORE32_REG_REG_OFFSET 0 4 100))) x86_emit_state
      (\<lambda>base next m m'. m' = m\<lparr>xmem := store_bytes 4 (xreg m (unat (4 :: u32)) + 4 * 100) (xreg m (unat (0 :: u32))) (xmem m), xip := next\<rparr>) \<and>
    emits_x86 (x86_exec x86_demo_env (X86_API (ASM_STORE16_REG_REG_OFFSET 0 4 100))) x86_emit_state
      (\<lambda>base next m m'. m' = m\<lparr>xmem := store_bytes 2 (xreg m (unat (4 :: u32)) + 2 * 100) (xreg m (unat (0 :: u32))) (xmem m), xip := next\<rparr>) \<and>
    emits_x86 (x86_exec x86_demo_env (X86_API (ASM_STORE8_REG_REG_OFFSET 3 4 100))) x86_emit_state
      (\<lambda>base next m m'. m' = m\<lparr>xmem := store_bytes 1 (xreg m (unat (4 :: u32)) + 100) (xreg m (unat (3 :: u32))) (xmem m), xip := next\<rparr>)"
  by (rule x86_memory_correct) (simp_all add: x86_emit_state_simps)

section \<open>Entry and exit\<close>

text \<open>
  A machine inside a function entered from \<open>m0\<close>, where the return address is on top of the stack:
  the four saved registers are below it, the locals below them.
\<close>

definition x86_framed :: "u32 \<Rightarrow> x86_machine \<Rightarrow> x86_machine \<Rightarrow> bool" where
  "x86_framed locals m0 m \<longleftrightarrow>
     xreg m 4 = xreg m0 4 - 16 - locals * 4 \<and>
     load_bytes 4 (xmem m) (xreg m0 4 - 4) = xreg m0 5 \<and> load_bytes 4 (xmem m) (xreg m0 4 - 8) = xreg m0 3 \<and>
     load_bytes 4 (xmem m) (xreg m0 4 - 12) = xreg m0 6 \<and> load_bytes 4 (xmem m) (xreg m0 4 - 16) = xreg m0 7"

abbreviation x86_byte :: "u32 \<Rightarrow> u8 list" where
  "x86_byte b \<equiv> [ucast b]"

definition x86_entry_code :: "u32 \<Rightarrow> u8 list list" where
  "x86_entry_code locals =
     [x86_byte (X86_OPCODE_PUSH_R32 OR 5), x86_byte (X86_OPCODE_PUSH_R32 OR 3), x86_byte (X86_OPCODE_PUSH_R32 OR 6),
      x86_byte (X86_OPCODE_PUSH_R32 OR 7)] @ x86_imm_bytes 5 4 (locals * 4)"

definition x86_exit_code :: "u32 \<Rightarrow> u8 list list" where
  "x86_exit_code locals = x86_imm_bytes 5 4 (- (locals * 4)) @
     [x86_byte (X86_OPCODE_POP_R32 OR 7), x86_byte (X86_OPCODE_POP_R32 OR 6), x86_byte (X86_OPCODE_POP_R32 OR 3),
      x86_byte (X86_OPCODE_POP_R32 OR 5), x86_byte X86_OPCODE_RET]"

lemma x86_imm_length: "length (concat (x86_imm_bytes g r v)) \<le> 6"
  by (simp add: x86_imm_bytes_def)

lemma x86_entry_seq:
  "0 \<le> sint n \<Longrightarrow> asm_x86_entry n = asm_seq [emit_code (x86_entry_code (n OR 3)), \<lambda>s. Inr (s\<lparr>num_locals := n OR 3\<rparr>)]"
  by (simp add: asm_x86_entry_def x86_entry_code_def Let_def asm_ops asm_x86_imm_code asm_x86_write_byte_1_def emit_bytes_as_code
      emit_code_seq asm_consts)

lemma x86_exit_emits: "asm_x86_exit as = emit_code (x86_exit_code (num_locals as)) as"
  by (simp add: asm_x86_exit_def x86_exit_code_def asm_ops asm_x86_imm_code asm_x86_write_byte_1_def emit_bytes_as_code
      emit_code_seq asm_consts)

lemma x86_entry_framed:
  assumes "emit_room 10 as" "0 \<le> sint n"
  shows "emits_x86 (asm_x86_entry n) as (\<lambda>base next m m'. xip m' = next \<and> x86_framed (n OR 3) m m' \<and>
    (\<forall>r. r \<noteq> 4 \<longrightarrow> xreg m' r = xreg m r) \<and> (\<forall>a. unat (a - (xreg m 4 - 16)) \<ge> 16 \<longrightarrow> xmem m' a = xmem m a))"
proof (rule emits_code_update [where f = "asm_x86_entry n" and g = "emit_code (x86_entry_code (n OR 3))" and u = "\<lambda>s. s\<lparr>num_locals := n OR 3\<rparr>"])
  show "asm_x86_entry n as = asm_seq [emit_code (x86_entry_code (n OR 3)), \<lambda>s. Inr (s\<lparr>num_locals := n OR 3\<rparr>)] as"
    by (simp only: x86_entry_seq [OF assms(2)])
  let ?imm = "concat (x86_imm_bytes 5 4 ((n OR 3) * 4))"
  let ?ks = "[x86_byte (X86_OPCODE_PUSH_R32 OR 5), x86_byte (X86_OPCODE_PUSH_R32 OR 3), x86_byte (X86_OPCODE_PUSH_R32 OR 6),
      x86_byte (X86_OPCODE_PUSH_R32 OR 7), ?imm]"
  let ?ins = "[X_PUSH 5, X_PUSH 3, X_PUSH 6, X_PUSH 7, X_ALU_I X_SUB 4 ((n OR 3) * 4)]"
  show "emits_x86 (emit_code (x86_entry_code (n OR 3))) as (\<lambda>base next m m'. xip m' = next \<and> x86_framed (n OR 3) m m' \<and>
    (\<forall>r. r \<noteq> 4 \<longrightarrow> xreg m' r = xreg m r) \<and> (\<forall>a. unat (a - (xreg m 4 - 16)) \<ge> 16 \<longrightarrow> xmem m' a = xmem m a))"
  proof (rule x86_cpu.pieces_emits [where f = "emit_code (x86_entry_code (n OR 3))" and ks = ?ks and ins = ?ins, OF refl assms(1)])
    show "list_all2 (fetches_at x86_fetch) ?ks ?ins"
      using fetches_push_pop(1) [of 5] fetches_push_pop(1) [of 3] fetches_push_pop(1) [of 6] fetches_push_pop(1) [of 7]
        fetches_imm(2) [of 4 "(n OR 3) * 4"] by simp
  next
    fix base :: u32 and m :: x86_machine
    let ?m = "exec_all x86_exec_instr (zip ?ins ?ks) m"
    let ?M = "store_bytes 4 (xreg m 4 - 16) (xreg m 7) (store_bytes 4 (xreg m 4 - 12) (xreg m 6)
        (store_bytes 4 (xreg m 4 - 8) (xreg m 3) (store_bytes 4 (xreg m 4 - 4) (xreg m 5) (xmem m))))"
    have m: "xip ?m = xip m + word_of_nat (length (concat (x86_entry_code (n OR 3))))"
      "xreg ?m = (xreg m)(4 := xreg m 4 - 16 - (n OR 3) * 4)" "xmem ?m = ?M"
      by (simp_all add: xpush_def xset_def xflags_def Let_def x86_entry_code_def add.assoc)
    have "x86_framed (n OR 3) m ?m"
      unfolding x86_framed_def m by (simp add: load_store_word load_store_words)
    moreover have "?M a = xmem m a" if "unat (a - (xreg m 4 - 16)) \<ge> 16" for a
      using store_outside [OF that, of 0] store_outside [OF that, of 4] store_outside [OF that, of 8] store_outside [OF that, of 12]
      by simp
    ultimately show "xip ?m = xip m + word_of_nat (length (concat (x86_entry_code (n OR 3)))) \<and> x86_framed (n OR 3) m ?m \<and>
        (\<forall>r. r \<noteq> 4 \<longrightarrow> xreg ?m r = xreg m r) \<and> (\<forall>a. unat (a - (xreg m 4 - 16)) \<ge> 16 \<longrightarrow> xmem ?m a = xmem m a)"
      unfolding m by simp
  qed (use x86_imm_length [of 5 4 "(n OR 3) * 4"] in \<open>simp_all add: x86_entry_code_def\<close>)
qed simp


definition x86_returned :: "x86_machine \<Rightarrow> x86_machine \<Rightarrow> x86_machine \<Rightarrow> bool" where
  "x86_returned m0 m m' \<longleftrightarrow> xip m' = load_bytes 4 (xmem m) (xreg m0 4) \<and> xreg m' 4 = xreg m0 4 + 4 \<and>
     (\<forall>r \<in> {3, 5, 6, 7}. xreg m' r = xreg m0 r) \<and> (\<forall>r \<in> {0, 1, 2}. xreg m' r = xreg m r) \<and> xmem m' = xmem m"

lemma x86_exit_returns:
  assumes "emit_room 11 as"
  shows "emits_x86 asm_x86_exit as (\<lambda>base next m m'. \<forall>m0. x86_framed (num_locals as) m0 m \<longrightarrow> x86_returned m0 m m')"
proof -
  let ?imm = "concat (x86_imm_bytes 5 4 (- (num_locals as * 4)))"
  let ?ks = "[?imm, x86_byte (X86_OPCODE_POP_R32 OR 7), x86_byte (X86_OPCODE_POP_R32 OR 6), x86_byte (X86_OPCODE_POP_R32 OR 3),
      x86_byte (X86_OPCODE_POP_R32 OR 5), x86_byte X86_OPCODE_RET]"
  let ?ins = "[X_ALU_I X_SUB 4 (- (num_locals as * 4)), X_POP 7, X_POP 6, X_POP 3, X_POP 5, X_RET]"
  show ?thesis
  proof (rule x86_cpu.pieces_emits [where f = asm_x86_exit and ks = ?ks and ins = ?ins, OF x86_exit_emits assms(1)])
    show "list_all2 (fetches_at x86_fetch) ?ks ?ins"
      using fetches_push_pop(2) [of 5] fetches_push_pop(2) [of 3] fetches_push_pop(2) [of 6] fetches_push_pop(2) [of 7]
        fetches_push_pop(4) [of 0] fetches_imm(2) [of 4 "- (num_locals as * 4)"] by simp
  next
    fix m :: x86_machine
    have "x86_returned m0 m (exec_all x86_exec_instr (zip ?ins ?ks) m)" if "x86_framed (num_locals as) m0 m" for m0
      using that by (simp add: x86_framed_def x86_returned_def xset_def xflags_def Let_def)
    then show "\<forall>m0. x86_framed (num_locals as) m0 m \<longrightarrow> x86_returned m0 m (exec_all x86_exec_instr (zip ?ins ?ks) m)" by blast
  qed (use x86_imm_length [of 5 4 "- (num_locals as * 4)"] in \<open>simp_all add: x86_exit_code_def\<close>)
qed

text \<open>
  C30: The code of the entry of a function, run on an x86 machine, saves the four registers that
  belong to the caller, reserves the locals rounded up so that the stack stays aligned, and changes
  no other register and no memory outside of that; the code of an argument access then reads the
  word the caller pushed; and the code of the exit, run on any machine whose stack still has what
  the entry saved, restores these registers and the stack pointer and returns to the caller.
\<close>

theorem x86_entry_exit_correct:
  assumes "emit_room 11 as" "emit_room 11 as2" "0 \<le> sint n" "num_locals as2 = n OR 3" "r < 8"
  shows "emits_x86 (x86_exec env (X86_API (ASM_ENTRY n))) as (\<lambda>base next m m'. xip m' = next \<and> x86_framed (n OR 3) m m' \<and>
      (\<forall>q. q \<noteq> 4 \<longrightarrow> xreg m' q = xreg m q) \<and> (\<forall>a. unat (a - (xreg m 4 - 16)) \<ge> 16 \<longrightarrow> xmem m' a = xmem m a)) \<and>
    (\<exists>as1. x86_exec env (X86_API (ASM_ENTRY n)) as = Inr as1 \<and> num_locals as1 = n OR 3) \<and>
    emits_x86 (x86_exec env (X86_MOV_ARG_TO_R32 k r)) as2 (\<lambda>base next m m'. \<forall>m0. x86_framed (n OR 3) m0 m \<longrightarrow>
      m' = (xset (unat r) (load_bytes 4 (xmem m) (xreg m0 4 + 4 + 4 * k)) m)\<lparr>xip := next\<rparr>) \<and>
    emits_x86 (x86_exec env (X86_API ASM_EXIT)) as2 (\<lambda>base next m m'. \<forall>m0. x86_framed (n OR 3) m0 m \<longrightarrow> x86_returned m0 m m')"
proof (intro conjI)
  show "emits_x86 (x86_exec env (X86_API (ASM_ENTRY n))) as (\<lambda>base next m m'. xip m' = next \<and> x86_framed (n OR 3) m m' \<and>
      (\<forall>q. q \<noteq> 4 \<longrightarrow> xreg m' q = xreg m q) \<and> (\<forall>a. unat (a - (xreg m 4 - 16)) \<ge> 16 \<longrightarrow> xmem m' a = xmem m a))"
    using x86_entry_framed [OF emit_room_weaken [OF assms(1)] assms(3)] by simp
  have "\<exists>as1. x86_exec env (X86_API (ASM_ENTRY n)) as = Inr as1"
    using x86_entry_framed [OF emit_room_weaken [OF assms(1)] assms(3)] by (auto simp: emits_code_def)
  then show "\<exists>as1. x86_exec env (X86_API (ASM_ENTRY n)) as = Inr as1 \<and> num_locals as1 = n OR 3"
    by (auto simp: x86_entry_seq [OF assms(3)] split: sum.splits)
  have off: "asm_x86_arg_offset_from_esp as2 k = (n OR 3) * 4 + 20 + 4 * k"
    by (simp add: asm_x86_arg_offset_from_esp_def assms(4) X86_WORD_SIZE_def algebra_simps)
  show "emits_x86 (x86_exec env (X86_MOV_ARG_TO_R32 k r)) as2 (\<lambda>base next m m'. \<forall>m0. x86_framed (n OR 3) m0 m \<longrightarrow>
      m' = (xset (unat r) (load_bytes 4 (xmem m) (xreg m0 4 + 4 + 4 * k)) m)\<lparr>xip := next\<rparr>)"
  proof (rule emits_code_cong)
    have "emits_x86 (asm_x86_mov_mem32_to_r32 4 ((n OR 3) * 4 + 20 + 4 * k) r) as2 (\<lambda>base next m m'.
        m' = (xset (unat r) (load_bytes 4 (xmem m) (xreg m 4 + ((n OR 3) * 4 + 20 + 4 * k))) m)\<lparr>xip := next\<rparr>)"
      using x86_mem_emits(1) [of as2 r 4 "(n OR 3) * 4 + 20 + 4 * k"] emit_room_weaken [OF assms(2), of 8] assms(5) by simp
    then show "emits_x86 (asm_x86_mov_mem32_to_r32 4 ((n OR 3) * 4 + 20 + 4 * k) r) as2 (\<lambda>base next m m'.
        \<forall>m0. x86_framed (n OR 3) m0 m \<longrightarrow> m' = (xset (unat r) (load_bytes 4 (xmem m) (xreg m0 4 + 4 + 4 * k)) m)\<lparr>xip := next\<rparr>)"
      by (rule emits_code_mono) (simp add: x86_framed_def add.assoc)
    show "x86_exec env (X86_MOV_ARG_TO_R32 k r) as2 = asm_x86_mov_mem32_to_r32 4 ((n OR 3) * 4 + 20 + 4 * k) r as2"
      by (simp add: asm_x86_mov_arg_to_r32_def off ASM_X86_REG_ESP_def)
  qed
  show "emits_x86 (x86_exec env (X86_API ASM_EXIT)) as2 (\<lambda>base next m m'. \<forall>m0. x86_framed (n OR 3) m0 m \<longrightarrow> x86_returned m0 m m')"
    using x86_exit_returns [OF assms(2)] by (simp add: assms(4))
qed

theorem x86_entry_exit_correct_witness:
  "emits_x86 (x86_exec x86_demo_env (X86_API (ASM_ENTRY 5))) x86_emit_state (\<lambda>base next m m'. xip m' = next \<and> x86_framed (5 OR 3) m m' \<and>
      (\<forall>q. q \<noteq> 4 \<longrightarrow> xreg m' q = xreg m q) \<and> (\<forall>a. unat (a - (xreg m 4 - 16)) \<ge> 16 \<longrightarrow> xmem m' a = xmem m a)) \<and>
    (\<exists>as1. x86_exec x86_demo_env (X86_API (ASM_ENTRY 5)) x86_emit_state = Inr as1 \<and> num_locals as1 = 5 OR 3) \<and>
    emits_x86 (x86_exec x86_demo_env (X86_MOV_ARG_TO_R32 1 0)) x86_emit_state (\<lambda>base next m m'. \<forall>m0. x86_framed (5 OR 3) m0 m \<longrightarrow>
      m' = (xset (unat (0 :: u32)) (load_bytes 4 (xmem m) (xreg m0 4 + 4 + 4 * 1)) m)\<lparr>xip := next\<rparr>) \<and>
    emits_x86 (x86_exec x86_demo_env (X86_API ASM_EXIT)) x86_emit_state (\<lambda>base next m m'. \<forall>m0. x86_framed (5 OR 3) m0 m \<longrightarrow> x86_returned m0 m m')"
  by (rule x86_entry_exit_correct) (simp_all add: x86_emit_state_simps)

end
