(* ===== verification/Asm_X64.thy ===== *)
theory Asm_X64
  imports Plain_Ops
begin

text \<open>
  The assembler for x86-64, \<open>src/bank/uPython-ASM/asmx64.c\<close> and \<open>asmx64.h\<close>: opcodes, REX
  prefixes and ModRM bytes, byte writers, memory operands, register instructions, jumps,
  function entry and exit, locals and calls. \<open>mp_uint_t\<close> and \<open>size_t\<close> have 64 bits here, so
  the base assembler is used at that width; a C \<open>int\<close> is held in a \<open>u32\<close> and compared as
  signed. Macros with no prefix in the source carry the prefix \<open>X64_\<close>; the byte writers keep
  the low eight bits of their operands. Code in comments is left out.
\<close>

section \<open>Registers, conditions and opcodes\<close>

definition ASM_X64_REG_RAX :: u32 where [asm_consts]: "ASM_X64_REG_RAX = 0"
definition ASM_X64_REG_RCX :: u32 where [asm_consts]: "ASM_X64_REG_RCX = 1"
definition ASM_X64_REG_RDX :: u32 where [asm_consts]: "ASM_X64_REG_RDX = 2"
definition ASM_X64_REG_RBX :: u32 where [asm_consts]: "ASM_X64_REG_RBX = 3"
definition ASM_X64_REG_RSP :: u32 where [asm_consts]: "ASM_X64_REG_RSP = 4"
definition ASM_X64_REG_RBP :: u32 where [asm_consts]: "ASM_X64_REG_RBP = 5"
definition ASM_X64_REG_RSI :: u32 where [asm_consts]: "ASM_X64_REG_RSI = 6"
definition ASM_X64_REG_RDI :: u32 where [asm_consts]: "ASM_X64_REG_RDI = 7"
definition ASM_X64_REG_R08 :: u32 where [asm_consts]: "ASM_X64_REG_R08 = 8"
definition ASM_X64_REG_R09 :: u32 where [asm_consts]: "ASM_X64_REG_R09 = 9"
definition ASM_X64_REG_R10 :: u32 where [asm_consts]: "ASM_X64_REG_R10 = 10"
definition ASM_X64_REG_R11 :: u32 where [asm_consts]: "ASM_X64_REG_R11 = 11"
definition ASM_X64_REG_R12 :: u32 where [asm_consts]: "ASM_X64_REG_R12 = 12"
definition ASM_X64_REG_R13 :: u32 where [asm_consts]: "ASM_X64_REG_R13 = 13"
definition ASM_X64_REG_R14 :: u32 where [asm_consts]: "ASM_X64_REG_R14 = 14"
definition ASM_X64_REG_R15 :: u32 where [asm_consts]: "ASM_X64_REG_R15 = 15"
definition ASM_X64_CC_JB :: u32 where [asm_consts]: "ASM_X64_CC_JB = 0x2"
definition ASM_X64_CC_JAE :: u32 where [asm_consts]: "ASM_X64_CC_JAE = 0x3"
definition ASM_X64_CC_JZ :: u32 where [asm_consts]: "ASM_X64_CC_JZ = 0x4"
definition ASM_X64_CC_JE :: u32 where [asm_consts]: "ASM_X64_CC_JE = 0x4"
definition ASM_X64_CC_JNZ :: u32 where [asm_consts]: "ASM_X64_CC_JNZ = 0x5"
definition ASM_X64_CC_JNE :: u32 where [asm_consts]: "ASM_X64_CC_JNE = 0x5"
definition ASM_X64_CC_JBE :: u32 where [asm_consts]: "ASM_X64_CC_JBE = 0x6"
definition ASM_X64_CC_JA :: u32 where [asm_consts]: "ASM_X64_CC_JA = 0x7"
definition ASM_X64_CC_JL :: u32 where [asm_consts]: "ASM_X64_CC_JL = 0xc"
definition ASM_X64_CC_JGE :: u32 where [asm_consts]: "ASM_X64_CC_JGE = 0xd"
definition ASM_X64_CC_JLE :: u32 where [asm_consts]: "ASM_X64_CC_JLE = 0xe"
definition ASM_X64_CC_JG :: u32 where [asm_consts]: "ASM_X64_CC_JG = 0xf"
definition ASM_X64_REG_FUN_TABLE :: u32 where [asm_consts]: "ASM_X64_REG_FUN_TABLE = ASM_X64_REG_RBP"
definition X64_WORD_SIZE :: u32 where [asm_consts]: "X64_WORD_SIZE = 8"
definition X64_OPCODE_NOP :: u32 where [asm_consts]: "X64_OPCODE_NOP = 0x90"
definition X64_OPCODE_PUSH_R64 :: u32 where [asm_consts]: "X64_OPCODE_PUSH_R64 = 0x50"
definition X64_OPCODE_PUSH_I64 :: u32 where [asm_consts]: "X64_OPCODE_PUSH_I64 = 0x68"
definition X64_OPCODE_PUSH_M64 :: u32 where [asm_consts]: "X64_OPCODE_PUSH_M64 = 0xff"
definition X64_OPCODE_POP_R64 :: u32 where [asm_consts]: "X64_OPCODE_POP_R64 = 0x58"
definition X64_OPCODE_RET :: u32 where [asm_consts]: "X64_OPCODE_RET = 0xc3"
definition X64_OPCODE_MOV_I8_TO_R8 :: u32 where [asm_consts]: "X64_OPCODE_MOV_I8_TO_R8 = 0xb0"
definition X64_OPCODE_MOV_I64_TO_R64 :: u32 where [asm_consts]: "X64_OPCODE_MOV_I64_TO_R64 = 0xb8"
definition X64_OPCODE_MOV_I32_TO_RM32 :: u32 where [asm_consts]: "X64_OPCODE_MOV_I32_TO_RM32 = 0xc7"
definition X64_OPCODE_MOV_R8_TO_RM8 :: u32 where [asm_consts]: "X64_OPCODE_MOV_R8_TO_RM8 = 0x88"
definition X64_OPCODE_MOV_R64_TO_RM64 :: u32 where [asm_consts]: "X64_OPCODE_MOV_R64_TO_RM64 = 0x89"
definition X64_OPCODE_MOV_RM64_TO_R64 :: u32 where [asm_consts]: "X64_OPCODE_MOV_RM64_TO_R64 = 0x8b"
definition X64_OPCODE_MOVZX_RM8_TO_R64 :: u32 where [asm_consts]: "X64_OPCODE_MOVZX_RM8_TO_R64 = 0xb6"
definition X64_OPCODE_MOVZX_RM16_TO_R64 :: u32 where [asm_consts]: "X64_OPCODE_MOVZX_RM16_TO_R64 = 0xb7"
definition X64_OPCODE_LEA_MEM_TO_R64 :: u32 where [asm_consts]: "X64_OPCODE_LEA_MEM_TO_R64 = 0x8d"
definition X64_OPCODE_NOT_RM64 :: u32 where [asm_consts]: "X64_OPCODE_NOT_RM64 = 0xf7"
definition X64_OPCODE_NEG_RM64 :: u32 where [asm_consts]: "X64_OPCODE_NEG_RM64 = 0xf7"
definition X64_OPCODE_AND_R64_TO_RM64 :: u32 where [asm_consts]: "X64_OPCODE_AND_R64_TO_RM64 = 0x21"
definition X64_OPCODE_OR_R64_TO_RM64 :: u32 where [asm_consts]: "X64_OPCODE_OR_R64_TO_RM64 = 0x09"
definition X64_OPCODE_XOR_R64_TO_RM64 :: u32 where [asm_consts]: "X64_OPCODE_XOR_R64_TO_RM64 = 0x31"
definition X64_OPCODE_ADD_R64_TO_RM64 :: u32 where [asm_consts]: "X64_OPCODE_ADD_R64_TO_RM64 = 0x01"
definition X64_OPCODE_ADD_I32_TO_RM32 :: u32 where [asm_consts]: "X64_OPCODE_ADD_I32_TO_RM32 = 0x81"
definition X64_OPCODE_ADD_I8_TO_RM32 :: u32 where [asm_consts]: "X64_OPCODE_ADD_I8_TO_RM32 = 0x83"
definition X64_OPCODE_SUB_R64_FROM_RM64 :: u32 where [asm_consts]: "X64_OPCODE_SUB_R64_FROM_RM64 = 0x29"
definition X64_OPCODE_SUB_I32_FROM_RM64 :: u32 where [asm_consts]: "X64_OPCODE_SUB_I32_FROM_RM64 = 0x81"
definition X64_OPCODE_SUB_I8_FROM_RM64 :: u32 where [asm_consts]: "X64_OPCODE_SUB_I8_FROM_RM64 = 0x83"
definition X64_OPCODE_SHL_RM64_CL :: u32 where [asm_consts]: "X64_OPCODE_SHL_RM64_CL = 0xd3"
definition X64_OPCODE_SHR_RM64_CL :: u32 where [asm_consts]: "X64_OPCODE_SHR_RM64_CL = 0xd3"
definition X64_OPCODE_SAR_RM64_CL :: u32 where [asm_consts]: "X64_OPCODE_SAR_RM64_CL = 0xd3"
definition X64_OPCODE_CMP_R64_WITH_RM64 :: u32 where [asm_consts]: "X64_OPCODE_CMP_R64_WITH_RM64 = 0x39"
definition X64_OPCODE_TEST_R8_WITH_RM8 :: u32 where [asm_consts]: "X64_OPCODE_TEST_R8_WITH_RM8 = 0x84"
definition X64_OPCODE_TEST_R64_WITH_RM64 :: u32 where [asm_consts]: "X64_OPCODE_TEST_R64_WITH_RM64 = 0x85"
definition X64_OPCODE_JMP_REL8 :: u32 where [asm_consts]: "X64_OPCODE_JMP_REL8 = 0xeb"
definition X64_OPCODE_JMP_REL32 :: u32 where [asm_consts]: "X64_OPCODE_JMP_REL32 = 0xe9"
definition X64_OPCODE_JMP_RM64 :: u32 where [asm_consts]: "X64_OPCODE_JMP_RM64 = 0xff"
definition X64_OPCODE_JCC_REL8 :: u32 where [asm_consts]: "X64_OPCODE_JCC_REL8 = 0x70"
definition X64_OPCODE_JCC_REL32_A :: u32 where [asm_consts]: "X64_OPCODE_JCC_REL32_A = 0x0f"
definition X64_OPCODE_JCC_REL32_B :: u32 where [asm_consts]: "X64_OPCODE_JCC_REL32_B = 0x80"
definition X64_OPCODE_SETCC_RM8_A :: u32 where [asm_consts]: "X64_OPCODE_SETCC_RM8_A = 0x0f"
definition X64_OPCODE_SETCC_RM8_B :: u32 where [asm_consts]: "X64_OPCODE_SETCC_RM8_B = 0x90"
definition X64_OPCODE_CALL_REL32 :: u32 where [asm_consts]: "X64_OPCODE_CALL_REL32 = 0xe8"
definition X64_OPCODE_CALL_RM32 :: u32 where [asm_consts]: "X64_OPCODE_CALL_RM32 = 0xff"
definition X64_OPCODE_LEAVE :: u32 where [asm_consts]: "X64_OPCODE_LEAVE = 0xc9"
definition X64_MODRM_RM_DISP0 :: u32 where [asm_consts]: "X64_MODRM_RM_DISP0 = 0x00"
definition X64_MODRM_RM_DISP8 :: u32 where [asm_consts]: "X64_MODRM_RM_DISP8 = 0x40"
definition X64_MODRM_RM_DISP32 :: u32 where [asm_consts]: "X64_MODRM_RM_DISP32 = 0x80"
definition X64_MODRM_RM_REG :: u32 where [asm_consts]: "X64_MODRM_RM_REG = 0xc0"
definition X64_OP_SIZE_PREFIX :: u32 where [asm_consts]: "X64_OP_SIZE_PREFIX = 0x66"
definition X64_REX_PREFIX :: u32 where [asm_consts]: "X64_REX_PREFIX = 0x40"
definition X64_REX_W :: u32 where [asm_consts]: "X64_REX_W = 0x08"
definition X64_REX_R :: u32 where [asm_consts]: "X64_REX_R = 0x04"
definition X64_REX_X :: u32 where [asm_consts]: "X64_REX_X = 0x02"
definition X64_REX_B :: u32 where [asm_consts]: "X64_REX_B = 0x01"

definition X64_MODRM_R64 :: "u32 \<Rightarrow> u32" where
  [asm_encodes]: "X64_MODRM_R64 x = push_bit 3 (x AND 0x7)"

definition X64_MODRM_RM_R64 :: "u32 \<Rightarrow> u32" where
  [asm_encodes]: "X64_MODRM_RM_R64 x = x AND 0x7"

definition X64_REX_W_FROM_R64 :: "u32 \<Rightarrow> u32" where
  [asm_encodes]: "X64_REX_W_FROM_R64 r64 = signed_drop_bit 0 r64 AND 0x08"

definition X64_REX_R_FROM_R64 :: "u32 \<Rightarrow> u32" where
  [asm_encodes]: "X64_REX_R_FROM_R64 r64 = signed_drop_bit 1 r64 AND 0x04"

definition X64_REX_X_FROM_R64 :: "u32 \<Rightarrow> u32" where
  [asm_encodes]: "X64_REX_X_FROM_R64 r64 = signed_drop_bit 2 r64 AND 0x02"

definition X64_REX_B_FROM_R64 :: "u32 \<Rightarrow> u32" where
  [asm_encodes]: "X64_REX_B_FROM_R64 r64 = signed_drop_bit 3 r64 AND 0x01"

definition X64_IMM32_L0 :: "'a::len word \<Rightarrow> 'a word" where
  [asm_encodes]: "X64_IMM32_L0 x = x AND 0xff"

definition X64_IMM32_L1 :: "'a::len word \<Rightarrow> 'a word" where
  [asm_encodes]: "X64_IMM32_L1 x = signed_drop_bit 8 x AND 0xff"

definition X64_IMM32_L2 :: "'a::len word \<Rightarrow> 'a word" where
  [asm_encodes]: "X64_IMM32_L2 x = signed_drop_bit 16 x AND 0xff"

definition X64_IMM32_L3 :: "'a::len word \<Rightarrow> 'a word" where
  [asm_encodes]: "X64_IMM32_L3 x = signed_drop_bit 24 x AND 0xff"

definition X64_IMM64_L4 :: "u64 \<Rightarrow> u64" where
  [asm_encodes]: "X64_IMM64_L4 x = signed_drop_bit 32 x AND 0xff"

definition X64_IMM64_L5 :: "u64 \<Rightarrow> u64" where
  [asm_encodes]: "X64_IMM64_L5 x = signed_drop_bit 40 x AND 0xff"

definition X64_IMM64_L6 :: "u64 \<Rightarrow> u64" where
  [asm_encodes]: "X64_IMM64_L6 x = signed_drop_bit 48 x AND 0xff"

definition X64_IMM64_L7 :: "u64 \<Rightarrow> u64" where
  [asm_encodes]: "X64_IMM64_L7 x = signed_drop_bit 56 x AND 0xff"

definition X64_UNSIGNED_FIT32 :: "u64 \<Rightarrow> bool" where
  "X64_UNSIGNED_FIT32 x \<longleftrightarrow> x AND 0xffffffff00000000 = 0"

text \<open>The constants are \<open>unsigned int\<close>: of a 64-bit operand only the lower half is looked at.\<close>

definition X64_SIGNED_FIT8 :: "'a::len word \<Rightarrow> bool" where
  "X64_SIGNED_FIT8 x \<longleftrightarrow> x AND 0xffffff80 = 0 \<or> x AND 0xffffff80 = 0xffffff80"

section \<open>State and writers\<close>

record asm_x64_t = "64 mp_asm_base_t" +
  num_locals :: u32

definition asm_x64_end_pass :: "asm_x64_t asm" where
  "asm_x64_end_pass s = Inr s"

definition asm_x64_write_byte_1 :: "u32 \<Rightarrow> asm_x64_t asm" where
  "asm_x64_write_byte_1 b1 = emit_bytes [ucast b1]"

definition asm_x64_write_byte_2 :: "u32 \<Rightarrow> u32 \<Rightarrow> asm_x64_t asm" where
  "asm_x64_write_byte_2 b1 b2 = emit_bytes [ucast b1, ucast b2]"

definition asm_x64_write_byte_3 :: "u32 \<Rightarrow> u32 \<Rightarrow> u32 \<Rightarrow> asm_x64_t asm" where
  "asm_x64_write_byte_3 b1 b2 b3 = emit_bytes [ucast b1, ucast b2, ucast b3]"

definition x64_word32_bytes :: "u32 \<Rightarrow> u8 list" where
  "x64_word32_bytes w32 =
     [ucast (X64_IMM32_L0 w32), ucast (X64_IMM32_L1 w32), ucast (X64_IMM32_L2 w32), ucast (X64_IMM32_L3 w32)]"

definition asm_x64_write_word32 :: "u32 \<Rightarrow> asm_x64_t asm" where
  "asm_x64_write_word32 w32 = emit_bytes (x64_word32_bytes w32)"

definition x64_word64_bytes :: "u64 \<Rightarrow> u8 list" where
  "x64_word64_bytes w64 =
     [ucast (X64_IMM32_L0 w64), ucast (X64_IMM32_L1 w64), ucast (X64_IMM32_L2 w64), ucast (X64_IMM32_L3 w64),
      ucast (X64_IMM64_L4 w64), ucast (X64_IMM64_L5 w64), ucast (X64_IMM64_L6 w64), ucast (X64_IMM64_L7 w64)]"

definition asm_x64_write_word64 :: "u64 \<Rightarrow> asm_x64_t asm" where
  "asm_x64_write_word64 w64 = emit_bytes (x64_word64_bytes w64)"

text \<open>A memory operand: the form of the displacement, the SIB byte that RSP and R12 need, the displacement.\<close>

definition x64_rm_disp :: "u32 \<Rightarrow> u32 \<Rightarrow> u32" where
  "x64_rm_disp disp_r64 disp_offset =
     (if disp_offset = 0 \<and> disp_r64 AND 7 \<noteq> ASM_X64_REG_RBP then X64_MODRM_RM_DISP0
      else if X64_SIGNED_FIT8 disp_offset then X64_MODRM_RM_DISP8
      else X64_MODRM_RM_DISP32)"

definition asm_x64_write_r64_disp :: "u32 \<Rightarrow> u32 \<Rightarrow> u32 \<Rightarrow> asm_x64_t asm" where
  "asm_x64_write_r64_disp r64 disp_r64 disp_offset =
     (let rm_disp = x64_rm_disp disp_r64 disp_offset
      in asm_seq
        [asm_x64_write_byte_1 (X64_MODRM_R64 r64 OR rm_disp OR X64_MODRM_RM_R64 disp_r64),
         asm_when (disp_r64 AND 7 = ASM_X64_REG_RSP) (asm_x64_write_byte_1 0x24),
         if rm_disp = X64_MODRM_RM_DISP8 then asm_x64_write_byte_1 (X64_IMM32_L0 disp_offset)
         else asm_when (rm_disp = X64_MODRM_RM_DISP32) (asm_x64_write_word32 disp_offset)])"

definition asm_x64_generic_r64_r64 :: "u32 \<Rightarrow> u32 \<Rightarrow> u32 \<Rightarrow> asm_x64_t asm" where
  "asm_x64_generic_r64_r64 dest_r64 src_r64 op =
     asm_x64_write_byte_3 (X64_REX_PREFIX OR X64_REX_W OR X64_REX_R_FROM_R64 src_r64 OR X64_REX_B_FROM_R64 dest_r64) op
       (X64_MODRM_R64 src_r64 OR X64_MODRM_RM_REG OR X64_MODRM_RM_R64 dest_r64)"

section \<open>Moves and memory\<close>

definition asm_x64_nop :: "asm_x64_t asm" where
  [asm_ops]: "asm_x64_nop =
     asm_x64_write_byte_1 X64_OPCODE_NOP"

definition asm_x64_push_r64 :: "u32 \<Rightarrow> asm_x64_t asm" where
  [asm_ops]: "asm_x64_push_r64 src_r64 =
     (if sint src_r64 < 8 then asm_x64_write_byte_1 (X64_OPCODE_PUSH_R64 OR src_r64)
      else asm_x64_write_byte_2 (X64_REX_PREFIX OR X64_REX_B) (X64_OPCODE_PUSH_R64 OR (src_r64 AND 7)))"

definition asm_x64_pop_r64 :: "u32 \<Rightarrow> asm_x64_t asm" where
  [asm_ops]: "asm_x64_pop_r64 dest_r64 =
     (if sint dest_r64 < 8 then asm_x64_write_byte_1 (X64_OPCODE_POP_R64 OR dest_r64)
      else asm_x64_write_byte_2 (X64_REX_PREFIX OR X64_REX_B) (X64_OPCODE_POP_R64 OR (dest_r64 AND 7)))"

definition asm_x64_ret :: "asm_x64_t asm" where
  [asm_ops]: "asm_x64_ret =
     asm_x64_write_byte_1 X64_OPCODE_RET"

definition asm_x64_mov_r64_r64 :: "u32 \<Rightarrow> u32 \<Rightarrow> asm_x64_t asm" where
  [asm_ops]: "asm_x64_mov_r64_r64 dest_r64 src_r64 =
     asm_x64_generic_r64_r64 dest_r64 src_r64 X64_OPCODE_MOV_R64_TO_RM64"

definition asm_x64_mov_r8_to_mem8 :: "u32 \<Rightarrow> u32 \<Rightarrow> u32 \<Rightarrow> asm_x64_t asm" where
  [asm_ops]: "asm_x64_mov_r8_to_mem8 src_r64 dest_r64 dest_disp =
     asm_seq
       [if sint src_r64 < 8 \<and> sint dest_r64 < 8
        then asm_x64_write_byte_1 X64_OPCODE_MOV_R8_TO_RM8
        else asm_x64_write_byte_2 (X64_REX_PREFIX OR X64_REX_R_FROM_R64 src_r64 OR X64_REX_B_FROM_R64 dest_r64) X64_OPCODE_MOV_R8_TO_RM8,
        asm_x64_write_r64_disp src_r64 dest_r64 dest_disp]"

definition asm_x64_mov_r16_to_mem16 :: "u32 \<Rightarrow> u32 \<Rightarrow> u32 \<Rightarrow> asm_x64_t asm" where
  [asm_ops]: "asm_x64_mov_r16_to_mem16 src_r64 dest_r64 dest_disp =
     asm_seq
       [if sint src_r64 < 8 \<and> sint dest_r64 < 8
        then asm_x64_write_byte_2 X64_OP_SIZE_PREFIX X64_OPCODE_MOV_R64_TO_RM64
        else asm_x64_write_byte_3 X64_OP_SIZE_PREFIX (X64_REX_PREFIX OR X64_REX_R_FROM_R64 src_r64 OR X64_REX_B_FROM_R64 dest_r64)
               X64_OPCODE_MOV_R64_TO_RM64,
        asm_x64_write_r64_disp src_r64 dest_r64 dest_disp]"

definition asm_x64_mov_r32_to_mem32 :: "u32 \<Rightarrow> u32 \<Rightarrow> u32 \<Rightarrow> asm_x64_t asm" where
  [asm_ops]: "asm_x64_mov_r32_to_mem32 src_r64 dest_r64 dest_disp =
     asm_seq
       [if sint src_r64 < 8 \<and> sint dest_r64 < 8
        then asm_x64_write_byte_1 X64_OPCODE_MOV_R64_TO_RM64
        else asm_x64_write_byte_2 (X64_REX_PREFIX OR X64_REX_R_FROM_R64 src_r64 OR X64_REX_B_FROM_R64 dest_r64) X64_OPCODE_MOV_R64_TO_RM64,
        asm_x64_write_r64_disp src_r64 dest_r64 dest_disp]"

definition asm_x64_mov_r64_to_mem64 :: "u32 \<Rightarrow> u32 \<Rightarrow> u32 \<Rightarrow> asm_x64_t asm" where
  [asm_ops]: "asm_x64_mov_r64_to_mem64 src_r64 dest_r64 dest_disp =
     asm_seq
       [asm_x64_write_byte_2 (X64_REX_PREFIX OR X64_REX_W OR X64_REX_R_FROM_R64 src_r64 OR X64_REX_B_FROM_R64 dest_r64) X64_OPCODE_MOV_R64_TO_RM64,
        asm_x64_write_r64_disp src_r64 dest_r64 dest_disp]"

definition asm_x64_mov_mem8_to_r64zx :: "u32 \<Rightarrow> u32 \<Rightarrow> u32 \<Rightarrow> asm_x64_t asm" where
  [asm_ops]: "asm_x64_mov_mem8_to_r64zx src_r64 src_disp dest_r64 =
     asm_seq
       [if sint src_r64 < 8 \<and> sint dest_r64 < 8
        then asm_x64_write_byte_2 0x0f X64_OPCODE_MOVZX_RM8_TO_R64
        else asm_x64_write_byte_3 (X64_REX_PREFIX OR X64_REX_R_FROM_R64 dest_r64 OR X64_REX_B_FROM_R64 src_r64) 0x0f
               X64_OPCODE_MOVZX_RM8_TO_R64,
        asm_x64_write_r64_disp dest_r64 src_r64 src_disp]"

definition asm_x64_mov_mem16_to_r64zx :: "u32 \<Rightarrow> u32 \<Rightarrow> u32 \<Rightarrow> asm_x64_t asm" where
  [asm_ops]: "asm_x64_mov_mem16_to_r64zx src_r64 src_disp dest_r64 =
     asm_seq
       [if sint src_r64 < 8 \<and> sint dest_r64 < 8
        then asm_x64_write_byte_2 0x0f X64_OPCODE_MOVZX_RM16_TO_R64
        else asm_x64_write_byte_3 (X64_REX_PREFIX OR X64_REX_R_FROM_R64 dest_r64 OR X64_REX_B_FROM_R64 src_r64) 0x0f
               X64_OPCODE_MOVZX_RM16_TO_R64,
        asm_x64_write_r64_disp dest_r64 src_r64 src_disp]"

definition asm_x64_mov_mem32_to_r64zx :: "u32 \<Rightarrow> u32 \<Rightarrow> u32 \<Rightarrow> asm_x64_t asm" where
  [asm_ops]: "asm_x64_mov_mem32_to_r64zx src_r64 src_disp dest_r64 =
     asm_seq
       [if sint src_r64 < 8 \<and> sint dest_r64 < 8
        then asm_x64_write_byte_1 X64_OPCODE_MOV_RM64_TO_R64
        else asm_x64_write_byte_2 (X64_REX_PREFIX OR X64_REX_R_FROM_R64 dest_r64 OR X64_REX_B_FROM_R64 src_r64) X64_OPCODE_MOV_RM64_TO_R64,
        asm_x64_write_r64_disp dest_r64 src_r64 src_disp]"

definition asm_x64_mov_mem64_to_r64 :: "u32 \<Rightarrow> u32 \<Rightarrow> u32 \<Rightarrow> asm_x64_t asm" where
  [asm_ops]: "asm_x64_mov_mem64_to_r64 src_r64 src_disp dest_r64 =
     asm_seq
       [asm_x64_write_byte_2 (X64_REX_PREFIX OR X64_REX_W OR X64_REX_R_FROM_R64 dest_r64 OR X64_REX_B_FROM_R64 src_r64) X64_OPCODE_MOV_RM64_TO_R64,
        asm_x64_write_r64_disp dest_r64 src_r64 src_disp]"

definition asm_x64_lea_disp_to_r64 :: "u32 \<Rightarrow> u32 \<Rightarrow> u32 \<Rightarrow> asm_x64_t asm" where
  [asm_ops]: "asm_x64_lea_disp_to_r64 src_r64 src_disp dest_r64 =
     asm_seq
       [asm_x64_write_byte_2 (X64_REX_PREFIX OR X64_REX_W OR X64_REX_R_FROM_R64 dest_r64 OR X64_REX_B_FROM_R64 src_r64) X64_OPCODE_LEA_MEM_TO_R64,
        asm_x64_write_r64_disp dest_r64 src_r64 src_disp]"

text \<open>The position the C function returns is the one of the immediate in the code.\<close>

definition asm_x64_mov_i32_to_r64 :: "u32 \<Rightarrow> u32 \<Rightarrow> asm_x64_t \<Rightarrow> asm_error + (u64 \<times> asm_x64_t)" where
  "asm_x64_mov_i32_to_r64 src_i32 dest_r64 s =
     (case (if sint dest_r64 < 8 then asm_x64_write_byte_1 (X64_OPCODE_MOV_I64_TO_R64 OR dest_r64)
            else asm_x64_write_byte_2 (X64_REX_PREFIX OR X64_REX_B) (X64_OPCODE_MOV_I64_TO_R64 OR (dest_r64 AND 7))) s of
        Inl e \<Rightarrow> Inl e
      | Inr t \<Rightarrow>
          let loc = mp_asm_base_get_code_pos t
          in case asm_x64_write_word32 src_i32 t of Inl e \<Rightarrow> Inl e | Inr u \<Rightarrow> Inr (loc, u))"

definition asm_x64_mov_i64_to_r64 :: "u64 \<Rightarrow> u32 \<Rightarrow> asm_x64_t asm" where
  "asm_x64_mov_i64_to_r64 src_i64 dest_r64 =
     asm_seq
       [asm_x64_write_byte_2 (X64_REX_PREFIX OR X64_REX_W OR (if sint dest_r64 < 8 then 0 else X64_REX_B))
          (X64_OPCODE_MOV_I64_TO_R64 OR (dest_r64 AND 7)),
        asm_x64_write_word64 src_i64]"

definition asm_x64_mov_i64_to_r64_optimised :: "u64 \<Rightarrow> u32 \<Rightarrow> asm_x64_t asm" where
  "asm_x64_mov_i64_to_r64_optimised src_i64 dest_r64 =
     (if X64_UNSIGNED_FIT32 src_i64
      then ignore_result (asm_x64_mov_i32_to_r64 (ucast (src_i64 AND 0xffffffff)) dest_r64)
      else asm_x64_mov_i64_to_r64 src_i64 dest_r64)"

section \<open>Arithmetic and comparisons\<close>

definition asm_x64_not_r64 :: "u32 \<Rightarrow> asm_x64_t asm" where
  [asm_ops]: "asm_x64_not_r64 dest_r64 =
     asm_x64_generic_r64_r64 dest_r64 2 X64_OPCODE_NOT_RM64"

definition asm_x64_neg_r64 :: "u32 \<Rightarrow> asm_x64_t asm" where
  [asm_ops]: "asm_x64_neg_r64 dest_r64 =
     asm_x64_generic_r64_r64 dest_r64 3 X64_OPCODE_NEG_RM64"

definition asm_x64_and_r64_r64 :: "u32 \<Rightarrow> u32 \<Rightarrow> asm_x64_t asm" where
  [asm_ops]: "asm_x64_and_r64_r64 dest_r64 src_r64 =
     asm_x64_generic_r64_r64 dest_r64 src_r64 X64_OPCODE_AND_R64_TO_RM64"

definition asm_x64_or_r64_r64 :: "u32 \<Rightarrow> u32 \<Rightarrow> asm_x64_t asm" where
  [asm_ops]: "asm_x64_or_r64_r64 dest_r64 src_r64 =
     asm_x64_generic_r64_r64 dest_r64 src_r64 X64_OPCODE_OR_R64_TO_RM64"

definition asm_x64_xor_r64_r64 :: "u32 \<Rightarrow> u32 \<Rightarrow> asm_x64_t asm" where
  [asm_ops]: "asm_x64_xor_r64_r64 dest_r64 src_r64 =
     asm_x64_generic_r64_r64 dest_r64 src_r64 X64_OPCODE_XOR_R64_TO_RM64"

definition asm_x64_shl_r64_cl :: "u32 \<Rightarrow> asm_x64_t asm" where
  [asm_ops]: "asm_x64_shl_r64_cl dest_r64 =
     asm_x64_generic_r64_r64 dest_r64 4 X64_OPCODE_SHL_RM64_CL"

definition asm_x64_shr_r64_cl :: "u32 \<Rightarrow> asm_x64_t asm" where
  [asm_ops]: "asm_x64_shr_r64_cl dest_r64 =
     asm_x64_generic_r64_r64 dest_r64 5 X64_OPCODE_SHR_RM64_CL"

definition asm_x64_sar_r64_cl :: "u32 \<Rightarrow> asm_x64_t asm" where
  [asm_ops]: "asm_x64_sar_r64_cl dest_r64 =
     asm_x64_generic_r64_r64 dest_r64 7 X64_OPCODE_SAR_RM64_CL"

definition asm_x64_add_r64_r64 :: "u32 \<Rightarrow> u32 \<Rightarrow> asm_x64_t asm" where
  [asm_ops]: "asm_x64_add_r64_r64 dest_r64 src_r64 =
     asm_x64_generic_r64_r64 dest_r64 src_r64 X64_OPCODE_ADD_R64_TO_RM64"

definition asm_x64_sub_r64_r64 :: "u32 \<Rightarrow> u32 \<Rightarrow> asm_x64_t asm" where
  [asm_ops]: "asm_x64_sub_r64_r64 dest_r64 src_r64 =
     asm_x64_generic_r64_r64 dest_r64 src_r64 X64_OPCODE_SUB_R64_FROM_RM64"

definition asm_x64_mul_r64_r64 :: "u32 \<Rightarrow> u32 \<Rightarrow> asm_x64_t asm" where
  [asm_ops]: "asm_x64_mul_r64_r64 dest_r64 src_r64 =
     asm_seq
       [asm_x64_write_byte_1 (X64_REX_PREFIX OR X64_REX_W OR X64_REX_R_FROM_R64 dest_r64 OR X64_REX_B_FROM_R64 src_r64),
        asm_x64_write_byte_3 0x0f 0xaf (X64_MODRM_R64 dest_r64 OR X64_MODRM_RM_REG OR X64_MODRM_RM_R64 src_r64)]"

definition asm_x64_sub_r64_i32 :: "u32 \<Rightarrow> u32 \<Rightarrow> asm_x64_t asm" where
  "asm_x64_sub_r64_i32 dest_r64 src_i32 =
     asm_seq
       [asm_assert (sint dest_r64 < 8),
        if X64_SIGNED_FIT8 src_i32
        then asm_seq [asm_x64_write_byte_3 (X64_REX_PREFIX OR X64_REX_W) X64_OPCODE_SUB_I8_FROM_RM64
                        (X64_MODRM_R64 5 OR X64_MODRM_RM_REG OR X64_MODRM_RM_R64 dest_r64),
                      asm_x64_write_byte_1 (src_i32 AND 0xff)]
        else asm_seq [asm_x64_write_byte_3 (X64_REX_PREFIX OR X64_REX_W) X64_OPCODE_SUB_I32_FROM_RM64
                        (X64_MODRM_R64 5 OR X64_MODRM_RM_REG OR X64_MODRM_RM_R64 dest_r64),
                      asm_x64_write_word32 src_i32]]"

definition asm_x64_cmp_r64_with_r64 :: "u32 \<Rightarrow> u32 \<Rightarrow> asm_x64_t asm" where
  [asm_ops]: "asm_x64_cmp_r64_with_r64 src_r64_a src_r64_b =
     asm_x64_generic_r64_r64 src_r64_b src_r64_a X64_OPCODE_CMP_R64_WITH_RM64"

definition asm_x64_test_r8_with_r8 :: "u32 \<Rightarrow> u32 \<Rightarrow> asm_x64_t asm" where
  [asm_ops]: "asm_x64_test_r8_with_r8 src_r64_a src_r64_b =
     asm_seq
       [asm_assert (sint src_r64_a < 8),
        asm_assert (sint src_r64_b < 8),
        asm_x64_write_byte_2 X64_OPCODE_TEST_R8_WITH_RM8
          (X64_MODRM_R64 src_r64_a OR X64_MODRM_RM_REG OR X64_MODRM_RM_R64 src_r64_b)]"

definition asm_x64_test_r64_with_r64 :: "u32 \<Rightarrow> u32 \<Rightarrow> asm_x64_t asm" where
  [asm_ops]: "asm_x64_test_r64_with_r64 src_r64_a src_r64_b =
     asm_x64_generic_r64_r64 src_r64_b src_r64_a X64_OPCODE_TEST_R64_WITH_RM64"

definition asm_x64_setcc_r8 :: "u32 \<Rightarrow> u32 \<Rightarrow> asm_x64_t asm" where
  [asm_ops]: "asm_x64_setcc_r8 jcc_type dest_r8 =
     asm_seq
       [asm_assert (sint dest_r8 < 8),
        asm_x64_write_byte_3 X64_OPCODE_SETCC_RM8_A (X64_OPCODE_SETCC_RM8_B OR jcc_type)
          (X64_MODRM_R64 0 OR X64_MODRM_RM_REG OR X64_MODRM_RM_R64 dest_r8)]"

definition asm_x64_jmp_reg :: "u32 \<Rightarrow> asm_x64_t asm" where
  [asm_ops]: "asm_x64_jmp_reg src_r64 =
     asm_seq
       [asm_assert (sint src_r64 < 8),
        asm_x64_write_byte_2 X64_OPCODE_JMP_RM64 (X64_MODRM_R64 4 OR X64_MODRM_RM_REG OR X64_MODRM_RM_R64 src_r64)]"

section \<open>Jumps\<close>

definition x64_get_label_dest :: "u64 \<Rightarrow> asm_x64_t \<Rightarrow> asm_error + u64" where
  "x64_get_label_dest label s =
     (if \<not> label < max_num_labels s then Inl AssertionFailed else label_offset label s)"

text \<open>
  The two \<open>goto large_jump\<close> branches of the source come together in one \<open>else\<close> here; the
  64-bit distance is cut to the \<open>int\<close> that \<open>asm_x64_write_word32\<close> takes.
\<close>

definition asm_x64_jmp_label :: "u64 \<Rightarrow> asm_x64_t asm" where
  "asm_x64_jmp_label label s =
     (case x64_get_label_dest label s of
        Inl e \<Rightarrow> Inl e
      | Inr dest \<Rightarrow>
          let rel = dest - code_offset s
          in if (dest \<noteq> - 1 \<and> sint rel < 0) \<and> X64_SIGNED_FIT8 (rel - 2)
          then asm_x64_write_byte_2 X64_OPCODE_JMP_REL8 (ucast ((rel - 2) AND 0xff)) s
          else asm_seq [asm_x64_write_byte_1 X64_OPCODE_JMP_REL32, asm_x64_write_word32 (ucast (rel - 5))] s)"

definition asm_x64_jcc_label :: "u32 \<Rightarrow> u64 \<Rightarrow> asm_x64_t asm" where
  "asm_x64_jcc_label jcc_type label s =
     (case x64_get_label_dest label s of
        Inl e \<Rightarrow> Inl e
      | Inr dest \<Rightarrow>
          let rel = dest - code_offset s
          in if (dest \<noteq> - 1 \<and> sint rel < 0) \<and> X64_SIGNED_FIT8 (rel - 2)
          then asm_x64_write_byte_2 (X64_OPCODE_JCC_REL8 OR jcc_type) (ucast ((rel - 2) AND 0xff)) s
          else asm_seq [asm_x64_write_byte_2 X64_OPCODE_JCC_REL32_A (X64_OPCODE_JCC_REL32_B OR jcc_type),
                        asm_x64_write_word32 (ucast (rel - 6))] s)"

section \<open>Entry, exit, locals and calls\<close>

definition asm_x64_entry :: "u32 \<Rightarrow> asm_x64_t asm" where
  "asm_x64_entry num_locals_arg =
     (let locals = num_locals_arg OR 1
      in asm_seq
        [asm_assert (sint num_locals_arg \<ge> 0),
         asm_x64_push_r64 ASM_X64_REG_RBP,
         asm_x64_push_r64 ASM_X64_REG_RBX,
         asm_x64_push_r64 ASM_X64_REG_R12,
         asm_x64_push_r64 ASM_X64_REG_R13,
         asm_x64_sub_r64_i32 ASM_X64_REG_RSP (locals * X64_WORD_SIZE),
         \<lambda>s. Inr (s\<lparr>num_locals := locals\<rparr>)])"

definition asm_x64_exit :: "asm_x64_t asm" where
  "asm_x64_exit s =
     asm_seq
       [asm_x64_sub_r64_i32 ASM_X64_REG_RSP (- num_locals s * X64_WORD_SIZE),
        asm_x64_pop_r64 ASM_X64_REG_R13,
        asm_x64_pop_r64 ASM_X64_REG_R12,
        asm_x64_pop_r64 ASM_X64_REG_RBX,
        asm_x64_pop_r64 ASM_X64_REG_RBP,
        asm_x64_ret] s"

definition asm_x64_local_offset_from_rsp :: "u32 \<Rightarrow> u32" where
  "asm_x64_local_offset_from_rsp local_num = local_num * X64_WORD_SIZE"

definition asm_x64_mov_local_to_r64 :: "u32 \<Rightarrow> u32 \<Rightarrow> asm_x64_t asm" where
  [asm_ops]: "asm_x64_mov_local_to_r64 src_local_num dest_r64 =
     asm_x64_mov_mem64_to_r64 ASM_X64_REG_RSP (asm_x64_local_offset_from_rsp src_local_num) dest_r64"

definition asm_x64_mov_r64_to_local :: "u32 \<Rightarrow> u32 \<Rightarrow> asm_x64_t asm" where
  [asm_ops]: "asm_x64_mov_r64_to_local src_r64 dest_local_num =
     asm_x64_mov_r64_to_mem64 src_r64 ASM_X64_REG_RSP (asm_x64_local_offset_from_rsp dest_local_num)"

definition asm_x64_mov_local_addr_to_r64 :: "u32 \<Rightarrow> u32 \<Rightarrow> asm_x64_t asm" where
  "asm_x64_mov_local_addr_to_r64 local_num dest_r64 =
     (let offset = asm_x64_local_offset_from_rsp local_num
      in if offset = 0 then asm_x64_mov_r64_r64 dest_r64 ASM_X64_REG_RSP
         else asm_x64_lea_disp_to_r64 ASM_X64_REG_RSP offset dest_r64)"

definition asm_x64_mov_reg_pcrel :: "u32 \<Rightarrow> u64 \<Rightarrow> asm_x64_t asm" where
  "asm_x64_mov_reg_pcrel dest_r64 label s =
     (case x64_get_label_dest label s of
        Inl e \<Rightarrow> Inl e
      | Inr dest \<Rightarrow>
          let rel = dest - (code_offset s + 7)
          in asm_seq
            [asm_x64_write_byte_3 (X64_REX_PREFIX OR X64_REX_W OR X64_REX_R_FROM_R64 dest_r64) X64_OPCODE_LEA_MEM_TO_R64
               (X64_MODRM_R64 dest_r64 OR X64_MODRM_RM_R64 5),
             asm_x64_write_word32 (ucast rel)] s)"

definition asm_x64_call_ind :: "u64 \<Rightarrow> u32 \<Rightarrow> asm_x64_t asm" where
  "asm_x64_call_ind fun_id temp_r64 =
     asm_seq
       [asm_assert (sint temp_r64 < 8),
        asm_x64_mov_mem64_to_r64 ASM_X64_REG_FUN_TABLE (ucast (fun_id * ucast X64_WORD_SIZE)) temp_r64,
        asm_x64_write_byte_2 X64_OPCODE_CALL_RM32 (X64_MODRM_R64 2 OR X64_MODRM_RM_REG OR X64_MODRM_RM_R64 temp_r64)]"

section \<open>The operations of the header\<close>

text \<open>
  The macros of \<open>GENERIC_ASM_API\<close>, and a function the emitter calls directly. Operands are
  \<open>mp_uint_t\<close>; where a function takes an \<open>int\<close> they are cut to 32 bits.
\<close>

datatype x64_op =
    X64_API "u64 asm_op"
  | X64_NOT_REG u64
  | X64_LSL_REG u64
  | X64_LSR_REG u64
  | X64_ASR_REG u64
  | X64_SETCC_R8 u64 u64

definition x64_test :: "bool \<Rightarrow> u64 \<Rightarrow> asm_x64_t asm" where
  "x64_test bool_test reg =
     (if bool_test then asm_x64_test_r8_with_r8 (ucast reg) (ucast reg)
      else asm_x64_test_r64_with_r64 (ucast reg) (ucast reg))"

fun x64_api :: "u64 asm_op \<Rightarrow> asm_x64_t asm" where
  "x64_api (Base_label_assign l) = mp_asm_base_label_assign l"
| "x64_api (Base_align align) = mp_asm_base_align align"
| "x64_api (Base_data bytesize val) = mp_asm_base_data bytesize val"
| "x64_api Base_suppress_code = mp_asm_base_suppress_code"
| "x64_api (ASM_ENTRY locals) = asm_x64_entry (ucast locals)"
| "x64_api ASM_EXIT = asm_x64_exit"
| "x64_api ASM_END_PASS = asm_x64_end_pass"
| "x64_api (ASM_JUMP label) = asm_x64_jmp_label label"
| "x64_api (ASM_JUMP_IF_REG_ZERO reg label bool_test) =
     asm_seq [x64_test bool_test reg, asm_x64_jcc_label ASM_X64_CC_JZ label]"
| "x64_api (ASM_JUMP_IF_REG_NONZERO reg label bool_test) =
     asm_seq [x64_test bool_test reg, asm_x64_jcc_label ASM_X64_CC_JNZ label]"
| "x64_api (ASM_JUMP_IF_REG_EQ reg1 reg2 label) =
     asm_seq [asm_x64_cmp_r64_with_r64 (ucast reg1) (ucast reg2), asm_x64_jcc_label ASM_X64_CC_JE label]"
| "x64_api (ASM_JUMP_REG reg) = asm_x64_jmp_reg (ucast reg)"
| "x64_api (ASM_CALL_IND idx) = asm_x64_call_ind idx ASM_X64_REG_RAX"
| "x64_api (ASM_MOV_LOCAL_REG local_num reg_src) = asm_x64_mov_r64_to_local (ucast reg_src) (ucast local_num)"
| "x64_api (ASM_MOV_REG_IMM reg_dest imm) = asm_x64_mov_i64_to_r64_optimised imm (ucast reg_dest)"
| "x64_api (ASM_MOV_REG_LOCAL reg_dest local_num) = asm_x64_mov_local_to_r64 (ucast local_num) (ucast reg_dest)"
| "x64_api (ASM_MOV_REG_REG reg_dest reg_src) = asm_x64_mov_r64_r64 (ucast reg_dest) (ucast reg_src)"
| "x64_api (ASM_MOV_REG_LOCAL_ADDR reg_dest local_num) =
     asm_x64_mov_local_addr_to_r64 (ucast local_num) (ucast reg_dest)"
| "x64_api (ASM_MOV_REG_PCREL reg_dest label) = asm_x64_mov_reg_pcrel (ucast reg_dest) label"
| "x64_api (ASM_NEG_REG reg) = asm_x64_neg_r64 (ucast reg)"
| "x64_api (ASM_OR_REG_REG reg_dest reg_src) = asm_x64_or_r64_r64 (ucast reg_dest) (ucast reg_src)"
| "x64_api (ASM_XOR_REG_REG reg_dest reg_src) = asm_x64_xor_r64_r64 (ucast reg_dest) (ucast reg_src)"
| "x64_api (ASM_AND_REG_REG reg_dest reg_src) = asm_x64_and_r64_r64 (ucast reg_dest) (ucast reg_src)"
| "x64_api (ASM_ADD_REG_REG reg_dest reg_src) = asm_x64_add_r64_r64 (ucast reg_dest) (ucast reg_src)"
| "x64_api (ASM_SUB_REG_REG reg_dest reg_src) = asm_x64_sub_r64_r64 (ucast reg_dest) (ucast reg_src)"
| "x64_api (ASM_MUL_REG_REG reg_dest reg_src) = asm_x64_mul_r64_r64 (ucast reg_dest) (ucast reg_src)"
| "x64_api (ASM_LOAD_REG_REG_OFFSET reg_dest reg_base qword_offset) =
     asm_x64_mov_mem64_to_r64 (ucast reg_base) (ucast (8 * qword_offset)) (ucast reg_dest)"
| "x64_api (ASM_LOAD8_REG_REG reg_dest reg_base) =
     asm_x64_mov_mem8_to_r64zx (ucast reg_base) 0 (ucast reg_dest)"
| "x64_api (ASM_LOAD8_REG_REG_OFFSET reg_dest reg_base byte_offset) =
     asm_x64_mov_mem8_to_r64zx (ucast reg_base) (ucast byte_offset) (ucast reg_dest)"
| "x64_api (ASM_LOAD16_REG_REG reg_dest reg_base) =
     asm_x64_mov_mem16_to_r64zx (ucast reg_base) (2 * 0) (ucast reg_dest)"
| "x64_api (ASM_LOAD16_REG_REG_OFFSET reg_dest reg_base word_offset) =
     asm_x64_mov_mem16_to_r64zx (ucast reg_base) (ucast (2 * word_offset)) (ucast reg_dest)"
| "x64_api (ASM_LOAD32_REG_REG reg_dest reg_base) =
     asm_x64_mov_mem32_to_r64zx (ucast reg_base) (4 * 0) (ucast reg_dest)"
| "x64_api (ASM_LOAD32_REG_REG_OFFSET reg_dest reg_base dword_offset) =
     asm_x64_mov_mem32_to_r64zx (ucast reg_base) (ucast (4 * dword_offset)) (ucast reg_dest)"
| "x64_api (ASM_STORE_REG_REG_OFFSET reg_src reg_base qword_offset) =
     asm_x64_mov_r64_to_mem64 (ucast reg_src) (ucast reg_base) (ucast (8 * qword_offset))"
| "x64_api (ASM_STORE8_REG_REG reg_src reg_base) = asm_x64_mov_r8_to_mem8 (ucast reg_src) (ucast reg_base) 0"
| "x64_api (ASM_STORE8_REG_REG_OFFSET reg_src reg_base byte_offset) =
     asm_x64_mov_r8_to_mem8 (ucast reg_src) (ucast reg_base) (ucast byte_offset)"
| "x64_api (ASM_STORE16_REG_REG reg_src reg_base) =
     asm_x64_mov_r16_to_mem16 (ucast reg_src) (ucast reg_base) (2 * 0)"
| "x64_api (ASM_STORE16_REG_REG_OFFSET reg_src reg_base word_offset) =
     asm_x64_mov_r16_to_mem16 (ucast reg_src) (ucast reg_base) (ucast (2 * word_offset))"
| "x64_api (ASM_STORE32_REG_REG reg_src reg_base) =
     asm_x64_mov_r32_to_mem32 (ucast reg_src) (ucast reg_base) (4 * 0)"
| "x64_api (ASM_STORE32_REG_REG_OFFSET reg_src reg_base dword_offset) =
     asm_x64_mov_r32_to_mem32 (ucast reg_src) (ucast reg_base) (ucast (4 * dword_offset))"
| "x64_api (ASM_CLR_REG reg_dest) = asm_x64_xor_r64_r64 (ucast reg_dest) (ucast reg_dest)"

fun x64_exec :: "x64_op \<Rightarrow> asm_x64_t asm" where
  "x64_exec (X64_API op) = x64_api op"
| "x64_exec (X64_NOT_REG reg) = asm_x64_not_r64 (ucast reg)"
| "x64_exec (X64_LSL_REG reg) = asm_x64_shl_r64_cl (ucast reg)"
| "x64_exec (X64_LSR_REG reg) = asm_x64_shr_r64_cl (ucast reg)"
| "x64_exec (X64_ASR_REG reg) = asm_x64_sar_r64_cl (ucast reg)"
| "x64_exec (X64_SETCC_R8 jcc_type dest_r8) = asm_x64_setcc_r8 (ucast jcc_type) (ucast dest_r8)"

end
