(* ===== verification/Asm_X64_Program.thy ===== *)
theory Asm_X64_Program
  imports Asm_X64
begin

text \<open>
  The x86-64 assembler in two passes: every operation is plain (in the sense of \<open>Plain_Ops\<close>),
  and the assembler is an instance of the two-pass interface.
\<close>

section \<open>Straight-line operations\<close>

text \<open>Below this size of the code every distance fits the 32-bit field of a jump.\<close>

abbreviation x64_lim :: nat where
  "x64_lim \<equiv> 2147483632"

lemma length_x64_word_bytes [simp]: "length (x64_word32_bytes w) = 4" "length (x64_word64_bytes v) = 8"
  by (simp_all add: x64_word32_bytes_def x64_word64_bytes_def)

lemma x64_emit_plain: "length bs = n \<Longrightarrow> plain x64_lim n (emit_bytes bs :: asm_x64_t asm)"
  using plain_emit [where 'w = 64, of x64_lim bs] by simp

lemma x64_write_plain:
  "plain x64_lim 1 (asm_x64_write_byte_1 b1)" "plain x64_lim 2 (asm_x64_write_byte_2 b1 b2)"
  "plain x64_lim 3 (asm_x64_write_byte_3 b1 b2 b3)" "plain x64_lim 4 (asm_x64_write_word32 w32)"
  "plain x64_lim 8 (asm_x64_write_word64 w64)"
  unfolding asm_x64_write_byte_1_def asm_x64_write_byte_2_def asm_x64_write_byte_3_def asm_x64_write_word32_def
    asm_x64_write_word64_def
  by (rule x64_emit_plain, simp)+

lemma x64_disp_plain: "plain x64_lim 6 (asm_x64_write_r64_disp r64 disp_r64 disp_offset)"
  unfolding asm_x64_write_r64_disp_def Let_def
  by (rule plain_weaken, (rule plain_sum x64_write_plain)+, simp)

lemma x64_reg_plain:
  "plain x64_lim 3 (asm_x64_generic_r64_r64 dest_r64 src_r64 op)"
  "plain x64_lim 7 (asm_x64_sub_r64_i32 dest_r64 src_i32)"
  unfolding asm_x64_generic_r64_r64_def asm_x64_sub_r64_i32_def
  by (rule plain_weaken, (rule plain_sum x64_write_plain)+, simp)+

lemmas x64_plain = x64_write_plain x64_disp_plain x64_reg_plain

lemma x64_i32_seq:
  "ignore_result (asm_x64_mov_i32_to_r64 src_i32 dest_r64) = asm_seq
     [if sint dest_r64 < 8 then asm_x64_write_byte_1 (X64_OPCODE_MOV_I64_TO_R64 OR dest_r64)
      else asm_x64_write_byte_2 (X64_REX_PREFIX OR X64_REX_B) (X64_OPCODE_MOV_I64_TO_R64 OR (dest_r64 AND 7)),
      asm_x64_write_word32 src_i32]"
  by (simp add: fun_eq_iff ignore_result_def asm_x64_mov_i32_to_r64_def Let_def split: sum.split)

lemma x64_mem_plain:
  "plain x64_lim 9 (asm_seq [if b then asm_x64_write_byte_1 b1 else asm_x64_write_byte_2 b2 b3,
     asm_x64_write_r64_disp r64 disp_r64 disp_offset])"
  "plain x64_lim 9 (asm_seq [if b then asm_x64_write_byte_2 b1 b2 else asm_x64_write_byte_3 b3 b4 b5,
     asm_x64_write_r64_disp r64 disp_r64 disp_offset])"
  "plain x64_lim 8 (asm_seq [asm_x64_write_byte_2 b1 b2, asm_x64_write_r64_disp r64 disp_r64 disp_offset])"
  "plain x64_lim 4 (asm_seq [asm_x64_write_byte_1 b1, asm_x64_write_byte_3 b2 b3 b4])"
  "plain x64_lim 4 (asm_seq [asm_assert b, asm_x64_write_byte_2 b1 b2])"
  "plain x64_lim 4 (asm_seq [asm_assert b, asm_x64_write_byte_3 b1 b2 b3])"
  "plain x64_lim 4 (asm_seq [asm_assert b, asm_assert b', asm_x64_write_byte_2 b1 b2])"
  by (rule plain_weaken, (rule plain_sum x64_plain)+, simp)+

lemma x64_misc_plain:
  "plain x64_lim 10 (asm_x64_call_ind fun_id temp_r64)"
  "plain x64_lim 8 (asm_x64_mov_local_addr_to_r64 local_num dest_r64)"
  "plain x64_lim 10 (asm_x64_mov_i64_to_r64_optimised src_i64 dest_r64)"
  unfolding asm_x64_call_ind_def asm_x64_mov_local_addr_to_r64_def asm_x64_mov_i64_to_r64_optimised_def
    asm_x64_mov_i64_to_r64_def asm_ops x64_i32_seq Let_def
  by (rule plain_weaken, (rule plain_sum x64_plain)+, simp)+

section \<open>Jumps\<close>

definition x64_jmp_code :: "u64 \<Rightarrow> u64 \<Rightarrow> u8 list list" where
  "x64_jmp_code dest here =
     (let rel = dest - here
      in if (dest \<noteq> - 1 \<and> sint rel < 0) \<and> X64_SIGNED_FIT8 (rel - 2)
      then [[ucast X64_OPCODE_JMP_REL8, ucast (ucast ((rel - 2) AND 0xff) :: u32)]]
      else [[ucast X64_OPCODE_JMP_REL32], x64_word32_bytes (ucast (rel - 5))])"

definition x64_jcc_code :: "u32 \<Rightarrow> u64 \<Rightarrow> u64 \<Rightarrow> u8 list list" where
  "x64_jcc_code jcc_type dest here =
     (let rel = dest - here
      in if (dest \<noteq> - 1 \<and> sint rel < 0) \<and> X64_SIGNED_FIT8 (rel - 2)
      then [[ucast (X64_OPCODE_JCC_REL8 OR jcc_type), ucast (ucast ((rel - 2) AND 0xff) :: u32)]]
      else [[ucast X64_OPCODE_JCC_REL32_A, ucast (X64_OPCODE_JCC_REL32_B OR jcc_type)],
            x64_word32_bytes (ucast (rel - 6))])"

definition x64_pcrel_code :: "u32 \<Rightarrow> u64 \<Rightarrow> u64 \<Rightarrow> u8 list list" where
  "x64_pcrel_code dest_r64 dest here =
     [[ucast (X64_REX_PREFIX OR X64_REX_W OR X64_REX_R_FROM_R64 dest_r64), ucast X64_OPCODE_LEA_MEM_TO_R64,
       ucast (X64_MODRM_R64 dest_r64 OR X64_MODRM_RM_R64 5)],
      x64_word32_bytes (ucast (dest - (here + 7)))]"

abbreviation x64_label_jump :: "u64 \<Rightarrow> (u64 \<Rightarrow> u64 \<Rightarrow> u8 list list) \<Rightarrow> asm_x64_t asm" where
  "x64_label_jump label \<equiv> label_jump (checked_label_offset label) (\<lambda>_ _. False)"

lemma x64_get_label_dest_checked: "x64_get_label_dest = checked_label_offset"
  by (simp add: fun_eq_iff x64_get_label_dest_def checked_label_offset_def)

lemma x64_jump_codes:
  "asm_x64_jmp_label label = x64_label_jump label x64_jmp_code"
  "asm_x64_jcc_label jcc_type label = x64_label_jump label (x64_jcc_code jcc_type)"
  "asm_x64_mov_reg_pcrel dest_r64 label = x64_label_jump label (x64_pcrel_code dest_r64)"
  by (simp_all add: fun_eq_iff asm_x64_jmp_label_def asm_x64_jcc_label_def asm_x64_mov_reg_pcrel_def label_jump_def
      x64_get_label_dest_checked x64_jmp_code_def x64_jcc_code_def x64_pcrel_code_def asm_x64_write_byte_1_def
      asm_x64_write_byte_2_def asm_x64_write_byte_3_def asm_x64_write_word32_def emit_code_def Let_def split: sum.split)

lemma x64_jump_plain:
  "plain x64_lim 5 (asm_x64_jmp_label label)" "plain x64_lim 6 (asm_x64_jcc_label jcc_type label)"
  "plain x64_lim 7 (asm_x64_mov_reg_pcrel dest_r64 label)"
  unfolding x64_jump_codes
  by (rule plain_jump_ahead; simp add: x64_jmp_code_def x64_jcc_code_def x64_pcrel_code_def Let_def)+

section \<open>Entry and exit\<close>

lemma same_added_x64: "same_added (c :: asm_x64_t) e \<longleftrightarrow> num_locals c = num_locals e"
  by (cases c; cases e) (auto simp: same_added_def)

lemma keeps_base_x64 [simp]: "keeps_base (\<lambda>s. s\<lparr>num_locals := x\<rparr>)"
  by (simp add: keeps_base_def)

definition x64_exit_seq :: "u32 \<Rightarrow> asm_x64_t asm" where
  "x64_exit_seq locals = asm_seq
       [asm_x64_sub_r64_i32 ASM_X64_REG_RSP (- locals * X64_WORD_SIZE),
        asm_x64_pop_r64 ASM_X64_REG_R13, asm_x64_pop_r64 ASM_X64_REG_R12,
        asm_x64_pop_r64 ASM_X64_REG_RBX, asm_x64_pop_r64 ASM_X64_REG_RBP, asm_x64_ret]"

lemma asm_x64_exit_seq: "asm_x64_exit s = x64_exit_seq (num_locals s) s"
  by (simp add: asm_x64_exit_def x64_exit_seq_def)

lemma x64_exit_seq_plain: "plain x64_lim 16 (x64_exit_seq locals)"
  unfolding x64_exit_seq_def asm_ops
  by (rule plain_weaken, (rule plain_sum x64_plain)+, simp)

lemma x64_exit_ok: "two_pass_ok same_added same_added x64_lim 16 asm_x64_exit"
  by (rule two_pass_readI [where v = num_locals and F = x64_exit_seq])
    (simp_all add: asm_x64_exit_seq same_added_x64 plainD(2) [OF x64_exit_seq_plain])

definition x64_entry_code :: "u32 \<Rightarrow> asm_x64_t asm" where
  "x64_entry_code locals = asm_seq
     [asm_assert (sint locals \<ge> 0),
      asm_x64_push_r64 ASM_X64_REG_RBP, asm_x64_push_r64 ASM_X64_REG_RBX,
      asm_x64_push_r64 ASM_X64_REG_R12, asm_x64_push_r64 ASM_X64_REG_R13,
      asm_x64_sub_r64_i32 ASM_X64_REG_RSP ((locals OR 1) * X64_WORD_SIZE)]"

lemma x64_entry_code_plain: "plain x64_lim 15 (x64_entry_code locals)"
  unfolding x64_entry_code_def asm_ops
  by (rule plain_weaken, (rule plain_sum x64_plain)+, simp)

lemma asm_x64_entry_seq:
  "asm_x64_entry locals = asm_seq [x64_entry_code locals, \<lambda>s. Inr (s\<lparr>num_locals := locals OR 1\<rparr>)]"
  by (simp add: fun_eq_iff asm_x64_entry_def x64_entry_code_def Let_def split: sum.split)

lemma x64_entry_ok: "two_pass_ok (\<lambda>_ _. True) same_added x64_lim 15 (asm_x64_entry locals)"
  unfolding asm_x64_entry_seq
proof (rule two_pass_two)
  show "two_pass_ok (\<lambda>_ _. True) (\<lambda>_ _. True) x64_lim 15 (x64_entry_code locals)"
    by (rule plainD(2) [OF x64_entry_code_plain]) (simp add: added_rel_def)
  show "two_pass_ok (\<lambda>_ _. True) same_added x64_lim 0 (\<lambda>s :: asm_x64_t. Inr (s\<lparr>num_locals := locals OR 1\<rparr>))"
    by (rule two_pass_update) (simp_all add: same_added_x64)
qed simp

lemma x64_entry_exit_quiet:
  "asm_x64_entry locals s = Inl e \<Longrightarrow> \<not> raised e"
  "asm_x64_exit s = Inl e \<Longrightarrow> \<not> raised e"
  using plainD(3) [OF x64_entry_code_plain] plainD(3) [OF x64_exit_seq_plain]
  by (auto simp: asm_x64_entry_seq asm_x64_exit_seq split: sum.splits)

section \<open>Whole programs\<close>

fun x64_is_entry :: "x64_op \<Rightarrow> bool" where
  "x64_is_entry (X64_API op) = is_ASM_ENTRY op"
| "x64_is_entry _ = False"

fun x64_allowed :: "x64_op \<Rightarrow> bool" where
  "x64_allowed (X64_API op) = base_allowed op"
| "x64_allowed _ = True"

fun x64_cost :: "x64_op \<Rightarrow> nat" where
  "x64_cost (X64_API op) = base_cost 16 op"
| "x64_cost _ = 16"

lemma asm_x64_end_pass_skip: "asm_x64_end_pass = skip"
  by (simp add: asm_x64_end_pass_def fun_eq_iff)

lemma x64_jump_if_plain:
  "plain x64_lim 16 (asm_seq [x64_test b reg, asm_x64_jcc_label jcc_type label])"
  "plain x64_lim 16 (asm_seq [asm_x64_generic_r64_r64 r1 r2 op, asm_x64_jcc_label jcc_type label])"
  unfolding x64_test_def asm_ops
  by (rule plain_weaken, (rule plain_sum x64_plain x64_jump_plain)+, simp)+

lemma x64_api_plain:
  assumes "\<not> is_ASM_ENTRY op" "op \<noteq> ASM_EXIT" "base_allowed op"
  shows "plain x64_lim (base_cost 16 op) (x64_api op)"
proof -
  note w = plain_weaken [where m = 16]
  show ?thesis
    using assms
    by (cases op)
      (simp_all add: asm_ops x64_plain [THEN w] x64_mem_plain [THEN w] x64_jump_plain [THEN w] x64_jump_if_plain
        x64_misc_plain [THEN w] plain_base plain_skip asm_x64_end_pass_skip
        del: asm_seq.simps base_allowed.simps split del: if_split)
qed

lemma x64_exec_plain:
  assumes "\<not> x64_is_entry op" "op \<noteq> X64_API ASM_EXIT" "x64_allowed op"
  shows "plain x64_lim (x64_cost op) (x64_exec op)"
  using assms x64_api_plain x64_plain [THEN plain_weaken, where m = 16] x64_mem_plain [THEN plain_weaken, where m = 16]
  by (cases op) (simp_all add: asm_ops del: asm_seq.simps)

lemma x64_exec_quiet:
  assumes "x64_allowed op" "x64_exec op s = Inl e"
  shows "\<not> raised e"
proof (cases "x64_is_entry op \<or> op = X64_API ASM_EXIT")
  case True
  then show ?thesis
    using assms(2) x64_entry_exit_quiet by (cases op rule: x64_is_entry.cases; auto elim!: is_ASM_ENTRY.elims)
next
  case False
  then show ?thesis using plainD(3) [OF x64_exec_plain] assms by blast
qed

interpretation x64: plain_assembler x64_exec x64_cost x64_is_entry x64_allowed same_added x64_lim
proof unfold_locales
  fix op
  assume op: "x64_allowed op"
  show "two_pass_ok (\<lambda>_ _. True) same_added x64_lim (x64_cost op) (x64_exec op)" if "x64_is_entry op"
    using that two_pass_weaken [OF x64_entry_ok, where m = 16]
    by (cases op rule: x64_is_entry.cases) (auto elim!: is_ASM_ENTRY.elims)
  show "two_pass_ok same_added same_added x64_lim (x64_cost op) (x64_exec op)" if "\<not> x64_is_entry op"
    using that op plainD(2) [OF x64_exec_plain] x64_exit_ok by (cases "op = X64_API ASM_EXIT") auto
  show "\<not> raised e" if "x64_exec op s = Inl e" for s e
    using that op x64_exec_quiet by blast
qed (simp_all add: added_rel_def)

text \<open>
  C31: A function (an entry followed by any operations of the x86-64 assembler) whose compute
  pass succeeds is assembled by the emit pass without a failed assertion, an exception or a
  store outside the buffer, into exactly the size and with the label offsets of the compute
  pass.
\<close>

theorem x64_assembles:
  assumes "\<forall>op \<in> set body. \<not> x64_is_entry op \<and> x64_allowed op"
    and "run_pass alloc x64_exec (X64_API (ASM_ENTRY locals) # body) MP_ASM_PASS_COMPUTE s = Inr c"
    and "sum_list (map x64_cost (X64_API (ASM_ENTRY locals) # body)) \<le> x64_lim"
    and "alloc_gives alloc (code_offset c)"
  shows "\<exists>e. run_pass alloc x64_exec (X64_API (ASM_ENTRY locals) # body) MP_ASM_PASS_EMIT c = Inr e \<and>
    code_offset e = code_offset c \<and> label_offsets e = label_offsets c \<and> code_offset e \<le> code_size e"
  by (rule x64.assembles [OF _ _ _ assms(2-4)]) (use assms(1) in simp_all)

definition x64_demo_state :: asm_x64_t where
  "x64_demo_state = \<lparr>pass = 0, suppress = False, code_offset = 0, code_size = 0,
     code_base = None, max_num_labels = 2, label_offsets = [0, 0], num_locals = 0\<rparr>"

definition x64_demo_body :: "x64_op list" where
  "x64_demo_body = map X64_API
     [Base_label_assign 0, ASM_MOV_REG_IMM 3 0x123456789, ASM_CALL_IND 60, ASM_JUMP_IF_REG_ZERO 0 1 True, ASM_JUMP 0,
      Base_label_assign 1, ASM_MOV_LOCAL_REG 255 12, ASM_EXIT]"

abbreviation x64_demo_pass :: "int \<Rightarrow> asm_x64_t asm" where
  "x64_demo_pass \<equiv> run_pass exact_alloc x64_exec (X64_API (ASM_ENTRY 300) # x64_demo_body)"

lemma x64_demo_computes:
  "case x64_demo_pass MP_ASM_PASS_COMPUTE x64_demo_state of Inl e \<Rightarrow> False | Inr c \<Rightarrow> code_offset c = 64"
  by code_simp

theorem x64_assembles_witness:
  "\<exists>c e. x64_demo_pass MP_ASM_PASS_COMPUTE x64_demo_state = Inr c \<and>
     x64_demo_pass MP_ASM_PASS_EMIT c = Inr e \<and> code_offset c = 64 \<and> code_offset e = 64"
proof -
  obtain c where c: "x64_demo_pass MP_ASM_PASS_COMPUTE x64_demo_state = Inr c" "code_offset c = 64"
    using x64_demo_computes by (auto split: sum.splits)
  have "\<forall>op \<in> set x64_demo_body. \<not> x64_is_entry op \<and> x64_allowed op"
    "sum_list (map x64_cost (X64_API (ASM_ENTRY 300) # x64_demo_body)) \<le> x64_lim"
    by (simp_all add: x64_demo_body_def)
  then show ?thesis using x64_assembles [OF _ c(1)] c by auto
qed

end
