(* ===== verification/Asm_Xtensa.thy ===== *)
theory Asm_Xtensa
  imports Plain_Ops
begin

text \<open>
  The assembler for Xtensa, \<open>src/bank/uPython-ASM/asmxtensa.c\<close> and \<open>asmxtensa.h\<close>: encodings
  and raw instructions, function entry and exit with the table of constants, for plain and for
  windowed calls, branches with their range checks, immediates, locals, loads and stores and
  calls, and the instructions of the inline assembler. Names without a prefix in the source
  carry the prefix \<open>xtensa\<close> or \<open>XTENSA\<close>. \<open>size_t\<close>, \<open>ptrdiff_t\<close> and C \<open>int\<close> are 32-bit words
  here, as on the targets; arithmetic on them wraps.
\<close>

section \<open>Registers, conditions and encodings\<close>

definition ASM_XTENSA_REG_A0 :: u32 where [asm_consts]: "ASM_XTENSA_REG_A0 = 0"
definition ASM_XTENSA_REG_A1 :: u32 where [asm_consts]: "ASM_XTENSA_REG_A1 = 1"
definition ASM_XTENSA_REG_A2 :: u32 where [asm_consts]: "ASM_XTENSA_REG_A2 = 2"
definition ASM_XTENSA_REG_A3 :: u32 where [asm_consts]: "ASM_XTENSA_REG_A3 = 3"
definition ASM_XTENSA_REG_A4 :: u32 where [asm_consts]: "ASM_XTENSA_REG_A4 = 4"
definition ASM_XTENSA_REG_A5 :: u32 where [asm_consts]: "ASM_XTENSA_REG_A5 = 5"
definition ASM_XTENSA_REG_A6 :: u32 where [asm_consts]: "ASM_XTENSA_REG_A6 = 6"
definition ASM_XTENSA_REG_A7 :: u32 where [asm_consts]: "ASM_XTENSA_REG_A7 = 7"
definition ASM_XTENSA_REG_A8 :: u32 where [asm_consts]: "ASM_XTENSA_REG_A8 = 8"
definition ASM_XTENSA_REG_A9 :: u32 where [asm_consts]: "ASM_XTENSA_REG_A9 = 9"
definition ASM_XTENSA_REG_A10 :: u32 where [asm_consts]: "ASM_XTENSA_REG_A10 = 10"
definition ASM_XTENSA_REG_A11 :: u32 where [asm_consts]: "ASM_XTENSA_REG_A11 = 11"
definition ASM_XTENSA_REG_A12 :: u32 where [asm_consts]: "ASM_XTENSA_REG_A12 = 12"
definition ASM_XTENSA_REG_A13 :: u32 where [asm_consts]: "ASM_XTENSA_REG_A13 = 13"
definition ASM_XTENSA_REG_A14 :: u32 where [asm_consts]: "ASM_XTENSA_REG_A14 = 14"
definition ASM_XTENSA_REG_A15 :: u32 where [asm_consts]: "ASM_XTENSA_REG_A15 = 15"
definition ASM_XTENSA_CCZ_EQ :: u32 where [asm_consts]: "ASM_XTENSA_CCZ_EQ = 0"
definition ASM_XTENSA_CCZ_NE :: u32 where [asm_consts]: "ASM_XTENSA_CCZ_NE = 1"
definition ASM_XTENSA_CCZ_LT :: u32 where [asm_consts]: "ASM_XTENSA_CCZ_LT = 2"
definition ASM_XTENSA_CCZ_GE :: u32 where [asm_consts]: "ASM_XTENSA_CCZ_GE = 3"
definition ASM_XTENSA_CC_NONE :: u32 where [asm_consts]: "ASM_XTENSA_CC_NONE = 0"
definition ASM_XTENSA_CC_EQ :: u32 where [asm_consts]: "ASM_XTENSA_CC_EQ = 1"
definition ASM_XTENSA_CC_LT :: u32 where [asm_consts]: "ASM_XTENSA_CC_LT = 2"
definition ASM_XTENSA_CC_LTU :: u32 where [asm_consts]: "ASM_XTENSA_CC_LTU = 3"
definition ASM_XTENSA_CC_ALL :: u32 where [asm_consts]: "ASM_XTENSA_CC_ALL = 4"
definition ASM_XTENSA_CC_BC :: u32 where [asm_consts]: "ASM_XTENSA_CC_BC = 5"
definition ASM_XTENSA_CC_ANY :: u32 where [asm_consts]: "ASM_XTENSA_CC_ANY = 8"
definition ASM_XTENSA_CC_NE :: u32 where [asm_consts]: "ASM_XTENSA_CC_NE = 9"
definition ASM_XTENSA_CC_GE :: u32 where [asm_consts]: "ASM_XTENSA_CC_GE = 10"
definition ASM_XTENSA_CC_GEU :: u32 where [asm_consts]: "ASM_XTENSA_CC_GEU = 11"
definition ASM_XTENSA_CC_NALL :: u32 where [asm_consts]: "ASM_XTENSA_CC_NALL = 12"
definition ASM_XTENSA_CC_BS :: u32 where [asm_consts]: "ASM_XTENSA_CC_BS = 13"
definition ASM_XTENSA_NUM_REGS_SAVED :: u32 where [asm_consts]: "ASM_XTENSA_NUM_REGS_SAVED = 5"
definition ASM_XTENSA_NUM_REGS_SAVED_WIN :: u32 where [asm_consts]: "ASM_XTENSA_NUM_REGS_SAVED_WIN = 1"
definition ASM_XTENSA_REG_FUN_TABLE :: u32 where [asm_consts]: "ASM_XTENSA_REG_FUN_TABLE = ASM_XTENSA_REG_A15"
definition ASM_XTENSA_REG_FUN_TABLE_WIN :: u32 where [asm_consts]: "ASM_XTENSA_REG_FUN_TABLE_WIN = ASM_XTENSA_REG_A7"
definition ASM_XTENSA_REG_TEMPORARY :: u32 where [asm_consts]: "ASM_XTENSA_REG_TEMPORARY = ASM_XTENSA_REG_A6"
definition ASM_XTENSA_REG_TEMPORARY_WIN :: u32 where [asm_consts]: "ASM_XTENSA_REG_TEMPORARY_WIN = ASM_XTENSA_REG_A12"
definition XTENSA_WORD_SIZE :: u32 where [asm_consts]: "XTENSA_WORD_SIZE = 4"

definition XTENSA_SIGNED_FIT6 :: "u32 \<Rightarrow> bool" where
  "XTENSA_SIGNED_FIT6 x \<longleftrightarrow> x AND 0xffffffe0 = 0 \<or> x AND 0xffffffe0 = 0xffffffe0"

definition XTENSA_SIGNED_FIT8 :: "u32 \<Rightarrow> bool" where
  "XTENSA_SIGNED_FIT8 x \<longleftrightarrow> x AND 0xffffff80 = 0 \<or> x AND 0xffffff80 = 0xffffff80"

definition XTENSA_SIGNED_FIT12 :: "u32 \<Rightarrow> bool" where
  "XTENSA_SIGNED_FIT12 x \<longleftrightarrow> x AND 0xfffff800 = 0 \<or> x AND 0xfffff800 = 0xfffff800"

definition XTENSA_SIGNED_FIT18 :: "u32 \<Rightarrow> bool" where
  "XTENSA_SIGNED_FIT18 x \<longleftrightarrow> x AND 0xfffe0000 = 0 \<or> x AND 0xfffe0000 = 0xfffe0000"

definition ASM_XTENSA_ENCODE_RRR :: "u32 \<Rightarrow> u32 \<Rightarrow> u32 \<Rightarrow> u32 \<Rightarrow> u32 \<Rightarrow> u32 \<Rightarrow> u32" where
  [asm_encodes]: "ASM_XTENSA_ENCODE_RRR op0 op1 op2 r s t =
     push_bit 20 op2 OR push_bit 16 op1 OR push_bit 12 r OR push_bit 8 s OR push_bit 4 t OR op0"

definition ASM_XTENSA_ENCODE_RRI4 :: "u32 \<Rightarrow> u32 \<Rightarrow> u32 \<Rightarrow> u32 \<Rightarrow> u32 \<Rightarrow> u32 \<Rightarrow> u32" where
  [asm_encodes]: "ASM_XTENSA_ENCODE_RRI4 op0 op1 r s t imm4 =
     push_bit 20 imm4 OR push_bit 16 op1 OR push_bit 12 r OR push_bit 8 s OR push_bit 4 t OR op0"

definition ASM_XTENSA_ENCODE_RRI8 :: "u32 \<Rightarrow> u32 \<Rightarrow> u32 \<Rightarrow> u32 \<Rightarrow> u32 \<Rightarrow> u32" where
  [asm_encodes]: "ASM_XTENSA_ENCODE_RRI8 op0 r s t imm8 =
     push_bit 16 imm8 OR push_bit 12 r OR push_bit 8 s OR push_bit 4 t OR op0"

definition ASM_XTENSA_ENCODE_RI16 :: "u32 \<Rightarrow> u32 \<Rightarrow> u32 \<Rightarrow> u32" where
  [asm_encodes]: "ASM_XTENSA_ENCODE_RI16 op0 t imm16 =
     push_bit 8 imm16 OR push_bit 4 t OR op0"

definition ASM_XTENSA_ENCODE_RSR :: "u32 \<Rightarrow> u32 \<Rightarrow> u32 \<Rightarrow> u32 \<Rightarrow> u32 \<Rightarrow> u32" where
  [asm_encodes]: "ASM_XTENSA_ENCODE_RSR op0 op1 op2 rs t =
     push_bit 20 op2 OR push_bit 16 op1 OR push_bit 8 rs OR push_bit 4 t OR op0"

definition ASM_XTENSA_ENCODE_CALL :: "u32 \<Rightarrow> u32 \<Rightarrow> u32 \<Rightarrow> u32" where
  [asm_encodes]: "ASM_XTENSA_ENCODE_CALL op0 n offset =
     push_bit 6 offset OR push_bit 4 n OR op0"

definition ASM_XTENSA_ENCODE_CALLX :: "u32 \<Rightarrow> u32 \<Rightarrow> u32 \<Rightarrow> u32 \<Rightarrow> u32 \<Rightarrow> u32 \<Rightarrow> u32 \<Rightarrow> u32" where
  [asm_encodes]: "ASM_XTENSA_ENCODE_CALLX op0 op1 op2 r s m n =
     push_bit 20 op2 OR push_bit 16 op1 OR push_bit 12 r OR push_bit 8 s OR push_bit 6 m OR push_bit 4 n OR op0"

definition ASM_XTENSA_ENCODE_BRI8 :: "u32 \<Rightarrow> u32 \<Rightarrow> u32 \<Rightarrow> u32 \<Rightarrow> u32 \<Rightarrow> u32 \<Rightarrow> u32" where
  [asm_encodes]: "ASM_XTENSA_ENCODE_BRI8 op0 r s m n imm8 =
     push_bit 16 imm8 OR push_bit 12 r OR push_bit 8 s OR push_bit 6 m OR push_bit 4 n OR op0"

definition ASM_XTENSA_ENCODE_BRI12 :: "u32 \<Rightarrow> u32 \<Rightarrow> u32 \<Rightarrow> u32 \<Rightarrow> u32 \<Rightarrow> u32" where
  [asm_encodes]: "ASM_XTENSA_ENCODE_BRI12 op0 s m n imm12 =
     push_bit 12 imm12 OR push_bit 8 s OR push_bit 6 m OR push_bit 4 n OR op0"

definition ASM_XTENSA_ENCODE_RRRN :: "u32 \<Rightarrow> u32 \<Rightarrow> u32 \<Rightarrow> u32 \<Rightarrow> u32" where
  [asm_encodes]: "ASM_XTENSA_ENCODE_RRRN op0 r s t =
     push_bit 12 r OR push_bit 8 s OR push_bit 4 t OR op0"

definition ASM_XTENSA_ENCODE_RI7 :: "u32 \<Rightarrow> u32 \<Rightarrow> u32 \<Rightarrow> u32" where
  [asm_encodes]: "ASM_XTENSA_ENCODE_RI7 op0 s imm7 =
     push_bit 12 (imm7 AND 0xf) OR push_bit 8 s OR (imm7 AND 0x70) OR op0"

section \<open>State and writers\<close>

text \<open>\<open>const_table\<close> is a pointer into the code block or NULL; it is held as an offset in the block.\<close>

record asm_xtensa_t = "32 mp_asm_base_t" +
  cur_const :: u32
  num_const :: u32
  const_table :: "u32 option"
  stack_adjust :: u32

text \<open>
  The configuration: whether \<open>asmxtensa.c\<close> and the header are compiled for windowed calls, and
  the address of the block that holds the code.
\<close>

record xtensa_env = mp_env +
  N_XTENSAWIN :: bool
  GENERIC_ASM_API_WIN :: bool
  code_base_address :: u32

definition XTENSA_REG_TEMP :: "xtensa_env \<Rightarrow> u32" where
  "XTENSA_REG_TEMP env = (if N_XTENSAWIN env then ASM_XTENSA_REG_TEMPORARY_WIN else ASM_XTENSA_REG_TEMPORARY)"

definition xtensa_op16_bytes :: "u32 \<Rightarrow> u8 list" where
  "xtensa_op16_bytes op = [ucast op, ucast (drop_bit 8 (op AND 0xffff))]"

definition asm_xtensa_op16 :: "u32 \<Rightarrow> asm_xtensa_t asm" where
  "asm_xtensa_op16 op = emit_bytes (xtensa_op16_bytes op)"

definition xtensa_op24_bytes :: "u32 \<Rightarrow> u8 list" where
  "xtensa_op24_bytes op = [ucast op, ucast (drop_bit 8 op), ucast (drop_bit 16 op)]"

definition asm_xtensa_op24 :: "u32 \<Rightarrow> asm_xtensa_t asm" where
  "asm_xtensa_op24 op = emit_bytes (xtensa_op24_bytes op)"

text \<open>Bytes that are reserved and not written.\<close>

definition reserve_bytes :: "u32 \<Rightarrow> asm_xtensa_t asm" where
  "reserve_bytes n = ignore_result (mp_asm_base_get_cur_to_write_bytes n)"

section \<open>Raw instructions\<close>

text \<open>C division of an \<open>int32_t\<close>, which rounds towards zero.\<close>

definition int32_div :: "u32 \<Rightarrow> int \<Rightarrow> u32" where
  "int32_div x d = word_of_int (if sint x < 0 then - (- sint x div d) else sint x div d)"

definition asm_xtensa_op_entry :: "u32 \<Rightarrow> u32 \<Rightarrow> asm_xtensa_t asm" where
  [asm_ops]: "asm_xtensa_op_entry reg_src num_bytes =
     asm_xtensa_op24 (ASM_XTENSA_ENCODE_BRI12 6 reg_src 0 3 (int32_div num_bytes 8 AND 0xfff))"

definition asm_xtensa_op_add_n :: "u32 \<Rightarrow> u32 \<Rightarrow> u32 \<Rightarrow> asm_xtensa_t asm" where
  [asm_ops]: "asm_xtensa_op_add_n reg_dest reg_src_a reg_src_b =
     asm_xtensa_op16 (ASM_XTENSA_ENCODE_RRRN 10 reg_dest reg_src_a reg_src_b)"

definition asm_xtensa_op_addi :: "u32 \<Rightarrow> u32 \<Rightarrow> u32 \<Rightarrow> asm_xtensa_t asm" where
  [asm_ops]: "asm_xtensa_op_addi reg_dest reg_src imm8 =
     asm_xtensa_op24 (ASM_XTENSA_ENCODE_RRI8 2 12 reg_src reg_dest (imm8 AND 0xff))"

definition asm_xtensa_op_addx2 :: "u32 \<Rightarrow> u32 \<Rightarrow> u32 \<Rightarrow> asm_xtensa_t asm" where
  [asm_ops]: "asm_xtensa_op_addx2 reg_dest reg_src_a reg_src_b =
     asm_xtensa_op24 (ASM_XTENSA_ENCODE_RRR 0 0 9 reg_dest reg_src_a reg_src_b)"

definition asm_xtensa_op_addx4 :: "u32 \<Rightarrow> u32 \<Rightarrow> u32 \<Rightarrow> asm_xtensa_t asm" where
  [asm_ops]: "asm_xtensa_op_addx4 reg_dest reg_src_a reg_src_b =
     asm_xtensa_op24 (ASM_XTENSA_ENCODE_RRR 0 0 10 reg_dest reg_src_a reg_src_b)"

definition asm_xtensa_op_and :: "u32 \<Rightarrow> u32 \<Rightarrow> u32 \<Rightarrow> asm_xtensa_t asm" where
  [asm_ops]: "asm_xtensa_op_and reg_dest reg_src_a reg_src_b =
     asm_xtensa_op24 (ASM_XTENSA_ENCODE_RRR 0 0 1 reg_dest reg_src_a reg_src_b)"

definition asm_xtensa_op_bcc :: "u32 \<Rightarrow> u32 \<Rightarrow> u32 \<Rightarrow> u32 \<Rightarrow> asm_xtensa_t asm" where
  [asm_ops]: "asm_xtensa_op_bcc cond reg_src1 reg_src2 rel8 =
     asm_xtensa_op24 (ASM_XTENSA_ENCODE_RRI8 7 cond reg_src1 reg_src2 (rel8 AND 0xff))"

definition asm_xtensa_op_bccz :: "u32 \<Rightarrow> u32 \<Rightarrow> u32 \<Rightarrow> asm_xtensa_t asm" where
  [asm_ops]: "asm_xtensa_op_bccz cond reg_src rel12 =
     asm_xtensa_op24 (ASM_XTENSA_ENCODE_BRI12 6 reg_src cond 1 (rel12 AND 0xfff))"

definition asm_xtensa_op_call0 :: "u32 \<Rightarrow> asm_xtensa_t asm" where
  [asm_ops]: "asm_xtensa_op_call0 rel18 =
     asm_xtensa_op24 (ASM_XTENSA_ENCODE_CALL 5 0 (rel18 AND 0x3ffff))"

definition asm_xtensa_op_callx0 :: "u32 \<Rightarrow> asm_xtensa_t asm" where
  [asm_ops]: "asm_xtensa_op_callx0 reg =
     asm_xtensa_op24 (ASM_XTENSA_ENCODE_CALLX 0 0 0 0 reg 3 0)"

definition asm_xtensa_op_callx8 :: "u32 \<Rightarrow> asm_xtensa_t asm" where
  [asm_ops]: "asm_xtensa_op_callx8 reg =
     asm_xtensa_op24 (ASM_XTENSA_ENCODE_CALLX 0 0 0 0 reg 3 2)"

definition asm_xtensa_op_j :: "u32 \<Rightarrow> asm_xtensa_t asm" where
  [asm_ops]: "asm_xtensa_op_j rel18 =
     asm_xtensa_op24 (ASM_XTENSA_ENCODE_CALL 6 0 (rel18 AND 0x3ffff))"

definition asm_xtensa_op_jx :: "u32 \<Rightarrow> asm_xtensa_t asm" where
  [asm_ops]: "asm_xtensa_op_jx reg =
     asm_xtensa_op24 (ASM_XTENSA_ENCODE_CALLX 0 0 0 0 reg 2 2)"

definition asm_xtensa_op_l8ui :: "u32 \<Rightarrow> u32 \<Rightarrow> u32 \<Rightarrow> asm_xtensa_t asm" where
  [asm_ops]: "asm_xtensa_op_l8ui reg_dest reg_base byte_offset =
     asm_xtensa_op24 (ASM_XTENSA_ENCODE_RRI8 2 0 reg_base reg_dest (byte_offset AND 0xff))"

definition asm_xtensa_op_l16ui :: "u32 \<Rightarrow> u32 \<Rightarrow> u32 \<Rightarrow> asm_xtensa_t asm" where
  [asm_ops]: "asm_xtensa_op_l16ui reg_dest reg_base half_word_offset =
     asm_xtensa_op24 (ASM_XTENSA_ENCODE_RRI8 2 1 reg_base reg_dest (half_word_offset AND 0xff))"

definition asm_xtensa_op_l32i :: "u32 \<Rightarrow> u32 \<Rightarrow> u32 \<Rightarrow> asm_xtensa_t asm" where
  [asm_ops]: "asm_xtensa_op_l32i reg_dest reg_base word_offset =
     asm_xtensa_op24 (ASM_XTENSA_ENCODE_RRI8 2 2 reg_base reg_dest (word_offset AND 0xff))"

definition asm_xtensa_op_l32i_n :: "u32 \<Rightarrow> u32 \<Rightarrow> u32 \<Rightarrow> asm_xtensa_t asm" where
  [asm_ops]: "asm_xtensa_op_l32i_n reg_dest reg_base word_offset =
     asm_xtensa_op16 (ASM_XTENSA_ENCODE_RRRN 8 (word_offset AND 0xf) reg_base reg_dest)"

definition asm_xtensa_op_l32r :: "u32 \<Rightarrow> u32 \<Rightarrow> u32 \<Rightarrow> asm_xtensa_t asm" where
  [asm_ops]: "asm_xtensa_op_l32r reg_dest op_off dest_off =
     asm_xtensa_op24 (ASM_XTENSA_ENCODE_RI16 1 reg_dest (drop_bit 2 (dest_off - ((op_off + 3) AND NOT 3)) AND 0xffff))"

definition asm_xtensa_op_mov_n :: "u32 \<Rightarrow> u32 \<Rightarrow> asm_xtensa_t asm" where
  [asm_ops]: "asm_xtensa_op_mov_n reg_dest reg_src =
     asm_xtensa_op16 (ASM_XTENSA_ENCODE_RRRN 13 0 reg_src reg_dest)"

definition asm_xtensa_op_movi :: "u32 \<Rightarrow> u32 \<Rightarrow> asm_xtensa_t asm" where
  [asm_ops]: "asm_xtensa_op_movi reg_dest imm12 =
     asm_xtensa_op24 (ASM_XTENSA_ENCODE_RRI8 2 10 (signed_drop_bit 8 imm12 AND 0xf) reg_dest (imm12 AND 0xff))"

definition asm_xtensa_op_movi_n :: "u32 \<Rightarrow> u32 \<Rightarrow> asm_xtensa_t asm" where
  [asm_ops]: "asm_xtensa_op_movi_n reg_dest imm7 =
     asm_xtensa_op16 (ASM_XTENSA_ENCODE_RI7 12 reg_dest imm7)"

definition asm_xtensa_op_mull :: "u32 \<Rightarrow> u32 \<Rightarrow> u32 \<Rightarrow> asm_xtensa_t asm" where
  [asm_ops]: "asm_xtensa_op_mull reg_dest reg_src_a reg_src_b =
     asm_xtensa_op24 (ASM_XTENSA_ENCODE_RRR 0 2 8 reg_dest reg_src_a reg_src_b)"

definition asm_xtensa_op_neg :: "u32 \<Rightarrow> u32 \<Rightarrow> asm_xtensa_t asm" where
  [asm_ops]: "asm_xtensa_op_neg reg_dest reg_src =
     asm_xtensa_op24 (ASM_XTENSA_ENCODE_RRR 0 0 6 reg_dest 0 reg_src)"

definition asm_xtensa_op_or :: "u32 \<Rightarrow> u32 \<Rightarrow> u32 \<Rightarrow> asm_xtensa_t asm" where
  [asm_ops]: "asm_xtensa_op_or reg_dest reg_src_a reg_src_b =
     asm_xtensa_op24 (ASM_XTENSA_ENCODE_RRR 0 0 2 reg_dest reg_src_a reg_src_b)"

definition asm_xtensa_op_ret_n :: "asm_xtensa_t asm" where
  [asm_ops]: "asm_xtensa_op_ret_n =
     asm_xtensa_op16 (ASM_XTENSA_ENCODE_RRRN 13 15 0 0)"

definition asm_xtensa_op_retw_n :: "asm_xtensa_t asm" where
  [asm_ops]: "asm_xtensa_op_retw_n =
     asm_xtensa_op16 (ASM_XTENSA_ENCODE_RRRN 13 15 0 1)"

definition asm_xtensa_op_s8i :: "u32 \<Rightarrow> u32 \<Rightarrow> u32 \<Rightarrow> asm_xtensa_t asm" where
  [asm_ops]: "asm_xtensa_op_s8i reg_src reg_base byte_offset =
     asm_xtensa_op24 (ASM_XTENSA_ENCODE_RRI8 2 4 reg_base reg_src (byte_offset AND 0xff))"

definition asm_xtensa_op_s16i :: "u32 \<Rightarrow> u32 \<Rightarrow> u32 \<Rightarrow> asm_xtensa_t asm" where
  [asm_ops]: "asm_xtensa_op_s16i reg_src reg_base half_word_offset =
     asm_xtensa_op24 (ASM_XTENSA_ENCODE_RRI8 2 5 reg_base reg_src (half_word_offset AND 0xff))"

definition asm_xtensa_op_s32i :: "u32 \<Rightarrow> u32 \<Rightarrow> u32 \<Rightarrow> asm_xtensa_t asm" where
  [asm_ops]: "asm_xtensa_op_s32i reg_src reg_base word_offset =
     asm_xtensa_op24 (ASM_XTENSA_ENCODE_RRI8 2 6 reg_base reg_src (word_offset AND 0xff))"

definition asm_xtensa_op_s32i_n :: "u32 \<Rightarrow> u32 \<Rightarrow> u32 \<Rightarrow> asm_xtensa_t asm" where
  [asm_ops]: "asm_xtensa_op_s32i_n reg_src reg_base word_offset =
     asm_xtensa_op16 (ASM_XTENSA_ENCODE_RRRN 9 (word_offset AND 0xf) reg_base reg_src)"

definition asm_xtensa_op_sll :: "u32 \<Rightarrow> u32 \<Rightarrow> asm_xtensa_t asm" where
  [asm_ops]: "asm_xtensa_op_sll reg_dest reg_src =
     asm_xtensa_op24 (ASM_XTENSA_ENCODE_RRR 0 1 10 reg_dest reg_src 0)"

definition asm_xtensa_op_srl :: "u32 \<Rightarrow> u32 \<Rightarrow> asm_xtensa_t asm" where
  [asm_ops]: "asm_xtensa_op_srl reg_dest reg_src =
     asm_xtensa_op24 (ASM_XTENSA_ENCODE_RRR 0 1 9 reg_dest 0 reg_src)"

definition asm_xtensa_op_sra :: "u32 \<Rightarrow> u32 \<Rightarrow> asm_xtensa_t asm" where
  [asm_ops]: "asm_xtensa_op_sra reg_dest reg_src =
     asm_xtensa_op24 (ASM_XTENSA_ENCODE_RRR 0 1 11 reg_dest 0 reg_src)"

definition asm_xtensa_op_ssl :: "u32 \<Rightarrow> asm_xtensa_t asm" where
  [asm_ops]: "asm_xtensa_op_ssl reg_src =
     asm_xtensa_op24 (ASM_XTENSA_ENCODE_RRR 0 0 4 1 reg_src 0)"

definition asm_xtensa_op_ssr :: "u32 \<Rightarrow> asm_xtensa_t asm" where
  [asm_ops]: "asm_xtensa_op_ssr reg_src =
     asm_xtensa_op24 (ASM_XTENSA_ENCODE_RRR 0 0 4 0 reg_src 0)"

definition asm_xtensa_op_sub :: "u32 \<Rightarrow> u32 \<Rightarrow> u32 \<Rightarrow> asm_xtensa_t asm" where
  [asm_ops]: "asm_xtensa_op_sub reg_dest reg_src_a reg_src_b =
     asm_xtensa_op24 (ASM_XTENSA_ENCODE_RRR 0 0 12 reg_dest reg_src_a reg_src_b)"

definition asm_xtensa_op_xor :: "u32 \<Rightarrow> u32 \<Rightarrow> u32 \<Rightarrow> asm_xtensa_t asm" where
  [asm_ops]: "asm_xtensa_op_xor reg_dest reg_src_a reg_src_b =
     asm_xtensa_op24 (ASM_XTENSA_ENCODE_RRR 0 0 3 reg_dest reg_src_a reg_src_b)"

section \<open>Entry and exit\<close>

definition asm_xtensa_end_pass :: "asm_xtensa_t asm" where
  "asm_xtensa_end_pass s = Inr (s\<lparr>num_const := cur_const s, cur_const := 0\<rparr>)"

text \<open>
  The table of constants, behind a jump over it: as large as the last pass found necessary.
  Both entry functions begin with this.
\<close>

definition xtensa_entry_consts :: "asm_xtensa_t asm" where
  "xtensa_entry_consts s =
     (if num_const s > 0
      then case asm_seq [asm_xtensa_op_j (num_const s * XTENSA_WORD_SIZE + 4 - 4), reserve_bytes 1] s of
             Inl e \<Rightarrow> Inl e
           | Inr t \<Rightarrow>
               (case mp_asm_base_get_cur_to_write_bytes (num_const t * 4) t of
                  Inl e \<Rightarrow> Inl e
                | Inr (c, u) \<Rightarrow> Inr (u\<lparr>const_table := c\<rparr>))
      else Inr s)"

definition asm_xtensa_entry :: "u32 \<Rightarrow> asm_xtensa_t asm" where
  "asm_xtensa_entry num_locals =
     (let adjust = ((ASM_XTENSA_NUM_REGS_SAVED + num_locals) * XTENSA_WORD_SIZE + 15) AND NOT 15
      in asm_seq
        [xtensa_entry_consts,
         \<lambda>s. Inr (s\<lparr>stack_adjust := adjust\<rparr>),
         if XTENSA_SIGNED_FIT8 (- adjust)
         then asm_xtensa_op_addi ASM_XTENSA_REG_A1 ASM_XTENSA_REG_A1 (- adjust)
         else asm_seq [asm_xtensa_op_movi ASM_XTENSA_REG_A9 adjust,
                       asm_xtensa_op_sub ASM_XTENSA_REG_A1 ASM_XTENSA_REG_A1 ASM_XTENSA_REG_A9],
         asm_xtensa_op_s32i_n ASM_XTENSA_REG_A0 ASM_XTENSA_REG_A1 0,
         asm_seq (map (\<lambda>i. asm_xtensa_op_s32i_n (ASM_XTENSA_REG_A11 + word_of_nat i) ASM_XTENSA_REG_A1 (word_of_nat i))
           [1..<unat ASM_XTENSA_NUM_REGS_SAVED])])"

definition asm_xtensa_exit :: "asm_xtensa_t asm" where
  "asm_xtensa_exit s =
     asm_seq
       [asm_seq (map (\<lambda>i. asm_xtensa_op_l32i_n (ASM_XTENSA_REG_A11 + word_of_nat i) ASM_XTENSA_REG_A1 (word_of_nat i))
          (rev [1..<unat ASM_XTENSA_NUM_REGS_SAVED])),
        asm_xtensa_op_l32i_n ASM_XTENSA_REG_A0 ASM_XTENSA_REG_A1 0,
        if XTENSA_SIGNED_FIT8 (stack_adjust s)
        then asm_xtensa_op_addi ASM_XTENSA_REG_A1 ASM_XTENSA_REG_A1 (stack_adjust s)
        else asm_seq [asm_xtensa_op_movi ASM_XTENSA_REG_A9 (stack_adjust s),
                      asm_xtensa_op_add_n ASM_XTENSA_REG_A1 ASM_XTENSA_REG_A1 ASM_XTENSA_REG_A9],
        asm_xtensa_op_ret_n] s"

definition asm_xtensa_entry_win :: "u32 \<Rightarrow> asm_xtensa_t asm" where
  "asm_xtensa_entry_win num_locals =
     (let adjust = 32 + (((ASM_XTENSA_NUM_REGS_SAVED_WIN + num_locals) * XTENSA_WORD_SIZE + 15) AND NOT 15)
      in asm_seq
        [xtensa_entry_consts,
         \<lambda>s. Inr (s\<lparr>stack_adjust := adjust\<rparr>),
         asm_xtensa_op_entry ASM_XTENSA_REG_A1 adjust,
         asm_xtensa_op_s32i_n ASM_XTENSA_REG_A0 ASM_XTENSA_REG_A1 0])"

definition asm_xtensa_exit_win :: "asm_xtensa_t asm" where
  "asm_xtensa_exit_win = asm_seq [asm_xtensa_op_l32i_n ASM_XTENSA_REG_A0 ASM_XTENSA_REG_A1 0, asm_xtensa_op_retw_n]"

section \<open>Branches\<close>

definition xtensa_get_label_dest :: "u32 \<Rightarrow> asm_xtensa_t \<Rightarrow> asm_error + u32" where
  "xtensa_get_label_dest label s =
     (if \<not> label < max_num_labels s then Inl AssertionFailed else label_offset label s)"

definition asm_xtensa_j_label :: "u32 \<Rightarrow> asm_xtensa_t asm" where
  "asm_xtensa_j_label label s =
     (case xtensa_get_label_dest label s of
        Inl e \<Rightarrow> Inl e
      | Inr dest \<Rightarrow> asm_xtensa_op_j (dest - code_offset s - 4) s)"

text \<open>The displacement, and whether the branch goes backwards to a known label.\<close>

definition calculate_branch_displacement :: "u32 \<Rightarrow> asm_xtensa_t \<Rightarrow> asm_error + (bool \<times> u32)" where
  "calculate_branch_displacement label s =
     (case xtensa_get_label_dest label s of
        Inl e \<Rightarrow> Inl e
      | Inr dest \<Rightarrow>
          let displacement = dest - code_offset s - 4
          in Inr (dest \<noteq> - 1 \<and> sint displacement < 0, displacement))"

definition asm_xtensa_bccz_reg_label :: "u32 \<Rightarrow> u32 \<Rightarrow> u32 \<Rightarrow> asm_xtensa_t asm" where
  "asm_xtensa_bccz_reg_label cond reg label s =
     (case calculate_branch_displacement label s of
        Inl e \<Rightarrow> Inl e
      | Inr (can_emit_short_jump, rel) \<Rightarrow>
          if can_emit_short_jump \<and> XTENSA_SIGNED_FIT12 rel then asm_xtensa_op_bccz cond reg rel s
          else if in_emit_pass s \<and> \<not> XTENSA_SIGNED_FIT18 (rel - 6) then Inl RuntimeError
          else asm_seq [asm_xtensa_op_bccz (cond XOR 1) reg (6 - 4), asm_xtensa_op_j (rel - 3)] s)"

definition asm_xtensa_bcc_reg_reg_label :: "u32 \<Rightarrow> u32 \<Rightarrow> u32 \<Rightarrow> u32 \<Rightarrow> asm_xtensa_t asm" where
  "asm_xtensa_bcc_reg_reg_label cond reg1 reg2 label s =
     (case calculate_branch_displacement label s of
        Inl e \<Rightarrow> Inl e
      | Inr (can_emit_short_jump, rel) \<Rightarrow>
          if can_emit_short_jump \<and> XTENSA_SIGNED_FIT8 rel then asm_xtensa_op_bcc cond reg1 reg2 rel s
          else if in_emit_pass s \<and> \<not> XTENSA_SIGNED_FIT18 (rel - 6) then Inl RuntimeError
          else asm_seq [asm_xtensa_op_bcc (cond XOR 8) reg1 reg2 (6 - 4), asm_xtensa_op_j (rel - 3)] s)"

definition asm_xtensa_setcc_reg_reg_reg :: "u32 \<Rightarrow> u32 \<Rightarrow> u32 \<Rightarrow> u32 \<Rightarrow> asm_xtensa_t asm" where
  "asm_xtensa_setcc_reg_reg_reg cond reg_dest reg_src1 reg_src2 =
     asm_seq [asm_xtensa_op_movi_n reg_dest 1,
              asm_xtensa_op_bcc cond reg_src1 reg_src2 1,
              asm_xtensa_op_movi_n reg_dest 0]"

section \<open>Immediates\<close>

text \<open>
  The distance of the constant table from the start of the block. Before the table exists the
  source subtracts the address of the block from NULL.
\<close>

definition xtensa_const_table_offset :: "xtensa_env \<Rightarrow> asm_xtensa_t \<Rightarrow> u32" where
  "xtensa_const_table_offset env s =
     (case const_table s of
        Some off \<Rightarrow> off
      | None \<Rightarrow> (case code_base s of None \<Rightarrow> 0 | Some _ \<Rightarrow> - code_base_address env))"

definition xtensa_word_bytes :: "xtensa_env \<Rightarrow> u32 \<Rightarrow> u8 list" where
  "xtensa_word_bytes env w = (if MP_ENDIANNESS_LITTLE env then le_bytes 4 w else rev (le_bytes 4 w))"

text \<open>A constant too large for an instruction goes into the table; the result is its place.\<close>

definition asm_xtensa_mov_reg_i32 ::
    "xtensa_env \<Rightarrow> u32 \<Rightarrow> u32 \<Rightarrow> asm_xtensa_t \<Rightarrow> asm_error + (u32 \<times> asm_xtensa_t)" where
  "asm_xtensa_mov_reg_i32 env reg_dest i32 s =
     (let loc = xtensa_const_table_offset env s + cur_const s * XTENSA_WORD_SIZE
      in case asm_xtensa_op_l32r reg_dest (code_offset s) loc s of
           Inl e \<Rightarrow> Inl e
         | Inr t \<Rightarrow>
             (case (case const_table t of
                      Some off \<Rightarrow> mp_store_bytes (off + cur_const t * XTENSA_WORD_SIZE) (xtensa_word_bytes env i32) t
                    | None \<Rightarrow> asm_assert (\<not> in_emit_pass t) t) of
                Inl e \<Rightarrow> Inl e
              | Inr u \<Rightarrow> Inr (loc, u\<lparr>cur_const := cur_const u + 1\<rparr>)))"

definition asm_xtensa_mov_reg_i32_optimised :: "xtensa_env \<Rightarrow> u32 \<Rightarrow> u32 \<Rightarrow> asm_xtensa_t asm" where
  "asm_xtensa_mov_reg_i32_optimised env reg_dest i32 =
     (if - 32 \<le> sint i32 \<and> sint i32 \<le> 95 then asm_xtensa_op_movi_n reg_dest i32
      else if XTENSA_SIGNED_FIT12 i32 then asm_xtensa_op_movi reg_dest i32
      else ignore_result (asm_xtensa_mov_reg_i32 env reg_dest i32))"

section \<open>Locals, loads and stores\<close>

definition asm_xtensa_mov_local_reg :: "u32 \<Rightarrow> u32 \<Rightarrow> asm_xtensa_t asm" where
  [asm_ops]: "asm_xtensa_mov_local_reg local_num reg_src = asm_xtensa_op_s32i reg_src ASM_XTENSA_REG_A1 local_num"

definition asm_xtensa_mov_reg_local :: "u32 \<Rightarrow> u32 \<Rightarrow> asm_xtensa_t asm" where
  [asm_ops]: "asm_xtensa_mov_reg_local reg_dest local_num = asm_xtensa_op_l32i reg_dest ASM_XTENSA_REG_A1 local_num"

definition asm_xtensa_mov_reg_local_addr :: "u32 \<Rightarrow> u32 \<Rightarrow> asm_xtensa_t asm" where
  "asm_xtensa_mov_reg_local_addr reg_dest local_num =
     (let off = local_num * XTENSA_WORD_SIZE
      in if XTENSA_SIGNED_FIT8 off then asm_xtensa_op_addi reg_dest ASM_XTENSA_REG_A1 off
         else asm_seq [asm_xtensa_op_movi reg_dest off,
                       asm_xtensa_op_add_n reg_dest reg_dest ASM_XTENSA_REG_A1])"

text \<open>A call to the next aligned place leaves the program counter in a0.\<close>

definition asm_xtensa_mov_reg_pcrel :: "u32 \<Rightarrow> u32 \<Rightarrow> asm_xtensa_t asm" where
  "asm_xtensa_mov_reg_pcrel reg_dest label s =
     (case xtensa_get_label_dest label s of
        Inl e \<Rightarrow> Inl e
      | Inr dest \<Rightarrow>
          let rel = dest - code_offset s - (3 + 3)
          in asm_seq
            [asm_xtensa_op_movi reg_dest rel,
             \<lambda>t. let off = drop_bit 1 (code_offset t) AND 1; pad = (5 - code_offset t) AND 3
                 in asm_seq [asm_xtensa_op_call0 off, reserve_bytes pad] t,
             asm_xtensa_op_add_n reg_dest reg_dest ASM_XTENSA_REG_A0] s)"

definition asm_xtensa_l32i_optimised :: "xtensa_env \<Rightarrow> u32 \<Rightarrow> u32 \<Rightarrow> u32 \<Rightarrow> asm_xtensa_t asm" where
  "asm_xtensa_l32i_optimised env reg_dest reg_base word_offset =
     (if word_offset < 16 then asm_xtensa_op_l32i_n reg_dest reg_base word_offset
      else if word_offset < 256 then asm_xtensa_op_l32i reg_dest reg_base word_offset
      else asm_seq [asm_xtensa_mov_reg_i32_optimised env reg_dest (word_offset * 4),
                    asm_xtensa_op_add_n reg_dest reg_base reg_dest,
                    asm_xtensa_op_l32i_n reg_dest reg_dest 0])"

definition asm_xtensa_load_reg_reg_offset :: "xtensa_env \<Rightarrow> u32 \<Rightarrow> u32 \<Rightarrow> u32 \<Rightarrow> u32 \<Rightarrow> asm_xtensa_t asm" where
  "asm_xtensa_load_reg_reg_offset env reg_dest reg_base offset operation_size =
     (if \<not> operation_size \<le> 2 then asm_assert False
      else if operation_size = 2 \<and> MP_FIT_UNSIGNED env 4 offset then asm_xtensa_op_l32i_n reg_dest reg_base offset
      else if MP_FIT_UNSIGNED env 8 offset
      then asm_xtensa_op24 (ASM_XTENSA_ENCODE_RRI8 2 operation_size reg_base reg_dest offset)
      else asm_seq
        [asm_xtensa_mov_reg_i32_optimised env reg_dest (push_bit (unat operation_size) offset),
         asm_xtensa_op_add_n reg_dest reg_base reg_dest,
         if operation_size = 2 then asm_xtensa_op_l32i_n reg_dest reg_dest 0
         else asm_xtensa_op24 (ASM_XTENSA_ENCODE_RRI8 2 operation_size reg_dest reg_dest 0)])"

definition asm_xtensa_store_reg_reg_offset :: "xtensa_env \<Rightarrow> u32 \<Rightarrow> u32 \<Rightarrow> u32 \<Rightarrow> u32 \<Rightarrow> asm_xtensa_t asm" where
  "asm_xtensa_store_reg_reg_offset env reg_src reg_base offset operation_size =
     (if \<not> operation_size \<le> 2 then asm_assert False
      else if operation_size = 2 \<and> MP_FIT_UNSIGNED env 4 offset then asm_xtensa_op_s32i_n reg_src reg_base offset
      else if MP_FIT_UNSIGNED env 8 offset
      then asm_xtensa_op24 (ASM_XTENSA_ENCODE_RRI8 2 (0x04 OR operation_size) reg_base reg_src offset)
      else asm_seq
        [asm_xtensa_mov_reg_i32_optimised env (XTENSA_REG_TEMP env) (push_bit (unat operation_size) offset),
         asm_xtensa_op_add_n (XTENSA_REG_TEMP env) reg_base (XTENSA_REG_TEMP env),
         if operation_size = 2 then asm_xtensa_op_s32i_n reg_src (XTENSA_REG_TEMP env) 0
         else asm_xtensa_op24 (ASM_XTENSA_ENCODE_RRI8 2 (0x04 OR operation_size) (XTENSA_REG_TEMP env) reg_src 0)])"

section \<open>Calls and the inline assembler\<close>

definition asm_xtensa_call_ind :: "xtensa_env \<Rightarrow> u32 \<Rightarrow> asm_xtensa_t asm" where
  "asm_xtensa_call_ind env idx =
     asm_seq [asm_xtensa_l32i_optimised env ASM_XTENSA_REG_A0 ASM_XTENSA_REG_FUN_TABLE idx,
              asm_xtensa_op_callx0 ASM_XTENSA_REG_A0]"

definition asm_xtensa_call_ind_win :: "xtensa_env \<Rightarrow> u32 \<Rightarrow> asm_xtensa_t asm" where
  "asm_xtensa_call_ind_win env idx =
     asm_seq [asm_xtensa_l32i_optimised env ASM_XTENSA_REG_A8 ASM_XTENSA_REG_FUN_TABLE_WIN idx,
              asm_xtensa_op_callx8 ASM_XTENSA_REG_A8]"

definition asm_xtensa_bit_branch :: "u32 \<Rightarrow> u32 \<Rightarrow> u32 \<Rightarrow> u32 \<Rightarrow> asm_xtensa_t asm" where
  "asm_xtensa_bit_branch reg bit_number label condition s =
     (case xtensa_get_label_dest label s of
        Inl e \<Rightarrow> Inl e
      | Inr dest \<Rightarrow>
          let rel = dest - code_offset s - 4
          in if in_emit_pass s \<and> \<not> XTENSA_SIGNED_FIT8 rel then Inl RuntimeError
             else asm_xtensa_op24 (ASM_XTENSA_ENCODE_RRI8 7 (condition OR (drop_bit 4 bit_number AND 0x01)) reg
                    (bit_number AND 0x0F) (rel AND 0xFF)) s)"

definition asm_xtensa_call0 :: "u32 \<Rightarrow> asm_xtensa_t asm" where
  "asm_xtensa_call0 label s =
     (case xtensa_get_label_dest label s of
        Inl e \<Rightarrow> Inl e
      | Inr dest \<Rightarrow>
          let rel = dest - code_offset s - 3
          in if in_emit_pass s \<and> (dest AND 0x03 \<noteq> 0 \<or> rel AND 0x03 \<noteq> 0 \<or> \<not> XTENSA_SIGNED_FIT18 rel)
             then Inl RuntimeError
             else asm_xtensa_op_call0 rel s)"

definition asm_xtensa_l32r :: "u32 \<Rightarrow> u32 \<Rightarrow> asm_xtensa_t asm" where
  "asm_xtensa_l32r reg label s =
     (case xtensa_get_label_dest label s of
        Inl e \<Rightarrow> Inl e
      | Inr dest \<Rightarrow>
          let rel = dest - code_offset s
          in if in_emit_pass s \<and>
                 (dest AND 0x03 \<noteq> 0 \<or> rel AND 0x03 \<noteq> 0 \<or> \<not> XTENSA_SIGNED_FIT18 rel \<or> sint rel \<ge> 0)
             then Inl RuntimeError
             else asm_xtensa_op_l32r reg (code_offset s) dest s)"

section \<open>The operations of the header\<close>

text \<open>The macros of \<open>GENERIC_ASM_API\<close>, and the function for comparisons the emitter calls directly.\<close>

datatype xtensa_op =
    Xtensa_API "u32 asm_op"
  | Xtensa_RISC "u32 asm_risc_op"
  | Xtensa_SETCC_REG_REG_REG u32 u32 u32 u32

definition XTENSA_ASM_NUM_REGS_SAVED :: "xtensa_env \<Rightarrow> u32" where
  "XTENSA_ASM_NUM_REGS_SAVED env =
     (if GENERIC_ASM_API_WIN env then ASM_XTENSA_NUM_REGS_SAVED_WIN else ASM_XTENSA_NUM_REGS_SAVED)"

fun xtensa_api :: "xtensa_env \<Rightarrow> u32 asm_op \<Rightarrow> asm_xtensa_t asm" where
  "xtensa_api env (Base_label_assign l) = mp_asm_base_label_assign l"
| "xtensa_api env (Base_align align) = mp_asm_base_align align"
| "xtensa_api env (Base_data bytesize val) = mp_asm_base_data bytesize val"
| "xtensa_api env Base_suppress_code = mp_asm_base_suppress_code"
| "xtensa_api env (ASM_ENTRY nlocal) =
     (if GENERIC_ASM_API_WIN env then asm_xtensa_entry_win nlocal else asm_xtensa_entry nlocal)"
| "xtensa_api env ASM_EXIT = (if GENERIC_ASM_API_WIN env then asm_xtensa_exit_win else asm_xtensa_exit)"
| "xtensa_api env ASM_END_PASS = asm_xtensa_end_pass"
| "xtensa_api env (ASM_CALL_IND idx) =
     (if GENERIC_ASM_API_WIN env then asm_xtensa_call_ind_win env idx else asm_xtensa_call_ind env idx)"
| "xtensa_api env (ASM_JUMP label) = asm_xtensa_j_label label"
| "xtensa_api env (ASM_JUMP_IF_REG_ZERO reg label bool_test) =
     asm_xtensa_bccz_reg_label ASM_XTENSA_CCZ_EQ reg label"
| "xtensa_api env (ASM_JUMP_IF_REG_NONZERO reg label bool_test) =
     asm_xtensa_bccz_reg_label ASM_XTENSA_CCZ_NE reg label"
| "xtensa_api env (ASM_JUMP_IF_REG_EQ reg1 reg2 label) =
     asm_xtensa_bcc_reg_reg_label ASM_XTENSA_CC_EQ reg1 reg2 label"
| "xtensa_api env (ASM_JUMP_REG reg) = asm_xtensa_op_jx reg"
| "xtensa_api env (ASM_MOV_LOCAL_REG local_num reg_src) =
     asm_xtensa_mov_local_reg (XTENSA_ASM_NUM_REGS_SAVED env + local_num) reg_src"
| "xtensa_api env (ASM_MOV_REG_IMM reg_dest imm) = asm_xtensa_mov_reg_i32_optimised env reg_dest imm"
| "xtensa_api env (ASM_MOV_REG_LOCAL reg_dest local_num) =
     asm_xtensa_mov_reg_local reg_dest (XTENSA_ASM_NUM_REGS_SAVED env + local_num)"
| "xtensa_api env (ASM_MOV_REG_REG reg_dest reg_src) = asm_xtensa_op_mov_n reg_dest reg_src"
| "xtensa_api env (ASM_MOV_REG_LOCAL_ADDR reg_dest local_num) =
     asm_xtensa_mov_reg_local_addr reg_dest (XTENSA_ASM_NUM_REGS_SAVED env + local_num)"
| "xtensa_api env (ASM_MOV_REG_PCREL reg_dest label) = asm_xtensa_mov_reg_pcrel reg_dest label"
| "xtensa_api env (ASM_NEG_REG reg_dest) = asm_xtensa_op_neg reg_dest reg_dest"
| "xtensa_api env (ASM_OR_REG_REG reg_dest reg_src) = asm_xtensa_op_or reg_dest reg_dest reg_src"
| "xtensa_api env (ASM_XOR_REG_REG reg_dest reg_src) = asm_xtensa_op_xor reg_dest reg_dest reg_src"
| "xtensa_api env (ASM_AND_REG_REG reg_dest reg_src) = asm_xtensa_op_and reg_dest reg_dest reg_src"
| "xtensa_api env (ASM_ADD_REG_REG reg_dest reg_src) = asm_xtensa_op_add_n reg_dest reg_dest reg_src"
| "xtensa_api env (ASM_SUB_REG_REG reg_dest reg_src) = asm_xtensa_op_sub reg_dest reg_dest reg_src"
| "xtensa_api env (ASM_MUL_REG_REG reg_dest reg_src) = asm_xtensa_op_mull reg_dest reg_dest reg_src"
| "xtensa_api env (ASM_LOAD_REG_REG_OFFSET reg_dest reg_base word_offset) =
     asm_xtensa_load_reg_reg_offset env reg_dest reg_base word_offset 2"
| "xtensa_api env (ASM_LOAD8_REG_REG reg_dest reg_base) =
     asm_xtensa_load_reg_reg_offset env reg_dest reg_base 0 0"
| "xtensa_api env (ASM_LOAD8_REG_REG_OFFSET reg_dest reg_base byte_offset) =
     asm_xtensa_load_reg_reg_offset env reg_dest reg_base byte_offset 0"
| "xtensa_api env (ASM_LOAD16_REG_REG reg_dest reg_base) =
     asm_xtensa_load_reg_reg_offset env reg_dest reg_base 0 1"
| "xtensa_api env (ASM_LOAD16_REG_REG_OFFSET reg_dest reg_base halfword_offset) =
     asm_xtensa_load_reg_reg_offset env reg_dest reg_base halfword_offset 1"
| "xtensa_api env (ASM_LOAD32_REG_REG reg_dest reg_base) =
     asm_xtensa_load_reg_reg_offset env reg_dest reg_base 0 2"
| "xtensa_api env (ASM_LOAD32_REG_REG_OFFSET reg_dest reg_base word_offset) =
     asm_xtensa_load_reg_reg_offset env reg_dest reg_base word_offset 2"
| "xtensa_api env (ASM_STORE_REG_REG_OFFSET reg_dest reg_base word_offset) =
     asm_xtensa_store_reg_reg_offset env reg_dest reg_base word_offset 2"
| "xtensa_api env (ASM_STORE8_REG_REG reg_src reg_base) =
     asm_xtensa_store_reg_reg_offset env reg_src reg_base 0 0"
| "xtensa_api env (ASM_STORE8_REG_REG_OFFSET reg_src reg_base byte_offset) =
     asm_xtensa_store_reg_reg_offset env reg_src reg_base byte_offset 0"
| "xtensa_api env (ASM_STORE16_REG_REG reg_src reg_base) =
     asm_xtensa_store_reg_reg_offset env reg_src reg_base 0 1"
| "xtensa_api env (ASM_STORE16_REG_REG_OFFSET reg_src reg_base halfword_offset) =
     asm_xtensa_store_reg_reg_offset env reg_src reg_base halfword_offset 1"
| "xtensa_api env (ASM_STORE32_REG_REG reg_src reg_base) =
     asm_xtensa_store_reg_reg_offset env reg_src reg_base 0 2"
| "xtensa_api env (ASM_STORE32_REG_REG_OFFSET reg_dest reg_base word_offset) =
     asm_xtensa_store_reg_reg_offset env reg_dest reg_base word_offset 2"
| "xtensa_api env (ASM_CLR_REG reg_dest) = asm_xtensa_op_movi_n reg_dest 0"

fun xtensa_risc :: "u32 asm_risc_op \<Rightarrow> asm_xtensa_t asm" where
  "xtensa_risc (ASM_LSL_REG_REG reg_dest reg_shift) =
     asm_seq [asm_xtensa_op_ssl reg_shift, asm_xtensa_op_sll reg_dest reg_dest]"
| "xtensa_risc (ASM_LSR_REG_REG reg_dest reg_shift) =
     asm_seq [asm_xtensa_op_ssr reg_shift, asm_xtensa_op_srl reg_dest reg_dest]"
| "xtensa_risc (ASM_ASR_REG_REG reg_dest reg_shift) =
     asm_seq [asm_xtensa_op_ssr reg_shift, asm_xtensa_op_sra reg_dest reg_dest]"
| "xtensa_risc (ASM_LOAD8_REG_REG_REG reg_dest reg_base reg_index) =
     asm_seq [asm_xtensa_op_add_n reg_base reg_index reg_base, asm_xtensa_op_l8ui reg_dest reg_base 0]"
| "xtensa_risc (ASM_LOAD16_REG_REG_REG reg_dest reg_base reg_index) =
     asm_seq [asm_xtensa_op_addx2 reg_base reg_index reg_base, asm_xtensa_op_l16ui reg_dest reg_base 0]"
| "xtensa_risc (ASM_LOAD32_REG_REG_REG reg_dest reg_base reg_index) =
     asm_seq [asm_xtensa_op_addx4 reg_base reg_index reg_base, asm_xtensa_op_l32i_n reg_dest reg_base 0]"
| "xtensa_risc (ASM_STORE8_REG_REG_REG reg_val reg_base reg_index) =
     asm_seq [asm_xtensa_op_add_n reg_base reg_index reg_base, asm_xtensa_op_s8i reg_val reg_base 0]"
| "xtensa_risc (ASM_STORE16_REG_REG_REG reg_val reg_base reg_index) =
     asm_seq [asm_xtensa_op_addx2 reg_base reg_index reg_base, asm_xtensa_op_s16i reg_val reg_base 0]"
| "xtensa_risc (ASM_STORE32_REG_REG_REG reg_val reg_base reg_index) =
     asm_seq [asm_xtensa_op_addx4 reg_base reg_index reg_base, asm_xtensa_op_s32i_n reg_val reg_base 0]"

fun xtensa_exec :: "xtensa_env \<Rightarrow> xtensa_op \<Rightarrow> asm_xtensa_t asm" where
  "xtensa_exec env (Xtensa_API op) = xtensa_api env op"
| "xtensa_exec env (Xtensa_RISC op) = xtensa_risc op"
| "xtensa_exec env (Xtensa_SETCC_REG_REG_REG cond reg_dest reg_src1 reg_src2) =
     asm_xtensa_setcc_reg_reg_reg cond reg_dest reg_src1 reg_src2"

end
