(* ===== verification/Asm_Xtensa_Passes.thy ===== *)
theory Asm_Xtensa_Passes
  imports Asm_Xtensa
begin

text \<open>
  How the operations of the Xtensa assembler behave in the two passes. Most of them take the
  same number of bytes in both. Large constants go into a table behind the entry, whose size
  the entry takes from the passes before: \<open>with_table\<close> adds to an operation the check that the
  next constant has a place in it, and \<open>counts\<close> says how many constants an operation adds.
\<close>

section \<open>Straight-line operations\<close>

text \<open>Below this size of the code every jump and every long branch fits its 18-bit field.\<close>

abbreviation xtensa_lim :: nat where
  "xtensa_lim \<equiv> 131000"

lemma length_xtensa_bytes [simp]:
  "length (xtensa_op16_bytes op) = 2" "length (xtensa_op24_bytes op) = 3" "length (xtensa_word_bytes env w) = 4"
  by (simp_all add: xtensa_op16_bytes_def xtensa_op24_bytes_def xtensa_word_bytes_def)

lemma xtensa_op_plain: "plain xtensa_lim 2 (asm_xtensa_op16 op)" "plain xtensa_lim 3 (asm_xtensa_op24 op)"
  using plain_emit [where 'w = 32, of xtensa_lim "xtensa_op16_bytes op"]
    plain_emit [where 'w = 32, of xtensa_lim "xtensa_op24_bytes op"]
  by (simp_all add: asm_xtensa_op16_def asm_xtensa_op24_def)

lemma reserve_keeps: "keeps_added (reserve_bytes n)"
  by (rule keeps_addedI)
    (auto simp: reserve_bytes_def ignore_result_def mp_asm_base_get_cur_to_write_bytes_def split: sum.splits if_splits)

lemma xtensa_reserve_plain:
  assumes "unat n \<le> k"
  shows "plain xtensa_lim k (reserve_bytes n)"
proof -
  have "two_pass_ok R R xtensa_lim k (reserve_bytes n)" if "added_rel R" for R
  proof -
    have "reserve_bytes n = (\<lambda>s. case mp_asm_base_get_cur_to_write_bytes n s of Inl e \<Rightarrow> Inl e | Inr (p, t) \<Rightarrow> Inr t)"
      by (simp add: fun_eq_iff reserve_bytes_def ignore_result_def)
    then show ?thesis
      using two_pass_cursor [of n k xtensa_lim R "\<lambda>_ t. t"] that assms by (simp add: keeps_base_def)
  qed
  then show ?thesis by (simp add: plain_def reserve_keeps)
qed

lemma xtensa_pad_plain: "plain xtensa_lim 1 (reserve_bytes 1)"
  by (rule xtensa_reserve_plain) simp

lemma xtensa_misc_plain:
  "plain xtensa_lim 5 (asm_xtensa_mov_reg_local_addr reg_dest local_num)"
  "plain xtensa_lim 7 (asm_xtensa_setcc_reg_reg_reg cond reg_dest reg_src1 reg_src2)"
  unfolding asm_xtensa_mov_reg_local_addr_def asm_xtensa_setcc_reg_reg_reg_def asm_ops Let_def
  by (rule plain_weaken, (rule plain_sum xtensa_op_plain)+, simp)+

section \<open>Jumps and branches\<close>

abbreviation xtensa_label_jump :: "u32 \<Rightarrow> (u32 \<Rightarrow> u32 \<Rightarrow> u8 list list) \<Rightarrow> asm_xtensa_t asm" where
  "xtensa_label_jump label \<equiv> label_jump (checked_label_offset label) (\<lambda>_ _. False)"

lemma xtensa_get_label_dest_checked: "xtensa_get_label_dest = checked_label_offset"
  by (simp add: fun_eq_iff xtensa_get_label_dest_def checked_label_offset_def)

definition xtensa_j_code :: "u32 \<Rightarrow> u8 list" where
  "xtensa_j_code rel = xtensa_op24_bytes (ASM_XTENSA_ENCODE_CALL 6 0 (rel AND 0x3ffff))"

lemma asm_xtensa_j_label_code:
  "asm_xtensa_j_label label = xtensa_label_jump label (\<lambda>dest here. [xtensa_j_code (dest - here - 4)])"
  by (simp add: fun_eq_iff asm_xtensa_j_label_def label_jump_def xtensa_get_label_dest_checked xtensa_j_code_def
      asm_ops asm_xtensa_op24_def emit_code_def split: sum.split)

lemma xtensa_j_plain: "plain xtensa_lim 3 (asm_xtensa_j_label label)"
  unfolding asm_xtensa_j_label_code
  by (rule plain_jump_ahead) (simp_all add: xtensa_j_code_def)

text \<open>The pc-relative move: an immediate that depends on the label, then code that depends on the offset.\<close>

lemma asm_xtensa_mov_reg_pcrel_seq:
  "asm_xtensa_mov_reg_pcrel reg_dest label = asm_seq
     [xtensa_label_jump label (\<lambda>dest here. let rel = dest - here - 6 in
        [xtensa_op24_bytes (ASM_XTENSA_ENCODE_RRI8 2 10 (signed_drop_bit 8 rel AND 0xf) reg_dest (rel AND 0xff))]),
      \<lambda>t. asm_seq [asm_xtensa_op_call0 (drop_bit 1 (code_offset t) AND 1), reserve_bytes ((5 - code_offset t) AND 3)] t,
      asm_xtensa_op_add_n reg_dest reg_dest ASM_XTENSA_REG_A0]"
  by (simp add: fun_eq_iff asm_xtensa_mov_reg_pcrel_def label_jump_def xtensa_get_label_dest_checked
      asm_ops asm_xtensa_op24_def emit_code_def Let_def split: sum.split)

lemma unat_and_3: "unat (x AND 3 :: u32) \<le> 3"
  using word_and_le1 [of x 3] by (simp add: word_le_nat_alt)

lemma xtensa_pcrel_plain: "plain xtensa_lim 11 (asm_xtensa_mov_reg_pcrel reg_dest label)"
proof -
  have pad: "plain xtensa_lim 6 (\<lambda>t. asm_seq [asm_xtensa_op_call0 (drop_bit 1 (code_offset t) AND 1),
      reserve_bytes ((5 - code_offset t) AND 3)] t)"
  proof (rule plain_offset [where F = "\<lambda>o'. asm_seq [asm_xtensa_op_call0 (drop_bit 1 o' AND 1), reserve_bytes ((5 - o') AND 3)]"])
    show "plain xtensa_lim 6 (asm_seq [asm_xtensa_op_call0 (drop_bit 1 o' AND 1), reserve_bytes ((5 - o') AND 3)])" for o'
      unfolding asm_ops
      by (rule plain_weaken, (rule plain_sum xtensa_op_plain xtensa_reserve_plain [OF unat_and_3])+, simp)
  qed simp
  have imm: "plain xtensa_lim 3 (xtensa_label_jump label (\<lambda>dest here. let rel = dest - here - 6 in
        [xtensa_op24_bytes (ASM_XTENSA_ENCODE_RRI8 2 10 (signed_drop_bit 8 rel AND 0xf) reg_dest (rel AND 0xff))]))"
    by (rule plain_jump_ahead) (simp_all add: Let_def)
  show ?thesis
    unfolding asm_xtensa_mov_reg_pcrel_seq asm_ops
    by (rule plain_weaken, (rule plain_sum xtensa_op_plain imm pad [unfolded asm_ops])+, simp)
qed

lemma signed_fit18:
  assumes "- 131072 \<le> sint x" "sint x < 131072"
  shows "XTENSA_SIGNED_FIT18 x"
  unfolding XTENSA_SIGNED_FIT18_def word32_eq_iff_bits
  using bit_signed_small [of 17 x] assms by (cases "sint x < 0") (simp_all add: bit_simps)

text \<open>A conditional branch: the short form backwards, else the opposite branch over a jump.\<close>

definition xtensa_branch_code ::
    "(u32 \<Rightarrow> bool) \<Rightarrow> (u32 \<Rightarrow> u32) \<Rightarrow> u32 \<Rightarrow> u32 \<Rightarrow> u32 \<Rightarrow> u8 list list" where
  "xtensa_branch_code short near skips dest here =
     (let rel = dest - here - 4
      in if (dest \<noteq> - 1 \<and> sint rel < 0) \<and> short rel then [xtensa_op24_bytes (near rel)]
         else [xtensa_op24_bytes skips, xtensa_j_code (rel - 3)])"

lemma xtensa_branch_code_lengths:
  "total_length (xtensa_branch_code short near skips dest here) \<le> 6"
  "0 < total_length (xtensa_branch_code short near skips (- 1) here)"
  "0 \<le> sint (dest - here - 4) \<Longrightarrow>
     map length (xtensa_branch_code short near skips dest here) =
     map length (xtensa_branch_code short near skips (- 1) here)"
  by (simp_all add: xtensa_branch_code_def xtensa_j_code_def Let_def)

text \<open>Distances of offsets in the range.\<close>

lemma xtensa_distance:
  fixes here dest :: u32
  assumes "unat here + 16 \<le> xtensa_lim" "k \<le> 16"
  shows "unat dest \<le> xtensa_lim \<Longrightarrow> sint (dest - here - word_of_nat k) = int (unat dest) - int (unat here) - int k"
    and "sint (- 1 - here - word_of_nat k) = - int (unat here) - int k - 1"
proof -
  have n: "unat (here + word_of_nat k) = unat here + k" "unat (here + word_of_nat (Suc k)) = unat here + Suc k"
    using assms by (intro unat_add_of_nat; simp)+
  have e: "dest - here - word_of_nat k = dest - (here + word_of_nat k)"
    "- 1 - here - word_of_nat k = 0 - (here + word_of_nat (Suc k))" by simp_all
  show "sint (dest - here - word_of_nat k) = int (unat dest) - int (unat here) - int k" if "unat dest \<le> xtensa_lim"
    unfolding e using that n(1) assms by (subst sint_sub_small) simp_all
  have "sint (0 - (here + word_of_nat (Suc k))) = int (unat (0 :: u32)) - int (unat (here + word_of_nat (Suc k)))"
    using n(2) assms by (intro sint_sub_small) simp_all
  then show "sint (- 1 - here - word_of_nat k) = - int (unat here) - int k - 1"
    unfolding e n(2) by simp
qed

lemma xtensa_long_branch_fits:
  fixes here dest :: u32
  assumes "unat here + 16 \<le> xtensa_lim" "dest = - 1 \<or> unat dest \<le> xtensa_lim"
  shows "XTENSA_SIGNED_FIT18 (dest - here - 4 - 6)"
proof -
  have "dest - here - 4 - 6 = dest - here - word_of_nat 10" by simp
  moreover have "unat dest \<le> xtensa_lim \<and> sint (dest - here - word_of_nat 10) = int (unat dest) - int (unat here) - int 10 \<or>
      sint (dest - here - word_of_nat 10) = - int (unat here) - int 10 - 1"
    using xtensa_distance [of here 10] assms by auto
  then have "XTENSA_SIGNED_FIT18 (dest - here - word_of_nat 10)"
    using assms by (intro signed_fit18) linarith+
  ultimately show ?thesis by simp
qed

lemma xtensa_branch_ok:
  fixes f :: "asm_xtensa_t asm"
  assumes f: "\<And>s. f s = (case checked_label_offset label s of
        Inl e \<Rightarrow> Inl e
      | Inr dest \<Rightarrow>
          let rel = dest - code_offset s - 4
          in if \<not> ((dest \<noteq> - 1 \<and> sint rel < 0) \<and> short rel) \<and> in_emit_pass s \<and> \<not> XTENSA_SIGNED_FIT18 (rel - 6)
             then Inl RuntimeError
             else emit_code (xtensa_branch_code short near skips dest (code_offset s)) s)"
    and R: "added_rel R"
  shows "two_pass_ok R R xtensa_lim 16 (sure f)"
proof -
  let ?g = "xtensa_label_jump label (xtensa_branch_code short near skips)"
  have g: "plain xtensa_lim 16 ?g"
  proof (rule plain_jump [where l = label])
    fix d here :: u32
    assume "unat here + total_length (xtensa_branch_code short near skips (- 1) here) \<le> unat d" "unat d \<le> xtensa_lim"
    moreover have "total_length (xtensa_branch_code short near skips (- 1) here) = 6"
      by (simp add: xtensa_branch_code_def xtensa_j_code_def)
    ultimately have d: "unat here + 6 \<le> unat d" "unat d \<le> xtensa_lim" by simp_all
    have "unat (here + word_of_nat 4) = unat here + 4" using d by (intro unat_add_of_nat) simp
    then have n: "unat (here + 4) = unat here + 4" by simp
    then have "sint (d - (here + 4)) = int (unat d) - int (unat (here + 4))"
      using d by (intro sint_sub_small) simp_all
    then have "0 \<le> sint (d - (here + 4))" unfolding n using d by linarith
    then have "0 \<le> sint (d - here - 4)" by (simp add: diff_diff_eq)
    then show "map length (xtensa_branch_code short near skips d here) =
        map length (xtensa_branch_code short near skips (- 1) here)"
      by (rule xtensa_branch_code_lengths(3))
  qed (simp_all add: order_trans [OF xtensa_branch_code_lengths(1)])
  show ?thesis
  proof (rule two_pass_cong)
    show "two_pass_ok R R xtensa_lim 16 (sure ?g)"
      using g R by (rule plain_sure)
    show "sure f c = sure ?g c" if "compute_state c" for c
      using that by (auto simp: sure_def f label_jump_def Let_def split: sum.split)
    show "\<not> raised err" if "sure ?g s = Inl err" for s err using that by (rule sure_Inl)
    fix e e' mem
    assume e: "in_emit_pass e" "unat (code_offset e) + 16 \<le> xtensa_lim"
      "\<And>x. x \<in> set (label_offsets e) \<Longrightarrow> x = - 1 \<or> unat x \<le> xtensa_lim" "sure ?g e = Inr e'"
    then obtain dest where d: "checked_label_offset label e = Inr dest"
      by (auto simp: label_jump_def split: sum.splits)
    then have "dest \<in> set (label_offsets e)"
      by (auto simp: checked_label_offset_def label_offset_def split: if_splits)
    then have "XTENSA_SIGNED_FIT18 (dest - code_offset e - 4 - 6)"
      by (intro xtensa_long_branch_fits e(2) e(3))
    then show "sure f e = Inr e'" using e(4) d by (simp add: f label_jump_def Let_def)
  qed
qed

lemma xtensa_bcc_ok:
  assumes "added_rel R"
  shows "two_pass_ok R R xtensa_lim 16 (sure (asm_xtensa_bccz_reg_label cond reg label))"
    "two_pass_ok R R xtensa_lim 16 (sure (asm_xtensa_bcc_reg_reg_label cond reg1 reg2 label))"
proof -
  show "two_pass_ok R R xtensa_lim 16 (sure (asm_xtensa_bccz_reg_label cond reg label))"
    by (rule xtensa_branch_ok [OF _ assms, where label = label and short = XTENSA_SIGNED_FIT12
          and near = "\<lambda>rel. ASM_XTENSA_ENCODE_BRI12 6 reg cond 1 (rel AND 0xfff)"
          and skips = "ASM_XTENSA_ENCODE_BRI12 6 reg (cond XOR 1) 1 (2 AND 0xfff)"])
      (auto simp: asm_xtensa_bccz_reg_label_def calculate_branch_displacement_def xtensa_get_label_dest_checked Let_def
        xtensa_branch_code_def xtensa_j_code_def asm_ops asm_xtensa_op24_def emit_code_def split: sum.split)
  show "two_pass_ok R R xtensa_lim 16 (sure (asm_xtensa_bcc_reg_reg_label cond reg1 reg2 label))"
    by (rule xtensa_branch_ok [OF _ assms, where label = label and short = XTENSA_SIGNED_FIT8
          and near = "\<lambda>rel. ASM_XTENSA_ENCODE_RRI8 7 cond reg1 reg2 (rel AND 0xff)"
          and skips = "ASM_XTENSA_ENCODE_RRI8 7 (cond XOR 8) reg1 reg2 (2 AND 0xff)"])
      (auto simp: asm_xtensa_bcc_reg_reg_label_def calculate_branch_displacement_def xtensa_get_label_dest_checked Let_def
        xtensa_branch_code_def xtensa_j_code_def asm_ops asm_xtensa_op24_def emit_code_def split: sum.split)
qed

section \<open>The table of constants\<close>

text \<open>
  Both passes agree on the constants counted so far, on the size of the table and on the frame;
  the pointer to the table is NULL in the compute pass.
\<close>

definition xtensa_rel :: "asm_xtensa_t \<Rightarrow> asm_xtensa_t \<Rightarrow> bool" where
  "xtensa_rel c e \<longleftrightarrow> cur_const c = cur_const e \<and> num_const c = num_const e \<and> stack_adjust c = stack_adjust e"

lemma added_rel_xtensa [simp]: "added_rel xtensa_rel"
  unfolding added_rel_def
proof (intro allI impI)
  fix c e c' e' :: asm_xtensa_t
  assume "mp_asm_base_t.more c' = mp_asm_base_t.more c" "mp_asm_base_t.more e' = mp_asm_base_t.more e" "xtensa_rel c e"
  then show "xtensa_rel c' e'" by (cases c; cases e; cases c'; cases e') (simp add: xtensa_rel_def)
qed

lemma xtensa_same_more:
  assumes "mp_asm_base_t.more t = mp_asm_base_t.more (s :: asm_xtensa_t)"
  shows "cur_const t = cur_const s" "num_const t = num_const s" "const_table t = const_table s"
    "stack_adjust t = stack_adjust s"
  using assms by (cases s; cases t; simp)+

text \<open>The next constant has a place in the table.\<close>

definition table_ok :: "asm_xtensa_t \<Rightarrow> bool" where
  "table_ok s \<longleftrightarrow>
     (case const_table s of
        None \<Rightarrow> False
      | Some off \<Rightarrow> unat off + 4 * unat (cur_const s) + 4 \<le> unat (code_size s))"

text \<open>The operation with that condition checked in the emit pass.\<close>

definition with_table :: "asm_xtensa_t asm \<Rightarrow> asm_xtensa_t asm" where
  "with_table f = (\<lambda>s. if in_emit_pass s \<and> \<not> table_ok s then Inl RuntimeError else f s)"

lemma with_table_seq: "with_table (asm_seq (f # fs)) = asm_seq (with_table f # fs)"
  by (simp add: with_table_def fun_eq_iff)

lemma with_table_if: "with_table (if b then f else g) = (if b then with_table f else with_table g)"
  by simp

lemma with_table_plain:
  assumes "plain xtensa_lim n f"
  shows "two_pass_ok xtensa_rel xtensa_rel xtensa_lim n (with_table f)"
  unfolding with_table_def by (rule two_pass_guard [OF plainD(2) [OF assms]]) simp_all

definition xtensa_store_const :: "xtensa_env \<Rightarrow> u32 \<Rightarrow> asm_xtensa_t asm" where
  "xtensa_store_const env i32 s =
     (case const_table s of
        Some off \<Rightarrow> mp_store_bytes (off + cur_const s * XTENSA_WORD_SIZE) (xtensa_word_bytes env i32) s
      | None \<Rightarrow> asm_assert (\<not> in_emit_pass s) s)"

lemma xtensa_mov_reg_i32_seq:
  "ignore_result (asm_xtensa_mov_reg_i32 env reg_dest i32) = asm_seq
     [\<lambda>s. emit_bytes (xtensa_op24_bytes (ASM_XTENSA_ENCODE_RI16 1 reg_dest (drop_bit 2
          (xtensa_const_table_offset env s + cur_const s * XTENSA_WORD_SIZE - ((code_offset s + 3) AND NOT 3)) AND 0xffff))) s,
      xtensa_store_const env i32, \<lambda>s. Inr (s\<lparr>cur_const := cur_const s + 1\<rparr>)]"
  by (simp add: fun_eq_iff ignore_result_def asm_xtensa_mov_reg_i32_def xtensa_store_const_def asm_ops
      asm_xtensa_op24_def Let_def split: sum.split)

lemma table_index:
  assumes "const_table s = Some off" "table_ok s"
  shows "unat (off + cur_const s * XTENSA_WORD_SIZE) = unat off + 4 * unat (cur_const s)"
proof -
  have "unat off + 4 * unat (cur_const s) < 2 ^ LENGTH(32)"
    using assms unsigned_less [where ?'a = nat, of "code_size s"] by (simp add: table_ok_def)
  then have "unat (off + word_of_nat (4 * unat (cur_const s))) = unat off + 4 * unat (cur_const s)"
    by (rule unat_add_of_nat)
  then show ?thesis by (simp add: asm_consts mult.commute)
qed

lemma store_const_ok:
  "two_pass_ok xtensa_rel xtensa_rel xtensa_lim 0 (with_table (xtensa_store_const env i32))"
proof (rule two_pass_okI)
  fix c c'
  assume c: "compute_state c" "with_table (xtensa_store_const env i32) c = Inr c'"
  then have base: "pass c' = pass c" "max_num_labels c' = max_num_labels c" "label_offsets c' = label_offsets c"
    "code_offset c' = code_offset c" "suppress c' = suppress c" "mp_asm_base_t.more c' = mp_asm_base_t.more c"
    by (auto simp: with_table_def xtensa_store_const_def mp_store_bytes_def asm_assert_def
        split: option.splits if_splits)
  then show "grows 0 c c'" by (simp add: grows_def)
  fix L e
  assume e: "passes_agree xtensa_rel xtensa_lim L c e"
  show "case with_table (xtensa_store_const env i32) e of
      Inr e' \<Rightarrow> passes_agree xtensa_rel xtensa_lim L c' e' \<and> code_size e' = code_size e | Inl err \<Rightarrow> raised err"
  proof (cases "table_ok e")
    case True
    then obtain off where off: "const_table e = Some off" by (auto simp: table_ok_def split: option.splits)
    obtain mem where mem: "code_base e = Some mem" "unat (code_size e) \<le> length mem"
      using e by (auto simp: passes_agree_def)
    let ?k = "unat off + 4 * unat (cur_const e)"
    have k: "?k + 4 \<le> length mem" using True off mem(2) by (simp add: table_ok_def)
    have run: "xtensa_store_const env i32 e = Inr (e\<lparr>code_base := Some (store_at ?k (xtensa_word_bytes env i32) mem)\<rparr>)"
      using k by (simp add: xtensa_store_const_def off mp_store_bytes_def mem(1) table_index [OF off True])
    have "xtensa_rel c' (e\<lparr>code_base := x\<rparr>)" for x
      using added_relD [OF added_rel_xtensa, of c e c' "e\<lparr>code_base := x\<rparr>"] e base(6) by (simp add: passes_agree_def)
    then show ?thesis
      using e base k mem(2) by (auto simp: run with_table_def True passes_agree_def in_emit_pass_def)
  next
    case False
    then show ?thesis using e by (simp add: with_table_def passes_agree_def)
  qed
qed

lemma with_table_mov:
  "two_pass_ok xtensa_rel xtensa_rel xtensa_lim 3 (with_table (ignore_result (asm_xtensa_mov_reg_i32 env reg_dest i32)))"
proof -
  let ?emit = "\<lambda>s. emit_bytes (xtensa_op24_bytes (ASM_XTENSA_ENCODE_RI16 1 reg_dest (drop_bit 2
          (xtensa_const_table_offset env s + cur_const s * XTENSA_WORD_SIZE - ((code_offset s + 3) AND NOT 3)) AND 0xffff))) s"
  let ?next = "\<lambda>s :: asm_xtensa_t. Inr (s\<lparr>cur_const := cur_const s + 1\<rparr>)"
  have "two_pass_ok xtensa_rel xtensa_rel xtensa_lim 3 ?emit"
    by (rule two_pass_emit_varying) simp_all
  moreover have "two_pass_ok xtensa_rel xtensa_rel xtensa_lim 0 ?next"
    by (rule two_pass_update) (simp_all add: keeps_base_def xtensa_rel_def)
  then have "two_pass_ok xtensa_rel xtensa_rel xtensa_lim 0 (asm_seq [with_table (xtensa_store_const env i32), ?next])"
    by (intro two_pass_two [OF store_const_ok]) simp_all
  ultimately have ok: "two_pass_ok xtensa_rel xtensa_rel xtensa_lim 3
      (asm_seq [?emit, with_table (xtensa_store_const env i32), ?next])"
    using two_pass_step [of xtensa_rel xtensa_rel xtensa_lim 3 ?emit xtensa_rel 3] by (simp del: asm_seq.simps)
  have keeps: "table_ok t = table_ok s \<and> in_emit_pass t = in_emit_pass s" if "emit_bytes bs s = Inr t" for bs s t
    using emit_bytes_keeps [OF that] xtensa_same_more [of t s]
    by (simp add: table_ok_def in_emit_pass_def split: option.split)
  have "with_table (ignore_result (asm_xtensa_mov_reg_i32 env reg_dest i32)) =
      with_table (asm_seq [?emit, with_table (xtensa_store_const env i32), ?next])"
    unfolding xtensa_mov_reg_i32_seq
    by (auto simp: fun_eq_iff with_table_def keeps split: sum.split)
  moreover have "two_pass_ok xtensa_rel xtensa_rel xtensa_lim 3
      (with_table (asm_seq [?emit, with_table (xtensa_store_const env i32), ?next]))"
    unfolding with_table_def [of "asm_seq xs" for xs] by (rule two_pass_guard [OF ok]) simp
  ultimately show ?thesis by simp
qed

text \<open>Immediates that need a place in the table.\<close>

definition xtensa_big :: "u32 \<Rightarrow> bool" where
  "xtensa_big i32 \<longleftrightarrow> \<not> (- 32 \<le> sint i32 \<and> sint i32 \<le> 95) \<and> \<not> XTENSA_SIGNED_FIT12 i32"

abbreviation table_op :: "nat \<Rightarrow> asm_xtensa_t asm \<Rightarrow> bool" where
  "table_op n f \<equiv> two_pass_ok xtensa_rel xtensa_rel xtensa_lim n (with_table f)"

lemma table_op_seq:
  assumes "table_op k f" "plain xtensa_lim m (asm_seq fs)" "k + m \<le> n"
  shows "table_op n (asm_seq (f # fs))"
  unfolding with_table_seq
  using assms(3) by (intro two_pass_step [OF assms(1)] two_pass_weaken [OF plainD(2) [OF assms(2)]]) simp_all

lemma table_op_plain: "plain xtensa_lim m f \<Longrightarrow> m \<le> n \<Longrightarrow> table_op n f"
  by (rule with_table_plain) (rule plain_weaken)

lemma table_op_imm: "table_op 3 (asm_xtensa_mov_reg_i32_optimised env reg_dest i32)"
  unfolding asm_xtensa_mov_reg_i32_optimised_def asm_ops
  by (auto simp: with_table_mov intro: table_op_plain [OF xtensa_op_plain(1)] table_op_plain [OF xtensa_op_plain(2)])

lemma table_op_far:
  assumes "plain xtensa_lim 3 f"
  shows "table_op 8 (asm_seq [asm_xtensa_mov_reg_i32_optimised env reg_dest i32, asm_xtensa_op16 op, f])"
  by (rule table_op_seq [OF table_op_imm, where m = 5])
    (rule plain_weaken, (rule plain_sum xtensa_op_plain assms)+, simp_all)

lemma xtensa_last_plain: "plain xtensa_lim 3 (if b then asm_xtensa_op16 op else asm_xtensa_op24 op')"
  by (rule plain_weaken, (rule plain_sum xtensa_op_plain)+, simp)

lemma plain_3: "plain xtensa_lim 3 (asm_xtensa_op16 op)"
  by (rule plain_weaken [OF xtensa_op_plain(1)]) simp

lemma table_op_access:
  "table_op 8 (asm_xtensa_load_reg_reg_offset env reg_dest reg_base offset operation_size)"
  "table_op 8 (asm_xtensa_store_reg_reg_offset env reg_src reg_base offset operation_size)"
  "table_op 8 (asm_xtensa_l32i_optimised env reg_dest reg_base word_offset)"
  unfolding asm_xtensa_load_reg_reg_offset_def asm_xtensa_store_reg_reg_offset_def asm_xtensa_l32i_optimised_def asm_ops
  by (auto simp del: asm_seq.simps intro: table_op_plain [OF xtensa_op_plain(1)] table_op_plain [OF xtensa_op_plain(2)]
      table_op_plain [OF plain_fail] table_op_far xtensa_op_plain plain_3)

lemma table_op_call:
  "table_op 11 (asm_xtensa_call_ind env idx)" "table_op 11 (asm_xtensa_call_ind_win env idx)"
  unfolding asm_xtensa_call_ind_def asm_xtensa_call_ind_win_def asm_ops
  by (rule table_op_seq [OF table_op_access(3), where m = 3];
      (rule plain_weaken, (rule plain_sum xtensa_op_plain)+)?; simp)+

section \<open>Entry and exit\<close>

definition xtensa_exit_seq :: "u32 \<Rightarrow> asm_xtensa_t asm" where
  "xtensa_exit_seq adjust = asm_seq
       [asm_seq (map (\<lambda>i. asm_xtensa_op_l32i_n (ASM_XTENSA_REG_A11 + word_of_nat i) ASM_XTENSA_REG_A1 (word_of_nat i))
          (rev [1..<unat ASM_XTENSA_NUM_REGS_SAVED])),
        asm_xtensa_op_l32i_n ASM_XTENSA_REG_A0 ASM_XTENSA_REG_A1 0,
        if XTENSA_SIGNED_FIT8 adjust
        then asm_xtensa_op_addi ASM_XTENSA_REG_A1 ASM_XTENSA_REG_A1 adjust
        else asm_seq [asm_xtensa_op_movi ASM_XTENSA_REG_A9 adjust,
                      asm_xtensa_op_add_n ASM_XTENSA_REG_A1 ASM_XTENSA_REG_A1 ASM_XTENSA_REG_A9],
        asm_xtensa_op_ret_n]"

lemma saved_registers: "[1..<unat ASM_XTENSA_NUM_REGS_SAVED] = [1, 2, 3, 4]"
  by (simp add: asm_consts upt_rec)

lemma xtensa_exit_seq_plain: "plain xtensa_lim 17 (xtensa_exit_seq adjust)"
  unfolding xtensa_exit_seq_def saved_registers list.map rev.simps append.simps asm_ops
  by (rule plain_weaken, (rule plain_sum xtensa_op_plain)+, simp)

lemma asm_xtensa_exit_seq: "asm_xtensa_exit s = xtensa_exit_seq (stack_adjust s) s"
  by (simp add: asm_xtensa_exit_def xtensa_exit_seq_def)

lemma xtensa_exit_ok: "two_pass_ok xtensa_rel xtensa_rel xtensa_lim 17 asm_xtensa_exit"
  by (rule two_pass_readI [where v = stack_adjust and F = xtensa_exit_seq])
    (simp_all add: asm_xtensa_exit_seq xtensa_rel_def plainD(2) [OF xtensa_exit_seq_plain])

lemma xtensa_exit_win_plain: "plain xtensa_lim 17 asm_xtensa_exit_win"
  unfolding asm_xtensa_exit_win_def asm_ops
  by (rule plain_weaken, (rule plain_sum xtensa_op_plain)+, simp)

text \<open>The entry of a function whose table has \<open>N\<close> words.\<close>

definition xtensa_start :: "u32 \<Rightarrow> asm_xtensa_t \<Rightarrow> asm_xtensa_t \<Rightarrow> bool" where
  "xtensa_start N c e \<longleftrightarrow> num_const c = N \<and> num_const e = N \<and> cur_const c = cur_const e"

lemma added_rel_xtensa_start [simp]: "added_rel (xtensa_start N)"
  unfolding added_rel_def xtensa_start_def using xtensa_same_more by (metis (full_types))

definition xtensa_consts_seq :: "u32 \<Rightarrow> asm_xtensa_t asm" where
  "xtensa_consts_seq N = asm_when (N > 0) (asm_seq
     [asm_xtensa_op_j (N * XTENSA_WORD_SIZE + 4 - 4), reserve_bytes 1,
      \<lambda>s. case mp_asm_base_get_cur_to_write_bytes (N * 4) s of
            Inl e \<Rightarrow> Inl e | Inr (p, t) \<Rightarrow> Inr (t\<lparr>const_table := p\<rparr>)])"

lemma xtensa_entry_consts_seq:
  assumes "num_const s = N"
  shows "xtensa_entry_consts s = xtensa_consts_seq N s"
proof -
  have "num_const t = num_const s"
    if "asm_seq [asm_xtensa_op_j x, reserve_bytes 1] s = Inr t" for x t
  proof -
    have "plain xtensa_lim 4 (asm_seq [asm_xtensa_op_j x, reserve_bytes 1])"
      unfolding asm_ops
      by (rule plain_weaken, (rule plain_sum xtensa_op_plain xtensa_pad_plain)+) simp
    then have "keeps_added (asm_seq [asm_xtensa_op_j x, reserve_bytes 1])" by (rule plainD(1))
    then show ?thesis using that by (intro xtensa_same_more(2) keeps_addedD(1))
  qed
  moreover have "asm_seq [f, g, h] s = (case asm_seq [f, g] s of Inl e \<Rightarrow> Inl e | Inr t \<Rightarrow> h t)"
    for f g h :: "asm_xtensa_t asm"
    using asm_seq_append [of "[f, g]" "[h]" s] unfolding append.simps asm_seq_singleton .
  ultimately show ?thesis
    using assms by (simp del: asm_seq.simps add: xtensa_entry_consts_def xtensa_consts_seq_def asm_when_def split: sum.split)
qed

lemma xtensa_consts_ok:
  "two_pass_ok (xtensa_start N) (xtensa_start N) xtensa_lim (4 + unat (N * 4)) (xtensa_consts_seq N)"
proof -
  have "two_pass_ok (xtensa_start N) (xtensa_start N) xtensa_lim (unat (N * 4))
      (\<lambda>s. case mp_asm_base_get_cur_to_write_bytes (N * 4) s of Inl e \<Rightarrow> Inl e | Inr (p, t) \<Rightarrow> Inr (t\<lparr>const_table := p\<rparr>))"
    by (rule two_pass_cursor) (simp_all add: keeps_base_def xtensa_start_def)
  moreover have "plain xtensa_lim 3 (asm_xtensa_op_j x)" for x
    unfolding asm_ops by (rule xtensa_op_plain)
  ultimately have "two_pass_ok (xtensa_start N) (xtensa_start N) xtensa_lim (4 + unat (N * 4)) (asm_seq
     [asm_xtensa_op_j (N * XTENSA_WORD_SIZE + 4 - 4), reserve_bytes 1,
      \<lambda>s. case mp_asm_base_get_cur_to_write_bytes (N * 4) s of
            Inl e \<Rightarrow> Inl e | Inr (p, t) \<Rightarrow> Inr (t\<lparr>const_table := p\<rparr>)])"
    by - (rule two_pass_step [where k = 3], rule plainD(2), assumption, simp, rule two_pass_step [where k = 1],
        rule plainD(2) [OF xtensa_pad_plain], simp_all del: asm_seq.simps add: asm_seq_singleton)
  then show ?thesis
    unfolding xtensa_consts_seq_def by (cases "N > 0") (simp_all add: two_pass_skip del: asm_seq.simps)
qed

lemma keeps_base_xtensa_adjust [simp]: "keeps_base (\<lambda>s. s\<lparr>stack_adjust := x\<rparr>)"
  by (simp add: keeps_base_def)

text \<open>The code of the two entries behind the table.\<close>

definition xtensa_entry_frame :: "u32 \<Rightarrow> asm_xtensa_t asm" where
  "xtensa_entry_frame adjust = asm_seq
     [if XTENSA_SIGNED_FIT8 (- adjust)
      then asm_xtensa_op_addi ASM_XTENSA_REG_A1 ASM_XTENSA_REG_A1 (- adjust)
      else asm_seq [asm_xtensa_op_movi ASM_XTENSA_REG_A9 adjust,
                    asm_xtensa_op_sub ASM_XTENSA_REG_A1 ASM_XTENSA_REG_A1 ASM_XTENSA_REG_A9],
      asm_xtensa_op_s32i_n ASM_XTENSA_REG_A0 ASM_XTENSA_REG_A1 0,
      asm_seq (map (\<lambda>i. asm_xtensa_op_s32i_n (ASM_XTENSA_REG_A11 + word_of_nat i) ASM_XTENSA_REG_A1 (word_of_nat i))
        [1..<unat ASM_XTENSA_NUM_REGS_SAVED])]"

definition xtensa_entry_win_frame :: "u32 \<Rightarrow> asm_xtensa_t asm" where
  "xtensa_entry_win_frame adjust = asm_seq
     [asm_xtensa_op_entry ASM_XTENSA_REG_A1 adjust, asm_xtensa_op_s32i_n ASM_XTENSA_REG_A0 ASM_XTENSA_REG_A1 0]"

lemma xtensa_entry_frame_plain:
  "plain xtensa_lim 16 (xtensa_entry_frame adjust)" "plain xtensa_lim 16 (xtensa_entry_win_frame adjust)"
  unfolding xtensa_entry_frame_def xtensa_entry_win_frame_def saved_registers list.map asm_ops
  by (rule plain_weaken, (rule plain_sum xtensa_op_plain)+, simp)+

lemma xtensa_entry_seq:
  "asm_xtensa_entry num_locals =
     (let adjust = ((ASM_XTENSA_NUM_REGS_SAVED + num_locals) * XTENSA_WORD_SIZE + 15) AND NOT 15
      in asm_seq [xtensa_entry_consts, \<lambda>s. Inr (s\<lparr>stack_adjust := adjust\<rparr>), xtensa_entry_frame adjust])"
  "asm_xtensa_entry_win num_locals =
     (let adjust = 32 + (((ASM_XTENSA_NUM_REGS_SAVED_WIN + num_locals) * XTENSA_WORD_SIZE + 15) AND NOT 15)
      in asm_seq [xtensa_entry_consts, \<lambda>s. Inr (s\<lparr>stack_adjust := adjust\<rparr>), xtensa_entry_win_frame adjust])"
  by (simp_all add: fun_eq_iff asm_xtensa_entry_def asm_xtensa_entry_win_def xtensa_entry_frame_def
      xtensa_entry_win_frame_def Let_def split: sum.split)

lemma xtensa_entry_ok:
  assumes "plain xtensa_lim 16 frame"
  shows "two_pass_ok (xtensa_start N) xtensa_rel xtensa_lim (20 + unat (N * 4))
    (\<lambda>s. if num_const s = N
         then asm_seq [xtensa_entry_consts, \<lambda>s. Inr (s\<lparr>stack_adjust := adjust\<rparr>), frame] s else Inl RuntimeError)"
proof -
  let ?set = "\<lambda>s :: asm_xtensa_t. Inr (s\<lparr>stack_adjust := adjust\<rparr>)"
  have "two_pass_ok (xtensa_start N) xtensa_rel xtensa_lim 0 ?set"
    by (rule two_pass_update) (simp_all add: xtensa_start_def xtensa_rel_def)
  then have "two_pass_ok (xtensa_start N) xtensa_rel xtensa_lim 16 (asm_seq [?set, frame])"
    by (rule two_pass_two [OF _ plainD(2) [OF assms]]) simp_all
  then have "two_pass_ok (xtensa_start N) xtensa_rel xtensa_lim (20 + unat (N * 4))
      (asm_seq [xtensa_consts_seq N, ?set, frame])"
    by (intro two_pass_step [OF xtensa_consts_ok]) (simp_all del: asm_seq.simps)
  from two_pass_if_field [OF this, of "\<lambda>s. num_const s = N"]
  have "two_pass_ok (xtensa_start N) xtensa_rel xtensa_lim (20 + unat (N * 4))
     (\<lambda>s. if num_const s = N then asm_seq [xtensa_consts_seq N, ?set, frame] s else Inl RuntimeError)"
    by (simp add: xtensa_start_def)
  moreover have "(\<lambda>s. if num_const s = N then asm_seq [xtensa_consts_seq N, ?set, frame] s else Inl RuntimeError) =
     (\<lambda>s. if num_const s = N then asm_seq [xtensa_entry_consts, ?set, frame] s else Inl RuntimeError)"
    by (simp add: fun_eq_iff xtensa_entry_consts_seq)
  ultimately show ?thesis by simp
qed

section \<open>What an operation does to the table\<close>

text \<open>
  In every pass an operation either leaves the fields of the assembler alone or counts one
  constant; it never changes the size of the buffer.
\<close>

definition counts :: "u32 \<Rightarrow> asm_xtensa_t asm \<Rightarrow> bool" where
  "counts k f \<longleftrightarrow> (\<forall>s t. f s = Inr t \<longrightarrow>
     code_size t = code_size s \<and> in_emit_pass t = in_emit_pass s \<and> num_const t = num_const s \<and>
     const_table t = const_table s \<and> cur_const t = cur_const s + k)"

lemma countsI:
  assumes "\<And>s t. f s = Inr t \<Longrightarrow> code_size t = code_size s \<and> pass t = pass s \<and>
     mp_asm_base_t.more t = mp_asm_base_t.more s"
  shows "counts 0 f"
  unfolding counts_def
proof (intro allI impI)
  fix s t
  assume "f s = Inr t"
  then have "code_size t = code_size s" "pass t = pass s" "mp_asm_base_t.more t = mp_asm_base_t.more s"
    using assms by blast+
  then show "code_size t = code_size s \<and> in_emit_pass t = in_emit_pass s \<and> num_const t = num_const s \<and>
     const_table t = const_table s \<and> cur_const t = cur_const s + 0"
    using xtensa_same_more [of t s] by (simp add: in_emit_pass_def)
qed

lemma counts_emit: "counts 0 (emit_bytes bs)"
  by (rule countsI) (simp add: emit_bytes_keeps)

lemma counts_op: "counts 0 (asm_xtensa_op16 op)" "counts 0 (asm_xtensa_op24 op)"
  by (simp_all add: asm_xtensa_op16_def asm_xtensa_op24_def counts_emit)

lemma counts_Cons: "counts k f \<Longrightarrow> counts 0 (asm_seq fs) \<Longrightarrow> counts k (asm_seq (f # fs))"
  unfolding counts_def by (fastforce split: sum.splits)

lemma counts_Nil: "counts 0 (asm_seq [])"
  by (simp add: counts_def)

lemma counts_if: "(b \<Longrightarrow> counts k f) \<Longrightarrow> (\<not> b \<Longrightarrow> counts k g) \<Longrightarrow> counts k (if b then f else g)"
  by simp

lemma counts_reserve: "counts 0 (reserve_bytes n)"
  by (rule countsI)
    (auto simp: reserve_bytes_def ignore_result_def mp_asm_base_get_cur_to_write_bytes_def split: sum.splits if_splits)

lemma counts_state: "(\<And>x. counts k (F x)) \<Longrightarrow> counts k (\<lambda>s. F (v s) s)"
  unfolding counts_def by blast

lemma counts_fail: "counts k (\<lambda>s. Inl e)" "counts k (asm_assert False)"
  by (simp_all add: counts_def)

lemma counts_label: "(\<And>d s. counts k (F d s)) \<Longrightarrow> counts k (\<lambda>s. case dest s of Inl e \<Rightarrow> Inl e | Inr d \<Rightarrow> F d s s)"
  unfolding counts_def by (auto split: sum.splits)

lemmas counts_rules = counts_op counts_Cons counts_Nil counts_reserve

lemma counts_store_const: "counts 0 (xtensa_store_const env i32)"
  by (rule countsI)
    (auto simp: xtensa_store_const_def mp_store_bytes_def asm_assert_def split: option.splits if_splits)

lemma counts_mov: "counts 1 (ignore_result (asm_xtensa_mov_reg_i32 env reg_dest i32))"
proof -
  have "counts 0 (\<lambda>s. emit_bytes (xtensa_op24_bytes (ASM_XTENSA_ENCODE_RI16 1 reg_dest (drop_bit 2
          (xtensa_const_table_offset env s + cur_const s * XTENSA_WORD_SIZE - ((code_offset s + 3) AND NOT 3)) AND 0xffff))) s)"
    by (rule counts_state [where F = emit_bytes]) (rule counts_emit)
  then show ?thesis
    using counts_store_const [of env i32] unfolding xtensa_mov_reg_i32_seq counts_def
    by (auto simp: in_emit_pass_def split: sum.splits)
qed

definition bit_word :: "bool \<Rightarrow> u32" where
  "bit_word b = (if b then 1 else 0)"

lemma counts_imm: "counts (bit_word (xtensa_big i32)) (asm_xtensa_mov_reg_i32_optimised env reg_dest i32)"
  using counts_mov counts_op
  by (auto simp: asm_xtensa_mov_reg_i32_optimised_def xtensa_big_def bit_word_def asm_ops)

lemma counts_far:
  assumes "counts 0 f"
  shows "xtensa_big i32 \<Longrightarrow>
      counts 1 (asm_seq [asm_xtensa_mov_reg_i32_optimised env reg_dest i32, asm_xtensa_op16 op, f])"
    and "\<not> xtensa_big i32 \<Longrightarrow>
      counts 0 (asm_seq [asm_xtensa_mov_reg_i32_optimised env reg_dest i32, asm_xtensa_op16 op, f])"
proof -
  have "counts (bit_word (xtensa_big i32)) (asm_seq [asm_xtensa_mov_reg_i32_optimised env reg_dest i32, asm_xtensa_op16 op, f])"
    by (rule counts_Cons [OF counts_imm]) (rule counts_Cons counts_op counts_Nil assms)+
  then show "xtensa_big i32 \<Longrightarrow>
      counts 1 (asm_seq [asm_xtensa_mov_reg_i32_optimised env reg_dest i32, asm_xtensa_op16 op, f])"
    "\<not> xtensa_big i32 \<Longrightarrow>
      counts 0 (asm_seq [asm_xtensa_mov_reg_i32_optimised env reg_dest i32, asm_xtensa_op16 op, f])"
    by (simp_all add: bit_word_def)
qed

text \<open>Accesses that need a constant for their offset.\<close>

definition xtensa_far :: "xtensa_env \<Rightarrow> u32 \<Rightarrow> u32 \<Rightarrow> bool" where
  "xtensa_far env offset operation_size \<longleftrightarrow>
     operation_size \<le> 2 \<and> \<not> (operation_size = 2 \<and> MP_FIT_UNSIGNED env 4 offset) \<and> \<not> MP_FIT_UNSIGNED env 8 offset \<and>
     xtensa_big (push_bit (unat operation_size) offset)"

definition xtensa_far_call :: "u32 \<Rightarrow> bool" where
  "xtensa_far_call idx \<longleftrightarrow> \<not> idx < 16 \<and> \<not> idx < 256 \<and> xtensa_big (idx * 4)"

lemma counts_access:
  "counts (bit_word (xtensa_far env offset operation_size))
     (asm_xtensa_load_reg_reg_offset env reg_dest reg_base offset operation_size)"
  "counts (bit_word (xtensa_far env offset operation_size))
     (asm_xtensa_store_reg_reg_offset env reg_src reg_base offset operation_size)"
  "counts (bit_word (xtensa_far_call idx)) (asm_xtensa_l32i_optimised env reg_dest reg_base idx)"
  by (simp_all add: asm_xtensa_load_reg_reg_offset_def asm_xtensa_store_reg_reg_offset_def asm_xtensa_l32i_optimised_def
      xtensa_far_def xtensa_far_call_def bit_word_def asm_ops counts_far counts_op counts_fail del: asm_seq.simps)

lemma counts_call:
  "counts (bit_word (xtensa_far_call idx)) (asm_xtensa_call_ind env idx)"
  "counts (bit_word (xtensa_far_call idx)) (asm_xtensa_call_ind_win env idx)"
proof -
  show "counts (bit_word (xtensa_far_call idx)) (asm_xtensa_call_ind env idx)"
    unfolding asm_xtensa_call_ind_def asm_ops by (rule counts_Cons [OF counts_access(3)]) (rule counts_rules)+
  show "counts (bit_word (xtensa_far_call idx)) (asm_xtensa_call_ind_win env idx)"
    unfolding asm_xtensa_call_ind_win_def asm_ops by (rule counts_Cons [OF counts_access(3)]) (rule counts_rules)+
qed

lemma counts_branch:
  "counts 0 (asm_xtensa_j_label label)"
  "counts 0 (asm_xtensa_bccz_reg_label cond reg label)"
  "counts 0 (asm_xtensa_bcc_reg_reg_label cond reg1 reg2 label)"
  "counts 0 (asm_xtensa_mov_reg_pcrel reg_dest label)"
proof -
  have seq: "counts 0 (asm_seq [asm_xtensa_op24 x, asm_xtensa_op24 y])" for x y
    by (rule counts_rules)+
  show "counts 0 (asm_xtensa_j_label label)"
    unfolding asm_xtensa_j_label_def asm_ops by (rule counts_label) (rule counts_op)
  show "counts 0 (asm_xtensa_bccz_reg_label cond reg label)"
    "counts 0 (asm_xtensa_bcc_reg_reg_label cond reg1 reg2 label)"
    unfolding asm_xtensa_bccz_reg_label_def asm_xtensa_bcc_reg_reg_label_def asm_ops counts_def
    using counts_op(2) seq by (auto simp: counts_def simp del: asm_seq.simps split: sum.splits if_splits)
  show "counts 0 (asm_xtensa_mov_reg_pcrel reg_dest label)"
    unfolding asm_xtensa_mov_reg_pcrel_def asm_ops Let_def
    by (rule counts_label)
      (rule counts_rules counts_state [where v = code_offset and F = "\<lambda>o'. asm_seq [asm_xtensa_op24 (ASM_XTENSA_ENCODE_CALL 5 0
           ((drop_bit 1 o' AND 1) AND 0x3ffff)), reserve_bytes ((5 - o') AND 3)]"])+
qed

lemma counts_misc:
  "counts 0 asm_xtensa_exit" "counts 0 asm_xtensa_exit_win"
  "counts 0 (asm_xtensa_mov_reg_local_addr reg_dest local_num)"
  "counts 0 (asm_xtensa_setcc_reg_reg_reg cond reg_dest reg_src1 reg_src2)"
  "counts 0 (xtensa_risc op)"
proof -
  have "counts 0 (xtensa_exit_seq x)" for x
    unfolding xtensa_exit_seq_def saved_registers list.map rev.simps append.simps asm_ops
    by (rule counts_rules counts_if)+
  then show "counts 0 asm_xtensa_exit"
    using counts_state [where F = xtensa_exit_seq and v = stack_adjust] by (simp add: asm_xtensa_exit_seq [abs_def] fun_eq_iff)
  show "counts 0 asm_xtensa_exit_win"
    "counts 0 (asm_xtensa_mov_reg_local_addr reg_dest local_num)"
    "counts 0 (asm_xtensa_setcc_reg_reg_reg cond reg_dest reg_src1 reg_src2)"
    unfolding asm_xtensa_exit_win_def asm_xtensa_mov_reg_local_addr_def asm_xtensa_setcc_reg_reg_reg_def asm_ops Let_def
    by (rule counts_rules counts_if)+
  show "counts 0 (xtensa_risc op)"
    by (cases op; simp only: xtensa_risc.simps asm_ops) (rule counts_rules)+
qed

lemma counts_base:
  "counts 0 (mp_asm_base_label_assign l)" "counts 0 (mp_asm_base_align align)"
  "counts 0 (mp_asm_base_data bytesize val)" "counts 0 mp_asm_base_suppress_code"
proof -
  show "counts 0 (mp_asm_base_label_assign l)"
    by (rule countsI) (auto simp: mp_asm_base_label_assign_def Let_def split: sum.splits if_splits)
  show "counts 0 (mp_asm_base_align align)" "counts 0 mp_asm_base_suppress_code"
    by (rule countsI; auto simp: mp_asm_base_align_def mp_asm_base_suppress_code_def)+
  show "counts 0 (mp_asm_base_data bytesize val)"
    by (rule countsI) (simp add: mp_asm_base_data_def emit_bytes_keeps)
qed

end
