(* ===== verification/Asm_Xtensa_Program.thy ===== *)
theory Asm_Xtensa_Program
  imports Asm_Xtensa_Passes
begin

text \<open>
  The two passes of the Xtensa assembler over a whole function. A pass counts the constants of
  the body and leaves the number to the next pass, whose entry makes room for as many, so that
  in the emit pass every constant has a place in the table.
\<close>

section \<open>Whole programs\<close>

text \<open>The operations that put a constant into the table.\<close>

fun xtensa_api_const :: "xtensa_env \<Rightarrow> u32 asm_op \<Rightarrow> bool" where
  "xtensa_api_const env (ASM_MOV_REG_IMM _ imm) = xtensa_big imm"
| "xtensa_api_const env (ASM_CALL_IND idx) = xtensa_far_call idx"
| "xtensa_api_const env (ASM_LOAD_REG_REG_OFFSET _ _ off) = xtensa_far env off 2"
| "xtensa_api_const env (ASM_LOAD8_REG_REG _ _) = xtensa_far env 0 0"
| "xtensa_api_const env (ASM_LOAD8_REG_REG_OFFSET _ _ off) = xtensa_far env off 0"
| "xtensa_api_const env (ASM_LOAD16_REG_REG _ _) = xtensa_far env 0 1"
| "xtensa_api_const env (ASM_LOAD16_REG_REG_OFFSET _ _ off) = xtensa_far env off 1"
| "xtensa_api_const env (ASM_LOAD32_REG_REG _ _) = xtensa_far env 0 2"
| "xtensa_api_const env (ASM_LOAD32_REG_REG_OFFSET _ _ off) = xtensa_far env off 2"
| "xtensa_api_const env (ASM_STORE_REG_REG_OFFSET _ _ off) = xtensa_far env off 2"
| "xtensa_api_const env (ASM_STORE8_REG_REG _ _) = xtensa_far env 0 0"
| "xtensa_api_const env (ASM_STORE8_REG_REG_OFFSET _ _ off) = xtensa_far env off 0"
| "xtensa_api_const env (ASM_STORE16_REG_REG _ _) = xtensa_far env 0 1"
| "xtensa_api_const env (ASM_STORE16_REG_REG_OFFSET _ _ off) = xtensa_far env off 1"
| "xtensa_api_const env (ASM_STORE32_REG_REG _ _) = xtensa_far env 0 2"
| "xtensa_api_const env (ASM_STORE32_REG_REG_OFFSET _ _ off) = xtensa_far env off 2"
| "xtensa_api_const env _ = False"

fun xtensa_const :: "xtensa_env \<Rightarrow> xtensa_op \<Rightarrow> bool" where
  "xtensa_const env (Xtensa_API op) = xtensa_api_const env op"
| "xtensa_const env _ = False"

fun xtensa_is_entry :: "xtensa_op \<Rightarrow> bool" where
  "xtensa_is_entry (Xtensa_API op) = is_ASM_ENTRY op"
| "xtensa_is_entry _ = False"

fun xtensa_allowed :: "xtensa_op \<Rightarrow> bool" where
  "xtensa_allowed (Xtensa_API op) = base_allowed op"
| "xtensa_allowed _ = True"

text \<open>Operations between the entry and the end of the pass.\<close>

definition xtensa_inner :: "xtensa_op \<Rightarrow> bool" where
  "xtensa_inner op \<longleftrightarrow> \<not> xtensa_is_entry op \<and> xtensa_allowed op \<and> op \<noteq> Xtensa_API ASM_END_PASS"

lemma counts_api:
  assumes "\<not> is_ASM_ENTRY op" "op \<noteq> ASM_END_PASS"
  shows "counts (bit_word (xtensa_api_const env op)) (xtensa_api env op)"
proof -
  note facts = counts_op counts_imm counts_access counts_call counts_branch counts_misc counts_base
  have z: "bit_word False = 0" by (simp add: bit_word_def)
  show ?thesis
    using assms
    by (cases op) (simp_all add: facts z asm_ops del: asm_seq.simps)
qed

lemma counts_exec:
  assumes "xtensa_inner op"
  shows "counts (bit_word (xtensa_const env op)) (xtensa_exec env op)"
  using assms counts_api counts_misc(4,5) by (cases op) (auto simp: xtensa_inner_def bit_word_def)

lemma quiet_mov: "quiet (ignore_result (asm_xtensa_mov_reg_i32 env reg_dest i32))"
proof -
  have "quiet (\<lambda>s :: asm_xtensa_t. emit_bytes (bs s) s)" for bs
    using quiet_plain [OF plain_emit [where 'w = 32, of xtensa_lim]] by (auto simp: quiet_def)
  moreover have "quiet (xtensa_store_const env i32)" "quiet (\<lambda>s :: asm_xtensa_t. Inr (s\<lparr>cur_const := cur_const s + 1\<rparr>))"
    by (auto simp: quiet_def xtensa_store_const_def mp_store_bytes_def asm_assert_def split: option.splits if_splits)
  moreover have "quiet (asm_seq ([] :: asm_xtensa_t asm list))" by (simp add: quiet_def)
  ultimately show ?thesis unfolding xtensa_mov_reg_i32_seq by (intro quiet_Cons)
qed

lemma quiet_imm: "quiet (asm_xtensa_mov_reg_i32_optimised env reg_dest i32)"
  using quiet_mov quiet_plain [OF xtensa_op_plain(1)] quiet_plain [OF xtensa_op_plain(2)]
  by (simp add: asm_xtensa_mov_reg_i32_optimised_def asm_ops)

lemma quiet_ops: "quiet (asm_xtensa_op16 op)" "quiet (asm_xtensa_op24 op)" "quiet (asm_assert b)"
  "quiet (asm_seq ([] :: asm_xtensa_t asm list))"
  using quiet_plain [OF xtensa_op_plain(1)] quiet_plain [OF xtensa_op_plain(2)]
  by (auto simp: quiet_def asm_assert_def)

lemma quiet_access:
  "quiet (asm_xtensa_load_reg_reg_offset env reg_dest reg_base offset operation_size)"
  "quiet (asm_xtensa_store_reg_reg_offset env reg_src reg_base offset operation_size)"
  "quiet (asm_xtensa_l32i_optimised env reg_dest reg_base word_offset)"
  by (simp_all add: asm_xtensa_load_reg_reg_offset_def asm_xtensa_store_reg_reg_offset_def asm_xtensa_l32i_optimised_def
      asm_ops quiet_ops quiet_imm quiet_Cons del: asm_seq.simps)

lemma quiet_call: "quiet (asm_xtensa_call_ind env idx)" "quiet (asm_xtensa_call_ind_win env idx)"
  by (simp_all add: asm_xtensa_call_ind_def asm_xtensa_call_ind_win_def asm_ops quiet_ops quiet_access quiet_Cons
      del: asm_seq.simps)

fun xtensa_cost :: "u32 \<Rightarrow> xtensa_op \<Rightarrow> nat" where
  "xtensa_cost N (Xtensa_API (ASM_ENTRY _)) = 20 + unat (N * 4)"
| "xtensa_cost N (Xtensa_API op) = base_cost 17 op"
| "xtensa_cost N _ = 17"

text \<open>
  The operations with the conditions on the table checked: the entry finds a table of \<open>N\<close> words,
  and a constant has a place in it.
\<close>

definition xtensa_checked :: "xtensa_env \<Rightarrow> u32 \<Rightarrow> xtensa_op \<Rightarrow> asm_xtensa_t asm" where
  "xtensa_checked env N op =
     (if xtensa_is_entry op then (\<lambda>s. if num_const s = N then sure (xtensa_exec env op) s else Inl RuntimeError)
      else if xtensa_const env op then with_table (sure (xtensa_exec env op))
      else sure (xtensa_exec env op))"

lemma xtensa_end_ok: "two_pass_ok xtensa_rel xtensa_rel xtensa_lim 17 asm_xtensa_end_pass"
proof -
  have e: "asm_xtensa_end_pass = (\<lambda>s. Inr (s\<lparr>num_const := cur_const s, cur_const := 0\<rparr>))"
    by (simp add: fun_eq_iff asm_xtensa_end_pass_def)
  show ?thesis
    unfolding e by (rule two_pass_update) (simp_all add: keeps_base_def xtensa_rel_def)
qed

lemma quiet_entry: "quiet (xtensa_exec env (Xtensa_API (ASM_ENTRY locals)))"
proof -
  have q: "quiet (\<lambda>s :: asm_xtensa_t. Inr (s\<lparr>stack_adjust := x\<rparr>))" for x by (simp add: quiet_def)
  have "quiet xtensa_entry_consts"
  proof -
    have "quiet (xtensa_consts_seq N)" for N
    proof (cases "N > 0")
      case True
      have "quiet (\<lambda>s :: asm_xtensa_t. case mp_asm_base_get_cur_to_write_bytes (N * 4) s of
            Inl e \<Rightarrow> Inl e | Inr (p, t) \<Rightarrow> Inr (t\<lparr>const_table := p\<rparr>))"
        by (auto simp: quiet_def mp_asm_base_get_cur_to_write_bytes_def split: sum.splits if_splits prod.splits)
      then show ?thesis
        using True unfolding xtensa_consts_seq_def asm_ops
        by (simp add: quiet_Cons quiet_ops quiet_plain [OF xtensa_pad_plain] del: asm_seq.simps)
    qed (simp add: xtensa_consts_seq_def quiet_def)
    then show ?thesis using xtensa_entry_consts_seq [OF refl] by (simp add: quiet_def)
  qed
  then show ?thesis
    using quiet_plain [OF xtensa_entry_frame_plain(1)] quiet_plain [OF xtensa_entry_frame_plain(2)] q
    by (simp add: xtensa_entry_seq Let_def quiet_Cons quiet_ops del: asm_seq.simps)
qed

lemma xtensa_entry_checked:
  "two_pass_ok (xtensa_start N) xtensa_rel xtensa_lim (20 + unat (N * 4))
     (xtensa_checked env N (Xtensa_API (ASM_ENTRY locals)))"
proof -
  have unless: "(\<lambda>s. if num_const s \<noteq> N then Inl RuntimeError else f s) =
      (\<lambda>s. if num_const s = N then f s else Inl RuntimeError)" for f :: "asm_xtensa_t asm"
    by auto
  have "two_pass_ok (xtensa_start N) xtensa_rel xtensa_lim (20 + unat (N * 4))
     (\<lambda>s. if num_const s \<noteq> N then Inl RuntimeError else xtensa_exec env (Xtensa_API (ASM_ENTRY locals)) s)"
    unfolding unless xtensa_exec.simps xtensa_api.simps xtensa_entry_seq Let_def
    using xtensa_entry_ok [OF xtensa_entry_frame_plain(1)] xtensa_entry_ok [OF xtensa_entry_frame_plain(2)]
    by (cases "GENERIC_ASM_API_WIN env") (simp_all only: if_True if_False)
  from two_pass_sure_unless [OF this quiet_entry]
  show ?thesis unfolding xtensa_checked_def unless by (simp del: xtensa_exec.simps)
qed

lemma two_pass_sure_table:
  assumes "table_op k f" "quiet f" "k \<le> 17"
  shows "b \<Longrightarrow> two_pass_ok xtensa_rel xtensa_rel xtensa_lim 17 (with_table (sure f))"
  using two_pass_sure_unless [OF assms(1) [unfolded with_table_def] assms(2)] assms(3)
  by (auto simp: with_table_def intro: two_pass_weaken)

lemma xtensa_sure_plain:
  assumes "plain xtensa_lim k f" "k \<le> 17"
  shows "two_pass_ok xtensa_rel xtensa_rel xtensa_lim 17 (sure f)"
  using plain_sure [OF assms(1) added_rel_xtensa] assms(2) by (rule two_pass_weaken)

lemma xtensa_small_plain:
  "\<not> xtensa_big i32 \<Longrightarrow> plain xtensa_lim 3 (asm_xtensa_mov_reg_i32_optimised env reg_dest i32)"
  "\<not> xtensa_far env offset operation_size \<Longrightarrow>
     plain xtensa_lim 8 (asm_xtensa_load_reg_reg_offset env reg_dest reg_base offset operation_size)"
  "\<not> xtensa_far env offset operation_size \<Longrightarrow>
     plain xtensa_lim 8 (asm_xtensa_store_reg_reg_offset env reg_src reg_base offset operation_size)"
  "\<not> xtensa_far_call idx \<Longrightarrow> plain xtensa_lim 8 (asm_xtensa_l32i_optimised env reg_dest reg_base idx)"
proof -
  have imm: "plain xtensa_lim 3 (asm_xtensa_mov_reg_i32_optimised env reg_dest i32)" if "\<not> xtensa_big i32" for i32 reg_dest
    using that plain_3 xtensa_op_plain(2)
    by (auto simp: asm_xtensa_mov_reg_i32_optimised_def xtensa_big_def asm_ops)
  have far: "plain xtensa_lim 8 (asm_seq [asm_xtensa_mov_reg_i32_optimised env reg_dest i32, asm_xtensa_op16 op, f])"
    if "\<not> xtensa_big i32" "plain xtensa_lim 3 f" for i32 reg_dest op f
    by (rule plain_weaken, (rule plain_sum xtensa_op_plain that imm)+, simp)
  have short: "plain xtensa_lim 8 (asm_xtensa_op16 op)" "plain xtensa_lim 8 (asm_xtensa_op24 op)"
    "plain xtensa_lim 8 (asm_assert False)" for op
    using plain_weaken [OF xtensa_op_plain(1), of 8] plain_weaken [OF xtensa_op_plain(2), of 8]
      plain_fail by simp_all
  show "\<not> xtensa_big i32 \<Longrightarrow> plain xtensa_lim 3 (asm_xtensa_mov_reg_i32_optimised env reg_dest i32)"
    by (rule imm)
  show "\<not> xtensa_far env offset operation_size \<Longrightarrow>
     plain xtensa_lim 8 (asm_xtensa_load_reg_reg_offset env reg_dest reg_base offset operation_size)"
    "\<not> xtensa_far env offset operation_size \<Longrightarrow>
     plain xtensa_lim 8 (asm_xtensa_store_reg_reg_offset env reg_src reg_base offset operation_size)"
    "\<not> xtensa_far_call idx \<Longrightarrow> plain xtensa_lim 8 (asm_xtensa_l32i_optimised env reg_dest reg_base idx)"
    using short far plain_3 xtensa_op_plain(2)
    by (auto simp: asm_xtensa_load_reg_reg_offset_def asm_xtensa_store_reg_reg_offset_def asm_xtensa_l32i_optimised_def
        xtensa_far_def xtensa_far_call_def asm_ops simp del: asm_seq.simps)
qed

lemma xtensa_call_plain:
  assumes "\<not> xtensa_far_call idx"
  shows "plain xtensa_lim 11 (asm_xtensa_call_ind env idx)" "plain xtensa_lim 11 (asm_xtensa_call_ind_win env idx)"
  unfolding asm_xtensa_call_ind_def asm_xtensa_call_ind_win_def asm_ops
  by (rule plain_weaken, (rule plain_sum xtensa_op_plain xtensa_small_plain(4) [OF assms])+, simp)+

lemma xtensa_risc_plain: "plain xtensa_lim 17 (xtensa_risc op)"
  by (cases op; simp only: xtensa_risc.simps asm_ops)
    (rule plain_weaken, (rule plain_sum xtensa_op_plain)+, simp)+

lemma quiet_end: "quiet asm_xtensa_end_pass" "quiet asm_xtensa_exit"
  using quiet_plain [OF xtensa_exit_seq_plain] by (simp_all add: quiet_def asm_xtensa_end_pass_def asm_xtensa_exit_seq)

lemma xtensa_api_ok:
  assumes "\<not> is_ASM_ENTRY op" "base_allowed op"
  shows "xtensa_api_const env op \<Longrightarrow>
      two_pass_ok xtensa_rel xtensa_rel xtensa_lim (base_cost 17 op) (with_table (sure (xtensa_api env op)))"
    and "\<not> xtensa_api_const env op \<Longrightarrow>
      two_pass_ok xtensa_rel xtensa_rel xtensa_lim (base_cost 17 op) (sure (xtensa_api env op))"
proof -
  note p = xtensa_sure_plain
  note table = two_pass_sure_table [OF table_op_imm quiet_imm] two_pass_sure_table [OF table_op_access(1) quiet_access(1)]
    two_pass_sure_table [OF table_op_access(2) quiet_access(2)] two_pass_sure_table [OF table_op_call(1) quiet_call(1)]
    two_pass_sure_table [OF table_op_call(2) quiet_call(2)]
  note rest = xtensa_op_plain [THEN p] xtensa_misc_plain [THEN p] xtensa_j_plain [THEN p] xtensa_pcrel_plain [THEN p]
    xtensa_small_plain [THEN p] xtensa_call_plain [THEN p] xtensa_exit_win_plain [THEN p]
    two_pass_sure [OF xtensa_exit_ok quiet_end(2)] two_pass_sure [OF xtensa_end_ok quiet_end(1)]
    xtensa_bcc_ok [OF added_rel_xtensa, THEN two_pass_weaken]
  show "xtensa_api_const env op \<Longrightarrow>
      two_pass_ok xtensa_rel xtensa_rel xtensa_lim (base_cost 17 op) (with_table (sure (xtensa_api env op)))"
    by (cases op) (simp_all add: table)
  show "\<not> xtensa_api_const env op \<Longrightarrow>
      two_pass_ok xtensa_rel xtensa_rel xtensa_lim (base_cost 17 op) (sure (xtensa_api env op))"
    using assms
    by (cases op) (simp_all add: rest asm_ops plain_base [THEN plain_sure] del: asm_seq.simps base_allowed.simps)
qed

interpretation xtensa: two_pass_assembler "xtensa_checked env N" "xtensa_cost N" xtensa_is_entry xtensa_allowed
  "xtensa_start N" xtensa_rel xtensa_lim for env N
proof unfold_locales
  fix op
  assume op: "xtensa_allowed op"
  show "two_pass_ok (xtensa_start N) xtensa_rel xtensa_lim (xtensa_cost N op) (xtensa_checked env N op)"
    if "xtensa_is_entry op"
    using that xtensa_entry_checked by (cases op rule: xtensa_is_entry.cases) (auto elim!: is_ASM_ENTRY.elims)
  show "two_pass_ok xtensa_rel xtensa_rel xtensa_lim (xtensa_cost N op) (xtensa_checked env N op)"
    if "\<not> xtensa_is_entry op"
  proof (cases op)
    case (Xtensa_API o')
    then have "xtensa_cost N op = base_cost 17 o'" using that by (cases o') simp_all
    then show ?thesis
      using Xtensa_API that op xtensa_api_ok [of o' env] by (simp add: xtensa_checked_def)
  next
    case (Xtensa_RISC o')
    then show ?thesis by (simp add: xtensa_checked_def xtensa_sure_plain [OF xtensa_risc_plain])
  next
    case (Xtensa_SETCC_REG_REG_REG a b c d)
    then show ?thesis by (simp add: xtensa_checked_def xtensa_sure_plain [OF xtensa_misc_plain(2)])
  qed
qed simp_all

section \<open>The number of constants\<close>

definition xtensa_consts :: "xtensa_env \<Rightarrow> xtensa_op list \<Rightarrow> nat" where
  "xtensa_consts env body = length (filter (xtensa_const env) body)"

lemma counts_body:
  assumes "\<forall>op \<in> set body. xtensa_inner op"
  shows "counts (word_of_nat (xtensa_consts env body)) (asm_seq (map (xtensa_exec env) body))"
  using assms
proof (induction body)
  case (Cons op body)
  then have "counts (bit_word (xtensa_const env op)) (xtensa_exec env op)"
    "counts (word_of_nat (xtensa_consts env body)) (asm_seq (map (xtensa_exec env) body))"
    using counts_exec by simp_all
  then show ?case
    unfolding counts_def by (fastforce simp: xtensa_consts_def bit_word_def split: sum.splits)
qed (simp add: counts_def xtensa_consts_def)

lemma counts_entry:
  assumes "xtensa_exec env (Xtensa_API (ASM_ENTRY locals)) s = Inr t"
  shows "in_emit_pass t = in_emit_pass s" "num_const t = num_const s" "cur_const t = cur_const s"
    "code_size t = code_size s" "xtensa_entry_consts s = Inr u \<Longrightarrow> const_table t = const_table u"
proof -
  have frame: "counts 0 (xtensa_entry_frame x)" "counts 0 (xtensa_entry_win_frame x)" for x
    unfolding xtensa_entry_frame_def xtensa_entry_win_frame_def saved_registers list.map asm_ops
    by (rule counts_rules counts_if)+
  obtain u x where u: "xtensa_entry_consts s = Inr u" "asm_seq [xtensa_entry_frame x] (u\<lparr>stack_adjust := x\<rparr>) = Inr t \<or>
      asm_seq [xtensa_entry_win_frame x] (u\<lparr>stack_adjust := x\<rparr>) = Inr t"
    using assms by (auto simp: xtensa_entry_seq Let_def split: if_splits sum.splits)
  have "code_size t = code_size u \<and> in_emit_pass t = in_emit_pass u \<and> num_const t = num_const u \<and>
     const_table t = const_table u \<and> cur_const t = cur_const u"
    using u(2) frame [of x] by (auto simp: counts_def in_emit_pass_def split: sum.splits)
  moreover have "code_size u = code_size s \<and> in_emit_pass u = in_emit_pass s \<and> num_const u = num_const s \<and>
     cur_const u = cur_const s"
  proof -
    have "counts 0 (asm_seq [asm_xtensa_op_j y, reserve_bytes 1])" for y
      unfolding asm_ops by (rule counts_rules)+
    then show ?thesis
      using u(1) unfolding counts_def
      by (fastforce simp: xtensa_entry_consts_def mp_asm_base_get_cur_to_write_bytes_def asm_when_def in_emit_pass_def
          simp del: asm_seq.simps split: sum.splits if_splits prod.splits)
  qed
  ultimately show "in_emit_pass t = in_emit_pass s" "num_const t = num_const s" "cur_const t = cur_const s"
    "code_size t = code_size s" "xtensa_entry_consts s = Inr u \<Longrightarrow> const_table t = const_table u" for u
    using u(1) by auto
qed

text \<open>In the emit pass the entry makes room for the constants the passes before counted.\<close>

definition table_room :: "nat \<Rightarrow> asm_xtensa_t \<Rightarrow> bool" where
  "table_room n s \<longleftrightarrow> n = 0 \<or>
     (case const_table s of
        None \<Rightarrow> False
      | Some off \<Rightarrow> unat off + 4 * (unat (cur_const s) + n) \<le> unat (code_size s))"

lemma entry_table_room:
  assumes "xtensa_exec env (Xtensa_API (ASM_ENTRY locals)) s = Inr t"
    and "in_emit_pass s" "\<not> suppress s" "code_offset s = 0" "cur_const s = 0"
    and "num_const s = word_of_nat n" "n \<le> xtensa_lim"
  shows "table_room n t"
proof (cases "n = 0")
  case False
  let ?N = "word_of_nat n :: u32"
  have n: "unat ?N = n" using assms(7) by (simp add: unat_of_nat)
  then have pos: "?N > 0" using False by (simp add: word_less_nat_alt)
  obtain u where u: "xtensa_consts_seq ?N s = Inr u"
    using assms(1) xtensa_entry_consts_seq [OF assms(6)]
    by (auto simp: xtensa_entry_seq Let_def split: if_splits sum.splits)
  then obtain a b p v where a: "asm_xtensa_op_j (?N * XTENSA_WORD_SIZE + 4 - 4) s = Inr a" "reserve_bytes 1 a = Inr b"
    "mp_asm_base_get_cur_to_write_bytes (?N * 4) b = Inr (p, v)" "u = v\<lparr>const_table := p\<rparr>"
    using pos by (auto simp: xtensa_consts_seq_def split: sum.splits)
  have "code_offset a = 3" "in_emit_pass a" "\<not> suppress a" "code_size a = code_size s"
    using a(1) assms(2-4) emit_bytes_offset emit_bytes_keeps
    by (fastforce simp: asm_ops asm_xtensa_op24_def in_emit_pass_def)+
  then have "code_offset b = 4" "in_emit_pass b" "\<not> suppress b" "code_size b = code_size s"
    using a(2) by (auto simp: reserve_bytes_def ignore_result_def mp_asm_base_get_cur_to_write_bytes_def
        in_emit_pass_def split: if_splits)
  then have p: "p = Some 4" "4 + ?N * 4 \<le> code_size s"
    using a(3) by (auto simp: mp_asm_base_get_cur_to_write_bytes_def split: if_splits)
  have "unat (word_of_nat (4 + n * 4) :: u32) = 4 + n * 4"
    using assms(7) by (simp only: unat_of_nat) simp
  then have "unat (4 + ?N * 4) = 4 + n * 4" by (simp add: algebra_simps)
  with p have "4 + n * 4 \<le> unat (code_size s)" by (simp add: word_le_nat_alt)
  moreover have "const_table t = Some 4"
    using counts_entry(5) [OF assms(1)] xtensa_entry_consts_seq [OF assms(6)] u a(4) p(1) by simp
  ultimately show ?thesis
    using counts_entry(3,4) [OF assms(1)] assms(5) by (simp add: table_room_def)
qed (simp add: table_room_def)

lemma checked_body:
  assumes "\<forall>op \<in> set body. xtensa_inner op" "in_emit_pass s \<Longrightarrow> table_room (xtensa_consts env body) s"
  shows "asm_seq (map (xtensa_checked env N) body) s = asm_seq (map (\<lambda>op. sure (xtensa_exec env op)) body) s"
  using assms
proof (induction body arbitrary: s)
  case (Cons op body)
  have inner: "xtensa_inner op" using Cons.prems(1) by simp
  then have op: "xtensa_checked env N op s = sure (xtensa_exec env op) s"
    using Cons.prems(2)
    by (auto simp: xtensa_checked_def xtensa_inner_def with_table_def table_ok_def table_room_def xtensa_consts_def
        split: option.splits)
  show ?case
  proof (cases "xtensa_exec env op s")
    case (Inr t)
    have c: "counts (bit_word (xtensa_const env op)) (xtensa_exec env op)" using inner by (rule counts_exec)
    have "table_room (xtensa_consts env body) t" if "in_emit_pass t"
    proof -
      have t: "code_size t = code_size s" "in_emit_pass s" "const_table t = const_table s"
        "cur_const t = cur_const s + bit_word (xtensa_const env op)"
        using c Inr that unfolding counts_def by auto
      have "unat (cur_const s + 1) \<le> unat (cur_const s) + 1" by (simp add: unat_word_ariths)
      then have "unat (cur_const t) + xtensa_consts env body \<le> unat (cur_const s) + xtensa_consts env (op # body)"
        using t(4) by (auto simp: bit_word_def xtensa_consts_def)
      moreover have "xtensa_consts env body \<le> xtensa_consts env (op # body)" by (simp add: xtensa_consts_def)
      ultimately show ?thesis using Cons.prems(2) [OF t(2)] t(1,3)
        by (fastforce simp: table_room_def split: option.splits)
    qed
    then show ?thesis using Cons.IH [of t] Cons.prems(1) op Inr by (simp add: sure_def)
  qed (simp add: op sure_def)
qed simp

section \<open>The theorem\<close>

text \<open>A function: an entry, the operations of its body, and the end of the pass.\<close>

definition xtensa_function :: "u32 \<Rightarrow> xtensa_op list \<Rightarrow> xtensa_op list" where
  "xtensa_function locals body = Xtensa_API (ASM_ENTRY locals) # body @ [Xtensa_API ASM_END_PASS]"

definition xtensa_function_cost :: "xtensa_env \<Rightarrow> u32 \<Rightarrow> xtensa_op list \<Rightarrow> nat" where
  "xtensa_function_cost env locals body =
     sum_list (map (xtensa_cost (word_of_nat (xtensa_consts env body))) (xtensa_function locals body))"

lemma xtensa_const_cost: "xtensa_const env op \<Longrightarrow> 1 \<le> xtensa_cost N op"
proof (cases op)
  case (Xtensa_API o')
  then show "xtensa_const env op \<Longrightarrow> 1 \<le> xtensa_cost N op" by (cases o') simp_all
qed simp_all

lemma xtensa_consts_bound: "xtensa_consts env body \<le> xtensa_function_cost env locals body"
proof -
  have "length (filter (xtensa_const env) body) \<le> sum_list (map (xtensa_cost N) body)" for N
  proof (induction body)
    case (Cons op body)
    then show ?case using xtensa_const_cost [of env op N] by auto
  qed simp
  then show ?thesis
    by (simp add: xtensa_consts_def xtensa_function_cost_def xtensa_function_def trans_le_add1 trans_le_add2)
qed

text \<open>A pass counts its constants and leaves the number to the next one.\<close>

lemma xtensa_pass_counts:
  assumes "\<forall>op \<in> set body. xtensa_inner op" "cur_const s = 0"
    and "run_pass alloc (xtensa_exec env) (xtensa_function locals body) p s = Inr t"
  shows "num_const t = word_of_nat (xtensa_consts env body)" "cur_const t = 0"
proof -
  obtain a where a: "mp_asm_base_start_pass alloc p s = Inr a"
    "asm_seq (map (xtensa_exec env) (xtensa_function locals body)) a = Inr t"
    using assms(3) by (auto simp: run_pass_def split: sum.splits)
  then obtain b c where b: "xtensa_exec env (Xtensa_API (ASM_ENTRY locals)) a = Inr b"
    "asm_seq (map (xtensa_exec env) body) b = Inr c" "asm_xtensa_end_pass c = Inr t"
    by (auto simp: xtensa_function_def asm_seq_append split: sum.splits)
  have "cur_const a = 0"
    using a(1) assms(2) by (auto simp: mp_asm_base_start_pass_def split: if_splits prod.splits)
  then have "cur_const c = word_of_nat (xtensa_consts env body)"
    using counts_entry(3) [OF b(1)] counts_body [OF assms(1)] b(2) unfolding counts_def by fastforce
  then show "num_const t = word_of_nat (xtensa_consts env body)" "cur_const t = 0"
    using b(3) by (auto simp: asm_xtensa_end_pass_def)
qed

lemma xtensa_checked_run:
  assumes "\<forall>op \<in> set body. xtensa_inner op" "num_const s = word_of_nat (xtensa_consts env body)" "cur_const s = 0"
    and "xtensa_consts env body \<le> xtensa_lim"
    and "in_emit_pass s \<Longrightarrow> \<not> suppress s \<and> code_offset s = 0"
  shows "asm_seq (map (xtensa_checked env (num_const s)) (xtensa_function locals body)) s =
     asm_seq (map (\<lambda>op. sure (xtensa_exec env op)) (xtensa_function locals body)) s"
proof -
  let ?entry = "Xtensa_API (ASM_ENTRY locals)"
  have e: "xtensa_checked env (num_const s) ?entry s = sure (xtensa_exec env ?entry) s"
    by (simp add: xtensa_checked_def)
  have "asm_seq (map (xtensa_checked env N) body) t = asm_seq (map (\<lambda>op. sure (xtensa_exec env op)) body) t"
    if "xtensa_exec env ?entry s = Inr t" for t N
  proof (rule checked_body [OF assms(1)])
    assume "in_emit_pass t"
    then have "in_emit_pass s" using counts_entry(1) [OF that] by simp
    then show "table_room (xtensa_consts env body) t"
      using entry_table_room [OF that] assms by blast
  qed
  moreover have "xtensa_checked env N (Xtensa_API ASM_END_PASS) = sure (xtensa_exec env (Xtensa_API ASM_END_PASS))" for N
    by (simp add: xtensa_checked_def)
  ultimately show ?thesis
    using e by (simp add: xtensa_function_def asm_seq_append sure_def del: xtensa_exec.simps split: sum.split)
qed


definition xtensa_demo_env :: xtensa_env where
  "xtensa_demo_env = \<lparr>MP_ENDIANNESS_LITTLE = True,
     mp_popcount = (\<lambda>x. word_of_nat (count_ones x)),
     mp_clz = (\<lambda>x. word_of_nat (count_leading_zeros x)),
     mp_ctz = (\<lambda>x. word_of_nat (count_trailing_zeros x)),
     MP_FIT_SIGNED = fits_signed, MP_FIT_UNSIGNED = fits_unsigned,
     N_XTENSAWIN = False, GENERIC_ASM_API_WIN = False, code_base_address = 0x40100000\<rparr>"

definition xtensa_demo_state :: asm_xtensa_t where
  "xtensa_demo_state = \<lparr>pass = 0, suppress = False, code_offset = 0, code_size = 0,
     code_base = None, max_num_labels = 2, label_offsets = [0, 0],
     cur_const = 0, num_const = 0, const_table = None, stack_adjust = 0\<rparr>"

definition xtensa_demo_body :: "xtensa_op list" where
  "xtensa_demo_body = map Xtensa_API
     [Base_label_assign 0, ASM_MOV_REG_IMM 3 0x12345, ASM_CALL_IND 600, ASM_JUMP_IF_REG_ZERO 0 1 True, ASM_JUMP 0,
      Base_label_assign 1, ASM_MOV_LOCAL_REG 255 2, ASM_EXIT]"

abbreviation xtensa_demo_pass :: "int \<Rightarrow> asm_xtensa_t asm" where
  "xtensa_demo_pass \<equiv> run_pass exact_alloc (xtensa_exec xtensa_demo_env) (xtensa_function 20 xtensa_demo_body)"

lemma xtensa_demo_computes:
  "case xtensa_demo_pass MP_ASM_PASS_COMPUTE xtensa_demo_state of
     Inl e \<Rightarrow> False
   | Inr c1 \<Rightarrow> (case xtensa_demo_pass MP_ASM_PASS_COMPUTE c1 of Inl e \<Rightarrow> False | Inr c \<Rightarrow> num_const c = 2)"
  by code_simp

lemma xtensa_demo_consts: "xtensa_consts xtensa_demo_env xtensa_demo_body = 2"
  by code_simp

lemma xtensa_demo_ok:
  "\<forall>op \<in> set xtensa_demo_body. xtensa_inner op"
  "xtensa_function_cost xtensa_demo_env 20 xtensa_demo_body \<le> xtensa_lim"
proof -
  show "\<forall>op \<in> set xtensa_demo_body. xtensa_inner op"
    by (simp add: xtensa_demo_body_def xtensa_inner_def)
  show "xtensa_function_cost xtensa_demo_env 20 xtensa_demo_body \<le> xtensa_lim"
    unfolding xtensa_function_cost_def xtensa_demo_consts by (simp add: xtensa_function_def xtensa_demo_body_def)
qed


end
