(* ===== verification/BPF_Constants.thy ===== *)
theory BPF_Constants
  imports Prelude
begin

text \<open>
  The fields of a BPF instruction code, \<open>src/bank/Capstone-Arch/BPF/BPFConstants.h\<close>: masks for
  class, operation, source, size and mode, and their values. An instruction code is held in 32
  bits, as C promotes it.
\<close>

named_theorems bpf_consts \<open>the numeric values of the BPF macros\<close>
named_theorems bpf_fields \<open>the fields of an instruction code\<close>

definition BPF_CLASS :: "u32 \<Rightarrow> u32" where
  [bpf_fields]: "BPF_CLASS code = code AND 0x7"

definition BPF_CLASS_LD :: u32 where [bpf_consts]: "BPF_CLASS_LD = 0x00"
definition BPF_CLASS_LDX :: u32 where [bpf_consts]: "BPF_CLASS_LDX = 0x01"
definition BPF_CLASS_ST :: u32 where [bpf_consts]: "BPF_CLASS_ST = 0x02"
definition BPF_CLASS_STX :: u32 where [bpf_consts]: "BPF_CLASS_STX = 0x03"
definition BPF_CLASS_ALU :: u32 where [bpf_consts]: "BPF_CLASS_ALU = 0x04"
definition BPF_CLASS_JMP :: u32 where [bpf_consts]: "BPF_CLASS_JMP = 0x05"
definition BPF_CLASS_RET :: u32 where [bpf_consts]: "BPF_CLASS_RET = 0x06"
definition BPF_CLASS_JMP32 :: u32 where [bpf_consts]: "BPF_CLASS_JMP32 = 0x06"
definition BPF_CLASS_MISC :: u32 where [bpf_consts]: "BPF_CLASS_MISC = 0x07"
definition BPF_CLASS_ALU64 :: u32 where [bpf_consts]: "BPF_CLASS_ALU64 = 0x07"

definition BPF_OP :: "u32 \<Rightarrow> u32" where
  [bpf_fields]: "BPF_OP code = code AND 0xf0"

definition BPF_ALU_ADD :: u32 where [bpf_consts]: "BPF_ALU_ADD = 0x00"
definition BPF_ALU_SUB :: u32 where [bpf_consts]: "BPF_ALU_SUB = 0x10"
definition BPF_ALU_MUL :: u32 where [bpf_consts]: "BPF_ALU_MUL = 0x20"
definition BPF_ALU_DIV :: u32 where [bpf_consts]: "BPF_ALU_DIV = 0x30"
definition BPF_ALU_OR :: u32 where [bpf_consts]: "BPF_ALU_OR = 0x40"
definition BPF_ALU_AND :: u32 where [bpf_consts]: "BPF_ALU_AND = 0x50"
definition BPF_ALU_LSH :: u32 where [bpf_consts]: "BPF_ALU_LSH = 0x60"
definition BPF_ALU_RSH :: u32 where [bpf_consts]: "BPF_ALU_RSH = 0x70"
definition BPF_ALU_NEG :: u32 where [bpf_consts]: "BPF_ALU_NEG = 0x80"
definition BPF_ALU_MOD :: u32 where [bpf_consts]: "BPF_ALU_MOD = 0x90"
definition BPF_ALU_XOR :: u32 where [bpf_consts]: "BPF_ALU_XOR = 0xa0"
definition BPF_ALU_MOV :: u32 where [bpf_consts]: "BPF_ALU_MOV = 0xb0"
definition BPF_ALU_ARSH :: u32 where [bpf_consts]: "BPF_ALU_ARSH = 0xc0"
definition BPF_ALU_END :: u32 where [bpf_consts]: "BPF_ALU_END = 0xd0"
definition BPF_JUMP_JA :: u32 where [bpf_consts]: "BPF_JUMP_JA = 0x00"
definition BPF_JUMP_JEQ :: u32 where [bpf_consts]: "BPF_JUMP_JEQ = 0x10"
definition BPF_JUMP_JGT :: u32 where [bpf_consts]: "BPF_JUMP_JGT = 0x20"
definition BPF_JUMP_JGE :: u32 where [bpf_consts]: "BPF_JUMP_JGE = 0x30"
definition BPF_JUMP_JSET :: u32 where [bpf_consts]: "BPF_JUMP_JSET = 0x40"
definition BPF_JUMP_JNE :: u32 where [bpf_consts]: "BPF_JUMP_JNE = 0x50"
definition BPF_JUMP_JSGT :: u32 where [bpf_consts]: "BPF_JUMP_JSGT = 0x60"
definition BPF_JUMP_JSGE :: u32 where [bpf_consts]: "BPF_JUMP_JSGE = 0x70"
definition BPF_JUMP_CALL :: u32 where [bpf_consts]: "BPF_JUMP_CALL = 0x80"
definition BPF_JUMP_EXIT :: u32 where [bpf_consts]: "BPF_JUMP_EXIT = 0x90"
definition BPF_JUMP_JLT :: u32 where [bpf_consts]: "BPF_JUMP_JLT = 0xa0"
definition BPF_JUMP_JLE :: u32 where [bpf_consts]: "BPF_JUMP_JLE = 0xb0"
definition BPF_JUMP_JSLT :: u32 where [bpf_consts]: "BPF_JUMP_JSLT = 0xc0"
definition BPF_JUMP_JSLE :: u32 where [bpf_consts]: "BPF_JUMP_JSLE = 0xd0"
definition BPF_ATOMIC_XCHG :: u32 where [bpf_consts]: "BPF_ATOMIC_XCHG = 0xe0"
definition BPF_ATOMIC_CMPXCHG :: u32 where [bpf_consts]: "BPF_ATOMIC_CMPXCHG = 0xf0"

definition BPF_SRC :: "u32 \<Rightarrow> u32" where
  [bpf_fields]: "BPF_SRC code = code AND 0x08"

definition BPF_RVAL :: "u32 \<Rightarrow> u32" where
  [bpf_fields]: "BPF_RVAL code = code AND 0x18"

definition BPF_SRC_K :: u32 where [bpf_consts]: "BPF_SRC_K = 0x00"
definition BPF_SRC_X :: u32 where [bpf_consts]: "BPF_SRC_X = 0x08"
definition BPF_SRC_A :: u32 where [bpf_consts]: "BPF_SRC_A = 0x10"
definition BPF_SRC_LITTLE :: u32 where [bpf_consts]: "BPF_SRC_LITTLE = BPF_SRC_K"
definition BPF_SRC_BIG :: u32 where [bpf_consts]: "BPF_SRC_BIG = BPF_SRC_X"

definition BPF_SIZE :: "u32 \<Rightarrow> u32" where
  [bpf_fields]: "BPF_SIZE code = code AND 0x18"

definition BPF_SIZE_W :: u32 where [bpf_consts]: "BPF_SIZE_W = 0x00"
definition BPF_SIZE_H :: u32 where [bpf_consts]: "BPF_SIZE_H = 0x08"
definition BPF_SIZE_B :: u32 where [bpf_consts]: "BPF_SIZE_B = 0x10"
definition BPF_SIZE_DW :: u32 where [bpf_consts]: "BPF_SIZE_DW = 0x18"

definition BPF_MODE :: "u32 \<Rightarrow> u32" where
  [bpf_fields]: "BPF_MODE code = code AND 0xe0"

definition BPF_MODE_IMM :: u32 where [bpf_consts]: "BPF_MODE_IMM = 0x00"
definition BPF_MODE_ABS :: u32 where [bpf_consts]: "BPF_MODE_ABS = 0x20"
definition BPF_MODE_IND :: u32 where [bpf_consts]: "BPF_MODE_IND = 0x40"
definition BPF_MODE_MEM :: u32 where [bpf_consts]: "BPF_MODE_MEM = 0x60"
definition BPF_MODE_LEN :: u32 where [bpf_consts]: "BPF_MODE_LEN = 0x80"
definition BPF_MODE_MSH :: u32 where [bpf_consts]: "BPF_MODE_MSH = 0xa0"
definition BPF_MODE_ATOMIC :: u32 where [bpf_consts]: "BPF_MODE_ATOMIC = 0xc0"
definition BPF_MODE_FETCH :: u32 where [bpf_consts]: "BPF_MODE_FETCH = 0x01"

definition BPF_MISCOP :: "u32 \<Rightarrow> u32" where
  [bpf_fields]: "BPF_MISCOP code = code AND 0x80"

definition BPF_MISCOP_TAX :: u32 where [bpf_consts]: "BPF_MISCOP_TAX = 0x00"
definition BPF_MISCOP_TXA :: u32 where [bpf_consts]: "BPF_MISCOP_TXA = 0x80"

end
