(* ===== verification/BPF_Disassembler.thy ===== *)
theory BPF_Disassembler
  imports BPF_Constants
begin

text \<open>
  The BPF disassembler of Capstone, \<open>src/bank/Capstone-Arch/BPF/BPFDisassembler.c\<close>: an
  instruction is fetched into a \<open>bpf_internal\<close>, checked and turned into operands, and given an
  instruction id, groups and implicit register accesses. Both modes are covered, classic BPF and
  extended BPF (eBPF).
\<close>

section \<open>What the files use of the framework\<close>

text \<open>Instruction ids, by family, under the names of the enumerators of the source, and groups.\<close>

datatype bpf_alu =
    A_ADD | A_SUB | A_MUL | A_DIV | A_SDIV | A_OR | A_AND | A_LSH | A_RSH
  | A_NEG | A_MOD | A_SMOD | A_XOR | A_MOV | A_MOVSB | A_MOVSH | A_MOVSW | A_ARSH

datatype bpf_jmp =
    J_JA | J_JEQ | J_JGT | J_JGE | J_JSET | J_JNE | J_JSGT | J_JSGE | J_JLT | J_JLE | J_JSLT | J_JSLE

datatype bpf_width = Z_W | Z_H | Z_B | Z_DW

datatype bpf_swap = S_LE | S_BE | S_BSWAP

datatype bpf_insn =
    Insn_invalid
  | Insn_alu bpf_alu
  | Insn_alu64 bpf_alu
  | Insn_swap bpf_swap nat
  | Insn_ld bpf_width
  | Insn_ldx bpf_width
  | Insn_ldabs bpf_width
  | Insn_ldind bpf_width
  | Insn_st bpf_width
  | Insn_stx bpf_width
  | Insn_xadd bpf_width
  | Insn_jmp bpf_jmp
  | Insn_jmp32 bpf_jmp
  | Insn_call
  | Insn_callx
  | Insn_exit
  | Insn_ret
  | Insn_atomic bool bpf_alu
  | Insn_atomic64 bool bpf_alu
  | Insn_axchg64
  | Insn_acmpxchg64
  | Insn_tax
  | Insn_txa

abbreviation BPF_INS_INVALID :: bpf_insn where "BPF_INS_INVALID \<equiv> Insn_invalid"
abbreviation BPF_INS_ADD :: bpf_insn where "BPF_INS_ADD \<equiv> Insn_alu A_ADD"
abbreviation BPF_INS_SUB :: bpf_insn where "BPF_INS_SUB \<equiv> Insn_alu A_SUB"
abbreviation BPF_INS_MUL :: bpf_insn where "BPF_INS_MUL \<equiv> Insn_alu A_MUL"
abbreviation BPF_INS_DIV :: bpf_insn where "BPF_INS_DIV \<equiv> Insn_alu A_DIV"
abbreviation BPF_INS_SDIV :: bpf_insn where "BPF_INS_SDIV \<equiv> Insn_alu A_SDIV"
abbreviation BPF_INS_OR :: bpf_insn where "BPF_INS_OR \<equiv> Insn_alu A_OR"
abbreviation BPF_INS_AND :: bpf_insn where "BPF_INS_AND \<equiv> Insn_alu A_AND"
abbreviation BPF_INS_LSH :: bpf_insn where "BPF_INS_LSH \<equiv> Insn_alu A_LSH"
abbreviation BPF_INS_RSH :: bpf_insn where "BPF_INS_RSH \<equiv> Insn_alu A_RSH"
abbreviation BPF_INS_NEG :: bpf_insn where "BPF_INS_NEG \<equiv> Insn_alu A_NEG"
abbreviation BPF_INS_MOD :: bpf_insn where "BPF_INS_MOD \<equiv> Insn_alu A_MOD"
abbreviation BPF_INS_SMOD :: bpf_insn where "BPF_INS_SMOD \<equiv> Insn_alu A_SMOD"
abbreviation BPF_INS_XOR :: bpf_insn where "BPF_INS_XOR \<equiv> Insn_alu A_XOR"
abbreviation BPF_INS_MOV :: bpf_insn where "BPF_INS_MOV \<equiv> Insn_alu A_MOV"
abbreviation BPF_INS_MOVSB :: bpf_insn where "BPF_INS_MOVSB \<equiv> Insn_alu A_MOVSB"
abbreviation BPF_INS_MOVSH :: bpf_insn where "BPF_INS_MOVSH \<equiv> Insn_alu A_MOVSH"
abbreviation BPF_INS_ARSH :: bpf_insn where "BPF_INS_ARSH \<equiv> Insn_alu A_ARSH"
abbreviation BPF_INS_ADD64 :: bpf_insn where "BPF_INS_ADD64 \<equiv> Insn_alu64 A_ADD"
abbreviation BPF_INS_SUB64 :: bpf_insn where "BPF_INS_SUB64 \<equiv> Insn_alu64 A_SUB"
abbreviation BPF_INS_MUL64 :: bpf_insn where "BPF_INS_MUL64 \<equiv> Insn_alu64 A_MUL"
abbreviation BPF_INS_DIV64 :: bpf_insn where "BPF_INS_DIV64 \<equiv> Insn_alu64 A_DIV"
abbreviation BPF_INS_SDIV64 :: bpf_insn where "BPF_INS_SDIV64 \<equiv> Insn_alu64 A_SDIV"
abbreviation BPF_INS_OR64 :: bpf_insn where "BPF_INS_OR64 \<equiv> Insn_alu64 A_OR"
abbreviation BPF_INS_AND64 :: bpf_insn where "BPF_INS_AND64 \<equiv> Insn_alu64 A_AND"
abbreviation BPF_INS_LSH64 :: bpf_insn where "BPF_INS_LSH64 \<equiv> Insn_alu64 A_LSH"
abbreviation BPF_INS_RSH64 :: bpf_insn where "BPF_INS_RSH64 \<equiv> Insn_alu64 A_RSH"
abbreviation BPF_INS_NEG64 :: bpf_insn where "BPF_INS_NEG64 \<equiv> Insn_alu64 A_NEG"
abbreviation BPF_INS_MOD64 :: bpf_insn where "BPF_INS_MOD64 \<equiv> Insn_alu64 A_MOD"
abbreviation BPF_INS_SMOD64 :: bpf_insn where "BPF_INS_SMOD64 \<equiv> Insn_alu64 A_SMOD"
abbreviation BPF_INS_XOR64 :: bpf_insn where "BPF_INS_XOR64 \<equiv> Insn_alu64 A_XOR"
abbreviation BPF_INS_MOV64 :: bpf_insn where "BPF_INS_MOV64 \<equiv> Insn_alu64 A_MOV"
abbreviation BPF_INS_MOVSB64 :: bpf_insn where "BPF_INS_MOVSB64 \<equiv> Insn_alu64 A_MOVSB"
abbreviation BPF_INS_MOVSH64 :: bpf_insn where "BPF_INS_MOVSH64 \<equiv> Insn_alu64 A_MOVSH"
abbreviation BPF_INS_MOVSW64 :: bpf_insn where "BPF_INS_MOVSW64 \<equiv> Insn_alu64 A_MOVSW"
abbreviation BPF_INS_ARSH64 :: bpf_insn where "BPF_INS_ARSH64 \<equiv> Insn_alu64 A_ARSH"
abbreviation BPF_INS_LE16 :: bpf_insn where "BPF_INS_LE16 \<equiv> Insn_swap S_LE 16"
abbreviation BPF_INS_LE32 :: bpf_insn where "BPF_INS_LE32 \<equiv> Insn_swap S_LE 32"
abbreviation BPF_INS_LE64 :: bpf_insn where "BPF_INS_LE64 \<equiv> Insn_swap S_LE 64"
abbreviation BPF_INS_BE16 :: bpf_insn where "BPF_INS_BE16 \<equiv> Insn_swap S_BE 16"
abbreviation BPF_INS_BE32 :: bpf_insn where "BPF_INS_BE32 \<equiv> Insn_swap S_BE 32"
abbreviation BPF_INS_BE64 :: bpf_insn where "BPF_INS_BE64 \<equiv> Insn_swap S_BE 64"
abbreviation BPF_INS_BSWAP16 :: bpf_insn where "BPF_INS_BSWAP16 \<equiv> Insn_swap S_BSWAP 16"
abbreviation BPF_INS_BSWAP32 :: bpf_insn where "BPF_INS_BSWAP32 \<equiv> Insn_swap S_BSWAP 32"
abbreviation BPF_INS_BSWAP64 :: bpf_insn where "BPF_INS_BSWAP64 \<equiv> Insn_swap S_BSWAP 64"
abbreviation BPF_INS_LDW :: bpf_insn where "BPF_INS_LDW \<equiv> Insn_ld Z_W"
abbreviation BPF_INS_LDH :: bpf_insn where "BPF_INS_LDH \<equiv> Insn_ld Z_H"
abbreviation BPF_INS_LDB :: bpf_insn where "BPF_INS_LDB \<equiv> Insn_ld Z_B"
abbreviation BPF_INS_LDDW :: bpf_insn where "BPF_INS_LDDW \<equiv> Insn_ld Z_DW"
abbreviation BPF_INS_LDXW :: bpf_insn where "BPF_INS_LDXW \<equiv> Insn_ldx Z_W"
abbreviation BPF_INS_LDXH :: bpf_insn where "BPF_INS_LDXH \<equiv> Insn_ldx Z_H"
abbreviation BPF_INS_LDXB :: bpf_insn where "BPF_INS_LDXB \<equiv> Insn_ldx Z_B"
abbreviation BPF_INS_LDXDW :: bpf_insn where "BPF_INS_LDXDW \<equiv> Insn_ldx Z_DW"
abbreviation BPF_INS_LDABSW :: bpf_insn where "BPF_INS_LDABSW \<equiv> Insn_ldabs Z_W"
abbreviation BPF_INS_LDABSH :: bpf_insn where "BPF_INS_LDABSH \<equiv> Insn_ldabs Z_H"
abbreviation BPF_INS_LDABSB :: bpf_insn where "BPF_INS_LDABSB \<equiv> Insn_ldabs Z_B"
abbreviation BPF_INS_LDINDW :: bpf_insn where "BPF_INS_LDINDW \<equiv> Insn_ldind Z_W"
abbreviation BPF_INS_LDINDH :: bpf_insn where "BPF_INS_LDINDH \<equiv> Insn_ldind Z_H"
abbreviation BPF_INS_LDINDB :: bpf_insn where "BPF_INS_LDINDB \<equiv> Insn_ldind Z_B"
abbreviation BPF_INS_STW :: bpf_insn where "BPF_INS_STW \<equiv> Insn_st Z_W"
abbreviation BPF_INS_STH :: bpf_insn where "BPF_INS_STH \<equiv> Insn_st Z_H"
abbreviation BPF_INS_STB :: bpf_insn where "BPF_INS_STB \<equiv> Insn_st Z_B"
abbreviation BPF_INS_STDW :: bpf_insn where "BPF_INS_STDW \<equiv> Insn_st Z_DW"
abbreviation BPF_INS_STXW :: bpf_insn where "BPF_INS_STXW \<equiv> Insn_stx Z_W"
abbreviation BPF_INS_STXH :: bpf_insn where "BPF_INS_STXH \<equiv> Insn_stx Z_H"
abbreviation BPF_INS_STXB :: bpf_insn where "BPF_INS_STXB \<equiv> Insn_stx Z_B"
abbreviation BPF_INS_STXDW :: bpf_insn where "BPF_INS_STXDW \<equiv> Insn_stx Z_DW"
abbreviation BPF_INS_XADDW :: bpf_insn where "BPF_INS_XADDW \<equiv> Insn_xadd Z_W"
abbreviation BPF_INS_XADDDW :: bpf_insn where "BPF_INS_XADDDW \<equiv> Insn_xadd Z_DW"
abbreviation BPF_INS_JA :: bpf_insn where "BPF_INS_JA \<equiv> Insn_jmp J_JA"
abbreviation BPF_INS_JEQ :: bpf_insn where "BPF_INS_JEQ \<equiv> Insn_jmp J_JEQ"
abbreviation BPF_INS_JGT :: bpf_insn where "BPF_INS_JGT \<equiv> Insn_jmp J_JGT"
abbreviation BPF_INS_JGE :: bpf_insn where "BPF_INS_JGE \<equiv> Insn_jmp J_JGE"
abbreviation BPF_INS_JSET :: bpf_insn where "BPF_INS_JSET \<equiv> Insn_jmp J_JSET"
abbreviation BPF_INS_JNE :: bpf_insn where "BPF_INS_JNE \<equiv> Insn_jmp J_JNE"
abbreviation BPF_INS_JSGT :: bpf_insn where "BPF_INS_JSGT \<equiv> Insn_jmp J_JSGT"
abbreviation BPF_INS_JSGE :: bpf_insn where "BPF_INS_JSGE \<equiv> Insn_jmp J_JSGE"
abbreviation BPF_INS_CALL :: bpf_insn where "BPF_INS_CALL \<equiv> Insn_call"
abbreviation BPF_INS_CALLX :: bpf_insn where "BPF_INS_CALLX \<equiv> Insn_callx"
abbreviation BPF_INS_EXIT :: bpf_insn where "BPF_INS_EXIT \<equiv> Insn_exit"
abbreviation BPF_INS_JLT :: bpf_insn where "BPF_INS_JLT \<equiv> Insn_jmp J_JLT"
abbreviation BPF_INS_JLE :: bpf_insn where "BPF_INS_JLE \<equiv> Insn_jmp J_JLE"
abbreviation BPF_INS_JSLT :: bpf_insn where "BPF_INS_JSLT \<equiv> Insn_jmp J_JSLT"
abbreviation BPF_INS_JSLE :: bpf_insn where "BPF_INS_JSLE \<equiv> Insn_jmp J_JSLE"
abbreviation BPF_INS_JAL :: bpf_insn where "BPF_INS_JAL \<equiv> Insn_jmp32 J_JA"
abbreviation BPF_INS_JEQ32 :: bpf_insn where "BPF_INS_JEQ32 \<equiv> Insn_jmp32 J_JEQ"
abbreviation BPF_INS_JGT32 :: bpf_insn where "BPF_INS_JGT32 \<equiv> Insn_jmp32 J_JGT"
abbreviation BPF_INS_JGE32 :: bpf_insn where "BPF_INS_JGE32 \<equiv> Insn_jmp32 J_JGE"
abbreviation BPF_INS_JSET32 :: bpf_insn where "BPF_INS_JSET32 \<equiv> Insn_jmp32 J_JSET"
abbreviation BPF_INS_JNE32 :: bpf_insn where "BPF_INS_JNE32 \<equiv> Insn_jmp32 J_JNE"
abbreviation BPF_INS_JSGT32 :: bpf_insn where "BPF_INS_JSGT32 \<equiv> Insn_jmp32 J_JSGT"
abbreviation BPF_INS_JSGE32 :: bpf_insn where "BPF_INS_JSGE32 \<equiv> Insn_jmp32 J_JSGE"
abbreviation BPF_INS_JLT32 :: bpf_insn where "BPF_INS_JLT32 \<equiv> Insn_jmp32 J_JLT"
abbreviation BPF_INS_JLE32 :: bpf_insn where "BPF_INS_JLE32 \<equiv> Insn_jmp32 J_JLE"
abbreviation BPF_INS_JSLT32 :: bpf_insn where "BPF_INS_JSLT32 \<equiv> Insn_jmp32 J_JSLT"
abbreviation BPF_INS_JSLE32 :: bpf_insn where "BPF_INS_JSLE32 \<equiv> Insn_jmp32 J_JSLE"
abbreviation BPF_INS_RET :: bpf_insn where "BPF_INS_RET \<equiv> Insn_ret"
abbreviation BPF_INS_AADD :: bpf_insn where "BPF_INS_AADD \<equiv> Insn_atomic False A_ADD"
abbreviation BPF_INS_AOR :: bpf_insn where "BPF_INS_AOR \<equiv> Insn_atomic False A_OR"
abbreviation BPF_INS_AAND :: bpf_insn where "BPF_INS_AAND \<equiv> Insn_atomic False A_AND"
abbreviation BPF_INS_AXOR :: bpf_insn where "BPF_INS_AXOR \<equiv> Insn_atomic False A_XOR"
abbreviation BPF_INS_AFADD :: bpf_insn where "BPF_INS_AFADD \<equiv> Insn_atomic True A_ADD"
abbreviation BPF_INS_AFOR :: bpf_insn where "BPF_INS_AFOR \<equiv> Insn_atomic True A_OR"
abbreviation BPF_INS_AFAND :: bpf_insn where "BPF_INS_AFAND \<equiv> Insn_atomic True A_AND"
abbreviation BPF_INS_AFXOR :: bpf_insn where "BPF_INS_AFXOR \<equiv> Insn_atomic True A_XOR"
abbreviation BPF_INS_AXCHG64 :: bpf_insn where "BPF_INS_AXCHG64 \<equiv> Insn_axchg64"
abbreviation BPF_INS_ACMPXCHG64 :: bpf_insn where "BPF_INS_ACMPXCHG64 \<equiv> Insn_acmpxchg64"
abbreviation BPF_INS_AADD64 :: bpf_insn where "BPF_INS_AADD64 \<equiv> Insn_atomic64 False A_ADD"
abbreviation BPF_INS_AOR64 :: bpf_insn where "BPF_INS_AOR64 \<equiv> Insn_atomic64 False A_OR"
abbreviation BPF_INS_AAND64 :: bpf_insn where "BPF_INS_AAND64 \<equiv> Insn_atomic64 False A_AND"
abbreviation BPF_INS_AXOR64 :: bpf_insn where "BPF_INS_AXOR64 \<equiv> Insn_atomic64 False A_XOR"
abbreviation BPF_INS_AFADD64 :: bpf_insn where "BPF_INS_AFADD64 \<equiv> Insn_atomic64 True A_ADD"
abbreviation BPF_INS_AFOR64 :: bpf_insn where "BPF_INS_AFOR64 \<equiv> Insn_atomic64 True A_OR"
abbreviation BPF_INS_AFAND64 :: bpf_insn where "BPF_INS_AFAND64 \<equiv> Insn_atomic64 True A_AND"
abbreviation BPF_INS_AFXOR64 :: bpf_insn where "BPF_INS_AFXOR64 \<equiv> Insn_atomic64 True A_XOR"
abbreviation BPF_INS_TAX :: bpf_insn where "BPF_INS_TAX \<equiv> Insn_tax"
abbreviation BPF_INS_TXA :: bpf_insn where "BPF_INS_TXA \<equiv> Insn_txa"

datatype bpf_insn_group =
    BPF_GRP_INVALID | BPF_GRP_LOAD | BPF_GRP_STORE | BPF_GRP_ALU | BPF_GRP_JUMP | BPF_GRP_CALL
  | BPF_GRP_RETURN | BPF_GRP_MISC

text \<open>
  Numbers of the registers and of the mode bit, the readers of the framework (given the mode and the
  bytes they read), names that the classic mode has for some ids, the table lookup and the printers
  of signed numbers come from outside these files.
\<close>

record bpf_env =
  BPF_REG_INVALID :: u32
  BPF_REG_A :: u32
  BPF_REG_X :: u32
  BPF_REG_R0 :: u32
  BPF_REG_R10 :: u32
  CS_MODE_BPF_EXTENDED :: u32
  readBytes16 :: "u32 \<Rightarrow> u8 list \<Rightarrow> u16"
  readBytes32 :: "u32 \<Rightarrow> u8 list \<Rightarrow> u32"
  BPF_INS_LD :: bpf_insn
  BPF_INS_LDX :: bpf_insn
  BPF_INS_ST :: bpf_insn
  BPF_INS_STX :: bpf_insn
  id2name :: "(bpf_insn \<times> string option) list \<Rightarrow> bpf_insn \<Rightarrow> string option"
  id2name_group :: "(bpf_insn_group \<times> string option) list \<Rightarrow> bpf_insn_group \<Rightarrow> string option"
  printInt32Hex :: "u32 \<Rightarrow> string"
  printInt32HexOffset :: "u32 \<Rightarrow> string"
  printInt16HexOffset :: "u16 \<Rightarrow> string"

definition BPF_getFeature :: "u32 \<Rightarrow> u32 \<Rightarrow> bool" where
  "BPF_getFeature mode feature \<longleftrightarrow> mode AND feature \<noteq> 0"

definition EBPF_MODE :: "bpf_env \<Rightarrow> u32 \<Rightarrow> bool" where
  "EBPF_MODE env mode = BPF_getFeature mode (CS_MODE_BPF_EXTENDED env)"

text \<open>
  An instruction under construction: the operands created so far, the opcode and the public opcode,
  and, in \<open>groups\<close>, \<open>regs_read\<close> and \<open>regs_write\<close>, what has been added to its detail, in order.
\<close>

datatype MCOperand = MCReg u32 | MCImm u64

record MCInst =
  Operands :: "MCOperand list"
  Opcode :: u32
  OpcodePub :: bpf_insn
  has_detail :: bool
  groups :: "bpf_insn_group list"
  regs_read :: "u32 list"
  regs_write :: "u32 list"

section \<open>Fetching\<close>

definition res_bind :: "asm_error + 'a \<Rightarrow> ('a \<Rightarrow> asm_error + 'b) \<Rightarrow> asm_error + 'b" where
  "res_bind x f = (case x of Inl e \<Rightarrow> Inl e | Inr a \<Rightarrow> f a)"

lemma res_bind_simps [simp]: "res_bind (Inl e) f = Inl e" "res_bind (Inr a) f = f a"
  by (simp_all add: res_bind_def)

record bpf_internal =
  op :: u16
  k :: u64
  jt :: u8
  jf :: u8
  dst :: u8
  src :: u8
  offset :: u16
  insn_size :: u8

abbreviation op_of :: "bpf_internal \<Rightarrow> u32" where
  "op_of bpf \<equiv> ucast (op bpf)"

text \<open>
  \<open>mem\<close> is what \<open>cs_mem_malloc\<close> returns: nothing, or a block with any contents.
\<close>

definition alloc_bpf_internal :: "bpf_internal option \<Rightarrow> nat \<Rightarrow> bpf_internal option" where
  "alloc_bpf_internal mem code_len =
     (if code_len < 8 then None
      else case mem of None \<Rightarrow> None | Some bpf \<Rightarrow> Some (bpf\<lparr>insn_size := 8\<rparr>))"

text \<open>Reads of the code, which is \<open>code_len\<close> bytes long.\<close>

definition code_at :: "u8 list \<Rightarrow> nat \<Rightarrow> asm_error + u8" where
  "code_at code i = (if i < length code then Inr (code ! i) else Inl UndefinedBehaviour)"

definition read16 :: "bpf_env \<Rightarrow> u32 \<Rightarrow> u8 list \<Rightarrow> nat \<Rightarrow> asm_error + u16" where
  "read16 env mode code i =
     (if i + 2 \<le> length code then Inr (readBytes16 env mode (take 2 (drop i code))) else Inl UndefinedBehaviour)"

definition read32 :: "bpf_env \<Rightarrow> u32 \<Rightarrow> u8 list \<Rightarrow> nat \<Rightarrow> asm_error + u32" where
  "read32 env mode code i =
     (if i + 4 \<le> length code then Inr (readBytes32 env mode (take 4 (drop i code))) else Inl UndefinedBehaviour)"

definition fetch_cbpf :: "bpf_env \<Rightarrow> bpf_internal option \<Rightarrow> u32 \<Rightarrow> u8 list \<Rightarrow> asm_error + bpf_internal option" where
  "fetch_cbpf env mem mode code =
     (case alloc_bpf_internal mem (length code) of
        None \<Rightarrow> Inr None
      | Some bpf \<Rightarrow>
          res_bind (read16 env mode code 0) (\<lambda>o'.
          res_bind (code_at code 2) (\<lambda>t.
          res_bind (code_at code 3) (\<lambda>f.
          res_bind (read32 env mode code 4) (\<lambda>v.
          Inr (Some (bpf\<lparr>op := o', jt := t, jf := f, k := ucast v\<rparr>)))))))"

definition fetch_ebpf :: "bpf_env \<Rightarrow> bpf_internal option \<Rightarrow> u32 \<Rightarrow> u8 list \<Rightarrow> asm_error + bpf_internal option" where
  "fetch_ebpf env mem mode code =
     (case alloc_bpf_internal mem (length code) of
        None \<Rightarrow> Inr None
      | Some bpf \<Rightarrow>
          res_bind (code_at code 0) (\<lambda>o'.
          res_bind (code_at code 1) (\<lambda>r.
          let bpf = bpf\<lparr>op := ucast o', dst := r AND 0xf, src := drop_bit 4 (r AND 0xf0)\<rparr>
          in if op_of bpf = BPF_CLASS_LD OR BPF_SIZE_DW OR BPF_MODE_IMM
             then if length code < 16 then Inr None
               else
                 res_bind (read32 env mode code 4) (\<lambda>lo.
                 res_bind (read32 env mode code 12) (\<lambda>hi.
                 Inr (Some (bpf\<lparr>k := ucast lo OR push_bit 32 (ucast hi), insn_size := 16\<rparr>))))
             else
               res_bind (read16 env mode code 2) (\<lambda>off.
               res_bind (read32 env mode code 4) (\<lambda>v.
               Inr (Some (bpf\<lparr>offset := off, k := ucast v\<rparr>)))))))"

section \<open>Operands\<close>

text \<open>The range checks of the registers, in front of pushing one as an operand; none means \<open>return false\<close>.\<close>

definition CHECK_READABLE_REG :: "bpf_env \<Rightarrow> u64 \<Rightarrow> bool" where
  "CHECK_READABLE_REG env reg \<longleftrightarrow> ucast (BPF_REG_R0 env) \<le> reg \<and> reg \<le> ucast (BPF_REG_R10 env)"

definition CHECK_WRITEABLE_REG :: "bpf_env \<Rightarrow> u64 \<Rightarrow> bool" where
  "CHECK_WRITEABLE_REG env reg \<longleftrightarrow> ucast (BPF_REG_R0 env) \<le> reg \<and> reg < ucast (BPF_REG_R10 env)"

definition CHECK_READABLE_AND_PUSH :: "bpf_env \<Rightarrow> u64 \<Rightarrow> (MCOperand \<Rightarrow> 'a option) \<Rightarrow> 'a option" where
  "CHECK_READABLE_AND_PUSH env r cont =
     (let reg = r + ucast (BPF_REG_R0 env) in if CHECK_READABLE_REG env reg then cont (MCReg (ucast reg)) else None)"

definition CHECK_WRITABLE_AND_PUSH :: "bpf_env \<Rightarrow> u64 \<Rightarrow> (MCOperand \<Rightarrow> 'a option) \<Rightarrow> 'a option" where
  "CHECK_WRITABLE_AND_PUSH env r cont =
     (let reg = r + ucast (BPF_REG_R0 env) in if CHECK_WRITEABLE_REG env reg then cont (MCReg (ucast reg)) else None)"

text \<open>The operands a decoder creates, in order, or none when it returns false.\<close>

definition decodeLoad :: "bpf_env \<Rightarrow> u32 \<Rightarrow> bpf_internal \<Rightarrow> MCOperand list option" where
  "decodeLoad env mode bpf =
     (let o' = op_of bpf
      in if \<not> EBPF_MODE env mode then
          if BPF_SIZE o' = BPF_SIZE_DW then None
          else if BPF_SIZE o' = BPF_SIZE_B \<or> BPF_SIZE o' = BPF_SIZE_H then
            if BPF_CLASS o' \<noteq> BPF_CLASS_LD then None
            else if BPF_MODE o' = BPF_MODE_ABS then Some [MCImm (k bpf)]
            else if BPF_MODE o' = BPF_MODE_IND then Some [MCReg (BPF_REG_X env), MCImm (k bpf)]
            else None
          else if BPF_MODE o' = BPF_MODE_IMM then Some [MCImm (k bpf)]
          else if BPF_MODE o' = BPF_MODE_LEN then Some []
          else if BPF_MODE o' = BPF_MODE_MEM then Some [MCImm (k bpf)]
          else if BPF_CLASS o' = BPF_CLASS_LD then
            if BPF_MODE o' = BPF_MODE_ABS then Some [MCImm (k bpf)]
            else if BPF_MODE o' = BPF_MODE_IND then Some [MCReg (BPF_REG_X env), MCImm (k bpf)]
            else None
          else if BPF_MODE o' = BPF_MODE_MSH then Some [MCImm (k bpf)]
          else None
        else if BPF_CLASS o' = BPF_CLASS_LD then
          if BPF_MODE o' = BPF_MODE_IMM then
            if o' \<noteq> BPF_CLASS_LD OR BPF_SIZE_DW OR BPF_MODE_IMM then None
            else CHECK_WRITABLE_AND_PUSH env (ucast (dst bpf)) (\<lambda>d. Some [d, MCImm (k bpf)])
          else if BPF_MODE o' = BPF_MODE_ABS then Some [MCImm (k bpf)]
          else if BPF_MODE o' = BPF_MODE_IND then CHECK_READABLE_AND_PUSH env (ucast (src bpf)) (\<lambda>s. Some [s])
          else None
        else if BPF_MODE o' = BPF_MODE_MEM then
          CHECK_WRITABLE_AND_PUSH env (ucast (dst bpf)) (\<lambda>d.
          CHECK_READABLE_AND_PUSH env (ucast (src bpf)) (\<lambda>s.
          Some [d, s, MCImm (ucast (offset bpf))]))
        else None)"

definition decodeStore :: "bpf_env \<Rightarrow> u32 \<Rightarrow> bpf_internal \<Rightarrow> MCOperand list option" where
  "decodeStore env mode bpf =
     (let o' = op_of bpf
      in if \<not> EBPF_MODE env mode then
          if o' \<noteq> BPF_CLASS o' OR BPF_MODE_MEM OR BPF_SIZE_W then None else Some [MCImm (k bpf)]
        else if BPF_MODE o' = BPF_MODE_ATOMIC then
          if BPF_CLASS o' \<noteq> BPF_CLASS_STX then None
          else if BPF_SIZE o' \<noteq> BPF_SIZE_W \<and> BPF_SIZE o' \<noteq> BPF_SIZE_DW then None
          else
            CHECK_READABLE_AND_PUSH env (ucast (dst bpf)) (\<lambda>d.
            CHECK_READABLE_AND_PUSH env (ucast (src bpf)) (\<lambda>s.
            Some [d, MCImm (ucast (offset bpf)), s]))
        else if BPF_MODE o' \<noteq> BPF_MODE_MEM then None
        else
          CHECK_READABLE_AND_PUSH env (ucast (dst bpf)) (\<lambda>d.
          if BPF_CLASS o' = BPF_CLASS_ST then Some [d, MCImm (ucast (offset bpf)), MCImm (k bpf)]
          else CHECK_READABLE_AND_PUSH env (ucast (src bpf)) (\<lambda>s. Some [d, MCImm (ucast (offset bpf)), s])))"

text \<open>The decoder of arithmetic also writes the width of a byte swap into the opcode.\<close>

definition decodeALU :: "bpf_env \<Rightarrow> u32 \<Rightarrow> bpf_internal \<Rightarrow> (MCOperand list \<times> bpf_internal) option" where
  "decodeALU env mode bpf =
     (let o' = op_of bpf
      in if \<not> EBPF_MODE env mode then
          if BPF_OP o' > BPF_ALU_XOR then None
          else if BPF_OP o' = BPF_ALU_NEG then Some ([], bpf)
          else if BPF_SRC o' = BPF_SRC_K then Some ([MCImm (k bpf)], bpf)
          else Some ([MCReg (BPF_REG_X env)], bpf)
        else if BPF_OP o' > BPF_ALU_END then None
        else if BPF_OP o' = BPF_ALU_END \<and> k bpf \<noteq> 16 \<and> k bpf \<noteq> 32 \<and> k bpf \<noteq> 64 then None
        else if BPF_OP o' = BPF_ALU_END \<and> BPF_CLASS o' = BPF_CLASS_ALU64 \<and> BPF_SRC o' \<noteq> BPF_SRC_LITTLE then None
        else
          CHECK_WRITABLE_AND_PUSH env (ucast (dst bpf)) (\<lambda>d.
          if BPF_OP o' = BPF_ALU_NEG then Some ([d], bpf)
          else if BPF_OP o' = BPF_ALU_END
          then Some ([d], bpf\<lparr>op := op bpf OR ucast (push_bit 4 (ucast (k bpf) :: u32))\<rparr>)
          else if BPF_SRC o' = BPF_SRC_K then Some ([d, MCImm (k bpf)], bpf)
          else CHECK_READABLE_AND_PUSH env (ucast (src bpf)) (\<lambda>s. Some ([d, s], bpf))))"

definition decodeJump :: "bpf_env \<Rightarrow> u32 \<Rightarrow> bpf_internal \<Rightarrow> MCOperand list option" where
  "decodeJump env mode bpf =
     (let o' = op_of bpf
      in if \<not> EBPF_MODE env mode then
          if BPF_OP o' > BPF_JUMP_JSET then None
          else if BPF_OP o' = BPF_JUMP_JA then Some [MCImm (k bpf)]
          else Some [if BPF_SRC o' = BPF_SRC_K then MCImm (k bpf) else MCReg (BPF_REG_X env),
                     MCImm (ucast (jt bpf)), MCImm (ucast (jf bpf))]
        else if BPF_OP o' > BPF_JUMP_JSLE then None
        else if BPF_OP o' = BPF_JUMP_EXIT then (if o' = BPF_CLASS_JMP OR BPF_JUMP_EXIT then Some [] else None)
        else if BPF_OP o' = BPF_JUMP_CALL then
          if o' = BPF_CLASS_JMP OR BPF_JUMP_CALL then Some [MCImm (k bpf)]
          else if o' = BPF_CLASS_JMP OR BPF_JUMP_CALL OR BPF_SRC_X
          then CHECK_READABLE_AND_PUSH env (k bpf) (\<lambda>r. Some [r])
          else None
        else if BPF_OP o' = BPF_JUMP_JA then
          if BPF_SRC o' \<noteq> BPF_SRC_K then None
          else if BPF_CLASS o' = BPF_CLASS_JMP then Some [MCImm (ucast (offset bpf))]
          else Some [MCImm (k bpf)]
        else
          CHECK_READABLE_AND_PUSH env (ucast (dst bpf)) (\<lambda>d.
          if BPF_SRC o' = BPF_SRC_K then Some [d, MCImm (k bpf), MCImm (ucast (offset bpf))]
          else CHECK_READABLE_AND_PUSH env (ucast (src bpf)) (\<lambda>s. Some [d, s, MCImm (ucast (offset bpf))])))"

definition decodeReturn :: "bpf_env \<Rightarrow> bpf_internal \<Rightarrow> MCOperand list option" where
  "decodeReturn env bpf =
     (let o' = op_of bpf
      in if BPF_RVAL o' = BPF_SRC_K then Some [MCImm (k bpf)]
         else if BPF_RVAL o' = BPF_SRC_X then Some [MCReg (BPF_REG_X env)]
         else if BPF_RVAL o' = BPF_SRC_A then Some [MCReg (BPF_REG_A env)]
         else None)"

definition decodeMISC :: "bpf_internal \<Rightarrow> MCOperand list option" where
  "decodeMISC bpf =
     (let o' = op_of bpf XOR BPF_CLASS_MISC
      in if o' = BPF_MISCOP_TAX \<or> o' = BPF_MISCOP_TXA then Some [] else None)"

text \<open>
  \<open>memset\<close> of the detail, and \<open>MCInst_clear\<close>, after which the instruction has no operands.
\<close>

definition clear_detail :: "MCInst \<Rightarrow> MCInst" where
  "clear_detail MI = MI\<lparr>groups := [], regs_read := [], regs_write := []\<rparr>"

definition MCInst_clear :: "MCInst \<Rightarrow> MCInst" where
  "MCInst_clear MI = MI\<lparr>Operands := []\<rparr>"

definition getInstruction ::
    "bpf_env \<Rightarrow> u32 \<Rightarrow> bpf_internal \<Rightarrow> MCInst \<Rightarrow> (MCInst \<times> bpf_internal) option" where
  "getInstruction env mode bpf MI =
     (let c = BPF_CLASS (op_of bpf);
          MI = MCInst_clear (if has_detail MI then clear_detail MI else MI);
          push = map_option (\<lambda>ops. (MI\<lparr>Operands := ops\<rparr>, bpf));
          push_alu = map_option (\<lambda>(ops, bpf'). (MI\<lparr>Operands := ops\<rparr>, bpf'))
      in if c = BPF_CLASS_LD \<or> c = BPF_CLASS_LDX then push (decodeLoad env mode bpf)
         else if c = BPF_CLASS_ST \<or> c = BPF_CLASS_STX then push (decodeStore env mode bpf)
         else if c = BPF_CLASS_ALU then push_alu (decodeALU env mode bpf)
         else if c = BPF_CLASS_JMP then push (decodeJump env mode bpf)
         else if c = BPF_CLASS_RET then
           if EBPF_MODE env mode then push (decodeJump env mode bpf) else push (decodeReturn env bpf)
         else if c = BPF_CLASS_MISC then
           if EBPF_MODE env mode then push_alu (decodeALU env mode bpf) else push (decodeMISC bpf)
         else None)"

section \<open>Instruction ids\<close>

definition op2insn_ld_cbpf :: "u32 \<Rightarrow> bpf_insn" where
  "op2insn_ld_cbpf opcode =
     (let ld = (\<lambda>a b. if BPF_CLASS opcode = BPF_CLASS_LD then a else b)
      in if BPF_SIZE opcode = BPF_SIZE_W then ld BPF_INS_LDW BPF_INS_LDXW
         else if BPF_SIZE opcode = BPF_SIZE_H then ld BPF_INS_LDH BPF_INS_LDXH
         else if BPF_SIZE opcode = BPF_SIZE_B then ld BPF_INS_LDB BPF_INS_LDXB
         else if BPF_SIZE opcode = BPF_SIZE_DW then ld BPF_INS_LDDW BPF_INS_LDXDW
         else BPF_INS_INVALID)"

definition op2insn_ld_ebpf :: "u32 \<Rightarrow> bpf_insn" where
  "op2insn_ld_ebpf opcode =
     (let pkt = (\<lambda>a b. if BPF_MODE opcode = BPF_MODE_ABS then a
                      else if BPF_MODE opcode = BPF_MODE_IND then b else BPF_INS_INVALID)
      in if BPF_CLASS opcode = BPF_CLASS_LD \<and> BPF_SIZE opcode = BPF_SIZE_W then pkt BPF_INS_LDABSW BPF_INS_LDINDW
         else if BPF_CLASS opcode = BPF_CLASS_LD \<and> BPF_SIZE opcode = BPF_SIZE_H then pkt BPF_INS_LDABSH BPF_INS_LDINDH
         else if BPF_CLASS opcode = BPF_CLASS_LD \<and> BPF_SIZE opcode = BPF_SIZE_B then pkt BPF_INS_LDABSB BPF_INS_LDINDB
         else op2insn_ld_cbpf opcode)"

definition op2insn_st :: "u32 \<Rightarrow> u32 \<Rightarrow> bpf_insn" where
  "op2insn_st opcode imm =
     (if BPF_MODE opcode = BPF_MODE_ATOMIC then
        let w = (\<lambda>a b. if BPF_SIZE opcode = BPF_SIZE_W then a else b);
            dw = (\<lambda>a. if BPF_SIZE opcode = BPF_SIZE_DW then a else BPF_INS_INVALID)
        in if imm = BPF_ALU_ADD then w BPF_INS_AADD BPF_INS_AADD64
           else if imm = BPF_ALU_OR then w BPF_INS_AOR BPF_INS_AOR64
           else if imm = BPF_ALU_AND then w BPF_INS_AAND BPF_INS_AAND64
           else if imm = BPF_ALU_XOR then w BPF_INS_AXOR BPF_INS_AXOR64
           else if imm = BPF_ALU_ADD OR BPF_MODE_FETCH then w BPF_INS_AFADD BPF_INS_AFADD64
           else if imm = BPF_ALU_OR OR BPF_MODE_FETCH then w BPF_INS_AFOR BPF_INS_AFOR64
           else if imm = BPF_ALU_AND OR BPF_MODE_FETCH then w BPF_INS_AFAND BPF_INS_AFAND64
           else if imm = BPF_ALU_XOR OR BPF_MODE_FETCH then w BPF_INS_AFXOR BPF_INS_AFXOR64
           else if imm = BPF_ATOMIC_XCHG OR BPF_MODE_FETCH then dw BPF_INS_AXCHG64
           else if imm = BPF_ATOMIC_CMPXCHG OR BPF_MODE_FETCH then dw BPF_INS_ACMPXCHG64
           else BPF_INS_INVALID
      else
        let st = (\<lambda>a b. if BPF_CLASS opcode = BPF_CLASS_ST then a else b)
        in if BPF_SIZE opcode = BPF_SIZE_W then st BPF_INS_STW BPF_INS_STXW
           else if BPF_SIZE opcode = BPF_SIZE_H then st BPF_INS_STH BPF_INS_STXH
           else if BPF_SIZE opcode = BPF_SIZE_B then st BPF_INS_STB BPF_INS_STXB
           else if BPF_SIZE opcode = BPF_SIZE_DW then st BPF_INS_STDW BPF_INS_STXDW
           else BPF_INS_INVALID)"

definition op2insn_alu :: "u32 \<Rightarrow> u16 \<Rightarrow> bool \<Rightarrow> bpf_insn" where
  "op2insn_alu opcode off is_ebpf =
     (let w = (\<lambda>a b. if BPF_CLASS opcode = BPF_CLASS_ALU then a else b); o' = BPF_OP opcode
      in if o' = BPF_ALU_END then
          if BPF_CLASS opcode = BPF_CLASS_ALU64 then
            let x = opcode XOR BPF_CLASS_ALU64 XOR BPF_ALU_END XOR BPF_SRC_LITTLE
            in if x = push_bit 4 16 then BPF_INS_BSWAP16
               else if x = push_bit 4 32 then BPF_INS_BSWAP32
               else if x = push_bit 4 64 then BPF_INS_BSWAP64
               else BPF_INS_INVALID
          else
            let x = opcode XOR BPF_CLASS_ALU XOR BPF_ALU_END
            in if x = BPF_SRC_LITTLE OR push_bit 4 16 then BPF_INS_LE16
               else if x = BPF_SRC_LITTLE OR push_bit 4 32 then BPF_INS_LE32
               else if x = BPF_SRC_LITTLE OR push_bit 4 64 then BPF_INS_LE64
               else if x = BPF_SRC_BIG OR push_bit 4 16 then BPF_INS_BE16
               else if x = BPF_SRC_BIG OR push_bit 4 32 then BPF_INS_BE32
               else if x = BPF_SRC_BIG OR push_bit 4 64 then BPF_INS_BE64
               else BPF_INS_INVALID
         else if o' = BPF_ALU_ADD then w BPF_INS_ADD BPF_INS_ADD64
         else if o' = BPF_ALU_SUB then w BPF_INS_SUB BPF_INS_SUB64
         else if o' = BPF_ALU_MUL then w BPF_INS_MUL BPF_INS_MUL64
         else if o' = BPF_ALU_OR then w BPF_INS_OR BPF_INS_OR64
         else if o' = BPF_ALU_AND then w BPF_INS_AND BPF_INS_AND64
         else if o' = BPF_ALU_LSH then w BPF_INS_LSH BPF_INS_LSH64
         else if o' = BPF_ALU_RSH then w BPF_INS_RSH BPF_INS_RSH64
         else if o' = BPF_ALU_NEG then w BPF_INS_NEG BPF_INS_NEG64
         else if o' = BPF_ALU_XOR then w BPF_INS_XOR BPF_INS_XOR64
         else if o' = BPF_ALU_ARSH then w BPF_INS_ARSH BPF_INS_ARSH64
         else if o' = BPF_ALU_DIV then
           if \<not> is_ebpf \<or> off = 0 then w BPF_INS_DIV BPF_INS_DIV64
           else if off = 1 then w BPF_INS_SDIV BPF_INS_SDIV64
           else BPF_INS_INVALID
         else if o' = BPF_ALU_MOD then
           if \<not> is_ebpf \<or> off = 0 then w BPF_INS_MOD BPF_INS_MOD64
           else if off = 1 then w BPF_INS_SMOD BPF_INS_SMOD64
           else BPF_INS_INVALID
         else if o' = BPF_ALU_MOV then
           if off = 0 then w BPF_INS_MOV BPF_INS_MOV64
           else if off = 8 then w BPF_INS_MOVSB BPF_INS_MOVSB64
           else if off = 16 then w BPF_INS_MOVSH BPF_INS_MOVSH64
           else if off = 32 \<and> BPF_CLASS opcode = BPF_CLASS_ALU64 then BPF_INS_MOVSW64
           else BPF_INS_INVALID
         else BPF_INS_INVALID)"

definition BPF_CALLX :: u32 where [bpf_consts]: "BPF_CALLX = BPF_CLASS_JMP OR BPF_JUMP_CALL OR BPF_SRC_X"

definition op2insn_jmp :: "u32 \<Rightarrow> bpf_insn" where
  "op2insn_jmp opcode =
     (let w = (\<lambda>a b. if BPF_CLASS opcode = BPF_CLASS_JMP then a else b); o' = BPF_OP opcode
      in if opcode = BPF_CALLX then BPF_INS_CALLX
         else if o' = BPF_JUMP_JA then w BPF_INS_JA BPF_INS_JAL
         else if o' = BPF_JUMP_JEQ then w BPF_INS_JEQ BPF_INS_JEQ32
         else if o' = BPF_JUMP_JGT then w BPF_INS_JGT BPF_INS_JGT32
         else if o' = BPF_JUMP_JGE then w BPF_INS_JGE BPF_INS_JGE32
         else if o' = BPF_JUMP_JSET then w BPF_INS_JSET BPF_INS_JSET32
         else if o' = BPF_JUMP_JNE then w BPF_INS_JNE BPF_INS_JNE32
         else if o' = BPF_JUMP_JSGT then w BPF_INS_JSGT BPF_INS_JSGT32
         else if o' = BPF_JUMP_JSGE then w BPF_INS_JSGE BPF_INS_JSGE32
         else if o' = BPF_JUMP_CALL then w BPF_INS_CALL BPF_INS_INVALID
         else if o' = BPF_JUMP_EXIT then w BPF_INS_EXIT BPF_INS_INVALID
         else if o' = BPF_JUMP_JLT then w BPF_INS_JLT BPF_INS_JLT32
         else if o' = BPF_JUMP_JLE then w BPF_INS_JLE BPF_INS_JLE32
         else if o' = BPF_JUMP_JSLT then w BPF_INS_JSLT BPF_INS_JSLT32
         else if o' = BPF_JUMP_JSLE then w BPF_INS_JSLE BPF_INS_JSLE32
         else BPF_INS_INVALID)"

section \<open>Implicit accesses, groups and the whole decoder\<close>

definition map_add_implicit_read :: "u32 \<Rightarrow> MCInst \<Rightarrow> MCInst" where
  "map_add_implicit_read r MI = MI\<lparr>regs_read := regs_read MI @ [r]\<rparr>"

definition map_add_implicit_write :: "u32 \<Rightarrow> MCInst \<Rightarrow> MCInst" where
  "map_add_implicit_write r MI = MI\<lparr>regs_write := regs_write MI @ [r]\<rparr>"

definition add_group :: "bpf_insn_group \<Rightarrow> MCInst \<Rightarrow> MCInst" where
  "add_group g MI = MI\<lparr>groups := groups MI @ [g]\<rparr>"

definition update_regs_access :: "bpf_env \<Rightarrow> u32 \<Rightarrow> bpf_insn \<Rightarrow> u32 \<Rightarrow> MCInst \<Rightarrow> MCInst" where
  "update_regs_access env mode insn_id opcode MI =
     (if insn_id = BPF_INS_INVALID then MI
      else if EBPF_MODE env mode then
        if insn_id \<in> {BPF_INS_LDABSW, BPF_INS_LDABSH, BPF_INS_LDABSB, BPF_INS_LDINDW, BPF_INS_LDINDH,
            BPF_INS_LDINDB, BPF_INS_LDDW} then
          if BPF_MODE opcode = BPF_MODE_ABS \<or> BPF_MODE opcode = BPF_MODE_IND
          then map_add_implicit_write (BPF_REG_R0 env) MI else MI
        else if insn_id = BPF_INS_EXIT then map_add_implicit_read (BPF_REG_R0 env) MI
        else MI
      else
        let c = BPF_CLASS opcode
        in if c = BPF_CLASS_LD then map_add_implicit_write (BPF_REG_A env) MI
           else if c = BPF_CLASS_LDX then map_add_implicit_write (BPF_REG_X env) MI
           else if c = BPF_CLASS_ST then map_add_implicit_read (BPF_REG_A env) MI
           else if c = BPF_CLASS_STX then map_add_implicit_read (BPF_REG_X env) MI
           else if c = BPF_CLASS_ALU
           then map_add_implicit_write (BPF_REG_A env) (map_add_implicit_read (BPF_REG_A env) MI)
           else if c = BPF_CLASS_JMP
           then (if insn_id \<noteq> BPF_INS_JA then map_add_implicit_read (BPF_REG_A env) MI else MI)
           else if c = BPF_CLASS_MISC then
             if insn_id = BPF_INS_TAX
             then map_add_implicit_write (BPF_REG_X env) (map_add_implicit_read (BPF_REG_A env) MI)
             else map_add_implicit_write (BPF_REG_A env) (map_add_implicit_read (BPF_REG_X env) MI)
           else MI)"

text \<open>The id of an instruction and the groups it is in, by class and mode.\<close>

definition bpf_id_group :: "bpf_env \<Rightarrow> u32 \<Rightarrow> bpf_internal \<Rightarrow> bpf_insn \<times> bpf_insn_group list" where
  "bpf_id_group env mode bpf =
     (let opcode = op_of bpf; c = BPF_CLASS opcode
      in if c = BPF_CLASS_LD \<or> c = BPF_CLASS_LDX
         then (if EBPF_MODE env mode then op2insn_ld_ebpf opcode else op2insn_ld_cbpf opcode, [BPF_GRP_LOAD])
         else if c = BPF_CLASS_ST \<or> c = BPF_CLASS_STX then (op2insn_st opcode (ucast (k bpf)), [BPF_GRP_STORE])
         else if c = BPF_CLASS_ALU
         then (op2insn_alu opcode (offset bpf) (EBPF_MODE env mode), [BPF_GRP_ALU])
         else if c = BPF_CLASS_JMP then
           let i = op2insn_jmp opcode
           in (i, [if i = BPF_INS_CALL \<or> i = BPF_INS_CALLX then BPF_GRP_CALL
                   else if i = BPF_INS_EXIT then BPF_GRP_RETURN else BPF_GRP_JUMP])
         else if c = BPF_CLASS_RET then
           if EBPF_MODE env mode then (op2insn_jmp opcode, [BPF_GRP_JUMP]) else (BPF_INS_RET, [BPF_GRP_RETURN])
         else if c = BPF_CLASS_MISC then
           if EBPF_MODE env mode then (op2insn_alu opcode (offset bpf) True, [BPF_GRP_ALU])
           else (if BPF_MISCOP opcode = BPF_MISCOP_TXA then BPF_INS_TXA else BPF_INS_TAX, [BPF_GRP_MISC])
         else (BPF_INS_INVALID, []))"

definition setFinalOpcode :: "bpf_env \<Rightarrow> u32 \<Rightarrow> bpf_internal \<Rightarrow> MCInst \<Rightarrow> MCInst option" where
  "setFinalOpcode env mode bpf MI =
     (case bpf_id_group env mode bpf of (i, gs) \<Rightarrow>
        let MI = fold add_group gs MI
        in if i = BPF_INS_INVALID then None
           else
             let MI = MI\<lparr>OpcodePub := i\<rparr>
             in Some (if has_detail MI then update_regs_access env mode i (op_of bpf) MI else MI))"

text \<open>The result is none when the function returns false, else the instruction and its size.\<close>

definition BPF_getInstruction ::
    "bpf_env \<Rightarrow> bpf_internal option \<Rightarrow> u32 \<Rightarrow> u8 list \<Rightarrow> MCInst \<Rightarrow> asm_error + (MCInst \<times> u16) option" where
  "BPF_getInstruction env mem mode code instr =
     res_bind (if EBPF_MODE env mode then fetch_ebpf env mem mode code else fetch_cbpf env mem mode code) (\<lambda>b.
       Inr (case b of None \<Rightarrow> None
         | Some bpf \<Rightarrow>
             (case getInstruction env mode bpf instr of None \<Rightarrow> None
              | Some (instr, bpf) \<Rightarrow>
                  (case setFinalOpcode env mode bpf instr of None \<Rightarrow> None
                   | Some instr \<Rightarrow> Some (instr\<lparr>Opcode := op_of bpf\<rparr>, ucast (insn_size bpf))))))"

end
