(* ===== verification/BPF_Mapping.thy ===== *)
theory BPF_Mapping
  imports BPF_Disassembler
begin

text \<open>
  Names and register accesses of BPF instructions, \<open>src/bank/Capstone-Arch/BPF/BPFMapping.c\<close>: the
  tables of names, and the registers an instruction reads and writes, sorted and without duplicates.
\<close>

section \<open>Operands of a disassembled instruction\<close>

text \<open>
  A register operand has two flags, whether it is read and whether it is written; the other flags
  are \<open>is_signed\<close> and, for a memory operand, \<open>is_pkt\<close>.
\<close>

datatype cs_bpf_op =
    BPF_OP_REG u32 bool bool
  | BPF_OP_IMM u64 bool
  | BPF_OP_OFF u32 bool
  | BPF_OP_MEM u32 u32 bool bool
  | BPF_OP_MMEM u32
  | BPF_OP_MSH u32
  | BPF_OP_EXT_LEN

section \<open>Names\<close>

definition group_name_maps :: "(bpf_insn_group \<times> string option) list" where
  "group_name_maps =
     [(BPF_GRP_INVALID, None), (BPF_GRP_LOAD, Some ''load''), (BPF_GRP_STORE, Some ''store''),
      (BPF_GRP_ALU, Some ''alu''), (BPF_GRP_JUMP, Some ''jump''), (BPF_GRP_CALL, Some ''call''),
      (BPF_GRP_RETURN, Some ''return''), (BPF_GRP_MISC, Some ''misc'')]"

definition BPF_group_name :: "bpf_env \<Rightarrow> bpf_insn_group \<Rightarrow> string option" where
  "BPF_group_name env g = id2name_group env group_name_maps g"

definition insn_name_maps :: "(bpf_insn \<times> string option) list" where
  "insn_name_maps =
    [(BPF_INS_INVALID, None), (BPF_INS_ADD, Some ''add''), (BPF_INS_SUB, Some ''sub''),
     (BPF_INS_MUL, Some ''mul''), (BPF_INS_DIV, Some ''div''), (BPF_INS_SDIV, Some ''sdiv''),
     (BPF_INS_OR, Some ''or''), (BPF_INS_AND, Some ''and''), (BPF_INS_LSH, Some ''lsh''),
     (BPF_INS_RSH, Some ''rsh''), (BPF_INS_NEG, Some ''neg''), (BPF_INS_MOD, Some ''mod''),
     (BPF_INS_SMOD, Some ''smod''), (BPF_INS_XOR, Some ''xor''), (BPF_INS_MOV, Some ''mov''),
     (BPF_INS_MOVSB, Some ''movsb''), (BPF_INS_MOVSH, Some ''movsh''), (BPF_INS_ARSH, Some ''arsh''),
     (BPF_INS_ADD64, Some ''add64''), (BPF_INS_SUB64, Some ''sub64''), (BPF_INS_MUL64, Some ''mul64''),
     (BPF_INS_DIV64, Some ''div64''), (BPF_INS_SDIV64, Some ''sdiv64''), (BPF_INS_OR64, Some ''or64''),
     (BPF_INS_AND64, Some ''and64''), (BPF_INS_LSH64, Some ''lsh64''), (BPF_INS_RSH64, Some ''rsh64''),
     (BPF_INS_NEG64, Some ''neg64''), (BPF_INS_MOD64, Some ''mod64''), (BPF_INS_SMOD64, Some ''smod64''),
     (BPF_INS_XOR64, Some ''xor64''), (BPF_INS_MOV64, Some ''mov64''), (BPF_INS_MOVSB64, Some ''movsb64''),
     (BPF_INS_MOVSH64, Some ''movsh64''), (BPF_INS_MOVSW64, Some ''movsw64''),
     (BPF_INS_ARSH64, Some ''arsh64''), (BPF_INS_LE16, Some ''le16''), (BPF_INS_LE32, Some ''le32''),
     (BPF_INS_LE64, Some ''le64''), (BPF_INS_BE16, Some ''be16''), (BPF_INS_BE32, Some ''be32''),
     (BPF_INS_BE64, Some ''be64''), (BPF_INS_BSWAP16, Some ''bswap16''), (BPF_INS_BSWAP32, Some ''bswap32''),
     (BPF_INS_BSWAP64, Some ''bswap64''), (BPF_INS_LDW, Some ''ldw''), (BPF_INS_LDH, Some ''ldh''),
     (BPF_INS_LDB, Some ''ldb''), (BPF_INS_LDDW, Some ''lddw''), (BPF_INS_LDXW, Some ''ldxw''),
     (BPF_INS_LDXH, Some ''ldxh''), (BPF_INS_LDXB, Some ''ldxb''), (BPF_INS_LDXDW, Some ''ldxdw''),
     (BPF_INS_LDABSW, Some ''ldabsw''), (BPF_INS_LDABSH, Some ''ldabsh''), (BPF_INS_LDABSB, Some ''ldabsb''),
     (BPF_INS_LDINDW, Some ''ldindw''), (BPF_INS_LDINDH, Some ''ldindh''), (BPF_INS_LDINDB, Some ''ldindb''),
     (BPF_INS_STW, Some ''stw''), (BPF_INS_STH, Some ''sth''), (BPF_INS_STB, Some ''stb''),
     (BPF_INS_STDW, Some ''stdw''), (BPF_INS_STXW, Some ''stxw''), (BPF_INS_STXH, Some ''stxh''),
     (BPF_INS_STXB, Some ''stxb''), (BPF_INS_STXDW, Some ''stxdw''), (BPF_INS_XADDW, Some ''xaddw''),
     (BPF_INS_XADDDW, Some ''xadddw''), (BPF_INS_JA, Some ''ja''), (BPF_INS_JEQ, Some ''jeq''),
     (BPF_INS_JGT, Some ''jgt''), (BPF_INS_JGE, Some ''jge''), (BPF_INS_JSET, Some ''jset''),
     (BPF_INS_JNE, Some ''jne''), (BPF_INS_JSGT, Some ''jsgt''), (BPF_INS_JSGE, Some ''jsge''),
     (BPF_INS_CALL, Some ''call''), (BPF_INS_CALLX, Some ''callx''), (BPF_INS_EXIT, Some ''exit''),
     (BPF_INS_JLT, Some ''jlt''), (BPF_INS_JLE, Some ''jle''), (BPF_INS_JSLT, Some ''jslt''),
     (BPF_INS_JSLE, Some ''jsle''), (BPF_INS_JAL, Some ''jal''), (BPF_INS_JEQ32, Some ''jeq32''),
     (BPF_INS_JGT32, Some ''jgt32''), (BPF_INS_JGE32, Some ''jge32''), (BPF_INS_JSET32, Some ''jset32''),
     (BPF_INS_JNE32, Some ''jne32''), (BPF_INS_JSGT32, Some ''jsgt32''), (BPF_INS_JSGE32, Some ''jsge32''),
     (BPF_INS_JLT32, Some ''jlt32''), (BPF_INS_JLE32, Some ''jle32''), (BPF_INS_JSLT32, Some ''jslt32''),
     (BPF_INS_JSLE32, Some ''jsle32''), (BPF_INS_RET, Some ''ret''), (BPF_INS_AADD, Some ''aadd''),
     (BPF_INS_AOR, Some ''aor''), (BPF_INS_AAND, Some ''aand''), (BPF_INS_AXOR, Some ''axor''),
     (BPF_INS_AFADD, Some ''afadd''), (BPF_INS_AFOR, Some ''afor''), (BPF_INS_AFAND, Some ''afand''),
     (BPF_INS_AFXOR, Some ''afxor''), (BPF_INS_AXCHG64, Some ''axchg64''),
     (BPF_INS_ACMPXCHG64, Some ''acmpxchg64''), (BPF_INS_AADD64, Some ''aadd64''),
     (BPF_INS_AOR64, Some ''aor64''), (BPF_INS_AAND64, Some ''aand64''), (BPF_INS_AXOR64, Some ''axor64''),
     (BPF_INS_AFADD64, Some ''afadd64''), (BPF_INS_AFOR64, Some ''afor64''),
     (BPF_INS_AFAND64, Some ''afand64''), (BPF_INS_AFXOR64, Some ''afxor64''), (BPF_INS_TAX, Some ''tax''),
     (BPF_INS_TXA, Some ''txa'')]"

definition BPF_insn_name :: "bpf_env \<Rightarrow> u32 \<Rightarrow> bpf_insn \<Rightarrow> string option" where
  "BPF_insn_name env mode i =
     (if \<not> EBPF_MODE env mode \<and> i = BPF_INS_LD env then Some ''ld''
      else if \<not> EBPF_MODE env mode \<and> i = BPF_INS_LDX env then Some ''ldx''
      else if \<not> EBPF_MODE env mode \<and> i = BPF_INS_ST env then Some ''st''
      else if \<not> EBPF_MODE env mode \<and> i = BPF_INS_STX env then Some ''stx''
      else id2name env insn_name_maps i)"

definition reg_names :: "string list" where
  "reg_names = [''r0'', ''r1'', ''r2'', ''r3'', ''r4'', ''r5'', ''r6'', ''r7'', ''r8'', ''r9'', ''r10'']"

definition BPF_reg_name :: "bpf_env \<Rightarrow> u32 \<Rightarrow> u32 \<Rightarrow> string option" where
  "BPF_reg_name env mode reg =
     (if EBPF_MODE env mode
      then if reg < BPF_REG_R0 env \<or> reg > BPF_REG_R10 env then None
        else Some (reg_names ! unat (reg - BPF_REG_R0 env))
      else if reg = BPF_REG_A env then Some ''a''
      else if reg = BPF_REG_X env then Some ''x''
      else None)"

section \<open>Register accesses\<close>

text \<open>The index of the least element from position \<open>iMin\<close> on, looking at the positions \<open>i\<close> to \<open>n - 1\<close>.\<close>

function find_min :: "u32 list \<Rightarrow> nat \<Rightarrow> nat \<Rightarrow> nat \<Rightarrow> nat" where
  "find_min arr iMin i n =
     (if i < n then find_min arr (if arr ! i < arr ! iMin then i else iMin) (i + 1) n else iMin)"
  by pat_completeness auto
termination
  by (relation "measure (\<lambda>(arr, iMin, i, n). n - i)") auto

function sort_and_uniq_loop :: "u32 list \<Rightarrow> nat \<Rightarrow> nat \<Rightarrow> u32 list \<times> nat" where
  "sort_and_uniq_loop arr j n =
     (if j < n then
        let iMin = find_min arr j (j + 1) n
        in if j \<noteq> 0 \<and> arr ! iMin = arr ! (j - 1)
           then sort_and_uniq_loop (arr[iMin := arr ! (n - 1)]) (j + 1) (n - 1)
           else sort_and_uniq_loop (arr[iMin := arr ! j, j := arr ! iMin]) (j + 1) n
      else (arr, n))"
  by pat_completeness auto
termination
  by (relation "measure (\<lambda>(arr, j, n). n - j)") auto

declare find_min.simps [simp del] sort_and_uniq_loop.simps [simp del]

text \<open>The elements that count are the first \<open>new_n\<close> of the array.\<close>

definition sort_and_uniq :: "u32 list \<Rightarrow> u32 list" where
  "sort_and_uniq arr = (case sort_and_uniq_loop arr 0 (length arr) of (arr, new_n) \<Rightarrow> take new_n arr)"

fun op_reads :: "bpf_env \<Rightarrow> cs_bpf_op \<Rightarrow> u32 list" where
  "op_reads env (BPF_OP_REG r rd wr) = (if rd then [r] else [])"
| "op_reads env (BPF_OP_MEM b d s p) = (if b \<noteq> BPF_REG_INVALID env then [b] else [])"
| "op_reads env _ = []"

fun op_writes :: "cs_bpf_op \<Rightarrow> u32 list" where
  "op_writes (BPF_OP_REG r rd wr) = (if wr then [r] else [])"
| "op_writes _ = []"

definition BPF_reg_access :: "bpf_env \<Rightarrow> MCInst \<Rightarrow> cs_bpf_op list \<Rightarrow> u32 list \<times> u32 list" where
  "BPF_reg_access env insn operands =
     (sort_and_uniq (regs_read insn @ concat (map (op_reads env) operands)),
      sort_and_uniq (regs_write insn @ concat (map op_writes operands)))"

end
