(* ===== verification/BPF_Printer.thy ===== *)
theory BPF_Printer
  imports BPF_Mapping
begin

text \<open>
  Printing of BPF instructions, \<open>src/bank/Capstone-Arch/BPF/BPFInstPrinter.c\<close>: the operands of the
  decoder become the public operands of the instruction, with their accesses, and text.
\<close>

section \<open>Public operands\<close>

text \<open>
  The operand array has room for three; the kind of an operand of the decoder has to be the one
  that is asked for.
\<close>

definition expand_bpf_operands :: "cs_bpf_op \<Rightarrow> cs_bpf_op list \<Rightarrow> asm_error + cs_bpf_op list" where
  "expand_bpf_operands x bpf = (if length bpf < 3 then Inr (bpf @ [x]) else Inl AssertionFailed)"

definition push_op_reg :: "u32 \<Rightarrow> bool \<times> bool \<Rightarrow> cs_bpf_op list \<Rightarrow> asm_error + cs_bpf_op list" where
  "push_op_reg val ac_mode = expand_bpf_operands (BPF_OP_REG val (fst ac_mode) (snd ac_mode))"

definition push_op_imm :: "u64 \<Rightarrow> bool \<Rightarrow> cs_bpf_op list \<Rightarrow> asm_error + cs_bpf_op list" where
  "push_op_imm val is_signed = expand_bpf_operands (BPF_OP_IMM val is_signed)"

definition push_op_off :: "u32 \<Rightarrow> bool \<Rightarrow> cs_bpf_op list \<Rightarrow> asm_error + cs_bpf_op list" where
  "push_op_off val is_signed = expand_bpf_operands (BPF_OP_OFF val is_signed)"

definition push_op_mem :: "u32 \<Rightarrow> u32 \<Rightarrow> bool \<Rightarrow> bool \<Rightarrow> cs_bpf_op list \<Rightarrow> asm_error + cs_bpf_op list" where
  "push_op_mem reg val is_signed is_pkt = expand_bpf_operands (BPF_OP_MEM reg val is_signed is_pkt)"

definition push_op_mmem :: "u32 \<Rightarrow> cs_bpf_op list \<Rightarrow> asm_error + cs_bpf_op list" where
  "push_op_mmem val = expand_bpf_operands (BPF_OP_MMEM val)"

definition push_op_msh :: "u32 \<Rightarrow> cs_bpf_op list \<Rightarrow> asm_error + cs_bpf_op list" where
  "push_op_msh val = expand_bpf_operands (BPF_OP_MSH val)"

definition push_op_ext :: "cs_bpf_op list \<Rightarrow> asm_error + cs_bpf_op list" where
  "push_op_ext = expand_bpf_operands BPF_OP_EXT_LEN"

abbreviation CS_AC_READ :: "bool \<times> bool" where "CS_AC_READ \<equiv> (True, False)"
abbreviation CS_AC_WRITE :: "bool \<times> bool" where "CS_AC_WRITE \<equiv> (False, True)"
abbreviation CS_AC_READ_WRITE :: "bool \<times> bool" where "CS_AC_READ_WRITE \<equiv> (True, True)"

text \<open>The register or the immediate in operand \<open>i\<close>.\<close>

definition operand_at :: "MCInst \<Rightarrow> nat \<Rightarrow> asm_error + MCOperand" where
  "operand_at MI i = (if i < length (Operands MI) then Inr (Operands MI ! i) else Inl UndefinedBehaviour)"

definition reg_at :: "MCInst \<Rightarrow> nat \<Rightarrow> asm_error + u32" where
  "reg_at MI i = res_bind (operand_at MI i) (\<lambda>x. case x of MCReg r \<Rightarrow> Inr r | MCImm _ \<Rightarrow> Inl UndefinedBehaviour)"

definition imm_at :: "MCInst \<Rightarrow> nat \<Rightarrow> asm_error + u64" where
  "imm_at MI i = res_bind (operand_at MI i) (\<lambda>x. case x of MCImm v \<Rightarrow> Inr v | MCReg _ \<Rightarrow> Inl UndefinedBehaviour)"

text \<open>An operand that is pushed as an immediate or as a register that is read.\<close>

definition push_either :: "bool \<Rightarrow> MCOperand \<Rightarrow> cs_bpf_op list \<Rightarrow> asm_error + cs_bpf_op list" where
  "push_either is_signed x bpf =
     (case x of MCImm v \<Rightarrow> push_op_imm v is_signed bpf | MCReg r \<Rightarrow> push_op_reg r CS_AC_READ bpf)"

definition convert_load :: "bpf_env \<Rightarrow> u32 \<Rightarrow> MCInst \<Rightarrow> asm_error + cs_bpf_op list" where
  "convert_load env mode MI =
     (let m = BPF_MODE (Opcode MI); e = EBPF_MODE env mode
      in if m = BPF_MODE_IMM then
          if e then
            res_bind (reg_at MI 0) (\<lambda>r. res_bind (push_op_reg r CS_AC_WRITE []) (\<lambda>bpf.
            res_bind (imm_at MI 1) (\<lambda>v. push_op_imm v False bpf)))
          else res_bind (imm_at MI 0) (\<lambda>v. push_op_imm v False [])
        else if m = BPF_MODE_ABS then
          res_bind (imm_at MI 0) (\<lambda>v. push_op_mem (BPF_REG_INVALID env) (ucast v) e True [])
        else if m = BPF_MODE_IND then
          res_bind (reg_at MI 0) (\<lambda>r.
            if e then push_op_mem r 0 True True []
            else res_bind (imm_at MI 1) (\<lambda>v. push_op_mem r (ucast v) False True []))
        else if m = BPF_MODE_MEM then
          if e then
            res_bind (reg_at MI 0) (\<lambda>d. res_bind (push_op_reg d CS_AC_WRITE []) (\<lambda>bpf.
            res_bind (reg_at MI 1) (\<lambda>r. res_bind (imm_at MI 2) (\<lambda>v. push_op_mem r (ucast v) True False bpf))))
          else res_bind (imm_at MI 0) (\<lambda>v. push_op_mmem (ucast v) [])
        else if m = BPF_MODE_LEN then push_op_ext []
        else if m = BPF_MODE_MSH then res_bind (imm_at MI 0) (\<lambda>v. push_op_msh (ucast v) [])
        else Inr [])"

definition convert_store :: "bpf_env \<Rightarrow> u32 \<Rightarrow> MCInst \<Rightarrow> asm_error + cs_bpf_op list" where
  "convert_store env mode MI =
     (if \<not> EBPF_MODE env mode then res_bind (imm_at MI 0) (\<lambda>v. push_op_mmem (ucast v) [])
      else
        res_bind (reg_at MI 0) (\<lambda>r. res_bind (imm_at MI 1) (\<lambda>v.
        res_bind (push_op_mem r (ucast v) True False []) (\<lambda>bpf.
        res_bind (operand_at MI 2) (\<lambda>x. push_either False x bpf)))))"

text \<open>The loop over the operands of a jump, from operand \<open>i\<close> on, and of the other classic instructions.\<close>

fun convert_jump :: "bpf_env \<Rightarrow> u32 \<Rightarrow> u32 \<Rightarrow> bool \<Rightarrow> nat \<Rightarrow> MCOperand list \<Rightarrow> cs_bpf_op list \<Rightarrow> asm_error + cs_bpf_op list" where
  "convert_jump env mode opcode is_jmp32 i [] bpf = Inr bpf"
| "convert_jump env mode opcode is_jmp32 i (x # xs) bpf =
     res_bind
       (case x of
          MCImm v \<Rightarrow>
            if (BPF_OP opcode = BPF_JUMP_JA \<and> \<not> is_jmp32) \<or> (\<not> EBPF_MODE env mode \<and> i \<ge> 1) \<or> (EBPF_MODE env mode \<and> i = 2)
            then push_op_off (ucast v) (EBPF_MODE env mode) bpf
            else push_op_imm v True bpf
        | MCReg r \<Rightarrow> push_op_reg r CS_AC_READ bpf)
       (convert_jump env mode opcode is_jmp32 (i + 1) xs)"

fun convert_reads :: "MCOperand list \<Rightarrow> cs_bpf_op list \<Rightarrow> asm_error + cs_bpf_op list" where
  "convert_reads [] bpf = Inr bpf"
| "convert_reads (x # xs) bpf = res_bind (push_either False x bpf) (convert_reads xs)"

definition convert_alu :: "MCInst \<Rightarrow> asm_error + cs_bpf_op list" where
  "convert_alu MI =
     (if length (Operands MI) = 1
      then res_bind (reg_at MI 0) (\<lambda>r. push_op_reg r CS_AC_READ_WRITE [])
      else
        res_bind (reg_at MI 0) (\<lambda>r. res_bind (push_op_reg r CS_AC_READ_WRITE []) (\<lambda>bpf.
        res_bind (operand_at MI 1) (\<lambda>x. push_either False x bpf))))"

definition convert_operands :: "bpf_env \<Rightarrow> u32 \<Rightarrow> MCInst \<Rightarrow> asm_error + cs_bpf_op list" where
  "convert_operands env mode MI =
     (let opcode = Opcode MI; c = BPF_CLASS opcode; is_jmp32 = EBPF_MODE env mode \<and> c = BPF_CLASS_JMP32
      in if c = BPF_CLASS_LD \<or> c = BPF_CLASS_LDX then convert_load env mode MI
         else if c = BPF_CLASS_ST \<or> c = BPF_CLASS_STX then convert_store env mode MI
         else if c = BPF_CLASS_JMP \<or> is_jmp32 then convert_jump env mode opcode is_jmp32 0 (Operands MI) []
         else if \<not> EBPF_MODE env mode then convert_reads (Operands MI) []
         else convert_alu MI)"

section \<open>Text\<close>

text \<open>Lower-case hexadecimal digits, as \<open>printf\<close> writes them for \<open>%x\<close>.\<close>

definition hex_digit :: "nat \<Rightarrow> char" where
  "hex_digit d = ''0123456789abcdef'' ! d"

fun hex_string :: "nat \<Rightarrow> string" where
  "hex_string n = (if n < 16 then [hex_digit n] else hex_string (n div 16) @ [hex_digit (n mod 16)])"

declare hex_string.simps [simp del]

definition name_or_crash :: "string option \<Rightarrow> asm_error + string" where
  "name_or_crash x = (case x of None \<Rightarrow> Inl UndefinedBehaviour | Some s \<Rightarrow> Inr s)"

definition print_mem :: "bpf_env \<Rightarrow> u32 \<Rightarrow> u32 \<Rightarrow> u32 \<Rightarrow> bool \<Rightarrow> bool \<Rightarrow> asm_error + string" where
  "print_mem env mode base disp is_signed is_pkt =
     (if is_pkt \<and> EBPF_MODE env mode then
        if base \<noteq> BPF_REG_INVALID env
        then res_bind (name_or_crash (BPF_reg_name env mode base)) (\<lambda>s. Inr (''skb+'' @ s))
        else Inr (''skb'' @ (if is_signed then printInt32HexOffset env disp else ''+0x'' @ hex_string (unat disp)))
      else
        res_bind (if base \<noteq> BPF_REG_INVALID env then name_or_crash (BPF_reg_name env mode base) else Inr '''') (\<lambda>s.
          Inr (s @ (if disp \<noteq> 0 then
              if base \<noteq> BPF_REG_INVALID env then
                if is_signed then printInt16HexOffset env (ucast disp)
                else if is_pkt then ''+0x'' @ hex_string (unat disp)
                else ''+0x'' @ hex_string (unat (ucast disp :: u16))
              else ''0x'' @ hex_string (unat disp)
            else if base = BPF_REG_INVALID env then ''0x0'' else ''''))))"

definition print_operand :: "bpf_env \<Rightarrow> u32 \<Rightarrow> cs_bpf_op \<Rightarrow> asm_error + string" where
  "print_operand env mode x =
     (case x of
        BPF_OP_REG r _ _ \<Rightarrow> name_or_crash (BPF_reg_name env mode r)
      | BPF_OP_IMM v is_signed \<Rightarrow> Inr (if is_signed then printInt32Hex env (ucast v) else ''0x'' @ hex_string (unat v))
      | BPF_OP_OFF v is_signed \<Rightarrow> Inr (if is_signed then printInt16HexOffset env (ucast v) else ''+0x'' @ hex_string (unat v))
      | BPF_OP_MEM base disp is_signed is_pkt \<Rightarrow>
          res_bind (print_mem env mode base disp is_signed is_pkt) (\<lambda>s. Inr (''['' @ s @ '']''))
      | BPF_OP_MMEM v \<Rightarrow> Inr (''m[0x'' @ hex_string (unat v) @ '']'')
      | BPF_OP_MSH v \<Rightarrow> Inr (''4*([0x'' @ hex_string (unat v) @ '']&0xf)'')
      | BPF_OP_EXT_LEN \<Rightarrow> Inr ''#len'')"

fun print_operands :: "bpf_env \<Rightarrow> u32 \<Rightarrow> nat \<Rightarrow> cs_bpf_op list \<Rightarrow> asm_error + string" where
  "print_operands env mode i [] = Inr ''''"
| "print_operands env mode i (x # xs) =
     res_bind (print_operand env mode x) (\<lambda>s.
     res_bind (print_operands env mode (i + 1) xs) (\<lambda>rest.
     Inr ((if i = 0 then [CHR 0x09] else '', '') @ s @ rest)))"

text \<open>The text of an instruction, and the operands for its detail.\<close>

definition BPF_printInst :: "bpf_env \<Rightarrow> u32 \<Rightarrow> MCInst \<Rightarrow> asm_error + (string \<times> cs_bpf_op list)" where
  "BPF_printInst env mode MI =
     res_bind (name_or_crash (BPF_insn_name env mode (OpcodePub MI))) (\<lambda>name.
     res_bind (convert_operands env mode MI) (\<lambda>bpf.
     res_bind (print_operands env mode 0 bpf) (\<lambda>s. Inr (name @ s, bpf))))"

end
