(* ===== verification/BPF_Module.thy ===== *)
theory BPF_Module
  imports BPF_Printer
begin

text \<open>
  The module of the BPF disassembler, \<open>src/bank/Capstone-Arch/BPF/BPFModule.c\<close>: the callbacks that it
  puts into a handle, and the option that sets the mode of the handle.
\<close>

text \<open>
  A handle, as far as the module sets it. The callbacks take the mode of the handle they are called
  with; \<open>disasm\<close> also takes the block that \<open>cs_mem_malloc\<close> returns.
\<close>

record cs_struct =
  cs_mode :: u32
  printer :: "u32 \<Rightarrow> MCInst \<Rightarrow> asm_error + (string \<times> cs_bpf_op list)"
  reg_name :: "u32 \<Rightarrow> u32 \<Rightarrow> string option"
  insn_name :: "u32 \<Rightarrow> bpf_insn \<Rightarrow> string option"
  group_name :: "bpf_insn_group \<Rightarrow> string option"
  reg_access :: "MCInst \<Rightarrow> cs_bpf_op list \<Rightarrow> u32 list \<times> u32 list"
  disasm :: "bpf_internal option \<Rightarrow> u32 \<Rightarrow> u8 list \<Rightarrow> MCInst \<Rightarrow> asm_error + (MCInst \<times> u16) option"

definition BPF_global_init :: "bpf_env \<Rightarrow> cs_struct \<Rightarrow> cs_struct" where
  "BPF_global_init env ud =
     ud\<lparr>printer := BPF_printInst env, reg_name := BPF_reg_name env, insn_name := BPF_insn_name env,
        group_name := BPF_group_name env, reg_access := BPF_reg_access env, disasm := BPF_getInstruction env\<rparr>"

text \<open>The number of the option that sets the mode is declared outside.\<close>

definition BPF_option :: "nat \<Rightarrow> cs_struct \<Rightarrow> nat \<Rightarrow> u32 \<Rightarrow> cs_struct" where
  "BPF_option CS_OPT_MODE handle type value = (if type = CS_OPT_MODE then handle\<lparr>cs_mode := value\<rparr> else handle)"

end
