(* ===== verification/BPF_Decoding.thy ===== *)
theory BPF_Decoding
  imports BPF_Module
begin

text \<open>
  From the decoder to the printer: what is assumed of the framework, that every operand the decoder
  pushes can be converted and printed, that every id has a name, and that what follows a fetch
  depends only on the fields that the fetch has set.
\<close>

section \<open>What is known of the framework\<close>

definition bpf_regs_ok :: "bpf_env \<Rightarrow> bool" where
  "bpf_regs_ok env \<longleftrightarrow> unat (BPF_REG_R10 env) = unat (BPF_REG_R0 env) + 10"

fun first_name :: "('a \<times> string option) list \<Rightarrow> 'a \<Rightarrow> string option" where
  "first_name [] i = None"
| "first_name ((j, s) # xs) i = (if i = j then s else first_name xs i)"

definition bpf_names_ok :: "bpf_env \<Rightarrow> bool" where
  "bpf_names_ok env \<longleftrightarrow> (\<forall>xs i. id2name env xs i = first_name xs i)"

section \<open>Registers\<close>

definition bpf_register :: "bpf_env \<Rightarrow> u32 \<Rightarrow> bool" where
  "bpf_register env r \<longleftrightarrow> BPF_REG_R0 env \<le> r \<and> r \<le> BPF_REG_R10 env"

lemma ucast_range:
  assumes "ucast (a :: u32) \<le> (x :: u64)" "x \<le> ucast (b :: u32)"
  shows "a \<le> ucast x \<and> ucast x \<le> b"
proof -
  have "unat a \<le> unat x" "unat x \<le> unat b" using assms by (simp_all add: word_le_nat_alt unsigned_ucast_eq take_bit_nat_eq_self order_less_trans [OF unsigned_less])
  moreover have "unat (ucast x :: u32) = unat x" using \<open>unat x \<le> unat b\<close> unsigned_less [of b, where ?'a = nat]
    by (simp add: unsigned_ucast_eq take_bit_nat_eq_self)
  ultimately show ?thesis by (simp add: word_le_nat_alt)
qed

lemma CHECK_PUSH:
  "CHECK_READABLE_AND_PUSH env r f = Some y \<Longrightarrow> \<exists>reg. bpf_register env reg \<and> f (MCReg reg) = Some y"
  "CHECK_WRITABLE_AND_PUSH env r f = Some y \<Longrightarrow> \<exists>reg. bpf_register env reg \<and> f (MCReg reg) = Some y"
  using ucast_range [of "BPF_REG_R0 env" _ "BPF_REG_R10 env"]
  by (auto simp: CHECK_READABLE_AND_PUSH_def CHECK_WRITABLE_AND_PUSH_def CHECK_READABLE_REG_def CHECK_WRITEABLE_REG_def
      bpf_register_def Let_def split: if_splits intro: order_less_imp_le)

lemma bpf_register_named:
  assumes "bpf_regs_ok env" "EBPF_MODE env mode" "bpf_register env r"
  shows "\<exists>s. BPF_reg_name env mode r = Some s"
  using assms by (auto simp: BPF_reg_name_def bpf_register_def not_less)

section \<open>From the decoder to the printer\<close>

definition printable :: "bpf_env \<Rightarrow> u32 \<Rightarrow> cs_bpf_op list \<Rightarrow> bool" where
  "printable env mode xs \<longleftrightarrow> length xs \<le> 3 \<and> (\<forall>x \<in> set xs. \<exists>s. print_operand env mode x = Inr s)"

abbreviation converts :: "bpf_env \<Rightarrow> u32 \<Rightarrow> asm_error + cs_bpf_op list \<Rightarrow> bool" where
  "converts env mode r \<equiv> (\<exists>xs. r = Inr xs \<and> printable env mode xs)"

definition named :: "bpf_env \<Rightarrow> u32 \<Rightarrow> u32 \<Rightarrow> bool" where
  "named env mode r \<longleftrightarrow> (\<exists>s. BPF_reg_name env mode r = Some s)"

lemma named_simps [simp]:
  "\<not> EBPF_MODE env mode \<Longrightarrow> named env mode (BPF_REG_X env)" "\<not> EBPF_MODE env mode \<Longrightarrow> named env mode (BPF_REG_A env)"
  "bpf_regs_ok env \<Longrightarrow> EBPF_MODE env mode \<Longrightarrow> bpf_register env r \<Longrightarrow> named env mode r"
  using bpf_register_named by (auto simp: named_def BPF_reg_name_def)

lemma prints [simp]:
  "(\<exists>s. print_operand env mode (BPF_OP_IMM v b) = Inr s)" "(\<exists>s. print_operand env mode (BPF_OP_OFF w b) = Inr s)"
  "(\<exists>s. print_operand env mode (BPF_OP_MMEM w) = Inr s)" "(\<exists>s. print_operand env mode (BPF_OP_MSH w) = Inr s)"
  "(\<exists>s. print_operand env mode BPF_OP_EXT_LEN = Inr s)" "(\<exists>s. print_operand env mode (BPF_OP_MEM (BPF_REG_INVALID env) w b c) = Inr s)"
  "named env mode r \<Longrightarrow> (\<exists>s. print_operand env mode (BPF_OP_REG r b c) = Inr s)"
  "named env mode r \<Longrightarrow> (\<exists>s. print_operand env mode (BPF_OP_MEM r w b c) = Inr s)"
  by (auto simp: print_operand_def print_mem_def named_def name_or_crash_def)

lemmas convert_defs = push_op_reg_def push_op_imm_def push_op_off_def push_op_mem_def push_op_mmem_def push_op_msh_def
  push_op_ext_def expand_bpf_operands_def operand_at_def reg_at_def imm_at_def push_either_def printable_def

lemma load_converts:
  assumes "bpf_regs_ok env" "decodeLoad env mode bpf = Some ops"
  shows "converts env mode (convert_load env mode (MI\<lparr>Operands := ops, Opcode := op_of bpf\<rparr>))"
  using assms
  by (auto simp: decodeLoad_def convert_load_def convert_defs Let_def bpf_consts split: if_splits dest!: CHECK_PUSH)

lemma store_converts:
  assumes "bpf_regs_ok env" "decodeStore env mode bpf = Some ops"
  shows "converts env mode (convert_store env mode (MI\<lparr>Operands := ops, Opcode := oc\<rparr>))"
  using assms
  by (auto simp: decodeStore_def convert_store_def convert_defs Let_def split: if_splits dest!: CHECK_PUSH)

lemma jump_converts:
  assumes "bpf_regs_ok env" "decodeJump env mode bpf = Some ops"
  shows "converts env mode (convert_jump env mode opcode j 0 ops [])"
  using assms
  by (auto simp: decodeJump_def convert_defs Let_def split: if_splits dest!: CHECK_PUSH)

lemma classic_converts:
  "\<not> EBPF_MODE env mode \<Longrightarrow> decodeALU env mode bpf = Some (ops, bpf') \<Longrightarrow> converts env mode (convert_reads ops [])"
  "\<not> EBPF_MODE env mode \<Longrightarrow> decodeReturn env bpf = Some ops \<Longrightarrow> converts env mode (convert_reads ops [])"
  "decodeMISC bpf = Some ops \<Longrightarrow> converts env mode (convert_reads ops [])"
  by (auto simp: decodeALU_def decodeReturn_def decodeMISC_def convert_defs Let_def split: if_splits)

lemma alu_converts:
  assumes "bpf_regs_ok env" "EBPF_MODE env mode" "decodeALU env mode bpf = Some (ops, bpf')"
  shows "converts env mode (convert_alu (MI\<lparr>Operands := ops, Opcode := oc\<rparr>))"
  using assms
  by (auto simp: decodeALU_def convert_alu_def convert_defs Let_def split: if_splits dest!: CHECK_PUSH)

section \<open>Names\<close>

lemma first_name_exists:
  "i \<in> fst ` set xs \<Longrightarrow> list_all (\<lambda>e. snd e \<noteq> None) xs \<Longrightarrow> \<exists>s. first_name xs i = Some s"
  by (induction xs i rule: first_name.induct) auto

definition bpf_ids :: "bpf_insn list" where
  "bpf_ids =
    [BPF_INS_ADD, BPF_INS_SUB, BPF_INS_MUL, BPF_INS_DIV, BPF_INS_SDIV, BPF_INS_OR, BPF_INS_AND, BPF_INS_LSH,
     BPF_INS_RSH, BPF_INS_NEG, BPF_INS_MOD, BPF_INS_SMOD, BPF_INS_XOR, BPF_INS_MOV, BPF_INS_MOVSB,
     BPF_INS_MOVSH, BPF_INS_ARSH, BPF_INS_ADD64, BPF_INS_SUB64, BPF_INS_MUL64, BPF_INS_DIV64, BPF_INS_SDIV64,
     BPF_INS_OR64, BPF_INS_AND64, BPF_INS_LSH64, BPF_INS_RSH64, BPF_INS_NEG64, BPF_INS_MOD64, BPF_INS_SMOD64,
     BPF_INS_XOR64, BPF_INS_MOV64, BPF_INS_MOVSB64, BPF_INS_MOVSH64, BPF_INS_MOVSW64, BPF_INS_ARSH64,
     BPF_INS_LE16, BPF_INS_LE32, BPF_INS_LE64, BPF_INS_BE16, BPF_INS_BE32, BPF_INS_BE64, BPF_INS_BSWAP16,
     BPF_INS_BSWAP32, BPF_INS_BSWAP64, BPF_INS_LDW, BPF_INS_LDH, BPF_INS_LDB, BPF_INS_LDDW, BPF_INS_LDXW,
     BPF_INS_LDXH, BPF_INS_LDXB, BPF_INS_LDXDW, BPF_INS_LDABSW, BPF_INS_LDABSH, BPF_INS_LDABSB,
     BPF_INS_LDINDW, BPF_INS_LDINDH, BPF_INS_LDINDB, BPF_INS_STW, BPF_INS_STH, BPF_INS_STB, BPF_INS_STDW,
     BPF_INS_STXW, BPF_INS_STXH, BPF_INS_STXB, BPF_INS_STXDW, BPF_INS_XADDW, BPF_INS_XADDDW, BPF_INS_JA,
     BPF_INS_JEQ, BPF_INS_JGT, BPF_INS_JGE, BPF_INS_JSET, BPF_INS_JNE, BPF_INS_JSGT, BPF_INS_JSGE,
     BPF_INS_CALL, BPF_INS_CALLX, BPF_INS_EXIT, BPF_INS_JLT, BPF_INS_JLE, BPF_INS_JSLT, BPF_INS_JSLE,
     BPF_INS_JAL, BPF_INS_JEQ32, BPF_INS_JGT32, BPF_INS_JGE32, BPF_INS_JSET32, BPF_INS_JNE32, BPF_INS_JSGT32,
     BPF_INS_JSGE32, BPF_INS_JLT32, BPF_INS_JLE32, BPF_INS_JSLT32, BPF_INS_JSLE32, BPF_INS_RET, BPF_INS_AADD,
     BPF_INS_AOR, BPF_INS_AAND, BPF_INS_AXOR, BPF_INS_AFADD, BPF_INS_AFOR, BPF_INS_AFAND, BPF_INS_AFXOR,
     BPF_INS_AXCHG64, BPF_INS_ACMPXCHG64, BPF_INS_AADD64, BPF_INS_AOR64, BPF_INS_AAND64, BPF_INS_AXOR64,
     BPF_INS_AFADD64, BPF_INS_AFOR64, BPF_INS_AFAND64, BPF_INS_AFXOR64, BPF_INS_TAX, BPF_INS_TXA]"

lemma insn_name_maps_ids:
  "map fst insn_name_maps = BPF_INS_INVALID # bpf_ids" "list_all (\<lambda>e. snd e \<noteq> None) (tl insn_name_maps)"
  unfolding insn_name_maps_def bpf_ids_def
  by (simp_all only: list.map fst_conv snd_conv list.sel list.pred_inject option.distinct not_False_eq_True simp_thms)

lemma insn_has_name:
  assumes "i \<in> set bpf_ids"
  shows "\<exists>s. first_name insn_name_maps i = Some s"
proof -
  obtain d xs where maps: "insn_name_maps = (BPF_INS_INVALID, d) # xs" "map fst xs = bpf_ids"
    using insn_name_maps_ids(1) by auto
  have "i \<in> fst ` set xs" using assms maps(2) by (simp flip: set_map)
  moreover have "list_all (\<lambda>e. snd e \<noteq> None) xs" using insn_name_maps_ids(2) unfolding maps(1) by simp
  moreover have "i \<noteq> BPF_INS_INVALID" using assms by (auto simp: bpf_ids_def)
  ultimately show ?thesis using first_name_exists [of i xs] unfolding maps(1) by simp
qed

text \<open>Every id that the decoder gives has a name.\<close>

definition named_or_invalid :: "bpf_insn \<Rightarrow> bool" where
  "named_or_invalid i \<longleftrightarrow> i = Insn_invalid \<or> i \<in> set bpf_ids"

lemma named_or_invalid_if:
  "(b \<Longrightarrow> named_or_invalid i) \<Longrightarrow> (\<not> b \<Longrightarrow> named_or_invalid j) \<Longrightarrow> named_or_invalid (if b then i else j)"
  by simp

lemma op2insn_named:
  "named_or_invalid (op2insn_ld_cbpf opcode)" "named_or_invalid (op2insn_ld_ebpf opcode)" "named_or_invalid (op2insn_st opcode imm)"
  "named_or_invalid (op2insn_jmp opcode)" "named_or_invalid (op2insn_alu opcode off e)"
  unfolding op2insn_ld_cbpf_def op2insn_ld_ebpf_def op2insn_st_def op2insn_jmp_def op2insn_alu_def Let_def
  by (intro named_or_invalid_if; simp add: named_or_invalid_def bpf_ids_def)+

lemma bpf_id_group_named:
  assumes "bpf_id_group env mode bpf = (i, gs)" "i \<noteq> Insn_invalid"
  shows "i \<in> set bpf_ids"
proof -
  have "named_or_invalid (fst (bpf_id_group env mode bpf))"
    unfolding bpf_id_group_def Let_def if_distrib [of fst] fst_conv
    by (intro named_or_invalid_if op2insn_named) (simp_all add: named_or_invalid_def bpf_ids_def)
  then show ?thesis using assms by (simp add: named_or_invalid_def)
qed

lemma BPF_insn_name_exists:
  "bpf_names_ok env \<Longrightarrow> i \<in> set bpf_ids \<Longrightarrow> \<exists>s. BPF_insn_name env mode i = Some s"
  using insn_has_name [of i] by (auto simp: BPF_insn_name_def bpf_names_ok_def)

section \<open>Fetching\<close>

lemma fetch_safe:
  "\<exists>r. fetch_cbpf env mem mode code = Inr r \<and> (\<forall>bpf. r = Some bpf \<longrightarrow> insn_size bpf = 8 \<and> 8 \<le> length code)"
  "\<exists>r. fetch_ebpf env mem mode code = Inr r \<and>
     (\<forall>bpf. r = Some bpf \<longrightarrow> insn_size bpf = 8 \<and> 8 \<le> length code \<or> insn_size bpf = 16 \<and> 16 \<le> length code)"
  by (auto simp: fetch_cbpf_def fetch_ebpf_def alloc_bpf_internal_def code_at_def read16_def read32_def Let_def split: option.splits)

section \<open>The whole decoder\<close>

lemma decodeALU_keeps:
  "decodeALU env mode bpf = Some (ops, bpf') \<Longrightarrow> BPF_CLASS (op_of bpf') = BPF_CLASS (op_of bpf) \<and> insn_size bpf' = insn_size bpf"
proof -
  have "BPF_CLASS (ucast (x OR 256)) = BPF_CLASS (ucast x)" "BPF_CLASS (ucast (x OR 512)) = BPF_CLASS (ucast x)"
    "BPF_CLASS (ucast (x OR 1024)) = BPF_CLASS (ucast x)" for x :: u16
    unfolding BPF_CLASS_def word32_eq_iff_bits by (simp_all add: bit_simps)
  moreover assume "decodeALU env mode bpf = Some (ops, bpf')"
  ultimately show ?thesis by (auto simp: decodeALU_def Let_def split: if_splits dest!: CHECK_PUSH)
qed

lemma BPF_CLASS_cases:
  obtains "BPF_CLASS x = BPF_CLASS_LD \<or> BPF_CLASS x = BPF_CLASS_LDX" | "BPF_CLASS x = BPF_CLASS_ST \<or> BPF_CLASS x = BPF_CLASS_STX"
  | "BPF_CLASS x = BPF_CLASS_ALU" | "BPF_CLASS x = BPF_CLASS_JMP" | "BPF_CLASS x = BPF_CLASS_RET" | "BPF_CLASS x = BPF_CLASS_MISC"
proof -
  have "unat (x AND 7) < 8" using word_and_le1 [of x 7] by (simp add: word_le_nat_alt)
  then have "unat (x AND 7) \<in> {0, 1, 2, 3, 4, 5, 6, 7}" by (auto simp: less_Suc_eq numeral_eq_Suc)
  moreover have "x AND 7 = word_of_nat (unat (x AND 7))" by simp
  ultimately have "x AND 7 \<in> word_of_nat ` {0, 1, 2, 3, 4, 5, 6, 7}" by blast
  then have "x AND 7 \<in> {0, 1, 2, 3, 4, 5, 6, 7}" by simp
  then show thesis using that by (auto simp: BPF_CLASS_def bpf_consts)
qed

lemma class_values: "BPF_CLASS_LD = 0" "BPF_CLASS_LDX = 1" "BPF_CLASS_ST = 2" "BPF_CLASS_STX = 3" "BPF_CLASS_ALU = 4"
    "BPF_CLASS_JMP = 5" "BPF_CLASS_RET = 6" "BPF_CLASS_JMP32 = 6" "BPF_CLASS_MISC = 7"
  by (simp_all add: bpf_consts)

lemma convert_operands_by_class:
  "BPF_CLASS (Opcode MI) = BPF_CLASS_LD \<or> BPF_CLASS (Opcode MI) = BPF_CLASS_LDX \<Longrightarrow> convert_operands env mode MI = convert_load env mode MI"
  "BPF_CLASS (Opcode MI) = BPF_CLASS_ST \<or> BPF_CLASS (Opcode MI) = BPF_CLASS_STX \<Longrightarrow> convert_operands env mode MI = convert_store env mode MI"
  "BPF_CLASS (Opcode MI) = BPF_CLASS_JMP \<or> EBPF_MODE env mode \<and> BPF_CLASS (Opcode MI) = BPF_CLASS_RET \<Longrightarrow>
     convert_operands env mode MI = convert_jump env mode (Opcode MI) (EBPF_MODE env mode \<and> BPF_CLASS (Opcode MI) = BPF_CLASS_JMP32) 0 (Operands MI) []"
  "BPF_CLASS (Opcode MI) \<in> {BPF_CLASS_ALU, BPF_CLASS_RET, BPF_CLASS_MISC} \<Longrightarrow> \<not> EBPF_MODE env mode \<Longrightarrow>
     convert_operands env mode MI = convert_reads (Operands MI) []"
  "BPF_CLASS (Opcode MI) \<in> {BPF_CLASS_ALU, BPF_CLASS_MISC} \<Longrightarrow> EBPF_MODE env mode \<Longrightarrow>
     convert_operands env mode MI = convert_alu MI"
  by (auto simp: convert_operands_def Let_def class_values)

definition cleared :: "MCInst \<Rightarrow> MCInst" where
  "cleared MI = MCInst_clear (if has_detail MI then clear_detail MI else MI)"

text \<open>Which decoder has run, and that the class is kept.\<close>

lemma getInstruction_cases:
  assumes "getInstruction env mode bpf MI = Some (MI', bpf')"
  obtains ops where "MI' = cleared MI\<lparr>Operands := ops\<rparr>" "bpf' = bpf" "BPF_CLASS (op_of bpf) = BPF_CLASS_LD \<or> BPF_CLASS (op_of bpf) = BPF_CLASS_LDX" "decodeLoad env mode bpf = Some ops"
  | ops where "MI' = cleared MI\<lparr>Operands := ops\<rparr>" "bpf' = bpf" "BPF_CLASS (op_of bpf) = BPF_CLASS_ST \<or> BPF_CLASS (op_of bpf) = BPF_CLASS_STX" "decodeStore env mode bpf = Some ops"
  | ops where "MI' = cleared MI\<lparr>Operands := ops\<rparr>" "bpf' = bpf" "BPF_CLASS (op_of bpf) = BPF_CLASS_JMP \<or> EBPF_MODE env mode \<and> BPF_CLASS (op_of bpf) = BPF_CLASS_RET" "decodeJump env mode bpf = Some ops"
  | ops where "MI' = cleared MI\<lparr>Operands := ops\<rparr>" "BPF_CLASS (op_of bpf) = BPF_CLASS_ALU \<or> EBPF_MODE env mode \<and> BPF_CLASS (op_of bpf) = BPF_CLASS_MISC" "decodeALU env mode bpf = Some (ops, bpf')"
  | ops where "MI' = cleared MI\<lparr>Operands := ops\<rparr>" "bpf' = bpf" "\<not> EBPF_MODE env mode" "BPF_CLASS (op_of bpf) = BPF_CLASS_RET" "decodeReturn env bpf = Some ops"
  | ops where "MI' = cleared MI\<lparr>Operands := ops\<rparr>" "bpf' = bpf" "\<not> EBPF_MODE env mode" "BPF_CLASS (op_of bpf) = BPF_CLASS_MISC" "decodeMISC bpf = Some ops"
  using assms unfolding getInstruction_def Let_def cleared_def [symmetric]
  by (simp split: if_splits add: class_values) auto

lemma getInstruction_converts:
  assumes "bpf_regs_ok env" "getInstruction env mode bpf MI = Some (MI', bpf')"
  shows "insn_size bpf' = insn_size bpf" "converts env mode (convert_operands env mode (MI'\<lparr>Opcode := op_of bpf'\<rparr>))"
proof -
  note facts = load_converts [OF assms(1)] store_converts [OF assms(1)] jump_converts [OF assms(1)] classic_converts
    alu_converts [OF assms(1)]
  show "insn_size bpf' = insn_size bpf"
    using assms(2) by (cases rule: getInstruction_cases) (simp_all add: decodeALU_keeps)
  show "converts env mode (convert_operands env mode (MI'\<lparr>Opcode := op_of bpf'\<rparr>))"
    using assms(2)
  proof (cases rule: getInstruction_cases)
    case (1 ops)
    then show ?thesis using facts(1) [of mode bpf ops "cleared MI"] by (simp add: convert_operands_by_class(1))
  next
    case (2 ops)
    then show ?thesis using facts(2) [of mode bpf ops _ "cleared MI"]
      by (simp add: convert_operands_by_class(2))
  next
    case (3 ops)
    then show ?thesis using facts(3) [of mode bpf ops] by (simp add: convert_operands_by_class(3))
  next
    case (4 ops)
    then show ?thesis
      using decodeALU_keeps [OF 4(3)] facts(4) [of env mode bpf ops bpf'] facts(7) [of mode bpf ops bpf' _ "cleared MI"]
      by (cases "EBPF_MODE env mode") (simp_all add: convert_operands_by_class(4,5))
  next
    case (5 ops)
    then show ?thesis using facts(5) [of env mode bpf ops] by (simp add: convert_operands_by_class(4))
  next
    case (6 ops)
    then show ?thesis using facts(6) [of bpf ops env mode] by (simp add: convert_operands_by_class(4))
  qed
qed

section \<open>The memory of the fetched instruction\<close>

text \<open>The fields that the classic and the extended mode fill in.\<close>

definition same_cbpf :: "bpf_internal \<Rightarrow> bpf_internal \<Rightarrow> bool" where
  "same_cbpf b b' \<longleftrightarrow> op b = op b' \<and> k b = k b' \<and> jt b = jt b' \<and> jf b = jf b' \<and> insn_size b = insn_size b'"

definition same_ebpf :: "bpf_internal \<Rightarrow> bpf_internal \<Rightarrow> bool" where
  "same_ebpf b b' \<longleftrightarrow> op b = op b' \<and> k b = k b' \<and> dst b = dst b' \<and> src b = src b' \<and> insn_size b = insn_size b' \<and>
     (BPF_CLASS (op_of b) = BPF_CLASS_LD \<or> offset b = offset b')"

definition same_fields :: "bool \<Rightarrow> bpf_internal \<Rightarrow> bpf_internal \<Rightarrow> bool" where
  "same_fields e b b' = (if e then same_ebpf b b' else same_cbpf b b')"

definition rel_res :: "('a \<Rightarrow> 'b \<Rightarrow> bool) \<Rightarrow> asm_error + 'a option \<Rightarrow> asm_error + 'b option \<Rightarrow> bool" where
  "rel_res R = rel_sum (=) (rel_option R)"

lemma fetch_same:
  "rel_res same_cbpf (fetch_cbpf env (Some m) mode code) (fetch_cbpf env (Some m') mode code)"
  "rel_res same_ebpf (fetch_ebpf env (Some m) mode code) (fetch_ebpf env (Some m') mode code)"
  by (auto simp: fetch_cbpf_def fetch_ebpf_def alloc_bpf_internal_def code_at_def read16_def read32_def Let_def rel_res_def
      same_cbpf_def same_ebpf_def bpf_consts BPF_CLASS_def)

lemma decode_same_classic:
  assumes "\<not> EBPF_MODE env mode" "same_cbpf b b'"
  shows "decodeLoad env mode b = decodeLoad env mode b'" "decodeStore env mode b = decodeStore env mode b'"
    "decodeJump env mode b = decodeJump env mode b'" "decodeReturn env b = decodeReturn env b'" "decodeMISC b = decodeMISC b'"
    "rel_option (rel_prod (=) (\<lambda>c c'. same_cbpf c c' \<and> BPF_OP (op_of c) \<noteq> BPF_ALU_MOV)) (decodeALU env mode b) (decodeALU env mode b')"
  using assms by (simp_all add: decodeLoad_def decodeStore_def decodeJump_def decodeReturn_def decodeMISC_def decodeALU_def
      same_cbpf_def Let_def) (auto simp: bpf_consts)

lemma decode_same_extended:
  assumes "EBPF_MODE env mode" "same_ebpf b b'"
  shows "BPF_CLASS (op_of b) = BPF_CLASS_LD \<or> BPF_CLASS (op_of b) = BPF_CLASS_LDX \<Longrightarrow> decodeLoad env mode b = decodeLoad env mode b'"
    "BPF_CLASS (op_of b) \<noteq> BPF_CLASS_LD \<Longrightarrow> decodeStore env mode b = decodeStore env mode b'"
    "BPF_CLASS (op_of b) \<noteq> BPF_CLASS_LD \<Longrightarrow> decodeJump env mode b = decodeJump env mode b'"
    "BPF_CLASS (op_of b) \<noteq> BPF_CLASS_LD \<Longrightarrow>
      rel_option (rel_prod (=) same_ebpf) (decodeALU env mode b) (decodeALU env mode b')"
  using assms
  by (auto simp: decodeLoad_def decodeStore_def decodeJump_def decodeALU_def same_ebpf_def Let_def bpf_consts
      CHECK_WRITABLE_AND_PUSH_def CHECK_READABLE_AND_PUSH_def)

lemma push_same:
  "x = x' \<Longrightarrow> R b b' \<Longrightarrow> rel_option (rel_prod (=) R) (map_option (\<lambda>ops. (f ops, b)) x) (map_option (\<lambda>ops. (f ops, b')) x')"
  by (cases x) auto

lemma push_alu_same:
  "rel_option (rel_prod (=) S) x x' \<Longrightarrow> (\<And>c c'. S c c' \<Longrightarrow> R c c') \<Longrightarrow>
   rel_option (rel_prod (=) R) (map_option (\<lambda>(ops, b). (f ops, b)) x) (map_option (\<lambda>(ops, b). (f ops, b)) x')"
  by (cases x; cases x') auto

lemma rel_option_if:
  "(b \<Longrightarrow> rel_option R x x') \<Longrightarrow> (\<not> b \<Longrightarrow> rel_option R y y') \<Longrightarrow> rel_option R (if b then x else y) (if b then x' else y')"
  by simp

definition id_determined :: "bool \<Rightarrow> bpf_internal \<Rightarrow> bpf_internal \<Rightarrow> bool" where
  "id_determined e c c' \<longleftrightarrow> same_fields e c c' \<and>
     (\<not> e \<and> BPF_CLASS (op_of c) = BPF_CLASS_ALU \<longrightarrow> BPF_OP (op_of c) \<noteq> BPF_ALU_MOV)"

lemma getInstruction_same:
  assumes same: "same_fields (EBPF_MODE env mode) b b'"
  shows "rel_option (rel_prod (=) (id_determined (EBPF_MODE env mode))) (getInstruction env mode b MI) (getInstruction env mode b' MI)"
proof -
  have op: "op b' = op b" using same by (simp add: same_fields_def same_ebpf_def same_cbpf_def split: if_splits)
  show ?thesis
  proof (cases "EBPF_MODE env mode")
    case True
    have sb: "same_ebpf b b'" using same True by (simp add: same_fields_def)
    note d = decode_same_extended [OF True sb]
    show ?thesis unfolding getInstruction_def Let_def op
      by (intro rel_option_if push_same push_alu_same [where S = same_ebpf] d option.rel_inject(1))
        (auto simp: True sb id_determined_def same_fields_def class_values)
  next
    case False
    have sb: "same_cbpf b b'" using same False by (simp add: same_fields_def)
    note d = decode_same_classic [OF False sb]
    show ?thesis unfolding getInstruction_def Let_def op
      by (intro rel_option_if push_same push_alu_same [OF d(6)] d(1-5) option.rel_inject(1))
        (auto simp: False sb id_determined_def same_fields_def class_values)
  qed
qed

lemma bpf_id_group_same:
  assumes "id_determined (EBPF_MODE env mode) c c'"
  shows "bpf_id_group env mode c = bpf_id_group env mode c'"
proof -
  have op: "op c' = op c" using assms by (simp add: id_determined_def same_fields_def same_ebpf_def same_cbpf_def split: if_splits)
  have classic: "op2insn_alu opcode (offset c') False = op2insn_alu opcode (offset c) False" if "BPF_OP opcode \<noteq> BPF_ALU_MOV" for opcode
    using that by (simp add: op2insn_alu_def Let_def)
  show ?thesis
  proof (cases "EBPF_MODE env mode")
    case True
    then have "k c' = k c" "BPF_CLASS (op_of c) = 0 \<or> offset c' = offset c"
      using assms by (auto simp: id_determined_def same_fields_def same_ebpf_def class_values)
    then show ?thesis unfolding bpf_id_group_def Let_def op by (auto simp: class_values)
  next
    case False
    then have "k c' = k c" "BPF_CLASS (op_of c) = 4 \<longrightarrow> BPF_OP (op_of c) \<noteq> BPF_ALU_MOV"
      using assms by (auto simp: id_determined_def same_fields_def same_cbpf_def class_values)
    then show ?thesis using False classic unfolding bpf_id_group_def Let_def op by (simp add: class_values)
  qed
qed

lemma setFinalOpcode_same:
  assumes "id_determined (EBPF_MODE env mode) c c'"
  shows "setFinalOpcode env mode c MI = setFinalOpcode env mode c' MI" "op c = op c'" "insn_size c = insn_size c'"
proof -
  show op: "op c = op c'" and "insn_size c = insn_size c'"
    using assms by (simp_all add: id_determined_def same_fields_def same_ebpf_def same_cbpf_def split: if_splits)
  show "setFinalOpcode env mode c MI = setFinalOpcode env mode c' MI"
    unfolding setFinalOpcode_def bpf_id_group_same [OF assms] op ..
qed

text \<open>What follows the fetch.\<close>

definition bpf_finish :: "bpf_env \<Rightarrow> u32 \<Rightarrow> MCInst \<Rightarrow> bpf_internal \<Rightarrow> (MCInst \<times> u16) option" where
  "bpf_finish env mode instr bpf =
     (case getInstruction env mode bpf instr of None \<Rightarrow> None
      | Some (instr, bpf) \<Rightarrow>
          (case setFinalOpcode env mode bpf instr of None \<Rightarrow> None
           | Some instr \<Rightarrow> Some (instr\<lparr>Opcode := op_of bpf\<rparr>, ucast (insn_size bpf))))"

lemma BPF_getInstruction_finish:
  "BPF_getInstruction env mem mode code instr =
     res_bind (if EBPF_MODE env mode then fetch_ebpf env mem mode code else fetch_cbpf env mem mode code) (\<lambda>b.
       Inr (case b of None \<Rightarrow> None | Some bpf \<Rightarrow> bpf_finish env mode instr bpf))"
  unfolding BPF_getInstruction_def bpf_finish_def ..

lemma bpf_finish_same:
  assumes "same_fields (EBPF_MODE env mode) b b'"
  shows "bpf_finish env mode MI b = bpf_finish env mode MI b'"
  using getInstruction_same [OF assms, of MI] setFinalOpcode_same [of env mode]
  by (cases "getInstruction env mode b MI"; cases "getInstruction env mode b' MI") (auto simp: bpf_finish_def split: option.splits)

lemma BPF_getInstruction_same:
  "BPF_getInstruction env (Some m) mode code MI = BPF_getInstruction env (Some m') mode code MI"
  using fetch_same [of env m mode code m'] bpf_finish_same [of env mode _ _ MI]
  unfolding BPF_getInstruction_finish
  by (cases "fetch_ebpf env (Some m) mode code"; cases "fetch_ebpf env (Some m') mode code";
      cases "fetch_cbpf env (Some m) mode code"; cases "fetch_cbpf env (Some m') mode code")
    (auto simp: rel_res_def same_fields_def split: option.splits)


section \<open>Safety\<close>

lemma bpf_finish_some:
  assumes "bpf_finish env mode MI bpf = Some (MI', n)"
  obtains MI1 bpf1 MI2 where "getInstruction env mode bpf MI = Some (MI1, bpf1)" "setFinalOpcode env mode bpf1 MI1 = Some MI2"
    "MI' = MI2\<lparr>Opcode := op_of bpf1\<rparr>" "n = ucast (insn_size bpf1)"
  using assms by (auto simp: bpf_finish_def split: option.splits)

lemma add_groups_keep [simp]:
  "Operands (fold add_group gs MI) = Operands MI" "has_detail (fold add_group gs MI) = has_detail MI"
  "regs_read (fold add_group gs MI) = regs_read MI" "regs_write (fold add_group gs MI) = regs_write MI"
  by (induction gs arbitrary: MI) (simp_all add: add_group_def)

lemma update_regs_access_keeps [simp]:
  "Operands (update_regs_access env mode i opc MI) = Operands MI" "OpcodePub (update_regs_access env mode i opc MI) = OpcodePub MI"
  by (simp_all add: update_regs_access_def map_add_implicit_read_def map_add_implicit_write_def Let_def)

lemma setFinalOpcode_keeps:
  assumes "setFinalOpcode env mode bpf MI = Some MI'"
  shows "Operands MI' = Operands MI" "OpcodePub MI' \<in> set bpf_ids"
  using assms bpf_id_group_named [of env mode bpf]
  by (auto simp: setFinalOpcode_def Let_def split: prod.splits if_splits)

lemma convert_operands_cong:
  assumes "Operands MI = Operands MI'" "Opcode MI = Opcode MI'"
  shows "convert_operands env mode MI = convert_operands env mode MI'"
  unfolding convert_operands_def convert_load_def convert_store_def convert_alu_def reg_at_def imm_at_def operand_at_def assms ..

lemma print_operands_exists:
  "\<forall>x \<in> set xs. \<exists>s. print_operand env mode x = Inr s \<Longrightarrow> \<exists>s. print_operands env mode i xs = Inr s"
proof (induction xs arbitrary: i)
  case (Cons x xs)
  then obtain s where "print_operands env mode (i + 1) xs = Inr s" by fastforce
  then show ?case using Cons.prems by auto
qed simp

lemma finish_prints:
  assumes "bpf_regs_ok env" "bpf_names_ok env" "bpf_finish env mode MI bpf = Some (MI', n)"
  obtains s ops where "BPF_printInst env mode MI' = Inr (s, ops)" "convert_operands env mode MI' = Inr ops" "length ops \<le> 3"
    "n = ucast (insn_size bpf)"
proof -
  obtain MI1 bpf1 MI2 where f: "getInstruction env mode bpf MI = Some (MI1, bpf1)" "setFinalOpcode env mode bpf1 MI1 = Some MI2"
    "MI' = MI2\<lparr>Opcode := op_of bpf1\<rparr>" "n = ucast (insn_size bpf1)"
    using assms(3) by (rule bpf_finish_some)
  note keeps = setFinalOpcode_keeps [OF f(2)]
  have "convert_operands env mode MI' = convert_operands env mode (MI1\<lparr>Opcode := op_of bpf1\<rparr>)"
    using keeps(1) by (intro convert_operands_cong) (simp_all add: f(3))
  then obtain ops where ops: "convert_operands env mode MI' = Inr ops" "printable env mode ops"
    using getInstruction_converts(2) [OF assms(1) f(1)] by auto
  obtain name where "BPF_insn_name env mode (OpcodePub MI') = Some name"
    using BPF_insn_name_exists [OF assms(2) keeps(2)] by (auto simp: f(3))
  moreover obtain s where "print_operands env mode 0 ops = Inr s"
    using ops(2) print_operands_exists [of ops env mode 0] by (auto simp: printable_def)
  ultimately have "BPF_printInst env mode MI' = Inr (name @ s, ops)" by (simp add: BPF_printInst_def name_or_crash_def ops(1))
  then show thesis using that ops f(4) getInstruction_converts(1) [OF assms(1) f(1)] by (simp add: printable_def)
qed

lemma bpf_finish_size: "bpf_finish env mode MI bpf = Some (MI', n) \<Longrightarrow> n = ucast (insn_size bpf)"
proof -
  have "getInstruction env mode bpf MI = Some (MI1, bpf1) \<Longrightarrow> insn_size bpf1 = insn_size bpf" for MI1 bpf1
    by (erule getInstruction_cases) (simp_all add: decodeALU_keeps)
  then show "bpf_finish env mode MI bpf = Some (MI', n) \<Longrightarrow> n = ucast (insn_size bpf)" by (elim bpf_finish_some) simp
qed

lemma disasm_some:
  assumes "BPF_getInstruction env mem mode code MI = Inr (Some (MI', n))"
  obtains bpf where "bpf_finish env mode MI bpf = Some (MI', n)"
    "insn_size bpf = 8 \<and> 8 \<le> length code \<or> insn_size bpf = 16 \<and> 16 \<le> length code"
  using assms fetch_safe [of env mem mode code] unfolding BPF_getInstruction_finish
  by (auto split: if_splits option.splits)

end
