(* ===== verification/BPF_Sorting.thy ===== *)
theory BPF_Sorting
  imports BPF_Mapping "HOL-Library.Multiset"
begin

text \<open>
  The sort of \<open>BPF_reg_access\<close>, a selection sort that removes duplicates on the way: it keeps the set
  of elements, is the library's sort on lists without duplicates, and is right on lists of two.
\<close>

section \<open>Selection of the least element\<close>

lemma find_min_least:
  assumes "iMin < i" "i \<le> n"
  shows "find_min arr iMin i n \<in> insert iMin {i..<n} \<and> (\<forall>p \<in> insert iMin {i..<n}. arr ! find_min arr iMin i n \<le> arr ! p)"
  using assms
proof (induction arr iMin i n rule: find_min.induct)
  case (1 arr iMin i n)
  show ?case
  proof (cases "i < n")
    case True
    define m where "m = (if arr ! i < arr ! iMin then i else iMin)"
    have "find_min arr m (i + 1) n \<in> insert m {i + 1..<n} \<and> (\<forall>p \<in> insert m {i + 1..<n}. arr ! find_min arr m (i + 1) n \<le> arr ! p)"
      unfolding m_def using 1 True by (intro "1.IH") auto
    moreover have "insert iMin {i..<n} = insert i (insert iMin {i + 1..<n})" using True by auto
    moreover have "arr ! m \<le> arr ! i" "arr ! m \<le> arr ! iMin" "m = i \<or> m = iMin" by (auto simp: m_def)
    ultimately show ?thesis
      using True find_min.simps [of arr iMin i n] unfolding m_def [symmetric] by (auto intro: order_trans)
  next
    case False
    then show ?thesis using 1 find_min.simps [of arr iMin i n] by auto
  qed
qed

lemma find_min_from:
  assumes "j < n" "m = find_min arr j (j + 1) n"
  shows "j \<le> m" "m < n" "j \<le> p \<Longrightarrow> p < n \<Longrightarrow> arr ! m \<le> arr ! p"
proof -
  have "insert j {j + 1..<n} = {j..<n}" using assms(1) by auto
  then show "j \<le> m" "m < n" "j \<le> p \<Longrightarrow> p < n \<Longrightarrow> arr ! m \<le> arr ! p"
    using find_min_least [of j "j + 1" n arr] assms by auto
qed

section \<open>Sorting\<close>

lemma set_take_nth: "n \<le> length xs \<Longrightarrow> set (take n xs) = {xs ! i | i. i < n}"
  by (auto simp: in_set_conv_nth) (metis, metis nth_take order_less_le_trans)

lemma remove_duplicate:
  assumes "j \<le> m" "m < n" "n \<le> length arr" "j \<noteq> 0" "arr ! m = arr ! (j - 1)"
  shows "set (take (n - 1) (arr[m := arr ! (n - 1)])) = set (take n arr)"
proof -
  have "{arr[m := arr ! (n - 1)] ! i | i. i < n - 1} = {arr ! i | i. i < n}" (is "?L = ?R")
  proof
    show "?L \<subseteq> ?R" using assms by (fastforce simp: nth_list_update split: if_splits)
    show "?R \<subseteq> ?L"
    proof
      fix x
      assume "x \<in> ?R"
      then obtain i where i: "x = arr ! i" "i < n" by blast
      consider "i = m" | "i = n - 1" "i \<noteq> m" | "i < n - 1" "i \<noteq> m" using i by linarith
      then show "x \<in> ?L"
      proof cases
        case 1
        then have "arr[m := arr ! (n - 1)] ! (j - 1) = x" "j - 1 < n - 1" using assms i by auto
        then show ?thesis by blast
      next
        case 2
        then have "arr[m := arr ! (n - 1)] ! m = x" "m < n - 1" using assms i by auto
        then show ?thesis by blast
      next
        case 3
        then have "arr[m := arr ! (n - 1)] ! i = x" using i by simp
        then show ?thesis using 3 by blast
      qed
    qed
  qed
  then show ?thesis using assms by (simp add: set_take_nth)
qed

lemma swap_set: "i < n \<Longrightarrow> j < n \<Longrightarrow> n \<le> length arr \<Longrightarrow> mset (take n (arr[i := arr ! j, j := arr ! i])) = mset (take n arr)"
  using mset_swap [of j "take n arr" i] by (simp add: take_update_swap)

lemma sort_loop_step:
  assumes "j < n" "m = find_min arr j (j + 1) n"
  shows "sort_and_uniq_loop arr j n =
    (if j \<noteq> 0 \<and> arr ! m = arr ! (j - 1) then sort_and_uniq_loop (arr[m := arr ! (n - 1)]) (j + 1) (n - 1)
     else sort_and_uniq_loop (arr[m := arr ! j, j := arr ! m]) (j + 1) n)"
  using assms by (subst sort_and_uniq_loop.simps) (simp add: Let_def)

lemma sort_and_uniq_loop_set:
  "n \<le> length arr \<Longrightarrow> sort_and_uniq_loop arr j n = (arr', n') \<Longrightarrow> n' \<le> length arr' \<and> set (take n' arr') = set (take n arr)"
proof (induction arr j n rule: sort_and_uniq_loop.induct)
  case (1 arr j n)
  show ?case
  proof (cases "j < n")
    case True
    define m where "m = find_min arr j (j + 1) n"
    note m = find_min_from(1,2) [OF True m_def]
    note step = sort_loop_step [OF True m_def]
    show ?thesis
    proof (cases "j \<noteq> 0 \<and> arr ! m = arr ! (j - 1)")
      case dup: True
      have "sort_and_uniq_loop (arr[m := arr ! (n - 1)]) (j + 1) (n - 1) = (arr', n')" using step "1.prems"(2) dup by simp
      from "1.IH"(1) [OF True m_def dup _ this] show ?thesis using "1.prems"(1) m dup remove_duplicate [of j m n arr] by simp
    next
      case False
      have "sort_and_uniq_loop (arr[m := arr ! j, j := arr ! m]) (j + 1) n = (arr', n')" using step "1.prems"(2) False by auto
      moreover have "set (take n (arr[m := arr ! j, j := arr ! m])) = set (take n arr)"
        using swap_set [of m n j arr] "1.prems"(1) m True by (metis set_mset_mset)
      ultimately show ?thesis using "1.IH"(2) [OF True m_def False] "1.prems"(1) by simp
    qed
  next
    case False
    then show ?thesis using "1.prems" by (simp add: sort_and_uniq_loop.simps [of arr j n])
  qed
qed

lemma sort_and_uniq_set: "set (sort_and_uniq arr) = set arr"
  using sort_and_uniq_loop_set [of "length arr" arr 0] by (cases "sort_and_uniq_loop arr 0 (length arr)") (simp add: sort_and_uniq_def)

text \<open>Without duplicates, the loop is a selection sort.\<close>

lemma sort_and_uniq_loop_distinct:
  assumes "distinct arr" "j \<le> length arr" "\<forall>p q. p < j \<and> p \<le> q \<and> q < length arr \<longrightarrow> arr ! p \<le> arr ! q"
  shows "\<exists>arr'. sort_and_uniq_loop arr j (length arr) = (arr', length arr) \<and> sorted arr' \<and> mset arr' = mset arr"
  using assms
proof (induction "length arr - j" arbitrary: arr j)
  case 0
  then have "sorted arr" by (simp add: sorted_iff_nth_mono)
  then show ?case using 0 by (simp add: sort_and_uniq_loop.simps [of arr j])
next
  case (Suc d)
  then have j: "j < length arr" by linarith
  define m where "m = find_min arr j (j + 1) (length arr)"
  define arr' where "arr' = arr[m := arr ! j, j := arr ! m]"
  note least = find_min_from [OF j m_def]
  have perm: "mset arr' = mset arr" using mset_swap [OF j least(2)] by (simp add: arr'_def)
  have "arr ! m \<noteq> arr ! (j - 1)" if "j \<noteq> 0"
    using Suc.prems(1) that least(1,2) j by (simp add: nth_eq_iff_index_eq)
  then have loop: "sort_and_uniq_loop arr j (length arr) = sort_and_uniq_loop arr' (j + 1) (length arr')"
    using sort_loop_step [OF j m_def] by (auto simp: arr'_def)
  have nth: "arr' ! p = (if p = j then arr ! m else if p = m then arr ! j else arr ! p)" if "p < length arr" for p
    using that least(1,2) j by (auto simp: arr'_def nth_list_update)
  have "arr' ! p \<le> arr' ! q" if "p < j + 1" "p \<le> q" "q < length arr" for p q
    using that Suc.prems(3) least j by (auto simp: nth less_Suc_eq)
  then have "\<exists>arr''. sort_and_uniq_loop arr' (j + 1) (length arr') = (arr'', length arr') \<and> sorted arr'' \<and> mset arr'' = mset arr'"
    using Suc.hyps(2) Suc.prems(1) j perm mset_eq_imp_distinct_iff [OF perm]
    by (intro Suc.hyps(1)) (auto simp: arr'_def)
  then show ?case using loop perm by (simp add: arr'_def)
qed

lemma sort_and_uniq_distinct: "distinct arr \<Longrightarrow> sort_and_uniq arr = sort arr"
proof -
  assume "distinct arr"
  then obtain arr' where arr': "sort_and_uniq_loop arr 0 (length arr) = (arr', length arr)" "sorted arr'" "mset arr' = mset arr"
    using sort_and_uniq_loop_distinct [of arr 0] by auto
  then show "sort_and_uniq arr = sort arr"
    using mset_eq_length [OF arr'(3)] properties_for_sort [OF arr'(3,2)] by (simp add: sort_and_uniq_def)
qed

text \<open>Two elements, equal or not.\<close>

lemma sort_and_uniq_pair: "sort_and_uniq [x, x] = [x]"
  by (simp add: sort_and_uniq_def sort_and_uniq_loop.simps find_min.simps)

lemma sort_and_uniq_triple: "sort_and_uniq [x, x, x] = [x, x]"
  by (simp add: sort_and_uniq_def sort_and_uniq_loop.simps find_min.simps)

lemma sort_and_uniq_small:
  assumes "length arr \<le> 2"
  shows "sort_and_uniq arr = sorted_list_of_set (set arr)"
proof (cases "distinct arr")
  case True
  then show ?thesis by (simp add: sort_and_uniq_distinct sorted_list_of_set_sort_remdups distinct_remdups_id)
next
  case False
  then obtain x where "arr = [x, x]" using assms by (auto simp: neq_Nil_conv length_Suc_conv le_Suc_eq numeral_2_eq_2)
  then show ?thesis by (simp add: sort_and_uniq_pair)
qed

section \<open>What the register accesses need of the sort\<close>

text \<open>
  The lists of registers are put together from two parts, implicit registers and registers of
  operands, and have two elements at most.
\<close>

locale register_sort =
  fixes sort_regs :: "u32 list \<Rightarrow> u32 list"
  assumes sort_regs_set: "set (sort_regs xs) = set xs"
    and sort_regs_small: "length xs \<le> 2 \<Longrightarrow> sort_regs xs = sorted_list_of_set (set xs)"
begin

lemma sort_regs_parts: "length (xs @ ys) \<le> 2 \<Longrightarrow> sort_regs (xs @ ys) = sorted_list_of_set (set xs \<union> set ys)"
  using sort_regs_small [of "xs @ ys"] by simp

lemma sort_regs_all:
  "list_all P (xs @ ys) \<Longrightarrow> r \<in> set (sort_regs (xs @ ys)) \<Longrightarrow> P r"
  by (auto simp: sort_regs_set list_all_iff)

end

interpretation bpf_sort: register_sort sort_and_uniq
  by unfold_locales (simp_all add: sort_and_uniq_set sort_and_uniq_small)

end
