(* ===== verification/BPF_Registers.thy ===== *)
theory BPF_Registers
  imports BPF_Decoding BPF_Sorting
begin

text \<open>
  Registers of a decoded instruction: operands and implicit accesses together read at most two
  registers and write at most two, and in eBPF mode the frame pointer is not written.
\<close>

section \<open>Registers of a decoded instruction\<close>

definition reads_of :: "bpf_env \<Rightarrow> cs_bpf_op list \<Rightarrow> u32 list" where
  "reads_of env xs = concat (map (op_reads env) xs)"

definition writes_of :: "cs_bpf_op list \<Rightarrow> u32 list" where
  "writes_of xs = concat (map op_writes xs)"

lemma regs_of_Nil [simp]: "reads_of env [] = []" "writes_of [] = []"
  by (simp_all add: reads_of_def writes_of_def)

definition writable :: "bpf_env \<Rightarrow> u32 \<Rightarrow> bool" where
  "writable env r \<longleftrightarrow> BPF_REG_R0 env \<le> r \<and> r < BPF_REG_R10 env"

lemma CHECK_WRITE:
  assumes "CHECK_WRITABLE_AND_PUSH env r f = Some y"
  shows "\<exists>reg. writable env reg \<and> f (MCReg reg) = Some y"
proof -
  define reg where "reg = r + ucast (BPF_REG_R0 env)"
  have reg: "CHECK_WRITEABLE_REG env reg" "f (MCReg (ucast reg)) = Some y"
    using assms by (simp_all add: CHECK_WRITABLE_AND_PUSH_def Let_def reg_def split: if_splits)
  then have "unat (BPF_REG_R0 env) \<le> unat reg" "unat reg < unat (BPF_REG_R10 env)"
    by (simp_all add: CHECK_WRITEABLE_REG_def word_le_nat_alt word_less_nat_alt unsigned_ucast_eq take_bit_nat_eq_self
        order_less_trans [OF unsigned_less])
  moreover have "unat (ucast reg :: u32) = unat reg"
    using calculation(2) unsigned_less [of "BPF_REG_R10 env", where ?'a = nat] by (simp add: unsigned_ucast_eq take_bit_nat_eq_self)
  ultimately have "writable env (ucast reg)" by (simp add: writable_def word_le_nat_alt word_less_nat_alt)
  then show ?thesis using reg(2) by blast
qed

lemmas CHECKS = CHECK_PUSH(1) CHECK_WRITE

lemma load_regs:
  assumes "decodeLoad env mode bpf = Some ops" "convert_load env mode (MI\<lparr>Operands := ops, Opcode := op_of bpf\<rparr>) = Inr xs"
  shows "length (reads_of env xs) \<le> 1 \<and> length (writes_of xs) \<le> 1 \<and> (EBPF_MODE env mode \<longrightarrow> list_all (writable env) (writes_of xs))"
  using assms
  by (auto simp: decodeLoad_def convert_load_def convert_defs reads_of_def writes_of_def Let_def bpf_consts split: if_splits dest!: CHECKS)

lemma store_regs:
  assumes "decodeStore env mode bpf = Some ops" "convert_store env mode (MI\<lparr>Operands := ops, Opcode := oc\<rparr>) = Inr xs"
  shows "length (reads_of env xs) \<le> (if EBPF_MODE env mode then 2 else 1) \<and> writes_of xs = []"
  using assms
  by (auto simp: decodeStore_def convert_store_def convert_defs reads_of_def writes_of_def Let_def split: if_splits dest!: CHECKS)

lemma jump_regs:
  assumes "decodeJump env mode bpf = Some ops" "convert_jump env mode opcode j 0 ops [] = Inr xs"
  shows "length (reads_of env xs) \<le> (if EBPF_MODE env mode then 2 else 1) \<and> writes_of xs = [] \<and>
    (EBPF_MODE env mode \<and> BPF_OP (op_of bpf) = BPF_JUMP_EXIT \<longrightarrow> xs = [])"
  using assms
  by (auto simp: decodeJump_def convert_defs reads_of_def writes_of_def Let_def split: if_splits dest!: CHECKS)

lemma classic_regs:
  "\<not> EBPF_MODE env mode \<Longrightarrow> decodeALU env mode bpf = Some (ops, bpf') \<Longrightarrow> convert_reads ops [] = Inr xs \<Longrightarrow>
     length (reads_of env xs) \<le> 1 \<and> writes_of xs = []"
  "\<not> EBPF_MODE env mode \<Longrightarrow> decodeReturn env bpf = Some ops \<Longrightarrow> convert_reads ops [] = Inr xs \<Longrightarrow>
     length (reads_of env xs) \<le> 1 \<and> writes_of xs = []"
  "decodeMISC bpf = Some ops \<Longrightarrow> convert_reads ops [] = Inr xs \<Longrightarrow> xs = []"
  by (auto simp: decodeALU_def decodeReturn_def decodeMISC_def convert_defs reads_of_def writes_of_def Let_def split: if_splits)

lemma decodeALU_operands:
  assumes "EBPF_MODE env mode" "decodeALU env mode bpf = Some (ops, bpf')"
  shows "\<exists>d. writable env d \<and> (ops = [MCReg d] \<or> (\<exists>x. ops = [MCReg d, x]))"
  using assms by (simp add: decodeALU_def Let_def split: if_splits) (auto split: if_splits dest!: CHECKS)

lemma alu_regs:
  assumes "EBPF_MODE env mode" "decodeALU env mode bpf = Some (ops, bpf')" "convert_alu (MI\<lparr>Operands := ops, Opcode := oc\<rparr>) = Inr xs"
  shows "length (reads_of env xs) \<le> 2 \<and> length (writes_of xs) \<le> 1 \<and> list_all (writable env) (writes_of xs)"
  using decodeALU_operands [OF assms(1,2)] assms(3)
  by (auto simp: convert_alu_def convert_defs reads_of_def writes_of_def split: MCOperand.splits)

text \<open>Only the jump class gives \<open>exit\<close>.\<close>

definition not_exit :: "bpf_insn \<Rightarrow> bool" where
  "not_exit i \<longleftrightarrow> i \<noteq> Insn_exit"

lemma not_exit_if: "(b \<Longrightarrow> not_exit i) \<Longrightarrow> (\<not> b \<Longrightarrow> not_exit j) \<Longrightarrow> not_exit (if b then i else j)"
  by simp

lemma op2insn_not_exit:
  "not_exit (op2insn_ld_cbpf opcode)" "not_exit (op2insn_ld_ebpf opcode)" "not_exit (op2insn_st opcode imm)"
  "not_exit (op2insn_alu opcode off e)" "BPF_OP opcode \<noteq> BPF_JUMP_EXIT \<Longrightarrow> not_exit (op2insn_jmp opcode)"
  unfolding op2insn_ld_cbpf_def op2insn_ld_ebpf_def op2insn_st_def op2insn_jmp_def op2insn_alu_def Let_def
  by (intro not_exit_if; simp add: not_exit_def)+

lemma bpf_id_exit:
  assumes "bpf_id_group env mode bpf = (Insn_exit, gs)"
  shows "BPF_OP (op_of bpf) = BPF_JUMP_EXIT \<and> (BPF_CLASS (op_of bpf) = BPF_CLASS_JMP \<or> BPF_CLASS (op_of bpf) = BPF_CLASS_RET)"
proof (rule ccontr)
  assume no: "\<not> ?thesis"
  have "not_exit (fst (bpf_id_group env mode bpf))"
    unfolding bpf_id_group_def Let_def if_distrib [of fst] fst_conv using no
    by (intro not_exit_if op2insn_not_exit) (auto simp: not_exit_def)
  then show False using assms by (simp add: not_exit_def)
qed

lemma update_regs_classic:
  assumes "\<not> EBPF_MODE env mode" "regs_read MI = []" "regs_write MI = []"
  shows "length (regs_read (update_regs_access env mode i opc MI)) \<le> 1" "length (regs_write (update_regs_access env mode i opc MI)) \<le> 1"
  using assms by (simp_all add: update_regs_access_def map_add_implicit_read_def map_add_implicit_write_def Let_def)

lemma update_regs_extended:
  assumes "EBPF_MODE env mode" "regs_read MI = []" "regs_write MI = []"
  shows "regs_read (update_regs_access env mode i opc MI) = (if i = BPF_INS_EXIT then [BPF_REG_R0 env] else [])"
    "regs_write (update_regs_access env mode i opc MI) \<in> {[], [BPF_REG_R0 env]}"
  using assms by (auto simp: update_regs_access_def map_add_implicit_read_def map_add_implicit_write_def)

lemma setFinalOpcode_detail:
  assumes "setFinalOpcode env mode bpf MI = Some MI'" "has_detail MI"
  obtains i gs where "bpf_id_group env mode bpf = (i, gs)"
    "MI' = update_regs_access env mode i (op_of bpf) (fold add_group gs MI\<lparr>OpcodePub := i\<rparr>)"
  using assms by (auto simp: setFinalOpcode_def Let_def split: prod.splits if_splits)

definition few_regs :: "bpf_env \<Rightarrow> u32 \<Rightarrow> bpf_internal \<Rightarrow> cs_bpf_op list \<Rightarrow> bool" where
  "few_regs env mode bpf xs \<longleftrightarrow>
     length (reads_of env xs) \<le> (if EBPF_MODE env mode then 2 else 1) \<and> length (writes_of xs) \<le> 1 \<and>
     (EBPF_MODE env mode \<longrightarrow> list_all (writable env) (writes_of xs)) \<and>
     (EBPF_MODE env mode \<and> BPF_OP (op_of bpf) = BPF_JUMP_EXIT \<and>
        (BPF_CLASS (op_of bpf) = BPF_CLASS_JMP \<or> BPF_CLASS (op_of bpf) = BPF_CLASS_RET) \<longrightarrow> xs = [])"

lemma getInstruction_regs:
  assumes "getInstruction env mode bpf MI = Some (MI', bpf')" "convert_operands env mode (MI'\<lparr>Opcode := op_of bpf'\<rparr>) = Inr xs"
  shows "few_regs env mode bpf' xs"
  using assms(1)
proof (cases rule: getInstruction_cases)
  case (1 ops)
  then show ?thesis using assms(2) load_regs [of env mode bpf ops "cleared MI" xs]
    by (auto simp: convert_operands_by_class(1) few_regs_def class_values)
next
  case (2 ops)
  then show ?thesis using assms(2) store_regs [of env mode bpf ops _ "cleared MI" xs]
    by (auto simp: convert_operands_by_class(2) few_regs_def class_values)
next
  case (3 ops)
  then show ?thesis using assms(2) jump_regs [of env mode bpf ops _ _ xs] by (simp add: convert_operands_by_class(3) few_regs_def)
next
  case (4 ops)
  then show ?thesis
    using assms(2) decodeALU_keeps [OF 4(3)] classic_regs(1) [of env mode bpf ops bpf' xs] alu_regs [of env mode bpf ops bpf' _ "cleared MI" xs]
    by (cases "EBPF_MODE env mode") (auto simp: convert_operands_by_class(4,5) few_regs_def class_values)
next
  case (5 ops)
  then show ?thesis using assms(2) classic_regs(2) [of env mode bpf ops xs] by (simp add: convert_operands_by_class(4) few_regs_def)
next
  case (6 ops)
  then show ?thesis using assms(2) classic_regs(3) [of bpf ops xs] by (simp add: convert_operands_by_class(4) few_regs_def)
qed

lemma cleared_detail: "has_detail MI \<Longrightarrow> has_detail (cleared MI) \<and> regs_read (cleared MI) = [] \<and> regs_write (cleared MI) = []"
  by (simp add: cleared_def MCInst_clear_def clear_detail_def)

lemma getInstruction_cleared:
  assumes "getInstruction env mode bpf MI = Some (MI', bpf')" "has_detail MI"
  shows "has_detail MI'" "regs_read MI' = []" "regs_write MI' = []"
  using assms(1) cleared_detail [OF assms(2)] by (cases rule: getInstruction_cases; simp)+

lemma finish_regs:
  assumes fin: "bpf_finish env mode MI bpf = Some (MI', n)" and det: "has_detail MI" and conv: "convert_operands env mode MI' = Inr xs"
    and ok: "bpf_regs_ok env"
  shows "length (regs_read MI' @ reads_of env xs) \<le> 2" "length (regs_write MI' @ writes_of xs) \<le> 2"
    "EBPF_MODE env mode \<Longrightarrow> list_all (writable env) (regs_write MI' @ writes_of xs)"
proof -
  obtain MI1 bpf1 MI2 where f: "getInstruction env mode bpf MI = Some (MI1, bpf1)" "setFinalOpcode env mode bpf1 MI1 = Some MI2"
    "MI' = MI2\<lparr>Opcode := op_of bpf1\<rparr>"
    using fin by (rule bpf_finish_some)
  note clear = getInstruction_cleared [OF f(1) det]
  obtain i gs where i: "bpf_id_group env mode bpf1 = (i, gs)"
    "MI2 = update_regs_access env mode i (op_of bpf1) (fold add_group gs MI1\<lparr>OpcodePub := i\<rparr>)"
    using setFinalOpcode_detail [OF f(2) clear(1)] by blast
  have "convert_operands env mode MI' = convert_operands env mode (MI1\<lparr>Opcode := op_of bpf1\<rparr>)"
    using setFinalOpcode_keeps(1) [OF f(2)] by (intro convert_operands_cong) (simp_all add: f(3))
  then have few: "few_regs env mode bpf1 xs" using getInstruction_regs [OF f(1)] conv by simp
  have r0: "writable env (BPF_REG_R0 env)" using ok by (simp add: bpf_regs_ok_def writable_def word_less_nat_alt)
  show "length (regs_read MI' @ reads_of env xs) \<le> 2" "length (regs_write MI' @ writes_of xs) \<le> 2"
    "EBPF_MODE env mode \<Longrightarrow> list_all (writable env) (regs_write MI' @ writes_of xs)"
    using few r0 bpf_id_exit [of env mode bpf1 gs] i(1)
      update_regs_classic [of env mode "fold add_group gs MI1\<lparr>OpcodePub := i\<rparr>" i "op_of bpf1"]
      update_regs_extended [of env mode "fold add_group gs MI1\<lparr>OpcodePub := i\<rparr>" i "op_of bpf1"]
    by (auto simp: f(3) i(2) clear few_regs_def split: if_splits)
qed

end
