(* ===== verification/BPF_Correct.thy ===== *)
theory BPF_Correct
  imports BPF_Registers
begin

text \<open>
  Properties of the BPF disassembler as the module offers it: memory safety, printing of every decoded
  instruction, the reported registers, the sort of registers and the round trip of encoded fields.
\<close>

section \<open>Encoded instructions\<close>

text \<open>
  What the reference decoding of bytes is: the readers of the framework are little-endian. An
  instruction is encoded as the comments of the source describe it, field by field.
\<close>

definition bpf_readers_le :: "bpf_env \<Rightarrow> u32 \<Rightarrow> bool" where
  "bpf_readers_le env mode \<longleftrightarrow>
     (\<forall>a b. readBytes16 env mode [a, b] = le_word [a, b]) \<and>
     (\<forall>a b c d. readBytes32 env mode [a, b, c, d] = le_word [a, b, c, d])"

definition encode_cbpf :: "u16 \<Rightarrow> u8 \<Rightarrow> u8 \<Rightarrow> u32 \<Rightarrow> u8 list" where
  "encode_cbpf opc t f imm = le_bytes 2 opc @ [t, f] @ le_bytes 4 imm"

definition encode_ebpf :: "u8 \<Rightarrow> u8 \<Rightarrow> u8 \<Rightarrow> u16 \<Rightarrow> u32 \<Rightarrow> u8 list" where
  "encode_ebpf opc d s off imm = [opc, d OR push_bit 4 s] @ le_bytes 2 off @ le_bytes 4 imm"

lemma le_bytes_unfold: "le_bytes 2 w = [ucast w, ucast (drop_bit 8 w)]"
  "le_bytes 4 w = [ucast w, ucast (drop_bit 8 w), ucast (drop_bit 16 w), ucast (drop_bit 24 w)]"
  by (simp_all add: numeral_eq_Suc drop_bit_drop_bit)

lemma readers_encoded:
  assumes "bpf_readers_le env mode"
  shows "readBytes16 env mode (le_bytes 2 w) = w" "readBytes32 env mode (le_bytes 4 v) = v"
  using assms le_word_le_bytes [of 2 w] le_word_le_bytes [of 4 v] unfolding bpf_readers_le_def le_bytes_unfold
  by (simp_all add: take_bit_word_eq_self)

lemma nibbles:
  assumes "d < 16" "s < (16 :: u8)"
  shows "(d OR push_bit 4 s) AND 0xf = d" "drop_bit 4 ((d OR push_bit 4 s) AND 0xf0) = s"
proof -
  have "take_bit 4 d = d" "take_bit 4 s = s" using assms by (simp_all add: take_bit_eq_mod mod_word_less word_less_nat_alt unat_mod)
  then have bits: "bit d n \<Longrightarrow> n < 4" "bit s n \<Longrightarrow> n < 4" for n by (metis bit_take_bit_iff)+
  have m: "(0xf :: u8) = mask 4" "(0xf0 :: u8) = push_bit 4 (mask 4)" by (simp_all add: mask_eq_exp_minus_1)
  show "(d OR push_bit 4 s) AND 0xf = d"
    unfolding m by (rule bit_word_eqI) (auto simp: bit_simps dest: bits)
  show "drop_bit 4 ((d OR push_bit 4 s) AND 0xf0) = s"
    unfolding m by (rule bit_word_eqI) (auto simp: bit_simps dest: bits)
qed

lemma opcode_word: "(ucast (ucast (opc :: u8) :: u16) :: u32) = 24 \<longleftrightarrow> opc = 24"
  by (simp add: word_eq_iff_unsigned [where ?'a = nat] unsigned_ucast_eq unsigned_take_bit_eq take_bit_nat_eq_self order_less_trans [OF unsigned_less])

lemma encode_lookup [simp]:
  "length (encode_ebpf opc d s off imm) = 8" "encode_ebpf opc d s off imm ! 0 = opc" "encode_ebpf opc d s off imm ! Suc 0 = d OR push_bit 4 s"
  "take 2 (drop 2 (encode_ebpf opc d s off imm)) = le_bytes 2 off" "take 4 (drop 4 (encode_ebpf opc d s off imm)) = le_bytes 4 imm"
  "length (encode_cbpf o' t f imm) = 8" "encode_cbpf o' t f imm ! 2 = t" "encode_cbpf o' t f imm ! 3 = f"
  "take 2 (encode_cbpf o' t f imm) = le_bytes 2 o'" "take 4 (drop 4 (encode_cbpf o' t f imm)) = le_bytes 4 imm"
  by (simp_all add: encode_ebpf_def encode_cbpf_def numeral_eq_Suc)

lemma fetch_cbpf_encoded:
  assumes "bpf_readers_le env mode"
  shows "fetch_cbpf env (Some m) mode (encode_cbpf o' t f imm @ rest) =
    Inr (Some (m\<lparr>op := o', jt := t, jf := f, k := ucast imm, insn_size := 8\<rparr>))"
  using readers_encoded [OF assms]
  by (simp add: fetch_cbpf_def alloc_bpf_internal_def read16_def read32_def code_at_def nth_append)

lemma fetch_ebpf_encoded:
  assumes "bpf_readers_le env mode" "d < 16" "s < 16" "opc \<noteq> 0x18"
  shows "fetch_ebpf env (Some m) mode (encode_ebpf opc d s off imm @ rest) =
    Inr (Some (m\<lparr>op := ucast opc, dst := d, src := s, offset := off, k := ucast imm, insn_size := 8\<rparr>))"
  using readers_encoded [OF assms(1)] nibbles [OF assms(2,3)] assms(4)
  by (simp add: opcode_word fetch_ebpf_def alloc_bpf_internal_def read16_def read32_def code_at_def nth_append Let_def bpf_consts)

lemma fetch_ebpf_wide_encoded:
  assumes "bpf_readers_le env mode" "d < 16" "s < 16"
  shows "fetch_ebpf env (Some m) mode (encode_ebpf 0x18 d s off lo @ encode_ebpf opc d' s' off' hi @ rest) =
    Inr (Some (m\<lparr>op := 0x18, dst := d, src := s, k := ucast lo OR push_bit 32 (ucast hi), insn_size := 16\<rparr>))"
  using readers_encoded [OF assms(1)] nibbles [OF assms(2,3)]
  by (simp add: fetch_ebpf_def alloc_bpf_internal_def read32_def code_at_def nth_append Let_def bpf_consts)

section \<open>The properties\<close>

text \<open>A concrete framework, an instruction to fill in and a piece of code: \<open>add64 r1, r2\<close>.\<close>

definition bpf_demo_env :: bpf_env where
  "bpf_demo_env = \<lparr>BPF_REG_INVALID = 0, BPF_REG_A = 1, BPF_REG_X = 2, BPF_REG_R0 = 3, BPF_REG_R10 = 13,
     CS_MODE_BPF_EXTENDED = 1, readBytes16 = (\<lambda>mode bs. le_word bs), readBytes32 = (\<lambda>mode bs. le_word bs),
     BPF_INS_LD = BPF_INS_LDW, BPF_INS_LDX = BPF_INS_LDXW, BPF_INS_ST = BPF_INS_STW, BPF_INS_STX = BPF_INS_STXW,
     id2name = first_name, id2name_group = first_name, printInt32Hex = (\<lambda>v. hex_string (unat v)),
     printInt32HexOffset = (\<lambda>v. CHR ''+'' # hex_string (unat v)), printInt16HexOffset = (\<lambda>v. CHR ''+'' # hex_string (unat v))\<rparr>"

definition bpf_demo_inst :: MCInst where
  "bpf_demo_inst = \<lparr>Operands = [], Opcode = 0, OpcodePub = BPF_INS_INVALID, has_detail = True, groups = [],
     regs_read = [7, 7, 7], regs_write = [9]\<rparr>"

definition bpf_junk :: "u8 \<Rightarrow> bpf_internal" where
  "bpf_junk x = \<lparr>op = ucast x, k = ucast x, jt = x, jf = x, dst = x, src = x, offset = ucast x, insn_size = x\<rparr>"

definition bpf_demo_code :: "u8 list" where
  "bpf_demo_code = [0x0f, 0x21, 0, 0, 0, 0, 0, 0]"

definition bpf_demo_result :: MCInst where
  "bpf_demo_result = \<lparr>Operands = [MCReg 4, MCReg 5], Opcode = 0x0f, OpcodePub = BPF_INS_ADD64, has_detail = True,
     groups = [BPF_GRP_ALU], regs_read = [], regs_write = []\<rparr>"

definition bpf_demo_handle :: cs_struct where
  "bpf_demo_handle = \<lparr>cs_mode = 1, printer = (\<lambda>mode MI. Inr ([], [])), reg_name = (\<lambda>mode r. None), insn_name = (\<lambda>mode i. None),
     group_name = (\<lambda>g. None), reg_access = (\<lambda>MI ops. ([], [])), disasm = (\<lambda>mem mode code MI. Inr None)\<rparr>"

lemma bpf_demo_ok: "bpf_regs_ok bpf_demo_env" "bpf_names_ok bpf_demo_env" "bpf_readers_le bpf_demo_env mode"
  by (simp_all add: bpf_demo_env_def bpf_regs_ok_def bpf_names_ok_def bpf_readers_le_def)

lemma bpf_demo_disasm:
  "BPF_getInstruction bpf_demo_env (Some (bpf_junk 0xab)) 1 bpf_demo_code bpf_demo_inst = Inr (Some (bpf_demo_result, 8))"
  by code_simp

lemma bpf_demo_convert: "convert_operands bpf_demo_env 1 bpf_demo_result = Inr [BPF_OP_REG 4 True True, BPF_OP_REG 5 True False]"
  by code_simp

lemma bpf_demo_print:
  "BPF_printInst bpf_demo_env 1 bpf_demo_result =
     Inr (''add64'' @ [CHR 0x09] @ ''r1, r2'', [BPF_OP_REG 4 True True, BPF_OP_REG 5 True False])"
  by code_simp

lemma module_callbacks [simp]:
  "disasm (BPF_global_init env ud) = BPF_getInstruction env" "printer (BPF_global_init env ud) = BPF_printInst env"
  "reg_access (BPF_global_init env ud) = BPF_reg_access env"
  by (simp_all add: BPF_global_init_def)

lemma bpf_result_cases: "\<exists>r. BPF_getInstruction env mem mode code MI = Inr r"
  using fetch_safe [of env mem mode code] unfolding BPF_getInstruction_finish by (auto split: if_splits)

text \<open>
  C33: The disassembler of the module, called on any bytes in any mode, never reads outside of the
  bytes it is given; an instruction that it finds is 8 or 16 bytes long and lies within the bytes;
  and its result does not depend on what the memory that it allocates held before, although several
  fields of the record are left unset in each mode.
\<close>

theorem bpf_disasm_safe:
  "(\<exists>r. disasm (BPF_global_init env ud) mem mode code MI = Inr r) \<and>
   (\<forall>MI' n. disasm (BPF_global_init env ud) mem mode code MI = Inr (Some (MI', n)) \<longrightarrow>
      (n = 8 \<or> n = 16) \<and> unat n \<le> length code) \<and>
   disasm (BPF_global_init env ud) (Some m) mode code MI = disasm (BPF_global_init env ud) (Some m') mode code MI"
proof (intro conjI allI impI)
  show "\<exists>r. disasm (BPF_global_init env ud) mem mode code MI = Inr r" using bpf_result_cases by simp
  show "disasm (BPF_global_init env ud) (Some m) mode code MI = disasm (BPF_global_init env ud) (Some m') mode code MI"
    using BPF_getInstruction_same by simp
  fix MI' n
  assume "disasm (BPF_global_init env ud) mem mode code MI = Inr (Some (MI', n))"
  then obtain bpf where b: "bpf_finish env mode MI bpf = Some (MI', n)"
    "insn_size bpf = 8 \<and> 8 \<le> length code \<or> insn_size bpf = 16 \<and> 16 \<le> length code"
    using disasm_some [of env mem mode code MI MI' n] by auto
  moreover have "n = ucast (insn_size bpf)" using bpf_finish_size [OF b(1)] .
  ultimately show "n = 8 \<or> n = 16" "unat n \<le> length code" by auto
qed

theorem bpf_disasm_safe_witness:
  "\<exists>MI'. disasm (BPF_global_init bpf_demo_env bpf_demo_handle) (Some (bpf_junk 0xab)) 1 bpf_demo_code bpf_demo_inst = Inr (Some (MI', 8)) \<and>
     unat (8 :: u16) \<le> length bpf_demo_code \<and>
     disasm (BPF_global_init bpf_demo_env bpf_demo_handle) (Some (bpf_junk 0xcd)) 1 bpf_demo_code bpf_demo_inst = Inr (Some (MI', 8))"
  using bpf_disasm_safe [of bpf_demo_env bpf_demo_handle "Some (bpf_junk 0xab)" 1 bpf_demo_code bpf_demo_inst "bpf_junk 0xab" "bpf_junk 0xcd"]
    bpf_demo_disasm by (metis module_callbacks(1))

text \<open>
  C34: Every instruction that the disassembler finds can be printed: its id has a name, every operand
  that the printer asks for exists and has the kind it asks for, the array of three public operands
  is large enough, and every register that is printed has a name in the mode.
\<close>

theorem bpf_disasm_prints:
  assumes "bpf_regs_ok env" "bpf_names_ok env"
    and "disasm (BPF_global_init env ud) mem mode code MI = Inr (Some (MI', n))"
  shows "\<exists>s ops. printer (BPF_global_init env ud) mode MI' = Inr (s, ops) \<and> length ops \<le> 3"
proof -
  obtain bpf where "bpf_finish env mode MI bpf = Some (MI', n)"
    using disasm_some [of env mem mode code MI MI' n] assms(3) by auto
  then show ?thesis using finish_prints [OF assms(1,2)] by (metis module_callbacks(2))
qed

theorem bpf_disasm_prints_witness:
  "\<exists>s ops. printer (BPF_global_init bpf_demo_env bpf_demo_handle) 1 bpf_demo_result = Inr (s, ops) \<and> length ops \<le> 3"
  by (rule bpf_disasm_prints [OF bpf_demo_ok(1,2), where mem = "Some (bpf_junk 0xab)" and code = bpf_demo_code and MI = bpf_demo_inst])
    (simp add: bpf_demo_disasm)

text \<open>
  C35: The registers that the module reports for an instruction it has found and printed are the
  implicit ones together with those of the operands, each once and in increasing order; and in eBPF
  mode every register that is written is one of \<open>r0\<close> to \<open>r9\<close>, so the frame pointer \<open>r10\<close> is never
  reported as written.
\<close>

theorem bpf_reg_access_correct:
  assumes "bpf_regs_ok env" "bpf_names_ok env" "has_detail MI"
    and "disasm (BPF_global_init env ud) mem mode code MI = Inr (Some (MI', n))"
    and "printer (BPF_global_init env ud) mode MI' = Inr (s, ops)"
  shows "reg_access (BPF_global_init env ud) MI' ops =
      (sorted_list_of_set (set (regs_read MI') \<union> (\<Union>x \<in> set ops. set (op_reads env x))),
       sorted_list_of_set (set (regs_write MI') \<union> (\<Union>x \<in> set ops. set (op_writes x)))) \<and>
    (EBPF_MODE env mode \<longrightarrow>
       (\<forall>r \<in> set (snd (reg_access (BPF_global_init env ud) MI' ops)). BPF_REG_R0 env \<le> r \<and> r < BPF_REG_R10 env))"
proof -
  obtain bpf where fin: "bpf_finish env mode MI bpf = Some (MI', n)"
    using disasm_some [of env mem mode code MI MI' n] assms(4) by auto
  obtain s' ops' where "BPF_printInst env mode MI' = Inr (s', ops')" and conv: "convert_operands env mode MI' = Inr ops'"
    using finish_prints [OF assms(1,2) fin] by metis
  then have "ops' = ops" using assms(5) by simp
  note regs = finish_regs [OF fin assms(3) conv [unfolded this] assms(1)]
  have "reg_access (BPF_global_init env ud) MI' ops =
      (sorted_list_of_set (set (regs_read MI') \<union> set (reads_of env ops)), sorted_list_of_set (set (regs_write MI') \<union> set (writes_of ops)))"
    using bpf_sort.sort_regs_parts [OF regs(1)] bpf_sort.sort_regs_parts [OF regs(2)]
    by (simp add: BPF_reg_access_def reads_of_def writes_of_def)
  moreover have "EBPF_MODE env mode \<Longrightarrow> r \<in> set (snd (reg_access (BPF_global_init env ud) MI' ops)) \<Longrightarrow> writable env r" for r
    using bpf_sort.sort_regs_all [OF regs(3), of r] by (simp add: BPF_reg_access_def writes_of_def)
  ultimately show ?thesis by (simp add: reads_of_def writes_of_def writable_def)
qed

theorem bpf_reg_access_correct_witness:
  "reg_access (BPF_global_init bpf_demo_env bpf_demo_handle) bpf_demo_result [BPF_OP_REG 4 True True, BPF_OP_REG 5 True False] =
     (sorted_list_of_set {4, 5}, sorted_list_of_set {4})"
  using bpf_reg_access_correct [OF bpf_demo_ok(1,2), of bpf_demo_inst bpf_demo_handle "Some (bpf_junk 0xab)" 1 bpf_demo_code
      bpf_demo_result 8] bpf_demo_disasm bpf_demo_print
  by (simp add: bpf_demo_inst_def bpf_demo_result_def insert_commute)

text \<open>
  C36: The routine that sorts the registers keeps the set of them, and gives the sorted list without
  duplicates when there are at most two or all are different. It does not do so in general, since
  the position advances also when a duplicate is removed: of three equal registers two are left.
\<close>

theorem bpf_sort_and_uniq_correct:
  "set (sort_and_uniq arr) = set arr \<and>
   (length arr \<le> 2 \<or> distinct arr \<longrightarrow> sort_and_uniq arr = sorted_list_of_set (set arr)) \<and>
   sort_and_uniq [x, x, x] = [x, x]"
  using sort_and_uniq_set [of arr] sort_and_uniq_small [of arr] sort_and_uniq_distinct [of arr] sort_and_uniq_triple [of x]
  by (auto simp: sorted_list_of_set_sort_remdups distinct_remdups_id)

theorem bpf_sort_and_uniq_correct_witness:
  "sort_and_uniq [9, 4, 7, 2] = [2, 4, 7, 9] \<and> sort_and_uniq [5, 5] = [5]"
  using bpf_sort_and_uniq_correct [of "[9, 4, 7, 2]"] bpf_sort_and_uniq_correct [of "[5, 5]"]
  by (simp add: sorted_list_of_set_sort_remdups)

text \<open>
  C37: Fetching gives back the fields of an encoded instruction, for classic BPF, for eBPF and for the
  wide instruction of eBPF, whose constant is in two parts; what follows the instruction does not
  matter, and a wide instruction that is cut off is refused.
\<close>

theorem bpf_fetch_roundtrip:
  assumes "bpf_readers_le env mode" "d < 16" "s < 16"
  shows "fetch_cbpf env (Some m) mode (encode_cbpf o' t f imm @ rest) =
      Inr (Some (m\<lparr>op := o', jt := t, jf := f, k := ucast imm, insn_size := 8\<rparr>)) \<and>
    (opc \<noteq> 0x18 \<longrightarrow> fetch_ebpf env (Some m) mode (encode_ebpf opc d s off imm @ rest) =
      Inr (Some (m\<lparr>op := ucast opc, dst := d, src := s, offset := off, k := ucast imm, insn_size := 8\<rparr>))) \<and>
    fetch_ebpf env (Some m) mode (encode_ebpf 0x18 d s off imm @ encode_ebpf opc d' s' off' hi @ rest) =
      Inr (Some (m\<lparr>op := 0x18, dst := d, src := s, k := ucast imm OR push_bit 32 (ucast hi), insn_size := 16\<rparr>)) \<and>
    (length rest < 8 \<longrightarrow> fetch_ebpf env (Some m) mode (encode_ebpf 0x18 d s off imm @ rest) = Inr None)"
proof (intro conjI impI)
  show "fetch_ebpf env (Some m) mode (encode_ebpf 0x18 d s off imm @ encode_ebpf opc d' s' off' hi @ rest) =
      Inr (Some (m\<lparr>op := 0x18, dst := d, src := s, k := ucast imm OR push_bit 32 (ucast hi), insn_size := 16\<rparr>))"
    by (rule fetch_ebpf_wide_encoded [OF assms])
  assume "length rest < 8"
  then show "fetch_ebpf env (Some m) mode (encode_ebpf 0x18 d s off imm @ rest) = Inr None"
    by (simp add: fetch_ebpf_def alloc_bpf_internal_def code_at_def nth_append Let_def bpf_consts)
qed (use fetch_cbpf_encoded fetch_ebpf_encoded assms in blast)+

theorem bpf_fetch_roundtrip_witness:
  "fetch_ebpf bpf_demo_env (Some (bpf_junk 0xab)) 1 (encode_ebpf 0x0f 1 2 0x34 0x12345678 @ [7]) =
     Inr (Some ((bpf_junk 0xab)\<lparr>op := 0x0f, dst := 1, src := 2, offset := 0x34, k := 0x12345678, insn_size := 8\<rparr>))"
  using bpf_fetch_roundtrip [OF bpf_demo_ok(3) [of 1], where d = 1 and s = 2 and opc = 15 and off = "0x34" and imm = "0x12345678"
      and m = "bpf_junk 0xab" and rest = "[7]"]
  by simp

end
