(* ===== verification/Py_Base.thy ===== *)
theory Py_Base
  imports Main
begin

text \<open>
  What the Python sources use of the language: exceptions as values, \<open>str\<close> methods on strings of
  single-byte characters, \<open>int\<close> applied to a string and formatted output of numbers. Integers are
  unbounded, and the limit of newer interpreters on the number of decimal digits is not modelled. Where a method depends on the classes of characters, the characters below 256 are
  covered.
\<close>

unbundle bit_operations_syntax

datatype py_error = ValueError | IndexError | PCodeError

definition py_bind :: "py_error + 'a \<Rightarrow> ('a \<Rightarrow> py_error + 'b) \<Rightarrow> py_error + 'b" where
  "py_bind x f = (case x of Inl e \<Rightarrow> Inl e | Inr a \<Rightarrow> f a)"

lemma py_bind_simps [simp]: "py_bind (Inl e) f = Inl e" "py_bind (Inr a) f = f a"
  by (simp_all add: py_bind_def)

section \<open>Strings\<close>

definition py_space :: "char \<Rightarrow> bool" where
  "py_space c \<longleftrightarrow> of_char c \<in> {9, 10, 11, 12, 13, 28, 29, 30, 31, 32, 133, 160 :: nat}"

definition py_lstrip :: "string \<Rightarrow> string" where
  "py_lstrip s = dropWhile py_space s"

definition py_strip :: "string \<Rightarrow> string" where
  "py_strip s = rev (dropWhile py_space (rev (py_lstrip s)))"

definition py_lower_char :: "char \<Rightarrow> char" where
  "py_lower_char c =
     (let n = of_char c :: nat in if 65 \<le> n \<and> n \<le> 90 \<or> 192 \<le> n \<and> n \<le> 222 \<and> n \<noteq> 215 then char_of (n + 32) else c)"

definition py_lower :: "string \<Rightarrow> string" where
  "py_lower = map py_lower_char"

fun py_startswith :: "string \<Rightarrow> string \<Rightarrow> bool" where
  "py_startswith s [] = True"
| "py_startswith [] (p # ps) = False"
| "py_startswith (c # s) (p # ps) = (c = p \<and> py_startswith s ps)"

definition py_endswith :: "string \<Rightarrow> string \<Rightarrow> bool" where
  "py_endswith s p = py_startswith (rev s) (rev p)"

definition py_removeprefix :: "string \<Rightarrow> string \<Rightarrow> string" where
  "py_removeprefix s p = (if py_startswith s p then drop (length p) s else s)"

fun py_join :: "string \<Rightarrow> string list \<Rightarrow> string" where
  "py_join sep [] = []"
| "py_join sep [s] = s"
| "py_join sep (s # t # ss) = s @ sep @ py_join sep (t # ss)"

section \<open>Numbers in strings\<close>

definition digit_value :: "char \<Rightarrow> nat" where
  "digit_value c =
     (let n = of_char c
      in if 48 \<le> n \<and> n \<le> 57 then n - 48
         else if 97 \<le> n \<and> n \<le> 122 then n - 87
         else if 65 \<le> n \<and> n \<le> 90 then n - 55
         else 36)"

text \<open>Digits with single underscores between them; the flag says that the last character was a digit.\<close>

fun py_digits :: "nat \<Rightarrow> int \<Rightarrow> bool \<Rightarrow> string \<Rightarrow> int option" where
  "py_digits base acc after_digit [] = (if after_digit then Some acc else None)"
| "py_digits base acc after_digit (c # cs) =
     (if digit_value c < base then py_digits base (acc * int base + int (digit_value c)) True cs
      else if c = CHR ''_'' \<and> after_digit then py_digits base acc False cs
      else None)"

text \<open>A prefix of the base, and one underscore behind it.\<close>

definition drop_base_prefix :: "nat \<Rightarrow> string \<Rightarrow> string" where
  "drop_base_prefix base s =
     (let p = (if base = 16 then ''x'' else if base = 2 then ''b'' else [])
      in case s of
           z # x # rest \<Rightarrow>
             if p \<noteq> [] \<and> z = CHR ''0'' \<and> py_lower_char x = hd p
             then (case rest of u # rest' \<Rightarrow> if u = CHR ''_'' then rest' else rest | [] \<Rightarrow> rest)
             else s
         | _ \<Rightarrow> s)"

definition py_int :: "string \<Rightarrow> nat \<Rightarrow> py_error + int" where
  "py_int s base =
     (let s = py_strip s;
          neg = (s \<noteq> [] \<and> hd s = CHR ''-'');
          s = (if s \<noteq> [] \<and> (hd s = CHR ''-'' \<or> hd s = CHR ''+'') then tl s else s)
      in case py_digits base 0 False (drop_base_prefix base s) of
           None \<Rightarrow> Inl ValueError
         | Some v \<Rightarrow> Inr (if neg then - v else v))"

definition digit_char :: "nat \<Rightarrow> char" where
  "digit_char d = ''0123456789abcdef'' ! d"

text \<open>Digits of a number in a base of at least two.\<close>

fun digits_of :: "nat \<Rightarrow> nat \<Rightarrow> string" where
  "digits_of base n = (if n < base \<or> base < 2 then [digit_char n] else digits_of base (n div base) @ [digit_char (n mod base)])"

declare digits_of.simps [simp del]

text \<open>\<open>str\<close> of a number, and \<open>format\<close> of a number that is not negative, filled with zeros up to a width.\<close>

definition py_str :: "int \<Rightarrow> string" where
  "py_str n = (if n < 0 then CHR ''-'' # digits_of 10 (nat (- n)) else digits_of 10 (nat n))"

definition py_format :: "nat \<Rightarrow> int \<Rightarrow> nat \<Rightarrow> string" where
  "py_format base n wd = (let s = digits_of base (nat n) in replicate (wd - length s) (CHR ''0'') @ s)"

end
