(* ===== verification/Xtrakt_CIR.thy ===== *)
theory Xtrakt_CIR
  imports Py_Base
begin

text \<open>
  Bit vectors of the extraction tool, \<open>src/xtrakt/cir.py\<close>: construction from a number, from
  hexadecimal and from binary text, and the document form in which records are stored. A document
  may lack the width.
\<close>

record BitVec =
  bv_width :: int
  bv_value :: int

definition mk_BitVec :: "int \<Rightarrow> int \<Rightarrow> py_error + BitVec" where
  "mk_BitVec width value =
     (if width < 0 then Inl ValueError
      else Inr \<lparr>bv_width = width, bv_value = (if width \<noteq> 0 then value AND (push_bit (nat width) 1 - 1) else 0)\<rparr>)"

definition from_hex :: "string \<Rightarrow> int option \<Rightarrow> py_error + BitVec" where
  "from_hex hex_str width =
     (let h = py_removeprefix (py_lower (py_strip hex_str)) ''0x'';
          w = (case width of Some w \<Rightarrow> w | None \<Rightarrow> 4 * int (length h))
      in py_bind (py_int h 16) (\<lambda>v. mk_BitVec w v))"

definition from_bin :: "string \<Rightarrow> py_error + BitVec" where
  "from_bin bin_str =
     (let b = filter (\<lambda>c. c \<noteq> CHR ''_'') bin_str
      in py_bind (py_int b 2) (\<lambda>v. mk_BitVec (int (length b)) v))"

definition bv_hex :: "BitVec \<Rightarrow> string" where
  "bv_hex b = (if bv_width b = 0 then ''0'' else py_format 16 (bv_value b) (nat ((bv_width b + 3) div 4)))"

record bv_doc =
  doc_width :: "int option"
  doc_hex :: string

definition to_doc :: "BitVec \<Rightarrow> bv_doc" where
  "to_doc b = \<lparr>doc_width = Some (bv_width b), doc_hex = bv_hex b\<rparr>"

definition from_doc :: "bv_doc \<Rightarrow> py_error + BitVec" where
  "from_doc d = from_hex (doc_hex d) (doc_width d)"

definition ones :: "int \<Rightarrow> int" where
  "ones width = (if width > 0 then push_bit (nat width) 1 - 1 else 0)"

end
