(* ===== verification/Xtrakt_Sexpr.thy ===== *)
theory Xtrakt_Sexpr
  imports Xtrakt_CIR
begin

text \<open>
  The reader of P-Code, \<open>src/xtrakt/pcode/sexpr.py\<close>: text to tokens, tokens to nested forms.
\<close>

section \<open>Tokens\<close>

definition symbol_break :: "char \<Rightarrow> bool" where
  "symbol_break c \<longleftrightarrow> c \<in> set [CHR ''('', CHR '')'', CHR 0x27, CHR 0x22, CHR '' '', CHR 0x09, CHR 0x0D, CHR 0x0A, CHR '';'']"

text \<open>The rest of a string literal behind its opening quote, and the text behind the literal.\<close>

fun scan_string :: "string \<Rightarrow> string \<times> string" where
  "scan_string [] = ([], [])"
| "scan_string (c # cs) =
     (if c = CHR 0x22 then ([], cs)
      else if c = CHR 0x5C \<and> cs \<noteq> [] then (case scan_string (tl cs) of (buf, rest) \<Rightarrow> (c # hd cs # buf, rest))
      else case scan_string cs of (buf, rest) \<Rightarrow> (c # buf, rest))"

lemma scan_string_shorter: "scan_string cs = (buf, rest) \<Longrightarrow> length rest \<le> length cs"
proof (induction cs arbitrary: buf rest rule: scan_string.induct)
  case (2 c cs)
  then show ?case by (fastforce split: if_splits prod.splits simp: le_SucI)
qed simp

function tokenize :: "string \<Rightarrow> string list" where
  "tokenize [] = []"
| "tokenize (c # cs) =
     (if c \<in> set [CHR '' '', CHR 0x09, CHR 0x0D, CHR 0x0A] then tokenize cs
      else if c = CHR '';'' then tokenize (dropWhile (\<lambda>d. d \<noteq> CHR 0x0A) (c # cs))
      else if c \<in> set [CHR ''('', CHR '')'', CHR 0x27] then [c] # tokenize cs
      else if c = CHR 0x22 then
        (case scan_string cs of (buf, rest) \<Rightarrow> (CHR 0x22 # buf @ [CHR 0x22]) # tokenize rest)
      else takeWhile (\<lambda>d. \<not> symbol_break d) (c # cs) # tokenize (dropWhile (\<lambda>d. \<not> symbol_break d) (c # cs)))"
  by pat_completeness auto
termination
  by (relation "measure length")
    (auto simp: symbol_break_def less_Suc_eq_le length_dropWhile_le dest: scan_string_shorter [OF sym])

section \<open>Forms\<close>

text \<open>Symbols and string literals are both \<open>str\<close> objects.\<close>

datatype pform = Form "pform list" | Sym string | PInt int | PBits BitVec

definition atom :: "string \<Rightarrow> py_error + pform" where
  "atom tok =
     (if py_startswith tok ''#x'' \<or> py_startswith tok ''#X'' then py_bind (from_hex (drop 2 tok) None) (\<lambda>b. Inr (PBits b))
      else if py_startswith tok ''#b'' \<or> py_startswith tok ''#B'' then py_bind (from_bin (drop 2 tok)) (\<lambda>b. Inr (PBits b))
      else if py_startswith tok [CHR 0x22] \<and> py_endswith tok [CHR 0x22] then Inr (Sym (butlast (tl tok)))
      else case py_int tok 10 of Inr n \<Rightarrow> Inr (PInt n) | Inl _ \<Rightarrow> Inr (Sym tok))"

text \<open>
  The forms up to a closing parenthesis or the end, and the tokens behind them. A quote takes the
  form that follows it; at the end of the tokens there is none.
\<close>

function parse_seq :: "string list \<Rightarrow> py_error + (pform list \<times> string list)" where
  "parse_seq [] = Inr ([], [])"
| "parse_seq (t # ts) =
     (if t = '')'' then Inr ([], ts)
      else if t = ''('' then
        (case parse_seq ts of Inl e \<Rightarrow> Inl e
         | Inr (sub, ts') \<Rightarrow>
             (case parse_seq ts' of Inl e \<Rightarrow> Inl e | Inr (forms, rest) \<Rightarrow> Inr (Form sub # forms, rest)))
      else if t = [CHR 0x27] then
        (case ts of
           [] \<Rightarrow> Inl IndexError
         | u # us \<Rightarrow>
             if u = ''('' then
               (case parse_seq us of Inl e \<Rightarrow> Inl e
                | Inr (sub, ts') \<Rightarrow>
                    (case parse_seq ts' of Inl e \<Rightarrow> Inl e
                     | Inr (forms, rest) \<Rightarrow> Inr (Form [Sym ''quote'', Form sub] # forms, rest)))
             else
               (case atom u of Inl e \<Rightarrow> Inl e
                | Inr a \<Rightarrow>
                    (case parse_seq us of Inl e \<Rightarrow> Inl e
                     | Inr (forms, rest) \<Rightarrow> Inr (Form [Sym ''quote'', a] # forms, rest))))
      else
        (case atom t of Inl e \<Rightarrow> Inl e
         | Inr a \<Rightarrow>
             (case parse_seq ts of Inl e \<Rightarrow> Inl e | Inr (forms, rest) \<Rightarrow> Inr (a # forms, rest))))"
  by pat_completeness auto

lemma parse_seq_shorter:
  "parse_seq_dom ts \<Longrightarrow> parse_seq ts = Inr (forms, rest) \<Longrightarrow> length rest \<le> length ts"
proof (induction ts arbitrary: forms rest rule: parse_seq.pinduct)
  case (2 t ts)
  note IH = 2(2-7) and res = 2(8) [unfolded parse_seq.psimps(2) [OF 2(1)]]
  consider "t = '')''" | "t = ''(''" | "t = [CHR 0x27]" "ts = []" | us where "t = [CHR 0x27]" "ts = ''('' # us"
    | u us where "t = [CHR 0x27]" "ts = u # us" "u \<noteq> ''(''" | "t \<noteq> '')''" "t \<noteq> ''(''" "t \<noteq> [CHR 0x27]"
    by (metis neq_Nil_conv)
  then show ?case
  proof cases
    case 2
    then show ?thesis using res IH(1) IH(2) by (fastforce split: sum.splits prod.splits)
  next
    case 4
    then show ?thesis using res IH(3) IH(4) by (fastforce split: sum.splits prod.splits)
  next
    case 5
    then show ?thesis using res IH(5) by (fastforce split: sum.splits prod.splits)
  next
    case 6
    then show ?thesis using res IH(6) by (fastforce split: sum.splits prod.splits)
  qed (use res in auto)
qed (simp add: parse_seq.psimps)

termination parse_seq
  by (relation "measure length") (auto dest: parse_seq_shorter)

declare tokenize.simps [simp del] parse_seq.simps [simp del]

definition read :: "string \<Rightarrow> py_error + pform list" where
  "read text = (case parse_seq (tokenize text) of Inl e \<Rightarrow> Inl e | Inr (forms, _) \<Rightarrow> Inr forms)"

definition read_one :: "string \<Rightarrow> py_error + pform" where
  "read_one text = py_bind (read text) (\<lambda>forms. case forms of [] \<Rightarrow> Inl PCodeError | x # _ \<Rightarrow> Inr x)"

definition is_form :: "pform \<Rightarrow> string \<Rightarrow> bool" where
  "is_form x head = (case x of Form (Sym h # _) \<Rightarrow> h = head | _ \<Rightarrow> False)"

text \<open>The first form with a given head, anywhere.\<close>

fun find_form :: "pform \<Rightarrow> string \<Rightarrow> pform option"
  and find_form_list :: "pform list \<Rightarrow> string \<Rightarrow> pform option" where
  "find_form (Form xs) head = (if is_form (Form xs) head then Some (Form xs) else find_form_list xs head)"
| "find_form (Sym s) head = None"
| "find_form (PInt n) head = None"
| "find_form (PBits b) head = None"
| "find_form_list [] head = None"
| "find_form_list (x # xs) head = (case find_form x head of Some r \<Rightarrow> Some r | None \<Rightarrow> find_form_list xs head)"

end
