(* ===== verification/Xtrakt_Emitter.thy ===== *)
theory Xtrakt_Emitter
  imports Xtrakt_Sexpr
begin

text \<open>
  The emitter of P-Code, \<open>src/xtrakt/pcode/emitter.py\<close>: the layout of an instruction, most significant
  segment first, to the text of an encoding function.
\<close>

text \<open>An operand has its name, the slot it stands for, its width and the tag of its type.\<close>

datatype segment = Fixed int int | Operand string string int string

definition mk_Fixed :: "int \<Rightarrow> int \<Rightarrow> py_error + segment" where
  "mk_Fixed width value =
     (if width < 0 then Inl ValueError
      else Inr (Fixed width (if width \<noteq> 0 then value AND (push_bit (nat width) 1 - 1) else 0)))"

definition mk_Operand :: "string \<Rightarrow> string option \<Rightarrow> int \<Rightarrow> string \<Rightarrow> segment" where
  "mk_Operand name operand width op_type = Operand name (case operand of None \<Rightarrow> name | Some o' \<Rightarrow> o') width op_type"

fun seg_width :: "segment \<Rightarrow> int" where
  "seg_width (Fixed w v) = w"
| "seg_width (Operand n o' w t) = w"

definition const_literal :: "int \<Rightarrow> int \<Rightarrow> string" where
  "const_literal width value =
     (if width \<le> 0 then ''#b0''
      else
        let mask = push_bit (nat width) 1 - 1
        in if width mod 4 = 0 then ''#x'' @ py_format 16 (value AND mask) (nat (width div 4))
           else ''#b'' @ py_format 2 (value AND mask) (nat width))"

definition slot_of :: "string \<Rightarrow> string \<Rightarrow> string" where
  "slot_of name operand = (if operand = [] then name else operand)"

type_synonym op_decl = "string \<times> string \<times> int"

fun add_decl :: "op_decl list \<Rightarrow> segment \<Rightarrow> op_decl list" where
  "add_decl seen (Fixed w v) = seen"
| "add_decl seen (Operand name operand w t) =
     (let op = slot_of name operand
      in if op \<in> fst ` set seen then seen else seen @ [(op, if t = [] then ''IMM'' else t, w)])"

definition op_decls_of :: "segment list \<Rightarrow> op_decl list" where
  "op_decls_of layout = foldl add_decl [] layout"

fun render_seg :: "segment \<Rightarrow> string" where
  "render_seg (Fixed w v) = ''(const '' @ const_literal w v @ '')''"
| "render_seg (Operand name operand w t) =
     ''(field '' @ name @ '' '' @ slot_of name operand @ '' '' @ py_str w @ '')''"

text \<open>The width of an instruction is a number, or a text such as \<open>variable\<close>.\<close>

datatype pwidth = WInt int | WText string

fun width_token :: "pwidth \<Rightarrow> string" where
  "width_token (WInt w) = py_str w"
| "width_token (WText s) = s"

fun render_decl :: "op_decl \<Rightarrow> string" where
  "render_decl (n, t, w) = (if w \<noteq> 0 then ''('' @ n @ '' :'' @ t @ '' '' @ py_str w @ '')'' else ''('' @ n @ '' :'' @ t @ '')'')"

definition emit_encoding ::
    "string \<Rightarrow> segment list \<Rightarrow> pwidth \<Rightarrow> op_decl list option \<Rightarrow> (string \<Rightarrow> string option) \<Rightarrow> py_error + string" where
  "emit_encoding name layout width op_decls op_types =
     (let decls = (case op_decls of Some ds \<Rightarrow> ds | None \<Rightarrow> op_decls_of layout);
          decls = map (\<lambda>(n, t, w). (n, case op_types n of Some t' \<Rightarrow> t' | None \<Rightarrow> t, w)) decls;
          decl_str = py_join '' '' (map render_decl decls);
          body = ''(cat '' @ py_join '' '' (map render_seg layout) @ '')'';
          wt = width_token width;
          total = sum_list (map seg_width layout)
      in if (case width of WInt w \<Rightarrow> total \<noteq> w | WText _ \<Rightarrow> False) then Inl ValueError
         else if decl_str \<noteq> []
         then Inr (''(define-encoding ('' @ name @ '' '' @ decl_str @ '') '' @ wt @ [CHR 0x0A] @ ''  '' @ body @ '')'')
         else Inr (''(define-encoding ('' @ name @ '') '' @ wt @ [CHR 0x0A] @ ''  '' @ body @ '')''))"

definition emit_semantics :: "string \<Rightarrow> string \<Rightarrow> op_decl list option \<Rightarrow> string" where
  "emit_semantics name body decls =
     (if py_startswith (py_lstrip body) ''(define-semantics'' then body
      else
        let decl_str = py_join '' '' (map (\<lambda>(n, t, _). ''('' @ n @ '' :'' @ t @ '')'') (case decls of None \<Rightarrow> [] | Some ds \<Rightarrow> ds))
        in ''(define-semantics ('' @ name @ '' '' @ decl_str @ '')'' @ [CHR 0x0A] @ ''  '' @ py_strip body @ '')'')"

end
