(* ===== verification/Xtrakt_Decoder.thy ===== *)
theory Xtrakt_Decoder
  imports Xtrakt_Emitter
begin

text \<open>
  Decode signatures, \<open>src/xtrakt/pcode/decoder.py\<close>: the text of an encoding function to the mask of its
  fixed bits and their values.
\<close>

text \<open>The note of a result, without the text of exceptions in it.\<close>

datatype decode_note =
    NoNote | NoEncodingFunction | Unparseable | NotDefineEncoding | MalformedDefineEncoding
  | IndeterminateWidth | SchematicBody

record DecodeResult =
  dr_mask :: "BitVec option"
  dr_match :: "BitVec option"
  dr_schematic :: bool
  dr_note :: decode_note

definition schematic_result :: "decode_note \<Rightarrow> DecodeResult" where
  "schematic_result n = \<lparr>dr_mask = None, dr_match = None, dr_schematic = True, dr_note = n\<rparr>"

text \<open>Width of an element and its value if it is fixed; none if it is of unknown width.\<close>

definition seg_width_and_kind :: "pform list \<Rightarrow> (int \<times> int option) option" where
  "seg_width_and_kind form =
     (case hd form of
        Sym h \<Rightarrow>
          if h = ''const'' \<and> length form \<ge> 2 \<and> (case form ! 1 of PBits b \<Rightarrow> True | _ \<Rightarrow> False)
          then (case form ! 1 of PBits b \<Rightarrow> Some (bv_width b, Some (bv_value b)) | _ \<Rightarrow> None)
          else if h = ''field'' \<and> length form \<ge> 4
          then (case last form of PInt n \<Rightarrow> Some (n, None) | _ \<Rightarrow> None)
          else None
      | _ \<Rightarrow> None)"

text \<open>The elements of a body, or none where \<open>_Schematic\<close> is raised.\<close>

function flatten :: "pform \<Rightarrow> pform list option"
  and flatten_all :: "pform list \<Rightarrow> pform list option" where
  "flatten (Form xs) =
     (case xs of
        Sym h # ys \<Rightarrow>
          if h = ''cat'' then flatten_all ys
          else if (h = ''let'' \<or> h = ''let*'') \<and> length xs \<ge> 3 then flatten (last xs)
          else Some [Form xs]
      | _ \<Rightarrow> Some [Form xs])"
| "flatten (Sym s) = None"
| "flatten (PInt n) = None"
| "flatten (PBits b) = None"
| "flatten_all [] = Some []"
| "flatten_all (x # xs) =
     (case flatten x of None \<Rightarrow> None
      | Some a \<Rightarrow> (case flatten_all xs of None \<Rightarrow> None | Some b \<Rightarrow> Some (a @ b)))"
  by pat_completeness auto
termination
proof (relation "measure (case_sum size (size_list size))")
  fix xs :: "pform list" and x ys x1
  assume "xs = x # ys" "\<not> x1 = ''cat''" "(x1 = ''let'' \<or> x1 = ''let*'') \<and> 3 \<le> length xs"
  then have "size (last xs) \<le> size_list size xs" by (intro size_list_estimation' [of "last xs"]) auto
  then show "(Inl (last xs), Inl (Form xs)) \<in> measure (case_sum size (size_list size))" by simp
qed simp_all

text \<open>The loop over the elements: mask, match, the position reached from above and the bits accounted for.\<close>

fun decode_segs :: "pform list \<Rightarrow> int \<Rightarrow> int \<Rightarrow> int \<Rightarrow> int \<Rightarrow> (int \<times> int \<times> int) option" where
  "decode_segs [] msk match' hi accounted = Some (msk, match', accounted)"
| "decode_segs (seg # segs) msk match' hi accounted =
     (case seg of
        Form (x # xs) \<Rightarrow>
          (case seg_width_and_kind (x # xs) of
             None \<Rightarrow> None
           | Some (w, payload) \<Rightarrow>
               let lo = hi - w
               in if lo < 0 then None
                  else
                    (case payload of
                       Some v \<Rightarrow>
                         decode_segs segs (msk OR push_bit (nat lo) (ones w)) (match' OR push_bit (nat lo) (v AND ones w))
                           lo (accounted + w)
                     | None \<Rightarrow> decode_segs segs msk match' lo (accounted + w)))
      | _ \<Rightarrow> None)"

definition decode_signature :: "string \<Rightarrow> pwidth option \<Rightarrow> py_error + DecodeResult" where
  "decode_signature encoding_function width =
     (if encoding_function = [] \<or> py_strip encoding_function = [] then Inr (schematic_result NoEncodingFunction)
      else
        (case read_one encoding_function of
          Inl IndexError \<Rightarrow> Inl IndexError
        | Inl _ \<Rightarrow> Inr (schematic_result Unparseable)
        | Inr form \<Rightarrow>
            if \<not> is_form form ''define-encoding'' then Inr (schematic_result NotDefineEncoding)
            else
              let body_forms = (case form of Form xs \<Rightarrow> drop 2 xs | _ \<Rightarrow> [])
              in if length body_forms < 2 then Inr (schematic_result MalformedDefineEncoding)
                 else
                   let w_tok = body_forms ! (length body_forms - 2);
                       body = last body_forms;
                       instr_width = (case width of Some (WInt w) \<Rightarrow> Some w
                                      | _ \<Rightarrow> (case w_tok of PInt n \<Rightarrow> Some n | _ \<Rightarrow> None))
                   in (case instr_width of
                        None \<Rightarrow> Inr (schematic_result IndeterminateWidth)
                      | Some iw \<Rightarrow>
                          (case Option.bind (flatten body) (\<lambda>segs. decode_segs segs 0 0 iw 0) of
                             None \<Rightarrow> Inr (schematic_result SchematicBody)
                           | Some (msk, match', accounted) \<Rightarrow>
                               if accounted \<noteq> iw then Inr (schematic_result SchematicBody)
                               else
                                 py_bind (mk_BitVec iw msk) (\<lambda>m. py_bind (mk_BitVec iw match') (\<lambda>v.
                                   Inr \<lparr>dr_mask = Some m, dr_match = Some v, dr_schematic = False, dr_note = NoNote\<rparr>))))))"

end
