(* ===== verification/Xtrakt_Numbers.thy ===== *)
theory Xtrakt_Numbers
  imports Xtrakt_Decoder
begin

text \<open>
  Numbers written and read back: digits in a base, the literals of bit vectors and their document
  form.
\<close>

section \<open>Digits\<close>

lemma less_16_cases: "d < 16 \<Longrightarrow> d \<in> {0, 1, 2, 3, 4, 5, 6, 7, 8, 9, 10, 11, 12, 13, 14, 15 :: nat}"
  by (simp add: numeral_eq_Suc less_Suc_eq)

lemma digit_char_simps:
  assumes "d < 16"
  shows "digit_value (digit_char d) = d" "py_lower_char (digit_char d) = digit_char d" "\<not> py_space (digit_char d)"
    "digit_char d \<noteq> CHR ''-''" "digit_char d \<noteq> CHR ''+''" "digit_char d \<noteq> CHR ''x''" "digit_char d \<noteq> CHR ''_''" "\<not> symbol_break (digit_char d)"
  using less_16_cases [OF assms]
  by (auto simp: digit_char_def digit_value_def py_lower_char_def py_space_def symbol_break_def)

lemma digit_char_binary: "d < 2 \<Longrightarrow> digit_char d \<noteq> CHR ''b''"
  by (auto simp: digit_char_def less_2_cases_iff)

definition digit_string :: "nat \<Rightarrow> string \<Rightarrow> bool" where
  "digit_string base s \<longleftrightarrow> s \<noteq> [] \<and> (\<forall>c \<in> set s. \<exists>d < base. c = digit_char d)"

lemma digits_of_string: "2 \<le> base \<Longrightarrow> base \<le> 16 \<Longrightarrow> digit_string base (digits_of base n)"
proof (induction base n rule: digits_of.induct)
  case (1 base n)
  show ?case
  proof (cases "n < base")
    case True
    then show ?thesis by (auto simp: digits_of.simps [of base n] digit_string_def)
  next
    case False
    then have "digit_string base (digits_of base (n div base))" using 1 by simp
    moreover have "n mod base < base" using 1 by simp
    ultimately show ?thesis using False 1(2) unfolding digits_of.simps [of base n] digit_string_def
      by (auto intro: exI [of _ "n mod base"])
  qed
qed

lemma py_digits_digits_of:
  assumes "2 \<le> base" "base \<le> 16"
  shows "py_digits base acc b (digits_of base n @ rest) =
    py_digits base (acc * int base ^ length (digits_of base n) + int n) True rest"
  using assms
proof (induction base n arbitrary: acc b rest rule: digits_of.induct)
  case (1 base n)
  show ?case
  proof (cases "n < base")
    case True
    then show ?thesis using 1(2,3) by (simp add: digits_of.simps [of base n] digit_char_simps)
  next
    case False
    let ?q = "digits_of base (n div base)"
    have step: "py_digits base acc b (?q @ digit_char (n mod base) # rest) =
        py_digits base (acc * int base ^ length ?q + int (n div base)) True (digit_char (n mod base) # rest)"
      using 1(1) [OF _ 1(2,3)] False 1(2) by simp
    have "n mod base < base" using 1(2) by simp
    then have "digit_value (digit_char (n mod base)) = n mod base" using 1(3) by (intro digit_char_simps) simp
    moreover have "int n = int (n div base) * int base + int (n mod base)" by (metis div_mult_mod_eq of_nat_add of_nat_mult)
    ultimately show ?thesis using False 1(2) step \<open>n mod base < base\<close>
      by (simp add: digits_of.simps [of base n] algebra_simps)
  qed
qed

lemma py_digits_zeros:
  "2 \<le> base \<Longrightarrow> py_digits base 0 b (replicate m (CHR ''0'') @ digits_of base n @ rest) =
     py_digits base 0 (b \<or> m > 0) (digits_of base n @ rest)"
  by (induction m arbitrary: b) (simp_all add: digit_value_def)

lemma dropWhile_none: "\<forall>c \<in> set s. \<not> P c \<Longrightarrow> dropWhile P s = s"
  by (cases s) simp_all

lemma py_strip_id: "\<forall>c \<in> set s. \<not> py_space c \<Longrightarrow> py_strip s = s"
  by (simp add: py_strip_def py_lstrip_def dropWhile_none)

lemma digit_string_chars:
  assumes "digit_string base s" "base \<le> 16" "c \<in> set s"
  shows "\<not> py_space c" "c \<noteq> CHR ''-''" "c \<noteq> CHR ''+''" "py_lower_char c = c" "c \<noteq> CHR ''x''" "base = 2 \<Longrightarrow> c \<noteq> CHR ''b''" "\<not> symbol_break c" "c \<noteq> CHR ''_''"
proof -
  obtain d where d: "d < base" "c = digit_char d" using assms(1,3) by (auto simp: digit_string_def)
  then have "d < 16" using assms(2) by simp
  then show "\<not> py_space c" "c \<noteq> CHR ''-''" "c \<noteq> CHR ''+''" "py_lower_char c = c" "c \<noteq> CHR ''x''" "base = 2 \<Longrightarrow> c \<noteq> CHR ''b''"
    "\<not> symbol_break c" "c \<noteq> CHR ''_''"
    using digit_char_simps [of d] digit_char_binary [of d] d by auto
qed

lemma digit_string_strip:
  assumes "digit_string base s" "base \<le> 16"
  shows "py_strip s = s" "hd s \<noteq> CHR ''-''" "hd s \<noteq> CHR ''+''" "py_lower s = s"
proof -
  have "hd s \<in> set s" using assms(1) by (auto simp: digit_string_def)
  then show "py_strip s = s" "hd s \<noteq> CHR ''-''" "hd s \<noteq> CHR ''+''" "py_lower s = s"
    using digit_string_chars [OF assms] by (auto simp: py_strip_id py_lower_def map_idI)
qed

lemma digit_string_prefix:
  assumes "digit_string base s" "base = 16 \<or> base = 10 \<or> base = 2"
  shows "drop_base_prefix base s = s"
proof -
  have c: "py_lower_char c \<noteq> (if base = 16 then CHR ''x'' else CHR ''b'')" if "c \<in> set s" "base \<noteq> 10" for c
    using that assms digit_string_chars [OF assms(1) _ that(1)] by auto
  show ?thesis
  proof (cases "base = 10")
    case True
    then show ?thesis by (simp add: drop_base_prefix_def split: list.splits)
  next
    case False
    then show ?thesis using c assms(2) by (auto simp: drop_base_prefix_def Let_def split: list.splits)
  qed
qed

lemma py_int_digits:
  assumes "digit_string base s" "base = 16 \<or> base = 10 \<or> base = 2" "py_digits base 0 False s = Some v"
  shows "py_int s base = Inr v"
proof -
  have "base \<le> 16" using assms(2) by auto
  then show ?thesis
    using digit_string_strip [OF assms(1)] digit_string_prefix [OF assms(1,2)] assms(3) by (simp add: py_int_def Let_def)
qed

lemma py_format_string:
  assumes "2 \<le> base" "base \<le> 16"
  shows "digit_string base (py_format base n wd)"
proof -
  have "CHR ''0'' = digit_char 0" by (simp add: digit_char_def)
  then show ?thesis using digits_of_string [OF assms, of "nat n"] assms
    by (auto simp: py_format_def Let_def digit_string_def) (metis not_numeral_le_zero zero_less_iff_neq_zero le_zero_eq)
qed

lemma py_int_format:
  assumes "base = 16 \<or> base = 2" "0 \<le> n"
  shows "py_int (py_format base n wd) base = Inr n"
proof (rule py_int_digits)
  have b: "2 \<le> base" "base \<le> 16" using assms(1) by auto
  show "digit_string base (py_format base n wd)" using py_format_string [OF b] .
  show "py_digits base 0 False (py_format base n wd) = Some n"
    using py_digits_zeros [OF b(1), of False _ "nat n" "[]"] py_digits_digits_of [OF b, of 0 _ "nat n" "[]"] assms(2)
    by (simp add: py_format_def Let_def)
qed (use assms(1) in auto)

lemma py_int_str: "py_int (py_str n) 10 = Inr n"
proof -
  let ?s = "digits_of 10 (nat \<bar>n\<bar>)"
  have s: "digit_string 10 ?s" by (rule digits_of_string) simp_all
  have d: "py_digits 10 0 False ?s = Some \<bar>n\<bar>" using py_digits_digits_of [of 10 0 False "nat \<bar>n\<bar>" "[]"] by simp
  show ?thesis
  proof (cases "n < 0")
    case False
    then show ?thesis using py_int_digits [OF s _ d] by (simp add: py_str_def)
  next
    case True
    have "py_strip (CHR ''-'' # ?s) = CHR ''-'' # ?s"
      by (rule py_strip_id) (use digit_string_chars(1) [OF s] in \<open>simp add: py_space_def\<close>)
    then show ?thesis using True digit_string_prefix [OF s] d by (simp add: py_int_def py_str_def Let_def)
  qed
qed

section \<open>Bit vectors\<close>

definition bv_ok :: "BitVec \<Rightarrow> bool" where
  "bv_ok b \<longleftrightarrow> 0 \<le> bv_width b \<and> 0 \<le> bv_value b \<and> bv_value b < 2 ^ nat (bv_width b)"

lemma and_ones: "(v :: int) AND (2 ^ n - 1) = take_bit n v"
  by (simp add: take_bit_eq_mask mask_eq_exp_minus_1 push_bit_eq_mult)

lemma ones_mask: "ones w = mask (nat w)"
  by (simp add: ones_def mask_eq_exp_minus_1 push_bit_eq_mult)

lemma mk_BitVec_eq: "0 \<le> w \<Longrightarrow> mk_BitVec w v = Inr \<lparr>bv_width = w, bv_value = take_bit (nat w) v\<rparr>"
  by (simp add: mk_BitVec_def and_ones)

lemma mk_BitVec_ok: "mk_BitVec w v = Inr b \<Longrightarrow> bv_ok b"
  by (auto simp: mk_BitVec_def and_ones bv_ok_def split: if_splits)

lemma take_bit_small: "0 \<le> v \<Longrightarrow> v < 2 ^ n \<Longrightarrow> take_bit n v = (v :: int)"
  by (simp add: take_bit_int_eq_self)

lemma from_hex_format:
  assumes "0 \<le> v"
  shows "from_hex (py_format 16 v wd) (Some w) = mk_BitVec w v"
    "from_hex (py_format 16 v wd) None = mk_BitVec (4 * int (length (py_format 16 v wd))) v"
proof -
  let ?s = "py_format 16 v wd"
  have s: "digit_string 16 ?s" by (rule py_format_string) simp_all
  have "\<not> py_startswith ?s ''0x''"
    using digit_string_chars(5) [OF s] by (cases ?s; cases "tl ?s") auto
  then have "py_removeprefix (py_lower (py_strip ?s)) ''0x'' = ?s"
    using digit_string_strip(1,4) [OF s] by (simp add: py_removeprefix_def)
  then show "from_hex ?s (Some w) = mk_BitVec w v" "from_hex ?s None = mk_BitVec (4 * int (length ?s)) v"
    using py_int_format [of 16 v wd] assms by (simp_all add: from_hex_def)
qed

lemma from_doc_to_doc: "bv_ok b \<Longrightarrow> from_doc (to_doc b) = Inr b"
proof -
  assume ok: "bv_ok b"
  have zero: "''0'' = py_format 16 0 0" by (simp add: py_format_def digits_of.simps [of 16 0] digit_char_def)
  show ?thesis
  proof (cases "bv_width b = 0")
    case True
    then have "from_doc (to_doc b) = mk_BitVec 0 0"
      using from_hex_format(1) [of 0 0 0] by (simp add: from_doc_def to_doc_def bv_hex_def zero)
    then show ?thesis using True ok by (cases b) (simp add: mk_BitVec_eq bv_ok_def)
  next
    case False
    then have "from_doc (to_doc b) = mk_BitVec (bv_width b) (bv_value b)"
      using from_hex_format(1) [of "bv_value b"] ok by (simp add: from_doc_def to_doc_def bv_hex_def bv_ok_def)
    then show ?thesis using ok by (cases b) (simp add: mk_BitVec_eq bv_ok_def take_bit_small)
  qed
qed

section \<open>Lengths of literals\<close>

lemma length_digits_of:
  assumes "2 \<le> base" "n < base ^ wd" "0 < wd"
  shows "length (digits_of base n) \<le> wd"
  using assms
proof (induction base n arbitrary: wd rule: digits_of.induct)
  case (1 base n)
  show ?case
  proof (cases "n < base")
    case True
    then show ?thesis using 1 by (simp add: digits_of.simps [of base n] Suc_le_eq)
  next
    case False
    then obtain wd' where wd: "wd = Suc wd'" "0 < wd'" using 1(3,4) by (cases wd; cases "wd - 1") auto
    then have "n div base < base ^ wd'" using 1(2,3) by (simp add: less_mult_imp_div_less mult.commute)
    then have "length (digits_of base (n div base)) \<le> wd'" using 1(1) [of wd'] 1(2) False wd by simp
    then show ?thesis using False 1(2) wd by (simp add: digits_of.simps [of base n])
  qed
qed

lemma length_py_format:
  assumes "2 \<le> base" "0 \<le> v" "v < int base ^ wd" "0 < wd"
  shows "length (py_format base v wd) = wd"
proof -
  have "nat v < base ^ wd" using assms(2,3) by (simp add: nat_less_iff)
  then show ?thesis using length_digits_of [OF assms(1) _ assms(4)] by (simp add: py_format_def Let_def)
qed

lemma from_bin_format:
  assumes "0 \<le> v"
  shows "from_bin (py_format 2 v wd) = mk_BitVec (int (length (py_format 2 v wd))) v"
proof -
  have s: "digit_string 2 (py_format 2 v wd)" by (rule py_format_string) simp_all
  have "filter (\<lambda>c. c \<noteq> CHR ''_'') (py_format 2 v wd) = py_format 2 v wd"
    using digit_string_chars(8) [OF s] by (simp add: filter_id_conv)
  then show ?thesis using py_int_format [of 2 v wd] assms by (simp add: from_bin_def)
qed

lemma atom_const_literal:
  assumes "0 < w" "0 \<le> v" "v < 2 ^ nat w"
  shows "atom (const_literal w v) = Inr (PBits \<lparr>bv_width = w, bv_value = v\<rparr>)"
proof (cases "w mod 4 = 0")
  case True
  let ?n = "nat (w div 4)"
  have n: "0 < ?n" "nat w = 4 * ?n" "4 * int ?n = w" using assms(1) True by auto
  have "v < int 16 ^ ?n" using assms(3) n(2) by (simp add: power_mult)
  then have "length (py_format 16 v ?n) = ?n" using length_py_format [of 16 v ?n] assms(2) n(1) by simp
  then show ?thesis
    using True assms from_hex_format(2) [OF assms(2), of ?n] n(3) take_bit_small [OF assms(2,3)]
    by (simp add: const_literal_def atom_def Let_def and_ones mk_BitVec_eq)
next
  case False
  have "length (py_format 2 v (nat w)) = nat w" using length_py_format [of 2 v "nat w"] assms by simp
  then show ?thesis
    using False assms from_bin_format [OF assms(2), of "nat w"] take_bit_small [OF assms(2,3)]
    by (simp add: const_literal_def atom_def Let_def and_ones mk_BitVec_eq)
qed

end
