(* ===== verification/Xtrakt_Reading.thy ===== *)
theory Xtrakt_Reading
  imports Xtrakt_Numbers
begin

text \<open>
  Text that is read back as given forms, put together from words, parentheses and blanks, and the text
  of the emitter in this way.
\<close>

section \<open>Texts and the forms they stand for\<close>

lemma tokenize_simps [simp]:
  "tokenize [] = []" "tokenize (CHR '' '' # cs) = tokenize cs" "tokenize (CHR 0x0A # cs) = tokenize cs"
  "tokenize (CHR ''('' # cs) = ''('' # tokenize cs" "tokenize (CHR '')'' # cs) = '')'' # tokenize cs"
  by (simp_all add: tokenize.simps)

lemma parse_seq_simps [simp]:
  "parse_seq [] = Inr ([], [])" "parse_seq ('')'' # ts) = Inr ([], ts)"
  "parse_seq (''('' # ts) =
     (case parse_seq ts of Inl e \<Rightarrow> Inl e
      | Inr (sub, ts') \<Rightarrow> (case parse_seq ts' of Inl e \<Rightarrow> Inl e | Inr (forms, rest) \<Rightarrow> Inr (Form sub # forms, rest)))"
  by (simp_all add: parse_seq.simps)

definition token_forms :: "string list \<Rightarrow> pform list \<Rightarrow> bool" where
  "token_forms ts forms \<longleftrightarrow>
     (\<forall>rest. parse_seq (ts @ rest) =
        (case parse_seq rest of Inl e \<Rightarrow> Inl e | Inr (fs, r) \<Rightarrow> Inr (forms @ fs, r)))"

definition text_forms :: "string \<Rightarrow> pform list \<Rightarrow> bool" where
  "text_forms s forms \<longleftrightarrow>
     (\<exists>ts. token_forms ts forms \<and>
        (\<forall>rest. (rest = [] \<or> symbol_break (hd rest)) \<longrightarrow> tokenize (s @ rest) = ts @ tokenize rest))"

lemma token_forms_Nil: "token_forms [] []"
  by (simp add: token_forms_def split: sum.splits prod.splits)

lemma token_forms_append: "token_forms ts fs \<Longrightarrow> token_forms us gs \<Longrightarrow> token_forms (ts @ us) (fs @ gs)"
  by (simp add: token_forms_def split: sum.splits prod.splits)

lemma token_forms_atom:
  "atom t = Inr a \<Longrightarrow> t \<noteq> ''('' \<Longrightarrow> t \<noteq> '')'' \<Longrightarrow> t \<noteq> [CHR 0x27] \<Longrightarrow> token_forms [t] [a]"
  by (simp add: token_forms_def parse_seq.simps(2) [of t] split: sum.splits prod.splits)

lemma token_forms_paren: "token_forms ts fs \<Longrightarrow> token_forms (''('' # ts @ ['')'']) [Form fs]"
  by (simp add: token_forms_def split: sum.splits prod.splits)

lemma read_text:
  assumes "text_forms s forms"
  shows "read s = Inr forms"
proof -
  obtain ts where ts: "token_forms ts forms" "tokenize (s @ []) = ts @ tokenize []"
    using assms unfolding text_forms_def by blast
  then have "parse_seq (tokenize s) = Inr (forms, [])" using ts(1) [unfolded token_forms_def, rule_format, of "[]"] by simp
  then show ?thesis by (simp add: read_def)
qed

lemma text_forms_Nil: "text_forms [] []"
  unfolding text_forms_def using token_forms_Nil by (intro exI [of _ "[]"]) simp

definition plain_text :: "string \<Rightarrow> bool" where
  "plain_text w \<longleftrightarrow> w \<noteq> [] \<and> (\<forall>c \<in> set w. \<not> symbol_break c)"

lemma tokenize_word:
  assumes "plain_text w" "rest = [] \<or> symbol_break (hd rest)"
  shows "tokenize (w @ rest) = w # tokenize rest"
proof -
  obtain c cs where w: "w = c # cs" "\<not> symbol_break c" using assms(1) by (cases w) (auto simp: plain_text_def)
  have "takeWhile (\<lambda>d. \<not> symbol_break d) (w @ rest) = w" "dropWhile (\<lambda>d. \<not> symbol_break d) (w @ rest) = rest"
    using assms by (cases rest; simp add: plain_text_def takeWhile_append2 dropWhile_append2)+
  moreover have "c \<noteq> CHR '' ''" "c \<noteq> CHR 0x09" "c \<noteq> CHR 0x0D" "c \<noteq> CHR 0x0A" "c \<noteq> CHR '';''" "c \<noteq> CHR ''(''" "c \<noteq> CHR '')''"
    "c \<noteq> CHR 0x27" "c \<noteq> CHR 0x22"
    using w(2) by (auto simp: symbol_break_def)
  ultimately show ?thesis using w(1) by (simp add: tokenize.simps(2) [of c])
qed

lemma text_forms_word:
  assumes "plain_text w" "atom w = Inr a"
  shows "text_forms w [a]"
proof -
  have "\<not> plain_text ''(''" "\<not> plain_text '')''" "\<not> plain_text [CHR 0x27]" by (simp_all add: plain_text_def symbol_break_def)
  then have "w \<noteq> ''(''" "w \<noteq> '')''" "w \<noteq> [CHR 0x27]" using assms(1) by blast+
  then show ?thesis
    unfolding text_forms_def using token_forms_atom [OF assms(2)] tokenize_word [OF assms(1)] by (intro exI [of _ "[w]"]) simp
qed

lemma text_forms_paren:
  assumes "text_forms s fs"
  shows "text_forms (''('' @ s @ '')'') [Form fs]"
proof -
  obtain ts where ts: "token_forms ts fs" "\<And>rest. rest = [] \<or> symbol_break (hd rest) \<Longrightarrow> tokenize (s @ rest) = ts @ tokenize rest"
    using assms unfolding text_forms_def by blast
  have "tokenize ((''('' @ s @ '')'') @ rest) = (''('' # ts @ ['')'']) @ tokenize rest" for rest
    using ts(2) [of "CHR '')'' # rest"] by (simp add: symbol_break_def)
  then show ?thesis unfolding text_forms_def using token_forms_paren [OF ts(1)] by blast
qed

definition blank :: "string \<Rightarrow> bool" where
  "blank b \<longleftrightarrow> b \<noteq> [] \<and> set b \<subseteq> {CHR '' '', CHR 0x0A}"

lemma tokenize_blank: "set b \<subseteq> {CHR '' '', CHR 0x0A} \<Longrightarrow> tokenize (b @ rest) = tokenize rest"
  by (induction b) auto

lemma text_forms_blank:
  assumes "text_forms s fs" "text_forms t gs" "blank b"
  shows "text_forms (s @ b @ t) (fs @ gs)"
proof -
  obtain ts where ts: "token_forms ts fs" "\<And>rest. rest = [] \<or> symbol_break (hd rest) \<Longrightarrow> tokenize (s @ rest) = ts @ tokenize rest"
    using assms(1) unfolding text_forms_def by blast
  obtain us where us: "token_forms us gs" "\<And>rest. rest = [] \<or> symbol_break (hd rest) \<Longrightarrow> tokenize (t @ rest) = us @ tokenize rest"
    using assms(2) unfolding text_forms_def by blast
  have "symbol_break (hd (b @ u))" for u
    using assms(3) by (cases b) (auto simp: blank_def symbol_break_def)
  then have "tokenize ((s @ b @ t) @ rest) = (ts @ us) @ tokenize rest" if "rest = [] \<or> symbol_break (hd rest)" for rest
    using ts(2) [of "b @ t @ rest"] us(2) [OF that] tokenize_blank [of b "t @ rest"] assms(3) by (simp add: blank_def)
  then show ?thesis unfolding text_forms_def using token_forms_append [OF ts(1) us(1)] by blast
qed

lemma text_forms_join:
  assumes "list_all2 (\<lambda>s f. text_forms s [f]) ss fs"
  shows "text_forms (py_join '' '' ss) fs"
  using assms
proof (induction "'' ''" ss arbitrary: fs rule: py_join.induct)
  case (3 s t ss)
  then obtain f gs where fs: "fs = f # gs" "text_forms s [f]" "list_all2 (\<lambda>s f. text_forms s [f]) (t # ss) gs"
    by (auto simp: list_all2_Cons1)
  show ?case using text_forms_blank [OF fs(2) 3(1) [OF fs(3)], of "'' ''"] fs(1) by (simp add: blank_def)
qed (auto simp: text_forms_Nil list_all2_Cons1)

section \<open>The text of the emitter\<close>

definition name_ok :: "string \<Rightarrow> bool" where
  "name_ok n \<longleftrightarrow> plain_text n \<and> \<not> (\<exists>p \<in> {''#x'', ''#X'', ''#b'', ''#B''}. py_startswith n p)"

definition tag_ok :: "string \<Rightarrow> bool" where
  "tag_ok t \<longleftrightarrow> (\<forall>c \<in> set t. \<not> symbol_break c)"

lemma name_text: "name_ok n \<Longrightarrow> \<exists>a. text_forms n [a]"
proof -
  assume n: "name_ok n"
  then have "\<exists>a. atom n = Inr a" by (cases "py_int n 10") (simp_all add: name_ok_def atom_def)
  then obtain a where "atom n = Inr a" by blast
  then show "\<exists>a. text_forms n [a]" using text_forms_word [of n] n by (auto simp: name_ok_def)
qed

lemma tag_text: "tag_ok t \<Longrightarrow> \<exists>a. text_forms (CHR '':'' # t) [a]"
  by (rule name_text) (simp add: tag_ok_def name_ok_def plain_text_def symbol_break_def)

lemma number_plain: "plain_text (py_str n)"
proof -
  have s: "digit_string 10 (digits_of 10 m)" for m by (rule digits_of_string) simp_all
  show ?thesis
    using digit_string_chars(7) [OF s] s by (auto simp: plain_text_def py_str_def symbol_break_def digit_string_def)
qed

lemma number_start: "n < 0 \<and> hd (py_str n) = CHR ''-'' \<or> (\<exists>d < 10. hd (py_str n) = digit_char d)"
proof -
  have "digit_string 10 (digits_of 10 m)" for m by (rule digits_of_string) simp_all
  then have "\<exists>d < 10. hd (digits_of 10 m) = digit_char d" for m unfolding digit_string_def using hd_in_set by blast
  then show ?thesis by (simp add: py_str_def)
qed

lemma number_text: "text_forms (py_str n) [PInt n]"
proof (rule text_forms_word [OF number_plain])
  have "digit_char d \<noteq> CHR ''#'' \<and> digit_char d \<noteq> CHR 0x22" if "d < 10" for d
    using that less_16_cases [of d] by (auto simp: digit_char_def)
  then have "hd (py_str n) \<noteq> CHR ''#''" "hd (py_str n) \<noteq> CHR 0x22" using number_start [of n] by auto
  then have "\<not> py_startswith (py_str n) (CHR ''#'' # cs)" "\<not> py_startswith (py_str n) (CHR 0x22 # cs)" for cs
    by (cases "py_str n"; simp)+
  then show "atom (py_str n) = Inr (PInt n)" by (simp add: atom_def py_int_str)
qed

lemma const_literal_plain: "0 < w \<Longrightarrow> plain_text (const_literal w v)"
proof -
  have "\<forall>c \<in> set (py_format 16 n wd). \<not> symbol_break c" "\<forall>c \<in> set (py_format 2 n wd). \<not> symbol_break c" for n wd
    using digit_string_chars(7) [OF py_format_string, of 16 _ n wd] digit_string_chars(7) [OF py_format_string, of 2 _ n wd] by auto
  moreover have "\<not> symbol_break (CHR ''#'')" "\<not> symbol_break (CHR ''x'')" "\<not> symbol_break (CHR ''b'')"
    by (simp_all add: symbol_break_def)
  ultimately show "0 < w \<Longrightarrow> plain_text (const_literal w v)" by (simp add: plain_text_def const_literal_def Let_def)
qed

lemma keyword_texts:
  "text_forms ''const'' [Sym ''const'']" "text_forms ''field'' [Sym ''field'']" "text_forms ''cat'' [Sym ''cat'']"
  "text_forms ''define-encoding'' [Sym ''define-encoding'']"
  by (rule text_forms_word; code_simp)+

section \<open>Layouts\<close>

text \<open>Layouts with segments that can be written: a fixed segment has at least one bit.\<close>

fun segment_ok :: "segment \<Rightarrow> bool" where
  "segment_ok (Fixed w v) = (0 < w \<and> 0 \<le> v \<and> v < 2 ^ nat w)"
| "segment_ok (Operand n o' w t) = (0 \<le> w \<and> name_ok n \<and> name_ok (slot_of n o') \<and> tag_ok t)"

text \<open>The form that a segment is read back as; the two names of a field can be any forms.\<close>

fun segment_form :: "segment \<Rightarrow> pform \<Rightarrow> bool" where
  "segment_form (Fixed w v) f = (f = Form [Sym ''const'', PBits \<lparr>bv_width = w, bv_value = v\<rparr>])"
| "segment_form (Operand n o' w t) f = (\<exists>a b. f = Form [Sym ''field'', a, b, PInt w])"

lemma text_forms_words:
  assumes "text_forms s fs" "text_forms t gs"
  shows "text_forms (s @ '' '' @ t) (fs @ gs)"
  using text_forms_blank [OF assms, of "'' ''"] by (simp add: blank_def)

lemma render_seg_text: "segment_ok g \<Longrightarrow> \<exists>f. segment_form g f \<and> text_forms (render_seg g) [f]"
proof (cases g)
  case (Fixed w v)
  assume "segment_ok g"
  then have "text_forms (const_literal w v) [PBits \<lparr>bv_width = w, bv_value = v\<rparr>]"
    using Fixed by (intro text_forms_word const_literal_plain atom_const_literal) simp_all
  from text_forms_paren [OF text_forms_words [OF keyword_texts(1) this]] show ?thesis using Fixed by simp
next
  case (Operand n o' w t)
  assume "segment_ok g"
  then obtain a b where "text_forms n [a]" "text_forms (slot_of n o') [b]"
    using Operand name_text [of n] name_text [of "slot_of n o'"] by auto
  from text_forms_paren [OF text_forms_words [OF keyword_texts(2) text_forms_words [OF this(1) text_forms_words [OF this(2) number_text]]]]
  show ?thesis using Operand by auto
qed

fun decl_ok :: "op_decl \<Rightarrow> bool" where
  "decl_ok (n, t, w) = (name_ok n \<and> tag_ok t)"

lemma render_decl_text: "decl_ok d \<Longrightarrow> \<exists>f. text_forms (render_decl d) [f]"
proof (cases d)
  case (fields n t w)
  assume "decl_ok d"
  then obtain a b where ab: "text_forms n [a]" "text_forms (CHR '':'' # t) [b]" using fields name_text [of n] tag_text [of t] by auto
  show ?thesis
    using text_forms_paren [OF text_forms_words [OF ab(1) text_forms_words [OF ab(2) number_text [of w]]]]
      text_forms_paren [OF text_forms_words [OF ab]] fields by (cases "w = 0") auto
qed

lemma texts_exist:
  assumes "\<forall>x \<in> set xs. \<exists>f. P x f \<and> text_forms (r x) [f]"
  shows "\<exists>fs. list_all2 P xs fs \<and> text_forms (py_join '' '' (map r xs)) fs"
proof -
  have "\<exists>fs. list_all2 P xs fs \<and> list_all2 (\<lambda>s f. text_forms s [f]) (map r xs) fs"
    using assms
  proof (induction xs)
    case (Cons x xs)
    then obtain f fs where "P x f \<and> text_forms (r x) [f]" "list_all2 P xs fs \<and> list_all2 (\<lambda>s f. text_forms s [f]) (map r xs) fs"
      by (meson list.set_intros)
    then show ?case by (intro exI [of _ "f # fs"]) simp
  qed simp
  then show ?thesis using text_forms_join by blast
qed

lemma op_decls_ok:
  assumes "\<forall>g \<in> set layout. segment_ok g"
  shows "\<forall>d \<in> set (op_decls_of layout). decl_ok d"
proof -
  have "\<forall>d \<in> set (foldl add_decl seen layout). decl_ok d" if "\<forall>d \<in> set seen. decl_ok d" for seen
    using assms that
  proof (induction layout arbitrary: seen)
    case (Cons g layout)
    have "\<forall>d \<in> set (add_decl seen g). decl_ok d"
      using Cons.prems by (cases g) (auto simp: Let_def tag_ok_def symbol_break_def)
    then show ?case using Cons by simp
  qed simp
  from this [of "[]"] show ?thesis by (simp add: op_decls_of_def)
qed

text \<open>What an emitted encoding function is read back as.\<close>

lemma emit_encoding_text:
  assumes "\<forall>g \<in> set layout. segment_ok g" "name_ok name" "emit_encoding name layout (WInt W) None Map.empty = Inr text"
  shows "\<exists>hd fs. list_all2 segment_form layout fs \<and>
    read_one text = Inr (Form [Sym ''define-encoding'', Form hd, PInt W, Form (Sym ''cat'' # fs)])"
proof -
  let ?ds = "op_decls_of layout"
  obtain fs where fs: "list_all2 segment_form layout fs" "text_forms (py_join '' '' (map render_seg layout)) fs"
    using texts_exist [of layout segment_form render_seg] assms(1) render_seg_text by blast
  obtain ds where ds: "text_forms (py_join '' '' (map render_decl ?ds)) ds"
    using texts_exist [of ?ds "\<lambda>_ _. True" render_decl] op_decls_ok [OF assms(1)] render_decl_text by blast
  obtain a where a: "text_forms name [a]" using name_text [OF assms(2)] by blast
  define body where "body = ''(cat '' @ py_join '' '' (map render_seg layout) @ '')''"
  have body: "text_forms body [Form (Sym ''cat'' # fs)]"
    using text_forms_paren [OF text_forms_words [OF keyword_texts(3) fs(2)]] by (simp add: body_def)
  have tail: "text_forms (py_str W @ [CHR 0x0A] @ ''  '' @ body) [PInt W, Form (Sym ''cat'' # fs)]"
    using text_forms_blank [OF number_text body, of "[CHR 0x0A] @ ''  ''" W] by (simp add: blank_def)
  have whole: "read_one (''(define-encoding '' @ h @ '' '' @ py_str W @ [CHR 0x0A] @ ''  '' @ body @ '')'') =
      Inr (Form [Sym ''define-encoding'', Form hd, PInt W, Form (Sym ''cat'' # fs)])" if "text_forms h [Form hd]" for h hd
    using read_text [OF text_forms_paren [OF text_forms_words [OF keyword_texts(4) text_forms_words [OF that tail]]]]
    by (simp add: read_one_def)
  have "map (\<lambda>(n, t, w). (n, t, w)) ?ds = ?ds" by (simp add: split_def)
  then show ?thesis
    using assms(3) fs(1) whole [OF text_forms_paren [OF text_forms_words [OF a ds]]] whole [OF text_forms_paren [OF a]]
    by (auto simp: emit_encoding_def Let_def body_def split: if_splits)
qed

end
