(* ===== verification/Xtrakt_Correct.thy ===== *)
theory Xtrakt_Correct
  imports Xtrakt_Reading
begin

text \<open>
  The decode signature of an emitted encoding function is the right one: mask and match tell exactly
  the instruction words that the layout can encode from all others.
\<close>

section \<open>Instruction words of a layout\<close>

definition total_width :: "segment list \<Rightarrow> int" where
  "total_width layout = sum_list (map seg_width layout)"

text \<open>
  The word of a layout for given values of its operands, most significant segment first, and the
  values that fit the operands.
\<close>

fun encode :: "segment list \<Rightarrow> int list \<Rightarrow> int" where
  "encode [] vals = 0"
| "encode (Fixed w v # layout) vals = v * 2 ^ nat (total_width layout) + encode layout vals"
| "encode (Operand n o' w t # layout) vals = hd vals * 2 ^ nat (total_width layout) + encode layout (tl vals)"

fun fits :: "segment list \<Rightarrow> int list \<Rightarrow> bool" where
  "fits [] vals = (vals = [])"
| "fits (Fixed w v # layout) vals = fits layout vals"
| "fits (Operand n o' w t # layout) vals =
     (vals \<noteq> [] \<and> 0 \<le> hd vals \<and> hd vals < 2 ^ nat w \<and> fits layout (tl vals))"

fun layout_mask :: "segment list \<Rightarrow> int" where
  "layout_mask [] = 0"
| "layout_mask (Fixed w v # layout) = push_bit (nat (total_width layout)) (ones w) OR layout_mask layout"
| "layout_mask (Operand n o' w t # layout) = layout_mask layout"

fun layout_match :: "segment list \<Rightarrow> int" where
  "layout_match [] = 0"
| "layout_match (Fixed w v # layout) = push_bit (nat (total_width layout)) v OR layout_match layout"
| "layout_match (Operand n o' w t # layout) = layout_match layout"

abbreviation layout_ok :: "segment list \<Rightarrow> bool" where
  "layout_ok layout \<equiv> \<forall>g \<in> set layout. segment_ok g"

lemma seg_width_nonneg: "segment_ok g \<Longrightarrow> 0 \<le> seg_width g"
  by (cases g) simp_all

lemma total_width_simps [simp]: "total_width [] = 0" "total_width (g # layout) = seg_width g + total_width layout"
  by (simp_all add: total_width_def)

lemma total_width_nonneg: "layout_ok layout \<Longrightarrow> 0 \<le> total_width layout"
  by (induction layout) (auto dest: seg_width_nonneg)

section \<open>The loop of the decoder\<close>

lemma decode_segs_layout:
  assumes "list_all2 segment_form layout fs" "layout_ok layout"
  shows "decode_segs fs m v (total_width layout) acc =
    Some (m OR layout_mask layout, v OR layout_match layout, acc + total_width layout)"
  using assms
proof (induction layout fs arbitrary: m v acc rule: list_all2_induct)
  case (Cons g layout f fs)
  have "0 \<le> total_width layout" using Cons.prems total_width_nonneg by simp
  then show ?case using Cons
    by (cases g) (auto simp: Let_def seg_width_and_kind_def ones_mask take_bit_eq_mask [symmetric] take_bit_small or.assoc add.assoc)
qed simp

lemma flatten_all_layout: "list_all2 segment_form layout fs \<Longrightarrow> flatten_all fs = Some fs"
proof (induction layout fs rule: list_all2_induct)
  case (Cons g layout f fs)
  then show ?case by (cases g) auto
qed simp

lemma take_bit_wider: "take_bit t m = m \<Longrightarrow> take_bit (w + t) m = (m :: int)"
  by (metis le_add2 min.absorb2 take_bit_take_bit)

lemma take_bit_shifted: "take_bit w a = a \<Longrightarrow> take_bit (w + t) (push_bit t a) = push_bit t (a :: int)"
  by (simp add: take_bit_push_bit)

lemma layout_bits_small:
  assumes "layout_ok layout"
  shows "take_bit (nat (total_width layout)) (layout_mask layout) = layout_mask layout"
    "take_bit (nat (total_width layout)) (layout_match layout) = layout_match layout"
proof -
  have "take_bit (nat (total_width layout)) (layout_mask layout) = layout_mask layout \<and>
    take_bit (nat (total_width layout)) (layout_match layout) = layout_match layout"
    using assms
  proof (induction layout)
    case (Cons g layout)
    have "nat (total_width (g # layout)) = nat (seg_width g) + nat (total_width layout)"
      using Cons.prems seg_width_nonneg [of g] total_width_nonneg [of layout] by (simp add: nat_add_distrib)
    then show ?case using Cons by (cases g) (simp_all add: ones_mask take_bit_small take_bit_wider take_bit_shifted)
  qed simp
  then show "take_bit (nat (total_width layout)) (layout_mask layout) = layout_mask layout"
    "take_bit (nat (total_width layout)) (layout_match layout) = layout_match layout" by auto
qed

lemma concat_range:
  fixes v y :: int
  assumes "0 \<le> v" "v < 2 ^ nat w" "0 \<le> y" "y < 2 ^ nat t" "0 \<le> w" "0 \<le> t"
  shows "0 \<le> v * 2 ^ nat t + y \<and> v * 2 ^ nat t + y < 2 ^ nat (w + t)"
proof -
  have "(v + 1) * 2 ^ nat t \<le> 2 ^ nat w * 2 ^ nat t" using assms(2) by (intro mult_right_mono) simp_all
  moreover have "(2 :: int) ^ nat (w + t) = 2 ^ nat w * 2 ^ nat t" using assms(5,6) by (simp add: nat_add_distrib power_add)
  ultimately show ?thesis using assms by (simp add: algebra_simps)
qed

lemma encode_range:
  assumes "layout_ok layout" "fits layout vals"
  shows "0 \<le> encode layout vals \<and> encode layout vals < 2 ^ nat (total_width layout)"
  using assms
proof (induction layout vals rule: encode.induct)
  case (2 w v layout vals)
  then show ?case using concat_range [of v w] total_width_nonneg [of layout] by simp
next
  case (3 n o' w t layout vals)
  then show ?case using concat_range [of "hd vals" w] total_width_nonneg [of layout] by simp
qed simp

section \<open>Masks and words\<close>

lemma masked_eq_iff:
  fixes x a m v m' :: int
  assumes "take_bit t m = m" "take_bit t m' = m'"
  shows "x AND (push_bit t a OR m) = push_bit t v OR m' \<longleftrightarrow> drop_bit t x AND a = v \<and> take_bit t x AND m = m'"
proof
  have bits: "bit m n \<Longrightarrow> n < t" "bit m' n \<Longrightarrow> n < t" for n using assms by (metis bit_take_bit_iff)+
  {
    assume *: "x AND (push_bit t a OR m) = push_bit t v OR m'"
    have b: "bit x n \<and> (t \<le> n \<and> bit a (n - t) \<or> bit m n) \<longleftrightarrow> t \<le> n \<and> bit v (n - t) \<or> bit m' n" for n
      using arg_cong [OF *, of "\<lambda>y. bit y n"] by (simp add: bit_simps)
    have "drop_bit t x AND a = v"
    proof (rule bit_eqI)
      fix n show "bit (drop_bit t x AND a) n \<longleftrightarrow> bit v n" using b [of "t + n"] bits [of "t + n"] by (auto simp: bit_simps)
    qed
    moreover have "take_bit t x AND m = m'"
    proof (rule bit_eqI)
      fix n show "bit (take_bit t x AND m) n \<longleftrightarrow> bit m' n" using b [of n] bits [of n] by (auto simp: bit_simps)
    qed
    ultimately show "drop_bit t x AND a = v \<and> take_bit t x AND m = m'" ..
  }
  assume "drop_bit t x AND a = v \<and> take_bit t x AND m = m'"
  then have v: "v = drop_bit t x AND a" "m' = take_bit t x AND m" by auto
  show "x AND (push_bit t a OR m) = push_bit t v OR m'"
    unfolding v by (rule bit_eqI) (use bits in \<open>auto simp: bit_simps\<close>)
qed

lemma split_word:
  fixes x :: int
  shows "drop_bit t x = v \<and> take_bit t x = y \<longleftrightarrow> x = v * 2 ^ t + y \<and> 0 \<le> y \<and> y < 2 ^ t"
  using div_mult_mod_eq [of x "2 ^ t"] by (auto simp: drop_bit_eq_div take_bit_eq_mod)

lemma div_less_int:
  fixes x a b :: int
  assumes "x < a * b" "0 < b"
  shows "x div b < a"
proof (rule ccontr)
  assume "\<not> x div b < a"
  then have "a * b \<le> x div b * b" using assms(2) by (intro mult_right_mono) simp_all
  then show False using assms pos_mod_sign [of b x] div_mult_mod_eq [of x b] by linarith
qed

lemma words_of_layout:
  assumes "layout_ok layout" "0 \<le> x" "x < 2 ^ nat (total_width layout)"
  shows "x AND layout_mask layout = layout_match layout \<longleftrightarrow> (\<exists>vals. fits layout vals \<and> encode layout vals = x)"
  using assms
proof (induction layout arbitrary: x)
  case (Cons g layout)
  let ?t = "nat (total_width layout)"
  have ok: "layout_ok layout" "segment_ok g" using Cons.prems(1) by simp_all
  note small = layout_bits_small [OF ok(1)]
  have "nat (total_width (g # layout)) = nat (seg_width g) + ?t"
    using seg_width_nonneg [OF ok(2)] total_width_nonneg [OF ok(1)] by (simp add: nat_add_distrib)
  then have x: "0 \<le> drop_bit ?t x" "drop_bit ?t x < 2 ^ nat (seg_width g)" "0 \<le> take_bit ?t x" "take_bit ?t x < 2 ^ ?t"
    using Cons.prems(2,3) by (simp_all add: drop_bit_eq_div take_bit_eq_mod power_add div_less_int pos_imp_zdiv_nonneg_iff)
  note IH = Cons.IH [OF ok(1) x(3,4)]
  have enc: "v * 2 ^ ?t + encode layout vals = x \<longleftrightarrow> drop_bit ?t x = v \<and> encode layout vals = take_bit ?t x"
    if "fits layout vals" for v vals
    using encode_range [OF ok(1) that] split_word [of ?t x v "encode layout vals"] by auto
  show ?case
  proof (cases g)
    case (Fixed w v)
    have "drop_bit ?t x AND ones w = drop_bit ?t x" using x(1,2) Fixed by (simp add: ones_mask take_bit_small flip: take_bit_eq_mask)
    then show ?thesis using Fixed masked_eq_iff [OF small, of x "ones w" v] IH enc by auto
  next
    case (Operand n o' w t)
    have "x AND layout_mask layout = layout_match layout \<longleftrightarrow> take_bit ?t x AND layout_mask layout = layout_match layout"
      using masked_eq_iff [OF small, of x 0 0] by simp
    also have "\<dots> \<longleftrightarrow> (\<exists>vals. fits layout vals \<and> encode layout vals = take_bit ?t x)" by (rule IH)
    also have "\<dots> \<longleftrightarrow> (\<exists>vals. fits (g # layout) vals \<and> encode (g # layout) vals = x)"
    proof
      assume "\<exists>vals. fits layout vals \<and> encode layout vals = take_bit ?t x"
      then obtain vals where vals: "fits layout vals" "encode layout vals = take_bit ?t x" by blast
      then show "\<exists>vals. fits (g # layout) vals \<and> encode (g # layout) vals = x"
        using enc [of vals "drop_bit ?t x"] x Operand by (intro exI [of _ "drop_bit ?t x # vals"]) simp
    next
      assume "\<exists>vals. fits (g # layout) vals \<and> encode (g # layout) vals = x"
      then show "\<exists>vals. fits layout vals \<and> encode layout vals = take_bit ?t x" using enc Operand by auto
    qed
    finally show ?thesis using Operand by simp
  qed
qed simp

lemma py_strip_start: "py_strip (CHR ''('' # cs) \<noteq> []"
  by (simp add: py_strip_def py_lstrip_def py_space_def dropWhile_eq_Nil_conv)

section \<open>The properties\<close>

text \<open>A concrete layout, of an instruction with a register and an immediate.\<close>

definition demo_layout :: "segment list" where
  "demo_layout = [Fixed 7 5, Operand ''rd'' ''rd'' 5 ''GPR'', Fixed 4 9, Operand ''imm'' ''imm'' 16 []]"

lemma demo_layout_ok: "layout_ok demo_layout"
  by (simp add: demo_layout_def) code_simp

definition demo_text :: string where
  "demo_text = ''(define-encoding (add (rd :GPR 5) (imm :IMM 16)) 32'' @ [CHR 0x0A] @
     ''  (cat (const #b0000101) (field rd rd 5) (const #x9) (field imm imm 16)))''"

lemma demo_emit: "emit_encoding ''add'' demo_layout (WInt 32) None Map.empty = Inr demo_text"
  by code_simp

text \<open>
  C38: The text that the emitter writes for a layout is read back by the decoder, through lexer and
  parser, and gives a mask and a match of the width of the instruction that recognise exactly the
  words of the layout: a word agrees with the match on the bits of the mask if and only if it is the
  encoding of some values of the operands.
\<close>

theorem pcode_signature_correct:
  assumes "layout_ok layout" "name_ok name" "emit_encoding name layout (WInt W) None Map.empty = Inr text"
  shows "\<exists>m v. decode_signature text None =
      Inr \<lparr>dr_mask = Some m, dr_match = Some v, dr_schematic = False, dr_note = NoNote\<rparr> \<and>
    bv_width m = W \<and> bv_width v = W \<and>
    (\<forall>x. 0 \<le> x \<and> x < 2 ^ nat W \<longrightarrow>
       (x AND bv_value m = bv_value v \<longleftrightarrow> (\<exists>vals. fits layout vals \<and> encode layout vals = x)))"
proof -
  obtain hd fs where fs: "list_all2 segment_form layout fs"
    "read_one text = Inr (Form [Sym ''define-encoding'', Form hd, PInt W, Form (Sym ''cat'' # fs)])"
    using emit_encoding_text [OF assms] by blast
  have W: "W = total_width layout" and start: "\<exists>cs. text = CHR ''('' # cs"
    using assms(3) by (auto simp: emit_encoding_def Let_def total_width_def split: if_splits)
  have nonempty: "text \<noteq> []" "py_strip text \<noteq> []" using start py_strip_start by auto
  have "decode_signature text None =
      Inr \<lparr>dr_mask = Some \<lparr>bv_width = W, bv_value = layout_mask layout\<rparr>,
        dr_match = Some \<lparr>bv_width = W, bv_value = layout_match layout\<rparr>, dr_schematic = False, dr_note = NoNote\<rparr>"
    using total_width_nonneg [OF assms(1)] flatten_all_layout [OF fs(1)] decode_segs_layout [OF fs(1) assms(1), of 0 0 0]
      layout_bits_small [OF assms(1)]
    by (simp add: decode_signature_def nonempty fs(2) is_form_def W mk_BitVec_eq)
  then show ?thesis using words_of_layout [OF assms(1)] by (auto simp: W)
qed

theorem pcode_signature_correct_witness:
  "\<exists>m v. decode_signature demo_text None =
      Inr \<lparr>dr_mask = Some m, dr_match = Some v, dr_schematic = False, dr_note = NoNote\<rparr> \<and>
    bv_width m = 32 \<and> bv_width v = 32 \<and> encode demo_layout [3, 7] AND bv_value m = bv_value v"
proof -
  have "name_ok ''add''" by code_simp
  from pcode_signature_correct [OF demo_layout_ok this demo_emit]
  obtain m v where mv: "decode_signature demo_text None =
      Inr \<lparr>dr_mask = Some m, dr_match = Some v, dr_schematic = False, dr_note = NoNote\<rparr>" "bv_width m = 32" "bv_width v = 32"
    "\<And>x. 0 \<le> x \<Longrightarrow> x < 2 ^ nat 32 \<Longrightarrow> (x AND bv_value m = bv_value v \<longleftrightarrow> (\<exists>vals. fits demo_layout vals \<and> encode demo_layout vals = x))"
    by blast
  have "fits demo_layout [3, 7]" "0 \<le> encode demo_layout [3, 7]" "encode demo_layout [3, 7] < 2 ^ nat 32"
    by (simp_all add: demo_layout_def)
  then have "encode demo_layout [3, 7] AND bv_value m = bv_value v" using mv(4) by blast
  then show ?thesis using mv(1-3) by blast
qed

text \<open>
  C39: A bit vector is stored as a document with its width and hexadecimal digits and read back
  unchanged; this holds of every bit vector that the constructor makes.
\<close>

theorem bitvec_doc_roundtrip:
  assumes "mk_BitVec w v = Inr b"
  shows "from_doc (to_doc b) = Inr b"
  using from_doc_to_doc mk_BitVec_ok [OF assms] by blast

theorem bitvec_doc_roundtrip_witness:
  "from_doc (to_doc \<lparr>bv_width = 13, bv_value = 0x0ABC\<rparr>) = Inr \<lparr>bv_width = 13, bv_value = 0x0ABC\<rparr>"
  by (rule bitvec_doc_roundtrip [of 13 "0x0ABC"]) code_simp


end
