(* ===== verification/Spec2Isabelle.thy ===== *)
theory Spec2Isabelle
  imports Asm_Base_Machine Asm_RV32_Program RV32_Data Thumb_Frames ARM_Frames X86_Correct Asm_X64_Program Asm_Xtensa_Program
    BPF_Correct Xtrakt_Correct
begin

text \<open>
  Verification of machine-code libraries in the ArchBank repository.

  \<^bold>\<open>The program.\<close> ArchBank collects descriptions of instruction sets: assemblers, disassemblers,
  opcode tables and simulators of many projects, under \<open>src/bank\<close>, and a tool that brings them into
  one form, \<open>src/xtrakt\<close>. Two of the collections are modelled here, chosen because they are complete
  programs whose behaviour is defined by their own C files: the native assemblers of MicroPython
  (\<open>src/bank/uPython-ASM\<close>), which write machine code, and the BPF disassembler of Capstone
  (\<open>src/bank/Capstone-Arch/BPF\<close>), which reads it. Of the tool the part is modelled that connects the two
  directions: it writes how an instruction is encoded and computes from that how it is decoded.

  \<^bold>\<open>The assemblers.\<close> All assemblers share the state and the operations of \<open>asmbase.c\<close>: a code buffer, an
  offset into it and a table of label offsets. The native emitter runs the same sequence of
  operations several times. In the passes before the last the code is only measured and the labels
  are recorded; then the buffer is allocated and the emit pass writes the bytes. Each instruction
  set (\<open>asmrv32\<close>, \<open>asmthumb\<close>, \<open>asmarm\<close>, \<open>asmx86\<close>, \<open>asmx64\<close>, \<open>asmxtensa\<close>) has a header with encodings and
  with the macros of \<open>GENERIC_ASM_API\<close>, through which the emitter calls it, and a C file with the
  functions that choose among the forms of an instruction.

  \<^item> \<open>Prelude\<close>: C integers as words, results (\<open>asm_error + 's\<close>, with assertions, exceptions of the
    runtime and undefined behaviour told apart), sequences of calls, bytes of words.
  \<^item> \<open>Asm_Base\<close>: the record \<open>mp_asm_base_t\<close> and every function of \<open>asmbase.c\<close>; allocators and
    \<open>MP_PLAT_COMMIT_EXEC\<close> are parameters. \<open>Asm_Base_Props\<close> has its memory safety, alignment, labels and
    data; \<open>Asm_Base_Machine\<close> has the invariant of all reachable states and the refinement of a device
    that appends bytes.
  \<^item> \<open>Two_Pass\<close>, \<open>Plain_Ops\<close>: the contract between the passes as the locale \<open>two_pass_assembler\<close> and, for
    assemblers without state of their own, \<open>plain_assembler\<close>: an operation takes as many bytes in the
    emit pass as in the pass before it. Both are interpreted for every instruction set.
  \<^item> \<open>Asm_API\<close>: the operations of \<open>GENERIC_ASM_API\<close> as a datatype.
  \<^item> \<open>Asm_RV32_Opcodes\<close>, \<open>Asm_RV32\<close>, \<open>Asm_Thumb_Opcodes\<close>, \<open>Asm_Thumb\<close>, \<open>Asm_ARM\<close>, \<open>Asm_X86\<close>, \<open>Asm_X64\<close>,
    \<open>Asm_Xtensa\<close>: one definition for each macro and function of the source, under its name (with the
    instruction set in front where several headers use one name), and \<open>_exec\<close>, the meaning of an
    operation of the interface.
  \<^item> \<open>Asm_RV32_Passes\<close>, \<open>Asm_RV32_Program\<close>, \<open>Asm_Thumb_Program\<close>, \<open>Asm_ARM_Program\<close>, \<open>Asm_X86_Program\<close>,
    \<open>Asm_X64_Program\<close>, \<open>Asm_Xtensa_Passes\<close>, \<open>Asm_Xtensa_Program\<close>: whole functions. When the pass
    before it has succeeded, the emit pass succeeds: no assertion fails, nothing is written outside of
    the buffer, and size and labels are those of the pass before.
  \<^item> \<open>Machine_Code\<close>, \<open>Code_Jumps\<close>: what it means that bytes in a buffer, fetched and run by a processor,
    have an effect; the locale \<open>code_machine\<close> is interpreted for each processor.
  \<^item> \<open>RV32_ISA\<close>, \<open>Thumb_ISA\<close>, \<open>ARM_ISA\<close>, \<open>X86_ISA\<close>: specifications of the instruction sets (decoding and
    one step), written from the manuals and not from the assemblers; the \<open>_Encodings\<close> theories show
    what each encoding is decoded to, and \<open>RV32_Correct\<close>, \<open>RV32_Data\<close>, \<open>Thumb_Branches\<close>, \<open>Thumb_Data\<close>,
    \<open>Thumb_Frames\<close>, \<open>ARM_Correct\<close>, \<open>ARM_Frames\<close>, \<open>X86_Correct\<close> that the code of an operation does what the
    operation is for: immediates, jumps, calls, loads and stores, locals, comparisons, entry and exit.

  \<^bold>\<open>Bounds.\<close> Every operation has a cost, a bound on the bytes it writes in any form; a function is
  covered when the sum of the costs is at most the limit of its assembler. For RISC-V, Thumb, x86 and
  x86-64 the limit is close to 2 GB, where a distance no longer fits in a signed 32-bit number; for
  ARM it is 32 MB, the range of a branch; for Xtensa it is 131000 bytes, the range of its jump. The
  theorems about the code of one operation ask for \<open>emit_room k\<close>, where \<open>k\<close> is the length of its longest
  form; this follows from the measuring pass. There is no fuel: loops of the source are structural
  recursions or functions with a termination proof, and a run of machine code is a finite sequence of steps.

  \<^bold>\<open>The disassembler.\<close> \<open>BPFDisassembler.c\<close> fetches an instruction of classic or extended BPF into a
  record, checks it, turns its fields into operands and finds its id, groups and implicit registers.
  \<open>BPFMapping.c\<close> has the names and the registers read and written. \<open>BPFInstPrinter.c\<close> turns the operands
  into those of the public interface and into text. \<open>BPFModule.c\<close> puts the functions into a handle.

  \<^item> \<open>BPF_Constants\<close>, \<open>BPF_Disassembler\<close>, \<open>BPF_Mapping\<close>, \<open>BPF_Printer\<close>, \<open>BPF_Module\<close>: one definition for each
    macro, table and function. \<open>bpf_env\<close> holds what comes from the Capstone framework, which is not in
    the repository: register numbers, the mode bit, readers of 16 and 32 bits, the lookup in tables of
    names, printers of signed numbers. Calls of the framework that add to the instruction under
    construction (operands, groups, implicit registers) are recorded in order in \<open>MCInst\<close>. The memory
    that the decoder allocates has arbitrary contents.
  \<^item> \<open>BPF_Decoding\<close>, \<open>BPF_Sorting\<close>, \<open>BPF_Registers\<close>, \<open>BPF_Correct\<close>: on any bytes the decoder reads only inside
    of them and its result does not depend on uninitialised memory; what it decodes can be printed;
    the reported registers are sorted, without duplicates and complete, and the frame pointer of eBPF
    is never written; the sort is the library's sort where the module uses it (the locale
    \<open>register_sort\<close> is what it relies on) and fails on three equal elements; encoded fields are
    fetched back.
  \<^item> Hypotheses on the framework: \<open>bpf_regs_ok\<close> (\<open>r10\<close> is ten above \<open>r0\<close>), \<open>bpf_names_ok\<close> (the lookup finds
    the first entry), \<open>bpf_readers_le\<close> (the readers are little-endian).

  \<^bold>\<open>The tool.\<close> An instruction has a layout: fixed bits and operands, most significant first.
  \<open>pcode/emitter.py\<close> writes it as an S-expression, an encoding function in P-Code; \<open>pcode/sexpr.py\<close> reads
  P-Code; \<open>pcode/decoder.py\<close> finds the mask of the fixed bits and their values, or says that there is no
  uniform mask. Bit vectors are from \<open>cir.py\<close>.

  \<^item> \<open>Py_Base\<close>: what the sources use of Python: exceptions as values, methods of strings, numbers in text.
  \<^item> \<open>Xtrakt_CIR\<close>, \<open>Xtrakt_Sexpr\<close>, \<open>Xtrakt_Emitter\<close>, \<open>Xtrakt_Decoder\<close>: bit vectors and their documents, lexer
    and parser (total functions; the parser's nested recursion has a termination proof), emitter,
    decode signatures.
  \<^item> \<open>Xtrakt_Numbers\<close>, \<open>Xtrakt_Reading\<close>, \<open>Xtrakt_Correct\<close>: numbers are read back as they are written; text made
    of words and parentheses is read as the forms it stands for; the signature of an emitted text
    recognises exactly the words of its layout. The names in a layout are words without delimiters that
    do not begin like a literal (\<open>name_ok\<close>), and fixed segments have at least one bit; that the code fails
    without the latter is shown too.

  \<^bold>\<open>Hypotheses on the environment of the assemblers.\<close> \<open>mp_env_ok\<close> states that the helpers of \<open>py/misc.h\<close>
  (counting bits, tests of ranges) do what they are documented to do; \<open>MP_ENDIANNESS_LITTLE\<close> is the
  endianness of the host; \<open>alloc_gives\<close> that the allocation of the buffer succeeds.

  \<^bold>\<open>Not modelled.\<close> In the modelled files: debug output and the printing of label names, code under
  \<open>#if 0\<close>, the alignment of stores through \<open>uint32_t\<close> pointers, the diet build of Capstone. Machine
  semantics are given for RISC-V, Thumb, ARM and x86; the code of the x86-64 and Xtensa assemblers is
  shown to be assembled consistently, but it is not run. The other collections of \<open>src/bank\<close> are data
  (opcode tables, machine descriptions, generated decoders of hundreds of thousands of lines) or parts
  of larger programs whose other files are not in the repository. Of \<open>src/xtrakt\<close>, the parsers of the
  collections, the pipeline and the storage backends are not modelled: they are input and output
  around libraries for regular expressions, JSON, XML and databases. \<open>src/umdesc\<close> is a grammar for a
  parser generator that is not in the repository.
\<close>

end
